(* ===== verification/PyText.thy ===== *)
theory PyText
  imports Prelude
begin

text \<open>
  The Python text operations the program uses: \<open>str(n)\<close> and \<open>int(text)\<close>, \<open>split\<close>, \<open>rsplit\<close>,
  \<open>partition\<close>, \<open>rpartition\<close>, \<open>join\<close>, \<open>strip\<close>, \<open>in\<close>, \<open>replace\<close> with and without a count,
  \<open>splitlines\<close>, and the decoding of a header. A \<open>str\<close> is represented by its UTF-8 bytes and a
  \<open>bytes\<close> object by its bytes, both of type \<open>string\<close>: \<open>decode\<close> is then the test that the bytes
  are well formed. \<open>int(text)\<close> is modelled on ASCII digits.
\<close>

section \<open>Decimal text\<close>

definition digit_char :: "nat \<Rightarrow> char" where
  "digit_char d = ''0123456789'' ! d"

definition digit_val :: "char \<Rightarrow> nat" where
  "digit_val c = of_char c - 48"

definition is_digit :: "char \<Rightarrow> bool" where
  "is_digit c \<longleftrightarrow> 48 \<le> (of_char c :: nat) \<and> (of_char c :: nat) \<le> 57"

fun show_nat :: "nat \<Rightarrow> string" where
  "show_nat n = (if n < 10 then [digit_char n] else show_nat (n div 10) @ [digit_char (n mod 10)])"

declare show_nat.simps [simp del]

definition str_int :: "int \<Rightarrow> string" where
  "str_int i = (if i < 0 then CHR ''-'' # show_nat (nat (- i)) else show_nat (nat i))"

definition digits_val :: "string \<Rightarrow> nat" where
  "digits_val ds = foldl (\<lambda>a c. 10 * a + digit_val c) 0 ds"

section \<open>Splitting and joining\<close>

fun split_on :: "char \<Rightarrow> string \<Rightarrow> string list" where
  "split_on c [] = [[]]"
| "split_on c (x # xs) =
     (if x = c then [] # split_on c xs
      else (case split_on c xs of [] \<Rightarrow> [[x]] | y # ys \<Rightarrow> (x # y) # ys))"

fun join_with :: "string \<Rightarrow> string list \<Rightarrow> string" where
  "join_with sep [] = []"
| "join_with sep [x] = x"
| "join_with sep (x # y # ys) = x @ sep @ join_with sep (y # ys)"

text \<open>\<open>s.split(c, n)\<close>: at most \<open>n\<close> splits, from the left.\<close>

fun split_max :: "char \<Rightarrow> nat \<Rightarrow> string \<Rightarrow> string list" where
  "split_max c 0 s = [s]"
| "split_max c (Suc n) s =
     (if c \<in> set s
      then takeWhile (\<lambda>x. x \<noteq> c) s # split_max c n (tl (dropWhile (\<lambda>x. x \<noteq> c) s))
      else [s])"

text \<open>\<open>s.rsplit(c, 1)\<close>: one split, from the right.\<close>

definition rsplit1 :: "char \<Rightarrow> string \<Rightarrow> string list" where
  "rsplit1 c s = (let ps = split_on c s
     in if length ps = 1 then [s] else [join_with [c] (butlast ps), last ps])"

text \<open>\<open>s.partition(c)\<close> and \<open>s.rpartition(c)\<close>: the text before, whether \<open>c\<close> occurs, the text after.\<close>

definition partition_at :: "char \<Rightarrow> string \<Rightarrow> string \<times> bool \<times> string" where
  "partition_at c s =
     (if c \<in> set s
      then (takeWhile (\<lambda>x. x \<noteq> c) s, True, tl (dropWhile (\<lambda>x. x \<noteq> c) s))
      else (s, False, []))"

definition rpartition_at :: "char \<Rightarrow> string \<Rightarrow> string \<times> bool \<times> string" where
  "rpartition_at c s =
     (let ps = split_on c s
      in if length ps = 1 then ([], False, s) else (join_with [c] (butlast ps), True, last ps))"

section \<open>Stripping, searching, replacing\<close>

text \<open>The white space \<open>int()\<close> skips on ASCII text.\<close>

definition is_space :: "char \<Rightarrow> bool" where
  "is_space c \<longleftrightarrow> (of_char c :: nat) \<in> {9, 10, 11, 12, 13, 32}"

definition strip_space :: "string \<Rightarrow> string" where
  "strip_space s = rev (dropWhile is_space (rev (dropWhile is_space s)))"

definition newline :: char where
  "newline = CHR 0x0A"

definition rstrip_newline :: "string \<Rightarrow> string" where
  "rstrip_newline s = rev (dropWhile (\<lambda>c. c = newline) (rev s))"

text \<open>\<open>old in s\<close> is the library's \<open>sublist\<close>; \<open>s.replace(old, new, 1)\<close> and \<open>s.replace(old, new)\<close>:\<close>

fun replace1 :: "string \<Rightarrow> string \<Rightarrow> string \<Rightarrow> string" where
  "replace1 old new [] = (if old = [] then new else [])"
| "replace1 old new (c # cs) =
     (if prefix old (c # cs) then new @ drop (length old) (c # cs) else c # replace1 old new cs)"

function replace_all :: "string \<Rightarrow> string \<Rightarrow> string \<Rightarrow> string" where
  "replace_all old new s =
     (if old = [] then new @ concat (map (\<lambda>c. c # new) s)
      else case s of
        [] \<Rightarrow> []
      | c # cs \<Rightarrow>
          (if prefix old s then new @ replace_all old new (drop (length old) s)
           else c # replace_all old new cs))"
  by pat_completeness auto
termination
  by (relation "measure (\<lambda>(old, new, s). length s)") auto

declare replace_all.simps [simp del]

section \<open>int(text)\<close>

definition int_digits :: "string \<Rightarrow> nat option" where
  "int_digits s = (let ps = split_on (CHR ''_'') s
     in if list_all (\<lambda>p. p \<noteq> [] \<and> list_all is_digit p) ps then Some (digits_val (concat ps)) else None)"

definition int_text :: "string \<Rightarrow> int res" where
  "int_text s =
     (let t = strip_space s;
          bad = Inl (ValueError (''invalid literal for int() with base 10: '' @ s));
          signed = (\<lambda>f ds. case int_digits ds of None \<Rightarrow> bad | Some n \<Rightarrow> Inr (f (int n)))
      in case t of
           [] \<Rightarrow> bad
         | c # cs \<Rightarrow> (if c = CHR ''-'' then signed uminus cs
                      else if c = CHR ''+'' then signed id cs
                      else signed id t))"

section \<open>Decoding\<close>

definition is_ascii :: "string \<Rightarrow> bool" where
  "is_ascii s \<longleftrightarrow> list_all (\<lambda>c. (of_char c :: nat) < 128) s"

definition decode_ascii :: "string \<Rightarrow> string res" where
  "decode_ascii s = (if is_ascii s then Inr s else Inl (UnicodeDecodeError ''ascii''))"

text \<open>Well-formed UTF-8, by the byte ranges of the standard.\<close>

definition cont_byte :: "nat \<Rightarrow> bool" where
  "cont_byte b \<longleftrightarrow> 128 \<le> b \<and> b < 192"

fun utf8_ok :: "nat list \<Rightarrow> bool" where
  "utf8_ok [] = True"
| "utf8_ok (a # xs) =
     (if a < 128 then utf8_ok xs
      else if 194 \<le> a \<and> a < 224 then
        (case xs of b # ys \<Rightarrow> cont_byte b \<and> utf8_ok ys | [] \<Rightarrow> False)
      else if 224 \<le> a \<and> a < 240 then
        (case xs of
           b # c # ys \<Rightarrow> cont_byte b \<and> cont_byte c \<and> (a = 224 \<longrightarrow> 160 \<le> b) \<and> (a = 237 \<longrightarrow> b < 160)
             \<and> utf8_ok ys
         | _ \<Rightarrow> False)
      else if 240 \<le> a \<and> a < 245 then
        (case xs of
           b # c # d # ys \<Rightarrow> cont_byte b \<and> cont_byte c \<and> cont_byte d \<and> (a = 240 \<longrightarrow> 144 \<le> b)
             \<and> (a = 244 \<longrightarrow> b < 144) \<and> utf8_ok ys
         | _ \<Rightarrow> False)
      else False)"

definition decode_utf8 :: "string \<Rightarrow> string res" where
  "decode_utf8 s = (if utf8_ok (map of_char s) then Inr s else Inl (UnicodeDecodeError ''utf-8''))"

section \<open>Lines\<close>

definition is_line_break :: "char \<Rightarrow> bool" where
  "is_line_break c \<longleftrightarrow> (of_char c :: nat) \<in> {10, 11, 12, 13, 28, 29, 30}"

text \<open>\<open>s.splitlines()\<close>: the breaks end lines, a carriage return and line feed are one break.\<close>

fun split_lines_acc :: "string \<Rightarrow> string \<Rightarrow> string list" where
  "split_lines_acc acc [] = (if acc = [] then [] else [rev acc])"
| "split_lines_acc acc (c # cs) =
     (if (of_char c :: nat) = 13 \<and> (case cs of d # _ \<Rightarrow> d = newline | [] \<Rightarrow> False)
      then rev acc # split_lines_acc [] (tl cs)
      else if is_line_break c then rev acc # split_lines_acc [] cs
      else split_lines_acc (c # acc) cs)"

definition split_lines :: "string \<Rightarrow> string list" where
  "split_lines s = split_lines_acc [] s"

section \<open>Digits\<close>

lemma of_char_digit_char: "d < 10 \<Longrightarrow> of_char (digit_char d) = (48 + d :: nat)"
  by (auto simp: digit_char_def less_Suc_eq numeral_eq_Suc)

lemma is_digit_digit_char [simp]: "d < 10 \<Longrightarrow> is_digit (digit_char d)"
  by (simp add: is_digit_def of_char_digit_char)

lemma digit_val_digit_char [simp]: "d < 10 \<Longrightarrow> digit_val (digit_char d) = d"
  by (simp add: digit_val_def of_char_digit_char)

lemma show_nat_digits: "list_all is_digit (show_nat n)"
  by (induction n rule: show_nat.induct) (subst show_nat.simps, simp)

lemma show_nat_nonempty [simp]: "show_nat n \<noteq> []"
  by (subst show_nat.simps) simp

lemma digits_val_snoc: "digits_val (ds @ [c]) = 10 * digits_val ds + digit_val c"
  by (simp add: digits_val_def)

lemma digits_val_show_nat [simp]: "digits_val (show_nat n) = n"
proof (induction n rule: show_nat.induct)
  case (1 n)
  show ?case
  proof (cases "n < 10")
    case True
    then show ?thesis by (subst show_nat.simps) (simp add: digits_val_def)
  next
    case False
    with 1 show ?thesis by (subst show_nat.simps) (simp add: digits_val_snoc)
  qed
qed

lemma is_digit_not_space: "is_digit c \<Longrightarrow> \<not> is_space c"
  by (auto simp: is_digit_def is_space_def)

lemma is_digit_neq: "is_digit c \<Longrightarrow> c \<notin> {CHR ''_'', CHR ''-'', CHR ''+'', CHR '' '', CHR ''/'', CHR '','', newline}"
  by (auto simp: is_digit_def newline_def)

lemma show_nat_inj: "show_nat m = show_nat n \<longleftrightarrow> m = n"
  by (metis digits_val_show_nat)


section \<open>Laws of splitting and joining\<close>

lemma split_on_nonempty [simp]: "split_on c s \<noteq> []"
  by (induction s) (auto split: list.splits)

lemma split_on_no_sep: "c \<notin> set s \<Longrightarrow> split_on c s = [s]"
  by (induction s) auto

lemma split_on_parts: "p \<in> set (split_on c s) \<Longrightarrow> c \<notin> set p"
  by (induction s arbitrary: p) (auto split: list.splits if_splits)

lemma split_on_set_subset: "p \<in> set (split_on c s) \<Longrightarrow> set p \<subseteq> set s"
  by (induction s arbitrary: p) (fastforce split: list.splits if_splits)+

lemma split_on_length_part: "p \<in> set (split_on c s) \<Longrightarrow> length p \<le> length s"
  by (induction s arbitrary: p) (fastforce split: list.splits if_splits)+

lemma split_on_append_sep: "c \<notin> set x \<Longrightarrow> split_on c (x @ c # s) = x # split_on c s"
  by (induction x) (auto split: list.splits)

lemma split_on_append_last: "c \<notin> set d \<Longrightarrow> split_on c (s @ c # d) = split_on c s @ [d]"
  by (induction c s rule: split_on.induct) (simp_all add: split_on_no_sep Let_def split: list.splits)

lemma join_split_on [simp]: "join_with [c] (split_on c s) = s"
proof (induction s)
  case Nil
  then show ?case by simp
next
  case (Cons x xs)
  obtain y ys where eq: "split_on c xs = y # ys" by (cases "split_on c xs") auto
  with Cons show ?case by (cases ys) auto
qed

lemma rpartition_at_last: "c \<notin> set d \<Longrightarrow> rpartition_at c (s @ c # d) = (s, True, d)"
  by (simp add: rpartition_at_def split_on_append_last)

lemma last_rsplit1: "last (rsplit1 c s) = last (split_on c s)"
proof (cases "length (split_on c s) = 1")
  case True
  then obtain y where "split_on c s = [y]" by (cases "split_on c s") auto
  with join_split_on [of c s] True show ?thesis by (simp add: rsplit1_def)
qed (simp add: rsplit1_def Let_def)

lemma split_on_join:
  "ps \<noteq> [] \<Longrightarrow> (\<And>p. p \<in> set ps \<Longrightarrow> c \<notin> set p) \<Longrightarrow> split_on c (join_with [c] ps) = ps"
proof (induction "[c]" ps rule: join_with.induct)
  case 1
  then show ?case by simp
next
  case (2 x)
  then show ?case by (simp add: split_on_no_sep)
next
  case (3 x y ys)
  then show ?case by (simp add: split_on_append_sep)
qed

lemma set_join_with: "set (join_with sep ps) \<subseteq> \<Union> (set ` set ps) \<union> set sep"
  by (induction sep ps rule: join_with.induct) auto

lemma last_split_on_idem: "split_on c (last (split_on c s)) = [last (split_on c s)]"
  by (rule split_on_no_sep) (meson last_in_set split_on_nonempty split_on_parts)

section \<open>Laws of int and str\<close>

lemma dropWhile_idI: "(\<And>x. x \<in> set xs \<Longrightarrow> \<not> P x) \<Longrightarrow> dropWhile P xs = xs"
  by (cases xs) auto

lemma strip_space_id: "list_all (\<lambda>c. \<not> is_space c) s \<Longrightarrow> strip_space s = s"
  unfolding strip_space_def list_all_iff
  by (subst dropWhile_idI | auto)+

lemma int_digits_show_nat [simp]: "int_digits (show_nat n) = Some n"
proof -
  have "CHR ''_'' \<notin> set (show_nat n)"
    using show_nat_digits [of n] is_digit_neq by (auto simp: list_all_iff)
  then show ?thesis
    using show_nat_digits [of n] by (simp add: int_digits_def split_on_no_sep)
qed

lemma show_nat_no_space: "list_all (\<lambda>c. \<not> is_space c) (show_nat n)"
  using show_nat_digits [of n] is_digit_not_space by (auto simp: list_all_iff)

lemma hd_show_nat: "is_digit (hd (show_nat n))"
  using show_nat_digits [of n] by (cases "show_nat n") auto

theorem int_text_str_int [simp]: "int_text (str_int i) = Inr i"
proof (cases "i < 0")
  case True
  have "strip_space (CHR ''-'' # show_nat (nat (- i))) = CHR ''-'' # show_nat (nat (- i))"
    by (rule strip_space_id) (use show_nat_no_space in \<open>simp add: is_space_def\<close>)
  with True show ?thesis by (simp add: str_int_def int_text_def Let_def)
next
  case False
  obtain c cs where c: "show_nat (nat i) = c # cs" by (cases "show_nat (nat i)") auto
  have "is_digit c" using hd_show_nat [of "nat i"] c by simp
  then have "c \<noteq> CHR ''-''" "c \<noteq> CHR ''+''" using is_digit_neq by auto
  moreover have "strip_space (show_nat (nat i)) = show_nat (nat i)"
    by (rule strip_space_id) (rule show_nat_no_space)
  ultimately show ?thesis
    using False c int_digits_show_nat [of "nat i"] by (simp add: str_int_def int_text_def Let_def)
qed

lemma str_int_inj [simp]: "str_int i = str_int j \<longleftrightarrow> i = j"
  by (metis int_text_str_int sum.inject(2))

lemma str_int_chars: "c \<in> set (str_int i) \<Longrightarrow> is_digit c \<or> c = CHR ''-''"
  using show_nat_digits by (auto simp: str_int_def list_all_iff split: if_splits)

lemma newline_neq_minus: "newline \<noteq> CHR ''-''"
  by (simp add: newline_def)

lemma str_int_not_in:
  "c \<in> {CHR ''_'', CHR '' '', CHR ''/'', CHR '','', CHR ''+'', newline} \<Longrightarrow> c \<notin> set (str_int i)"
  using str_int_chars [of c i] is_digit_neq [of c] newline_neq_minus by auto

lemma str_int_nonempty [simp]: "str_int i \<noteq> []"
  by (simp add: str_int_def)

lemma utf8_ok_ascii: "list_all (\<lambda>n. n < 128) ns \<Longrightarrow> utf8_ok ns"
  by (induction ns) auto

lemma decode_utf8_ascii: "is_ascii s \<Longrightarrow> decode_utf8 s = Inr s"
  by (simp add: decode_utf8_def utf8_ok_ascii is_ascii_def list_all_length)

lemma str_int_ascii: "is_ascii (str_int i)"
  unfolding is_ascii_def list_all_iff
proof
  fix c assume "c \<in> set (str_int i)"
  then show "(of_char c :: nat) < 128"
    using str_int_chars [of c i] by (auto simp: is_digit_def)
qed

section \<open>Laws of replacing\<close>

lemma replace1_no_occurrence: "\<not> sublist old s \<Longrightarrow> replace1 old new s = s"
  by (induction s) (auto simp: sublist_Cons_right)

lemma replace1_occurrence:
  assumes "sublist old s"
  shows "\<exists>p q. s = p @ old @ q \<and> replace1 old new s = p @ new @ q"
  using assms
proof (induction s)
  case Nil
  then show ?case by auto
next
  case (Cons c cs)
  show ?case
  proof (cases "prefix old (c # cs)")
    case True
    then obtain q where q: "c # cs = old @ q" by (auto simp: prefix_def)
    then have "drop (length old) (c # cs) = q" by simp
    with True have "replace1 old new (c # cs) = new @ q" by simp
    with q show ?thesis by (intro exI [of _ "[]"] exI [of _ q]) simp
  next
    case False
    with Cons.prems have "sublist old cs" by (auto simp: sublist_Cons_right)
    from Cons.IH [OF this] obtain p q where "cs = p @ old @ q" "replace1 old new cs = p @ new @ q"
      by auto
    with False show ?thesis by (intro exI [of _ "c # p"] exI [of _ q]) simp
  qed
qed

lemma replace1_contains_new: "sublist old s \<Longrightarrow> sublist new (replace1 old new s)"
  using replace1_occurrence [of old s new] by (auto simp: sublist_def)

lemma length_replace1:
  "sublist old s \<Longrightarrow> length (replace1 old new s) + length old = length s + length new"
  using replace1_occurrence [of old s new] by auto

lemma replace_all_no_occurrence: "old \<noteq> [] \<Longrightarrow> \<not> sublist old s \<Longrightarrow> replace_all old new s = s"
proof (induction s)
  case Nil
  then show ?case by (subst replace_all.simps) simp
next
  case (Cons c cs)
  then show ?case by (subst replace_all.simps) (auto simp: sublist_Cons_right)
qed

section \<open>The canonical text of a number is its shortest\<close>

lemma digits_val_less: "digits_val ds < 10 ^ length ds" if "list_all is_digit ds"
  using that
proof (induction ds rule: rev_induct)
  case Nil
  then show ?case by (simp add: digits_val_def)
next
  case (snoc c ds)
  then have "digit_val c < 10" by (auto simp: is_digit_def digit_val_def)
  with snoc show ?case by (simp add: digits_val_snoc)
qed

lemma length_show_nat_le: "n < 10 ^ Suc k \<Longrightarrow> length (show_nat n) \<le> Suc k"
proof (induction k arbitrary: n)
  case 0
  then show ?case by (subst show_nat.simps) simp
next
  case (Suc k)
  then have "n div 10 < 10 ^ Suc k" by (simp add: less_mult_imp_div_less)
  with Suc.IH have "length (show_nat (n div 10)) \<le> Suc k" by blast
  then show ?case by (subst show_nat.simps) simp
qed

lemma length_strip_space: "length (strip_space s) \<le> length s"
  unfolding strip_space_def
  by (metis length_dropWhile_le length_rev order_trans)

lemma length_join_ge_concat: "length (concat ps) \<le> length (join_with sep ps)"
  by (induction sep ps rule: join_with.induct) auto

lemma int_digits_length:
  assumes "int_digits ds = Some n"
  shows "length (show_nat n) \<le> length ds"
proof -
  let ?ps = "split_on (CHR ''_'') ds"
  from assms have ok: "list_all (\<lambda>p. p \<noteq> [] \<and> list_all is_digit p) ?ps" and n: "n = digits_val (concat ?ps)"
    by (auto simp: int_digits_def Let_def split: if_splits)
  have "hd ?ps \<in> set ?ps" by simp
  with ok have "hd ?ps \<noteq> []" by (auto simp: list_all_iff)
  with \<open>hd ?ps \<in> set ?ps\<close> have "concat ?ps \<noteq> []" by (metis concat_eq_Nil_conv)
  moreover have "list_all is_digit (concat ?ps)" using ok by (auto simp: list_all_iff)
  ultimately obtain k where k: "length (concat ?ps) = Suc k" and "n < 10 ^ Suc k"
    using digits_val_less [of "concat ?ps"] n by (cases "length (concat ?ps)") auto
  then have "length (show_nat n) \<le> length (concat ?ps)" using length_show_nat_le by simp
  also have "\<dots> \<le> length ds" using length_join_ge_concat [of ?ps "[CHR ''_'']"] by simp
  finally show ?thesis .
qed

lemma int_text_length:
  assumes "int_text s = Inr i" and "0 \<le> i"
  shows "length (str_int i) \<le> length s"
proof -
  from assms(1) obtain ds n where "int_digits ds = Some n" "length ds \<le> length (strip_space s)"
    "i = int n \<or> i = - int n"
    by (auto simp: int_text_def Let_def split: list.splits option.splits if_splits)
  then show ?thesis
    using int_digits_length [of ds n] length_strip_space [of s] assms(2)
    by (auto simp: str_int_def)
qed

section \<open>Texts of lines\<close>

lemma split_lines_acc_line:
  "list_all (\<lambda>c. \<not> is_line_break c) l \<Longrightarrow> split_lines_acc acc (l @ newline # rest) = (rev acc @ l) # split_lines_acc [] rest"
proof (induction l arbitrary: acc)
  case Nil
  then show ?case by (simp add: newline_def is_line_break_def)
next
  case (Cons c l)
  then have "(of_char c :: nat) \<noteq> 13" by (auto simp: is_line_break_def)
  with Cons show ?case by simp
qed

lemma split_lines_text:
  "list_all (list_all (\<lambda>c. \<not> is_line_break c)) ls \<Longrightarrow> split_lines (concat (map (\<lambda>l. l @ [newline]) ls)) = ls"
  by (induction ls) (simp_all add: split_lines_def split_lines_acc_line)

section \<open>Evaluation\<close>

lemma takeWhile_show_nat: "\<not> is_digit c \<Longrightarrow> takeWhile is_digit (show_nat n @ c # r) = show_nat n"
  and dropWhile_show_nat: "\<not> is_digit c \<Longrightarrow> dropWhile is_digit (show_nat n @ c # r) = c # r"
  using show_nat_digits [of n] by (simp_all add: takeWhile_append2 dropWhile_append2 list_all_iff)

lemmas text_eval = digit_char_def digit_val_def is_digit_def show_nat.simps str_int_def digits_val_def
  rsplit1_def partition_at_def rpartition_at_def is_space_def strip_space_def newline_def
  rstrip_newline_def replace_all.simps int_digits_def int_text_def is_ascii_def decode_ascii_def
  is_line_break_def split_lines_def Let_def

end
