(* ===== verification/PyJson.thy ===== *)
theory PyJson
  imports PyText
begin

text \<open>
  JSON values as \<open>json.loads\<close> returns them and the accesses the program makes on them:
  \<open>d["k"]\<close>, \<open>d.get("k")\<close>, \<open>int(value)\<close>, \<open>str(value)\<close>, \<open>isinstance\<close> tests and truth
  values. Numbers are integers: every number these components read or write as JSON is one.
  Also the stream reads (\<open>readline\<close>, \<open>readexactly\<close>) of an \<open>asyncio\<close> connection, whose input is
  the list of all bytes the peer sends before it stops, and the text of an exception.
\<close>

datatype json =
    JNull
  | JBool bool
  | JInt int
  | JStr string
  | JList "json list"
  | JObj "(string \<times> json) list"

type_synonym jobj = "(string \<times> json) list"

text \<open>\<open>int(value)\<close>; Python's \<open>bool\<close> is a subtype of \<open>int\<close>.\<close>

fun json_int :: "json \<Rightarrow> int res" where
  "json_int (JInt i) = Inr i"
| "json_int (JBool b) = Inr (of_bool b)"
| "json_int (JStr s) = int_text s"
| "json_int _ = Inl (TypeError ''int() argument must be a string or a number'')"

text \<open>\<open>isinstance(value, int)\<close> with the value, \<open>isinstance(value, str)\<close> with the value.\<close>

fun as_int :: "json \<Rightarrow> int option" where
  "as_int (JInt i) = Some i"
| "as_int (JBool b) = Some (of_bool b)"
| "as_int _ = None"

fun as_str :: "json \<Rightarrow> string option" where
  "as_str (JStr s) = Some s"
| "as_str _ = None"

definition jget :: "jobj \<Rightarrow> string \<Rightarrow> json" where
  "jget d k = dict_get d k JNull"

fun truthy :: "json \<Rightarrow> bool" where
  "truthy JNull = False"
| "truthy (JBool b) = b"
| "truthy (JInt i) = (i \<noteq> 0)"
| "truthy (JStr s) = (s \<noteq> [])"
| "truthy (JList xs) = (xs \<noteq> [])"
| "truthy (JObj d) = (d \<noteq> [])"

section \<open>Exception text\<close>

text \<open>
  \<open>str(error)\<close>. A decoding error's text names its codec; the position Python adds is left out. The
  command of a failed sub-process is shown as its words.
\<close>

fun error_text :: "py_error \<Rightarrow> string" where
  "error_text (ValueError m) = m"
| "error_text (KeyError k) = CHR 0x27 # k @ [CHR 0x27]"
| "error_text IndexError = ''list index out of range''"
| "error_text (TypeError m) = m"
| "error_text (RuntimeError m) = m"
| "error_text (FileNotFoundError m) = m"
| "error_text (FileExistsError m) = m"
| "error_text (TimeoutError m) = m"
| "error_text (OSError m) = m"
| "error_text (UnicodeDecodeError c) = CHR 0x27 # c @ [CHR 0x27] @ '' codec cannot decode the input''"
| "error_text (IncompleteReadError got n) =
     show_nat got @ '' bytes read on a total of '' @ show_nat n @ '' expected bytes''"
| "error_text JSONDecodeError = ''invalid JSON''"
| "error_text BinasciiError = ''invalid base64''"
| "error_text (SystemExit m) = m"
| "error_text ZeroDivisionError = ''division by zero''"
| "error_text (CalledProcessError command code) = ''Command '' @ join_with '' '' command @ '' returned non-zero exit status ''
     @ str_int code @ ''.''"

section \<open>Stream reads\<close>

definition stream_limit :: nat where
  "stream_limit = 65536"

text \<open>
  \<open>StreamReader.readline\<close>: the line with its newline, or what is left at end of file; a line
  longer than the stream's limit raises \<open>ValueError\<close>.
\<close>

definition readline :: "string \<Rightarrow> (string \<times> string) res" where
  "readline s =
     (let body = takeWhile (\<lambda>c. c \<noteq> newline) s; rest = dropWhile (\<lambda>c. c \<noteq> newline) s
      in if stream_limit < length body
         then Inl (ValueError (if rest = []
                then ''Separator is not found, and chunk exceed the limit''
                else ''Separator is found, but chunk is longer than limit''))
         else Inr (case rest of [] \<Rightarrow> (body, []) | c # cs \<Rightarrow> (body @ [c], cs)))"

definition readexactly :: "nat \<Rightarrow> string \<Rightarrow> (string \<times> string) res" where
  "readexactly n s = (if length s < n then Inl (IncompleteReadError (length s) n)
                      else Inr (take n s, drop n s))"

lemma readline_line:
  assumes "newline \<notin> set h" and "length h \<le> stream_limit"
  shows "readline (h @ newline # s) = Inr (h @ [newline], s)"
proof -
  have "takeWhile (\<lambda>c. c \<noteq> newline) (h @ newline # s) = h"
    using assms(1) by (subst takeWhile_append2) auto
  moreover have "dropWhile (\<lambda>c. c \<noteq> newline) (h @ newline # s) = newline # s"
    using assms(1) by (subst dropWhile_append2) auto
  ultimately show ?thesis using assms(2) by (simp add: readline_def Let_def)
qed

lemma readexactly_append [simp]: "readexactly (length p) (p @ s) = Inr (p, s)"
  by (simp add: readexactly_def)

lemma readexactly_Inr_iff [res_simps]:
  "readexactly n s = Inr (p, r) \<longleftrightarrow> s = p @ r \<and> length p = n"
  by (auto simp: readexactly_def)

lemma rstrip_newline_line [simp]: "newline \<notin> set h \<Longrightarrow> rstrip_newline (h @ [newline]) = h"
  by (simp add: rstrip_newline_def) (subst dropWhile_idI, auto)

lemma readline_Inr:
  assumes "readline s = Inr (line, rest)"
  shows "newline \<notin> set (rstrip_newline line) \<and> length (rstrip_newline line) \<le> stream_limit
    \<and> set (rstrip_newline line) \<subseteq> set line"
proof -
  let ?body = "takeWhile (\<lambda>c. c \<noteq> newline) s"
  have nl: "newline \<notin> set ?body" by (auto dest: set_takeWhileD)
  have "length ?body \<le> stream_limit" and "line = ?body \<or> line = ?body @ [newline]"
    using assms by (auto simp: readline_def Let_def split: if_splits list.splits dest: dropWhile_eq_Cons_conv [THEN iffD1])
  moreover have "rstrip_newline ?body = ?body"
    using nl unfolding rstrip_newline_def by (subst dropWhile_idI) auto
  ultimately show ?thesis using nl by auto
qed

lemmas stream_eval = text_eval readline_def readexactly_def stream_limit_def

end
