(* ===== verification/Intervals.thy ===== *)
theory Intervals
  imports Prelude
begin

text \<open>
  Durations of unions of wall-clock intervals. The program has two routines for the same quantity:
  \<open>interval_union\<close> (\<open>scripts/collect_timing_metrics.py\<close>) and \<open>union_duration\<close>
  (\<open>scripts/summarize_steady_measurement.py\<close>). The specification is the number of integer
  nanoseconds covered; the locale \<open>covered_duration\<close> states it as an interface and derives what the
  reports rely on (order of the records, growth, the bound by a window, the bound by the sum).
\<close>

type_synonym interval = "int \<times> int"

section \<open>Definitions\<close>

fun union_loop :: "int \<Rightarrow> int \<Rightarrow> int \<Rightarrow> interval list \<Rightarrow> int" where
  "union_loop covered start finish [] = covered + finish - start"
| "union_loop covered start finish ((current_start, current_finish) # rest) =
     (if current_start \<le> finish
      then union_loop covered start (max finish current_finish) rest
      else union_loop (covered + (finish - start)) current_start current_finish rest)"

definition interval_union :: "interval list \<Rightarrow> int" where
  "interval_union intervals =
     (case sort intervals of
        [] \<Rightarrow> 0
      | (start, finish) # rest \<Rightarrow> union_loop 0 start finish rest)"

definition merge_interval :: "interval \<Rightarrow> interval list \<Rightarrow> interval list" where
  "merge_interval = (\<lambda>(start, finish) merged.
     if finish \<le> start then merged
     else if merged = [] \<or> start > snd (last merged) then merged @ [(start, finish)]
     else butlast merged @ [(fst (last merged), max (snd (last merged)) finish)])"

definition union_duration :: "interval list \<Rightarrow> int" where
  "union_duration intervals =
     sum_list (map (\<lambda>(start, finish). finish - start) (fold merge_interval (sort intervals) []))"

section \<open>Specification\<close>

definition instants :: "interval \<Rightarrow> int set" where
  "instants i = {fst i..<snd i}"

definition cover :: "interval list \<Rightarrow> int set" where
  "cover xs = \<Union> (instants ` set xs)"

lemma finite_instants [simp]: "finite (instants i)"
  by (simp add: instants_def)

lemma finite_cover [simp]: "finite (cover xs)"
  by (simp add: cover_def)

lemma cover_simps [simp]:
  "cover [] = {}" "cover (x # xs) = instants x \<union> cover xs" "cover (xs @ ys) = cover xs \<union> cover ys"
  by (auto simp: cover_def)

lemma cover_sort [simp]: "cover (sort xs) = cover xs"
  by (simp add: cover_def)

lemma card_instants: "int (card (instants (s, f))) = max 0 (f - s)"
  by (simp add: instants_def)

text \<open>What a duration routine promises, and what follows from it.\<close>

locale covered_duration =
  fixes duration :: "interval list \<Rightarrow> int" and valid :: "interval \<Rightarrow> bool"
  assumes duration_cover: "list_all valid xs \<Longrightarrow> duration xs = int (card (cover xs))"
begin

lemma duration_perm: "list_all valid xs \<Longrightarrow> mset xs = mset ys \<Longrightarrow> duration xs = duration ys"
proof -
  assume v: "list_all valid xs" and m: "mset xs = mset ys"
  then have "set xs = set ys" by (rule_tac mset_eq_setD)
  with v have "list_all valid ys" "cover xs = cover ys" by (simp_all add: list_all_iff cover_def)
  with v show ?thesis by (simp add: duration_cover)
qed

lemma duration_nonneg: "list_all valid xs \<Longrightarrow> 0 \<le> duration xs"
  by (simp add: duration_cover)

lemma duration_mono:
  "list_all valid xs \<Longrightarrow> list_all valid ys \<Longrightarrow> cover xs \<subseteq> cover ys \<Longrightarrow> duration xs \<le> duration ys"
  by (simp add: duration_cover card_mono)

lemma duration_in_window:
  assumes "list_all valid xs" and "\<And>s f. (s, f) \<in> set xs \<Longrightarrow> a \<le> s \<and> f \<le> b" and "a \<le> b"
  shows "duration xs \<le> b - a"
proof -
  have "cover xs \<subseteq> {a..<b}" using assms(2) by (force simp: cover_def instants_def)
  then have "card (cover xs) \<le> card {a..<b}" by (rule card_mono [rotated]) simp
  then show ?thesis using assms by (simp add: duration_cover)
qed

lemma duration_le_sum:
  assumes "list_all valid xs" and "\<And>s f. (s, f) \<in> set xs \<Longrightarrow> s \<le> f"
  shows "duration xs \<le> sum_list (map (\<lambda>(s, f). f - s) xs)"
proof -
  have "int (card (cover xs)) \<le> sum_list (map (\<lambda>(s, f). f - s) xs)" using assms(2)
  proof (induction xs)
    case (Cons x xs)
    obtain s f where x: "x = (s, f)" by (cases x)
    have "card (cover (x # xs)) \<le> card (instants x) + card (cover xs)" by (simp add: card_Un_le)
    then have "int (card (cover (x # xs))) \<le> int (card (instants x)) + int (card (cover xs))" by linarith
    also have "int (card (instants x)) = f - s" using Cons.prems [of s f] x by (simp add: card_instants)
    also have "int (card (cover xs)) \<le> sum_list (map (\<lambda>(s, f). f - s) xs)"
      using Cons.IH Cons.prems by simp
    finally show ?case by (simp add: x)
  qed simp
  then show ?thesis using assms(1) by (simp add: duration_cover)
qed

end

section \<open>The loop over sorted intervals\<close>

lemma union_loop_cover:
  "sorted (map fst ((start, finish) # rest)) \<Longrightarrow> start \<le> finish \<Longrightarrow> list_all (\<lambda>(s, f). s \<le> f) rest \<Longrightarrow>
     union_loop covered start finish rest = covered + int (card ({start..<finish} \<union> cover rest))"
proof (induction covered start finish rest rule: union_loop.induct)
  case (2 covered start finish s f rest)
  from "2.prems" have order: "start \<le> s" "s \<le> f" by auto
  show ?case
  proof (cases "s \<le> finish")
    case True
    with order have "{start..<finish} \<union> {s..<f} = {start..<max finish f}" by auto
    then have "{start..<finish} \<union> cover ((s, f) # rest) = {start..<max finish f} \<union> cover rest"
      by (auto simp: instants_def)
    with 2 True show ?thesis by auto
  next
    case False
    have later: "finish < t" if "t \<in> {s..<f} \<union> cover rest" for t
      using that "2.prems" False by (force simp: cover_def instants_def)
    have "card ({start..<finish} \<union> ({s..<f} \<union> cover rest))
        = card {start..<finish} + card ({s..<f} \<union> cover rest)"
      using later by (intro card_Un_disjoint) force+
    moreover have "union_loop (covered + (finish - start)) s f rest
        = covered + (finish - start) + int (card ({s..<f} \<union> cover rest))"
      using 2 False order by auto
    ultimately show ?thesis using False "2.prems" by (simp add: instants_def)
  qed
qed simp

lemma sorted_map_fst: "sorted xs \<Longrightarrow> sorted (map fst xs)" for xs :: "interval list"
  by (induction xs) (auto simp: less_eq_prod_def)

lemma interval_union_cover:
  assumes "list_all (\<lambda>(s, f). s \<le> f) xs"
  shows "interval_union xs = int (card (cover xs))"
proof (cases "sort xs")
  case Nil
  then have "xs = []" by (metis mset_sort mset_zero_iff)
  then show ?thesis by (simp add: interval_union_def)
next
  case (Cons x rest)
  obtain s f where x: "x = (s, f)" by (cases x)
  have valid: "list_all (\<lambda>(s, f). s \<le> f) (sort xs)" using assms by (simp add: list_all_iff)
  have "sorted (map fst (sort xs))" by (rule sorted_map_fst) simp
  with valid have "union_loop 0 s f rest = 0 + int (card ({s..<f} \<union> cover rest))"
    by (intro union_loop_cover) (auto simp: Cons x)
  also have "{s..<f} \<union> cover rest = cover xs"
    using cover_sort [of xs, unfolded Cons] by (simp add: x instants_def)
  finally show ?thesis by (simp add: interval_union_def Cons x)
qed

interpretation wall_union: covered_duration interval_union "\<lambda>(s, f). s \<le> f"
  by unfold_locales (rule interval_union_cover)

section \<open>The merging routine\<close>

text \<open>Merged blocks are non-empty, in order and separated; the last one starts no later than the rest.\<close>

definition blocks :: "interval list \<Rightarrow> bool" where
  "blocks M \<longleftrightarrow> sorted_wrt (\<lambda>p q. snd p < fst q) M \<and> list_all (\<lambda>(s, f). s < f) M"

definition length_sum :: "interval list \<Rightarrow> int" where
  "length_sum M = sum_list (map (\<lambda>(s, f). f - s) M)"

lemma blocks_cover: "blocks M \<Longrightarrow> length_sum M = int (card (cover M))"
proof (induction M)
  case (Cons x M)
  obtain s f where x: "x = (s, f)" by (cases x)
  with Cons.prems have sf: "s < f" and later: "\<And>a b. (a, b) \<in> set M \<Longrightarrow> f < a"
    and rest: "length_sum M = int (card (cover M))"
    using Cons.IH by (auto simp: blocks_def)
  have "instants x \<inter> cover M = {}" using later by (force simp: x cover_def instants_def)
  then have "card (cover (x # M)) = card (instants x) + card (cover M)"
    by (simp add: card_Un_disjoint)
  then show ?case using sf rest by (simp add: x length_sum_def card_instants)
qed (simp add: length_sum_def)

lemma merge_interval_step:
  assumes "blocks M" and "M \<noteq> [] \<Longrightarrow> fst (last M) \<le> s"
  shows "blocks (merge_interval (s, f) M) \<and> cover (merge_interval (s, f) M) = cover M \<union> instants (s, f)
    \<and> (merge_interval (s, f) M \<noteq> [] \<longrightarrow> fst (last (merge_interval (s, f) M)) \<le> s)"
proof (cases M rule: rev_cases)
  case Nil
  then show ?thesis by (auto simp: merge_interval_def blocks_def instants_def)
next
  case (snoc N l)
  obtain a b where l: "l = (a, b)" by (cases l)
  have ab: "a < b" "a \<le> s" "\<And>p. p \<in> set N \<Longrightarrow> snd p < a" using assms snoc l
    by (auto simp: blocks_def sorted_wrt_append)
  show ?thesis
  proof (cases "s > b")
    case True
    have "snd p < s" if "p \<in> set N" for p using ab(3) [OF that] ab(1,2) by simp
    with assms snoc l True ab show ?thesis
      by (auto simp: merge_interval_def blocks_def sorted_wrt_append instants_def)
  next
    case False
    with ab have "{a..<b} \<union> {s..<f} = {a..<max b f}" by auto
    with assms snoc l False ab show ?thesis
      by (auto simp: merge_interval_def blocks_def sorted_wrt_append instants_def)
  qed
qed

lemma fold_merge_cover:
  assumes "sorted (map fst xs)" and "blocks M" and "M \<noteq> [] \<Longrightarrow> xs \<noteq> [] \<Longrightarrow> fst (last M) \<le> fst (hd xs)"
  shows "blocks (fold merge_interval xs M) \<and> cover (fold merge_interval xs M) = cover M \<union> cover xs"
  using assms
proof (induction xs arbitrary: M)
  case (Cons x xs)
  obtain s f where x: "x = (s, f)" by (cases x)
  have step: "blocks (merge_interval x M)" "cover (merge_interval x M) = cover M \<union> instants x"
    "merge_interval x M \<noteq> [] \<Longrightarrow> fst (last (merge_interval x M)) \<le> s"
    using merge_interval_step [of M s f] Cons.prems x by auto
  have "blocks (fold merge_interval xs (merge_interval x M))
      \<and> cover (fold merge_interval xs (merge_interval x M)) = cover (merge_interval x M) \<union> cover xs"
  proof (rule Cons.IH)
    show "fst (last (merge_interval x M)) \<le> fst (hd xs)" if "merge_interval x M \<noteq> []" "xs \<noteq> []"
      using step(3) [OF that(1)] Cons.prems(1) that(2) x by (cases xs) auto
  qed (use Cons.prems step in auto)
  then show ?case using step by auto
qed simp

lemma union_duration_cover: "union_duration xs = int (card (cover xs))"
proof -
  have "sorted (map fst (sort xs))" by (rule sorted_map_fst) simp
  from fold_merge_cover [OF this, of "[]"] show ?thesis
    using blocks_cover [of "fold merge_interval (sort xs) []"]
    by (simp add: union_duration_def length_sum_def blocks_def)
qed

interpretation steady_union: covered_duration union_duration "\<lambda>_. True"
  by unfold_locales (rule union_duration_cover)

text \<open>
  C14. The two interval routines of the program agree: on intervals that do not end before they
  start, \<open>interval_union\<close> and \<open>union_duration\<close> both return the number of nanoseconds covered by
  at least one interval.
\<close>

theorem interval_routines_agree:
  assumes "list_all (\<lambda>(s, f). s \<le> f) xs"
  shows "interval_union xs = union_duration xs
    \<and> interval_union xs = int (card {t. \<exists>s f. (s, f) \<in> set xs \<and> s \<le> t \<and> t < f})"
proof -
  have "cover xs = {t. \<exists>s f. (s, f) \<in> set xs \<and> s \<le> t \<and> t < f}" by (force simp: cover_def instants_def)
  with interval_union_cover [OF assms] union_duration_cover [of xs] show ?thesis by simp
qed

theorem interval_routines_agree_witness:
  "interval_union [(5, 9), (0, 3), (2, 4)] = union_duration [(5, 9), (0, 3), (2, 4)]
     \<and> interval_union [(5, 9), (0, 3), (2, 4)] = 8"
  using interval_routines_agree [of "[(5, 9), (0, 3), (2, 4)]"] by (simp add: interval_union_def)

text \<open>
  Laws of the reported union: it does not depend on the order of the records, it lies between
  zero and the sum of the single durations, and inside a measurement window it never exceeds the
  length of the window.
\<close>

theorem interval_union_laws:
  assumes "list_all (\<lambda>(s, f). s \<le> f) xs"
  shows "(mset xs = mset ys \<longrightarrow> interval_union xs = interval_union ys)
    \<and> 0 \<le> interval_union xs \<and> interval_union xs \<le> sum_list (map (\<lambda>(s, f). f - s) xs)
    \<and> (a \<le> b \<and> list_all (\<lambda>(s, f). a \<le> s \<and> f \<le> b) xs \<longrightarrow> interval_union xs \<le> b - a)"
proof (intro conjI impI)
  show "interval_union xs = interval_union ys" if "mset xs = mset ys"
    by (rule wall_union.duration_perm [OF assms that])
  show "0 \<le> interval_union xs" by (rule wall_union.duration_nonneg [OF assms])
  show "interval_union xs \<le> sum_list (map (\<lambda>(s, f). f - s) xs)"
    by (rule wall_union.duration_le_sum [OF assms]) (use assms in \<open>auto simp: list_all_iff\<close>)
  show "interval_union xs \<le> b - a" if "a \<le> b \<and> list_all (\<lambda>(s, f). a \<le> s \<and> f \<le> b) xs"
    by (rule wall_union.duration_in_window [OF assms]) (use that in \<open>auto simp: list_all_iff\<close>)
qed

theorem interval_union_laws_witness:
  "interval_union [(5, 9), (0, 3)] = interval_union [(0, 3), (5, 9)] \<and> interval_union [(5, 9), (0, 3)] \<le> 10"
  using interval_union_laws [of "[(5, 9), (0, 3)]" "[(0, 3), (5, 9)]" 0 10] by simp

end
