(* ===== verification/TimingMetrics.thy ===== *)
theory TimingMetrics
  imports PyJson Intervals
begin

text \<open>
  The metric collector (\<open>scripts/collect_timing_metrics.py\<close>). A metric record is a parsed JSON
  object. The aggregation scopes \<open>all\<close>, \<open>same_logical_worker\<close>, \<open>cross_legosim\<close> and
  \<open>cross_physical_host\<close> are the datatype \<open>scope_group\<close>; the counters of a scope and the transport
  values of a scope are records, and \<open>pipe_values\<close> lists them under the keys of the output file.
  The log is the list of its lines, \<open>None\<close> when the file does not exist; the JSON parser of the
  standard library and the CSV rows of ns-3 are parameters.
\<close>

section \<open>Records and scopes\<close>

datatype scope_group = All_records | Same_worker | Cross_legosim | Cross_host

definition all_groups :: "scope_group list" where
  "all_groups = [All_records, Same_worker, Cross_legosim, Cross_host]"

fun group_name :: "scope_group \<Rightarrow> string" where
  "group_name All_records = ''all''"
| "group_name Same_worker = ''same_logical_worker''"
| "group_name Cross_legosim = ''cross_legosim''"
| "group_name Cross_host = ''cross_physical_host''"

record metric_counter =
  mc_records :: int
  mc_bytes :: int
  mc_elapsed_ns :: int
  mc_sync_wait_ns :: int
  mc_writes :: int
  mc_reads :: int

definition empty_counter :: metric_counter where
  "empty_counter = \<lparr>mc_records = 0, mc_bytes = 0, mc_elapsed_ns = 0, mc_sync_wait_ns = 0, mc_writes = 0, mc_reads = 0\<rparr>"

text \<open>\<open>int(record.get(k, default))\<close> and \<open>record.get("operation") == op\<close>.\<close>

definition get_int :: "jobj \<Rightarrow> string \<Rightarrow> int \<Rightarrow> int res" where
  "get_int record k otherwise = json_int (dict_get record k (JInt otherwise))"

definition has_op :: "jobj \<Rightarrow> string \<Rightarrow> bool" where
  "has_op record op \<longleftrightarrow> jget record ''operation'' = JStr op"

definition add_record :: "metric_counter \<Rightarrow> jobj \<Rightarrow> metric_counter res" where
  "add_record c record =
     bindE (get_int record ''bytes'' 0) (\<lambda>bytes.
     bindE (get_int record ''elapsed_ns'' 0) (\<lambda>elapsed.
     bindE (get_int record ''synchronization_wait_ns'' 0) (\<lambda>wait.
     Inr \<lparr>mc_records = mc_records c + 1, mc_bytes = mc_bytes c + bytes,
          mc_elapsed_ns = mc_elapsed_ns c + elapsed, mc_sync_wait_ns = mc_sync_wait_ns c + wait,
          mc_writes = mc_writes c + of_bool (has_op record ''W''),
          mc_reads = mc_reads c + of_bool (has_op record ''R'')\<rparr>)))"

definition classify_scope :: "jobj \<Rightarrow> string res" where
  "classify_scope record =
     (case as_str (jget record ''transport_scope'') of
        Some scope \<Rightarrow> Inr scope
      | None \<Rightarrow>
          bindE (get_int record ''source_slot'' (-1)) (\<lambda>source.
          bindE (get_int record ''peer_slot'' (-2)) (\<lambda>peer.
          Inr (if source = peer then ''same_logical_worker'' else ''cross_legosim_same_physical_host''))))"

definition selected_groups :: "string \<Rightarrow> scope_group list" where
  "selected_groups scope =
     All_records # (if scope = ''same_logical_worker'' then [Same_worker]
       else Cross_legosim # (if scope = ''cross_physical_host'' then [Cross_host] else []))"

section \<open>Matched transfers\<close>

type_synonym transfer_id = "int \<times> int \<times> string \<times> int"

definition transfer_key :: "jobj \<Rightarrow> transfer_id option" where
  "transfer_key record =
     (case as_str (jget record ''pipe_name'') of
        None \<Rightarrow> None
      | Some pipe_name \<Rightarrow>
          if pipe_name = [] then None
          else (case (bindE (dict_item record ''source_slot'') json_int, bindE (dict_item record ''peer_slot'') json_int,
                      bindE (dict_item record ''bytes'') json_int) of
                  (Inr source_slot, Inr peer_slot, Inr byte_count) \<Rightarrow>
                    (if has_op record ''W'' then Some (source_slot, peer_slot, pipe_name, byte_count)
                     else if has_op record ''R'' then Some (peer_slot, source_slot, pipe_name, byte_count)
                     else None)
                | _ \<Rightarrow> None))"

record transport_values =
  tv_pairs :: int
  tv_unmatched_writes :: int
  tv_unmatched_reads :: int
  tv_exposed_sum_ns :: int
  tv_exposed_union_ns :: int

definition empty_transport :: transport_values where
  "empty_transport = \<lparr>tv_pairs = 0, tv_unmatched_writes = 0, tv_unmatched_reads = 0, tv_exposed_sum_ns = 0,
     tv_exposed_union_ns = 0\<rparr>"

text \<open>\<open>values[f"{group}_..."] += ...\<close> for every group of a list.\<close>

definition bump :: "scope_group list \<Rightarrow> ('a \<Rightarrow> 'a) \<Rightarrow> (scope_group \<Rightarrow> 'a) \<Rightarrow> scope_group \<Rightarrow> 'a" where
  "bump gs f v = (\<lambda>g. if g \<in> set gs then f (v g) else v g)"

text \<open>The records of one key, in order; \<open>writes\<close> and \<open>reads\<close> of the program are these lists.\<close>

definition items_of :: "string \<Rightarrow> transfer_id \<Rightarrow> jobj list \<Rightarrow> jobj list" where
  "items_of op key records = filter (\<lambda>r. transfer_key r = Some key \<and> has_op r op) records"

text \<open>\<open>sorted(items, key=lambda item: int(item.get(k, -1)))\<close>.\<close>

definition sort_items :: "string \<Rightarrow> jobj list \<Rightarrow> jobj list res" where
  "sort_items k items =
     bindE (mapE (\<lambda>item. bindE (get_int item k (-1)) (\<lambda>t. Inr (t, item))) items) (\<lambda>keyed.
       Inr (map snd (sort_key fst keyed)))"

definition exposed_interval :: "jobj \<Rightarrow> jobj \<Rightarrow> interval option" where
  "exposed_interval write read =
     (case (bindE (dict_item write ''started_unix_ns'') json_int, bindE (dict_item read ''started_unix_ns'') json_int,
            bindE (dict_item read ''finished_unix_ns'') json_int) of
        (Inr write_started, Inr read_started, Inr read_finished) \<Rightarrow>
          (let interval_started = max write_started read_started
           in if read_finished < interval_started then None else Some (interval_started, read_finished))
      | _ \<Rightarrow> None)"

record match_state =
  ms_values :: "scope_group \<Rightarrow> transport_values"
  ms_intervals :: "scope_group \<Rightarrow> interval list"
  ms_matched :: int

definition match_pair :: "jobj \<times> jobj \<Rightarrow> match_state \<Rightarrow> match_state res" where
  "match_pair = (\<lambda>(write, read) s.
     case exposed_interval write read of
       None \<Rightarrow> Inr s
     | Some (started, finished) \<Rightarrow>
         bindE (classify_scope write) (\<lambda>scope.
           let gs = selected_groups scope
           in Inr \<lparr>ms_values = bump gs (\<lambda>v. v\<lparr>tv_pairs := tv_pairs v + 1,
                      tv_exposed_sum_ns := tv_exposed_sum_ns v + (finished - started)\<rparr>) (ms_values s),
                   ms_intervals = bump gs (\<lambda>is. is @ [(started, finished)]) (ms_intervals s),
                   ms_matched = ms_matched s + 1\<rparr>))"

definition match_key :: "jobj list \<Rightarrow> transfer_id \<Rightarrow> match_state \<Rightarrow> match_state res" where
  "match_key records key s =
     bindE (sort_items ''started_unix_ns'' (items_of ''W'' key records)) (\<lambda>write_items.
     bindE (sort_items ''finished_unix_ns'' (items_of ''R'' key records)) (\<lambda>read_items.
     bindE (foldE match_pair (zip write_items read_items) (s\<lparr>ms_matched := 0\<rparr>)) (\<lambda>t.
       case write_items @ read_items of
         [] \<Rightarrow> Inr t
       | scope_source # _ \<Rightarrow>
           bindE (classify_scope scope_source) (\<lambda>scope.
           Inr (t\<lparr>ms_values := bump (selected_groups scope) (\<lambda>v.
             v\<lparr>tv_unmatched_writes := tv_unmatched_writes v + (int (length write_items) - ms_matched t),
               tv_unmatched_reads := tv_unmatched_reads v + (int (length read_items) - ms_matched t)\<rparr>) (ms_values t)\<rparr>)))))"

definition transfer_keys :: "jobj list \<Rightarrow> transfer_id list" where
  "transfer_keys records = sort (remdups (List.map_filter transfer_key records))"

definition collect_exposed_transport_metrics :: "jobj list \<Rightarrow> (scope_group \<Rightarrow> transport_values) res" where
  "collect_exposed_transport_metrics records =
     bindE (foldE (match_key records) (transfer_keys records)
              \<lparr>ms_values = (\<lambda>_. empty_transport), ms_intervals = (\<lambda>_. []), ms_matched = 0\<rparr>) (\<lambda>t.
     Inr (\<lambda>g. (ms_values t g)\<lparr>tv_exposed_union_ns := interval_union (ms_intervals t g)\<rparr>))"

section \<open>The log\<close>

definition metric_prefix :: string where
  "metric_prefix = ''pipe-metric:''"

record pipe_totals =
  pt_counters :: "scope_group \<Rightarrow> metric_counter"
  pt_intervals :: "scope_group \<Rightarrow> interval list"
  pt_records :: "jobj list"

definition add_to_groups :: "scope_group list \<Rightarrow> jobj \<Rightarrow> (scope_group \<Rightarrow> metric_counter) \<Rightarrow> (scope_group \<Rightarrow> metric_counter) res" where
  "add_to_groups gs record counters =
     foldE (\<lambda>g c. bindE (add_record (c g) record) (\<lambda>new. Inr (c(g := new)))) gs counters"

definition read_interval :: "jobj \<Rightarrow> interval list" where
  "read_interval record =
     (if \<not> has_op record ''R'' then []
      else case (as_int (jget record ''started_unix_ns''), as_int (jget record ''finished_unix_ns'')) of
        (Some started, Some finished) \<Rightarrow> if finished \<ge> started then [(started, finished)] else []
      | _ \<Rightarrow> [])"

definition collect_line :: "(string \<Rightarrow> jobj res) \<Rightarrow> string \<Rightarrow> pipe_totals \<Rightarrow> pipe_totals res" where
  "collect_line loads line s =
     (if \<not> prefix metric_prefix line then Inr s
      else bindE (loads (snd (snd (partition_at (CHR '':'') line)))) (\<lambda>record.
           bindE (classify_scope record) (\<lambda>scope.
           bindE (add_to_groups (selected_groups scope) record (pt_counters s)) (\<lambda>counters.
           Inr \<lparr>pt_counters = counters,
                pt_intervals = bump (selected_groups scope) (\<lambda>is. is @ read_interval record) (pt_intervals s),
                pt_records = pt_records s @ [record]\<rparr>))))"

record pipe_report =
  pr_counters :: "scope_group \<Rightarrow> metric_counter"
  pr_sync_union :: "(scope_group \<Rightarrow> int \<times> int) option"
  pr_transport :: "scope_group \<Rightarrow> transport_values"

definition collect_pipe_metrics :: "(string \<Rightarrow> jobj res) \<Rightarrow> string list option \<Rightarrow> pipe_report res" where
  "collect_pipe_metrics loads log =
     bindE (collect_exposed_transport_metrics []) (\<lambda>empty.
     case log of
       None \<Rightarrow> Inr \<lparr>pr_counters = (\<lambda>_. empty_counter), pr_sync_union = None, pr_transport = empty\<rparr>
     | Some lines \<Rightarrow>
         bindE (foldE (collect_line loads) lines
                  \<lparr>pt_counters = (\<lambda>_. empty_counter), pt_intervals = (\<lambda>_. []), pt_records = []\<rparr>) (\<lambda>s.
         bindE (collect_exposed_transport_metrics (pt_records s)) (\<lambda>transport.
         Inr \<lparr>pr_counters = pt_counters s,
              pr_sync_union = Some (\<lambda>g. (interval_union (pt_intervals s g), int (length (pt_intervals s g)))),
              pr_transport = transport\<rparr>)))"

text \<open>The keys and values of the output file.\<close>

definition counter_items :: "scope_group \<Rightarrow> metric_counter \<Rightarrow> (string, int) dict" where
  "counter_items g c = map (\<lambda>(name, v). (group_name g @ ''_'' @ name, v))
     [(''records'', mc_records c), (''bytes'', mc_bytes c), (''elapsed_ns'', mc_elapsed_ns c),
      (''sync_wait_ns'', mc_sync_wait_ns c), (''writes'', mc_writes c), (''reads'', mc_reads c)]"

definition transport_items :: "scope_group \<Rightarrow> transport_values \<Rightarrow> (string, int) dict" where
  "transport_items g v = map (\<lambda>(name, x). (group_name g @ ''_transport_'' @ name, x))
     [(''pairs'', tv_pairs v), (''unmatched_writes'', tv_unmatched_writes v), (''unmatched_reads'', tv_unmatched_reads v),
      (''exposed_sync_wall_sum_ns'', tv_exposed_sum_ns v), (''exposed_sync_wall_union_ns'', tv_exposed_union_ns v)]"

definition sync_items :: "scope_group \<Rightarrow> int \<times> int \<Rightarrow> (string, int) dict" where
  "sync_items g = (\<lambda>(union_ns, n). [(group_name g @ ''_sync_wall_union_ns'', union_ns),
     (group_name g @ ''_sync_wall_interval_count'', n)])"

definition pipe_values :: "pipe_report \<Rightarrow> (string, int) dict" where
  "pipe_values r = concat (map (\<lambda>g. counter_items g (pr_counters r g)) all_groups)
     @ (case pr_sync_union r of None \<Rightarrow> [] | Some u \<Rightarrow> concat (map (\<lambda>g. sync_items g (u g)) all_groups))
     @ concat (map (\<lambda>g. transport_items g (pr_transport r g)) all_groups)"

section \<open>ns-3 rows\<close>

record ns3_totals =
  n3_records :: int
  n3_normal_records :: int
  n3_special_records :: int
  n3_payload_bytes :: int
  n3_normal_payload_bytes :: int
  n3_source_sync_advance :: int
  n3_destination_network_delay :: int
  n3_destination_sync_block :: int

definition ns3_defaults :: ns3_totals where
  "ns3_defaults = \<lparr>n3_records = 0, n3_normal_records = 0, n3_special_records = 0, n3_payload_bytes = 0,
     n3_normal_payload_bytes = 0, n3_source_sync_advance = 0, n3_destination_network_delay = 0,
     n3_destination_sync_block = 0\<rparr>"

definition row_int :: "(string, string) dict \<Rightarrow> string \<Rightarrow> int res" where
  "row_int row k = bindE (dict_item row k) int_text"

definition add_ns3_row :: "(string, string) dict \<Rightarrow> ns3_totals \<Rightarrow> ns3_totals res" where
  "add_ns3_row row t =
     bindE (row_int row ''payload_bytes'') (\<lambda>payload_bytes.
     bindE (dict_item row ''special'') (\<lambda>special.
       let u = t\<lparr>n3_records := n3_records t + 1, n3_payload_bytes := n3_payload_bytes t + payload_bytes\<rparr>
       in if special = ''1'' then Inr (u\<lparr>n3_special_records := n3_special_records u + 1\<rparr>)
          else bindE (row_int row ''source_sync_advance_cycles'') (\<lambda>a.
               bindE (row_int row ''destination_network_delay_cycles'') (\<lambda>d.
               bindE (row_int row ''destination_sync_block_cycles'') (\<lambda>b.
               Inr (u\<lparr>n3_normal_records := n3_normal_records u + 1,
                      n3_normal_payload_bytes := n3_normal_payload_bytes u + payload_bytes,
                      n3_source_sync_advance := n3_source_sync_advance u + a,
                      n3_destination_network_delay := n3_destination_network_delay u + d,
                      n3_destination_sync_block := n3_destination_sync_block u + b\<rparr>))))))"

definition collect_ns3_metrics :: "(string, string) dict list option \<Rightarrow> ns3_totals res" where
  "collect_ns3_metrics file =
     (case file of None \<Rightarrow> Inr ns3_defaults | Some rows \<Rightarrow> foldE add_ns3_row rows ns3_defaults)"

section \<open>The scopes partition the records\<close>

definition counter_add :: "metric_counter \<Rightarrow> metric_counter \<Rightarrow> metric_counter" where
  "counter_add a b = \<lparr>mc_records = mc_records a + mc_records b, mc_bytes = mc_bytes a + mc_bytes b,
     mc_elapsed_ns = mc_elapsed_ns a + mc_elapsed_ns b, mc_sync_wait_ns = mc_sync_wait_ns a + mc_sync_wait_ns b,
     mc_writes = mc_writes a + mc_writes b, mc_reads = mc_reads a + mc_reads b\<rparr>"

text \<open>What one record adds to a counter does not depend on the counter.\<close>

lemma add_record_delta: "add_record c record = Inr d \<Longrightarrow>
  \<exists>delta. mc_records delta = 1 \<and> d = counter_add c delta \<and> (\<forall>c. add_record c record = Inr (counter_add c delta))"
  by (auto simp: add_record_def counter_add_def res_simps
      intro!: exI [of _ "\<lparr>mc_records = 1, mc_bytes = _, mc_elapsed_ns = _, mc_sync_wait_ns = _, mc_writes = _, mc_reads = _\<rparr>"])

definition balanced :: "(scope_group \<Rightarrow> metric_counter) \<Rightarrow> bool" where
  "balanced c \<longleftrightarrow> c All_records = counter_add (c Same_worker) (c Cross_legosim)
     \<and> 0 \<le> mc_records (c Cross_host) \<and> mc_records (c Cross_host) \<le> mc_records (c Cross_legosim)"

lemma add_to_groups_balanced:
  assumes "add_to_groups (selected_groups scope) record counters = Inr counters'" and "balanced counters"
  shows "balanced counters'"
proof -
  obtain d where "add_record (counters All_records) record = Inr d"
    using assms(1) by (auto simp: add_to_groups_def selected_groups_def bindE_eq_Inr)
  then obtain delta where delta: "mc_records delta = 1" "\<And>c. add_record c record = Inr (counter_add c delta)"
    using add_record_delta by blast
  then show ?thesis using assms
    by (auto simp: add_to_groups_def selected_groups_def balanced_def counter_add_def split: if_splits)
qed

text \<open>
  In a collected report every record is counted once in \<open>all\<close> and once in exactly one of
  \<open>same_logical_worker\<close> and \<open>cross_legosim\<close>: each of the six counters of \<open>all\<close> is the sum of the two,
  and \<open>cross_physical_host\<close> counts a part of \<open>cross_legosim\<close>.
\<close>

theorem pipe_counters_partition:
  assumes "collect_pipe_metrics loads log = Inr r"
  shows "pr_counters r All_records = counter_add (pr_counters r Same_worker) (pr_counters r Cross_legosim)
    \<and> mc_records (pr_counters r Cross_host) \<le> mc_records (pr_counters r Cross_legosim)"
proof -
  have "balanced (pr_counters r)"
  proof (cases log)
    case None
    with assms show ?thesis by (auto simp: collect_pipe_metrics_def bindE_eq_Inr balanced_def empty_counter_def counter_add_def)
  next
    case (Some lines)
    with assms obtain s where s: "foldE (collect_line loads) lines
        \<lparr>pt_counters = (\<lambda>_. empty_counter), pt_intervals = (\<lambda>_. []), pt_records = []\<rparr> = Inr s"
      and r: "pr_counters r = pt_counters s"
      by (auto simp: collect_pipe_metrics_def bindE_eq_Inr)
    have "balanced (pt_counters s)"
    proof (rule foldE_invariant [where P = "\<lambda>s. balanced (pt_counters s)", OF s])
      show "balanced (pt_counters \<lparr>pt_counters = (\<lambda>_. empty_counter), pt_intervals = (\<lambda>_. []), pt_records = []\<rparr>)"
        by (simp add: balanced_def empty_counter_def counter_add_def)
    qed (auto simp: collect_line_def bindE_eq_Inr split: if_splits intro: add_to_groups_balanced)
    with r show ?thesis by simp
  qed
  then show ?thesis by (simp add: balanced_def)
qed

definition demo_loads :: "string \<Rightarrow> jobj res" where
  "demo_loads text =
     (if text = ''w'' then Inr [(''operation'', JStr ''W''), (''pipe_name'', JStr ''p''), (''bytes'', JInt 4),
        (''source_slot'', JInt 0), (''peer_slot'', JInt 1), (''transport_scope'', JStr ''cross_physical_host''),
        (''started_unix_ns'', JInt 10), (''finished_unix_ns'', JInt 12), (''elapsed_ns'', JInt 2)]
      else if text = ''r'' then Inr [(''operation'', JStr ''R''), (''pipe_name'', JStr ''p''), (''bytes'', JInt 4),
        (''source_slot'', JInt 1), (''peer_slot'', JInt 0), (''transport_scope'', JStr ''cross_physical_host''),
        (''started_unix_ns'', JInt 3), (''finished_unix_ns'', JInt 15), (''elapsed_ns'', JInt 12),
        (''synchronization_wait_ns'', JInt 12)]
      else Inl JSONDecodeError)"

lemmas metric_eval = collect_pipe_metrics_def collect_line_def metric_prefix_def partition_at_def demo_loads_def
  classify_scope_def selected_groups_def add_to_groups_def add_record_def get_int_def dict_get_def jget_def
  has_op_def empty_counter_def bump_def read_interval_def collect_exposed_transport_metrics_def transfer_keys_def
  transfer_key_def dict_item_def List.map_filter_simps match_key_def items_of_def sort_items_def match_pair_def
  exposed_interval_def empty_transport_def

lemma demo_report: "\<exists>r. collect_pipe_metrics demo_loads (Some [''pipe-metric:w'', ''noise'', ''pipe-metric:r'']) = Inr r"
  by (simp add: metric_eval)

theorem pipe_counters_partition_witness:
  "\<exists>r. collect_pipe_metrics demo_loads (Some [''pipe-metric:w'', ''noise'', ''pipe-metric:r'']) = Inr r
     \<and> pr_counters r All_records = counter_add (pr_counters r Same_worker) (pr_counters r Cross_legosim)"
  using demo_report pipe_counters_partition by blast

section \<open>Conservation of transfers\<close>

text \<open>The state while the pairs of one key are matched, and between keys.\<close>

definition intervals_ok :: "match_state \<Rightarrow> bool" where
  "intervals_ok s \<longleftrightarrow> (\<forall>g. list_all (\<lambda>(a, b). a \<le> b) (ms_intervals s g)
     \<and> tv_exposed_sum_ns (ms_values s g) = sum_list (map (\<lambda>(a, b). b - a) (ms_intervals s g)))"

lemma match_pair_step:
  assumes "match_pair wr s = Inr t"
  shows "(intervals_ok s \<longrightarrow> intervals_ok t)
    \<and> ms_matched s \<le> ms_matched t \<and> ms_matched t \<le> ms_matched s + 1
    \<and> tv_pairs (ms_values t All_records) - ms_matched t = tv_pairs (ms_values s All_records) - ms_matched s
    \<and> (\<forall>g. tv_unmatched_writes (ms_values t g) = tv_unmatched_writes (ms_values s g)
         \<and> tv_unmatched_reads (ms_values t g) = tv_unmatched_reads (ms_values s g))"
proof (cases wr)
  case (Pair w rd)
  show ?thesis
  proof (cases "exposed_interval w rd")
    case None
    with assms Pair show ?thesis by (simp add: match_pair_def)
  next
    case (Some i)
    obtain a b where i: "i = (a, b)" by (cases i)
    have "a \<le> b" using Some i by (auto simp: exposed_interval_def Let_def split: sum.splits if_splits)
    moreover obtain scope where "t = \<lparr>ms_values = bump (selected_groups scope) (\<lambda>v. v\<lparr>tv_pairs := tv_pairs v + 1,
          tv_exposed_sum_ns := tv_exposed_sum_ns v + (b - a)\<rparr>) (ms_values s),
        ms_intervals = bump (selected_groups scope) (\<lambda>is. is @ [(a, b)]) (ms_intervals s),
        ms_matched = ms_matched s + 1\<rparr>"
      using assms Pair Some i by (auto simp: match_pair_def bindE_eq_Inr Let_def)
    moreover have "All_records \<in> set (selected_groups scope)" by (simp add: selected_groups_def)
    ultimately show ?thesis by (auto simp: intervals_ok_def bump_def)
  qed
qed

lemma match_pairs_fold:
  assumes "foldE match_pair ps s = Inr t"
  shows "(intervals_ok s \<longrightarrow> intervals_ok t)
    \<and> ms_matched s \<le> ms_matched t \<and> ms_matched t \<le> ms_matched s + int (length ps)
    \<and> tv_pairs (ms_values t All_records) - ms_matched t = tv_pairs (ms_values s All_records) - ms_matched s
    \<and> (\<forall>g. tv_unmatched_writes (ms_values t g) = tv_unmatched_writes (ms_values s g)
         \<and> tv_unmatched_reads (ms_values t g) = tv_unmatched_reads (ms_values s g))"
  using assms
proof (induction ps arbitrary: s)
  case (Cons p ps)
  then obtain u where u: "match_pair p s = Inr u" "foldE match_pair ps u = Inr t" by (auto simp: bindE_eq_Inr)
  from match_pair_step [OF u(1)] Cons.IH [OF u(2)] show ?case by auto
qed simp

lemma sort_items_length: "sort_items k items = Inr items' \<Longrightarrow> length items' = length items"
  by (auto simp: sort_items_def bindE_eq_Inr dest: mapE_length)

lemma match_key_step:
  assumes "match_key records key s = Inr t"
  shows "(intervals_ok s \<longrightarrow> intervals_ok t)
    \<and> tv_pairs (ms_values t All_records) + tv_unmatched_writes (ms_values t All_records)
      = tv_pairs (ms_values s All_records) + tv_unmatched_writes (ms_values s All_records) + int (length (items_of ''W'' key records))
    \<and> tv_pairs (ms_values t All_records) + tv_unmatched_reads (ms_values t All_records)
      = tv_pairs (ms_values s All_records) + tv_unmatched_reads (ms_values s All_records) + int (length (items_of ''R'' key records))
    \<and> (\<forall>g. tv_unmatched_writes (ms_values s g) \<le> tv_unmatched_writes (ms_values t g)
         \<and> tv_unmatched_reads (ms_values s g) \<le> tv_unmatched_reads (ms_values t g))"
proof -
  from assms obtain ws rs u where ws: "sort_items ''started_unix_ns'' (items_of ''W'' key records) = Inr ws"
    and rs: "sort_items ''finished_unix_ns'' (items_of ''R'' key records) = Inr rs"
    and u: "foldE match_pair (zip ws rs) (s\<lparr>ms_matched := 0\<rparr>) = Inr u"
    and t: "(case ws @ rs of [] \<Rightarrow> Inr u | src # _ \<Rightarrow> bindE (classify_scope src) (\<lambda>scope.
       Inr (u\<lparr>ms_values := bump (selected_groups scope) (\<lambda>v.
             v\<lparr>tv_unmatched_writes := tv_unmatched_writes v + (int (length ws) - ms_matched u),
               tv_unmatched_reads := tv_unmatched_reads v + (int (length rs) - ms_matched u)\<rparr>) (ms_values u)\<rparr>))) = Inr t"
    by (auto simp: match_key_def bindE_eq_Inr)
  note f = match_pairs_fold [OF u]
  have len: "length ws = length (items_of ''W'' key records)" "length rs = length (items_of ''R'' key records)"
    using sort_items_length ws rs by blast+
  have m: "0 \<le> ms_matched u" "ms_matched u \<le> int (length ws)" "ms_matched u \<le> int (length rs)"
    using f by auto
  show ?thesis
  proof (cases "ws @ rs")
    case Nil
    with t f len m show ?thesis by (auto simp: intervals_ok_def)
  next
    case (Cons src rest)
    with t obtain scope where "t = u\<lparr>ms_values := bump (selected_groups scope) (\<lambda>v.
             v\<lparr>tv_unmatched_writes := tv_unmatched_writes v + (int (length ws) - ms_matched u),
               tv_unmatched_reads := tv_unmatched_reads v + (int (length rs) - ms_matched u)\<rparr>) (ms_values u)\<rparr>"
      by (auto simp: bindE_eq_Inr)
    moreover have "All_records \<in> set (selected_groups scope)" by (simp add: selected_groups_def)
    ultimately show ?thesis using f len m by (auto simp: intervals_ok_def bump_def)
  qed
qed

lemma match_keys_fold:
  assumes "foldE (match_key records) keys s = Inr t"
  shows "(intervals_ok s \<longrightarrow> intervals_ok t)
    \<and> tv_pairs (ms_values t All_records) + tv_unmatched_writes (ms_values t All_records)
      = tv_pairs (ms_values s All_records) + tv_unmatched_writes (ms_values s All_records)
        + int (sum_list (map (\<lambda>k. length (items_of ''W'' k records)) keys))
    \<and> tv_pairs (ms_values t All_records) + tv_unmatched_reads (ms_values t All_records)
      = tv_pairs (ms_values s All_records) + tv_unmatched_reads (ms_values s All_records)
        + int (sum_list (map (\<lambda>k. length (items_of ''R'' k records)) keys))
    \<and> (\<forall>g. tv_unmatched_writes (ms_values s g) \<le> tv_unmatched_writes (ms_values t g)
         \<and> tv_unmatched_reads (ms_values s g) \<le> tv_unmatched_reads (ms_values t g))"
  using assms
proof (induction keys arbitrary: s)
  case (Cons k keys)
  then obtain u where u: "match_key records k s = Inr u" "foldE (match_key records) keys u = Inr t"
    by (auto simp: bindE_eq_Inr)
  from match_key_step [OF u(1)] Cons.IH [OF u(2)] show ?case by (auto intro: order_trans)
qed simp

text \<open>Every record with a key is an item of exactly one key.\<close>

lemma sum_count_distinct:
  "distinct ks \<Longrightarrow> sum_list (map (\<lambda>k. if f = Some k then 1 else 0) ks) = (if f \<in> Some ` set ks then 1 else (0 :: nat))"
  by (induction ks) auto

lemma items_of_total:
  assumes "distinct keys" and "\<And>r k. r \<in> set records \<Longrightarrow> transfer_key r = Some k \<Longrightarrow> k \<in> set keys"
  shows "sum_list (map (\<lambda>k. length (items_of op k records)) keys)
    = length (filter (\<lambda>r. transfer_key r \<noteq> None \<and> has_op r op) records)"
  using assms(2)
proof (induction records)
  case (Cons r records)
  have ih: "sum_list (map (\<lambda>k. length (items_of op k records)) keys)
      = length (filter (\<lambda>r. transfer_key r \<noteq> None \<and> has_op r op) records)"
    by (rule Cons.IH) (rule Cons.prems, simp_all)
  have one: "sum_list (map (\<lambda>k. if has_op r op then if transfer_key r = Some k then 1 else 0 else (0 :: nat)) keys)
      = (if has_op r op \<and> transfer_key r \<in> Some ` set keys then 1 else 0)"
    using sum_count_distinct [OF assms(1), of "transfer_key r"] by (cases "has_op r op") simp_all
  have "sum_list (map (\<lambda>k. length (items_of op k (r # records))) keys)
      = sum_list (map (\<lambda>k. (if has_op r op then (if transfer_key r = Some k then 1 else 0) else 0)
          + length (items_of op k records)) keys)"
    by (rule arg_cong [where f = sum_list]) (auto simp: items_of_def)
  also have "\<dots> = (if has_op r op \<and> transfer_key r \<in> Some ` set keys then 1 else 0)
      + length (filter (\<lambda>r. transfer_key r \<noteq> None \<and> has_op r op) records)"
    unfolding sum_list_addf ih one ..
  also have "transfer_key r \<in> Some ` set keys \<longleftrightarrow> transfer_key r \<noteq> None"
    using Cons.prems [of r] by auto
  finally show ?case by auto
qed (simp add: items_of_def)

text \<open>
  C15. Transfers are conserved: in scope \<open>all\<close>, the matched pairs together with the unmatched writes
  are all keyed writes, and together with the unmatched reads all keyed reads; in every scope no
  count is negative and the exposed wall time, as a union, is at most the sum over the pairs.
\<close>

theorem transfers_conserved:
  assumes "collect_exposed_transport_metrics records = Inr v"
  shows "tv_pairs (v All_records) + tv_unmatched_writes (v All_records)
      = int (length (filter (\<lambda>r. transfer_key r \<noteq> None \<and> has_op r ''W'') records))
    \<and> tv_pairs (v All_records) + tv_unmatched_reads (v All_records)
      = int (length (filter (\<lambda>r. transfer_key r \<noteq> None \<and> has_op r ''R'') records))
    \<and> (\<forall>g. 0 \<le> tv_unmatched_writes (v g) \<and> 0 \<le> tv_unmatched_reads (v g)
         \<and> 0 \<le> tv_exposed_union_ns (v g) \<and> tv_exposed_union_ns (v g) \<le> tv_exposed_sum_ns (v g))"
proof -
  let ?keys = "transfer_keys records"
  from assms obtain t where t: "foldE (match_key records) ?keys
      \<lparr>ms_values = (\<lambda>_. empty_transport), ms_intervals = (\<lambda>_. []), ms_matched = 0\<rparr> = Inr t"
    and v: "v = (\<lambda>g. (ms_values t g)\<lparr>tv_exposed_union_ns := interval_union (ms_intervals t g)\<rparr>)"
    by (auto simp: collect_exposed_transport_metrics_def bindE_eq_Inr)
  have "intervals_ok \<lparr>ms_values = (\<lambda>_. empty_transport), ms_intervals = (\<lambda>_. []), ms_matched = 0\<rparr>"
    by (simp add: intervals_ok_def empty_transport_def)
  with match_keys_fold [OF t] have ok: "intervals_ok t" by blast
  have union: "0 \<le> interval_union (ms_intervals t g)
      \<and> interval_union (ms_intervals t g) \<le> tv_exposed_sum_ns (ms_values t g)" for g
    using ok wall_union.duration_nonneg [of "ms_intervals t g"] wall_union.duration_le_sum [of "ms_intervals t g"]
    by (auto simp: intervals_ok_def list_all_iff)
  have keys: "distinct ?keys" "\<And>r k. r \<in> set records \<Longrightarrow> transfer_key r = Some k \<Longrightarrow> k \<in> set ?keys"
    by (force simp: transfer_keys_def List.map_filter_def)+
  from match_keys_fold [OF t] union show ?thesis
    by (simp add: v items_of_total [OF keys] empty_transport_def)
qed

theorem transfers_conserved_witness:
  "\<exists>w r v. demo_loads ''w'' = Inr w \<and> demo_loads ''r'' = Inr r \<and> collect_exposed_transport_metrics [w, r, w] = Inr v
     \<and> tv_pairs (v All_records) + tv_unmatched_writes (v All_records) = 2"
proof -
  obtain w r where wr: "demo_loads ''w'' = Inr w" "demo_loads ''r'' = Inr r" by (simp add: demo_loads_def)
  then obtain v where v: "collect_exposed_transport_metrics [w, r, w] = Inr v"
    by (auto simp: metric_eval)
  have "length (filter (\<lambda>r. transfer_key r \<noteq> None \<and> has_op r ''W'') [w, r, w]) = 2"
    using wr by (auto simp: metric_eval)
  with transfers_conserved [OF v] wr v show ?thesis by auto
qed

text \<open>
  A report without a log file lacks keys that every report with a log file has: the eight
  \<open>sync_wall_union_ns\<close> and \<open>sync_wall_interval_count\<close> keys are missing from the defaults, and only
  those.
\<close>

theorem missing_log_lacks_union_keys:
  "\<exists>r. collect_pipe_metrics loads None = Inr r
     \<and> \<not> (\<exists>lines r'. collect_pipe_metrics loads (Some lines) = Inr r'
            \<and> mset (map fst (pipe_values r')) \<noteq> mset (map fst (pipe_values r))
                + mset (concat (map (\<lambda>g. [group_name g @ ''_sync_wall_union_ns'',
                    group_name g @ ''_sync_wall_interval_count'']) all_groups)))"
proof -
  obtain r where r: "collect_pipe_metrics loads None = Inr r" "pr_sync_union r = None"
    by (simp add: metric_eval)
  define ck tk where "ck g = map fst (counter_items g empty_counter)"
    and "tk g = map fst (transport_items g empty_transport)" for g
  have c: "map fst (counter_items g x) = ck g" for g x by (simp add: counter_items_def ck_def)
  have t: "map fst (transport_items g x) = tk g" for g x by (simp add: transport_items_def tk_def)
  have y: "map fst (sync_items g x) = [group_name g @ ''_sync_wall_union_ns'', group_name g @ ''_sync_wall_interval_count'']"
    for g x by (cases x) (simp add: sync_items_def)
  have keys: "map fst (pipe_values x) =
      concat (map ck all_groups)
      @ (case pr_sync_union x of None \<Rightarrow> [] | Some u \<Rightarrow> concat (map (\<lambda>g. [group_name g @ ''_sync_wall_union_ns'',
                    group_name g @ ''_sync_wall_interval_count'']) all_groups))
      @ concat (map tk all_groups)" for x
    unfolding pipe_values_def by (simp only: map_append map_concat map_map comp_def c t y list.map split: option.splits) simp
  have "mset (map fst (pipe_values r')) = mset (map fst (pipe_values r)) + mset (concat (map (\<lambda>g.
      [group_name g @ ''_sync_wall_union_ns'', group_name g @ ''_sync_wall_interval_count'']) all_groups))"
    if "collect_pipe_metrics loads (Some lines) = Inr r'" for lines r'
  proof -
    have "\<exists>u. pr_sync_union r' = Some u" using that by (auto simp: collect_pipe_metrics_def bindE_eq_Inr)
    then obtain u where "pr_sync_union r' = Some u" by blast
    with r(2) show ?thesis unfolding keys by (simp add: ac_simps)
  qed
  with r(1) show ?thesis by blast
qed

end
