(* ===== verification/PipeSpec.thy ===== *)
theory PipeSpec
  imports PyJson
begin

text \<open>
  The contract of a directional PipeComm pipe, stated once for the two Python implementations
  (the worker-local router and the broker). The abstract pipe is one first-in first-out queue of
  payloads per pipe name; a log of writes and deliveries is legal when it can be replayed on such
  queues. The locale \<open>pipe_store\<close> is what a store of queues promises, \<open>pipe_machine\<close> what a
  server built on it promises; the theorems about logs are proved in the locales and reach each
  server through an interpretation.
\<close>

section \<open>Abstract pipes\<close>

datatype pipe_event = Wrote string string | Delivered string string

type_synonym queues = "string \<Rightarrow> string list"

fun replay :: "queues \<Rightarrow> pipe_event list \<Rightarrow> queues option" where
  "replay q [] = Some q"
| "replay q (Wrote n p # es) = replay (q(n := q n @ [p])) es"
| "replay q (Delivered n p # es) =
     (case q n of [] \<Rightarrow> None | x # xs \<Rightarrow> if x = p then replay (q(n := xs)) es else None)"

fun writes_on :: "string \<Rightarrow> pipe_event list \<Rightarrow> string list" where
  "writes_on n [] = []"
| "writes_on n (Wrote m p # es) = (if m = n then p # writes_on n es else writes_on n es)"
| "writes_on n (Delivered m p # es) = writes_on n es"

fun reads_on :: "string \<Rightarrow> pipe_event list \<Rightarrow> string list" where
  "reads_on n [] = []"
| "reads_on n (Wrote m p # es) = reads_on n es"
| "reads_on n (Delivered m p # es) = (if m = n then p # reads_on n es else reads_on n es)"

lemma replay_append:
  "replay q (es @ fs) = (case replay q es of None \<Rightarrow> None | Some q' \<Rightarrow> replay q' fs)"
  by (induction q es rule: replay.induct) (auto split: list.splits simp: fun_upd_def)

text \<open>Order and exactly-once delivery: what was written is what was read, then what is queued.\<close>

lemma replay_fifo:
  "replay q es = Some q' \<Longrightarrow> q n @ writes_on n es = reads_on n es @ q' n"
proof (induction q es rule: replay.induct)
  case (1 q)
  then show ?case by simp
next
  case (2 q m p es)
  then show ?case by (cases "m = n") (auto simp: fun_upd_def)
next
  case (3 q m p es)
  then obtain xs where "q m = p # xs" "replay (q(m := xs)) es = Some q'"
    by (auto split: list.splits if_splits)
  with 3 show ?case by (cases "m = n") (auto simp: fun_upd_def)
qed

section \<open>Runs of a machine that emits events\<close>

inductive run :: "('m \<Rightarrow> 'e list \<Rightarrow> 'm \<Rightarrow> bool) \<Rightarrow> 'm \<Rightarrow> 'e list \<Rightarrow> 'm \<Rightarrow> bool" for step where
  run_nil: "run step a [] a"
| run_snoc: "run step a log b \<Longrightarrow> step b es c \<Longrightarrow> run step a (log @ es) c"

lemma run_single: "step a es b \<Longrightarrow> run step a es b"
  using run_snoc [OF run_nil] by fastforce

lemma run_two: "step a es b \<Longrightarrow> step b fs c \<Longrightarrow> run step a (es @ fs) c"
  by (rule run_snoc [OF run_single])

lemma run_trans: "run step b log2 c \<Longrightarrow> run step a log1 b \<Longrightarrow> run step a (log1 @ log2) c"
proof (induction rule: run.induct)
  case (run_nil b)
  then show ?case by simp
next
  case (run_snoc b log c es d)
  then have "run step a ((log1 @ log) @ es) d" by (blast intro: run.run_snoc)
  then show ?case by simp
qed

lemma run_invariant:
  assumes "run step a log b" and "P a" and "\<And>a es b. step a es b \<Longrightarrow> P a \<Longrightarrow> P b"
  shows "P b"
  using assms by (induction rule: run.induct) auto

section \<open>Interfaces\<close>

locale pipe_store =
  fixes put :: "'s \<Rightarrow> string \<Rightarrow> string \<Rightarrow> 's"
    and pop :: "'s \<Rightarrow> string \<Rightarrow> (string \<times> 's) option"
    and queued :: "'s \<Rightarrow> queues"
  assumes queued_put: "queued (put s n p) = (queued s)(n := queued s n @ [p])"
    and pop_None: "pop s n = None \<longleftrightarrow> queued s n = []"
    and pop_Some: "pop s n = Some (p, s') \<Longrightarrow>
      queued s n = p # queued s' n \<and> (\<forall>m. m \<noteq> n \<longrightarrow> queued s' m = queued s m)"
begin

lemma put_replays: "replay (queued s) [Wrote n p] = Some (queued (put s n p))"
  by (simp add: queued_put)

lemma pop_replays:
  assumes "pop s n = Some (p, s')"
  shows "replay (queued s) [Delivered n p] = Some (queued s')"
proof -
  from pop_Some [OF assms] have "queued s n = p # queued s' n"
    and "(queued s)(n := queued s' n) = queued s'"
    by (auto simp: fun_eq_iff)
  then show ?thesis by simp
qed

lemma pop_put_empty:
  assumes "queued s n = []"
  shows "\<exists>s'. pop (put s n p) n = Some (p, s') \<and> queued s' = queued s"
proof -
  have "pop (put s n p) n \<noteq> None" using assms by (simp add: pop_None queued_put)
  then obtain x s' where x: "pop (put s n p) n = Some (x, s')" by auto
  from pop_Some [OF this] assms have "x = p" "queued s' n = []"
    and "\<And>m. m \<noteq> n \<Longrightarrow> queued s' m = queued s m"
    by (auto simp: queued_put)
  then have "queued s' m = queued s m" for m using assms by (cases "m = n") auto
  then have "queued s' = queued s" by (rule ext)
  with x \<open>x = p\<close> show ?thesis by blast
qed

end

locale pipe_machine = pipe_store put pop queued
  for put :: "'s \<Rightarrow> string \<Rightarrow> string \<Rightarrow> 's" and pop and queued +
  fixes step :: "'m \<Rightarrow> pipe_event list \<Rightarrow> 'm \<Rightarrow> bool"
    and store :: "'m \<Rightarrow> 's"
  assumes step_replays: "step a es b \<Longrightarrow> replay (queued (store a)) es = Some (queued (store b))"
begin

lemma run_replays:
  "run step a log b \<Longrightarrow> replay (queued (store a)) log = Some (queued (store b))"
proof (induction rule: run.induct)
  case (run_nil a)
  then show ?case by simp
next
  case (run_snoc a log b es c)
  then show ?case by (simp add: replay_append step_replays)
qed

lemma run_fifo:
  assumes "run step a log b"
  shows "queued (store a) n @ writes_on n log = reads_on n log @ queued (store b) n"
  using run_replays [OF assms] by (rule replay_fifo)

end

end
