(* ===== verification/Base64.thy ===== *)
theory Base64
  imports PyText
begin

text \<open>
  \<open>base64.b64encode\<close> and \<open>base64.b64decode(..., validate=True)\<close> on byte strings, as the broker, its
  client and the process proxy use them: the standard alphabet, groups of three bytes, padding in
  the last group only (strict mode). The round trip holds for every byte string.
\<close>

definition b64_alphabet :: string where
  "b64_alphabet = ''ABCDEFGHIJKLMNOPQRSTUVWXYZabcdefghijklmnopqrstuvwxyz0123456789+/''"

definition b64_char :: "nat \<Rightarrow> char" where
  "b64_char n = b64_alphabet ! n"

definition b64_val :: "char \<Rightarrow> nat option" where
  "b64_val c = (case find (\<lambda>(i, d). d = c) (enumerate 0 b64_alphabet) of None \<Rightarrow> None | Some (i, d) \<Rightarrow> Some i)"

fun b64encode :: "string \<Rightarrow> string" where
  "b64encode [] = []"
| "b64encode [a] = (let x = of_char a
     in [b64_char (x div 4), b64_char (x mod 4 * 16), CHR ''='', CHR ''=''])"
| "b64encode [a, b] = (let x = of_char a; y = of_char b
     in [b64_char (x div 4), b64_char (x mod 4 * 16 + y div 16), b64_char (y mod 16 * 4), CHR ''=''])"
| "b64encode (a # b # c # r) = (let x = of_char a; y = of_char b; z = of_char c
     in [b64_char (x div 4), b64_char (x mod 4 * 16 + y div 16), b64_char (y mod 16 * 4 + z div 64),
         b64_char (z mod 64)] @ b64encode r)"

definition b64_tail :: "char \<Rightarrow> char \<Rightarrow> char \<Rightarrow> char \<Rightarrow> string option" where
  "b64_tail p q r s =
     (case (b64_val p, b64_val q) of
        (Some i, Some j) \<Rightarrow>
          (if r = CHR ''='' \<and> s = CHR ''='' then Some [char_of (i * 4 + j div 16)]
           else (case b64_val r of
                   Some k \<Rightarrow>
                     (if s = CHR ''='' then Some [char_of (i * 4 + j div 16), char_of (j mod 16 * 16 + k div 4)]
                      else (case b64_val s of
                              Some l \<Rightarrow> Some [char_of (i * 4 + j div 16), char_of (j mod 16 * 16 + k div 4),
                                             char_of (k mod 4 * 64 + l)]
                            | None \<Rightarrow> None))
                 | None \<Rightarrow> None))
      | _ \<Rightarrow> None)"

fun b64_groups :: "string \<Rightarrow> string option" where
  "b64_groups [] = Some []"
| "b64_groups [p, q, r, s] = b64_tail p q r s"
| "b64_groups (p # q # r # s # rest) =
     (if s = CHR ''='' \<or> r = CHR ''='' then None
      else case (b64_tail p q r s, b64_groups rest) of
        (Some xs, Some ys) \<Rightarrow> Some (xs @ ys)
      | _ \<Rightarrow> None)"
| "b64_groups _ = None"

definition b64decode :: "string \<Rightarrow> string res" where
  "b64decode s = (if \<not> is_ascii s then Inl (ValueError ''string argument should contain only ASCII characters'')
     else case b64_groups s of None \<Rightarrow> Inl BinasciiError | Some bytes \<Rightarrow> Inr bytes)"

text \<open>Without \<open>validate\<close> the characters outside the alphabet are discarded first.\<close>

definition b64decode_lax :: "string \<Rightarrow> string res" where
  "b64decode_lax s = b64decode (filter (\<lambda>c. c = CHR ''='' \<or> b64_val c \<noteq> None) s)"

section \<open>Round trip\<close>

lemma b64_alphabet_table:
  "list_all (\<lambda>n. b64_val (b64_char n) = Some n \<and> b64_char n \<noteq> CHR ''='' \<and> (of_char (b64_char n) :: nat) < 128
     \<and> b64_char n \<noteq> newline) [0..<64]"
  by code_simp

lemma b64_char_facts:
  assumes "n < 64"
  shows "b64_val (b64_char n) = Some n" "b64_char n \<noteq> CHR ''=''" "(of_char (b64_char n) :: nat) < 128"
    "b64_char n \<noteq> newline"
  using b64_alphabet_table assms by (auto simp: list_all_iff)

text \<open>Six-bit groups of bytes.\<close>

lemma byte_parts:
  "(of_char c :: nat) div 4 < 64" "(of_char c :: nat) div 16 < 16" "(of_char c :: nat) div 64 < 4"
  by (simp_all add: div_less_iff_less_mult)

lemma byte_parts_again [simp]:
  "(of_char c :: nat) div 16 div 16 = 0" "(of_char c :: nat) div 16 mod 16 = of_char c div 16"
  "(of_char c :: nat) div 64 div 4 = 0" "(of_char c :: nat) div 64 mod 4 = of_char c div 64"
  using byte_parts [of c] by (simp_all add: div_eq_0_iff)

lemma sextets:
  "(of_char a :: nat) mod 4 * 16 < 64" "(of_char b :: nat) mod 16 * 4 < 64" "(of_char c :: nat) mod 64 < 64"
  "(of_char a :: nat) mod 4 * 16 + of_char b div 16 < 64" "(of_char b :: nat) mod 16 * 4 + of_char c div 64 < 64"
proof -
  have "(of_char a :: nat) mod 4 < 4" "(of_char b :: nat) mod 16 < 16" by simp_all
  then show "(of_char a :: nat) mod 4 * 16 < 64" "(of_char b :: nat) mod 16 * 4 < 64"
    "(of_char a :: nat) mod 4 * 16 + of_char b div 16 < 64" "(of_char b :: nat) mod 16 * 4 + of_char c div 64 < 64"
    using byte_parts [of b] byte_parts [of c] by linarith+
qed simp

lemmas sextet_facts = b64_char_facts byte_parts sextets

lemma b64_tail_encode:
  "b64_tail (b64_char (of_char a div 4)) (b64_char (of_char a mod 4 * 16)) (CHR ''='') (CHR ''='') = Some [a]"
  "b64_tail (b64_char (of_char a div 4)) (b64_char (of_char a mod 4 * 16 + of_char b div 16))
     (b64_char (of_char b mod 16 * 4)) (CHR ''='') = Some [a, b]"
  "b64_tail (b64_char (of_char a div 4)) (b64_char (of_char a mod 4 * 16 + of_char b div 16))
     (b64_char (of_char b mod 16 * 4 + of_char c div 64)) (b64_char (of_char c mod 64)) = Some [a, b, c]"
  by (simp_all add: b64_tail_def sextet_facts)

lemma b64_groups_encode: "b64_groups (b64encode s) = Some s"
proof (induction s rule: b64encode.induct)
  case (4 a b c r)
  show ?case
  proof (cases "b64encode r")
    case Nil
    with 4 have "r = []" by simp
    then show ?thesis by (simp add: Let_def b64_tail_encode)
  next
    case (Cons p ps)
    with 4 show ?thesis
      by (simp add: Let_def b64_tail_encode sextet_facts)
  qed
qed (simp_all add: Let_def b64_tail_encode)

lemma b64encode_plain: "c \<in> set (b64encode s) \<Longrightarrow> (of_char c :: nat) < 128 \<and> c \<noteq> newline"
proof (induction s rule: b64encode.induct)
  have "CHR ''='' \<noteq> newline" by (simp add: newline_def)
  then show "c \<in> set (b64encode [a]) \<Longrightarrow> (of_char c :: nat) < 128 \<and> c \<noteq> newline"
    and "c \<in> set (b64encode [a, b]) \<Longrightarrow> (of_char c :: nat) < 128 \<and> c \<noteq> newline" for a b
    by (auto simp: Let_def sextet_facts)
qed (auto simp: Let_def sextet_facts)

lemma b64encode_alphabet: "c \<in> set (b64encode s) \<Longrightarrow> c = CHR ''='' \<or> b64_val c \<noteq> None"
  by (induction s rule: b64encode.induct) (auto simp: Let_def sextet_facts)

lemma b64decode_b64encode: "b64decode (b64encode s) = Inr s"
  using b64encode_plain [of _ s] by (simp add: b64decode_def b64_groups_encode is_ascii_def list_all_iff)

lemma b64decode_lax_b64encode: "b64decode_lax (b64encode s) = Inr s"
proof -
  have "filter (\<lambda>c. c = CHR ''='' \<or> b64_val c \<noteq> None) (b64encode s) = b64encode s"
    using b64encode_alphabet by (auto simp: filter_id_conv)
  then show ?thesis by (simp add: b64decode_lax_def b64decode_b64encode)
qed

end
