(* ===== verification/FifoBroker.thy ===== *)
theory FifoBroker
  imports PipeSpec Base64
begin

text \<open>
  The TCP broker (\<open>real/fifo_broker.py\<close>) and its client (\<open>real/fifo_client.py\<close>). A connection
  carries one request, a JSON object on one line or the native header \<open>W name bytes\<close> or
  \<open>R name bytes\<close>. \<open>json_request\<close> and \<open>native_request\<close> are the two parsing halves of the
  handler; both lead to the same queue operations, so \<open>broker_step\<close> has one rule for each atomic
  section of the concurrent handlers. Each pipe has its own condition: a write notifies one waiter,
  the first that is not yet notified. A read whose payload has another size than asked takes the
  payload and then raises. The JSON text functions of the standard library and the text of a list
  or a dictionary as a pipe name are the parameter \<open>codec\<close>. Every line is read with the limit of the stream,
  64 KiB, at the broker and at the client.
\<close>

section \<open>Requests\<close>

record codec =
  cd_loads :: "string \<Rightarrow> json res"
  cd_str :: "json \<Rightarrow> string"
  cd_dumps :: "json \<Rightarrow> string"

datatype wire = Json | Native

datatype broker_request =
    WriteReq (req_wire: wire) (req_name: string) (req_payload: string)
  | ReadReq (req_wire: wire) (req_name: string) (req_bytes: int)

text \<open>\<open>str(value)\<close> of a parsed JSON value.\<close>

fun json_str :: "codec \<Rightarrow> json \<Rightarrow> string" where
  "json_str cd (JStr s) = s"
| "json_str cd (JInt i) = str_int i"
| "json_str cd (JBool b) = (if b then ''True'' else ''False'')"
| "json_str cd JNull = ''None''"
| "json_str cd j = cd_str cd j"

fun json_item :: "json \<Rightarrow> string \<Rightarrow> json res" where
  "json_item (JObj d) k = dict_item d k"
| "json_item _ k = Inl (TypeError ''indices must be integers'')"

fun json_payload :: "json \<Rightarrow> string res" where
  "json_payload (JStr s) = b64decode s"
| "json_payload _ = Inl (TypeError ''argument should be a bytes-like object or ASCII string'')"

definition json_request :: "codec \<Rightarrow> int \<Rightarrow> string \<Rightarrow> broker_request res" where
  "json_request cd max_payload_bytes header =
     bindE (decode_utf8 header) (\<lambda>text.
     bindE (cd_loads cd text) (\<lambda>request.
     bindE (json_item request ''pipe'') (\<lambda>pipe.
     bindE (json_item request ''op'') (\<lambda>op.
       let name = json_str cd pipe; operation = json_str cd op
       in if operation = ''write''
          then bindE (json_item request ''payload'') (\<lambda>p.
               bindE (json_payload p) (\<lambda>payload.
                 if int (length payload) > max_payload_bytes
                 then Inl (ValueError ''payload exceeds configured limit'')
                 else Inr (WriteReq Json name payload)))
          else if operation = ''read''
          then bindE (json_item request ''bytes'') (\<lambda>b.
               bindE (json_int b) (\<lambda>expected.
                 if expected < 0 \<or> expected > max_payload_bytes
                 then Inl (ValueError ''invalid requested byte count'')
                 else Inr (ReadReq Json name expected)))
          else Inl (ValueError (''unsupported operation: '' @ operation))))))"

text \<open>The header is split at the first two blanks; a wrong number of parts is a \<open>ValueError\<close>.\<close>

fun native_fields :: "string list \<Rightarrow> int \<Rightarrow> string \<Rightarrow> broker_request res" where
  "native_fields [operation, name, byte_count_text] max_payload_bytes rest =
     bindE (int_text byte_count_text) (\<lambda>byte_count.
       if byte_count < 0 \<or> byte_count > max_payload_bytes then Inl (ValueError ''invalid payload size'')
       else if operation = ''W''
       then bindE (readexactly (nat byte_count) rest) (\<lambda>(payload, _). Inr (WriteReq Native name payload))
       else if operation = ''R'' then Inr (ReadReq Native name byte_count)
       else Inl (ValueError (''unsupported native operation: '' @ operation)))"
| "native_fields _ max_payload_bytes rest = Inl (ValueError ''not enough values to unpack (expected 3)'')"

definition native_request :: "int \<Rightarrow> string \<Rightarrow> string \<Rightarrow> broker_request res" where
  "native_request max_payload_bytes header rest =
     bindE (decode_utf8 header) (\<lambda>text.
       native_fields (split_max (CHR '' '') 2 (rstrip_newline text)) max_payload_bytes rest)"

section \<open>Answers\<close>

datatype answer = JsonAnswer jobj | NativeAnswer string

fun write_answer :: "wire \<Rightarrow> string \<Rightarrow> answer" where
  "write_answer Json payload = JsonAnswer [(''ok'', JBool True), (''bytes'', JInt (int (length payload)))]"
| "write_answer Native payload = NativeAnswer (''OK'' @ [newline])"

fun read_answer :: "wire \<Rightarrow> string \<Rightarrow> answer" where
  "read_answer Json payload = JsonAnswer [(''ok'', JBool True), (''payload'', JStr (b64encode payload))]"
| "read_answer Native payload = NativeAnswer (''OK '' @ show_nat (length payload) @ [newline] @ payload)"

fun error_answer :: "wire \<Rightarrow> py_error \<Rightarrow> answer" where
  "error_answer Json e = JsonAnswer [(''ok'', JBool False), (''error'', JStr (error_text e))]"
| "error_answer Native e = NativeAnswer (''ERR '' @ error_text e @ [newline])"

text \<open>What the handler does with a payload it has taken from the queue.\<close>

definition taken_answer :: "wire \<Rightarrow> int \<Rightarrow> string \<Rightarrow> answer" where
  "taken_answer wire expected payload =
     (if int (length payload) \<noteq> expected
      then error_answer wire (ValueError (''payload size mismatch: expected '' @ str_int expected
             @ '', got '' @ show_nat (length payload)))
      else read_answer wire payload)"

text \<open>The first line decides the protocol; an empty connection gets no answer.\<close>

datatype parsed = NoRequest | Rejected wire py_error | Accepted broker_request

definition parse_connection :: "codec \<Rightarrow> int \<Rightarrow> string \<Rightarrow> parsed" where
  "parse_connection cd max_payload_bytes input =
     (case readline input of
        Inl e \<Rightarrow> Rejected Json e
      | Inr (header, rest) \<Rightarrow>
          (case header of
             [] \<Rightarrow> NoRequest
           | c # cs \<Rightarrow>
               if c \<noteq> CHR 0x7B
               then (case native_request max_payload_bytes header rest of
                       Inl e \<Rightarrow> Rejected Native e | Inr rq \<Rightarrow> Accepted rq)
               else (case json_request cd max_payload_bytes header of
                       Inl e \<Rightarrow> Rejected Json e | Inr rq \<Rightarrow> Accepted rq)))"

text \<open>A message as the line that carries it, and the bytes of an answer.\<close>

definition json_line :: "codec \<Rightarrow> jobj \<Rightarrow> string" where
  "json_line cd d = cd_dumps cd (JObj d) @ [newline]"

fun answer_bytes :: "codec \<Rightarrow> answer \<Rightarrow> string" where
  "answer_bytes cd (JsonAnswer d) = json_line cd d"
| "answer_bytes cd (NativeAnswer s) = s"

section \<open>The concurrent broker\<close>

datatype blocked = Blocked (b_conn: nat) (b_wire: wire) (b_name: string) (b_expected: int) (b_notified: bool)

record broker =
  br_max_payload_bytes :: int
  br_messages :: queues
  br_waiting :: "blocked list"
  br_answers :: "(nat \<times> answer) list"

definition init_broker :: "int \<Rightarrow> broker" where
  "init_broker max_payload_bytes = \<lparr>br_max_payload_bytes = max_payload_bytes, br_messages = (\<lambda>_. []),
     br_waiting = [], br_answers = []\<rparr>"

definition append_message :: "queues \<Rightarrow> string \<Rightarrow> string \<Rightarrow> queues" where
  "append_message q name payload = q(name := q name @ [payload])"

definition pop_message :: "queues \<Rightarrow> string \<Rightarrow> (string \<times> queues) option" where
  "pop_message q name = (case q name of [] \<Rightarrow> None | p # ps \<Rightarrow> Some (p, q(name := ps)))"

text \<open>\<open>notify(1)\<close> on the condition of one pipe.\<close>

fun notify_one :: "string \<Rightarrow> blocked list \<Rightarrow> blocked list" where
  "notify_one name [] = []"
| "notify_one name (b # bs) =
     (if b_name b = name \<and> \<not> b_notified b
      then Blocked (b_conn b) (b_wire b) (b_name b) (b_expected b) True # bs
      else b # notify_one name bs)"

definition answer_to :: "nat \<Rightarrow> answer \<Rightarrow> broker \<Rightarrow> broker" where
  "answer_to c a s = s\<lparr>br_answers := br_answers s @ [(c, a)]\<rparr>"

inductive broker_step :: "codec \<Rightarrow> broker \<Rightarrow> pipe_event list \<Rightarrow> broker \<Rightarrow> bool" for cd where
  br_empty: "parse_connection cd (br_max_payload_bytes s) input = NoRequest \<Longrightarrow> broker_step cd s [] s"
| br_reject: "parse_connection cd (br_max_payload_bytes s) input = Rejected wire e \<Longrightarrow>
     broker_step cd s [] (answer_to c (error_answer wire e) s)"
| br_write: "parse_connection cd (br_max_payload_bytes s) input = Accepted (WriteReq wire name payload) \<Longrightarrow>
     broker_step cd s [Wrote name payload]
       (answer_to c (write_answer wire payload)
         (s\<lparr>br_messages := append_message (br_messages s) name payload,
            br_waiting := notify_one name (br_waiting s)\<rparr>))"
| br_read: "parse_connection cd (br_max_payload_bytes s) input = Accepted (ReadReq wire name expected) \<Longrightarrow>
     pop_message (br_messages s) name = Some (payload, q) \<Longrightarrow>
     broker_step cd s [Delivered name payload]
       (answer_to c (taken_answer wire expected payload) (s\<lparr>br_messages := q\<rparr>))"
| br_block: "parse_connection cd (br_max_payload_bytes s) input = Accepted (ReadReq wire name expected) \<Longrightarrow>
     pop_message (br_messages s) name = None \<Longrightarrow>
     broker_step cd s [] (s\<lparr>br_waiting := br_waiting s @ [Blocked c wire name expected False]\<rparr>)"
| br_wake_take: "br_waiting s = ws1 @ Blocked c wire name expected True # ws2 \<Longrightarrow>
     pop_message (br_messages s) name = Some (payload, q) \<Longrightarrow>
     broker_step cd s [Delivered name payload]
       (answer_to c (taken_answer wire expected payload) (s\<lparr>br_messages := q, br_waiting := ws1 @ ws2\<rparr>))"
| br_wake_block: "br_waiting s = ws1 @ Blocked c wire name expected True # ws2 \<Longrightarrow>
     pop_message (br_messages s) name = None \<Longrightarrow>
     broker_step cd s [] (s\<lparr>br_waiting := ws1 @ ws2 @ [Blocked c wire name expected False]\<rparr>)"

inductive_cases broker_stepE: "broker_step cd s es t"

section \<open>The client\<close>

definition write_request :: "string \<Rightarrow> string \<Rightarrow> jobj" where
  "write_request pipe data =
     [(''op'', JStr ''write''), (''pipe'', JStr pipe), (''payload'', JStr (b64encode data))]"

definition read_request_of :: "string \<Rightarrow> int \<Rightarrow> jobj" where
  "read_request_of pipe bytes = [(''op'', JStr ''read''), (''pipe'', JStr pipe), (''bytes'', JInt bytes)]"

text \<open>\<open>call\<close> after the answer line is parsed, and the decoding in \<open>main\<close>.\<close>

definition call_result :: "codec \<Rightarrow> jobj \<Rightarrow> jobj res" where
  "call_result cd response =
     (if truthy (jget response ''ok'') then Inr response
      else bindE (dict_item response ''error'') (\<lambda>e. Inl (RuntimeError (json_str cd e))))"

definition client_payload :: "codec \<Rightarrow> jobj \<Rightarrow> string res" where
  "client_payload cd response =
     bindE (call_result cd response) (\<lambda>r.
     bindE (dict_item r ''payload'') (\<lambda>p.
     bindE (b64decode_lax (json_str cd p)) decode_utf8))"

text \<open>The message on the next line of a connection, which must be an object.\<close>

definition receive_object :: "codec \<Rightarrow> string \<Rightarrow> jobj res" where
  "receive_object cd input =
     bindE (readline input) (\<lambda>(line, _).
     bindE (decode_utf8 line) (\<lambda>text.
     bindE (cd_loads cd text) (\<lambda>message.
       case message of JObj d \<Rightarrow> Inr d | _ \<Rightarrow> Inl (TypeError ''object has no attribute get''))))"

definition client_call :: "codec \<Rightarrow> string \<Rightarrow> jobj res" where
  "client_call cd input = bindE (receive_object cd input) (call_result cd)"

definition client_read :: "codec \<Rightarrow> string \<Rightarrow> string res" where
  "client_read cd input = bindE (receive_object cd input) (client_payload cd)"

section \<open>The broker implements the pipe contract\<close>

interpretation broker_store: pipe_store append_message pop_message id
  by unfold_locales (auto simp: append_message_def pop_message_def split: list.splits)

lemma broker_step_replays:
  "broker_step cd s es t \<Longrightarrow> replay (br_messages s) es = Some (br_messages t)"
proof (induction rule: broker_step.induct)
  case (br_write s input wire name payload c)
  then show ?case using broker_store.put_replays [of "br_messages s" name payload] by (simp add: answer_to_def)
next
  case (br_read s input wire name expected payload q c)
  then show ?case using broker_store.pop_replays [of "br_messages s" name payload q] by (simp add: answer_to_def)
next
  case (br_wake_take s ws1 c wire name expected ws2 payload q)
  then show ?case using broker_store.pop_replays [of "br_messages s" name payload q] by (simp add: answer_to_def)
qed (simp_all add: answer_to_def)

interpretation broker_machine: pipe_machine append_message pop_message id "broker_step cd" br_messages for cd
  by unfold_locales (simp add: broker_step_replays)

text \<open>
  C5. Whatever the interleaving of connections, the payloads the broker takes from a pipe are the
  payloads written to it, in order and each once, and the rest is still queued.
\<close>

theorem broker_fifo_delivery:
  assumes "run (broker_step cd) (init_broker limit) log s"
  shows "writes_on n log = reads_on n log @ br_messages s n"
  using broker_machine.run_fifo [OF assms, of n] by (simp add: init_broker_def)

definition plain_codec :: codec where
  "plain_codec = \<lparr>cd_loads = (\<lambda>_. Inl JSONDecodeError), cd_str = (\<lambda>_. []), cd_dumps = (\<lambda>_. [])\<rparr>"

lemma example_parse:
  "parse_connection plain_codec 64 (''W p 3'' @ newline # ''abc'') = Accepted (WriteReq Native ''p'' ''abc'')"
  "parse_connection plain_codec 64 (''R p 2'' @ [newline]) = Accepted (ReadReq Native ''p'' 2)"
  "parse_connection plain_codec 64 (''R p 3'' @ [newline]) = Accepted (ReadReq Native ''p'' 3)"
  by (simp_all add: parse_connection_def native_request_def stream_eval decode_utf8_def numeral_2_eq_2)

text \<open>A write of three bytes and then a read of two on the same pipe.\<close>

lemma example_write:
  "broker_step plain_codec (init_broker 64) [Wrote ''p'' ''abc'']
     (answer_to 0 (NativeAnswer (''OK'' @ [newline])) ((init_broker 64)\<lparr>br_messages := (\<lambda>_. [])(''p'' := [''abc''])\<rparr>))"
  using broker_step.br_write [of plain_codec "init_broker 64" _ Native "''p''" "''abc''" 0] example_parse(1)
  by (simp add: init_broker_def append_message_def)

theorem broker_fifo_delivery_witness:
  "\<exists>s. run (broker_step plain_codec) (init_broker 64) [Wrote ''p'' ''abc''] s
     \<and> writes_on ''p'' [Wrote ''p'' ''abc''] = reads_on ''p'' [Wrote ''p'' ''abc''] @ br_messages s ''p''"
  using broker_fifo_delivery [OF run_single [where step = "broker_step plain_codec", OF example_write]]
    run_single [where step = "broker_step plain_codec", OF example_write] by blast

section \<open>Wake-ups\<close>

definition waiting_on :: "string \<Rightarrow> bool \<Rightarrow> blocked list \<Rightarrow> nat" where
  "waiting_on n notified ws = length (filter (\<lambda>b. b_name b = n \<and> b_notified b = notified) ws)"

lemma waiting_on_simps [simp]:
  "waiting_on n v [] = 0"
  "waiting_on n v (b # ws) = (if b_name b = n \<and> b_notified b = v then 1 else 0) + waiting_on n v ws"
  "waiting_on n v (ws @ us) = waiting_on n v ws + waiting_on n v us"
  by (simp_all add: waiting_on_def)

text \<open>While a reader of a pipe sleeps, every queued payload has a notified reader of its own.\<close>

definition wakeups_kept :: "broker \<Rightarrow> bool" where
  "wakeups_kept s \<longleftrightarrow> (\<forall>n. 0 < waiting_on n False (br_waiting s) \<longrightarrow>
     length (br_messages s n) \<le> waiting_on n True (br_waiting s))"

lemma waiting_on_notify_one [simp]:
  "waiting_on n v (notify_one m ws) =
     (if m = n \<and> 0 < waiting_on n False ws
      then (if v then Suc (waiting_on n v ws) else waiting_on n v ws - 1) else waiting_on n v ws)"
  by (induction m ws rule: notify_one.induct) auto

lemma pop_message_Some:
  "pop_message q n = Some (p, q') \<longleftrightarrow> (\<exists>ps. q n = p # ps \<and> q' = q(n := ps))"
  by (auto simp: pop_message_def split: list.splits)

lemma pop_message_None: "pop_message q n = None \<longleftrightarrow> q n = []"
  by (simp add: pop_message_def split: list.splits)

definition kept_on :: "string \<Rightarrow> queues \<Rightarrow> blocked list \<Rightarrow> bool" where
  "kept_on n q ws \<longleftrightarrow> (0 < waiting_on n False ws \<longrightarrow> length (q n) \<le> waiting_on n True ws)"

lemma kept_on_steps:
  "kept_on n q ws \<Longrightarrow> kept_on n (append_message q m p) (notify_one m ws)"
  "pop_message q m = Some (p, q') \<Longrightarrow> kept_on n q ws \<Longrightarrow> kept_on n q' ws"
  "pop_message q m = None \<Longrightarrow> kept_on n q ws \<Longrightarrow> kept_on n q (ws @ [Blocked c wire m k False])"
  "pop_message q m = Some (p, q') \<Longrightarrow> kept_on n q (ws @ Blocked c wire m k True # us) \<Longrightarrow> kept_on n q' (ws @ us)"
  "pop_message q m = None \<Longrightarrow> kept_on n q (ws @ Blocked c wire m k True # us) \<Longrightarrow>
     kept_on n q (ws @ us @ [Blocked c wire m k False])"
  by (cases "n = m"; auto simp: kept_on_def append_message_def pop_message_Some pop_message_None)+

lemma wakeups_kept_iff: "wakeups_kept s \<longleftrightarrow> (\<forall>n. kept_on n (br_messages s) (br_waiting s))"
  by (simp add: wakeups_kept_def kept_on_def)

lemma broker_step_wakeups: "broker_step cd s es t \<Longrightarrow> wakeups_kept s \<Longrightarrow> wakeups_kept t"
  by (induction rule: broker_step.induct)
    (simp_all add: wakeups_kept_iff answer_to_def kept_on_steps, (blast intro: kept_on_steps)+)

text \<open>A pipe with a queued payload and a blocked reader has a notified reader.\<close>

lemma notified_reader:
  assumes "run (broker_step cd) (init_broker limit) log s"
    and "br_messages s n \<noteq> []" and "b \<in> set (br_waiting s)" and "b_name b = n"
  shows "\<exists>c wire expected. Blocked c wire n expected True \<in> set (br_waiting s)"
proof -
  have "wakeups_kept (init_broker limit)" by (simp add: wakeups_kept_def init_broker_def)
  then have kept: "wakeups_kept s"
    using run_invariant [where P = wakeups_kept, OF assms(1)] broker_step_wakeups by blast
  have "\<exists>w \<in> set (br_waiting s). b_name w = n \<and> b_notified w"
  proof (cases "b_notified b")
    case False
    with assms(3,4) have "b \<in> set (filter (\<lambda>b. b_name b = n \<and> b_notified b = False) (br_waiting s))" by simp
    then have "0 < waiting_on n False (br_waiting s)" unfolding waiting_on_def by (metis length_pos_if_in_set)
    with kept have "length (br_messages s n) \<le> waiting_on n True (br_waiting s)" by (simp add: wakeups_kept_def)
    with assms(2) have "0 < waiting_on n True (br_waiting s)" by (cases "br_messages s n") auto
    then obtain w where "w \<in> set (filter (\<lambda>b. b_name b = n \<and> b_notified b = True) (br_waiting s))"
      unfolding waiting_on_def by (metis length_greater_0_conv list.set_intros(1) neq_Nil_conv)
    then show ?thesis by auto
  qed (use assms in blast)
  then show ?thesis by (metis blocked.exhaust_sel)
qed

text \<open>
  C6. No wake-up is lost in the broker: in every reachable state in which a pipe has a queued payload and a
  blocked reader, and the readers that are blocked on it ask for its size, as the protocol documents it,
  some notified reader can take the payload in one step, and it is answered with the whole payload.
\<close>

theorem broker_reader_progress:
  assumes "run (broker_step cd) (init_broker limit) log s"
    and "br_messages s n = p # ps" and "b \<in> set (br_waiting s)" and "b_name b = n"
    and "\<And>w. w \<in> set (br_waiting s) \<Longrightarrow> b_name w = n \<Longrightarrow> b_expected w = int (length p)"
  shows "\<exists>w t. w \<in> set (br_waiting s) \<and> b_name w = n \<and> b_notified w \<and> broker_step cd s [Delivered n p] t
    \<and> br_messages t = (br_messages s)(n := ps) \<and> length (br_waiting t) < length (br_waiting s)
    \<and> br_answers t = br_answers s @ [(b_conn w, read_answer (b_wire w) p)]"
proof -
  obtain c wire expected where w: "Blocked c wire n expected True \<in> set (br_waiting s)"
    using notified_reader [OF assms(1) _ assms(3,4)] assms(2) by auto
  then obtain ws1 ws2 where ws: "br_waiting s = ws1 @ Blocked c wire n expected True # ws2" by (metis split_list)
  have "expected = int (length p)" using assms(5) [OF w] by simp
  moreover have "pop_message (br_messages s) n = Some (p, (br_messages s)(n := ps))" by (simp add: pop_message_Some assms(2))
  ultimately show ?thesis using broker_step.br_wake_take [OF ws, of p _ cd] ws
    by (intro exI [of _ "Blocked c wire n expected True"] exI conjI) (auto simp: answer_to_def taken_answer_def)
qed

lemma example_block_then_write:
  "\<exists>s. run (broker_step plain_codec) (init_broker 64) [Wrote ''p'' ''abc''] s
     \<and> br_messages s ''p'' = [''abc''] \<and> br_waiting s = [Blocked 1 Native ''p'' 3 True]"
proof -
  let ?a = "(init_broker 64)\<lparr>br_waiting := [Blocked 1 Native ''p'' 3 False]\<rparr>"
  have a: "broker_step plain_codec (init_broker 64) [] ?a"
    using broker_step.br_block [of plain_codec "init_broker 64" _ Native "''p''" 3 1] example_parse(3)
    by (simp add: init_broker_def pop_message_def)
  obtain s where s: "broker_step plain_codec ?a [Wrote ''p'' ''abc''] s"
    "br_messages s ''p'' = [''abc'']" "br_waiting s = [Blocked 1 Native ''p'' 3 True]"
    using broker_step.br_write [of plain_codec ?a _ Native "''p''" "''abc''" 0] example_parse(1)
    by (force simp: init_broker_def append_message_def answer_to_def)
  have "run (broker_step plain_codec) (init_broker 64) ([] @ [Wrote ''p'' ''abc'']) s"
    by (rule run_two [where b = ?a]) (fact a s(1))+
  with s show ?thesis by auto
qed

theorem broker_reader_progress_witness:
  "\<exists>s t. run (broker_step plain_codec) (init_broker 64) [Wrote ''p'' ''abc''] s \<and> broker_step plain_codec s [Delivered ''p'' ''abc''] t
    \<and> br_answers t = br_answers s @ [(1, NativeAnswer (''OK 3'' @ [newline] @ ''abc''))]"
proof -
  obtain s where s: "run (broker_step plain_codec) (init_broker 64) [Wrote ''p'' ''abc''] s"
    "br_messages s ''p'' = [''abc'']" "br_waiting s = [Blocked 1 Native ''p'' 3 True]"
    using example_block_then_write by blast
  have "Blocked 1 Native ''p'' 3 True \<in> set (br_waiting s)" by (simp add: s(3))
  from broker_reader_progress [OF s(1,2) this] s show ?thesis by (auto simp: text_eval)
qed

text \<open>
  A read of another size than the queued payload destroys the payload: the broker takes it from
  the queue, answers with an error, and the payload is neither delivered nor queued any more. The
  documentation of the native protocol says that such a read waits for a payload of the same size.
\<close>

theorem broker_mismatch_discards:
  "\<exists>s. run (broker_step plain_codec) (init_broker 64) [Wrote ''p'' ''abc'', Delivered ''p'' ''abc''] s
     \<and> br_messages s ''p'' = []
     \<and> map snd (br_answers s) = [NativeAnswer (''OK'' @ [newline]),
          NativeAnswer (''ERR payload size mismatch: expected 2, got 3'' @ [newline])]"
proof -
  let ?a = "answer_to 0 (NativeAnswer (''OK'' @ [newline])) ((init_broker 64)\<lparr>br_messages := (\<lambda>_. [])(''p'' := [''abc''])\<rparr>)"
  have pop: "pop_message (br_messages ?a) ''p'' = Some (''abc'', \<lambda>_. [])"
    by (simp add: pop_message_def answer_to_def fun_upd_def cong: if_cong)
  have parse: "parse_connection plain_codec (br_max_payload_bytes ?a) (''R p 2'' @ [newline]) = Accepted (ReadReq Native ''p'' 2)"
    using example_parse(2) by (simp add: answer_to_def init_broker_def)
  let ?s = "answer_to 1 (taken_answer Native 2 ''abc'') (?a\<lparr>br_messages := \<lambda>_. []\<rparr>)"
  have "run (broker_step plain_codec) (init_broker 64) ([Wrote ''p'' ''abc''] @ [Delivered ''p'' ''abc'']) ?s"
    by (rule run_two [where step = "broker_step plain_codec", OF example_write broker_step.br_read [OF parse pop]])
  then show ?thesis
    by (intro exI [of _ ?s] conjI) (simp_all add: answer_to_def init_broker_def taken_answer_def text_eval)
qed

section \<open>Client and broker\<close>

text \<open>
  What \<open>json.dumps\<close> and \<open>json.loads\<close> guarantee for an object: the text is ASCII without a line break,
  begins with a brace, and is read back.
\<close>

definition reads_back :: "codec \<Rightarrow> jobj \<Rightarrow> bool" where
  "reads_back cd d \<longleftrightarrow> is_ascii (cd_dumps cd (JObj d)) \<and> newline \<notin> set (cd_dumps cd (JObj d))
     \<and> prefix ''{'' (cd_dumps cd (JObj d)) \<and> cd_loads cd (json_line cd d) = Inr (JObj d)"

definition fits_line :: "codec \<Rightarrow> jobj \<Rightarrow> bool" where
  "fits_line cd d \<longleftrightarrow> length (cd_dumps cd (JObj d)) \<le> stream_limit"

lemma json_line_decoded: "reads_back cd d \<Longrightarrow> decode_utf8 (json_line cd d) = Inr (json_line cd d)"
  by (rule decode_utf8_ascii) (simp add: reads_back_def json_line_def is_ascii_def newline_def)

lemma readline_json:
  "reads_back cd d \<Longrightarrow> fits_line cd d \<Longrightarrow> readline (json_line cd d @ rest) = Inr (json_line cd d, rest)"
  using readline_line [of "cd_dumps cd (JObj d)" rest] by (simp add: reads_back_def fits_line_def json_line_def)

lemma readline_json_long:
  "reads_back cd d \<Longrightarrow> \<not> fits_line cd d \<Longrightarrow>
     readline (json_line cd d @ rest) = Inl (ValueError ''Separator is found, but chunk is longer than limit'')"
proof -
  assume "reads_back cd d" and long: "\<not> fits_line cd d"
  then have nl: "\<forall>c\<in>set (cd_dumps cd (JObj d)). c \<noteq> newline" by (auto simp: reads_back_def)
  have line: "json_line cd d @ rest = cd_dumps cd (JObj d) @ newline # rest" by (simp add: json_line_def)
  show ?thesis using nl long unfolding line readline_def
    by (simp add: takeWhile_append2 dropWhile_append2 fits_line_def)
qed

lemma receive_object_line:
  assumes "reads_back cd d" and "fits_line cd d"
  shows "receive_object cd (json_line cd d) = Inr d"
  using readline_json [OF assms, of "[]"] json_line_decoded [OF assms(1)] assms(1)
  by (simp add: receive_object_def reads_back_def)

lemma receive_object_long:
  assumes "reads_back cd d" and "\<not> fits_line cd d"
  shows "receive_object cd (json_line cd d) = Inl (ValueError ''Separator is found, but chunk is longer than limit'')"
  using readline_json_long [OF assms, of "[]"] by (simp add: receive_object_def)

lemma parse_connection_json:
  assumes "reads_back cd d" and "fits_line cd d" and "json_request cd limit (json_line cd d) = Inr rq"
  shows "parse_connection cd limit (json_line cd d) = Accepted rq"
proof -
  obtain cs where "json_line cd d = CHR 0x7B # cs" using assms(1) by (auto simp: reads_back_def json_line_def prefix_def)
  then show ?thesis using readline_json [OF assms(1,2), of "[]"] assms(3) by (simp add: parse_connection_def)
qed

lemma json_request_write:
  assumes "reads_back cd (write_request pipe data)" and "int (length data) \<le> limit"
  shows "json_request cd limit (json_line cd (write_request pipe data)) = Inr (WriteReq Json pipe data)"
  using assms json_line_decoded [OF assms(1)]
  by (simp add: json_request_def reads_back_def write_request_def dict_item_def b64decode_b64encode Let_def)

lemma json_request_read:
  assumes "reads_back cd (read_request_of pipe bytes)" and "0 \<le> bytes" and "bytes \<le> limit"
  shows "json_request cd limit (json_line cd (read_request_of pipe bytes)) = Inr (ReadReq Json pipe bytes)"
  using assms json_line_decoded [OF assms(1)]
  by (simp add: json_request_def reads_back_def read_request_of_def dict_item_def Let_def)

text \<open>
  C7. Client to client over the wire: when the lines of the two requests and of the two answers are within the
  64 KiB that a stream reads as one line, and the payload within the limit of the broker, a write of
  \<open>data\<close> to an empty pipe and then a read of its length by the reference client are accepted, both are answered, the
  reader's client returns \<open>data\<close> unchanged, through the base64 text and the JSON lines in both directions, and
  the pipes are as before.
\<close>

theorem client_broker_roundtrip:
  assumes "list_all (\<lambda>d. reads_back cd d \<and> fits_line cd d) [write_request pipe data, read_request_of pipe (int (length data)),
      [(''ok'', JBool True), (''bytes'', JInt (int (length data)))], [(''ok'', JBool True), (''payload'', JStr (b64encode data))]]"
    and "br_messages s pipe = []" and "int (length data) \<le> br_max_payload_bytes s" and "decode_utf8 data = Inr data"
  shows "parse_connection cd (br_max_payload_bytes s) (json_line cd (write_request pipe data)) = Accepted (WriteReq Json pipe data)
    \<and> parse_connection cd (br_max_payload_bytes s) (json_line cd (read_request_of pipe (int (length data))))
        = Accepted (ReadReq Json pipe (int (length data)))
    \<and> (\<exists>t u written read. broker_step cd s [Wrote pipe data] t \<and> broker_step cd t [Delivered pipe data] u
        \<and> br_messages u = br_messages s \<and> br_answers u = br_answers s @ [(c, written), (c', read)]
        \<and> (\<exists>r. client_call cd (answer_bytes cd written) = Inr r) \<and> client_read cd (answer_bytes cd read) = Inr data)"
proof -
  let ?limit = "br_max_payload_bytes s" and ?n = "int (length data)"
  let ?wa = "[(''ok'', JBool True), (''bytes'', JInt ?n)]" and ?ra = "[(''ok'', JBool True), (''payload'', JStr (b64encode data))]"
  have pw: "parse_connection cd ?limit (json_line cd (write_request pipe data)) = Accepted (WriteReq Json pipe data)"
    using assms(1,3) json_request_write by (intro parse_connection_json) simp_all
  have pr: "parse_connection cd ?limit (json_line cd (read_request_of pipe ?n)) = Accepted (ReadReq Json pipe ?n)"
    using assms(1,3) json_request_read by (intro parse_connection_json) simp_all
  let ?t = "answer_to c (write_answer Json data) (s\<lparr>br_messages := append_message (br_messages s) pipe data,
      br_waiting := notify_one pipe (br_waiting s)\<rparr>)"
  have t: "broker_step cd s [Wrote pipe data] ?t" by (rule br_write [OF pw])
  have messages: "br_messages ?t = (br_messages s)(pipe := [data])" by (simp add: answer_to_def append_message_def assms(2))
  have "(br_messages s)(pipe := []) = br_messages s" using assms(2) by (simp add: fun_upd_idem)
  then have pop: "pop_message (br_messages ?t) pipe = Some (data, br_messages s)" unfolding pop_message_def messages by simp
  have "br_max_payload_bytes ?t = ?limit" by (simp add: answer_to_def)
  then have u: "broker_step cd ?t [Delivered pipe data] (answer_to c' (taken_answer Json ?n data) (?t\<lparr>br_messages := br_messages s\<rparr>))"
    using br_read [OF _ pop, of cd] pr by metis
  have "client_call cd (answer_bytes cd (JsonAnswer ?wa)) = Inr ?wa"
    using assms(1) receive_object_line by (simp add: client_call_def call_result_def jget_def dict_get_def)
  moreover have "client_read cd (answer_bytes cd (JsonAnswer ?ra)) = Inr data"
    using assms(1,4) receive_object_line
    by (simp add: client_read_def client_payload_def call_result_def jget_def dict_get_def dict_item_def b64decode_lax_b64encode)
  ultimately show ?thesis using pw pr t u
    by (intro conjI exI [of _ ?t] exI [of _ "answer_to c' (taken_answer Json ?n data) (?t\<lparr>br_messages := br_messages s\<rparr>)"]
        exI [of _ "JsonAnswer ?wa"] exI [of _ "JsonAnswer ?ra"]) (auto simp: answer_to_def taken_answer_def)
qed

definition two_line_codec :: codec where
  "two_line_codec = \<lparr>cd_loads = (\<lambda>t. if t = ''{w}'' @ [newline] then Inr (JObj (write_request ''p'' ''hi''))
      else if t = ''{r}'' @ [newline] then Inr (JObj (read_request_of ''p'' 2))
      else if t = ''{a}'' @ [newline] then Inr (JObj [(''ok'', JBool True), (''bytes'', JInt 2)])
      else if t = ''{b}'' @ [newline] then Inr (JObj [(''ok'', JBool True), (''payload'', JStr (b64encode ''hi''))]) else Inl JSONDecodeError),
    cd_str = (\<lambda>_. []),
    cd_dumps = (\<lambda>j. if j = JObj (write_request ''p'' ''hi'') then ''{w}'' else if j = JObj (read_request_of ''p'' 2) then ''{r}''
      else if j = JObj [(''ok'', JBool True), (''bytes'', JInt 2)] then ''{a}'' else ''{b}'')\<rparr>"

lemma two_line_facts:
  "list_all (\<lambda>d. reads_back two_line_codec d \<and> fits_line two_line_codec d) [write_request ''p'' ''hi'', read_request_of ''p'' 2,
     [(''ok'', JBool True), (''bytes'', JInt 2)], [(''ok'', JBool True), (''payload'', JStr (b64encode ''hi''))]]"
  by (simp add: two_line_codec_def reads_back_def fits_line_def json_line_def write_request_def read_request_of_def is_ascii_def
      newline_def stream_limit_def)

theorem client_broker_roundtrip_witness:
  "\<exists>t u written read. broker_step two_line_codec (init_broker 64) [Wrote ''p'' ''hi''] t \<and> broker_step two_line_codec t [Delivered ''p'' ''hi''] u
     \<and> br_answers u = [(0, written), (1, read)] \<and> client_read two_line_codec (answer_bytes two_line_codec read) = Inr ''hi''"
proof -
  have "decode_utf8 ''hi'' = Inr ''hi''" by (simp add: decode_utf8_def)
  then show ?thesis using client_broker_roundtrip [of two_line_codec "''p''" "''hi''" "init_broker 64" 0 1] two_line_facts
    by (auto simp: init_broker_def)
qed

text \<open>
  A larger payload cannot be sent in this way, whatever the limit of the broker is: base64 makes a line longer
  than the stream limit of every payload over 48 KiB, and the broker refuses this line.
\<close>

lemma length_b64encode: "length (b64encode s) = 4 * ((length s + 2) div 3)"
proof (induction s rule: b64encode.induct)
  case (4 a b c r)
  have "(length r + 5) div 3 = Suc ((length r + 2) div 3)" by presburger
  with 4 show ?case by (simp add: Let_def add.commute)
qed (simp_all add: Let_def)

theorem long_json_request_refused:
  assumes "reads_back cd (write_request pipe data)" and "sublist (b64encode data) (cd_dumps cd (JObj (write_request pipe data)))"
    and "49152 < length data"
  shows "parse_connection cd limit (json_line cd (write_request pipe data))
    = Rejected Json (ValueError ''Separator is found, but chunk is longer than limit'')"
proof -
  have "stream_limit < length (b64encode data)" using assms(3) by (simp add: length_b64encode stream_limit_def)
  also have "length (b64encode data) \<le> length (cd_dumps cd (JObj (write_request pipe data)))"
    using assms(2) by (rule sublist_length_le)
  finally have "\<not> fits_line cd (write_request pipe data)" by (simp add: fits_line_def)
  from readline_json_long [OF assms(1) this, of "[]"] show ?thesis by (simp add: parse_connection_def)
qed

end
