(* ===== verification/RemoteProcess.thy ===== *)
theory RemoteProcess
  imports FifoBroker
begin

text \<open>
  The remote process pair: the worker that runs one simulator (\<open>real/worker.py\<close>) and the proxy that
  stands for it at the coordinator (\<open>real/process_proxy.py\<close>). A frame is the JSON object of one line of
  their connection. The worker's reading of a spawn request, its choice of a working directory, the
  staging of files and the edit of the GPGPU-Sim configuration are functions; its output is the step
  relation \<open>worker_step\<close>, in which the two stream tasks interleave freely. The proxy's loops are
  functions of the frames it receives. The name service, the environment and the file tests are
  parameters.
\<close>

section \<open>The GPGPU-Sim limits\<close>

text \<open>
  The regular expression of \<open>set_gpgpu_test_limits\<close> as Python reads it. The pattern is a raw string in
  which the backslashes are doubled, so it asks for literal backslashes: a line is a backslash, any
  number of the letter s, the option, a backslash, letters s (at least one), a backslash, letters d (at
  least one), a backslash, letters s, and an optional comment. The two groups are what is kept.
\<close>

definition backslash :: char where
  "backslash = CHR 0x5C"

definition drop_prefix :: "string \<Rightarrow> string \<Rightarrow> string option" where
  "drop_prefix p s = (if prefix p s then Some (drop (length p) s) else None)"

definition span_char :: "char \<Rightarrow> string \<Rightarrow> string \<times> string" where
  "span_char c s = (takeWhile (\<lambda>x. x = c) s, dropWhile (\<lambda>x. x = c) s)"

definition match_limit :: "string \<Rightarrow> string \<Rightarrow> (string \<times> string) option" where
  "match_limit option_name line =
     Option.bind (drop_prefix [backslash] line) (\<lambda>r1.
       let (s1, r2) = span_char (CHR ''s'') r1
       in Option.bind (drop_prefix (option_name @ [backslash]) r2) (\<lambda>r3.
          let (s2, r4) = span_char (CHR ''s'') r3
          in if s2 = [] then None
             else Option.bind (drop_prefix [backslash] r4) (\<lambda>r5.
               let (ds, r6) = span_char (CHR ''d'') r5
               in if ds = [] then None
                  else Option.bind (drop_prefix [backslash] r6) (\<lambda>r7.
                    let (s3, r8) = span_char (CHR ''s'') r7
                    in if r8 = [] \<or> hd r8 = CHR ''#''
                       then Some ([backslash] @ s1 @ option_name @ [backslash] @ s2, [backslash] @ s3 @ r8)
                       else None))))"

definition is_strip_space :: "char \<Rightarrow> bool" where
  "is_strip_space c \<longleftrightarrow> (of_char c :: nat) \<in> {9, 10, 11, 12, 13, 28, 29, 30, 31, 32}"

definition rstrip :: "string \<Rightarrow> string" where
  "rstrip s = rev (dropWhile is_strip_space (rev s))"

definition apply_limit :: "string \<Rightarrow> int option \<Rightarrow> string \<Rightarrow> string res" where
  "apply_limit option_name maximum content =
     (case maximum of
        None \<Rightarrow> Inr content
      | Some m \<Rightarrow>
          (let lines = split_on newline content;
               replacements = length (filter (\<lambda>l. match_limit option_name l \<noteq> None) lines);
               updated = join_with [newline] (map (\<lambda>l. case match_limit option_name l of
                   None \<Rightarrow> l | Some (g1, g2) \<Rightarrow> g1 @ str_int m @ g2) lines)
           in if replacements = 0
              then Inr (rstrip updated @ newline # option_name @ '' '' @ str_int m @ [newline])
              else if replacements \<noteq> 1
              then Inl (RuntimeError (''GPGPU-Sim option '' @ option_name @ '' was found more than once''))
              else Inr updated))"

definition set_gpgpu_test_limits :: "string option \<Rightarrow> int option \<Rightarrow> int option \<Rightarrow> string res" where
  "set_gpgpu_test_limits configuration maximum_completed_cta maximum_instructions =
     (case configuration of
        None \<Rightarrow> Inl (RuntimeError ''GPGPU-Sim CTA limit requested but gpgpusim.config is missing'')
      | Some content \<Rightarrow>
          bindE (apply_limit ''-gpgpu_max_completed_cta'' maximum_completed_cta content)
            (apply_limit ''-gpgpu_max_insn'' maximum_instructions))"

section \<open>The spawn request\<close>

record spawn =
  sp_process_id :: string
  sp_command :: string
  sp_arguments :: "string list"
  sp_environment :: "(string, string) dict"
  sp_pre_copy :: string
  sp_max_completed_cta :: "int option"
  sp_max_instructions :: "int option"
  sp_shared_assets :: "string list"
  sp_staged_files :: "json list"

fun json_iter :: "json \<Rightarrow> json list res" where
  "json_iter (JList xs) = Inr xs"
| "json_iter (JStr s) = Inr (map (\<lambda>c. JStr [c]) s)"
| "json_iter (JObj d) = Inr (map (\<lambda>(k, _). JStr k) d)"
| "json_iter _ = Inl (TypeError ''object is not iterable'')"

definition request_environment :: "codec \<Rightarrow> (string, string) dict \<Rightarrow> jobj \<Rightarrow> (string, string) dict res" where
  "request_environment cd environ request =
     (case dict_get request ''env'' (JObj []) of
        JObj d \<Rightarrow>
          (let merged = foldl (\<lambda>e (k, v). AList.update k (json_str cd v) e) environ d;
               local_gateway = dict_get environ ''LEGOSIM_PIPE_GATEWAY'' []
           in Inr (if local_gateway \<noteq> []
                   then AList.update ''LEGOSIM_FIFO_BROKER'' local_gateway
                          (AList.update ''LEGOSIM_PIPE_GATEWAY'' local_gateway merged)
                   else merged))
      | _ \<Rightarrow> Inl (TypeError ''object has no attribute items''))"

text \<open>The loop over the endpoint variables; the name service answers or gives up after a minute.\<close>

definition resolve_endpoint ::
  "(string \<Rightarrow> string option) \<Rightarrow> string \<Rightarrow> (string, string) dict \<Rightarrow> (string, string) dict res" where
  "resolve_endpoint resolve variable environment =
     (let endpoint = dict_get environment variable []
      in if endpoint = [] then Inr environment
         else case rsplit1 (CHR '':'') endpoint of
           [broker_host, broker_port] \<Rightarrow>
             (case resolve broker_host of
                None \<Rightarrow> Inl (RuntimeError (''broker '' @ broker_host @ '' did not resolve within 60 seconds''))
              | Some ip \<Rightarrow> Inr (AList.update variable (ip @ '':'' @ broker_port) environment))
         | _ \<Rightarrow> Inl (ValueError ''not enough values to unpack (expected 2, got 1)''))"

definition positive_limit :: "jobj \<Rightarrow> string \<Rightarrow> int option res" where
  "positive_limit request name =
     (case jget request name of
        JNull \<Rightarrow> Inr None
      | j \<Rightarrow> (case as_int j of
                Some i \<Rightarrow> if i < 1 then Inl (ValueError (name @ '' must be a positive integer'')) else Inr (Some i)
              | None \<Rightarrow> Inl (ValueError (name @ '' must be a positive integer''))))"

definition asset_list :: "jobj \<Rightarrow> string list res" where
  "asset_list request =
     (case dict_get request ''shared_assets'' (JList []) of
        JList assets \<Rightarrow>
          if list_all (\<lambda>a. as_str a \<noteq> None) assets then Inr (map (\<lambda>a. the (as_str a)) assets)
          else Inl (ValueError ''shared_assets must be a list of shell path strings'')
      | _ \<Rightarrow> Inl (ValueError ''shared_assets must be a list of shell path strings''))"

definition staged_list :: "jobj \<Rightarrow> json list res" where
  "staged_list request =
     (case dict_get request ''staged_files'' (JList []) of
        JList files \<Rightarrow> Inr files
      | _ \<Rightarrow> Inl (ValueError ''staged_files must be a list''))"

definition safe_process_id :: "string \<Rightarrow> bool" where
  "safe_process_id p \<longleftrightarrow> CHR ''/'' \<notin> set p \<and> p \<notin> {[], ''.'', ''..''}"

definition parse_spawn ::
  "codec \<Rightarrow> (string, string) dict \<Rightarrow> (string \<Rightarrow> string option) \<Rightarrow> jobj \<Rightarrow> spawn res" where
  "parse_spawn cd environ resolve request =
     (if jget request ''op'' \<noteq> JStr ''spawn'' then Inl (ValueError ''first message must be spawn'')
      else
        bindE (dict_item request ''process_id'') (\<lambda>process_id.
        bindE (dict_item request ''command'') (\<lambda>command.
        bindE (json_iter (dict_get request ''args'' (JList []))) (\<lambda>args.
        bindE (request_environment cd environ request) (\<lambda>env0.
        bindE (resolve_endpoint resolve ''LEGOSIM_FIFO_BROKER'' env0) (\<lambda>env1.
        bindE (resolve_endpoint resolve ''LEGOSIM_PIPE_GATEWAY'' env1) (\<lambda>env2.
        bindE (positive_limit request ''gpgpu_max_completed_cta'') (\<lambda>cta.
        bindE (positive_limit request ''gpgpu_max_instructions'') (\<lambda>insn.
        bindE (asset_list request) (\<lambda>assets.
        bindE (staged_list request) (\<lambda>staged.
        if \<not> safe_process_id (json_str cd process_id)
        then Inl (ValueError ''process_id must be a single safe path component'')
        else Inr \<lparr>sp_process_id = json_str cd process_id, sp_command = json_str cd command,
               sp_arguments = map (json_str cd) args, sp_environment = env2,
               sp_pre_copy = json_str cd (dict_get request ''pre_copy'' (JStr [])),
               sp_max_completed_cta = cta, sp_max_instructions = insn, sp_shared_assets = assets,
               sp_staged_files = staged\<rparr>)))))))))))"

text \<open>The first line of a connection; it is read with the limit of the stream, 64 KiB.\<close>

definition worker_request ::
  "codec \<Rightarrow> (string, string) dict \<Rightarrow> (string \<Rightarrow> string option) \<Rightarrow> string \<Rightarrow> spawn res" where
  "worker_request cd environ resolve input = bindE (receive_object cd input) (parse_spawn cd environ resolve)"

section \<open>Working directory and staged files\<close>

text \<open>The loop that looks for a directory name that does not exist yet.\<close>

partial_function (option) fresh_workdir :: "(string \<Rightarrow> bool) \<Rightarrow> string \<Rightarrow> string \<Rightarrow> nat \<Rightarrow> string option" where
  "fresh_workdir exists process_id workdir n =
     (if exists workdir then fresh_workdir exists process_id (process_id @ ''-'' @ show_nat n) (Suc n)
      else Some workdir)"

text \<open>\<open>Path(s).name\<close> of a POSIX path.\<close>

definition path_name :: "string \<Rightarrow> string" where
  "path_name s = (let parts = filter (\<lambda>p. p \<noteq> [] \<and> p \<noteq> ''.'') (split_on (CHR ''/'') s)
     in if parts = [] then [] else last parts)"

definition staged_limit :: nat where
  "staged_limit = 67108864"

definition check_staged_file :: "json \<Rightarrow> (string \<times> string) res" where
  "check_staged_file staged =
     (case staged of
        JObj d \<Rightarrow>
          (case as_str (jget d ''destination'') of
             Some destination \<Rightarrow>
               if path_name destination \<noteq> destination
               then Inl (ValueError ''staged file destination must be a plain filename'')
               else (case as_str (jget d ''data'') of
                       Some encoded \<Rightarrow>
                         bindE (b64decode encoded) (\<lambda>data.
                           if length data > staged_limit
                           then Inl (ValueError ''staged file exceeds the 64 MiB transfer limit'')
                           else Inr (destination, data))
                     | None \<Rightarrow> Inl (ValueError ''staged file data must be base64 text''))
           | None \<Rightarrow> Inl (ValueError ''staged file destination must be a plain filename''))
      | _ \<Rightarrow> Inl (ValueError ''each staged file must be an object''))"

text \<open>Writing to the directory itself or to its parent fails in the operating system.\<close>

definition write_staged :: "json \<Rightarrow> (string, string) dict \<Rightarrow> (string, string) dict res" where
  "write_staged staged files =
     bindE (check_staged_file staged) (\<lambda>(destination, data).
       if destination \<in> {[], ''..''} then Inl (OSError ''Is a directory'')
       else Inr (AList.update destination data files))"

definition stage_files :: "json list \<Rightarrow> (string, string) dict res" where
  "stage_files staged = foldE write_staged staged []"

section \<open>The running child\<close>

datatype worker_phase = Preparing | Launched | Streaming | Draining | Finished

record worker =
  wk_phase :: worker_phase
  wk_stdout :: "string list"
  wk_stderr :: "string list"
  wk_sent :: "jobj list"

definition output_frame :: "string \<Rightarrow> string \<Rightarrow> jobj" where
  "output_frame stream chunk =
     [(''op'', JStr ''output''), (''stream'', JStr stream), (''data'', JStr (b64encode chunk))]"

definition diagnostic_frame :: "string \<Rightarrow> jobj" where
  "diagnostic_frame text = [(''op'', JStr ''diagnostic''), (''text'', JStr text)]"

definition started_frame :: "int \<Rightarrow> jobj" where
  "started_frame pid = [(''op'', JStr ''started''), (''pid'', JInt pid)]"

definition exit_frame :: "int \<Rightarrow> jobj" where
  "exit_frame return_code = [(''op'', JStr ''exit''), (''returncode'', JInt return_code)]"

definition error_frame :: "string \<Rightarrow> jobj" where
  "error_frame text = [(''op'', JStr ''error''), (''error'', JStr text)]"

definition sends :: "jobj \<Rightarrow> worker \<Rightarrow> worker" where
  "sends frame s = s\<lparr>wk_sent := wk_sent s @ [frame]\<rparr>"

text \<open>
  The frames of one accepted request: the diagnostic, the acknowledgement, the chunks of the two
  streams in any interleaving, then, when both tasks are done, the optional result marker and the exit
  status. Any failure ends the session with an error frame.
\<close>

inductive worker_step :: "string \<Rightarrow> int \<Rightarrow> string option \<Rightarrow> int \<Rightarrow> worker \<Rightarrow> worker \<Rightarrow> bool"
  for info pid marker return_code where
  wk_diagnose: "wk_phase s = Preparing \<Longrightarrow>
     worker_step info pid marker return_code s (sends (diagnostic_frame info) (s\<lparr>wk_phase := Launched\<rparr>))"
| wk_start: "wk_phase s = Launched \<Longrightarrow>
     worker_step info pid marker return_code s (sends (started_frame pid) (s\<lparr>wk_phase := Streaming\<rparr>))"
| wk_out: "wk_phase s = Streaming \<Longrightarrow> wk_stdout s = c # cs \<Longrightarrow>
     worker_step info pid marker return_code s (sends (output_frame ''stdout'' c) (s\<lparr>wk_stdout := cs\<rparr>))"
| wk_err: "wk_phase s = Streaming \<Longrightarrow> wk_stderr s = c # cs \<Longrightarrow>
     worker_step info pid marker return_code s (sends (output_frame ''stderr'' c) (s\<lparr>wk_stderr := cs\<rparr>))"
| wk_marker: "wk_phase s = Streaming \<Longrightarrow> wk_stdout s = [] \<Longrightarrow> wk_stderr s = [] \<Longrightarrow> marker = Some m \<Longrightarrow>
     worker_step info pid marker return_code s (sends (output_frame ''stdout'' m) (s\<lparr>wk_phase := Draining\<rparr>))"
| wk_exit: "wk_phase s = Draining \<or> wk_phase s = Streaming \<and> wk_stdout s = [] \<and> wk_stderr s = [] \<and> marker = None \<Longrightarrow>
     worker_step info pid marker return_code s (sends (exit_frame return_code) (s\<lparr>wk_phase := Finished\<rparr>))"
| wk_fail: "wk_phase s \<noteq> Finished \<Longrightarrow>
     worker_step info pid marker return_code s (sends (error_frame m) (s\<lparr>wk_phase := Finished\<rparr>))"

definition init_worker :: "string list \<Rightarrow> string list \<Rightarrow> worker" where
  "init_worker out err = \<lparr>wk_phase = Preparing, wk_stdout = out, wk_stderr = err, wk_sent = []\<rparr>"

text \<open>A message of the proxy while the child runs.\<close>

datatype control = WriteStdin string | TerminateChild

definition worker_control :: "codec \<Rightarrow> jobj \<Rightarrow> control res" where
  "worker_control cd message =
     (if jget message ''op'' = JStr ''stdin''
      then bindE (dict_item message ''data'') (\<lambda>d. bindE (json_payload d) (\<lambda>bytes. Inr (WriteStdin bytes)))
      else if jget message ''op'' = JStr ''terminate'' then Inr TerminateChild
      else Inl (ValueError (''unsupported worker operation: '' @ json_str cd (jget message ''op''))))"

definition worker_message :: "codec \<Rightarrow> string \<Rightarrow> control res" where
  "worker_message cd input = bindE (receive_object cd input) (worker_control cd)"

section \<open>The proxy\<close>

definition proxy_stage_file :: "(string \<Rightarrow> string option) \<Rightarrow> string \<Rightarrow> jobj res" where
  "proxy_stage_file read_file specification =
     (case rpartition_at (CHR '':'') specification of
        (source_text, separator, destination_text) \<Rightarrow>
          if \<not> separator \<or> source_text = [] \<or> destination_text = []
          then Inl (ValueError ''--stage-file must have SOURCE:DESTINATION form'')
          else if path_name destination_text \<noteq> destination_text \<or> destination_text \<in> {''.'', ''..''}
          then Inl (ValueError ''--stage-file destination must be a plain filename'')
          else case read_file source_text of
            None \<Rightarrow> Inl (FileNotFoundError (''staged input does not exist: '' @ source_text))
          | Some bytes \<Rightarrow> Inr [(''destination'', JStr destination_text), (''data'', JStr (b64encode bytes))])"

definition forwarded_variables :: "string list" where
  "forwarded_variables = [''LEGOSIM_FIFO_BROKER'', ''LEGOSIM_PIPE_GATEWAY'', ''LEGOSIM_MNSIM_FAST_INPUT_SIZE'',
     ''LEGOSIM_MLP_DP_RANKS'', ''LEGOSIM_MLP_DP_SAMPLES'']"

definition child_environment :: "(string, string) dict \<Rightarrow> jobj" where
  "child_environment environ = (''SIMULATOR_ROOT'', JStr ''/opt/legosim'')
     # map (\<lambda>n. (n, JStr (dict_get environ n []))) (filter (\<lambda>n. dict_get environ n [] \<noteq> []) forwarded_variables)"

record proxy_arguments =
  pa_worker :: string
  pa_process_id :: string
  pa_pre_copy :: string
  pa_shared_asset :: "string list"
  pa_stage_file :: "string list"
  pa_max_completed_cta :: "int option"
  pa_max_instructions :: "int option"
  pa_command :: string
  pa_args :: "string list"

definition json_limit :: "int option \<Rightarrow> json" where
  "json_limit n = (case n of None \<Rightarrow> JNull | Some i \<Rightarrow> JInt i)"

definition spawn_frame :: "(string, string) dict \<Rightarrow> proxy_arguments \<Rightarrow> jobj list \<Rightarrow> jobj" where
  "spawn_frame environ a staged_files =
     [(''op'', JStr ''spawn''), (''process_id'', JStr (pa_process_id a)), (''command'', JStr (pa_command a)),
      (''args'', JList (map JStr (pa_args a))), (''pre_copy'', JStr (pa_pre_copy a)),
      (''shared_assets'', JList (map JStr (pa_shared_asset a))), (''staged_files'', JList (map JObj staged_files)),
      (''gpgpu_max_completed_cta'', json_limit (pa_max_completed_cta a)),
      (''gpgpu_max_instructions'', json_limit (pa_max_instructions a)), (''env'', JObj (child_environment environ))]"

definition proxy_request :: "(string, string) dict \<Rightarrow> (string \<Rightarrow> string option) \<Rightarrow> proxy_arguments \<Rightarrow> (string \<times> int \<times> jobj) res" where
  "proxy_request environ read_file a =
     bindE (mapE (proxy_stage_file read_file) (pa_stage_file a)) (\<lambda>staged_files.
       case rsplit1 (CHR '':'') (pa_worker a) of
         [host, port_text] \<Rightarrow> bindE (int_text port_text) (\<lambda>port. Inr (host, port, spawn_frame environ a staged_files))
       | _ \<Rightarrow> Inl (ValueError ''not enough values to unpack (expected 2, got 1)''))"

definition frame_error :: "codec \<Rightarrow> jobj \<Rightarrow> string \<Rightarrow> py_error" where
  "frame_error cd frame otherwise =
     RuntimeError (case map_of frame ''error'' of None \<Rightarrow> otherwise | Some e \<Rightarrow> json_str cd e)"

record relayed =
  rl_stdout :: string
  rl_stderr :: string

text \<open>A line of the proxy's own log, on its error stream.\<close>

definition proxy_log :: "string \<Rightarrow> relayed \<Rightarrow> relayed" where
  "proxy_log line out = out\<lparr>rl_stderr := rl_stderr out @ line @ [newline]\<rparr>"

definition diagnostic_line :: "string \<Rightarrow> string \<Rightarrow> string" where
  "diagnostic_line process_id info = ''proxy diagnostic ['' @ process_id @ '']: '' @ info"

definition remote_exit_line :: "string \<Rightarrow> int \<Rightarrow> string" where
  "remote_exit_line process_id return_code = ''proxy: remote exit process_id='' @ process_id @ '' rc='' @ str_int return_code"

definition started_line :: "string \<Rightarrow> string \<Rightarrow> string" where
  "started_line process_id pid = ''proxy: started process_id='' @ process_id @ '' pid='' @ pid"

text \<open>The wait for the acknowledgement: the frames that follow it. A closed connection is an empty line.\<close>

fun await_started :: "codec \<Rightarrow> string \<Rightarrow> jobj list \<Rightarrow> relayed \<Rightarrow> relayed \<times> jobj list res" where
  "await_started cd process_id [] out = (out, Inl JSONDecodeError)"
| "await_started cd process_id (frame # frames) out =
     (if jget frame ''op'' = JStr ''diagnostic''
      then (case dict_item frame ''text'' of
              Inl e \<Rightarrow> (out, Inl e)
            | Inr info \<Rightarrow> await_started cd process_id frames (proxy_log (diagnostic_line process_id (json_str cd info)) out))
      else if jget frame ''op'' \<noteq> JStr ''started''
      then (out, Inl (frame_error cd frame ''remote worker rejected process''))
      else (proxy_log (started_line process_id (json_str cd (jget frame ''pid''))) out, Inr frames))"

text \<open>The receive loop: what was written to the two streams, and the return code or an exception.\<close>

fun relay :: "codec \<Rightarrow> string \<Rightarrow> jobj list \<Rightarrow> relayed \<Rightarrow> relayed \<times> int res" where
  "relay cd process_id [] out = (out, Inl JSONDecodeError)"
| "relay cd process_id (frame # frames) out =
     (case dict_item frame ''op'' of
        Inl e \<Rightarrow> (out, Inl e)
      | Inr op \<Rightarrow>
          if op = JStr ''output''
          then (case bindE (dict_item frame ''stream'') (\<lambda>stream.
                     bindE (dict_item frame ''data'') (\<lambda>d.
                     bindE (json_payload d) (\<lambda>bytes. Inr (stream, bytes)))) of
                  Inl e \<Rightarrow> (out, Inl e)
                | Inr (stream, bytes) \<Rightarrow>
                    relay cd process_id frames (if stream = JStr ''stdout''
                      then out\<lparr>rl_stdout := rl_stdout out @ bytes\<rparr> else out\<lparr>rl_stderr := rl_stderr out @ bytes\<rparr>))
          else if op = JStr ''diagnostic''
          then (case dict_item frame ''text'' of
                  Inl e \<Rightarrow> (out, Inl e)
                | Inr info \<Rightarrow> relay cd process_id frames (proxy_log (diagnostic_line process_id (json_str cd info)) out))
          else if op = JStr ''exit''
          then (case bindE (dict_item frame ''returncode'') json_int of
                  Inl e \<Rightarrow> (out, Inl e)
                | Inr return_code \<Rightarrow> (proxy_log (remote_exit_line process_id return_code) out, Inr return_code))
          else (out, Inl (frame_error cd frame (''unexpected worker response: '' @ json_str cd op))))"

text \<open>The log of a proxy that has connected and sent its spawn frame.\<close>

definition proxy_connected :: "string \<Rightarrow> int \<Rightarrow> string \<Rightarrow> relayed" where
  "proxy_connected host port process_id =
     fold proxy_log [''proxy: connecting process_id='' @ process_id @ '' worker='' @ host @ '':'' @ str_int port,
       ''proxy: connected process_id='' @ process_id, ''proxy: sent spawn process_id='' @ process_id] \<lparr>rl_stdout = [], rl_stderr = []\<rparr>"

text \<open>
  The proxy after its spawn frame is sent. An exception is logged before the proxy exits; the stack trace that
  follows the message is left out.
\<close>

definition proxy_run :: "codec \<Rightarrow> string \<Rightarrow> int \<Rightarrow> string \<Rightarrow> jobj list \<Rightarrow> relayed \<times> int res" where
  "proxy_run cd host port process_id frames =
     (let (out, result) = (case await_started cd process_id frames (proxy_connected host port process_id) of
            (out, Inl e) \<Rightarrow> (out, Inl e)
          | (out, Inr rest) \<Rightarrow> relay cd process_id rest out)
      in case result of
           Inl e \<Rightarrow> (proxy_log (''proxy: fatal startup error: '' @ error_text e) out, Inl e)
         | Inr return_code \<Rightarrow> (out, Inr return_code))"

text \<open>
  The exit status that the operating system reports for \<open>SystemExit(rc)\<close>: the low eight bits; a number beyond
  a machine word counts as \<open>-1\<close>.
\<close>

definition proxy_exit :: "int res \<Rightarrow> int" where
  "proxy_exit r =
     (case r of Inl _ \<Rightarrow> 1
      | Inr return_code \<Rightarrow> if - (2 ^ 63) \<le> return_code \<and> return_code < 2 ^ 63 then return_code mod 256 else 255)"

definition stdin_frame :: "string \<Rightarrow> jobj" where
  "stdin_frame data = [(''op'', JStr ''stdin''), (''data'', JStr (b64encode data))]"

section \<open>The limits are appended, not replaced\<close>

lemma match_limit_plain: "backslash \<notin> set l \<Longrightarrow> match_limit opt l = None"
  by (cases l) (auto simp: match_limit_def drop_prefix_def)

lemma apply_limit_plain:
  assumes "backslash \<notin> set content"
  shows "apply_limit opt (Some m) content = Inr (rstrip content @ newline # opt @ '' '' @ str_int m @ [newline])"
proof -
  have none: "match_limit opt l = None" if "l \<in> set (split_on newline content)" for l
    using that assms split_on_set_subset [OF that] by (intro match_limit_plain) auto
  then have "map (\<lambda>l. case match_limit opt l of None \<Rightarrow> l | Some (g1, g2) \<Rightarrow> g1 @ str_int m @ g2) (split_on newline content)
      = split_on newline content"
    by (intro map_idI) simp
  moreover have "filter (\<lambda>l. match_limit opt l \<noteq> None) (split_on newline content) = []"
    using none by (simp add: filter_empty_conv)
  ultimately show ?thesis by (simp add: apply_limit_def Let_def)
qed

text \<open>
  An instruction limit never replaces the limit of the configuration: on every configuration
  without a backslash the requested limit is appended as a second occurrence of the option, whether or
  not the option is already set.
\<close>

theorem gpgpu_limit_always_appended:
  assumes "backslash \<notin> set content"
  shows "set_gpgpu_test_limits (Some content) None (Some m)
    = Inr (rstrip content @ newline # ''-gpgpu_max_insn '' @ str_int m @ [newline])"
  using apply_limit_plain [OF assms, of "''-gpgpu_max_insn''" m]
  by (simp add: set_gpgpu_test_limits_def apply_limit_def)

theorem gpgpu_limit_always_appended_witness:
  "set_gpgpu_test_limits (Some (''-gpgpu_max_insn 0'' @ [newline])) None (Some 5)
     = Inr (''-gpgpu_max_insn 0'' @ [newline] @ ''-gpgpu_max_insn 5'' @ [newline])"
  using gpgpu_limit_always_appended [of "''-gpgpu_max_insn 0'' @ [newline]" 5]
  by (simp add: backslash_def newline_def rstrip_def is_strip_space_def text_eval)

section \<open>The working directory is fresh\<close>

lemma fresh_workdir_steps:
  assumes "\<not> exists (process_id @ ''-'' @ show_nat (n + k))"
  shows "\<exists>d. fresh_workdir exists process_id wd n = Some d \<and> \<not> exists d
    \<and> (d = wd \<or> (\<exists>j. n \<le> j \<and> d = process_id @ ''-'' @ show_nat j
         \<and> (\<forall>i. n \<le> i \<and> i < j \<longrightarrow> exists (process_id @ ''-'' @ show_nat i))))"
  using assms
proof (induction k arbitrary: n wd)
  case 0
  then show ?case by (subst fresh_workdir.simps, subst fresh_workdir.simps) auto
next
  case (Suc k)
  let ?d = "\<lambda>i. process_id @ ''-'' @ show_nat i"
  show ?case
  proof (cases "exists wd")
    case True
    from Suc.IH [of "Suc n" "?d n"] Suc.prems obtain d where
      d: "fresh_workdir exists process_id (?d n) (Suc n) = Some d" "\<not> exists d"
        "d = ?d n \<or> (\<exists>j. Suc n \<le> j \<and> d = ?d j \<and> (\<forall>i. Suc n \<le> i \<and> i < j \<longrightarrow> exists (?d i)))" by auto
    have "\<exists>j. n \<le> j \<and> d = ?d j \<and> (\<forall>i. n \<le> i \<and> i < j \<longrightarrow> exists (?d i))"
    proof (cases "exists (?d n)")
      case True
      with d obtain j where "Suc n \<le> j" "d = ?d j" "\<forall>i. Suc n \<le> i \<and> i < j \<longrightarrow> exists (?d i)" by auto
      with True show ?thesis by (intro exI [of _ j]) (metis Suc_leI Suc_leD le_neq_implies_less)
    next
      case False
      with d(1) have "d = ?d n" by (subst (asm) fresh_workdir.simps) simp
      then show ?thesis by auto
    qed
    with d True show ?thesis by (subst fresh_workdir.simps) simp
  qed (subst fresh_workdir.simps, simp)
qed

text \<open>
  A relaunch gets a directory of its own: when finitely many names exist in the run directory, the
  search ends, and its result is the process id itself or the process id with the smallest free
  number, in any case a name that did not exist.
\<close>

theorem workdir_fresh:
  assumes "finite {d. exists d}"
  shows "\<exists>d. fresh_workdir exists process_id process_id 1 = Some d \<and> \<not> exists d
    \<and> (d = process_id \<or> (\<exists>j \<ge> 1. d = process_id @ ''-'' @ show_nat j
         \<and> (\<forall>i. 1 \<le> i \<and> i < j \<longrightarrow> exists (process_id @ ''-'' @ show_nat i))))"
proof -
  let ?d = "\<lambda>i. process_id @ ''-'' @ show_nat i"
  have "infinite (?d ` {1..})"
    by (simp add: finite_image_iff inj_on_def show_nat_inj infinite_Ici)
  then have "\<not> ?d ` {1..} \<subseteq> {d. exists d}" using assms finite_subset by blast
  then obtain n where "1 \<le> n" "\<not> exists (?d n)" by auto
  then have "\<not> exists (?d (1 + (n - 1)))" by simp
  from fresh_workdir_steps [of exists process_id 1 "n - 1" process_id, OF this] show ?thesis by blast
qed

theorem workdir_fresh_witness:
  "\<exists>d. fresh_workdir (\<lambda>x. x \<in> {''gpu0'', ''gpu0-1''}) ''gpu0'' ''gpu0'' 1 = Some d \<and> d \<notin> {''gpu0'', ''gpu0-1''}"
  using workdir_fresh [of "\<lambda>x. x \<in> {''gpu0'', ''gpu0-1''}" "''gpu0''"] by auto

section \<open>Staged files\<close>

lemma path_name_plain: "path_name s = s \<Longrightarrow> CHR ''/'' \<notin> set s"
proof -
  assume a: "path_name s = s"
  let ?parts = "filter (\<lambda>p. p \<noteq> [] \<and> p \<noteq> ''.'') (split_on (CHR ''/'') s)"
  show ?thesis
  proof (cases "?parts = []")
    case False
    then have "last ?parts \<in> set ?parts" by (rule last_in_set)
    then have "last ?parts \<in> set (split_on (CHR ''/'') s)" by auto
    then have "CHR ''/'' \<notin> set (last ?parts)" by (rule split_on_parts)
    with a False show ?thesis by (simp add: path_name_def Let_def)
  qed (use a in \<open>simp add: path_name_def\<close>)
qed

text \<open>
  Every file that the proxy stages within the transfer limit is accepted by the worker and written
  with the same bytes under the requested name, which has no directory part.
\<close>

theorem staged_file_roundtrip:
  assumes "proxy_stage_file read_file specification = Inr staged"
    and "rpartition_at (CHR '':'') specification = (source, sep, destination)"
    and "read_file source = Some bytes" and "length bytes \<le> staged_limit"
  shows "write_staged (JObj staged) files = Inr (AList.update destination bytes files)
    \<and> CHR ''/'' \<notin> set destination"
proof -
  from assms have plain: "path_name destination = destination" "destination \<notin> {[], ''.'', ''..''}"
    and staged: "staged = [(''destination'', JStr destination), (''data'', JStr (b64encode bytes))]"
    by (auto simp: proxy_stage_file_def split: if_splits)
  then show ?thesis using assms(4) path_name_plain [OF plain(1)]
    by (auto simp: write_staged_def check_staged_file_def jget_def dict_get_def b64decode_b64encode)
qed

theorem staged_file_roundtrip_witness:
  "\<exists>staged. proxy_stage_file [''/tmp/b'' \<mapsto> ''data''] ''/tmp/b:bench.txt'' = Inr staged
     \<and> write_staged (JObj staged) [] = Inr [(''bench.txt'', ''data'')]"
proof -
  have part: "rpartition_at (CHR '':'') ''/tmp/b:bench.txt'' = (''/tmp/b'', True, ''bench.txt'')"
    by (simp add: rpartition_at_def)
  moreover have "\<exists>staged. proxy_stage_file [''/tmp/b'' \<mapsto> ''data''] ''/tmp/b:bench.txt'' = Inr staged"
    by (simp add: proxy_stage_file_def part path_name_def)
  then obtain staged where s: "proxy_stage_file [''/tmp/b'' \<mapsto> ''data''] ''/tmp/b:bench.txt'' = Inr staged" by blast
  ultimately show ?thesis using staged_file_roundtrip [OF s part, of "''data''" "[]"] by (simp add: staged_limit_def)
qed

section \<open>The request line\<close>

lemma worker_request_line:
  assumes "reads_back cd frame"
  shows "worker_request cd environ resolve (json_line cd frame)
    = (if fits_line cd frame then parse_spawn cd environ resolve frame
       else Inl (ValueError ''Separator is found, but chunk is longer than limit''))"
  using receive_object_line [OF assms] receive_object_long [OF assms] by (simp add: worker_request_def)

lemma proxy_request_frame:
  "proxy_request environ read_file a = Inr (host, port, frame) \<Longrightarrow>
     \<exists>staged. mapE (proxy_stage_file read_file) (pa_stage_file a) = Inr staged \<and> frame = spawn_frame environ a staged"
  unfolding proxy_request_def bindE_eq_Inr by (elim exE conjE) (auto simp: bindE_eq_Inr split: list.split_asm)

lemma parse_spawn_staged:
  "parse_spawn cd environ resolve (spawn_frame e a staged) = Inr sp \<Longrightarrow> sp_staged_files sp = map JObj staged"
  unfolding parse_spawn_def staged_list_def by (auto simp: bindE_eq_Inr spawn_frame_def dict_get_def split: if_splits)

text \<open>
  The 64 MiB limit of a staged file is never reached: a staged file of more than 48 KiB makes the spawn line longer than
  what the worker reads as one line, and the request is refused.
\<close>

theorem large_staged_file_refused:
  assumes "proxy_request environ read_file a = Inr (host, port, frame)" and "reads_back cd frame"
    and "specification \<in> set (pa_stage_file a)" and "fst (rpartition_at (CHR '':'') specification) = source"
    and "read_file source = Some bytes" and "49152 < length bytes"
    and "sublist (b64encode bytes) (cd_dumps cd (JObj frame))"
  shows "worker_request cd worker_environ resolve (json_line cd frame)
    = Inl (ValueError ''Separator is found, but chunk is longer than limit'')"
proof -
  have "stream_limit < length (b64encode bytes)" using assms(6) by (simp add: length_b64encode stream_limit_def)
  also have "\<dots> \<le> length (cd_dumps cd (JObj frame))" using assms(7) by (rule sublist_length_le)
  finally show ?thesis using worker_request_line [OF assms(2)] by (simp add: fits_line_def)
qed

section \<open>Relaying a child\<close>

lemma relayed_eta: "\<lparr>rl_stdout = rl_stdout r, rl_stderr = rl_stderr r\<rparr> = r"
  for r :: relayed
  by simp

text \<open>Frames that carry the bytes \<open>ob\<close> to standard output and \<open>e\<close> to standard error.\<close>

definition carried :: "jobj list \<Rightarrow> string \<Rightarrow> string \<Rightarrow> bool" where
  "carried frames ob e \<longleftrightarrow> (\<forall>cd process_id rest r. relay cd process_id (frames @ rest) r
     = relay cd process_id rest \<lparr>rl_stdout = rl_stdout r @ ob, rl_stderr = rl_stderr r @ e\<rparr>)"

lemma carried_Nil: "carried [] [] []"
  by (simp add: carried_def relayed_eta)

lemma relay_output:
  "relay cd process_id (output_frame stream c # rest) r = relay cd process_id rest
     (if stream = ''stdout'' then r\<lparr>rl_stdout := rl_stdout r @ c\<rparr> else r\<lparr>rl_stderr := rl_stderr r @ c\<rparr>)"
  by (simp add: output_frame_def dict_item_def b64decode_b64encode)

lemma carried_snoc:
  "carried frames ob e \<Longrightarrow> carried (frames @ [output_frame ''stdout'' c]) (ob @ c) e"
  "carried frames ob e \<Longrightarrow> carried (frames @ [output_frame ''stderr'' c]) ob (e @ c)"
  by (simp_all add: carried_def relay_output del: relay.simps)

lemma carried_exit:
  "carried frames ob e \<Longrightarrow> relay cd process_id (frames @ [exit_frame rc]) r
     = (proxy_log (remote_exit_line process_id rc) \<lparr>rl_stdout = rl_stdout r @ ob, rl_stderr = rl_stderr r @ e\<rparr>, Inr rc)"
  by (simp add: carried_def exit_frame_def dict_item_def)

text \<open>What the worker has sent, by phase.\<close>

definition sent_so_far :: "string \<Rightarrow> int \<Rightarrow> string \<Rightarrow> string \<Rightarrow> worker \<Rightarrow> bool" where
  "sent_so_far info pid ob e s \<longleftrightarrow>
     (\<exists>frames. wk_sent s = diagnostic_frame info # started_frame pid # frames \<and> carried frames ob e)"

definition worker_inv ::
  "string list \<Rightarrow> string list \<Rightarrow> string \<Rightarrow> int \<Rightarrow> string option \<Rightarrow> int \<Rightarrow> worker \<Rightarrow> bool" where
  "worker_inv out err info pid marker rc s =
     (case wk_phase s of
        Preparing \<Rightarrow> s = init_worker out err
      | Launched \<Rightarrow> wk_stdout s = out \<and> wk_stderr s = err \<and> wk_sent s = [diagnostic_frame info]
      | Streaming \<Rightarrow> \<exists>ob e. sent_so_far info pid ob e s \<and> ob @ concat (wk_stdout s) = concat out
                         \<and> e @ concat (wk_stderr s) = concat err
      | Draining \<Rightarrow> \<exists>m. marker = Some m \<and> sent_so_far info pid (concat out @ m) (concat err) s
      | Finished \<Rightarrow> (\<exists>m. error_frame m \<in> set (wk_sent s))
          \<or> (\<exists>frames. wk_sent s = diagnostic_frame info # started_frame pid # frames @ [exit_frame rc]
              \<and> carried frames (concat out @ (case marker of None \<Rightarrow> [] | Some m \<Rightarrow> m)) (concat err)))"

lemma worker_step_inv:
  "worker_step info pid marker rc s t \<Longrightarrow> worker_inv out err info pid marker rc s \<Longrightarrow>
     worker_inv out err info pid marker rc t"
proof (induction rule: worker_step.induct)
  case (wk_start s)
  then show ?case using carried_Nil
    by (auto simp: worker_inv_def sends_def sent_so_far_def intro!: exI [of _ "[]"])
next
  case (wk_out s c cs)
  then obtain ob e frames where "wk_sent s = diagnostic_frame info # started_frame pid # frames" "carried frames ob e"
    "ob @ concat (wk_stdout s) = concat out" "e @ concat (wk_stderr s) = concat err"
    by (auto simp: worker_inv_def sent_so_far_def)
  with wk_out carried_snoc(1) [of frames ob e c] show ?case
    by (simp add: worker_inv_def sends_def sent_so_far_def) (rule exI [of _ "ob @ c"], rule exI [of _ e], simp)
next
  case (wk_err s c cs)
  then obtain ob e frames where "wk_sent s = diagnostic_frame info # started_frame pid # frames" "carried frames ob e"
    "ob @ concat (wk_stdout s) = concat out" "e @ concat (wk_stderr s) = concat err"
    by (auto simp: worker_inv_def sent_so_far_def)
  with wk_err carried_snoc(2) [of frames ob e c] show ?case
    by (simp add: worker_inv_def sends_def sent_so_far_def) (rule exI [of _ ob], rule exI [of _ "e @ c"], simp)
next
  case (wk_marker s m)
  then show ?case using carried_snoc(1)
    by (auto simp: worker_inv_def sends_def sent_so_far_def)
next
  case (wk_exit s)
  then show ?case by (auto simp: worker_inv_def sends_def sent_so_far_def)
qed (auto simp: worker_inv_def sends_def init_worker_def)

lemma worker_reach_inv:
  assumes "(worker_step info pid marker rc)\<^sup>*\<^sup>* (init_worker out err) s"
  shows "worker_inv out err info pid marker rc s"
  using assms
proof (induction rule: rtranclp_induct)
  case base
  show ?case by (simp add: worker_inv_def init_worker_def)
next
  case (step y z)
  then show ?case using worker_step_inv by blast
qed

text \<open>
  C20. The proxy stands for the remote child: whatever the interleaving of the child's two output
  streams, when the worker's session has ended without an error frame, the proxy has written to its standard output
  the child's standard output and then the result marker, if the child left one, and to its error stream its own log lines with, between
  the line of the start and the line of the exit, exactly the child's standard error. Its exit status is the
  return code of the child, and for a child that was ended by a signal, whose return code is negative, this code plus 256.
  A chunk of standard input that fits a line reaches the child unchanged.
\<close>

theorem worker_proxy_relay:
  assumes "(worker_step info pid marker rc)\<^sup>*\<^sup>* (init_worker out err) s" and "wk_phase s = Finished"
    and "\<And>m. error_frame m \<notin> set (wk_sent s)" and "- 256 < rc" and "rc < 256"
    and "reads_back cd (stdin_frame data)" and "fits_line cd (stdin_frame data)"
  shows "proxy_run cd host port process_id (wk_sent s) =
      (\<lparr>rl_stdout = concat out @ (case marker of None \<Rightarrow> [] | Some m \<Rightarrow> m),
        rl_stderr = concat (map (\<lambda>line. line @ [newline])
            [''proxy: connecting process_id='' @ process_id @ '' worker='' @ host @ '':'' @ str_int port,
             ''proxy: connected process_id='' @ process_id, ''proxy: sent spawn process_id='' @ process_id,
             ''proxy diagnostic ['' @ process_id @ '']: '' @ info, ''proxy: started process_id='' @ process_id @ '' pid='' @ str_int pid])
          @ concat err @ ''proxy: remote exit process_id='' @ process_id @ '' rc='' @ str_int rc @ [newline]\<rparr>, Inr rc)
    \<and> proxy_exit (snd (proxy_run cd host port process_id (wk_sent s))) = (if rc < 0 then rc + 256 else rc)
    \<and> worker_message cd (json_line cd (stdin_frame data)) = Inr (WriteStdin data)"
proof -
  from worker_reach_inv [OF assms(1)] assms(2,3) obtain frames where
    frames: "wk_sent s = diagnostic_frame info # started_frame pid # frames @ [exit_frame rc]"
      "carried frames (concat out @ (case marker of None \<Rightarrow> [] | Some m \<Rightarrow> m)) (concat err)"
    by (auto simp: worker_inv_def)
  have "await_started cd process_id (wk_sent s) r
      = (proxy_log (started_line process_id (str_int pid)) (proxy_log (diagnostic_line process_id info) r), Inr (frames @ [exit_frame rc]))" for r
    by (simp add: frames diagnostic_frame_def started_frame_def jget_def dict_get_def dict_item_def)
  moreover have "worker_message cd (json_line cd (stdin_frame data)) = Inr (WriteStdin data)"
    using receive_object_line [OF assms(6,7)]
    by (simp add: worker_message_def) (simp add: worker_control_def stdin_frame_def jget_def dict_get_def dict_item_def b64decode_b64encode)
  moreover have "rc mod 256 = (if rc < 0 then rc + 256 else rc)"
  proof (cases "rc < 0")
    case True
    have "rc mod 256 = (rc + 256) mod 256" by simp
    also have "\<dots> = rc + 256" using True assms(4) by (intro mod_pos_pos_trivial) simp_all
    finally show ?thesis using True by simp
  qed (use assms(5) in simp)
  ultimately show ?thesis using assms(4,5)
    by (simp add: proxy_run_def carried_exit [OF frames(2)] proxy_exit_def proxy_connected_def proxy_log_def
        diagnostic_line_def started_line_def remote_exit_line_def)
qed

definition stdin_codec :: codec where
  "stdin_codec = \<lparr>cd_loads = (\<lambda>_. Inr (JObj (stdin_frame ''y''))), cd_str = (\<lambda>_. []), cd_dumps = (\<lambda>_. ''{i}'')\<rparr>"

theorem worker_proxy_relay_witness:
  "\<exists>s. (worker_step ''d'' 7 None (- 11))\<^sup>*\<^sup>* (init_worker [''hi''] [''oops'']) s
     \<and> rl_stdout (fst (proxy_run stdin_codec ''w'' 9300 ''p0'' (wk_sent s))) = ''hi''
     \<and> proxy_exit (snd (proxy_run stdin_codec ''w'' 9300 ''p0'' (wk_sent s))) = 245"
proof -
  let ?w = "worker_step ''d'' 7 None (- 11)"
  let ?s0 = "init_worker [''hi''] [''oops'']"
  let ?s1 = "sends (diagnostic_frame ''d'') (?s0\<lparr>wk_phase := Launched\<rparr>)"
  let ?s2 = "sends (started_frame 7) (?s1\<lparr>wk_phase := Streaming\<rparr>)"
  let ?s3 = "sends (output_frame ''stderr'' ''oops'') (?s2\<lparr>wk_stderr := []\<rparr>)"
  let ?s4 = "sends (output_frame ''stdout'' ''hi'') (?s3\<lparr>wk_stdout := []\<rparr>)"
  let ?s5 = "sends (exit_frame (- 11)) (?s4\<lparr>wk_phase := Finished\<rparr>)"
  have "?w ?s0 ?s1" by (rule wk_diagnose) (simp add: init_worker_def)
  moreover have "?w ?s1 ?s2" by (rule wk_start) (simp add: sends_def)
  moreover have "?w ?s2 ?s3" by (rule wk_err [where c = "''oops''"]) (simp_all add: sends_def init_worker_def)
  moreover have "?w ?s3 ?s4" by (rule wk_out [where c = "''hi''"]) (simp_all add: sends_def init_worker_def)
  moreover have "?w ?s4 ?s5" by (rule wk_exit) (simp add: sends_def init_worker_def)
  ultimately have r: "?w\<^sup>*\<^sup>* ?s0 ?s5" by (meson rtranclp.rtrancl_refl rtranclp.rtrancl_into_rtrancl)
  have frames: "error_frame m \<notin> set (wk_sent ?s5)" for m
    by (simp add: sends_def init_worker_def error_frame_def diagnostic_frame_def started_frame_def output_frame_def exit_frame_def)
  have "reads_back stdin_codec (stdin_frame ''y'')" "fits_line stdin_codec (stdin_frame ''y'')"
    by (simp_all add: stdin_codec_def reads_back_def fits_line_def is_ascii_def newline_def stream_limit_def)
  note input = this
  have finished: "wk_phase ?s5 = Finished" by (simp add: sends_def)
  have rc: "- 256 < (- 11 :: int)" "(- 11 :: int) < 256" by simp_all
  note relay = worker_proxy_relay [OF r finished frames rc input, of "''w''" 9300 "''p0''"]
  have "rl_stdout (fst (proxy_run stdin_codec ''w'' 9300 ''p0'' (wk_sent ?s5))) = ''hi''"
    by (simp only: conjunct1 [OF relay] fst_conv relayed.select_convs option.case concat.simps append_Nil append_Nil2)
  moreover have "proxy_exit (snd (proxy_run stdin_codec ''w'' 9300 ''p0'' (wk_sent ?s5))) = 245"
    using conjunct1 [OF conjunct2 [OF relay]] by simp
  ultimately show ?thesis using r by blast
qed

end
