(* ===== verification/Placement.thy ===== *)
theory Placement
  imports PyJson
begin

text \<open>
  Static process placement (\<open>real/generate_placement.py\<close>). The loaded YAML file (the YAML parser
  is third-party code) is a dictionary from phase name to the list of its process entries; a
  process entry is a dictionary of YAML values. \<open>generate_placement\<close> is \<open>main\<close> from the loaded
  file to the output record: it numbers the processes of both phases, orders them by the chosen
  policy, cuts the order into groups of equal size and reads the chiplet coordinate of each
  phase-one process.
\<close>

section \<open>Definitions\<close>

type_synonym process_id = "string \<times> nat"
type_synonym source_process = "process_id \<times> jobj"

record placed =
  pl_phase :: string
  pl_process_index :: nat
  pl_node_slot :: nat
  pl_node_label :: string
  pl_coordinates :: "(int \<times> int) option"

record placement =
  pm_workload :: string
  pm_swarm_nodes :: nat
  pm_placement_policy :: string
  pm_processes :: "placed list"

fun coordinate_pair :: "json list \<Rightarrow> (int \<times> int) option" where
  "coordinate_pair (first # second # rest) =
     (case (json_int first, json_int second) of
        (Inr x, Inr y) \<Rightarrow> Some (x, y)
      | _ \<Rightarrow> coordinate_pair (second # rest))"
| "coordinate_pair _ = None"

definition process_coordinates :: "jobj \<Rightarrow> string \<Rightarrow> nat \<Rightarrow> (int \<times> int) option res" where
  "process_coordinates process phase index =
     (if phase \<noteq> ''phase1'' then Inr None
      else case dict_get process ''args'' (JList []) of
        JList arguments \<Rightarrow>
          if length arguments < 2
          then Inl (ValueError (''phase-one process '' @ show_nat index @ '' has no coordinate arguments''))
          else (case coordinate_pair arguments of
                  Some c \<Rightarrow> Inr (Some c)
                | None \<Rightarrow> Inl (ValueError (''phase-one process '' @ show_nat index
                                @ '' has no consecutive numeric chiplet coordinate pair'')))
      | _ \<Rightarrow> Inl (ValueError (''phase-one process '' @ show_nat index @ '' has no coordinate arguments'')))"

definition mlp_identities :: "process_id list" where
  "mlp_identities = [(''phase1'', 4), (''phase1'', 0), (''phase1'', 1), (''phase1'', 2), (''phase1'', 3),
     (''phase1'', 5), (''phase1'', 6), (''phase2'', 0)]"

definition rank_identities :: "process_id list" where
  "rank_identities = [(''phase1'', 4), (''phase1'', 0), (''phase1'', 1), (''phase1'', 6),
     (''phase1'', 2), (''phase1'', 3), (''phase1'', 5), (''phase2'', 0)]"

definition in_identity_order :: "process_id list \<Rightarrow> (process_id, jobj) dict \<Rightarrow> source_process list" where
  "in_identity_order ids by_identity = map (\<lambda>i. (i, the (map_of by_identity i))) ids"

definition communication_aware_mlp_order :: "source_process list \<Rightarrow> source_process list res" where
  "communication_aware_mlp_order source_processes =
     (let by_identity = dict_of source_processes
      in if set (map fst by_identity) \<noteq> set mlp_identities
         then Inl (ValueError (''communication-aware MLP placement requires the unmodified ''
                @ ''four-GPU, CPU, DSA, MNSIM and PopNet process graph''))
         else Inr (in_identity_order mlp_identities by_identity))"

definition rank_aware_mlp_order :: "source_process list \<Rightarrow> nat \<Rightarrow> source_process list res" where
  "rank_aware_mlp_order source_processes nodes =
     (let by_identity = dict_of source_processes
      in if set (map fst by_identity) \<noteq> set mlp_identities
         then Inl (ValueError ''rank-aware MLP placement requires the unmodified native MLP process graph'')
         else if nodes = 1 \<or> nodes = 2 then Inr (in_identity_order rank_identities by_identity)
         else Inl (ValueError ''rank-aware MLP placement is defined only for 1 or 2 nodes''))"

definition source_processes_of :: "(string, jobj list) dict \<Rightarrow> source_process list" where
  "source_processes_of config =
     concat (map (\<lambda>phase. map (\<lambda>(i, p). ((phase, i), p)) (enumerate 0 (dict_get config phase [])))
       [''phase1'', ''phase2''])"

definition ordered_processes :: "string \<Rightarrow> string \<Rightarrow> nat \<Rightarrow> source_process list \<Rightarrow> source_process list res" where
  "ordered_processes policy workload_name nodes source_processes =
     (if policy = ''communication-aware''
      then (if workload_name \<noteq> ''mlp''
            then Inl (ValueError ''communication-aware placement is currently defined only for workload mlp'')
            else communication_aware_mlp_order source_processes)
      else if policy = ''rank-aware''
      then (if workload_name \<noteq> ''mlp''
            then Inl (ValueError ''rank-aware placement is currently defined only for workload mlp'')
            else rank_aware_mlp_order source_processes nodes)
      else Inr source_processes)"

definition place_process :: "nat \<Rightarrow> nat \<times> source_process \<Rightarrow> placed res" where
  "place_process processes_per_node = (\<lambda>(global_index, (phase, process_index), process).
     let node_slot = global_index div processes_per_node
     in bindE (process_coordinates process phase process_index) (\<lambda>coordinates.
        Inr \<lparr>pl_phase = phase, pl_process_index = process_index, pl_node_slot = node_slot,
             pl_node_label = ''chipsystemsim.node.'' @ show_nat node_slot,
             pl_coordinates = coordinates\<rparr>))"

definition generate_placement ::
  "string \<Rightarrow> string \<Rightarrow> nat \<Rightarrow> (string, jobj list) dict \<Rightarrow> placement res" where
  "generate_placement policy workload_name nodes config =
     (if nodes \<notin> {1, 2, 4, 8} then Inl (SystemExit ''argument --nodes: invalid choice'')
      else if policy \<notin> {''contiguous'', ''communication-aware'', ''rank-aware''}
      then Inl (SystemExit ''argument --placement-policy: invalid choice'')
      else
        (let source_processes = source_processes_of config
         in if length source_processes mod nodes \<noteq> 0
            then Inl (ValueError (show_nat (length source_processes)
                   @ '' native processes cannot be evenly grouped across '' @ show_nat nodes @ '' nodes''))
            else
              (let processes_per_node = length source_processes div nodes
               in bindE (ordered_processes policy workload_name nodes source_processes) (\<lambda>ordered.
                  bindE (mapE (place_process processes_per_node) (enumerate 0 ordered)) (\<lambda>placement.
                  Inr \<lparr>pm_workload = workload_name, pm_swarm_nodes = nodes,
                       pm_placement_policy = policy, pm_processes = placement\<rparr>)))))"

section \<open>The policies permute the processes\<close>

definition placed_id :: "placed \<Rightarrow> process_id" where
  "placed_id p = (pl_phase p, pl_process_index p)"

lemma source_processes_distinct: "distinct (map fst (source_processes_of config))"
proof -
  have "map fst (map (\<lambda>(i, p). ((phase, i), p)) (enumerate 0 ps)) = map (Pair phase) [0..<length ps]"
    for phase :: string and ps :: "jobj list"
    by (rule nth_equalityI) (simp_all add: nth_enumerate_eq)
  then show ?thesis
    by (auto simp: source_processes_of_def distinct_map inj_on_def)
qed

lemma mset_in_identity_order:
  assumes "distinct ids" and "distinct (map fst d)" and "set (map fst d) = set ids"
  shows "mset (in_identity_order ids d) = mset d"
proof -
  have "set (in_identity_order ids d) = set d"
    using assms by (force simp: in_identity_order_def image_iff)
  moreover have "distinct (in_identity_order ids d)"
    using assms(1) by (simp add: in_identity_order_def distinct_map inj_on_def)
  moreover have "distinct d" using assms(2) by (simp add: distinct_map)
  ultimately show ?thesis by (simp add: set_eq_iff_mset_eq_distinct)
qed

lemma identities_distinct: "distinct mlp_identities" "distinct rank_identities"
  and identities_same: "set rank_identities = set mlp_identities"
  by (auto simp: mlp_identities_def rank_identities_def)

lemma ordered_processes_permutes:
  assumes "ordered_processes policy workload_name nodes ps = Inr ordered" and "distinct (map fst ps)"
  shows "mset ordered = mset ps"
  using assms identities_distinct identities_same
  by (auto simp: ordered_processes_def communication_aware_mlp_order_def rank_aware_mlp_order_def
      dict_of_distinct Let_def mset_in_identity_order split: if_splits)

section \<open>Equal groups\<close>

lemma place_process_Inr:
  "place_process k (i, ((phase, j), process)) = Inr p \<longleftrightarrow>
     (\<exists>c. process_coordinates process phase j = Inr c \<and>
        p = \<lparr>pl_phase = phase, pl_process_index = j, pl_node_slot = i div k,
             pl_node_label = ''chipsystemsim.node.'' @ show_nat (i div k), pl_coordinates = c\<rparr>)"
  by (auto simp: place_process_def bindE_eq_Inr Let_def)

lemma placed_nth:
  assumes "mapE (place_process k) (enumerate 0 ordered) = Inr ps"
  shows "length ps = length ordered"
    and "\<And>i. i < length ordered \<Longrightarrow> place_process k (i, ordered ! i) = Inr (ps ! i)"
  using assms by (auto simp: mapE_Inr_iff list_all2_conv_all_nth nth_enumerate_eq)

lemma div_eq_interval: "0 < k \<Longrightarrow> i div k = s \<longleftrightarrow> k * s \<le> i \<and> i < k * s + k" for k :: nat
  using less_eq_div_iff_mult_less_eq [of k s i] div_less_iff_less_mult [of k i "Suc s"]
  by (auto simp: mult.commute)

lemma card_div_group:
  assumes k: "0 < k" and s: "s < n"
  shows "card {i. i < k * n \<and> i div k = s} = k"
proof -
  have "k * s + k \<le> k * n" using s by (metis Suc_leI mult_Suc_right mult_le_mono2 add.commute)
  then have "{i. i < k * n \<and> i div k = s} = {k * s..<k * s + k}" using k by (auto simp: div_eq_interval)
  then show ?thesis by simp
qed

lemma generate_placement_Inr:
  assumes "generate_placement policy workload_name nodes config = Inr pm"
  obtains ordered where
    "ordered_processes policy workload_name nodes (source_processes_of config) = Inr ordered"
    "mset ordered = mset (source_processes_of config)"
    "mapE (place_process (length ordered div nodes)) (enumerate 0 ordered) = Inr (pm_processes pm)"
    "length ordered mod nodes = 0" "nodes \<in> {1, 2, 4, 8}" "pm_swarm_nodes pm = nodes"
proof -
  from assms obtain ordered where o: "ordered_processes policy workload_name nodes (source_processes_of config) = Inr ordered"
    and rest: "mapE (place_process (length (source_processes_of config) div nodes)) (enumerate 0 ordered) = Inr (pm_processes pm)"
      "length (source_processes_of config) mod nodes = 0" "nodes \<in> {1, 2, 4, 8}" "pm_swarm_nodes pm = nodes"
    by (auto simp: generate_placement_def bindE_eq_Inr Let_def simp del: insert_iff split: if_splits)
  have "mset ordered = mset (source_processes_of config)"
    using ordered_processes_permutes [OF o source_processes_distinct] .
  with o rest that [of ordered] show thesis using mset_eq_length [of ordered] by simp
qed

lemma placed_slots:
  assumes "mapE (place_process k) (enumerate 0 ordered) = Inr ps"
  shows "map placed_id ps = map fst ordered" and "map pl_node_slot ps = map (\<lambda>i. i div k) [0..<length ordered]"
proof -
  note n = placed_nth [OF assms]
  have "placed_id (ps ! i) = fst (ordered ! i) \<and> pl_node_slot (ps ! i) = i div k" if "i < length ordered" for i
    using n(2) [OF that] by (cases "ordered ! i") (auto simp: place_process_Inr placed_id_def)
  with n(1) show "map placed_id ps = map fst ordered"
    and "map pl_node_slot ps = map (\<lambda>i. i div k) [0..<length ordered]"
    by (auto intro!: nth_equalityI)
qed

lemma slot_group_size:
  assumes "mapE (place_process k) (enumerate 0 ordered) = Inr ps" and "length ordered = k * n" and "s < n"
  shows "length (filter (\<lambda>p. pl_node_slot p = s) ps) = k"
proof (cases "k = 0")
  case True
  then show ?thesis using assms by (auto simp: mapE_Inr_iff)
next
  case False
  have "length (filter (\<lambda>p. pl_node_slot p = s) ps) = length (filter (\<lambda>t. t = s) (map pl_node_slot ps))"
    by (simp add: filter_map comp_def)
  also have "\<dots> = card {i. i < k * n \<and> i div k = s}"
    by (auto simp: placed_slots(2) [OF assms(1)] length_filter_conv_card assms(2) intro!: arg_cong [where f = card])
  finally show ?thesis using False assms(3) by (simp add: card_div_group)
qed

text \<open>
  C9. A generated placement places every source process exactly once under its own identity, every
  one of the worker slots receives the same number of processes, no process is placed on a slot
  that does not exist, and each recorded coordinate is the one of the source process.
\<close>

theorem placement_equal_groups:
  assumes "generate_placement policy workload_name nodes config = Inr pm"
  shows "mset (map placed_id (pm_processes pm)) = mset (map fst (source_processes_of config))
    \<and> distinct (map placed_id (pm_processes pm))
    \<and> (\<forall>s < nodes. length (filter (\<lambda>p. pl_node_slot p = s) (pm_processes pm)) * nodes
          = length (source_processes_of config))
    \<and> (\<forall>p \<in> set (pm_processes pm). pl_node_slot p < nodes
         \<and> (\<exists>process. (placed_id p, process) \<in> set (source_processes_of config)
              \<and> process_coordinates process (pl_phase p) (pl_process_index p) = Inr (pl_coordinates p)))"
proof -
  obtain ordered where
    "ordered_processes policy workload_name nodes (source_processes_of config) = Inr ordered"
    and o: "mset ordered = mset (source_processes_of config)"
    and m: "mapE (place_process (length ordered div nodes)) (enumerate 0 ordered) = Inr (pm_processes pm)"
    and n: "length ordered mod nodes = 0" "nodes \<in> {1, 2, 4, 8}" "pm_swarm_nodes pm = nodes"
    by (rule generate_placement_Inr [OF assms])
  let ?k = "length ordered div nodes"
  have len: "length ordered = ?k * nodes" using n by auto
  have ids: "mset (map placed_id (pm_processes pm)) = mset (map fst (source_processes_of config))"
    using placed_slots(1) [OF m] o by (metis mset_map)
  moreover have "distinct (map placed_id (pm_processes pm))"
    using ids source_processes_distinct mset_eq_imp_distinct_iff by blast
  moreover have "length (filter (\<lambda>p. pl_node_slot p = s) (pm_processes pm)) * nodes
      = length (source_processes_of config)" if "s < nodes" for s
    using slot_group_size [OF m len that] len mset_eq_length [OF o] by simp
  moreover have "pl_node_slot p < nodes \<and> (\<exists>process. (placed_id p, process) \<in> set (source_processes_of config)
      \<and> process_coordinates process (pl_phase p) (pl_process_index p) = Inr (pl_coordinates p))"
    if "p \<in> set (pm_processes pm)" for p
  proof -
    from that placed_nth(1) [OF m] obtain i where i: "i < length ordered" "p = pm_processes pm ! i"
      by (metis in_set_conv_nth)
    obtain phase j process where oi: "ordered ! i = ((phase, j), process)" by (metis surj_pair)
    with i have "((phase, j), process) \<in> set (source_processes_of config)"
      using mset_eq_setD [OF o] by (metis nth_mem)
    moreover have "i div ?k < nodes" using i(1) len by (metis less_mult_imp_div_less mult.commute)
    ultimately show ?thesis using placed_nth(2) [OF m i(1)] i(2) oi
      by (auto simp: place_process_Inr placed_id_def)
  qed
  ultimately show ?thesis by blast
qed

definition mlp_process :: "int \<Rightarrow> int \<Rightarrow> jobj" where
  "mlp_process x y = [(''cmd'', JStr ''sim''), (''args'', JList [JStr ''-d'', JStr (str_int x), JStr (str_int y)])]"

definition mlp_config :: "(string, jobj list) dict" where
  "mlp_config = [(''phase1'', [mlp_process 0 0, mlp_process 0 1, mlp_process 1 0, mlp_process 1 1,
      mlp_process 5 5, mlp_process 2 0, mlp_process 0 3]), (''phase2'', [[(''cmd'', JStr ''popnet'')]])]"

lemma mlp_process_coordinates:
  "process_coordinates (mlp_process x y) ''phase1'' i = Inr (Some (x, y))"
proof -
  have "int_text ''-d'' \<noteq> Inr z" for z by (simp add: text_eval)
  then show ?thesis
    by (cases "int_text ''-d''") (auto simp: process_coordinates_def mlp_process_def dict_get_def)
qed

lemma no_phase_two_coordinates: "process_coordinates process ''phase2'' i = Inr None"
  by (simp add: process_coordinates_def)

lemma mlp_source_processes:
  "source_processes_of mlp_config =
     [((''phase1'', 0), mlp_process 0 0), ((''phase1'', 1), mlp_process 0 1), ((''phase1'', 2), mlp_process 1 0),
      ((''phase1'', 3), mlp_process 1 1), ((''phase1'', 4), mlp_process 5 5), ((''phase1'', 5), mlp_process 2 0),
      ((''phase1'', 6), mlp_process 0 3), ((''phase2'', 0), [(''cmd'', JStr ''popnet'')])]"
  by (simp add: source_processes_of_def mlp_config_def dict_get_def enumerate_Suc_eq numeral_nat)

lemma mlp_placement_accepted:
  "\<exists>pm. generate_placement ''contiguous'' ''mlp'' 2 mlp_config = Inr pm"
  "\<exists>pm. generate_placement ''rank-aware'' ''mlp'' 2 mlp_config = Inr pm"
  by (simp_all add: generate_placement_def mlp_source_processes ordered_processes_def place_process_def
      rank_aware_mlp_order_def dict_of_distinct in_identity_order_def mlp_identities_def rank_identities_def
      insert_commute enumerate_Suc_eq mlp_process_coordinates no_phase_two_coordinates Let_def)

theorem placement_equal_groups_witness:
  "\<exists>pm. generate_placement ''contiguous'' ''mlp'' 2 mlp_config = Inr pm
     \<and> length (filter (\<lambda>p. pl_node_slot p = 1) (pm_processes pm)) * 2 = 8"
proof -
  obtain pm where pm: "generate_placement ''contiguous'' ''mlp'' 2 mlp_config = Inr pm"
    using mlp_placement_accepted(1) by blast
  with placement_equal_groups [OF pm, THEN conjunct2, THEN conjunct2, THEN conjunct1, rule_format, of 1]
  show ?thesis by (simp add: mlp_source_processes)
qed

lemma slot_zero_group:
  assumes "mapE (place_process k) (enumerate 0 ordered) = Inr ps" and "0 < k"
  shows "placed_id ` {p \<in> set ps. pl_node_slot p = 0} = set (take k (map fst ordered))"
proof -
  note n = placed_nth [OF assms(1)] and m = placed_slots [OF assms(1)]
  have slot: "pl_node_slot (ps ! i) = i div k" and ident: "placed_id (ps ! i) = fst (ordered ! i)"
    if "i < length ordered" for i
    using that m n(1) nth_map [of i ps pl_node_slot] nth_map [of i ps placed_id] by auto
  have "{p \<in> set ps. pl_node_slot p = 0} = {ps ! i |i. i < length ordered \<and> i < k}"
    using slot assms(2) by (auto simp: in_set_conv_nth n(1) div_eq_0_iff)
  then have "placed_id ` {p \<in> set ps. pl_node_slot p = 0} = {fst (ordered ! i) |i. i < length ordered \<and> i < k}"
    using ident by (auto simp: image_iff) metis
  also have "\<dots> = {take k (map fst ordered) ! i |i. i < length (take k (map fst ordered))}"
    by (intro Collect_cong ex_cong1) auto
  also have "\<dots> = set (take k (map fst ordered))" by (simp only: set_conv_nth)
  finally show ?thesis .
qed

text \<open>
  The documented affinity groups of the two MLP policies. On two nodes the rank-aware policy
  keeps CPU, both rank-0 GPUs and MNSIM on worker 0; the communication-aware policy keeps the CPU and
  three GPUs on worker 0 of two, and the CPU and one GPU on worker 0 of four. The rank-aware policy
  is refused on four and eight nodes.
\<close>

theorem placement_affinity_groups:
  assumes "generate_placement policy workload_name nodes config = Inr pm"
  shows "(policy = ''rank-aware'' \<longrightarrow> nodes \<in> {1, 2})
    \<and> (policy = ''rank-aware'' \<and> nodes = 2 \<longrightarrow>
        placed_id ` {p \<in> set (pm_processes pm). pl_node_slot p = 0}
          = {(''phase1'', 4), (''phase1'', 0), (''phase1'', 1), (''phase1'', 6)})
    \<and> (policy = ''communication-aware'' \<and> nodes = 2 \<longrightarrow>
        placed_id ` {p \<in> set (pm_processes pm). pl_node_slot p = 0}
          = {(''phase1'', 4), (''phase1'', 0), (''phase1'', 1), (''phase1'', 2)})
    \<and> (policy = ''communication-aware'' \<and> nodes = 4 \<longrightarrow>
        placed_id ` {p \<in> set (pm_processes pm). pl_node_slot p = 0}
          = {(''phase1'', 4), (''phase1'', 0)})"
proof -
  obtain ordered where
    o: "ordered_processes policy workload_name nodes (source_processes_of config) = Inr ordered"
    and "mset ordered = mset (source_processes_of config)"
    and m: "mapE (place_process (length ordered div nodes)) (enumerate 0 ordered) = Inr (pm_processes pm)"
    and "length ordered mod nodes = 0" "nodes \<in> {1, 2, 4, 8}" "pm_swarm_nodes pm = nodes"
    by (rule generate_placement_Inr [OF assms])
  have rank: "nodes \<in> {1, 2} \<and> map fst ordered = rank_identities" if "policy = ''rank-aware''"
    using o that by (auto simp: ordered_processes_def rank_aware_mlp_order_def in_identity_order_def
        comp_def Let_def split: if_splits)
  have comm: "map fst ordered = mlp_identities" if "policy = ''communication-aware''"
    using o that by (auto simp: ordered_processes_def communication_aware_mlp_order_def in_identity_order_def
        comp_def Let_def split: if_splits)
  have eight: "length ordered = 8"
    if "map fst ordered = ids" "ids = rank_identities \<or> ids = mlp_identities" for ids
    using arg_cong [OF that(1), of length] that(2) by (auto simp: rank_identities_def mlp_identities_def)
  have group: "placed_id ` {p \<in> set (pm_processes pm). pl_node_slot p = 0} = set (take (8 div n) ids)"
    if "map fst ordered = ids" "ids = rank_identities \<or> ids = mlp_identities" "nodes = n" "n = 2 \<or> n = 4" for ids n
    using slot_zero_group [OF m] eight [OF that(1,2)] that by (elim disjE) simp_all
  show ?thesis
  proof (intro conjI impI)
    show "nodes \<in> {1, 2}" if "policy = ''rank-aware''" using rank [OF that] by simp
  qed (use rank comm group in \<open>simp_all add: rank_identities_def mlp_identities_def\<close>)
qed

theorem placement_affinity_groups_witness:
  "\<exists>pm. generate_placement ''rank-aware'' ''mlp'' 2 mlp_config = Inr pm
     \<and> placed_id ` {p \<in> set (pm_processes pm). pl_node_slot p = 0}
          = {(''phase1'', 4), (''phase1'', 0), (''phase1'', 1), (''phase1'', 6)}"
proof -
  obtain pm where pm: "generate_placement ''rank-aware'' ''mlp'' 2 mlp_config = Inr pm"
    using mlp_placement_accepted(2) by blast
  with placement_affinity_groups [OF pm, THEN conjunct2, THEN conjunct1] show ?thesis by simp
qed

end
