(* ===== verification/DistributedYaml.thy ===== *)
theory DistributedYaml
  imports RemoteProcess Placement
begin

text \<open>
  The distributed workload file (\<open>real/generate_distributed_yaml.py\<close>): every phase-one process of the
  loaded YAML file, and with \<open>--remote-phase2\<close> every phase-two process, becomes a call of the process
  proxy that names the worker of its slot; with the ns-3 backend the phase-two process becomes the
  coordinator-local adapter. The loaded file is a dictionary of YAML values (the parser is third-party
  code). Commands and \<open>pre_copy\<close> entries are text, as in every workload file; another type is a
  \<open>TypeError\<close> here.
\<close>

section \<open>Definitions\<close>

record yaml_arguments =
  ya_stream_output :: bool
  ya_benchmark_root :: "string option"
  ya_shared_worker_asset :: "string list"
  ya_remote_phase2 :: bool
  ya_phase2_backend :: string
  ya_ns3_cycle_ns :: int
  ya_ns3_link_rate :: string
  ya_ns3_link_delay_ns :: int
  ya_ns3_queue_packets :: int
  ya_ns3_localize :: bool
  ya_gdb_process_index :: "int option"
  ya_sniper_cores :: "int option"
  ya_sniper_fast_forward :: bool
  ya_sniper_maxthreads :: "int option"
  ya_max_completed_cta :: "int option"
  ya_max_instructions :: "int option"

definition below_one :: "int option \<Rightarrow> bool" where
  "below_one n = (case n of None \<Rightarrow> False | Some i \<Rightarrow> i < 1)"

definition check_yaml_arguments :: "yaml_arguments \<Rightarrow> unit res" where
  "check_yaml_arguments a =
     (if ya_phase2_backend a \<notin> {''popnet'', ''ns3''} then Inl (SystemExit ''argument --phase2-backend: invalid choice'')
      else if below_one (ya_max_completed_cta a) then Inl (ValueError ''--gpgpu-max-completed-cta must be positive'')
      else if below_one (ya_max_instructions a) then Inl (ValueError ''--gpgpu-max-instructions must be positive'')
      else if ya_ns3_cycle_ns a < 1 \<or> ya_ns3_link_delay_ns a < 1 \<or> ya_ns3_queue_packets a < 1
      then Inl (ValueError ''ns-3 timing parameters must be positive'')
      else if ya_remote_phase2 a \<and> ya_phase2_backend a = ''ns3''
      then Inl (ValueError ''ns-3 Phase 2 must remain coordinator-local so delayInfo is available to the next round'')
      else Inr ())"

definition placements_of :: "placed list \<Rightarrow> string \<Rightarrow> (nat, placed) dict" where
  "placements_of processes phase =
     dict_of (map (\<lambda>item. (pl_process_index item, item)) (filter (\<lambda>item. pl_phase item = phase) processes))"

text \<open>\<open>arguments.benchmark_root\<close> is unset when it is missing or empty.\<close>

definition replace_root :: "string option \<Rightarrow> string \<Rightarrow> string" where
  "replace_root root s =
     (case root of None \<Rightarrow> s | Some r \<Rightarrow> if r = [] then s else replace_all ''$BENCHMARK_ROOT'' r s)"

fun replace_root_value :: "string option \<Rightarrow> json \<Rightarrow> json" where
  "replace_root_value root (JStr s) = JStr (replace_root root s)"
| "replace_root_value root j = j"

definition yaml_text :: "json \<Rightarrow> string res" where
  "yaml_text j = (case as_str j of Some s \<Rightarrow> Inr s | None \<Rightarrow> Inl (TypeError ''object is not text''))"

definition is_sniper :: "string \<Rightarrow> bool" where
  "is_sniper command \<longleftrightarrow> suffix ''/run-sniper'' command"

text \<open>The debugger and Sniper options of a phase-one process.\<close>

definition debug_command :: "yaml_arguments \<Rightarrow> nat \<Rightarrow> string \<Rightarrow> json list \<Rightarrow> (string \<times> json list) res" where
  "debug_command a index command arguments =
     (if ya_gdb_process_index a = Some (int index)
      then Inr (''/usr/bin/gdb'', map JStr [''--batch'', ''--quiet'', ''-ex'', ''set pagination off'',
              ''-ex'', ''run'', ''-ex'', ''thread apply all bt full'', ''--args'', command] @ arguments)
      else case ya_sniper_cores a of
        None \<Rightarrow> Inr (command, arguments)
      | Some cores \<Rightarrow>
          if \<not> is_sniper command then Inr (command, arguments)
          else if cores < 1 then Inl (ValueError ''--sniper-cores must be positive'')
          else Inr (command, JStr ''-n'' # JStr (str_int cores) # arguments))"

definition sniper_options :: "yaml_arguments \<Rightarrow> string \<times> json list \<Rightarrow> (string \<times> json list) res" where
  "sniper_options a = (\<lambda>(command, arguments0).
     let arguments = (if ya_sniper_fast_forward a \<and> is_sniper command
                      then JStr ''--fast-forward'' # arguments0 else arguments0)
     in case ya_sniper_maxthreads a of
          None \<Rightarrow> Inr (command, arguments)
        | Some n \<Rightarrow>
            if \<not> is_sniper command then Inr (command, arguments)
            else if n < 1 then Inl (ValueError ''--sniper-maxthreads must be positive'')
            else Inr (command, JStr (''--maxthreads='' @ str_int n) # arguments))"

definition launch_command :: "yaml_arguments \<Rightarrow> string \<Rightarrow> nat \<Rightarrow> string \<Rightarrow> json list \<Rightarrow> (string \<times> json list) res" where
  "launch_command a phase index command arguments =
     (if phase = ''phase1'' then bindE (debug_command a index command arguments) (sniper_options a)
      else Inr (command, arguments))"

text \<open>The staging loop of phase two: the rewritten arguments and the staging specifications.\<close>

definition staged_name :: "string \<Rightarrow> string" where
  "staged_name source = last (rsplit1 (CHR ''/'') source)"

fun is_staged :: "json \<Rightarrow> bool" where
  "is_staged (JStr s) = prefix ''../'' s"
| "is_staged _ = False"

fun stage_argument :: "json \<Rightarrow> json" where
  "stage_argument (JStr s) = (if prefix ''../'' s then JStr (staged_name s) else JStr s)"
| "stage_argument j = j"

definition stage_specifications :: "json list \<Rightarrow> string list" where
  "stage_specifications arguments =
     map (\<lambda>j. the (as_str j) @ '':'' @ staged_name (the (as_str j))) (filter is_staged arguments)"

definition limit_option :: "string \<Rightarrow> string \<Rightarrow> string \<Rightarrow> int option \<Rightarrow> json list" where
  "limit_option phase pre_copy name maximum =
     (case maximum of
        Some m \<Rightarrow> if phase = ''phase1'' \<and> sublist ''gpgpu-sim'' pre_copy then [JStr name, JStr (str_int m)] else []
      | None \<Rightarrow> [])"

definition option_words :: "string \<Rightarrow> string list \<Rightarrow> json list" where
  "option_words name values = concat (map (\<lambda>v. [JStr name, JStr v]) values)"

definition worker_address :: "nat \<Rightarrow> string" where
  "worker_address slot = ''worker-'' @ show_nat slot @ '':9300''"

definition proxy_words ::
  "yaml_arguments \<Rightarrow> string \<Rightarrow> nat \<Rightarrow> nat \<Rightarrow> string \<Rightarrow> string \<Rightarrow> json list \<Rightarrow> json list" where
  "proxy_words a phase index slot pre_copy command arguments =
     map JStr [''/opt/chipsystemsim-distributed/process_proxy.py'', ''--worker'', worker_address slot,
        ''--process-id'', phase @ ''-'' @ show_nat index, ''--pre-copy'', pre_copy]
     @ (if phase = ''phase2'' then option_words ''--stage-file'' (stage_specifications arguments) else [])
     @ option_words ''--shared-asset'' (map (replace_root (ya_benchmark_root a)) (ya_shared_worker_asset a))
     @ limit_option phase pre_copy ''--gpgpu-max-completed-cta'' (ya_max_completed_cta a)
     @ limit_option phase pre_copy ''--gpgpu-max-instructions'' (ya_max_instructions a)
     @ JStr command # (if phase = ''phase2'' then map stage_argument arguments else arguments)"

definition wrap_process :: "yaml_arguments \<Rightarrow> placed list \<Rightarrow> string \<Rightarrow> nat \<times> jobj \<Rightarrow> jobj res" where
  "wrap_process a processes phase = (\<lambda>(index, process).
     case map_of (placements_of processes phase) index of
       None \<Rightarrow> Inl (KeyError (show_nat index))
     | Some item \<Rightarrow>
         bindE (bindE (dict_item process ''cmd'') yaml_text) (\<lambda>command0.
         bindE (json_iter (dict_get process ''args'' (JList []))) (\<lambda>arguments0.
         bindE (yaml_text (dict_get process ''pre_copy'' (JStr []))) (\<lambda>pre_copy0.
           let root = ya_benchmark_root a; pre_copy = replace_root root pre_copy0
           in bindE (launch_command a phase index (replace_root root command0)
                       (map (replace_root_value root) arguments0)) (\<lambda>(command, arguments).
              let wrapped = AList.update ''args'' (JList (proxy_words a phase index (pl_node_slot item) pre_copy
                                command arguments)) (AList.update ''cmd'' (JStr ''python3'') process);
                  popped = AList.delete ''pre_copy'' wrapped
              in Inr (if ya_stream_output a then AList.update ''is_to_stdout'' (JBool True) popped else popped))))))"

text \<open>\<open>arguments[arguments.index(name) + 1]\<close>\<close>

fun argument_after :: "string \<Rightarrow> json list \<Rightarrow> json res" where
  "argument_after name [] = Inl (ValueError (name @ '' is not in list''))"
| "argument_after name (x # xs) =
     (if x = JStr name then (case xs of [] \<Rightarrow> Inl IndexError | y # _ \<Rightarrow> Inr y) else argument_after name xs)"

definition popnet_arguments :: "codec \<Rightarrow> json list \<Rightarrow> (string \<times> int \<times> string) res" where
  "popnet_arguments cd arguments =
     (case bindE (argument_after ''-A'' arguments) (\<lambda>nodes.
           bindE (bindE (argument_after ''-F'' arguments) json_int) (\<lambda>flit_count.
           bindE (argument_after ''-G'' arguments) (\<lambda>topology.
             Inr (json_str cd nodes, flit_count, json_str cd topology)))) of
        Inl (ValueError _) \<Rightarrow> Inl (ValueError ''Phase-2 PopNet arguments must contain -A, -F and -G'')
      | Inl IndexError \<Rightarrow> Inl (ValueError ''Phase-2 PopNet arguments must contain -A, -F and -G'')
      | r \<Rightarrow> r)"

text \<open>\<open>str(Path(root) / "topology" / name)\<close> on POSIX.\<close>

definition path_anchor :: "string \<Rightarrow> string" where
  "path_anchor s = (if prefix ''//'' s \<and> \<not> prefix ''///'' s then ''//'' else if prefix ''/'' s then ''/'' else [])"

definition path_parts :: "string \<Rightarrow> string list" where
  "path_parts s = filter (\<lambda>p. p \<noteq> [] \<and> p \<noteq> ''.'') (split_on (CHR ''/'') s)"

definition topology_path :: "string option \<Rightarrow> string \<Rightarrow> string" where
  "topology_path root topology =
     (case root of
        None \<Rightarrow> topology
      | Some r \<Rightarrow> if r \<noteq> [] \<and> prefix ''../topology/'' topology
                 then path_anchor r @ join_with ''/'' (path_parts r @ [''topology'', path_name topology])
                 else topology)"

definition ns3_words :: "yaml_arguments \<Rightarrow> string \<Rightarrow> int \<Rightarrow> string \<Rightarrow> json list" where
  "ns3_words a node_count flit_count topology =
     map JStr ([''/opt/chipsystemsim-distributed/ns3_phase2_runner.py'', ''--bench'', ''../bench.txt'',
        ''--delay-info'', ''../delayInfo.txt'', ''--topology'', topology, ''--nodes'', node_count,
        ''--cycle-ns'', str_int (ya_ns3_cycle_ns a), ''--flit-bytes'', str_int (flit_count * 8),
        ''--link-rate'', ya_ns3_link_rate a, ''--link-delay-ns'', str_int (ya_ns3_link_delay_ns a),
        ''--queue-packets'', str_int (ya_ns3_queue_packets a), ''--metrics-csv'', ''../ns3_phase2_metrics.csv'',
        ''--summary-json'', ''../ns3_phase2_summary.json'']
      @ (if ya_ns3_localize a then [''--worker-routing'', ''/run/config/routing.json'',
           ''--localize-cross-worker-network''] else []))"

definition ns3_process :: "codec \<Rightarrow> yaml_arguments \<Rightarrow> jobj \<Rightarrow> jobj res" where
  "ns3_process cd a process =
     bindE (json_iter (dict_get process ''args'' (JList []))) (\<lambda>original.
     bindE (popnet_arguments cd original) (\<lambda>(node_count, flit_count, topology).
       if flit_count < 1 then Inl (ValueError ''Phase-2 flit count must be positive'')
       else Inr (AList.update ''is_to_stdout'' (JBool True) (AList.update ''log'' (JStr ''ns3_phase2.log'')
              (AList.update ''args'' (JList (ns3_words a node_count flit_count
                    (topology_path (ya_benchmark_root a) topology)))
                (AList.update ''cmd'' (JStr ''python3'') process))))))"

text \<open>A phase of the file: its process entries, and the file with them replaced.\<close>

definition phase_entries :: "json \<Rightarrow> jobj list res" where
  "phase_entries j =
     bindE (json_iter j) (mapE (\<lambda>p. case p of JObj d \<Rightarrow> Inr d | _ \<Rightarrow> Inl (TypeError ''process is not a mapping'')))"

definition update_phase :: "string \<Rightarrow> (jobj list \<Rightarrow> jobj list res) \<Rightarrow> jobj \<Rightarrow> jobj res" where
  "update_phase phase f config =
     (case map_of config phase of
        None \<Rightarrow> Inr config
      | Some j \<Rightarrow> bindE (bindE (phase_entries j) f) (\<lambda>ps. Inr (AList.update phase (JList (map JObj ps)) config)))"

definition generate_distributed_yaml ::
  "codec \<Rightarrow> yaml_arguments \<Rightarrow> placed list \<Rightarrow> jobj \<Rightarrow> jobj res" where
  "generate_distributed_yaml cd a processes config =
     bindE (check_yaml_arguments a) (\<lambda>_.
     bindE (if ya_phase2_backend a = ''ns3'' then update_phase ''phase2'' (mapE (ns3_process cd a)) config
            else Inr config) (\<lambda>config1.
     bindE (dict_item config1 ''phase1'') (\<lambda>_.
     bindE (update_phase ''phase1'' (\<lambda>ps. mapE (wrap_process a processes ''phase1'') (enumerate 0 ps)) config1) (\<lambda>config2.
     if ya_remote_phase2 a
     then update_phase ''phase2'' (\<lambda>ps. mapE (wrap_process a processes ''phase2'') (enumerate 0 ps)) config2
     else Inr config2))))"

section \<open>Phase-two inputs\<close>

lemma staged_name_plain: "CHR ''/'' \<notin> set (staged_name s)"
  using split_on_parts [OF last_in_set [OF split_on_nonempty]] by (simp add: staged_name_def last_rsplit1)

lemma path_name_id: "CHR ''/'' \<notin> set s \<Longrightarrow> s \<noteq> [] \<Longrightarrow> s \<noteq> ''.'' \<Longrightarrow> path_name s = s"
  by (simp add: path_name_def split_on_no_sep)

definition good_name :: "string \<Rightarrow> bool" where
  "good_name d \<longleftrightarrow> d \<notin> {[], ''.'', ''..''} \<and> CHR '':'' \<notin> set d"

lemma staged_specification:
  assumes "prefix ''../'' s" and "good_name (staged_name s)" and "read_file s = Some bytes"
  shows "proxy_stage_file read_file (s @ '':'' @ staged_name s)
    = Inr [(''destination'', JStr (staged_name s)), (''data'', JStr (b64encode bytes))]"
proof -
  have "rpartition_at (CHR '':'') (s @ '':'' @ staged_name s) = (s, True, staged_name s)"
    using assms(2) by (simp add: good_name_def rpartition_at_last)
  moreover have "s \<noteq> []" using assms(1) by auto
  ultimately show ?thesis using assms path_name_id [OF staged_name_plain, of s]
    by (auto simp: proxy_stage_file_def good_name_def)
qed

lemma write_staged_encoded:
  assumes "good_name d" and "CHR ''/'' \<notin> set d" and "length bytes \<le> staged_limit"
  shows "write_staged (JObj [(''destination'', JStr d), (''data'', JStr (b64encode bytes))]) files
    = Inr (AList.update d bytes files)"
  using assms path_name_id [of d]
  by (auto simp: write_staged_def check_staged_file_def jget_def dict_get_def b64decode_b64encode good_name_def)

text \<open>Staging the files of the given sources fills the working directory.\<close>

lemma stage_sources:
  assumes "\<And>s. s \<in> set sources \<Longrightarrow> prefix ''../'' s \<and> good_name (staged_name s)
      \<and> (\<exists>b. read_file s = Some b \<and> length b \<le> staged_limit)"
  shows "bindE (mapE (proxy_stage_file read_file) (map (\<lambda>s. s @ '':'' @ staged_name s) sources))
      (\<lambda>staged. stage_files (map JObj staged))
    = Inr (dict_of (map (\<lambda>s. (staged_name s, the (read_file s))) sources))"
proof -
  let ?frame = "\<lambda>s. [(''destination'', JStr (staged_name s)), (''data'', JStr (b64encode (the (read_file s))))]"
  have "proxy_stage_file read_file (s @ '':'' @ staged_name s) = Inr (?frame s)" if "s \<in> set sources" for s
    using assms [OF that] staged_specification [of s read_file] by auto
  then have "mapE (proxy_stage_file read_file) (map (\<lambda>s. s @ '':'' @ staged_name s) sources) = Inr (map ?frame sources)"
    by (simp add: mapE_Inr_iff list_all2_conv_all_nth)
  moreover have "write_staged (JObj (?frame s)) files = Inr (AList.update (staged_name s) (the (read_file s)) files)"
    if "s \<in> set sources" for s files
    using assms [OF that] staged_name_plain by (auto intro: write_staged_encoded)
  then have "foldE write_staged (map JObj (map ?frame sources)) files
      = Inr (foldl (\<lambda>d kv. AList.update (fst kv) (snd kv) d) files (map (\<lambda>s. (staged_name s, the (read_file s))) sources))" for files
    by (induction sources arbitrary: files) simp_all
  ultimately show ?thesis by (simp add: stage_files_def dict_of_def)
qed

text \<open>
  What an argument becomes: a path \<open>../name\<close> is replaced by the name of a file of the working directory
  that has the content of the path; every other argument is kept.
\<close>

definition staged_input :: "(string \<Rightarrow> string option) \<Rightarrow> (string, string) dict \<Rightarrow> json \<Rightarrow> json \<Rightarrow> bool" where
  "staged_input read_file files x y =
     (if is_staged x then (\<exists>d. y = JStr d \<and> map_of files d = read_file (the (as_str x))) else y = x)"

lemma is_staged_text: "is_staged x \<longleftrightarrow> (\<exists>s. x = JStr s \<and> prefix ''../'' s)"
  by (cases x) auto

lemma staged_arguments_input:
  assumes "\<And>s. JStr s \<in> set arguments \<Longrightarrow> prefix ''../'' s \<Longrightarrow> \<exists>b. read_file s = Some b"
    and "inj_on staged_name {s. JStr s \<in> set arguments \<and> prefix ''../'' s}"
  shows "list_all2 (staged_input read_file (dict_of (map (\<lambda>s. (staged_name s, the (read_file s)))
      (map (\<lambda>j. the (as_str j)) (filter is_staged arguments))))) arguments (map stage_argument arguments)"
proof -
  let ?sources = "map (\<lambda>j. the (as_str j)) (filter is_staged arguments)"
  have sources: "set ?sources = {s. JStr s \<in> set arguments \<and> prefix ''../'' s}"
    by (force simp: is_staged_text image_iff)
  have "map_of (dict_of (map (\<lambda>s. (staged_name s, the (read_file s))) ?sources)) (staged_name s) = read_file s"
    if "JStr s \<in> set arguments" "prefix ''../'' s" for s
    using map_of_dict_of_inj [of staged_name ?sources s "\<lambda>s. the (read_file s)"] that assms sources by force
  then have "staged_input read_file (dict_of (map (\<lambda>s. (staged_name s, the (read_file s))) ?sources)) x (stage_argument x)"
    if "x \<in> set arguments" for x
    using that by (cases x) (auto simp: staged_input_def)
  then show ?thesis by (auto simp: list_all2_conv_all_nth simp del: map_map)
qed

lemma wrap_process_Inr:
  assumes "wrap_process a processes phase (index, process) = Inr wrapped"
  obtains item command0 arguments0 pre_copy0 command arguments where
    "map_of (placements_of processes phase) index = Some item"
    "json_iter (dict_get process ''args'' (JList [])) = Inr arguments0"
    "launch_command a phase index (replace_root (ya_benchmark_root a) command0)
       (map (replace_root_value (ya_benchmark_root a)) arguments0) = Inr (command, arguments)"
    "map_of process ''cmd'' = Some (JStr command0)"
    "map_of wrapped ''cmd'' = Some (JStr ''python3'')"
    "map_of wrapped ''args'' = Some (JList (proxy_words a phase index (pl_node_slot item)
       (replace_root (ya_benchmark_root a) pre_copy0) command arguments))"
    "map_of wrapped ''pre_copy'' = None"
  using assms by (auto simp: wrap_process_def res_simps Let_def yaml_text_def delete_conv'
      split: option.splits if_splits elim!: as_str.elims)

lemma proxy_words_phase_two:
  "\<exists>front rest. proxy_words a ''phase2'' index slot pre_copy command arguments
     = front @ option_words ''--stage-file'' (stage_specifications arguments) @ rest @ JStr command # map stage_argument arguments"
proof (intro exI)
  show "proxy_words a ''phase2'' index slot pre_copy command arguments
    = map JStr [''/opt/chipsystemsim-distributed/process_proxy.py'', ''--worker'', worker_address slot,
        ''--process-id'', ''phase2-'' @ show_nat index, ''--pre-copy'', pre_copy]
      @ option_words ''--stage-file'' (stage_specifications arguments)
      @ option_words ''--shared-asset'' (map (replace_root (ya_benchmark_root a)) (ya_shared_worker_asset a))
      @ JStr command # map stage_argument arguments"
    by (simp add: proxy_words_def limit_option_def split: option.splits)
qed

text \<open>
  C21. A phase-two process that runs remotely finds its inputs: when every argument of the form
  \<open>../name\<close> names a readable file within the transfer limit, with a usable name of its own, then the
  proxy of the wrapped command builds a spawn request, and a worker that accepts its line, which
  includes that the line with all the encoded files is within the 64 KiB of the stream, writes the files; every
  such argument is rewritten to the name of a file of the working directory with the same
  content, and the other arguments are unchanged.
\<close>

theorem phase_two_inputs_staged:
  assumes "wrap_process a processes ''phase2'' (index, process) = Inr wrapped"
    and "map_of process ''args'' = Some (JList arguments0)"
    and "arguments = map (replace_root_value (ya_benchmark_root a)) arguments0"
    and "\<And>s. JStr s \<in> set arguments \<Longrightarrow> prefix ''../'' s \<Longrightarrow>
        good_name (staged_name s) \<and> (\<exists>b. read_file s = Some b \<and> length b \<le> staged_limit)"
    and "inj_on staged_name {s. JStr s \<in> set arguments \<and> prefix ''../'' s}"
  shows "\<exists>front specifications rest command arguments'.
      map_of wrapped ''args'' = Some (JList (front @ option_words ''--stage-file'' specifications @ rest
        @ JStr command # arguments'))
    \<and> (\<forall>environ pa. pa_stage_file pa = specifications \<and> rsplit1 (CHR '':'') (pa_worker pa) = [host, port_text] \<and> int_text port_text = Inr port \<longrightarrow>
        (\<exists>frame. proxy_request environ read_file pa = Inr (host, port, frame)
          \<and> (\<forall>cd worker_environ resolve sp. reads_back cd frame \<and> worker_request cd worker_environ resolve (json_line cd frame) = Inr sp \<longrightarrow>
               fits_line cd frame \<and> (\<exists>files. stage_files (sp_staged_files sp) = Inr files
                 \<and> list_all2 (staged_input read_file files) arguments arguments'))))"
proof -
  let ?sources = "map (\<lambda>j. the (as_str j)) (filter is_staged arguments)"
  obtain slot pre_copy command where "map_of wrapped ''args''
      = Some (JList (proxy_words a ''phase2'' index slot pre_copy command arguments))"
    by (rule wrap_process_Inr [OF assms(1)]) (use assms(2,3) in \<open>auto simp: launch_command_def dict_get_def\<close>)
  then obtain front rest where words: "map_of wrapped ''args'' = Some (JList (front
      @ option_words ''--stage-file'' (stage_specifications arguments) @ rest @ JStr command # map stage_argument arguments))"
    using proxy_words_phase_two [of a index slot pre_copy command arguments] by auto
  have "prefix ''../'' s \<and> good_name (staged_name s) \<and> (\<exists>b. read_file s = Some b \<and> length b \<le> staged_limit)"
    if "s \<in> set ?sources" for s
    using that assms(4) by (auto simp: is_staged_text)
  then have "bindE (mapE (proxy_stage_file read_file) (stage_specifications arguments)) (\<lambda>staged. stage_files (map JObj staged))
      = Inr (dict_of (map (\<lambda>s. (staged_name s, the (read_file s))) ?sources))"
    using stage_sources [of ?sources read_file] by (simp add: stage_specifications_def comp_def)
  then obtain staged where staged: "mapE (proxy_stage_file read_file) (stage_specifications arguments) = Inr staged"
    "stage_files (map JObj staged) = Inr (dict_of (map (\<lambda>s. (staged_name s, the (read_file s))) ?sources))"
    by (auto simp: bindE_eq_Inr)
  have inputs: "list_all2 (staged_input read_file (dict_of (map (\<lambda>s. (staged_name s, the (read_file s))) ?sources))) arguments (map stage_argument arguments)"
    using staged_arguments_input [of arguments read_file, OF _ assms(5)] assms(4) by blast
  have "proxy_request environ read_file pa = Inr (host, port, spawn_frame environ pa staged)"
    if "pa_stage_file pa = stage_specifications arguments" "rsplit1 (CHR '':'') (pa_worker pa) = [host, port_text]" "int_text port_text = Inr port"
    for environ pa using staged(1) that by (simp add: proxy_request_def)
  moreover have "fits_line cd (spawn_frame environ pa staged) \<and> (\<exists>files. stage_files (sp_staged_files sp) = Inr files
      \<and> list_all2 (staged_input read_file files) arguments (map stage_argument arguments))"
    if "reads_back cd (spawn_frame environ pa staged)" "worker_request cd worker_environ resolve (json_line cd (spawn_frame environ pa staged)) = Inr sp"
    for environ pa cd worker_environ resolve sp
  proof -
    have "fits_line cd (spawn_frame environ pa staged)" "parse_spawn cd worker_environ resolve (spawn_frame environ pa staged) = Inr sp"
      using worker_request_line [OF that(1)] that(2) by (simp_all split: if_splits)
    with parse_spawn_staged staged(2) inputs show ?thesis by force
  qed
  ultimately show ?thesis using words
    by (intro exI [of _ front] exI [of _ "stage_specifications arguments"] exI [of _ rest] exI [of _ command] exI [of _ "map stage_argument arguments"])
      blast
qed

definition plain_arguments :: yaml_arguments where
  "plain_arguments = \<lparr>ya_stream_output = True, ya_benchmark_root = None, ya_shared_worker_asset = [],
     ya_remote_phase2 = True, ya_phase2_backend = ''popnet'', ya_ns3_cycle_ns = 1, ya_ns3_link_rate = ''128Gbps'',
     ya_ns3_link_delay_ns = 1, ya_ns3_queue_packets = 100000, ya_ns3_localize = False,
     ya_gdb_process_index = None, ya_sniper_cores = Some 1, ya_sniper_fast_forward = False,
     ya_sniper_maxthreads = Some 2, ya_max_completed_cta = None, ya_max_instructions = None\<rparr>"

definition popnet_process :: jobj where
  "popnet_process = [(''cmd'', JStr ''popnet''),
     (''args'', JList [JStr ''-A'', JInt 36, JStr ''-I'', JStr ''../bench.txt'', JStr ''-G'', JStr ''../topology/mesh.gv''])]"

definition popnet_placed :: placed where
  "popnet_placed = \<lparr>pl_phase = ''phase2'', pl_process_index = 0, pl_node_slot = 1,
     pl_node_label = ''chipsystemsim.node.1'', pl_coordinates = None\<rparr>"

lemmas yaml_eval = wrap_process_def placements_of_def dict_of_def dict_item_def dict_get_def yaml_text_def
  replace_root_def launch_command_def plain_arguments_def

definition popnet_proxy :: "string list \<Rightarrow> proxy_arguments" where
  "popnet_proxy specifications = \<lparr>pa_worker = ''worker-1:9300'', pa_process_id = ''phase2-0'', pa_pre_copy = [], pa_shared_asset = [],
     pa_stage_file = specifications, pa_max_completed_cta = None, pa_max_instructions = None, pa_command = ''popnet'', pa_args = []\<rparr>"

definition frame_codec :: "jobj \<Rightarrow> codec" where
  "frame_codec frame = \<lparr>cd_loads = (\<lambda>_. Inr (JObj frame)), cd_str = (\<lambda>_. []), cd_dumps = (\<lambda>_. ''{s}'')\<rparr>"

lemma frame_codec_line: "reads_back (frame_codec frame) frame" "fits_line (frame_codec frame) frame"
  by (simp_all add: frame_codec_def reads_back_def fits_line_def is_ascii_def newline_def stream_limit_def)

lemma popnet_spawn:
  "\<exists>sp. parse_spawn cd [] (\<lambda>_. None) (spawn_frame [] (popnet_proxy specifications) staged) = Inr sp"
  by (simp add: parse_spawn_def spawn_frame_def popnet_proxy_def jget_def dict_get_def dict_item_def request_environment_def
      child_environment_def forwarded_variables_def resolve_endpoint_def positive_limit_def json_limit_def asset_list_def
      staged_list_def safe_process_id_def Let_def)

theorem phase_two_inputs_staged_witness:
  "\<exists>wrapped frame sp files arguments'. wrap_process plain_arguments [popnet_placed] ''phase2'' (0, popnet_process) = Inr wrapped
     \<and> worker_request (frame_codec frame) [] (\<lambda>_. None) (json_line (frame_codec frame) frame) = Inr sp
     \<and> stage_files (sp_staged_files sp) = Inr files
     \<and> list_all2 (staged_input [''../bench.txt'' \<mapsto> ''0 1 2'', ''../topology/mesh.gv'' \<mapsto> ''graph''] files)
         [JStr ''-A'', JInt 36, JStr ''-I'', JStr ''../bench.txt'', JStr ''-G'', JStr ''../topology/mesh.gv''] arguments'"
proof -
  let ?rf = "[''../bench.txt'' \<mapsto> ''0 1 2'', ''../topology/mesh.gv'' \<mapsto> ''graph'']"
  let ?args = "[JStr ''-A'', JInt 36, JStr ''-I'', JStr ''../bench.txt'', JStr ''-G'', JStr ''../topology/mesh.gv'']"
  have names: "staged_name ''../bench.txt'' = ''bench.txt''" "staged_name ''../topology/mesh.gv'' = ''mesh.gv''"
    by (simp_all add: staged_name_def rsplit1_def)
  have "\<exists>w. wrap_process plain_arguments [popnet_placed] ''phase2'' (0, popnet_process) = Inr w"
    by (simp add: yaml_eval popnet_process_def popnet_placed_def)
  then obtain w where w: "wrap_process plain_arguments [popnet_placed] ''phase2'' (0, popnet_process) = Inr w" by blast
  have a: "map_of popnet_process ''args'' = Some (JList ?args)" by (simp add: popnet_process_def)
  have b: "?args = map (replace_root_value (ya_benchmark_root plain_arguments)) ?args"
    by (simp add: plain_arguments_def replace_root_def)
  have c: "good_name (staged_name s) \<and> (\<exists>b. ?rf s = Some b \<and> length b \<le> staged_limit)"
    if "JStr s \<in> set ?args" "prefix ''../'' s" for s
    using that by (auto simp: names good_name_def staged_limit_def)
  have d: "inj_on staged_name {s. JStr s \<in> set ?args \<and> prefix ''../'' s}"
    by (auto simp: inj_on_def names)
  have address: "rsplit1 (CHR '':'') (pa_worker (popnet_proxy sps)) = [''worker-1'', ''9300'']" "pa_stage_file (popnet_proxy sps) = sps" for sps
    by (simp_all add: popnet_proxy_def rsplit1_def rpartition_at_def)
  have port: "int_text ''9300'' = Inr 9300" by (simp add: text_eval)
  obtain specifications arguments' frame where
    frame: "proxy_request [] ?rf (popnet_proxy specifications) = Inr (''worker-1'', 9300, frame)"
    and accepted: "\<And>cd worker_environ resolve sp. reads_back cd frame \<Longrightarrow> worker_request cd worker_environ resolve (json_line cd frame) = Inr sp \<Longrightarrow>
      \<exists>files. stage_files (sp_staged_files sp) = Inr files \<and> list_all2 (staged_input ?rf files) ?args arguments'"
    using phase_two_inputs_staged [OF w a b c d, of "''worker-1''" "''9300''" 9300] address port by metis
  obtain sp where "worker_request (frame_codec frame) [] (\<lambda>_. None) (json_line (frame_codec frame) frame) = Inr sp"
    using popnet_spawn proxy_request_frame [OF frame] worker_request_line [OF frame_codec_line(1)] frame_codec_line(2) by metis
  with accepted [OF frame_codec_line(1) this] w show ?thesis by blast
qed

section \<open>Phase-one processes\<close>

lemma phase_entries_objects [simp]: "phase_entries (JList (map JObj qs)) = Inr qs"
  by (induction qs) (simp_all add: phase_entries_def)

lemma update_phase_Inr:
  assumes "update_phase phase f config = Inr out" and "map_of config phase = Some j"
  obtains ps qs where "phase_entries j = Inr ps" "f ps = Inr qs"
    "out = AList.update phase (JList (map JObj qs)) config"
  using assms by (auto simp: update_phase_def res_simps)

lemma update_phase_other:
  "update_phase phase f config = Inr out \<Longrightarrow> k \<noteq> phase \<Longrightarrow> map_of out k = map_of config k"
  by (auto simp: update_phase_def res_simps split: option.splits)

lemma generate_yaml_phase_one:
  assumes "generate_distributed_yaml cd a processes config = Inr out"
  obtains j ps qs where "map_of config ''phase1'' = Some j" "phase_entries j = Inr ps"
    "mapE (wrap_process a processes ''phase1'') (enumerate 0 ps) = Inr qs"
    "map_of out ''phase1'' = Some (JList (map JObj qs))"
proof -
  from assms obtain config1 config2 j where
    one: "(if ya_phase2_backend a = ''ns3'' then update_phase ''phase2'' (mapE (ns3_process cd a)) config else Inr config) = Inr config1"
    and j: "map_of config1 ''phase1'' = Some j"
    and two: "update_phase ''phase1'' (\<lambda>ps. mapE (wrap_process a processes ''phase1'') (enumerate 0 ps)) config1 = Inr config2"
    and out: "(if ya_remote_phase2 a then update_phase ''phase2''
        (\<lambda>ps. mapE (wrap_process a processes ''phase2'') (enumerate 0 ps)) config2 else Inr config2) = Inr out"
    by (auto simp: generate_distributed_yaml_def bindE_eq_Inr dict_item_Inr_iff)
  from one j have "map_of config ''phase1'' = Some j"
    by (auto simp: update_phase_other split: if_splits)
  moreover from out have "map_of out ''phase1'' = map_of config2 ''phase1''"
    by (auto simp: update_phase_other split: if_splits)
  ultimately show thesis using that update_phase_Inr [OF two j] by (metis map_of_update fun_upd_same)
qed

text \<open>The phases whose processes are wrapped.\<close>

definition wrapped_phase :: "yaml_arguments \<Rightarrow> string \<Rightarrow> bool" where
  "wrapped_phase a phase \<longleftrightarrow> phase = ''phase1'' \<or> phase = ''phase2'' \<and> ya_remote_phase2 a"

lemma generate_yaml_phase_two:
  assumes "generate_distributed_yaml cd a processes config = Inr out" and "ya_remote_phase2 a"
    and "map_of out ''phase2'' = Some entries"
  obtains ps qs where "mapE (wrap_process a processes ''phase2'') (enumerate 0 ps) = Inr qs" "entries = JList (map JObj qs)"
proof -
  from assms(1,2) obtain config2 where
    two: "update_phase ''phase2'' (\<lambda>ps. mapE (wrap_process a processes ''phase2'') (enumerate 0 ps)) config2 = Inr out"
    by (auto simp: generate_distributed_yaml_def bindE_eq_Inr)
  then obtain j where j: "map_of config2 ''phase2'' = Some j" using assms(3) by (auto simp: update_phase_def split: option.splits)
  show thesis using update_phase_Inr [OF two j] that assms(3) by (metis map_of_update fun_upd_same option.inject)
qed

text \<open>Every entry of a wrapped phase of the output calls the proxy with the worker of its slot and its own process id.\<close>

lemma wrapped_phase_proxy:
  assumes "generate_distributed_yaml cd a processes config = Inr out" and "wrapped_phase a phase"
    and "map_of out phase = Some (JList entries)" and "i < length entries"
  obtains q item rest where "entries ! i = JObj q" "map_of q ''cmd'' = Some (JStr ''python3'')"
    "map_of (placements_of processes phase) i = Some item"
    "map_of q ''args'' = Some (JList (map JStr [''/opt/chipsystemsim-distributed/process_proxy.py'', ''--worker'',
       worker_address (pl_node_slot item), ''--process-id'', phase @ ''-'' @ show_nat i] @ rest))"
proof -
  have "\<exists>ps qs. mapE (wrap_process a processes phase) (enumerate 0 ps) = Inr qs \<and> entries = map JObj qs"
  proof (cases "phase = ''phase1''")
    case True
    obtain j ps qs where "mapE (wrap_process a processes ''phase1'') (enumerate 0 ps) = Inr qs"
        "map_of out ''phase1'' = Some (JList (map JObj qs))"
      by (rule generate_yaml_phase_one [OF assms(1)])
    with True assms(3) show ?thesis by auto
  next
    case False
    then have phase: "phase = ''phase2''" and remote: "ya_remote_phase2 a" using assms(2) by (auto simp: wrapped_phase_def)
    obtain ps qs where "mapE (wrap_process a processes ''phase2'') (enumerate 0 ps) = Inr qs" "JList entries = JList (map JObj qs)"
      by (rule generate_yaml_phase_two [OF assms(1) remote assms(3) [unfolded phase]])
    with phase show ?thesis by auto
  qed
  then obtain ps qs where qs: "mapE (wrap_process a processes phase) (enumerate 0 ps) = Inr qs" and out: "entries = map JObj qs"
    by blast
  have "length qs = length ps" using mapE_length [OF qs] by simp
  with qs out assms(4) have w: "wrap_process a processes phase (i, ps ! i) = Inr (qs ! i)"
    by (auto simp: mapE_Inr_iff list_all2_conv_all_nth nth_enumerate_eq)
  have entry: "entries ! i = JObj (qs ! i)" using out assms(4) by simp
  show thesis
    by (rule wrap_process_Inr [OF w], rule that [OF entry]) (simp_all add: proxy_words_def)
qed

lemma placements_of_member:
  assumes "map_of (placements_of processes phase) i = Some item"
  shows "item \<in> set processes \<and> pl_phase item = phase \<and> pl_process_index item = i"
  using map_of_SomeD [OF assms [unfolded placements_of_def map_of_dict_of]] by auto

end
