(* ===== verification/PipeRouter.thy ===== *)
theory PipeRouter
  imports PipeSpec
begin

text \<open>
  The worker-local router (\<open>real/simbricks_pipe_router.py\<close>). A request is one header line and,
  for a write, its payload; \<open>read_request\<close> is the parsing half of \<open>Router.handle\<close>, \<open>peer_for\<close>
  the placement lookup, \<open>forward\<close> the exchange with the C++ gateway (a parameter: a function of the
  port and the bytes sent) and \<open>handle_local_write\<close>, \<open>handle_local_read\<close> the worker-local queue.
  The handlers run concurrently on one event loop and share the queues and one
  \<open>asyncio.Condition\<close>: \<open>router_step\<close> has one rule for each atomic section between two awaits. A
  blocked reader is a waiter; a write notifies every waiter (\<open>notify_all\<close>), a notified waiter tests
  its predicate again and either takes its payload or blocks again.
\<close>

section \<open>Data\<close>

record routing =
  coordinate_to_worker_slot :: "(string, int) dict"
  worker_physical_slots :: "(string, int) dict option"
  gateway_base_port :: "int option"

record router =
  r_slot :: int
  r_coordinates :: "(string, int) dict"
  r_physical_slots :: "(int, int) dict"
  r_gateway_ports :: "(int, int) dict"

record request =
  rq_operation :: string
  rq_pipe_name :: string
  rq_byte_count :: int
  rq_payload :: string

definition MAX_REQUEST_BYTES :: int where
  "MAX_REQUEST_BYTES = 65000"

text \<open>\<open>Router.__init__\<close>.\<close>

definition init_router :: "int \<Rightarrow> routing \<Rightarrow> router res" where
  "init_router slot routing =
     bindE (mapE (\<lambda>(worker_slot, physical_slot). bindE (int_text worker_slot) (\<lambda>w. Inr (w, physical_slot)))
             (case worker_physical_slots routing of None \<Rightarrow> [] | Some d \<Rightarrow> d)) (\<lambda>physical.
       let coordinates = coordinate_to_worker_slot routing;
           base_port = (case gateway_base_port routing of None \<Rightarrow> 9500 | Some p \<Rightarrow> p)
       in Inr \<lparr>r_slot = slot, r_coordinates = coordinates, r_physical_slots = dict_of physical,
               r_gateway_ports = map (\<lambda>s. (s, base_port + s))
                 (filter (\<lambda>s. s \<noteq> slot) (remdups (map snd coordinates)))\<rparr>)"

section \<open>Placement lookup\<close>

definition int_group :: "string \<Rightarrow> bool" where
  "int_group s = (case s of
       [] \<Rightarrow> False
     | c # cs \<Rightarrow> if c = CHR ''-'' then cs \<noteq> [] \<and> list_all is_digit cs else list_all is_digit s)"

text \<open>\<open>PIPE_NAME.fullmatch\<close>: the word \<open>buffer\<close>, then four signed decimal groups joined by \<open>_\<close>.\<close>

definition match_pipe_name :: "string \<Rightarrow> (string \<times> string \<times> string \<times> string) option" where
  "match_pipe_name s =
     (if prefix ''buffer'' s
      then (case split_on (CHR ''_'') (drop 6 s) of
              [a, b, c, d] \<Rightarrow> if int_group a \<and> int_group b \<and> int_group c \<and> int_group d
                              then Some (a, b, c, d) else None
            | _ \<Rightarrow> None)
      else None)"

definition peer_for :: "router \<Rightarrow> string \<Rightarrow> string \<Rightarrow> int res" where
  "peer_for r operation pipe_name =
     (case match_pipe_name pipe_name of
        None \<Rightarrow> Inl (ValueError (''unsupported PipeComm name: '' @ pipe_name))
      | Some (sx, sy, dx, dy) \<Rightarrow>
          let source = sx @ '','' @ sy; destination = dx @ '','' @ dy;
              coordinate = (if operation = ''W'' then destination else source)
          in (case map_of (r_coordinates r) coordinate of
                None \<Rightarrow> Inl (ValueError (''no worker placement for chiplet '' @ coordinate))
              | Some s \<Rightarrow> Inr s))"

section \<open>Reading a request\<close>

text \<open>The first part of \<open>Router.handle\<close>: header, normalisation of the pipe path, bound, payload.\<close>

fun request_of_fields :: "string list \<Rightarrow> string \<Rightarrow> request res" where
  "request_of_fields [operation, path, byte_text] rest =
     (if operation \<notin> {''W'', ''R''} then Inl (ValueError ''invalid PipeComm request header'')
      else
        (let pipe_name = last (rsplit1 (CHR ''/'') path)
         in bindE (int_text byte_text) (\<lambda>byte_count.
            if byte_count < 0 \<or> byte_count > MAX_REQUEST_BYTES
            then Inl (ValueError ''invalid PipeComm byte count'')
            else bindE (if operation = ''W'' then readexactly (nat byte_count) rest else Inr ([], rest))
              (\<lambda>(payload, _). Inr \<lparr>rq_operation = operation, rq_pipe_name = pipe_name,
                  rq_byte_count = byte_count, rq_payload = payload\<rparr>))))"
| "request_of_fields _ rest = Inl (ValueError ''invalid PipeComm request header'')"

fun_cases request_of_fields_InrE: "request_of_fields parts rest = Inr rq"

definition read_request :: "string \<Rightarrow> request res" where
  "read_request input =
     bindE (readline input) (\<lambda>(line, rest).
     bindE (decode_ascii line) (\<lambda>text.
     request_of_fields (split_on (CHR '' '') (rstrip_newline text)) rest))"

definition route_request :: "router \<Rightarrow> string \<Rightarrow> (request \<times> int) res" where
  "route_request r input =
     bindE (read_request input) (\<lambda>rq.
     bindE (peer_for r (rq_operation rq) (rq_pipe_name rq)) (\<lambda>peer. Inr (rq, peer)))"

definition normalized_header :: "request \<Rightarrow> string" where
  "normalized_header rq =
     rq_operation rq @ '' '' @ rq_pipe_name rq @ '' '' @ str_int (rq_byte_count rq) @ [newline]"

section \<open>Forwarding to the gateway of another worker\<close>

datatype gateway_answer = Unavailable string | Answered string

type_synonym gateways = "int \<Rightarrow> string \<Rightarrow> gateway_answer"

definition ok_line :: string where
  "ok_line = ''OK'' @ [newline]"

definition ok_bytes_line :: "int \<Rightarrow> string" where
  "ok_bytes_line n = ''OK '' @ str_int n @ [newline]"

definition forward :: "gateways \<Rightarrow> router \<Rightarrow> int \<Rightarrow> request \<Rightarrow> string res" where
  "forward gw r peer rq =
     (case map_of (r_gateway_ports r) peer of
        None \<Rightarrow> Inl (ValueError (''no BaseIf gateway for worker slot '' @ str_int peer))
      | Some port \<Rightarrow>
          (case gw port (normalized_header rq @ rq_payload rq) of
             Unavailable m \<Rightarrow> Inl (OSError m)
           | Answered bytes \<Rightarrow>
               bindE (readline bytes) (\<lambda>(response, rest).
                 if response = ok_line then Inr response
                 else if response = ok_bytes_line (rq_byte_count rq)
                 then bindE (readexactly (nat (rq_byte_count rq)) rest) (\<lambda>(data, _). Inr (response @ data))
                 else Inr (if response = [] then ''ERR gateway closed connection'' @ [newline] else response))))"

text \<open>The two \<open>except\<close> clauses of \<open>Router.handle\<close>.\<close>

definition error_reply :: "py_error \<Rightarrow> string" where
  "error_reply e = (case e of
       OSError m \<Rightarrow> ''ERR gateway unavailable: '' @ m @ [newline]
     | _ \<Rightarrow> ''ERR '' @ error_text e @ [newline])"

section \<open>Worker-local queues\<close>

definition handle_local_write :: "queues \<Rightarrow> string \<Rightarrow> string \<Rightarrow> queues" where
  "handle_local_write q n p = q(n := q n @ [p])"

text \<open>The predicate of \<open>wait_for\<close>: the head of the queue has the requested size.\<close>

definition local_ready :: "queues \<Rightarrow> string \<Rightarrow> int \<Rightarrow> bool" where
  "local_ready q n k = (case q n of [] \<Rightarrow> False | p # _ \<Rightarrow> int (length p) = k)"

definition handle_local_read :: "queues \<Rightarrow> string \<Rightarrow> (string \<times> queues) option" where
  "handle_local_read q n = (case q n of [] \<Rightarrow> None | p # ps \<Rightarrow> Some (p, q(n := ps)))"

datatype waiter = Waiter (w_conn: nat) (w_pipe: string) (w_count: int) (w_notified: bool)

record router_state =
  rs_router :: router
  rs_pipes :: queues
  rs_waiting :: "waiter list"
  rs_replies :: "(nat \<times> string) list"

definition reply :: "nat \<Rightarrow> string \<Rightarrow> router_state \<Rightarrow> router_state" where
  "reply c bytes s = s\<lparr>rs_replies := rs_replies s @ [(c, bytes)]\<rparr>"

definition notify_all :: "router_state \<Rightarrow> router_state" where
  "notify_all s = s\<lparr>rs_waiting := map (\<lambda>w. Waiter (w_conn w) (w_pipe w) (w_count w) True) (rs_waiting s)\<rparr>"

definition init_state :: "router \<Rightarrow> router_state" where
  "init_state r = \<lparr>rs_router = r, rs_pipes = (\<lambda>_. []), rs_waiting = [], rs_replies = []\<rparr>"

section \<open>The concurrent handler\<close>

inductive router_step :: "gateways \<Rightarrow> router_state \<Rightarrow> pipe_event list \<Rightarrow> router_state \<Rightarrow> bool" for gw where
  rejected: "route_request (rs_router s) input = Inl e \<Longrightarrow>
     router_step gw s [] (reply c (error_reply e) s)"
| forwarded: "route_request (rs_router s) input = Inr (rq, peer) \<Longrightarrow> peer \<noteq> r_slot (rs_router s) \<Longrightarrow>
     router_step gw s [] (reply c (case forward gw (rs_router s) peer rq of
        Inl e \<Rightarrow> error_reply e | Inr bytes \<Rightarrow> bytes) s)"
| local_write: "route_request (rs_router s) input = Inr (rq, peer) \<Longrightarrow> peer = r_slot (rs_router s) \<Longrightarrow>
     rq_operation rq = ''W'' \<Longrightarrow>
     router_step gw s [Wrote (rq_pipe_name rq) (rq_payload rq)]
       (reply c ok_line (notify_all
          (s\<lparr>rs_pipes := handle_local_write (rs_pipes s) (rq_pipe_name rq) (rq_payload rq)\<rparr>)))"
| local_read: "route_request (rs_router s) input = Inr (rq, peer) \<Longrightarrow> peer = r_slot (rs_router s) \<Longrightarrow>
     rq_operation rq = ''R'' \<Longrightarrow> local_ready (rs_pipes s) (rq_pipe_name rq) (rq_byte_count rq) \<Longrightarrow>
     handle_local_read (rs_pipes s) (rq_pipe_name rq) = Some (data, q) \<Longrightarrow>
     router_step gw s [Delivered (rq_pipe_name rq) data]
       (reply c (ok_bytes_line (rq_byte_count rq) @ data) (s\<lparr>rs_pipes := q\<rparr>))"
| local_block: "route_request (rs_router s) input = Inr (rq, peer) \<Longrightarrow> peer = r_slot (rs_router s) \<Longrightarrow>
     rq_operation rq = ''R'' \<Longrightarrow> \<not> local_ready (rs_pipes s) (rq_pipe_name rq) (rq_byte_count rq) \<Longrightarrow>
     router_step gw s []
       (s\<lparr>rs_waiting := rs_waiting s @ [Waiter c (rq_pipe_name rq) (rq_byte_count rq) False]\<rparr>)"
| wake_take: "rs_waiting s = ws1 @ Waiter c n k True # ws2 \<Longrightarrow> local_ready (rs_pipes s) n k \<Longrightarrow>
     handle_local_read (rs_pipes s) n = Some (data, q) \<Longrightarrow>
     router_step gw s [Delivered n data]
       (reply c (ok_bytes_line k @ data) (s\<lparr>rs_pipes := q, rs_waiting := ws1 @ ws2\<rparr>))"
| wake_block: "rs_waiting s = ws1 @ Waiter c n k True # ws2 \<Longrightarrow> \<not> local_ready (rs_pipes s) n k \<Longrightarrow>
     router_step gw s [] (s\<lparr>rs_waiting := ws1 @ Waiter c n k False # ws2\<rparr>)"

inductive_cases router_step_deliverE: "router_step gw s [Delivered n p] t"
inductive_cases router_stepE: "router_step gw s es t"

section \<open>Metric record\<close>

definition transport_scope :: "router \<Rightarrow> int \<Rightarrow> string" where
  "transport_scope r peer =
     (if peer = r_slot r then ''same_logical_worker''
      else if dict_get (r_physical_slots r) (r_slot r) 0 = dict_get (r_physical_slots r) peer 0
      then ''cross_legosim_same_physical_host''
      else ''cross_physical_host'')"

definition pipe_metric :: "router \<Rightarrow> request \<Rightarrow> int \<Rightarrow> int \<times> int \<Rightarrow> int \<times> int \<Rightarrow> jobj" where
  "pipe_metric r rq peer monotonic unix =
     (let (started, finished) = monotonic; (started_unix, finished_unix) = unix;
          elapsed = finished - started;
          source_physical = dict_get (r_physical_slots r) (r_slot r) 0;
          peer_physical = dict_get (r_physical_slots r) peer 0
      in [(''operation'', JStr (rq_operation rq)),
          (''pipe_name'', JStr (rq_pipe_name rq)),
          (''bytes'', JInt (rq_byte_count rq)),
          (''source_slot'', JInt (r_slot r)),
          (''peer_slot'', JInt peer),
          (''source_physical_slot'', JInt source_physical),
          (''peer_physical_slot'', JInt peer_physical),
          (''transport_scope'', JStr (transport_scope r peer)),
          (''cross_legosim'', JBool (peer \<noteq> r_slot r)),
          (''cross_physical_host'', JBool (source_physical \<noteq> peer_physical)),
          (''cross_node'', JBool (source_physical \<noteq> peer_physical)),
          (''started_monotonic_ns'', JInt started),
          (''finished_monotonic_ns'', JInt finished),
          (''started_unix_ns'', JInt started_unix),
          (''finished_unix_ns'', JInt finished_unix),
          (''elapsed_ns'', JInt elapsed),
          (''synchronization_wait_ns'', JInt (if rq_operation rq = ''R'' then elapsed else 0))])"


section \<open>The queues implement the pipe contract\<close>

interpretation router_store: pipe_store handle_local_write handle_local_read id
  by unfold_locales
    (auto simp: handle_local_write_def handle_local_read_def split: list.splits)

lemmas state_update_simps = reply_def notify_all_def init_state_def

lemma router_step_replays:
  "router_step gw s es t \<Longrightarrow> replay (rs_pipes s) es = Some (rs_pipes t)"
proof (induction rule: router_step.induct)
  case (local_write s input rq peer c)
  then show ?case
    using router_store.put_replays [of "rs_pipes s" "rq_pipe_name rq" "rq_payload rq"]
    by (simp add: state_update_simps)
next
  case (local_read s input rq peer data q c)
  then show ?case
    using router_store.pop_replays [of "rs_pipes s" "rq_pipe_name rq" data q]
    by (simp add: state_update_simps)
next
  case (wake_take s ws1 c n k ws2 data q)
  then show ?case
    using router_store.pop_replays [of "rs_pipes s" n data q]
    by (simp add: state_update_simps)
qed (simp_all add: state_update_simps)

interpretation router_machine: pipe_machine handle_local_write handle_local_read id
  "router_step gw" rs_pipes for gw
  by unfold_locales (simp add: router_step_replays)

text \<open>The configuration of the router never changes.\<close>

lemma router_step_router: "router_step gw s es t \<Longrightarrow> rs_router t = rs_router s"
  by (induction rule: router_step.induct) (simp_all add: state_update_simps)

text \<open>Replies are only ever appended.\<close>

lemma router_step_replies: "router_step gw s es t \<Longrightarrow> prefix (rs_replies s) (rs_replies t)"
  by (induction rule: router_step.induct) (simp_all add: state_update_simps)

lemma local_ready_iff:
  "local_ready q n k \<longleftrightarrow> (\<exists>p ps. q n = p # ps \<and> int (length p) = k)"
  by (simp add: local_ready_def split: list.splits)

lemma handle_local_read_Some:
  "handle_local_read q n = Some (p, q') \<longleftrightarrow> (\<exists>ps. q n = p # ps \<and> q' = q(n := ps))"
  by (auto simp: handle_local_read_def split: list.splits)

section \<open>Round trip of the forwarded request\<close>

lemma rsplit1_last: "last (rsplit1 c s) = last (split_on c s)"
proof (cases "length (split_on c s) = 1")
  case True
  then obtain x where "split_on c s = [x]" by (cases "split_on c s") auto
  with join_split_on [of c s] show ?thesis by (simp add: rsplit1_def)
qed (simp add: rsplit1_def Let_def)

text \<open>What a successfully read request looks like.\<close>

lemma read_request_InrD:
  assumes "read_request input = Inr rq"
  obtains path byte_text where
    "rq_operation rq \<in> {''W'', ''R''}"
    "rq_pipe_name rq = last (split_on (CHR ''/'') path)"
    "int_text byte_text = Inr (rq_byte_count rq)"
    "0 \<le> rq_byte_count rq" "rq_byte_count rq \<le> MAX_REQUEST_BYTES"
    "length (rq_payload rq) = (if rq_operation rq = ''W'' then nat (rq_byte_count rq) else 0)"
    "CHR '' '' \<notin> set path" "newline \<notin> set path" "is_ascii path"
    "length path + length byte_text + 3 \<le> stream_limit"
proof -
  from assms obtain line rest where rl: "readline input = Inr (line, rest)"
    and ascii: "is_ascii line"
    and fields: "request_of_fields (split_on (CHR '' '') (rstrip_newline line)) rest = Inr rq"
    by (auto simp: read_request_def res_simps decode_ascii_def split: if_splits)
  from fields obtain operation path byte_text where
    s: "split_on (CHR '' '') (rstrip_newline line) = [operation, path, byte_text]"
    and props: "operation \<in> {''W'', ''R''}" "rq_operation rq = operation"
      "rq_pipe_name rq = last (split_on (CHR ''/'') path)"
      "int_text byte_text = Inr (rq_byte_count rq)"
      "0 \<le> rq_byte_count rq" "rq_byte_count rq \<le> MAX_REQUEST_BYTES"
      "length (rq_payload rq) = (if operation = ''W'' then nat (rq_byte_count rq) else 0)"
    by (elim request_of_fields_InrE) (auto simp: rsplit1_last res_simps Let_def split: if_splits)
  have line: "rstrip_newline line = operation @ '' '' @ path @ '' '' @ byte_text"
    using join_split_on [of "CHR '' ''" "rstrip_newline line"] by (simp add: s)
  have "CHR '' '' \<notin> set path" using split_on_parts [of path "CHR '' ''" "rstrip_newline line"] by (simp add: s)
  moreover have "newline \<notin> set path" using readline_Inr [OF rl] line by simp
  moreover have "set path \<subseteq> set line" using readline_Inr [OF rl] line by auto
  then have "is_ascii path" using ascii by (auto simp: is_ascii_def list_all_iff)
  moreover have "length path + length byte_text + 3 \<le> stream_limit"
    using readline_Inr [OF rl] line props(1) by auto
  ultimately show ?thesis using that props by simp
qed

text \<open>A well-formed request, written as one header line and its payload, is read back.\<close>

lemma read_request_normalized:
  assumes op: "rq_operation rq \<in> {''W'', ''R''}"
    and name: "CHR '' '' \<notin> set (rq_pipe_name rq)" "CHR ''/'' \<notin> set (rq_pipe_name rq)"
      "newline \<notin> set (rq_pipe_name rq)" "is_ascii (rq_pipe_name rq)"
    and count: "0 \<le> rq_byte_count rq" "rq_byte_count rq \<le> MAX_REQUEST_BYTES"
    and payload: "length (rq_payload rq) = (if rq_operation rq = ''W'' then nat (rq_byte_count rq) else 0)"
    and fits: "length (rq_pipe_name rq) + length (str_int (rq_byte_count rq)) + 3 \<le> stream_limit"
  shows "read_request (normalized_header rq @ rq_payload rq) = Inr rq"
proof -
  let ?n = "rq_pipe_name rq" and ?k = "str_int (rq_byte_count rq)"
  define h where "h = rq_operation rq @ '' '' @ ?n @ '' '' @ ?k"
  have opw: "CHR '' '' \<notin> set (rq_operation rq)" "newline \<notin> set (rq_operation rq)" "length (rq_operation rq) = 1"
    "is_ascii (rq_operation rq)"
    using op by (auto simp: newline_def is_ascii_def)
  have k: "CHR '' '' \<notin> set ?k" "newline \<notin> set ?k" "is_ascii ?k"
    by (auto simp: str_int_not_in str_int_ascii)
  have nl: "newline \<noteq> CHR '' ''" by (simp add: newline_def)
  have h: "newline \<notin> set h" "length h \<le> stream_limit"
    using name opw k nl fits by (auto simp: h_def)
  have "normalized_header rq @ rq_payload rq = h @ newline # rq_payload rq"
    by (simp add: normalized_header_def h_def)
  then have rl: "readline (normalized_header rq @ rq_payload rq) = Inr (h @ [newline], rq_payload rq)"
    using readline_line [OF h, of "rq_payload rq"] by simp
  have ascii: "is_ascii (h @ [newline])"
    using name(4) opw(4) k(3) by (auto simp: h_def is_ascii_def newline_def)
  have split: "split_on (CHR '' '') h = [rq_operation rq, ?n, ?k]"
    using name opw k by (simp add: h_def split_on_append_sep split_on_no_sep)
  have last: "last (rsplit1 (CHR ''/'') ?n) = ?n"
    using name(2) by (simp add: rsplit1_last split_on_no_sep)
  have "readexactly (nat (rq_byte_count rq)) (rq_payload rq) = Inr (rq_payload rq, [])"
    if "rq_operation rq = ''W''"
    using payload that by (simp add: readexactly_def)
  then show ?thesis
    using op count payload
    by (auto simp: read_request_def rl decode_ascii_def ascii rstrip_newline_line [OF h(1)]
        split last Let_def)
qed

section \<open>Properties\<close>

text \<open>A small configuration for the witnesses: chiplets (0,0) and (0,1) here, (1,0) on worker 1.\<close>

definition example_router :: router where
  "example_router = \<lparr>r_slot = 0, r_coordinates = [(''0,0'', 0), (''0,1'', 0), (''1,0'', 1)],
     r_physical_slots = [(0, 0), (1, 1)], r_gateway_ports = [(1, 9501)]\<rparr>"

definition example_write :: "string \<Rightarrow> request" where
  "example_write p = \<lparr>rq_operation = ''W'', rq_pipe_name = ''buffer0_0_0_1'',
     rq_byte_count = int (length p), rq_payload = p\<rparr>"

definition example_read :: "int \<Rightarrow> request" where
  "example_read k = \<lparr>rq_operation = ''R'', rq_pipe_name = ''buffer0_0_0_1'',
     rq_byte_count = k, rq_payload = []\<rparr>"

lemma example_requests:
  "route_request example_router (''W .././buffer0_0_0_1 3'' @ newline # ''abc'') = Inr (example_write ''abc'', 0)"
  "route_request example_router (''W buffer0_0_0_1 2'' @ newline # ''de'') = Inr (example_write ''de'', 0)"
  "route_request example_router (''R buffer0_0_0_1 3'' @ [newline]) = Inr (example_read 3, 0)"
  "route_request example_router (''R buffer0_0_0_1 2'' @ [newline]) = Inr (example_read 2, 0)"
  by (simp_all add: stream_eval route_request_def read_request_def MAX_REQUEST_BYTES_def peer_for_def
      match_pipe_name_def int_group_def example_router_def example_write_def example_read_def)

lemma example_write_step:
  assumes "rs_router s = example_router" and "p \<in> {''abc'', ''de''}"
  shows "router_step gw s [Wrote ''buffer0_0_0_1'' p]
    (reply c ok_line (notify_all (s\<lparr>rs_pipes := handle_local_write (rs_pipes s) ''buffer0_0_0_1'' p\<rparr>)))"
proof -
  obtain input where "route_request (rs_router s) input = Inr (example_write p, 0)"
    using assms example_requests(1,2) by auto
  then show ?thesis
    using router_step.local_write [of s input "example_write p" 0 gw c] assms(1)
    by (simp add: example_write_def example_router_def)
qed

lemma example_read_step:
  assumes "rs_router s = example_router" and "k \<in> {2, 3}" and "rs_pipes s ''buffer0_0_0_1'' = p # ps"
    and "int (length p) = k"
  shows "router_step gw s [Delivered ''buffer0_0_0_1'' p]
    (reply c (ok_bytes_line k @ p) (s\<lparr>rs_pipes := (rs_pipes s)(''buffer0_0_0_1'' := ps)\<rparr>))"
proof -
  obtain input where "route_request (rs_router s) input = Inr (example_read k, 0)"
    using assms(1,2) example_requests(3,4) by auto
  then show ?thesis
    using router_step.local_read [of s input "example_read k" 0 p _ gw c] assms
    by (simp add: example_read_def example_router_def local_ready_iff handle_local_read_Some)
qed

text \<open>
  C1. First-in first-out, exactly-once delivery on every worker-local pipe: in any interleaving of
  handlers from a freshly started router, the payloads written to a pipe are, in order, the payloads
  delivered from it followed by the payloads still queued.
\<close>

theorem router_fifo_delivery:
  assumes "run (router_step gw) (init_state r) log t"
  shows "writes_on n log = reads_on n log @ rs_pipes t n"
  using router_machine.run_fifo [OF assms, of n] by (simp add: init_state_def)

theorem router_fifo_delivery_witness:
  "\<exists>t. run (router_step (\<lambda>_ _. Unavailable '''')) (init_state example_router)
         [Wrote ''buffer0_0_0_1'' ''abc'', Delivered ''buffer0_0_0_1'' ''abc''] t
     \<and> writes_on ''buffer0_0_0_1'' [Wrote ''buffer0_0_0_1'' ''abc'', Delivered ''buffer0_0_0_1'' ''abc'']
       = reads_on ''buffer0_0_0_1'' [Wrote ''buffer0_0_0_1'' ''abc'', Delivered ''buffer0_0_0_1'' ''abc'']
         @ rs_pipes t ''buffer0_0_0_1''"
proof -
  let ?gw = "\<lambda>_ _. Unavailable ''''"
  obtain s where "router_step ?gw (init_state example_router) [Wrote ''buffer0_0_0_1'' ''abc''] s"
    and s: "rs_router s = example_router" "rs_pipes s ''buffer0_0_0_1'' = [''abc'']"
    using example_write_step [of "init_state example_router" "''abc''" ?gw 0]
    by (auto simp: state_update_simps handle_local_write_def)
  moreover obtain t where "router_step ?gw s [Delivered ''buffer0_0_0_1'' ''abc''] t"
    using example_read_step [of s 3 "''abc''" "[]" ?gw 1] s by auto
  ultimately have "run (router_step ?gw) (init_state example_router)
      ([Wrote ''buffer0_0_0_1'' ''abc''] @ [Delivered ''buffer0_0_0_1'' ''abc'']) t"
    by (blast intro: run_two)
  with router_fifo_delivery [OF this, of "''buffer0_0_0_1''"] show ?thesis by auto
qed

text \<open>
  A completed local read answers with the header \<open>OK n\<close> and exactly \<open>n\<close> payload bytes, \<open>n\<close>
  being the size the reader asked for: the size test of the wait predicate holds for the payload
  that is taken.
\<close>

theorem router_read_reply_exact:
  assumes "router_step gw s [Delivered n p] t"
  shows "\<exists>c k. rs_replies t = rs_replies s @ [(c, ok_bytes_line k @ p)] \<and> int (length p) = k"
  using assms
  by (elim router_step_deliverE)
    (auto simp: state_update_simps local_ready_iff handle_local_read_Some)

theorem router_read_reply_exact_witness:
  "\<exists>t c k. router_step (\<lambda>_ _. Unavailable '''')
        ((init_state example_router)\<lparr>rs_pipes := (\<lambda>_. [''abc''])\<rparr>)
        [Delivered ''buffer0_0_0_1'' ''abc''] t
     \<and> rs_replies t = [(c, ok_bytes_line k @ ''abc'')] \<and> k = 3"
proof -
  let ?s = "(init_state example_router)\<lparr>rs_pipes := (\<lambda>_. [''abc''])\<rparr>" and ?gw = "\<lambda>_ _. Unavailable ''''"
  obtain t where t: "router_step ?gw ?s [Delivered ''buffer0_0_0_1'' ''abc''] t"
    using example_read_step [of ?s 3 "''abc''" "[]" ?gw 0] by (auto simp: init_state_def)
  from router_read_reply_exact [OF t] t show ?thesis by (auto simp: init_state_def)
qed

text \<open>
  C2. The bytes the router forwards to a gateway (normalised header, then payload) are read back as
  the very request that was accepted: forwarding loses and changes nothing, and normalising the
  pipe path a second time changes nothing.
\<close>

theorem forwarded_request_roundtrip:
  assumes "read_request input = Inr rq"
  shows "read_request (normalized_header rq @ rq_payload rq) = Inr rq"
  using assms
proof (rule read_request_InrD)
  fix path byte_text
  assume op: "rq_operation rq \<in> {''W'', ''R''}"
    and n: "rq_pipe_name rq = last (split_on (CHR ''/'') path)"
    and k: "int_text byte_text = Inr (rq_byte_count rq)" "0 \<le> rq_byte_count rq"
      "rq_byte_count rq \<le> MAX_REQUEST_BYTES"
    and pl: "length (rq_payload rq) = (if rq_operation rq = ''W'' then nat (rq_byte_count rq) else 0)"
    and path: "CHR '' '' \<notin> set path" "newline \<notin> set path" "is_ascii path"
      "length path + length byte_text + 3 \<le> stream_limit"
  have n_in: "rq_pipe_name rq \<in> set (split_on (CHR ''/'') path)" by (simp add: n)
  have "set (rq_pipe_name rq) \<subseteq> set path"
    using n_in split_on_set_subset by blast
  moreover have "length (rq_pipe_name rq) \<le> length path"
    using n_in split_on_length_part by blast
  moreover have "length (str_int (rq_byte_count rq)) \<le> length byte_text"
    by (rule int_text_length) (use k in auto)
  ultimately show ?thesis
    using op k(2,3) pl path split_on_parts [OF n_in]
    by (intro read_request_normalized) (auto simp: is_ascii_def list_all_iff)
qed

theorem forwarded_request_roundtrip_witness:
  "read_request (''W .././buffer0_0_1_0 3'' @ newline # ''abc'')
     = Inr \<lparr>rq_operation = ''W'', rq_pipe_name = ''buffer0_0_1_0'', rq_byte_count = 3, rq_payload = ''abc''\<rparr>
   \<and> read_request (''W buffer0_0_1_0 3'' @ newline # ''abc'')
     = Inr \<lparr>rq_operation = ''W'', rq_pipe_name = ''buffer0_0_1_0'', rq_byte_count = 3, rq_payload = ''abc''\<rparr>"
proof -
  let ?rq = "\<lparr>rq_operation = ''W'', rq_pipe_name = ''buffer0_0_1_0'', rq_byte_count = 3, rq_payload = ''abc''\<rparr>"
  have h: "read_request (''W .././buffer0_0_1_0 3'' @ newline # ''abc'') = Inr ?rq"
    by (simp add: stream_eval read_request_def MAX_REQUEST_BYTES_def)
  from forwarded_request_roundtrip [OF h] h show ?thesis
    by (simp add: normalized_header_def text_eval)
qed

text \<open>
  A router built from a routing table has a gateway port for every worker its placement lookup
  can answer with: \<open>forward\<close> never fails for want of a gateway, and the port it connects to is the
  base port plus the peer's slot.
\<close>

theorem init_router_gateway_total:
  assumes init: "init_router slot routing = Inr r" and peer: "peer_for r operation pipe_name = Inr p"
    and remote: "p \<noteq> slot"
  shows "map_of (r_gateway_ports r) p
    = Some ((case gateway_base_port routing of None \<Rightarrow> 9500 | Some b \<Rightarrow> b) + p)"
proof -
  let ?base = "case gateway_base_port routing of None \<Rightarrow> 9500 | Some b \<Rightarrow> b"
  from init have coords: "r_coordinates r = coordinate_to_worker_slot routing"
    and ports: "r_gateway_ports r = map (\<lambda>s. (s, ?base + s))
        (filter (\<lambda>s. s \<noteq> slot) (remdups (map snd (coordinate_to_worker_slot routing))))"
    by (auto simp: init_router_def res_simps Let_def)
  from peer obtain c where "map_of (r_coordinates r) c = Some p"
    by (auto simp: peer_for_def Let_def split: option.splits)
  then have "p \<in> set (filter (\<lambda>s. s \<noteq> slot) (remdups (map snd (coordinate_to_worker_slot routing))))"
    using remote coords by (force dest: map_of_SomeD)
  then show ?thesis unfolding ports by (simp add: map_of_map_restrict restrict_map_def)
qed

theorem init_router_gateway_total_witness:
  "\<exists>r. init_router 0 \<lparr>coordinate_to_worker_slot = [(''0,0'', 0), (''1,0'', 2)],
        worker_physical_slots = None, gateway_base_port = None\<rparr> = Inr r
     \<and> peer_for r ''W'' ''buffer0_0_1_0'' = Inr 2 \<and> map_of (r_gateway_ports r) 2 = Some 9502"
proof -
  let ?t = "\<lparr>coordinate_to_worker_slot = [(''0,0'', 0), (''1,0'', 2)],
        worker_physical_slots = None, gateway_base_port = None\<rparr>"
  obtain r where r: "init_router 0 ?t = Inr r" and p: "peer_for r ''W'' ''buffer0_0_1_0'' = Inr 2"
    by (simp add: init_router_def dict_of_def peer_for_def match_pipe_name_def int_group_def text_eval)
  from init_router_gateway_total [OF r p] r p show ?thesis by simp
qed

section \<open>Wake-ups\<close>

text \<open>
  A write notifies every waiter, a read notifies none. Taking a payload can therefore make another
  waiter's predicate true without waking it. The invariant below says that no sleeping waiter has
  a true predicate; it holds as long as taking a payload leaves no other reader waiting on that pipe.
\<close>

definition no_lost_wakeup :: "router_state \<Rightarrow> bool" where
  "no_lost_wakeup s \<longleftrightarrow> list_all (\<lambda>w. w_notified w \<or> \<not> local_ready (rs_pipes s) (w_pipe w) (w_count w)) (rs_waiting s)"

definition single_reader_step :: "gateways \<Rightarrow> router_state \<Rightarrow> pipe_event list \<Rightarrow> router_state \<Rightarrow> bool" where
  "single_reader_step gw s es t \<longleftrightarrow> router_step gw s es t \<and>
     list_all (\<lambda>e. case e of Delivered n p \<Rightarrow> n \<notin> w_pipe ` set (rs_waiting t) | Wrote n p \<Rightarrow> True) es"

lemma local_ready_other_pipe: "m \<noteq> n \<Longrightarrow> local_ready (q(n := ps)) m k = local_ready q m k"
  by (simp add: local_ready_def)

lemma single_reader_no_lost_wakeup:
  assumes "single_reader_step gw s es t" and "no_lost_wakeup s"
  shows "no_lost_wakeup t"
proof -
  from assms(1) have step: "router_step gw s es t"
    and solo: "\<And>n p w. Delivered n p \<in> set es \<Longrightarrow> w \<in> set (rs_waiting t) \<Longrightarrow> w_pipe w \<noteq> n"
    by (force simp: single_reader_step_def list_all_iff)+
  show ?thesis
    using step assms(2) solo
  proof cases
    case (local_write input rq peer c)
    then show ?thesis by (simp add: no_lost_wakeup_def state_update_simps list_all_iff)
  next
    case (local_read input rq peer data q c)
    with assms(2) solo show ?thesis
      by (auto simp: no_lost_wakeup_def state_update_simps list_all_iff handle_local_read_Some
          local_ready_other_pipe)
  next
    case (wake_take ws1 c n k ws2 data q)
    with assms(2) solo show ?thesis
      by (auto simp: no_lost_wakeup_def state_update_simps list_all_iff handle_local_read_Some
          local_ready_other_pipe)
  qed (use assms(2) in \<open>auto simp: no_lost_wakeup_def state_update_simps list_all_iff\<close>)
qed

text \<open>A sleeping waiter is left alone by every step that is not a write.\<close>

lemma sleeping_waiter_stays:
  assumes "router_step gw s es t" and "Waiter c n k False \<in> set (rs_waiting s)"
    and "\<And>m p. Wrote m p \<notin> set es"
  shows "Waiter c n k False \<in> set (rs_waiting t)"
  using assms by cases (auto simp: state_update_simps)

lemma sleeping_waiter_stays_run:
  assumes "run (router_step gw) s log t" and "Waiter c n k False \<in> set (rs_waiting s)"
    and "\<And>m p. Wrote m p \<notin> set log"
  shows "Waiter c n k False \<in> set (rs_waiting t)"
  using assms
proof (induction rule: run.induct)
  case (run_nil a)
  then show ?case by simp
next
  case (run_snoc a log b es d)
  then show ?case by (auto intro: sleeping_waiter_stays [of gw b es d])
qed

text \<open>
  C3. No reader hangs on a ready payload while each pipe has one reader at a time: whenever a
  waiter's payload is at the head of its queue, the waiter has been notified, and its next step
  delivers that payload.
\<close>

theorem single_reader_progress:
  assumes reach: "run (single_reader_step gw) (init_state r) log s"
    and w: "Waiter c n k b \<in> set (rs_waiting s)" and ready: "local_ready (rs_pipes s) n k"
  shows "\<exists>p t. rs_pipes s n = p # rs_pipes t n \<and> router_step gw s [Delivered n p] t
    \<and> rs_replies t = rs_replies s @ [(c, ok_bytes_line k @ p)]"
proof -
  have init: "no_lost_wakeup (init_state r)" by (simp add: no_lost_wakeup_def init_state_def)
  have "no_lost_wakeup s"
    using run_invariant [where P = no_lost_wakeup, OF reach init] single_reader_no_lost_wakeup
    by blast
  with w ready have "b" by (force simp: no_lost_wakeup_def list_all_iff)
  with w obtain ws1 ws2 where ws: "rs_waiting s = ws1 @ Waiter c n k True # ws2"
    by (metis (full_types) split_list)
  from ready obtain p ps where p: "rs_pipes s n = p # ps" by (auto simp: local_ready_iff)
  then have "handle_local_read (rs_pipes s) n = Some (p, (rs_pipes s)(n := ps))"
    by (simp add: handle_local_read_Some)
  from router_step.wake_take [OF ws ready this, of gw] show ?thesis
    using p by (intro exI conjI) (auto simp: state_update_simps)
qed

theorem single_reader_progress_witness:
  "\<exists>s p t. rs_pipes s ''buffer0_0_0_1'' = p # rs_pipes t ''buffer0_0_0_1''
     \<and> router_step (\<lambda>_ _. Unavailable '''') s [Delivered ''buffer0_0_0_1'' p] t
     \<and> rs_replies t = rs_replies s @ [(7, ok_bytes_line 3 @ p)]"
proof -
  let ?gw = "\<lambda>_ _. Unavailable ''''" and ?i = "init_state example_router"
  let ?a = "?i\<lparr>rs_waiting := [Waiter 7 ''buffer0_0_0_1'' 3 False]\<rparr>"
  have a: "router_step ?gw ?i [] ?a"
    using router_step.local_block [of ?i "''R buffer0_0_0_1 3'' @ [newline]" "example_read 3" 0 ?gw 7]
      example_requests(3)
    by (simp add: init_state_def example_read_def example_router_def local_ready_def)
  obtain s where s: "router_step ?gw ?a [Wrote ''buffer0_0_0_1'' ''abc''] s"
    "rs_waiting s = [Waiter 7 ''buffer0_0_0_1'' 3 True]" "rs_pipes s ''buffer0_0_0_1'' = [''abc'']"
    using example_write_step [of ?a "''abc''" ?gw 8]
    by (auto simp: state_update_simps handle_local_write_def)
  have "run (single_reader_step ?gw) ?i ([] @ [Wrote ''buffer0_0_0_1'' ''abc'']) s"
    by (rule run_two [of _ _ _ ?a]) (use a s in \<open>auto simp: single_reader_step_def\<close>)
  from single_reader_progress [OF this, of 7 "''buffer0_0_0_1''" 3 True] s show ?thesis
    by (force simp: local_ready_iff)
qed

text \<open>
  C4. With two readers of different sizes on one pipe a wake-up can be lost: after writes of 3 and
  2 bytes, a reader of 2 bytes that came first sleeps (the head has 3 bytes), a reader of 3 bytes
  then takes the head, and the first reader's payload is now ready; but no sequence of steps
  without a further write, on any pipe, ever completes its read.
\<close>

theorem router_lost_wakeup:
  "\<exists>log s. run (router_step gw) (init_state example_router) log s
     \<and> Waiter 1 ''buffer0_0_0_1'' 2 False \<in> set (rs_waiting s)
     \<and> local_ready (rs_pipes s) ''buffer0_0_0_1'' 2
     \<and> \<not> (\<exists>log' t. run (router_step gw) s log' t \<and> (\<forall>m p. Wrote m p \<notin> set log')
            \<and> Waiter 1 ''buffer0_0_0_1'' 2 False \<notin> set (rs_waiting t))"
proof -
  let ?n = "''buffer0_0_0_1''" and ?i = "init_state example_router"
  obtain a where a: "router_step gw ?i [Wrote ?n ''abc''] a" "rs_router a = example_router"
    "rs_pipes a = (\<lambda>_. [])(?n := [''abc''])" "rs_waiting a = []"
    using example_write_step [of ?i "''abc''" gw 0]
    by (auto simp: state_update_simps handle_local_write_def)
  obtain b where b: "router_step gw a [Wrote ?n ''de''] b" "rs_router b = example_router"
    "rs_pipes b = (\<lambda>_. [])(?n := [''abc'', ''de''])" "rs_waiting b = []"
    using example_write_step [of a "''de''" gw 0] a
    by (auto simp: state_update_simps handle_local_write_def)
  let ?d = "b\<lparr>rs_waiting := [Waiter 1 ?n 2 False]\<rparr>"
  have d: "router_step gw b [] ?d"
    using router_step.local_block [of b "''R buffer0_0_0_1 2'' @ [newline]" "example_read 2" 0 gw 1]
      example_requests(4) b
    by (simp add: example_read_def example_router_def local_ready_def)
  obtain s where s: "router_step gw ?d [Delivered ?n ''abc''] s" "rs_pipes s ?n = [''de'']"
    "rs_waiting s = [Waiter 1 ?n 2 False]"
    using example_read_step [of ?d 3 "''abc''" "[''de'']" gw 2] b
    by (auto simp: state_update_simps)
  have "run (router_step gw) ?i (([Wrote ?n ''abc''] @ [Wrote ?n ''de'']) @ ([] @ [Delivered ?n ''abc''])) s"
  proof (rule run_trans)
    show "run (router_step gw) b ([] @ [Delivered ?n ''abc'']) s"
      by (rule run_two [where step = "router_step gw" and b = ?d]) (fact d s(1))+
    show "run (router_step gw) ?i ([Wrote ?n ''abc''] @ [Wrote ?n ''de'']) b"
      by (rule run_two [where step = "router_step gw" and b = a]) (fact a(1) b(1))+
  qed
  moreover have "Waiter 1 ?n 2 False \<in> set (rs_waiting t)"
    if "run (router_step gw) s log' t" "\<forall>m p. Wrote m p \<notin> set log'" for log' t
    using sleeping_waiter_stays_run [OF that(1)] that(2) s(3) by simp
  moreover have "Waiter 1 ?n 2 False \<in> set (rs_waiting s)" "local_ready (rs_pipes s) ?n 2"
    using s by (simp_all add: local_ready_iff)
  ultimately show ?thesis by blast
qed

end
