(* ===== verification/Topology.thy ===== *)
theory Topology
  imports PyText
begin

text \<open>
  The point-to-point SimBricks topology (\<open>real/generate_simbricks_topology.py\<close>): one worker
  record per slot and one \<open>net_sockets\<close> channel per unordered pair of slots, each with a TCP port
  of its own. The theorems state that the pairs are covered exactly once, that the ports do not
  clash and stay valid, and exactly which arguments the generator accepts.
\<close>

section \<open>Definitions\<close>

record topology_worker =
  tw_slot :: nat
  tw_hostname :: string
  tw_simulated_ip :: string

record channel =
  ch_id :: string
  ch_listener_slot :: nat
  ch_connector_slot :: nat
  ch_listener_ip :: string
  ch_tcp_port :: int
  ch_link_latency_ps :: int
  ch_sync_interval_ps :: int

record topology =
  tp_version :: int
  tp_transport :: string
  tp_workers :: "topology_worker list"
  tp_channels :: "channel list"

text \<open>\<open>itertools.combinations(xs, 2)\<close>.\<close>

primrec combinations2 :: "'a list \<Rightarrow> ('a \<times> 'a) list" where
  "combinations2 [] = []"
| "combinations2 (x # xs) = map (Pair x) xs @ combinations2 xs"

definition valid_octet :: "string \<Rightarrow> bool" where
  "valid_octet item \<longleftrightarrow> item \<noteq> [] \<and> list_all is_digit item \<and> digits_val item \<le> 255"

definition check_subnet :: "string \<Rightarrow> unit res" where
  "check_subnet subnet =
     (let octets = split_on (CHR ''.'') subnet
      in if length octets \<noteq> 3 \<or> list_ex (\<lambda>item. \<not> valid_octet item) octets
         then Inl (ValueError ''--subnet must contain exactly three IPv4 octets'') else Inr ())"

definition simulated_ip :: "string \<Rightarrow> nat \<Rightarrow> string" where
  "simulated_ip subnet slot = subnet @ ''.'' @ show_nat (slot + 10)"

definition topology_workers :: "nat \<Rightarrow> string \<Rightarrow> topology_worker list" where
  "topology_workers nodes subnet =
     map (\<lambda>slot. \<lparr>tw_slot = slot, tw_hostname = ''worker-'' @ show_nat slot,
                  tw_simulated_ip = simulated_ip subnet slot\<rparr>) [0..<nodes]"

definition topology_channel :: "topology_worker list \<Rightarrow> int \<Rightarrow> nat \<times> nat \<times> nat \<Rightarrow> channel res" where
  "topology_channel workers base_port = (\<lambda>(index, left, right).
     let port = base_port + int index
     in if port > 65535 then Inl (ValueError ''not enough TCP ports for requested topology'')
        else Inr \<lparr>ch_id = ''node'' @ show_nat left @ ''-node'' @ show_nat right,
                  ch_listener_slot = left, ch_connector_slot = right,
                  ch_listener_ip = tw_simulated_ip (workers ! left), ch_tcp_port = port,
                  ch_link_latency_ps = 500000, ch_sync_interval_ps = 500000\<rparr>)"

definition generate_topology :: "nat \<Rightarrow> string \<Rightarrow> int \<Rightarrow> topology res" where
  "generate_topology nodes subnet base_port =
     (if nodes \<notin> {1, 2, 4, 8} then Inl (SystemExit ''argument --nodes: invalid choice'')
      else bindE (check_subnet subnet) (\<lambda>_.
        if \<not> (1 \<le> base_port \<and> base_port \<le> 65535)
        then Inl (ValueError ''--base-port must be a valid TCP port'')
        else let workers = topology_workers nodes subnet
             in bindE (mapE (topology_channel workers base_port)
                         (enumerate 0 (combinations2 [0..<nodes]))) (\<lambda>channels.
                Inr \<lparr>tp_version = 1, tp_transport = ''simbricks-baseif-net_sockets'',
                     tp_workers = workers, tp_channels = channels\<rparr>)))"

section \<open>Pairs\<close>

lemma combinations2_set:
  "sorted_wrt (<) xs \<Longrightarrow> set (combinations2 xs) = {(x, y). x \<in> set xs \<and> y \<in> set xs \<and> x < y}"
  for xs :: "'a :: linorder list"
  by (induction xs) auto

lemma combinations2_subset: "set (combinations2 xs) \<subseteq> set xs \<times> set xs"
  by (induction xs) auto

lemma distinct_combinations2: "distinct xs \<Longrightarrow> distinct (combinations2 xs)"
proof (induction xs)
  case (Cons x xs)
  then show ?case using combinations2_subset [of xs] by (auto simp: distinct_map inj_on_def)
qed simp

lemma length_combinations2: "2 * length (combinations2 xs) = length xs * (length xs - 1)"
proof (induction xs)
  case (Cons x xs)
  then show ?case by (cases xs) (auto simp: algebra_simps)
qed simp

section \<open>Shape of an accepted topology\<close>

text \<open>The value of the channel loop when no port runs past 65535.\<close>

definition channels_of :: "nat \<Rightarrow> string \<Rightarrow> int \<Rightarrow> channel list" where
  "channels_of nodes subnet base_port =
     map (\<lambda>(index, left, right). \<lparr>ch_id = ''node'' @ show_nat left @ ''-node'' @ show_nat right,
                  ch_listener_slot = left, ch_connector_slot = right,
                  ch_listener_ip = simulated_ip subnet left, ch_tcp_port = base_port + int index,
                  ch_link_latency_ps = 500000, ch_sync_interval_ps = 500000\<rparr>)
       (enumerate 0 (combinations2 [0..<nodes]))"

definition port_room :: "nat \<Rightarrow> int \<Rightarrow> bool" where
  "port_room nodes base_port \<longleftrightarrow> base_port + int (length (combinations2 [0..<nodes])) \<le> 65536"

lemma mapE_not_Inr: "x \<in> set xs \<Longrightarrow> f x = Inl e \<Longrightarrow> mapE f xs \<noteq> Inr ys"
  by (auto simp: mapE_Inr_iff list_all2_conv_all_nth in_set_conv_nth)

lemma enumerate_combinations_bounds:
  "(index, left, right) \<in> set (enumerate 0 (combinations2 [0..<nodes])) \<Longrightarrow>
     index < length (combinations2 [0..<nodes]) \<and> left < right \<and> right < nodes"
proof -
  assume a: "(index, left, right) \<in> set (enumerate 0 (combinations2 [0..<nodes]))"
  then have "(left, right) \<in> set (combinations2 [0..<nodes])" "index < length (combinations2 [0..<nodes])"
    using nth_mem [of index "combinations2 [0..<nodes]"] by (auto simp: in_set_enumerate_eq)
  then show ?thesis by (simp add: combinations2_set)
qed

lemma channel_loop:
  "mapE (topology_channel (topology_workers nodes subnet) base_port)
     (enumerate 0 (combinations2 [0..<nodes]))
   = Inr channels \<longleftrightarrow> (port_room nodes base_port \<or> combinations2 [0..<nodes] = [])
       \<and> channels = channels_of nodes subnet base_port"
  (is "mapE ?f ?xs = _ \<longleftrightarrow> _")
proof (cases "port_room nodes base_port \<or> combinations2 [0..<nodes] = []")
  case True
  have "mapE ?f ?xs = Inr (channels_of nodes subnet base_port)"
    unfolding channels_of_def
  proof (rule mapE_all_Inr)
    fix x assume x: "x \<in> set ?xs"
    obtain index left right where [simp]: "x = (index, left, right)" by (cases x)
    from enumerate_combinations_bounds [of index left right nodes] x True
    show "?f x = Inr ((\<lambda>(index, left, right). \<lparr>ch_id = ''node'' @ show_nat left @ ''-node'' @ show_nat right,
                  ch_listener_slot = left, ch_connector_slot = right,
                  ch_listener_ip = simulated_ip subnet left, ch_tcp_port = base_port + int index,
                  ch_link_latency_ps = 500000, ch_sync_interval_ps = 500000\<rparr>) x)"
      by (auto simp: topology_channel_def topology_workers_def port_room_def)
  qed
  with True show ?thesis by auto
next
  case False
  let ?ps = "combinations2 [0..<nodes]"
  obtain left right where lr: "?ps ! (length ?ps - 1) = (left, right)"
    by (cases "?ps ! (length ?ps - 1)")
  with False have "(length ?ps - 1, left, right) \<in> set ?xs" by (auto simp: in_set_enumerate_eq)
  moreover have "?f (length ?ps - 1, left, right) = Inl (ValueError ''not enough TCP ports for requested topology'')"
    using False by (cases ?ps) (auto simp: topology_channel_def port_room_def Let_def)
  ultimately show ?thesis using False by (auto dest: mapE_not_Inr)
qed

lemma channels_of_pairs:
  "map (\<lambda>c. (ch_listener_slot c, ch_connector_slot c)) (channels_of nodes subnet base_port)
     = combinations2 [0..<nodes]"
  by (simp add: channels_of_def comp_def case_prod_beta flip: map_map [where g = snd])

lemma channels_of_ports:
  "map ch_tcp_port (channels_of nodes subnet base_port)
     = map (\<lambda>i. base_port + int i) [0..<length (combinations2 [0..<nodes])]"
proof -
  have "map ch_tcp_port (channels_of nodes subnet base_port)
      = map (\<lambda>i. base_port + int i) (map fst (enumerate 0 (combinations2 [0..<nodes])))"
    unfolding channels_of_def map_map by (simp add: comp_def case_prod_beta)
  then show ?thesis unfolding map_fst_enumerate by simp
qed

lemma generate_topology_eq_Inr:
  "generate_topology nodes subnet base_port = Inr t \<longleftrightarrow>
     nodes \<in> {1, 2, 4, 8} \<and> check_subnet subnet = Inr () \<and> 1 \<le> base_port \<and> base_port \<le> 65535
     \<and> port_room nodes base_port
     \<and> t = \<lparr>tp_version = 1, tp_transport = ''simbricks-baseif-net_sockets'',
            tp_workers = topology_workers nodes subnet, tp_channels = channels_of nodes subnet base_port\<rparr>"
  by (auto simp: generate_topology_def bindE_eq_Inr Let_def channel_loop port_room_def channels_of_def)

section \<open>Properties\<close>

lemma filter_eq_distinct: "distinct xs \<Longrightarrow> x \<in> set xs \<Longrightarrow> filter (\<lambda>y. y = x) xs = [x]"
  by (induction xs) (auto simp: filter_empty_conv)

lemma unordered_pair_once:
  assumes "i < nodes" "j < nodes" "i \<noteq> j"
  shows "length (filter (\<lambda>c. {ch_listener_slot c, ch_connector_slot c} = {i, j})
           (channels_of nodes subnet base_port)) = 1"
proof -
  let ?cs = "channels_of nodes subnet base_port" and ?ps = "combinations2 [0..<nodes]"
  have mem: "(min i j, max i j) \<in> set ?ps"
    using assms by (auto simp: combinations2_set min_def max_def)
  have "length (filter (\<lambda>c. {ch_listener_slot c, ch_connector_slot c} = {i, j}) ?cs)
      = length (filter (\<lambda>(a, b). {a, b} = {i, j}) (map (\<lambda>c. (ch_listener_slot c, ch_connector_slot c)) ?cs))"
    by (simp add: filter_map comp_def)
  also have "\<dots> = length (filter (\<lambda>(a, b). {a, b} = {i, j}) ?ps)"
    by (simp add: channels_of_pairs)
  also have "filter (\<lambda>(a, b). {a, b} = {i, j}) ?ps = filter (\<lambda>p. p = (min i j, max i j)) ?ps"
    by (rule filter_cong) (auto simp: combinations2_set doubleton_eq_iff min_def max_def)
  finally show ?thesis using mem by (simp add: filter_eq_distinct distinct_combinations2)
qed

text \<open>
  C8. In an accepted topology every unordered pair of distinct worker slots has exactly one
  channel, its listener is the lower slot and its address is that worker's simulated address; all
  channel ports are different, valid TCP ports; there are \<open>n (n - 1) / 2\<close> channels.
\<close>

theorem topology_channels_cover_pairs:
  assumes "generate_topology nodes subnet base_port = Inr t"
  shows "length (tp_workers t) = nodes
    \<and> (\<forall>i j. i < nodes \<longrightarrow> j < nodes \<longrightarrow> i \<noteq> j \<longrightarrow>
        length (filter (\<lambda>c. {ch_listener_slot c, ch_connector_slot c} = {i, j}) (tp_channels t)) = 1)
    \<and> (\<forall>c \<in> set (tp_channels t). ch_listener_slot c < ch_connector_slot c
        \<and> ch_connector_slot c < nodes
        \<and> ch_listener_ip c = tw_simulated_ip (tp_workers t ! ch_listener_slot c)
        \<and> 1 \<le> ch_tcp_port c \<and> ch_tcp_port c \<le> 65535)
    \<and> distinct (map ch_tcp_port (tp_channels t))
    \<and> 2 * length (tp_channels t) = nodes * (nodes - 1)"
proof (intro conjI allI impI ballI)
  from assms have t: "tp_workers t = topology_workers nodes subnet"
      "tp_channels t = channels_of nodes subnet base_port"
    and ok: "1 \<le> base_port" "port_room nodes base_port"
    by (simp_all add: generate_topology_eq_Inr)
  show "length (tp_workers t) = nodes" by (simp add: t topology_workers_def)
  show "length (filter (\<lambda>c. {ch_listener_slot c, ch_connector_slot c} = {i, j}) (tp_channels t)) = 1"
    if "i < nodes" "j < nodes" "i \<noteq> j" for i j
    using unordered_pair_once [OF that] by (simp add: t)
  show "distinct (map ch_tcp_port (tp_channels t))"
    by (simp add: t channels_of_ports distinct_map inj_on_def)
  show "2 * length (tp_channels t) = nodes * (nodes - 1)"
    using length_combinations2 [of "[0..<nodes]"] by (simp add: t channels_of_def)
  fix c assume "c \<in> set (tp_channels t)"
  then obtain index where c: "(index, ch_listener_slot c, ch_connector_slot c)
        \<in> set (enumerate 0 (combinations2 [0..<nodes]))"
      "ch_tcp_port c = base_port + int index" "ch_listener_ip c = simulated_ip subnet (ch_listener_slot c)"
    by (auto simp: t channels_of_def)
  note b = enumerate_combinations_bounds [OF c(1)]
  from b show "ch_listener_slot c < ch_connector_slot c" "ch_connector_slot c < nodes" by simp_all
  from b c show "ch_listener_ip c = tw_simulated_ip (tp_workers t ! ch_listener_slot c)"
    by (simp add: t topology_workers_def)
  from b c ok show "1 \<le> ch_tcp_port c" "ch_tcp_port c \<le> 65535" by (simp_all add: port_room_def)
qed

lemma example_topology_accepted: "\<exists>t. generate_topology 4 ''10.203.0'' 9700 = Inr t"
  by (simp add: generate_topology_eq_Inr port_room_def upt_rec check_subnet_def valid_octet_def text_eval)

theorem topology_channels_cover_pairs_witness:
  "\<exists>t. generate_topology 4 ''10.203.0'' 9700 = Inr t \<and> distinct (map ch_tcp_port (tp_channels t))
     \<and> length (filter (\<lambda>c. {ch_listener_slot c, ch_connector_slot c} = {3, 1}) (tp_channels t)) = 1
     \<and> 2 * length (tp_channels t) = 12"
proof -
  obtain t where t: "generate_topology 4 ''10.203.0'' 9700 = Inr t"
    using example_topology_accepted by blast
  from topology_channels_cover_pairs [OF t] t show ?thesis by auto
qed

text \<open>
  The generator accepts exactly the node counts 1, 2, 4 and 8, three decimal octets of at most
  255 and a base port from which one port per pair of workers fits below 65536.
\<close>

theorem topology_accepted_iff:
  "(\<exists>t. generate_topology nodes subnet base_port = Inr t) \<longleftrightarrow>
     nodes \<in> {1, 2, 4, 8}
     \<and> (\<exists>a b c. subnet = a @ ''.'' @ b @ ''.'' @ c \<and> valid_octet a \<and> valid_octet b \<and> valid_octet c)
     \<and> 1 \<le> base_port \<and> base_port \<le> 65535
     \<and> base_port + int (nodes * (nodes - 1) div 2) \<le> 65536"
proof -
  have dot: "CHR ''.'' \<notin> set x" if "valid_octet x" for x
    using that by (auto simp: valid_octet_def list_all_iff is_digit_def)
  have "check_subnet subnet = Inr () \<longleftrightarrow>
      (\<exists>a b c. split_on (CHR ''.'') subnet = [a, b, c] \<and> valid_octet a \<and> valid_octet b \<and> valid_octet c)"
    by (auto simp: check_subnet_def Let_def list_ex_iff numeral_3_eq_3 length_Suc_conv)
  also have "\<dots> \<longleftrightarrow> (\<exists>a b c. subnet = a @ ''.'' @ b @ ''.'' @ c \<and> valid_octet a \<and> valid_octet b \<and> valid_octet c)"
  proof (intro ex_cong1)
    fix a b c
    have join: "subnet = join_with ''.'' [a, b, c]" if "split_on (CHR ''.'') subnet = [a, b, c]"
      using that by (metis join_split_on)
    show "split_on (CHR ''.'') subnet = [a, b, c] \<and> valid_octet a \<and> valid_octet b \<and> valid_octet c \<longleftrightarrow>
      subnet = a @ ''.'' @ b @ ''.'' @ c \<and> valid_octet a \<and> valid_octet b \<and> valid_octet c"
      using join dot by (auto simp: split_on_append_sep split_on_no_sep)
  qed
  finally show ?thesis
    using length_combinations2 [of "[0..<nodes]"] by (auto simp: generate_topology_eq_Inr port_room_def)
qed

end
