(* ===== verification/Routing.thy ===== *)
theory Routing
  imports PipeRouter Topology Placement
begin

text \<open>
  The routing table (\<open>real/generate_simbricks_routing.py\<close>) that joins a placement and a topology.
  \<open>place_coordinate\<close> is the body of the loop over the placed processes
  (\<open>coordinate_to_slot.setdefault\<close> and the conflict test). The result is the \<open>routing\<close>
  record that the router reads, with the channel table beside it. The theorems state when the
  table is produced, that it holds the placement, and what a router started on it answers.
\<close>

section \<open>Definitions\<close>

record routing_file =
  rf_transport :: string
  rf_workload :: string
  rf_routing :: routing
  rf_channel_by_worker_pair :: "(string, string) dict"

definition coordinate_key :: "int \<times> int \<Rightarrow> string" where
  "coordinate_key = (\<lambda>(x, y). str_int x @ '','' @ str_int y)"

definition physical_slots_of :: "string option \<Rightarrow> nat \<Rightarrow> int list res" where
  "physical_slots_of argument nodes =
     (case argument of
        Some (c # cs) \<Rightarrow>
          bindE (mapE int_text (split_on (CHR '','') (c # cs))) (\<lambda>physical_slots.
            if length physical_slots \<noteq> nodes \<or> list_ex (\<lambda>value. value < 0) physical_slots
            then Inl (ValueError ''--worker-physical-slots must give one non-negative value per logical worker'')
            else Inr physical_slots)
      | _ \<Rightarrow> Inr (replicate nodes 0))"

definition place_coordinate :: "placed \<Rightarrow> (string, int) dict \<Rightarrow> (string, int) dict res" where
  "place_coordinate process coordinate_to_slot =
     (case pl_coordinates process of
        None \<Rightarrow> Inr coordinate_to_slot
      | Some coordinates \<Rightarrow>
          (let key = coordinate_key coordinates; slot = int (pl_node_slot process)
           in case map_of coordinate_to_slot key of
                None \<Rightarrow> Inr (coordinate_to_slot @ [(key, slot)])
              | Some previous \<Rightarrow>
                  if previous \<noteq> slot
                  then Inl (ValueError (''chiplet coordinate '' @ key @ '' was placed on multiple worker slots''))
                  else Inr coordinate_to_slot))"

definition channel_table :: "channel list \<Rightarrow> (string, string) dict" where
  "channel_table channels = dict_of (map (\<lambda>channel.
     (show_nat (ch_listener_slot channel) @ '','' @ show_nat (ch_connector_slot channel), ch_id channel)) channels)"

definition generate_routing :: "placement \<Rightarrow> topology \<Rightarrow> string option \<Rightarrow> routing_file res" where
  "generate_routing placement topology worker_physical_slots_argument =
     (let nodes = pm_swarm_nodes placement
      in if length (tp_workers topology) \<noteq> nodes
         then Inl (ValueError ''placement and topology disagree on worker count'')
         else bindE (physical_slots_of worker_physical_slots_argument nodes) (\<lambda>physical_slots.
              bindE (foldE place_coordinate (pm_processes placement) []) (\<lambda>coordinate_to_slot.
              Inr \<lparr>rf_transport = tp_transport topology, rf_workload = pm_workload placement,
                   rf_routing = \<lparr>coordinate_to_worker_slot = coordinate_to_slot,
                     worker_physical_slots = Some (map (\<lambda>w. (show_nat w, physical_slots ! w)) [0..<nodes]),
                     gateway_base_port = Some 9500\<rparr>,
                   rf_channel_by_worker_pair = channel_table (tp_channels topology)\<rparr>)))"

section \<open>Keys\<close>

lemma coordinate_key_split:
  "split_on (CHR '','') (coordinate_key (x, y)) = [str_int x, str_int y]"
proof -
  have "CHR '','' \<notin> set (str_int i)" for i by (rule str_int_not_in) simp
  then show ?thesis by (simp add: coordinate_key_def split_on_append_sep split_on_no_sep)
qed

lemma coordinate_key_inj [simp]: "coordinate_key c = coordinate_key d \<longleftrightarrow> c = d"
  by (cases c, cases d) (metis coordinate_key_split list.inject str_int_inj)

section \<open>The loop over the placed processes\<close>

text \<open>The table holds exactly the placed coordinates, and no coordinate is on two slots.\<close>

definition routed :: "placed list \<Rightarrow> (string, int) dict \<Rightarrow> bool" where
  "routed ps d \<longleftrightarrow> distinct (map fst d) \<and>
     (\<forall>k s. map_of d k = Some s \<longleftrightarrow>
        (\<exists>p c. p \<in> set ps \<and> pl_coordinates p = Some c \<and> k = coordinate_key c \<and> s = int (pl_node_slot p)))"

definition slot_conflict :: "placed list \<Rightarrow> bool" where
  "slot_conflict ps \<longleftrightarrow> (\<exists>p q c. p \<in> set ps \<and> q \<in> set ps \<and> pl_coordinates p = Some c
     \<and> pl_coordinates q = Some c \<and> pl_node_slot p \<noteq> pl_node_slot q)"

lemma routed_Nil: "routed [] []"
  by (simp add: routed_def)

lemma routed_lookup:
  "routed ps d \<Longrightarrow> map_of d (coordinate_key c) = Some s \<longleftrightarrow>
     (\<exists>p. p \<in> set ps \<and> pl_coordinates p = Some c \<and> s = int (pl_node_slot p))"
  by (auto simp: routed_def)

lemma routed_append_key:
  assumes "routed ps d" and "pl_coordinates p = Some c" and "map_of d (coordinate_key c) = None"
  shows "routed (ps @ [p]) (d @ [(coordinate_key c, int (pl_node_slot p))])"
proof -
  have key: "coordinate_key c \<notin> fst ` set d" using assms(3) by (simp add: map_of_eq_None_iff)
  have "map_of (d @ [(coordinate_key c, int (pl_node_slot p))]) k = Some s \<longleftrightarrow>
      map_of d k = Some s \<or> k = coordinate_key c \<and> s = int (pl_node_slot p)" for k s
    using assms(3) by (auto simp: map_add_def split: option.splits)
  with assms(1,2) key show ?thesis unfolding routed_def by auto
qed

lemma routed_step:
  assumes r: "routed ps d" and step: "place_coordinate p d = Inr d'"
  shows "routed (ps @ [p]) d'"
proof (cases "pl_coordinates p")
  case None
  with step have "d' = d" by (simp add: place_coordinate_def)
  with r None show ?thesis by (auto simp: routed_def)
next
  case (Some c)
  show ?thesis
  proof (cases "map_of d (coordinate_key c)")
    case None
    with Some step have "d' = d @ [(coordinate_key c, int (pl_node_slot p))]"
      by (simp add: place_coordinate_def Let_def)
    with routed_append_key [OF r Some None] show ?thesis by simp
  next
    case same: (Some s)
    with Some step have "d' = d" "s = int (pl_node_slot p)"
      by (auto simp: place_coordinate_def Let_def split: if_splits)
    with r Some same show ?thesis unfolding routed_def by auto
  qed
qed

lemma foldE_place_routed:
  "foldE place_coordinate ps [] = Inr d \<Longrightarrow> routed ps d"
proof (induction ps arbitrary: d rule: rev_induct)
  case (snoc p ps)
  then show ?case by (auto simp: foldE_append bindE_eq_Inr intro: routed_step)
qed (simp add: routed_Nil)

lemma foldE_place_total:
  "\<not> slot_conflict ps \<Longrightarrow> \<exists>d. foldE place_coordinate ps [] = Inr d"
proof (induction ps rule: rev_induct)
  case (snoc p ps)
  then have "\<not> slot_conflict ps" by (auto simp: slot_conflict_def)
  with snoc obtain d where d: "foldE place_coordinate ps [] = Inr d" by blast
  note r = foldE_place_routed [OF d]
  have "\<exists>d'. place_coordinate p d = Inr d'"
  proof (cases "pl_coordinates p")
    case (Some c)
    have "s = int (pl_node_slot p)" if "map_of d (coordinate_key c) = Some s" for s
    proof -
      from that routed_lookup [OF r] obtain q where "q \<in> set ps" "pl_coordinates q = Some c"
        "s = int (pl_node_slot q)" by blast
      with Some snoc.prems show ?thesis unfolding slot_conflict_def by fastforce
    qed
    with Some show ?thesis by (auto simp: place_coordinate_def Let_def split: option.splits)
  qed (simp add: place_coordinate_def)
  with d show ?case by (auto simp: foldE_append)
qed simp

lemma routed_no_conflict: "routed ps d \<Longrightarrow> \<not> slot_conflict ps"
proof
  assume r: "routed ps d" and "slot_conflict ps"
  then obtain p q c where pq: "p \<in> set ps" "q \<in> set ps" "pl_coordinates p = Some c"
    "pl_coordinates q = Some c" "pl_node_slot p \<noteq> pl_node_slot q" by (auto simp: slot_conflict_def)
  with routed_lookup [OF r, of c] have "map_of d (coordinate_key c) = Some (int (pl_node_slot p))"
    "map_of d (coordinate_key c) = Some (int (pl_node_slot q))" by blast+
  with pq show False by simp
qed

lemma generate_routing_total:
  "length (tp_workers t) = pm_swarm_nodes pm \<Longrightarrow> \<not> slot_conflict (pm_processes pm) \<Longrightarrow>
     \<exists>f. generate_routing pm t None = Inr f"
  using foldE_place_total [of "pm_processes pm"]
  by (auto simp: generate_routing_def physical_slots_of_def bindE_eq_Inr Let_def)

text \<open>
  With the default of one physical host the routing table is produced exactly when the
  placement and the topology have the same number of workers and no chiplet coordinate is placed on
  two worker slots.
\<close>

theorem routing_accepted_iff:
  "(\<exists>f. generate_routing pm t None = Inr f) \<longleftrightarrow>
     length (tp_workers t) = pm_swarm_nodes pm \<and> \<not> slot_conflict (pm_processes pm)"
  using generate_routing_total [of t pm] foldE_place_routed [of "pm_processes pm"]
    routed_no_conflict [of "pm_processes pm"]
  by (auto simp: generate_routing_def physical_slots_of_def bindE_eq_Inr Let_def split: if_splits)

section \<open>A router on the generated table\<close>

definition pipe_name :: "int \<times> int \<Rightarrow> int \<times> int \<Rightarrow> string" where
  "pipe_name = (\<lambda>(sx, sy) (dx, dy). ''buffer'' @ str_int sx @ ''_'' @ str_int sy @ ''_'' @ str_int dx @ ''_'' @ str_int dy)"

lemma int_group_str_int [simp]: "int_group (str_int i)"
proof -
  obtain c cs where c: "show_nat (nat i) = c # cs" by (meson neq_Nil_conv show_nat_nonempty)
  with show_nat_digits [of "nat i"] have "c \<noteq> CHR ''-''" "list_all is_digit (c # cs)"
    using is_digit_neq [of c] by auto
  with c show ?thesis by (simp add: int_group_def str_int_def show_nat_digits)
qed

lemma match_pipe_name_pipe_name [simp]:
  "match_pipe_name (pipe_name (sx, sy) (dx, dy)) = Some (str_int sx, str_int sy, str_int dx, str_int dy)"
proof -
  have "CHR ''_'' \<notin> set (str_int i)" for i by (rule str_int_not_in) simp
  then show ?thesis
    by (simp add: match_pipe_name_def pipe_name_def split_on_append_sep split_on_no_sep)
qed

lemma peer_for_pipe_name:
  "peer_for r operation (pipe_name s d) =
     (let c = coordinate_key (if operation = ''W'' then d else s)
      in case map_of (r_coordinates r) c of
           None \<Rightarrow> Inl (ValueError (''no worker placement for chiplet '' @ c)) | Some k \<Rightarrow> Inr k)"
  by (cases s, cases d) (simp add: peer_for_def coordinate_key_def Let_def split: option.splits)

lemma int_text_show_nat [simp]: "int_text (show_nat n) = Inr (int n)"
  using int_text_str_int [of "int n"] by (simp add: str_int_def)

lemma length_physical_slots: "physical_slots_of argument nodes = Inr ps \<Longrightarrow> length ps = nodes"
  by (auto simp: physical_slots_of_def bindE_eq_Inr split: option.splits list.splits if_splits)

lemma init_router_generated:
  assumes "generate_routing pm t argument = Inr f"
  obtains r where "init_router slot (rf_routing f) = Inr r" "r_slot r = slot"
    "routed (pm_processes pm) (r_coordinates r)"
    "physical_slots_of argument (pm_swarm_nodes pm)
       = Inr (map (\<lambda>w. dict_get (r_physical_slots r) (int w) 0) [0..<pm_swarm_nodes pm])"
proof -
  let ?n = "pm_swarm_nodes pm"
  from assms obtain ps d where ps: "physical_slots_of argument ?n = Inr ps"
    and d: "foldE place_coordinate (pm_processes pm) [] = Inr d"
    and f: "rf_routing f = \<lparr>coordinate_to_worker_slot = d,
      worker_physical_slots = Some (map (\<lambda>w. (show_nat w, ps ! w)) [0..<?n]), gateway_base_port = Some 9500\<rparr>"
    by (auto simp: generate_routing_def bindE_eq_Inr Let_def split: if_splits)
  define phys where "phys = map (\<lambda>w. (int w, ps ! w)) [0..<?n]"
  have "mapE (\<lambda>(worker_slot, physical_slot). bindE (int_text worker_slot) (\<lambda>w. Inr (w, physical_slot)))
      (map (\<lambda>w. (show_nat w, ps ! w)) [0..<?n]) = Inr phys"
    by (auto simp: phys_def mapE_Inr_iff list_all2_conv_all_nth)
  moreover have "dict_of phys = phys"
    by (rule dict_of_distinct) (simp add: phys_def comp_def distinct_map inj_on_def)
  ultimately obtain r where r: "init_router slot (rf_routing f) = Inr r" "r_slot r = slot"
    "r_coordinates r = d" "r_physical_slots r = phys"
    by (auto simp: init_router_def f Let_def)
  have "map_of phys (int w) = Some (ps ! w)" if "w < ?n" for w
    using that by (intro map_of_is_SomeI) (auto simp: phys_def comp_def distinct_map inj_on_def)
  then have "map (\<lambda>w. dict_get (r_physical_slots r) (int w) 0) [0..<?n] = ps"
    using length_physical_slots [OF ps] by (intro nth_equalityI) (auto simp: r dict_get_def)
  with that r ps foldE_place_routed [OF d] show thesis by simp
qed

text \<open>
  C10. From the generated table to the answers of a running router: on every worker slot the router
  starts, and for a process placed at a chiplet coordinate, a write to that chiplet and a read from
  it are both resolved to the worker slot on which the placement put the process.
\<close>

theorem router_follows_placement:
  assumes "generate_routing pm t argument = Inr f"
  shows "\<exists>r. init_router slot (rf_routing f) = Inr r \<and>
    (\<forall>p \<in> set (pm_processes pm). \<forall>c other. pl_coordinates p = Some c \<longrightarrow>
       peer_for r ''W'' (pipe_name other c) = Inr (int (pl_node_slot p))
       \<and> peer_for r ''R'' (pipe_name c other) = Inr (int (pl_node_slot p)))"
proof -
  obtain r where r: "init_router slot (rf_routing f) = Inr r" and "r_slot r = slot"
    and routed: "routed (pm_processes pm) (r_coordinates r)"
    and "physical_slots_of argument (pm_swarm_nodes pm)
       = Inr (map (\<lambda>w. dict_get (r_physical_slots r) (int w) 0) [0..<pm_swarm_nodes pm])"
    by (rule init_router_generated [OF assms])
  have "map_of (r_coordinates r) (coordinate_key c) = Some (int (pl_node_slot p))"
    if "p \<in> set (pm_processes pm)" "pl_coordinates p = Some c" for p c
    using routed_lookup [OF routed] that by blast
  with r show ?thesis by (auto simp: peer_for_pipe_name)
qed

definition two_worker_placement :: placement where
  "two_worker_placement = \<lparr>pm_workload = ''demo'', pm_swarm_nodes = 2, pm_placement_policy = ''contiguous'',
     pm_processes =
       [\<lparr>pl_phase = ''phase1'', pl_process_index = 0, pl_node_slot = 0, pl_node_label = ''chipsystemsim.node.0'',
         pl_coordinates = Some (0, 0)\<rparr>,
        \<lparr>pl_phase = ''phase1'', pl_process_index = 1, pl_node_slot = 1, pl_node_label = ''chipsystemsim.node.1'',
         pl_coordinates = Some (5, -1)\<rparr>]\<rparr>"

definition two_worker_topology :: topology where
  "two_worker_topology = \<lparr>tp_version = 1, tp_transport = ''simbricks-baseif-net_sockets'',
     tp_workers = topology_workers 2 ''10.203.0'', tp_channels = channels_of 2 ''10.203.0'' 9700\<rparr>"

lemma two_worker_routing_accepted: "\<exists>f. generate_routing two_worker_placement two_worker_topology None = Inr f"
  by (rule generate_routing_total)
    (auto simp: slot_conflict_def two_worker_placement_def two_worker_topology_def topology_workers_def)

theorem router_follows_placement_witness:
  "\<exists>f r. generate_routing two_worker_placement two_worker_topology None = Inr f
     \<and> init_router 0 (rf_routing f) = Inr r
     \<and> peer_for r ''W'' ''buffer0_0_5_-1'' = Inr 1 \<and> peer_for r ''R'' ''buffer5_-1_0_0'' = Inr 1"
proof -
  obtain f where f: "generate_routing two_worker_placement two_worker_topology None = Inr f"
    using two_worker_routing_accepted by blast
  have "pipe_name (0, 0) (5, -1) = ''buffer0_0_5_-1''" "pipe_name (5, -1) (0, 0) = ''buffer5_-1_0_0''"
    by (simp_all add: pipe_name_def text_eval)
  moreover obtain r where r: "init_router 0 (rf_routing f) = Inr r"
    and peers: "\<And>p c other. p \<in> set (pm_processes two_worker_placement) \<Longrightarrow> pl_coordinates p = Some c \<Longrightarrow>
      peer_for r ''W'' (pipe_name other c) = Inr (int (pl_node_slot p))
      \<and> peer_for r ''R'' (pipe_name c other) = Inr (int (pl_node_slot p))"
    using router_follows_placement [OF f, of 0] by blast
  moreover have "peer_for r ''W'' (pipe_name (0, 0) (5, -1)) = Inr 1
      \<and> peer_for r ''R'' (pipe_name (5, -1) (0, 0)) = Inr 1"
    using peers [of "pm_processes two_worker_placement ! 1" "(5, -1)" "(0, 0)"]
    by (simp add: two_worker_placement_def)
  ultimately show ?thesis using f by metis
qed

lemma pipe_metric_fields:
  "jget (pipe_metric r rq peer m u) ''cross_physical_host'' =
     JBool (dict_get (r_physical_slots r) (r_slot r) 0 \<noteq> dict_get (r_physical_slots r) peer 0)"
  "jget (pipe_metric r rq peer m u) ''cross_node'' = jget (pipe_metric r rq peer m u) ''cross_physical_host''"
  "jget (pipe_metric r rq peer m u) ''transport_scope'' = JStr (transport_scope r peer)"
  by (cases m; cases u; simp add: pipe_metric_def jget_def Let_def dict_get_def [of _ _ JNull])+

text \<open>
  The two ends of one transfer agree on its scope: when the routers of slots \<open>a\<close> and \<open>b\<close>
  are configured from the same routing, the record of a write from \<open>a\<close> to \<open>b\<close> and the record of the
  read at \<open>b\<close> from \<open>a\<close> carry the same transport scope and the same cross-host flags, and the scope is
  \<open>cross_physical_host\<close> exactly when the flag is set.
\<close>

theorem transfer_scope_agrees:
  assumes "init_router a routing = Inr ra" and "init_router b routing = Inr rb"
  shows "transport_scope ra b = transport_scope rb a
    \<and> jget (pipe_metric ra w b m u) ''cross_physical_host'' = jget (pipe_metric rb rd a m' u') ''cross_physical_host''
    \<and> jget (pipe_metric ra w b m u) ''cross_node'' = jget (pipe_metric ra w b m u) ''cross_physical_host''
    \<and> (jget (pipe_metric ra w b m u) ''transport_scope'' = JStr ''cross_physical_host'' \<longleftrightarrow>
        jget (pipe_metric ra w b m u) ''cross_physical_host'' = JBool True)"
proof -
  have "r_slot ra = a" "r_slot rb = b" "r_physical_slots ra = r_physical_slots rb"
    using assms by (auto simp: init_router_def bindE_eq_Inr Let_def)
  then show ?thesis by (simp add: pipe_metric_fields transport_scope_def)
qed

theorem transfer_scope_agrees_witness:
  "\<exists>f ra rb. generate_routing two_worker_placement two_worker_topology None = Inr f
     \<and> init_router 0 (rf_routing f) = Inr ra \<and> init_router 1 (rf_routing f) = Inr rb
     \<and> transport_scope ra 1 = transport_scope rb 0"
proof -
  obtain f where f: "generate_routing two_worker_placement two_worker_topology None = Inr f"
    using two_worker_routing_accepted by blast
  obtain ra where ra: "init_router 0 (rf_routing f) = Inr ra" using init_router_generated [OF f, of 0] by blast
  obtain rb where rb: "init_router 1 (rf_routing f) = Inr rb" using init_router_generated [OF f, of 1] by blast
  from transfer_scope_agrees [OF ra rb] f ra rb show ?thesis by blast
qed

end
