(* ===== verification/SwarmStack.thy ===== *)
theory SwarmStack
  imports DistributedYaml Routing
begin

text \<open>
  The Docker Swarm stack of one run (\<open>real/generate_swarm_stack.py\<close>): one coordinator service and one
  transport service per worker slot, as the dictionary that is written as YAML. The resolved paths of
  the three configuration files are arguments. The theorem joins this generator with the workload
  generator: the address in every wrapped process is served by exactly one service, the one that runs
  the supervisor of the slot on the node with the label of the placement.
\<close>

section \<open>Definitions\<close>

record stack_arguments =
  st_image :: string
  st_workload_target :: string
  st_topology_width :: int
  st_flit_size :: int
  st_transport_ptrace :: bool
  st_mlp_dp_iterations :: "int option"
  st_mlp_dp_ranks :: "int option"
  st_mlp_dp_samples :: "int option"
  st_mnsim_fast_input_size :: "int option"
  st_worker_ready_timeout :: int
  st_baseif_ready_timeout :: int
  st_baseif_connect_timeout :: int
  st_workload_file :: string
  st_topology_file :: string
  st_routing_file :: string

definition below_three :: "int option \<Rightarrow> bool" where
  "below_three n = (case n of None \<Rightarrow> False | Some i \<Rightarrow> i < 3)"

definition check_stack_arguments :: "stack_arguments \<Rightarrow> nat \<Rightarrow> topology \<Rightarrow> routing_file \<Rightarrow> unit res" where
  "check_stack_arguments a node_count topology routing =
     (if \<not> prefix ''/'' (st_workload_target a)
      then Inl (ValueError ''--workload-target must be an absolute container path'')
      else if length (tp_workers topology) \<noteq> node_count \<or> coordinate_to_worker_slot (rf_routing routing) = []
      then Inl (ValueError ''placement, topology, and routing must describe the same non-empty experiment'')
      else if below_one (st_mlp_dp_iterations a) then Inl (ValueError ''--mlp-dp-iterations must be positive'')
      else if below_one (st_mlp_dp_ranks a) then Inl (ValueError ''--mlp-dp-ranks must be positive'')
      else if below_one (st_mlp_dp_samples a) then Inl (ValueError ''--mlp-dp-samples must be positive'')
      else if below_three (st_mnsim_fast_input_size a)
      then Inl (ValueError ''--mnsim-fast-input-size must be at least 3'')
      else if st_worker_ready_timeout a < 1 then Inl (ValueError ''--worker-ready-timeout must be positive'')
      else if st_baseif_ready_timeout a < 1 \<or> st_baseif_connect_timeout a < 1
      then Inl (ValueError ''BaseIf timeout arguments must be positive'')
      else Inr ())"

definition environment_prefix :: string where
  "environment_prefix = ''export CUDA_INSTALL_PATH=${CUDA_INSTALL_PATH:-/usr}; ''
     @ ''source /opt/legosim/gpgpu-sim/setup_environment && exec ''"

text \<open>A mounted configuration; the mode is \<open>0o444\<close>.\<close>

definition config_mount :: "string \<Rightarrow> string \<Rightarrow> json" where
  "config_mount source target = JObj [(''source'', JStr source), (''target'', JStr target), (''mode'', JInt 292)]"

definition network_aliases :: "string list \<Rightarrow> json" where
  "network_aliases names = JObj [(''chipsystemsim'', JObj [(''aliases'', JList (map JStr names))])]"

definition optional_entry :: "string \<Rightarrow> int option \<Rightarrow> jobj" where
  "optional_entry name n = (case n of None \<Rightarrow> [] | Some i \<Rightarrow> [(name, JStr (str_int i))])"

definition coordinator_service :: "stack_arguments \<Rightarrow> jobj" where
  "coordinator_service a =
     [(''image'', JStr (st_image a)),
      (''command'', JList (map JStr [st_workload_target a, ''-w'', str_int (st_topology_width a),
         ''-f'', str_int (st_flit_size a)])),
      (''configs'', JList [config_mount ''workload'' (st_workload_target a),
         config_mount ''routing'' ''/run/config/routing.json'']),
      (''networks'', network_aliases [''coordinator'']),
      (''environment'', JObj ([(''LEGOSIM_WORKER_READY_TIMEOUT_SECONDS'', JStr (str_int (st_worker_ready_timeout a))),
         (''LEGOSIM_ARTIFACT_DIR'', JStr ''/legosim-artifacts''), (''LEGOSIM_ARTIFACT_RUN_ID'', JStr ''coordinator'')]
         @ optional_entry ''LEGOSIM_MNSIM_FAST_INPUT_SIZE'' (st_mnsim_fast_input_size a))),
      (''volumes'', JList [JStr ''timing-artifacts:/legosim-artifacts'']),
      (''deploy'', JObj [(''placement'', JObj [(''constraints'', JList [JStr ''node.role == manager''])]),
         (''restart_policy'', JObj [(''condition'', JStr ''none'')])])]"

definition supervisor_command :: "nat \<Rightarrow> string" where
  "supervisor_command slot = environment_prefix
     @ ''python3 /opt/chipsystemsim-distributed/simbricks_worker_supervisor.py --slot '' @ show_nat slot
     @ '' --topology /run/config/topology.json --routing /run/config/routing.json''"

definition transport_environment :: "stack_arguments \<Rightarrow> jobj" where
  "transport_environment a =
     [(''LEGOSIM_BASEIF_READY_TIMEOUT_SECONDS'', JStr (str_int (st_baseif_ready_timeout a))),
      (''LEGOSIM_BASEIF_CONNECT_TIMEOUT_SECONDS'', JStr (str_int (st_baseif_connect_timeout a)))]
     @ optional_entry ''LEGOSIM_MLP_DP_ITERATIONS'' (st_mlp_dp_iterations a)
     @ optional_entry ''LEGOSIM_MLP_DP_RANKS'' (st_mlp_dp_ranks a)
     @ optional_entry ''LEGOSIM_MLP_DP_SAMPLES'' (st_mlp_dp_samples a)
     @ optional_entry ''LEGOSIM_MNSIM_FAST_INPUT_SIZE'' (st_mnsim_fast_input_size a)"

definition transport_service :: "stack_arguments \<Rightarrow> nat \<Rightarrow> jobj" where
  "transport_service a slot =
     [(''image'', JStr (st_image a)),
      (''entrypoint'', JList (map JStr [''/bin/bash'', ''-lc'', supervisor_command slot])),
      (''configs'', JList [config_mount ''topology'' ''/run/config/topology.json'',
         config_mount ''routing'' ''/run/config/routing.json'']),
      (''networks'', network_aliases [''worker-'' @ show_nat slot, ''transport-'' @ show_nat slot]),
      (''deploy'', JObj [(''placement'', JObj [(''constraints'',
         JList [JStr (''node.labels.chipsystemsim.node.'' @ show_nat slot @ '' == true'')])])])]
     @ (if st_transport_ptrace a then [(''cap_add'', JList [JStr ''SYS_PTRACE''])] else [])
     @ [(''environment'', JObj (transport_environment a))]"

definition stack_services :: "stack_arguments \<Rightarrow> nat \<Rightarrow> jobj" where
  "stack_services a node_count = (''coordinator'', JObj (coordinator_service a))
     # map (\<lambda>slot. (''transport-'' @ show_nat slot, JObj (transport_service a slot))) [0..<node_count]"

definition config_file :: "string \<Rightarrow> json" where
  "config_file path = JObj [(''file'', JStr path)]"

definition generate_swarm_stack :: "stack_arguments \<Rightarrow> placement \<Rightarrow> topology \<Rightarrow> routing_file \<Rightarrow> jobj res" where
  "generate_swarm_stack a placement topology routing =
     bindE (check_stack_arguments a (pm_swarm_nodes placement) topology routing) (\<lambda>_.
       Inr [(''services'', JObj (stack_services a (pm_swarm_nodes placement))),
            (''configs'', JObj [(''workload'', config_file (st_workload_file a)),
               (''topology'', config_file (st_topology_file a)), (''routing'', config_file (st_routing_file a))]),
            (''networks'', JObj [(''chipsystemsim'', JObj [(''driver'', JStr ''overlay''), (''attachable'', JBool True)])]),
            (''volumes'', JObj [(''timing-artifacts'', JObj [])])])"

section \<open>Addresses\<close>

text \<open>The host names of a service, and the worker that a wrapped process names.\<close>

definition service_aliases :: "json \<Rightarrow> string list res" where
  "service_aliases service =
     bindE (json_item service ''networks'') (\<lambda>networks.
     bindE (json_item networks ''chipsystemsim'') (\<lambda>network.
     bindE (json_item network ''aliases'') (\<lambda>aliases.
     bindE (json_iter aliases) (mapE yaml_text))))"

definition process_worker :: "json \<Rightarrow> string res" where
  "process_worker process =
     bindE (bindE (json_item process ''args'') json_iter) (\<lambda>words.
     bindE (argument_after ''--worker'' words) yaml_text)"

definition serves :: "string \<Rightarrow> json \<Rightarrow> bool" where
  "serves host service \<longleftrightarrow> (case service_aliases service of Inl _ \<Rightarrow> False | Inr names \<Rightarrow> host \<in> set names)"

lemma serves_coordinator [simp]: "serves host (JObj (coordinator_service a)) \<longleftrightarrow> host = ''coordinator''"
  by (simp add: serves_def service_aliases_def coordinator_service_def network_aliases_def dict_item_def yaml_text_def)

lemma serves_transport [simp]:
  "serves host (JObj (transport_service a slot)) \<longleftrightarrow> host \<in> {''worker-'' @ show_nat slot, ''transport-'' @ show_nat slot}"
  by (simp add: serves_def service_aliases_def transport_service_def network_aliases_def dict_item_def yaml_text_def)

lemma worker_host_unique:
  assumes "slot < n"
  shows "filter (\<lambda>(name, service). serves (''worker-'' @ show_nat slot) service) (stack_services a n)
    = [(''transport-'' @ show_nat slot, JObj (transport_service a slot))]"
proof -
  have "filter (\<lambda>s. serves (''worker-'' @ show_nat slot) (JObj (transport_service a s))) [0..<n]
      = filter (\<lambda>s. s = slot) [0..<n]"
    by (rule filter_cong) (auto simp: show_nat_inj)
  also have "\<dots> = [slot]" using assms by (intro filter_eq_distinct) auto
  finally show ?thesis by (simp add: stack_services_def filter_map comp_def case_prod_unfold)
qed

lemma process_worker_words:
  "map_of q ''args'' = Some (JList (map JStr [p, ''--worker'', host, opt, i] @ rest)) \<Longrightarrow> p \<noteq> ''--worker'' \<Longrightarrow>
     process_worker (JObj q) = Inr host"
  by (simp add: process_worker_def dict_item_def yaml_text_def)

text \<open>
  C22. Every wrapped process of the distributed workload reaches its worker, those of phase one and, with
  \<open>--remote-phase2\<close>, those of phase two: the address in its wrapped command is the host name of the slot that the placement gives the process, with the worker
  port, and in the stack exactly one service has this host name, the transport service that runs the
  supervisor of this slot and is constrained to the node with the label of this slot.
\<close>

theorem proxy_address_served:
  assumes "generate_distributed_yaml cd a (pm_processes pm) config = Inr out"
    and "generate_swarm_stack sa pm tp rt = Inr stack"
    and "list_all (\<lambda>p. pl_node_slot p < pm_swarm_nodes pm) (pm_processes pm)"
    and "wrapped_phase a phase" and "map_of out phase = Some (JList entries)" and "i < length entries"
  shows "\<exists>item services service. item \<in> set (pm_processes pm) \<and> pl_phase item = phase \<and> pl_process_index item = i
    \<and> process_worker (entries ! i) = Inr (''worker-'' @ show_nat (pl_node_slot item) @ '':9300'')
    \<and> map_of stack ''services'' = Some (JObj services)
    \<and> filter (\<lambda>(name, s). serves (''worker-'' @ show_nat (pl_node_slot item)) s) services
        = [(''transport-'' @ show_nat (pl_node_slot item), JObj service)]
    \<and> map_of service ''entrypoint'' = Some (JList (map JStr [''/bin/bash'', ''-lc'', supervisor_command (pl_node_slot item)]))
    \<and> map_of service ''deploy'' = Some (JObj [(''placement'', JObj [(''constraints'',
         JList [JStr (''node.labels.chipsystemsim.node.'' @ show_nat (pl_node_slot item) @ '' == true'')])])])"
proof -
  obtain q item rest where q: "entries ! i = JObj q"
    and item: "map_of (placements_of (pm_processes pm) phase) i = Some item"
    and args: "map_of q ''args'' = Some (JList (map JStr [''/opt/chipsystemsim-distributed/process_proxy.py'', ''--worker'',
       worker_address (pl_node_slot item), ''--process-id'', phase @ ''-'' @ show_nat i] @ rest))"
    using wrapped_phase_proxy [OF assms(1,4,5,6)] by metis
  have member: "item \<in> set (pm_processes pm)" "pl_phase item = phase" "pl_process_index item = i"
    using placements_of_member [OF item] by auto
  then have slot: "pl_node_slot item < pm_swarm_nodes pm" using assms(3) by (simp add: list_all_iff)
  have "process_worker (entries ! i) = Inr (''worker-'' @ show_nat (pl_node_slot item) @ '':9300'')"
    using process_worker_words [OF args] by (simp add: q worker_address_def)
  moreover have "map_of stack ''services'' = Some (JObj (stack_services sa (pm_swarm_nodes pm)))"
    using assms(2) by (auto simp: generate_swarm_stack_def res_simps)
  ultimately show ?thesis using member worker_host_unique [OF slot, of sa]
    by (intro exI [of _ item] exI [of _ "stack_services sa (pm_swarm_nodes pm)"]
        exI [of _ "transport_service sa (pl_node_slot item)"]) (simp add: transport_service_def)
qed

definition demo_stack_arguments :: stack_arguments where
  "demo_stack_arguments = \<lparr>st_image = ''legosim'', st_workload_target = ''/opt/legosim/workload.yml'', st_topology_width = 6,
     st_flit_size = 4, st_transport_ptrace = False, st_mlp_dp_iterations = None, st_mlp_dp_ranks = Some 2,
     st_mlp_dp_samples = None, st_mnsim_fast_input_size = None, st_worker_ready_timeout = 180,
     st_baseif_ready_timeout = 300, st_baseif_connect_timeout = 180, st_workload_file = ''/tmp/workload.yml'',
     st_topology_file = ''/tmp/topology.json'', st_routing_file = ''/tmp/routing.json''\<rparr>"

definition demo_workload :: jobj where
  "demo_workload = [(''phase1'', JList
     [JObj [(''cmd'', JStr ''/opt/sniper/run-sniper''), (''args'', JList [JStr ''--'', JStr ''app'', JStr ''0'', JStr ''0''])],
      JObj [(''cmd'', JStr ''matmul''), (''args'', JList [JInt 5, JInt (-1)])]])]"

lemma demo_stack: "generate_swarm_stack demo_stack_arguments two_worker_placement two_worker_topology f \<noteq> Inl e"
  if "generate_routing two_worker_placement two_worker_topology None = Inr f"
  using that
  by (auto simp: generate_swarm_stack_def check_stack_arguments_def demo_stack_arguments_def below_one_def below_three_def
      generate_routing_def two_worker_placement_def two_worker_topology_def topology_workers_def Let_def res_simps
      place_coordinate_def split: option.splits if_splits)

lemma demo_yaml: "\<exists>out. generate_distributed_yaml cd plain_arguments (pm_processes two_worker_placement) demo_workload = Inr out"
  by (simp add: generate_distributed_yaml_def check_yaml_arguments_def below_one_def update_phase_def phase_entries_def
      demo_workload_def two_worker_placement_def yaml_eval debug_command_def sniper_options_def is_sniper_def suffix_def)

theorem proxy_address_served_witness:
  "\<exists>f out stack entries services service.
     generate_distributed_yaml \<lparr>cd_loads = \<lambda>_. Inl JSONDecodeError, cd_str = \<lambda>_. [], cd_dumps = \<lambda>_. []\<rparr> plain_arguments
         (pm_processes two_worker_placement) demo_workload = Inr out
   \<and> generate_swarm_stack demo_stack_arguments two_worker_placement two_worker_topology f = Inr stack
   \<and> map_of out ''phase1'' = Some (JList entries) \<and> process_worker (entries ! 1) = Inr ''worker-1:9300''
   \<and> map_of stack ''services'' = Some (JObj services)
   \<and> filter (\<lambda>(name, s). serves ''worker-1'' s) services = [(''transport-1'', JObj service)]"
proof -
  let ?cd = "\<lparr>cd_loads = \<lambda>_. Inl JSONDecodeError, cd_str = \<lambda>_. [], cd_dumps = \<lambda>_. []\<rparr>"
  obtain f where f: "generate_routing two_worker_placement two_worker_topology None = Inr f"
    using two_worker_routing_accepted by blast
  then obtain stack where stack: "generate_swarm_stack demo_stack_arguments two_worker_placement two_worker_topology f = Inr stack"
    using demo_stack by (cases "generate_swarm_stack demo_stack_arguments two_worker_placement two_worker_topology f") auto
  obtain out where out: "generate_distributed_yaml ?cd plain_arguments (pm_processes two_worker_placement) demo_workload = Inr out"
    using demo_yaml by blast
  obtain j ps qs where j: "map_of demo_workload ''phase1'' = Some j" "phase_entries j = Inr ps"
    "mapE (wrap_process plain_arguments (pm_processes two_worker_placement) ''phase1'') (enumerate 0 ps) = Inr qs"
    and phase: "map_of out ''phase1'' = Some (JList (map JObj qs))"
    by (rule generate_yaml_phase_one [OF out])
  have "length ps = 2" using j(1,2) by (auto simp: demo_workload_def phase_entries_def)
  then have len: "1 < length (map JObj qs)" using mapE_length [OF j(3)] by simp
  have slots: "list_all (\<lambda>p. pl_node_slot p < pm_swarm_nodes two_worker_placement) (pm_processes two_worker_placement)"
    by (simp add: two_worker_placement_def)
  have one: "item = \<lparr>pl_phase = ''phase1'', pl_process_index = 1, pl_node_slot = 1, pl_node_label = ''chipsystemsim.node.1'',
         pl_coordinates = Some (5, -1)\<rparr>" if "item \<in> set (pm_processes two_worker_placement)" "pl_process_index item = 1" for item
    using that by (auto simp: two_worker_placement_def)
  have text1: "show_nat 1 = ''1''" by (simp add: text_eval)
  have "wrapped_phase plain_arguments ''phase1''" by (simp add: wrapped_phase_def)
  from proxy_address_served [OF out stack slots this phase len] one text1
  have "\<exists>services service. process_worker (map JObj qs ! 1) = Inr ''worker-1:9300'' \<and> map_of stack ''services'' = Some (JObj services)
      \<and> filter (\<lambda>(name, s). serves ''worker-1'' s) services = [(''transport-1'', JObj service)]" by fastforce
  with out stack phase show ?thesis by blast
qed

end
