(* ===== verification/PyRegex.thy ===== *)
theory PyRegex
  imports PyText
begin

text \<open>
  The regular expressions of the log readers. A pattern is a list of items: literal text, a captured
  run of digits (\<open>\d+\<close>), a captured run of characters of a class, and a lazy gap (\<open>.*?\<close> that may
  cross lines). A run is taken greedily and never given back, which is Python's result whenever the
  item after a run cannot start with a character of the run, as in every pattern of the program.
\<close>

datatype rx = Lit string | Digits | Class "char list" | Gap

function rx_match :: "rx list \<Rightarrow> string \<Rightarrow> (string list \<times> string) option" where
  "rx_match [] s = Some ([], s)"
| "rx_match (Lit p # r) s = (if prefix p s then rx_match r (drop (length p) s) else None)"
| "rx_match (Digits # r) s =
     (let run = takeWhile is_digit s
      in if run = [] then None
         else map_option (\<lambda>(caps, rest). (run # caps, rest)) (rx_match r (dropWhile is_digit s)))"
| "rx_match (Class cs # r) s =
     (let run = takeWhile (\<lambda>c. c \<in> set cs) s
      in if run = [] then None
         else map_option (\<lambda>(caps, rest). (run # caps, rest)) (rx_match r (dropWhile (\<lambda>c. c \<in> set cs) s)))"
| "rx_match (Gap # r) s =
     (case rx_match r s of
        Some m \<Rightarrow> Some m
      | None \<Rightarrow> (case s of [] \<Rightarrow> None | _ # t \<Rightarrow> rx_match (Gap # r) t))"
  by pat_completeness auto
termination by (relation "measures [\<lambda>(r, _). length r, \<lambda>(_, s). length s]") auto

text \<open>\<open>re.findall\<close>: the captures of the matches from left to right, without overlap.\<close>

function rx_findall :: "rx list \<Rightarrow> string \<Rightarrow> string list list" where
  "rx_findall items [] = []"
| "rx_findall items (c # cs) =
     (case rx_match items (c # cs) of
        None \<Rightarrow> rx_findall items cs
      | Some (caps, rest) \<Rightarrow> caps # rx_findall items (if length rest \<le> length cs then rest else cs))"
  by pat_completeness auto
termination by (relation "measure (\<lambda>(_, s). length s)") auto

definition rx_search :: "rx list \<Rightarrow> string \<Rightarrow> string list option" where
  "rx_search items s = (case rx_findall items s of [] \<Rightarrow> None | caps # _ \<Rightarrow> Some caps)"

text \<open>Every match has one capture for each capturing item, and a digit run is a number.\<close>

primrec rx_arity :: "rx list \<Rightarrow> nat" where
  "rx_arity [] = 0"
| "rx_arity (x # r) = (case x of Digits \<Rightarrow> 1 | Class _ \<Rightarrow> 1 | _ \<Rightarrow> 0) + rx_arity r"

lemma rx_match_arity: "rx_match items s = Some (caps, rest) \<Longrightarrow> length caps = rx_arity items"
  by (induction items s arbitrary: caps rest rule: rx_match.induct)
    (auto simp: Let_def split: if_splits option.splits list.splits)

lemma rx_findall_arity: "caps \<in> set (rx_findall items s) \<Longrightarrow> length caps = rx_arity items"
  by (induction items s rule: rx_findall.induct) (auto split: option.splits dest: rx_match_arity)

lemma rx_findall_Cons_eval:
  "rx_match items (c # cs) = None \<Longrightarrow> rx_findall items (c # cs) = rx_findall items cs"
  by simp

lemma rx_findall_skip:
  assumes "\<And>i. i < length s \<Longrightarrow> rx_match items (drop i s @ rest) = None"
  shows "rx_findall items (s @ rest) = rx_findall items rest"
  using assms
proof (induction s)
  case (Cons c s)
  from Cons.prems [of 0] have "rx_findall items ((c # s) @ rest) = rx_findall items (s @ rest)" by simp
  moreover have "rx_match items (drop i s @ rest) = None" if "i < length s" for i
    using Cons.prems [of "Suc i"] that by simp
  ultimately show ?case using Cons.IH by simp
qed simp

text \<open>A pattern that starts with text finds nothing in characters that cannot start it.\<close>

lemma rx_findall_foreign:
  "\<forall>c\<in>set s. c \<noteq> a \<Longrightarrow> rx_findall (Lit (a # as) # items) (s @ rest) = rx_findall (Lit (a # as) # items) rest"
proof (rule rx_findall_skip)
  fix i
  assume "\<forall>c\<in>set s. c \<noteq> a" and "i < length s"
  then have "drop i s \<noteq> []" "hd (drop i s) \<noteq> a" by (simp_all add: hd_drop_conv_nth)
  then obtain c r where "drop i s = c # r" "c \<noteq> a" by (cases "drop i s") auto
  then show "rx_match (Lit (a # as) # items) (drop i s @ rest) = None" by simp
qed

lemmas regex_eval = rx_match.simps rx_findall.simps rx_search_def text_eval

end
