(* ===== verification/Polling.thy ===== *)
theory Polling
  imports Prelude Complex_Main
begin

text \<open>
  The polling loops of the remote runners: \<open>while time.monotonic() < deadline\<close> with a body that looks
  at the cluster, updates the result dictionary and may leave the loop. What the program sees in round
  \<open>i\<close> is given by the test and the body; leaving is \<open>Inl\<close>, another round is \<open>Inr\<close>. The result says
  whether the loop ended by its test (Python's \<open>else\<close> branch). Times are seconds as exact rationals.
\<close>

partial_function (option) poll_loop ::
  "(nat \<Rightarrow> bool) \<Rightarrow> (nat \<Rightarrow> 's \<Rightarrow> 's + 's) \<Rightarrow> nat \<Rightarrow> 's \<Rightarrow> (bool \<times> 's) option" where
  "poll_loop test body i s =
     (if test i
      then (case body i s of Inl t \<Rightarrow> Some (False, t) | Inr t \<Rightarrow> poll_loop test body (Suc i) t)
      else Some (True, s))"

lemma poll_loop_ends:
  assumes "\<not> test k" and "i \<le> k"
  shows "\<exists>r. poll_loop test body i s = Some r"
  using assms(2)
proof (induction "k - i" arbitrary: i s)
  case 0
  then show ?case using assms(1) by (auto simp: poll_loop.simps)
next
  case (Suc n)
  then show ?case
  proof (cases "test i")
    case True
    then have "i \<noteq> k" using assms(1) by auto
    with Suc have next_round: "\<exists>r. poll_loop test body (Suc i) t = Some r" for t by (intro Suc.hyps(1)) auto
    show ?thesis
    proof (cases "body i s")
      case (Inl t)
      then show ?thesis using True by (auto simp: poll_loop.simps [of test body i s])
    next
      case (Inr t)
      then show ?thesis using next_round [of t] True by (simp add: poll_loop.simps [of test body i s])
    qed
  qed (auto simp: poll_loop.simps)
qed

lemma poll_loop_expires:
  assumes "\<not> test k" and "\<And>i s. body i s = Inr s" and "i \<le> k"
  shows "poll_loop test body i s = Some (True, s)"
  using assms(3)
proof (induction "k - i" arbitrary: i)
  case 0
  then show ?case using assms(1) by (auto simp: poll_loop.simps)
next
  case (Suc n)
  then have "poll_loop test body (Suc i) s = Some (True, s)" by auto
  then show ?case using assms(2) by (simp add: poll_loop.simps [of test body i s])
qed

lemma poll_loop_invariant:
  assumes "poll_loop test body i s = Some m"
  shows "(\<forall>i s t. head_inv i s \<longrightarrow> test i \<longrightarrow> body i s = Inr t \<longrightarrow> head_inv (Suc i) t) \<longrightarrow>
    (\<forall>i s t. head_inv i s \<longrightarrow> test i \<longrightarrow> body i s = Inl t \<longrightarrow> post False t) \<longrightarrow>
    (\<forall>i s. head_inv i s \<longrightarrow> \<not> test i \<longrightarrow> post True s) \<longrightarrow> head_inv i s \<longrightarrow> post (fst m) (snd m)"
proof (rule poll_loop.raw_induct [OF _ assms])
  fix loop :: "(nat \<Rightarrow> bool) \<Rightarrow> (nat \<Rightarrow> 'a \<Rightarrow> 'a + 'a) \<Rightarrow> nat \<Rightarrow> 'a \<Rightarrow> (bool \<times> 'a) option" and test body i s m
  assume ih: "\<And>test body i s m. loop test body i s = Some m \<Longrightarrow>
      (\<forall>i s t. head_inv i s \<longrightarrow> test i \<longrightarrow> body i s = Inr t \<longrightarrow> head_inv (Suc i) t) \<longrightarrow>
      (\<forall>i s t. head_inv i s \<longrightarrow> test i \<longrightarrow> body i s = Inl t \<longrightarrow> post False t) \<longrightarrow>
      (\<forall>i s. head_inv i s \<longrightarrow> \<not> test i \<longrightarrow> post True s) \<longrightarrow> head_inv i s \<longrightarrow> post (fst m) (snd m)"
    and step: "(if test i then case body i s of Inl t \<Rightarrow> Some (False, t) | Inr t \<Rightarrow> loop test body (Suc i) t
      else Some (True, s)) = Some m"
  show "(\<forall>i s t. head_inv i s \<longrightarrow> test i \<longrightarrow> body i s = Inr t \<longrightarrow> head_inv (Suc i) t) \<longrightarrow>
      (\<forall>i s t. head_inv i s \<longrightarrow> test i \<longrightarrow> body i s = Inl t \<longrightarrow> post False t) \<longrightarrow>
      (\<forall>i s. head_inv i s \<longrightarrow> \<not> test i \<longrightarrow> post True s) \<longrightarrow> head_inv i s \<longrightarrow> post (fst m) (snd m)"
  proof (intro impI)
    assume laws: "\<forall>i s t. head_inv i s \<longrightarrow> test i \<longrightarrow> body i s = Inr t \<longrightarrow> head_inv (Suc i) t"
      "\<forall>i s t. head_inv i s \<longrightarrow> test i \<longrightarrow> body i s = Inl t \<longrightarrow> post False t"
      "\<forall>i s. head_inv i s \<longrightarrow> \<not> test i \<longrightarrow> post True s" and start: "head_inv i s"
    show "post (fst m) (snd m)"
    proof (cases "test i")
      case True
      show ?thesis
      proof (cases "body i s")
        case (Inr t)
        with step True have "loop test body (Suc i) t = Some m" by simp
        moreover have "head_inv (Suc i) t" using laws(1) start True Inr by blast
        ultimately show ?thesis using ih [of test body "Suc i" t m] laws by simp
      qed (use step True laws(2) start in auto)
    qed (use step laws(3) start in auto)
  qed
qed

text \<open>
  The contract of a loop: an invariant at the loop head of round \<open>i\<close>, and what holds after the loop.
\<close>

locale polled =
  fixes test :: "nat \<Rightarrow> bool" and body :: "nat \<Rightarrow> 's \<Rightarrow> 's + 's"
    and head_inv :: "nat \<Rightarrow> 's \<Rightarrow> bool" and post :: "bool \<Rightarrow> 's \<Rightarrow> bool"
  assumes again: "head_inv i s \<Longrightarrow> test i \<Longrightarrow> body i s = Inr t \<Longrightarrow> head_inv (Suc i) t"
    and leave: "head_inv i s \<Longrightarrow> test i \<Longrightarrow> body i s = Inl t \<Longrightarrow> post False t"
    and expire: "head_inv i s \<Longrightarrow> \<not> test i \<Longrightarrow> post True s"
begin

lemma loop_post: "poll_loop test body i s = Some (b, t) \<Longrightarrow> head_inv i s \<Longrightarrow> post b t"
  using poll_loop_invariant [of test body i s "(b, t)" head_inv post] again leave expire by auto

end

text \<open>\<open>round(x, 3)\<close>: the nearest multiple of a thousandth, ties to the even one.\<close>

definition round_even :: "rat \<Rightarrow> int" where
  "round_even x =
     (let n = \<lfloor>x\<rfloor>; d = x - of_int n
      in if d < 1 / 2 then n else if 1 / 2 < d then n + 1 else if even n then n else n + 1)"

definition round3 :: "rat \<Rightarrow> rat" where
  "round3 x = of_int (round_even (x * 1000)) / 1000"

lemma round_even_bounds: "of_int (round_even x) - 1 / 2 \<le> x" "x \<le> of_int (round_even x) + 1 / 2"
proof -
  have "of_int \<lfloor>x\<rfloor> \<le> x" "x < of_int \<lfloor>x\<rfloor> + 1" by linarith+
  then show "of_int (round_even x) - 1 / 2 \<le> x" "x \<le> of_int (round_even x) + 1 / 2"
    unfolding round_even_def Let_def of_int_add by (simp_all split: if_split) linarith+
qed

lemma round_even_int_le: "of_int n \<le> x \<Longrightarrow> n \<le> round_even x"
proof -
  assume "of_int n \<le> x"
  then have "n \<le> \<lfloor>x\<rfloor>" by (simp add: le_floor_iff)
  then show ?thesis by (auto simp: round_even_def Let_def)
qed

lemma round3_nonneg: "0 \<le> x \<Longrightarrow> 0 \<le> round3 x"
  using round_even_int_le [of 0 "x * 1000"] by (simp add: round3_def)

lemma round3_bounds: "round3 x - 1 / 2000 \<le> x" "x \<le> round3 x + 1 / 2000"
  using round_even_bounds [of "x * 1000"] by (auto simp: round3_def field_simps)

text \<open>Rounding is monotone, and the rounded difference to a rounded earlier time is not negative.\<close>

lemma round_even_mono: "x \<le> y \<Longrightarrow> round_even x \<le> round_even y"
proof -
  assume le: "x \<le> y"
  then have "\<lfloor>x\<rfloor> \<le> \<lfloor>y\<rfloor>" by (rule floor_mono)
  then consider "\<lfloor>x\<rfloor> = \<lfloor>y\<rfloor>" | "\<lfloor>x\<rfloor> + 1 \<le> \<lfloor>y\<rfloor>" by linarith
  then show ?thesis
  proof cases
    case 1
    then show ?thesis using le by (auto simp: round_even_def Let_def)
  next
    case 2
    have "round_even x \<le> \<lfloor>x\<rfloor> + 1" "\<lfloor>y\<rfloor> \<le> round_even y" by (auto simp: round_even_def Let_def)
    with 2 show ?thesis by linarith
  qed
qed

lemma round3_mono: "x \<le> y \<Longrightarrow> round3 x \<le> round3 y"
  using round_even_mono [of "x * 1000" "y * 1000"] by (simp add: round3_def divide_right_mono)

text \<open>Whole seconds pass through rounding.\<close>

lemma round3_add_int [simp]: "round3 (x + of_int k) = round3 x + of_int k"
proof -
  have even: "even (\<lfloor>x * 1000\<rfloor> + k * 1000) = even \<lfloor>x * 1000\<rfloor>" by simp
  have "(x + of_int k) * 1000 = x * 1000 + of_int (k * 1000)" by (simp add: algebra_simps)
  moreover have "round_even (x * 1000 + of_int (k * 1000)) = round_even (x * 1000) + k * 1000"
    unfolding round_even_def Let_def floor_add_int [symmetric] even by simp
  ultimately show ?thesis by (simp add: round3_def add_divide_distrib)
qed

lemma round3_difference: "x \<le> y \<Longrightarrow> 0 \<le> round3 (y - round3 x)"
proof -
  assume "x \<le> y"
  then have "- 1 / 2 \<le> (y - round3 x) * 1000" using round3_bounds [of x] by (simp add: field_simps)
  then have "round_even (- 1 / 2) \<le> round_even ((y - round3 x) * 1000)" by (rule round_even_mono)
  moreover have "\<lfloor>- 1 / 2 :: rat\<rfloor> = - 1" by (simp add: floor_unique)
  then have "round_even (- 1 / 2) = 0" by (simp add: round_even_def Let_def)
  ultimately show ?thesis by (simp add: round3_def)
qed

end
