(* ===== verification/RemoteMatrix.thy ===== *)
theory RemoteMatrix
  imports SwarmStack PyRegex Polling
begin

text \<open>
  The functional start-up matrix on a remote Swarm manager (\<open>scripts/run_remote_functional_matrix.py\<close>),
  whose helpers the other remote runners share: the rewritten stack file, the wait for the removal of a
  stack, the service states and the polling loop of one placement. What a remote command prints in
  round \<open>i\<close> of a loop and the clock readings of that round are parameters; the SSH library is
  third-party code.
\<close>

section \<open>Shared helpers\<close>

definition PHASE_ONE_COUNTS :: "(string, nat) dict" where
  "PHASE_ONE_COUNTS = [(''mlp'', 7), (''dlrm'', 2), (''resnet'', 7), (''bfs'', 7), (''fft'', 9), (''pagerank'', 9),
     (''pde'', 9), (''moe'', 8)]"

definition PHASE_ONE_PROXY :: "rx list" where
  "PHASE_ONE_PROXY = [Lit ''proxy: started process_id=phase1-'', Digits]"

definition strip :: "string \<Rightarrow> string" where
  "strip s = rstrip (dropWhile is_strip_space s)"

record removal_poll =
  rp_test_time :: rat
  rp_stacks :: string
  rp_network_code :: int

definition removed :: "string \<Rightarrow> removal_poll \<Rightarrow> bool" where
  "removed stack p \<longleftrightarrow> stack \<notin> set (map strip (split_lines (rp_stacks p))) \<and> rp_network_code p \<noteq> 0"

definition wait_for_removal :: "(nat \<Rightarrow> removal_poll) \<Rightarrow> rat \<Rightarrow> string \<Rightarrow> unit res option" where
  "wait_for_removal polls started stack =
     map_option (\<lambda>(expired, _). if expired
         then Inl (RuntimeError (''previous stack '' @ stack @ '' did not disappear within 45 seconds'')) else Inr ())
       (poll_loop (\<lambda>i. rp_test_time (polls i) < started + 45)
          (\<lambda>i s. if removed stack (polls i) then Inl s else Inr s) 0 ())"

text \<open>\<open>d[k]\<close> of a mapping and the update of a nested mapping in place.\<close>

definition as_obj :: "json \<Rightarrow> jobj res" where
  "as_obj j = (case j of JObj d \<Rightarrow> Inr d | _ \<Rightarrow> Inl (TypeError ''object is not a mapping''))"

definition update_at :: "string \<Rightarrow> (jobj \<Rightarrow> jobj res) \<Rightarrow> jobj \<Rightarrow> jobj res" where
  "update_at k f d =
     bindE (bindE (dict_item d k) as_obj) (\<lambda>inner. bindE (f inner) (\<lambda>new. Inr (AList.update k (JObj new) d)))"

definition set_image :: "string \<Rightarrow> jobj \<Rightarrow> jobj res" where
  "set_image img services =
     mapE (\<lambda>(name, service). bindE (as_obj service) (\<lambda>d. Inr (name, JObj (AList.update ''image'' (JStr img) d)))) services"

definition set_config_file :: "string \<Rightarrow> string \<Rightarrow> jobj \<Rightarrow> jobj res" where
  "set_config_file name path = update_at name (\<lambda>d. Inr (AList.update ''file'' (JStr path) d))"

definition rewrite_stack :: "jobj \<Rightarrow> string \<Rightarrow> string \<Rightarrow> jobj res" where
  "rewrite_stack stack remote_directory img =
     bindE (update_at ''services'' (set_image img) stack) (\<lambda>s1.
     bindE (update_at ''configs'' (set_config_file ''workload'' (remote_directory @ ''/workload.yml'')) s1) (\<lambda>s2.
     bindE (update_at ''configs'' (set_config_file ''topology'' (remote_directory @ ''/topology.json'')) s2)
       (update_at ''configs'' (set_config_file ''routing'' (remote_directory @ ''/routing.json'')))))"

definition service_running :: "string \<Rightarrow> bool" where
  "service_running ps_output \<longleftrightarrow> list_ex (prefix ''Running|Running'') (split_lines ps_output)"

definition service_names :: "nat \<Rightarrow> string list" where
  "service_names node_count = ''coordinator'' # map (\<lambda>slot. ''transport-'' @ show_nat slot) [0..<node_count]"

definition service_states :: "(string \<Rightarrow> string) \<Rightarrow> nat \<Rightarrow> (string, bool) dict" where
  "service_states ps node_count = dict_of (map (\<lambda>service. (service, service_running (ps service))) (service_names node_count))"

section \<open>One placement\<close>

record functional_poll =
  fp_test_time :: rat
  fp_elapsed_time :: rat
  fp_ps :: "string \<Rightarrow> string"
  fp_coordinator_log :: string

record functional_result =
  fr_ready :: "rat option"
  fr_all_phase1_started :: "rat option"
  fr_first_command :: "rat option"
  fr_proxy_count :: nat
  fr_status :: string

definition init_functional :: "int \<Rightarrow> functional_result" where
  "init_functional deploy_code = \<lparr>fr_ready = None, fr_all_phase1_started = None, fr_first_command = None,
     fr_proxy_count = 0, fr_status = (if deploy_code \<noteq> 0 then ''deployment-error'' else ''timeout'')\<rparr>"

text \<open>\<open>if result[k] is None and condition: result[k] = value\<close>\<close>

definition first_time :: "rat option \<Rightarrow> bool \<Rightarrow> rat \<Rightarrow> rat option" where
  "first_time old condition value = (if old = None \<and> condition then Some value else old)"

definition functional_round ::
  "string \<Rightarrow> nat \<Rightarrow> rat \<Rightarrow> functional_poll \<Rightarrow> functional_result \<Rightarrow> functional_result" where
  "functional_round workload node_count started p r0 =
     (let elapsed = round3 (fp_elapsed_time p - started);
          r1 = r0\<lparr>fr_ready := first_time (fr_ready r0) (list_all snd (service_states (fp_ps p) node_count)) elapsed\<rparr>;
          count = length (remdups (rx_findall PHASE_ONE_PROXY (fp_coordinator_log p)));
          r2 = r1\<lparr>fr_proxy_count := count\<rparr>;
          r3 = r2\<lparr>fr_all_phase1_started := first_time (fr_all_phase1_started r2)
                    (count \<ge> dict_get PHASE_ONE_COUNTS workload 0) elapsed\<rparr>
      in r3\<lparr>fr_first_command := first_time (fr_first_command r3)
                    (sublist ''[INTERCMD]'' (fp_coordinator_log p)) elapsed\<rparr>)"

definition functional_body ::
  "string \<Rightarrow> nat \<Rightarrow> rat \<Rightarrow> functional_poll \<Rightarrow> functional_result \<Rightarrow> functional_result + functional_result" where
  "functional_body workload node_count started p r0 =
     (let r = functional_round workload node_count started p r0
      in if fr_all_phase1_started r \<noteq> None \<and> fr_first_command r \<noteq> None
         then Inl (r\<lparr>fr_status := ''functional-ok''\<rparr>) else Inr r)"

definition run_point ::
  "string \<Rightarrow> nat \<Rightarrow> int \<Rightarrow> rat \<Rightarrow> int \<Rightarrow> (nat \<Rightarrow> functional_poll) \<Rightarrow> functional_result option" where
  "run_point workload node_count timeout_seconds started deploy_code polls =
     (if deploy_code \<noteq> 0 then Some (init_functional deploy_code)
      else map_option snd (poll_loop (\<lambda>i. fp_test_time (polls i) < started + of_int timeout_seconds)
             (\<lambda>i. functional_body workload node_count started (polls i)) 0 (init_functional deploy_code)))"

section \<open>The stack keeps its shape\<close>

lemma as_obj_Inr [res_simps]: "as_obj j = Inr d \<longleftrightarrow> j = JObj d"
  by (cases j) (auto simp: as_obj_def)

lemma rewrite_stack_services:
  assumes "rewrite_stack stack dir img = Inr out" and "map_of stack ''services'' = Some (JObj services)"
  obtains services' where "map_of out ''services'' = Some (JObj services')" "map fst services' = map fst services"
    "\<And>name s. (name, s) \<in> set services' \<Longrightarrow> \<exists>d. (name, JObj d) \<in> set services \<and> s = JObj (AList.update ''image'' (JStr img) d)"
proof -
  from assms obtain services' where s: "set_image img services = Inr services'" "map_of out ''services'' = Some (JObj services')"
    by (auto simp: rewrite_stack_def update_at_def res_simps as_obj_def)
  from s(1) have "list_all2 (\<lambda>(n, s) (n', s'). n' = n \<and> (\<exists>d. s = JObj d \<and> s' = JObj (AList.update ''image'' (JStr img) d))) services services'"
    unfolding set_image_def mapE_Inr_iff by (rule list_all2_mono) (auto simp: res_simps as_obj_def split: json.splits)
  then have "map fst services' = map fst services"
    and "\<And>name s. (name, s) \<in> set services' \<Longrightarrow> \<exists>d. (name, JObj d) \<in> set services \<and> s = JObj (AList.update ''image'' (JStr img) d)"
    by (auto simp: list_all2_conv_all_nth in_set_conv_nth intro!: nth_equalityI) (fastforce+)
  with s(2) that show thesis by blast
qed

section \<open>The result of a placement\<close>

definition functional_clock :: "rat \<Rightarrow> (nat \<Rightarrow> functional_poll) \<Rightarrow> bool" where
  "functional_clock started polls \<longleftrightarrow> (\<forall>i. started \<le> fp_elapsed_time (polls i))"

definition nonneg_time :: "rat option \<Rightarrow> bool" where
  "nonneg_time x = (case x of None \<Rightarrow> True | Some t \<Rightarrow> 0 \<le> t)"

lemma first_time_nonneg: "nonneg_time x \<Longrightarrow> 0 \<le> t \<Longrightarrow> nonneg_time (first_time x b t)"
  by (simp add: nonneg_time_def first_time_def)

definition times_nonneg :: "functional_result \<Rightarrow> bool" where
  "times_nonneg r \<longleftrightarrow> nonneg_time (fr_ready r) \<and> nonneg_time (fr_all_phase1_started r) \<and> nonneg_time (fr_first_command r)"

definition functional_inv :: "rat \<Rightarrow> (nat \<Rightarrow> functional_poll) \<Rightarrow> functional_result \<Rightarrow> bool" where
  "functional_inv started polls r \<longleftrightarrow> functional_clock started polls \<and> fr_status r = ''timeout'' \<and> times_nonneg r"

text \<open>The loop is left by its test exactly when the status is a timeout; a success has both times.\<close>

definition functional_post :: "bool \<Rightarrow> functional_result \<Rightarrow> bool" where
  "functional_post expired r \<longleftrightarrow> fr_status r = (if expired then ''timeout'' else ''functional-ok'')
     \<and> times_nonneg r
     \<and> (fr_status r = ''functional-ok'' \<longrightarrow> fr_all_phase1_started r \<noteq> None \<and> fr_first_command r \<noteq> None)"

lemma functional_body_times:
  assumes "functional_inv started polls r"
  shows "functional_body workload n started (polls i) r = Inr t \<Longrightarrow> functional_inv started polls t"
    and "functional_body workload n started (polls i) r = Inl t \<Longrightarrow> functional_post False t"
proof -
  let ?r = "functional_round workload n started (polls i) r"
  have "0 \<le> round3 (fp_elapsed_time (polls i) - started)"
    using assms by (intro round3_nonneg) (simp add: functional_inv_def functional_clock_def)
  with assms have "times_nonneg ?r" "fr_status ?r = ''timeout''"
    by (simp_all add: functional_round_def functional_inv_def times_nonneg_def Let_def first_time_nonneg)
  with assms show "functional_body workload n started (polls i) r = Inr t \<Longrightarrow> functional_inv started polls t"
    and "functional_body workload n started (polls i) r = Inl t \<Longrightarrow> functional_post False t"
    by (auto simp: functional_body_def functional_inv_def functional_post_def times_nonneg_def Let_def split: if_splits)
qed

interpretation functional: polled "\<lambda>i. fp_test_time (polls i) < deadline" "\<lambda>i. functional_body workload n started (polls i)"
  "\<lambda>_. functional_inv started polls" functional_post for polls deadline workload n started
proof (unfold_locales, goal_cases)
  case (1 i r t)
  from 1(1,3) show ?case by (rule functional_body_times(1))
next
  case (2 i r t)
  from 2(1,3) show ?case by (rule functional_body_times(2))
next
  case (3 i r)
  then show ?case by (simp add: functional_inv_def functional_post_def)
qed

lemma run_point_result:
  assumes "run_point workload n timeout_seconds started 0 polls = Some r" and "functional_clock started polls"
  shows "\<exists>expired. functional_post expired r"
proof -
  obtain expired where "poll_loop (\<lambda>i. fp_test_time (polls i) < started + of_int timeout_seconds)
      (\<lambda>i. functional_body workload n started (polls i)) 0 (init_functional 0) = Some (expired, r)"
    using assms(1) by (auto simp: run_point_def)
  moreover have "functional_inv started polls (init_functional 0)"
    using assms(2) by (simp add: functional_inv_def init_functional_def times_nonneg_def nonneg_time_def)
  ultimately show ?thesis using functional.loop_post by blast
qed

end
