(* ===== verification/MlpScalability.thy ===== *)
theory MlpScalability
  imports RemoteMatrix
begin

text \<open>
  The repeated MLP experiment (\<open>scripts/run_mlp_scalability.py\<close>): the log readers, the derived workload and
  stack files, the prewarm loop, the sample loop with its result dictionary, and the epochs of a sample.
  What the remote commands print and the clock readings of every round are parameters (\<open>None\<close> is a
  command that timed out where the program catches this); a remote command that fails elsewhere ends the
  run with its exception and is not modelled.
\<close>

section \<open>Log readers\<close>

definition PHASE_ONE_SPAWN :: "rx list" where
  "PHASE_ONE_SPAWN = [Lit ''worker: spawn request process_id=phase1-'', Digits]"

definition PHASE_ONE_EXIT :: "rx list" where
  "PHASE_ONE_EXIT = [Lit ''worker: process phase1-'', Digits, Lit '' exited rc='', Digits]"

definition PHASE_TWO_SPAWN :: "rx list" where
  "PHASE_TWO_SPAWN = [Lit ''worker: spawn request process_id=phase2-'', Digits]"

definition WORKER_READY :: "rx list" where
  "WORKER_READY = [Lit ''worker: ready port=9300'']"

text \<open>
  \<open>pipe-metric: (\{[^\n]+\})\<close>: the braces of a match lie on one line, with a character between them, and
  the greedy run ends at the last closing brace of the line, so a line has at most one match.
\<close>

fun metric_line :: "string \<Rightarrow> bool" where
  "metric_line [] = False"
| "metric_line (c # cs) =
     (prefix ''pipe-metric: {'' (c # cs) \<and> CHR ''}'' \<in> set (drop (length ''pipe-metric: {'' + 1) (c # cs)) \<or> metric_line cs)"

definition metric_count :: "string \<Rightarrow> nat" where
  "metric_count log_text = length (filter metric_line (split_on newline log_text))"

definition spawn_count :: "rx list \<Rightarrow> string \<Rightarrow> nat" where
  "spawn_count pattern log_text = length (remdups (rx_findall pattern log_text))"

definition phase_one_spawn_count :: "string \<Rightarrow> nat" where
  "phase_one_spawn_count = spawn_count PHASE_ONE_SPAWN"

definition phase_one_exits :: "string \<Rightarrow> (string, nat) dict" where
  "phase_one_exits log_text =
     dict_of (map (\<lambda>groups. (''phase1-'' @ groups ! 0, digits_val (groups ! 1))) (rx_findall PHASE_ONE_EXIT log_text))"

definition failed_exits :: "(string, nat) dict \<Rightarrow> (string, nat) dict" where
  "failed_exits = filter (\<lambda>(_, code). code \<noteq> 0)"

fun terminal_line :: "string \<Rightarrow> string option" where
  "terminal_line line =
     (let (desired, separator, remainder) = partition_at (CHR ''|'') line
      in if desired \<noteq> ''Running'' \<or> \<not> separator then None
         else if prefix ''Complete|'' remainder then Some ''complete''
         else if prefix ''Failed|'' remainder \<or> prefix ''Rejected|'' remainder then Some ''failed''
         else None)"

definition coordinator_terminal_state :: "string \<Rightarrow> string option" where
  "coordinator_terminal_state ps_output =
     (case List.map_filter terminal_line (split_lines ps_output) of [] \<Rightarrow> None | state # _ \<Rightarrow> Some state)"

section \<open>Derived files\<close>

text \<open>\<open>d.setdefault(k, {})\<close> followed by an update of that dictionary in place.\<close>

definition setdefault_at :: "string \<Rightarrow> (jobj \<Rightarrow> jobj) \<Rightarrow> jobj \<Rightarrow> jobj res" where
  "setdefault_at k f d = bindE (as_obj (dict_get d k (JObj []))) (\<lambda>inner. Inr (AList.update k (JObj (f inner)) d))"

definition train_environment :: "int option \<Rightarrow> bool \<Rightarrow> jobj \<Rightarrow> jobj" where
  "train_environment train_iterations parallel_gpu_tasks environment =
     (let e1 = (case train_iterations of
            None \<Rightarrow> environment | Some n \<Rightarrow> AList.update ''LEGOSIM_MLP_TRAIN_ITERATIONS'' (JStr (str_int n)) environment)
      in if parallel_gpu_tasks then AList.update ''LEGOSIM_MLP_PARALLEL_GPU_TASKS'' (JStr ''1'') e1 else e1)"

definition prewarm_service :: "int option \<Rightarrow> bool \<Rightarrow> string \<times> json \<Rightarrow> (string \<times> json) res" where
  "prewarm_service train_iterations parallel_gpu_tasks = (\<lambda>(name, service).
     if prefix ''transport-'' name
     then bindE (as_obj service) (\<lambda>d.
          bindE (setdefault_at ''environment'' (train_environment train_iterations parallel_gpu_tasks) d) (\<lambda>d1.
            Inr (name, JObj d1)))
     else Inr (name, service))"

definition rewrite_prewarm_stack :: "jobj \<Rightarrow> string \<Rightarrow> string \<Rightarrow> int option \<Rightarrow> bool \<Rightarrow> jobj res" where
  "rewrite_prewarm_stack stack remote_directory img train_iterations parallel_gpu_tasks =
     bindE (rewrite_stack stack remote_directory img) (\<lambda>s1.
     bindE (update_at ''services''
       (update_at ''coordinator'' (setdefault_at ''deploy'' (AList.update ''replicas'' (JInt 0)))) s1)
       (update_at ''services'' (mapE (prewarm_service train_iterations parallel_gpu_tasks))))"

fun drop_limit :: "json list \<Rightarrow> json list" where
  "drop_limit [] = []"
| "drop_limit (x # xs) =
     (if x = JStr ''--gpgpu-max-instructions'' then drop_limit (drop 1 xs) else x # drop_limit xs)"

definition map_arguments :: "(json list \<Rightarrow> json list) \<Rightarrow> jobj \<Rightarrow> jobj res" where
  "map_arguments f process =
     bindE (json_iter (dict_get process ''args'' (JList []))) (\<lambda>arguments.
       Inr (AList.update ''args'' (JList (f arguments)) process))"

definition remove_gpgpu_instruction_limits :: "jobj \<Rightarrow> jobj res" where
  "remove_gpgpu_instruction_limits = update_phase ''phase1'' (mapE (map_arguments drop_limit))"

definition remove_sniper_fast_forward :: "jobj \<Rightarrow> jobj res" where
  "remove_sniper_fast_forward = update_phase ''phase1'' (mapE (map_arguments (filter (\<lambda>x. x \<noteq> JStr ''--fast-forward''))))"

definition enable_proxy_evidence :: "jobj \<Rightarrow> jobj res" where
  "enable_proxy_evidence workload =
     (let show_output = mapE (\<lambda>process. Inr (AList.update ''is_to_stdout'' (JBool True) process))
      in bindE (update_phase ''phase1'' show_output workload) (update_phase ''phase2'' show_output))"

definition sample_workload :: "bool \<Rightarrow> bool \<Rightarrow> jobj \<Rightarrow> jobj res" where
  "sample_workload unbounded_gpgpu unbounded_sniper workload =
     bindE (enable_proxy_evidence workload) (\<lambda>w1.
     bindE (if unbounded_gpgpu then remove_gpgpu_instruction_limits w1 else Inr w1) (\<lambda>w2.
       if unbounded_sniper then remove_sniper_fast_forward w2 else Inr w2))"

definition scale_stack :: "string \<Rightarrow> nat \<Rightarrow> int \<Rightarrow> string" where
  "scale_stack run_id node_count repetition =
     ''chipsystemsim_mlp_scale_'' @ run_id @ ''_'' @ show_nat node_count @ ''_rep_'' @ str_int repetition"

section \<open>The sample loop\<close>

record prewarm_poll =
  pp_test_time :: rat
  pp_transport_log :: "string option"

record sample_poll =
  sp_test_time :: rat
  sp_ps :: "string \<Rightarrow> string"
  sp_ready_time :: rat
  sp_coordinator_log :: string
  sp_transport_log :: "string option"
  sp_elapsed_time :: rat
  sp_terminal_ps :: string
  sp_second_time :: rat
  sp_completion_time :: rat

record sample_result =
  sr_ready :: "rat option"
  sr_all_phase1_started :: "rat option"
  sr_first_command :: "rat option"
  sr_completed :: nat
  sr_exit_count :: nat
  sr_epoch_completion :: "rat option"
  sr_communication_wall :: "rat option"
  sr_phase_graph_wall :: "rat option"
  sr_natural_completion :: "rat option"
  sr_status :: string
  sr_prewarm_elapsed :: "rat option"
  sr_failed_exits :: "(string, nat) dict option"
  sr_spawn_counts :: "(nat \<times> nat) option"
  sr_collection_elapsed :: "rat option"

definition init_sample :: "int \<Rightarrow> sample_result" where
  "init_sample deploy_code = \<lparr>sr_ready = None, sr_all_phase1_started = None, sr_first_command = None,
     sr_completed = 0, sr_exit_count = 0, sr_epoch_completion = None, sr_communication_wall = None,
     sr_phase_graph_wall = None, sr_natural_completion = None,
     sr_status = (if deploy_code \<noteq> 0 then ''deployment-error'' else ''timeout''),
     sr_prewarm_elapsed = None, sr_failed_exits = None, sr_spawn_counts = None, sr_collection_elapsed = None\<rparr>"

definition mlp_phase_one_count :: nat where
  "mlp_phase_one_count = the (map_of PHASE_ONE_COUNTS ''mlp'')"

definition prewarm_body :: "nat \<Rightarrow> prewarm_poll \<Rightarrow> unit \<Rightarrow> unit + unit" where
  "prewarm_body node_count p s =
     (case pp_transport_log p of
        None \<Rightarrow> Inr s
      | Some workers_log \<Rightarrow> if length (rx_findall WORKER_READY workers_log) \<ge> node_count then Inl s else Inr s)"

text \<open>The check of the coordinator's natural end: \<open>None\<close> goes on with the round.\<close>

definition natural_end :: "rat \<Rightarrow> string \<Rightarrow> string \<Rightarrow> sample_result \<Rightarrow> sample_result option" where
  "natural_end elapsed terminal_ps transport_log r =
     (let terminal_state = coordinator_terminal_state terminal_ps
      in if terminal_state = Some ''failed'' then Some (r\<lparr>sr_status := ''coordinator-failed''\<rparr>)
         else if terminal_state = Some ''complete''
         then let phase_one_count = phase_one_spawn_count transport_log;
                  phase_two_count = spawn_count PHASE_TWO_SPAWN transport_log
              in if phase_one_count \<ge> mlp_phase_one_count \<and> phase_two_count \<ge> 1
                 then Some (r\<lparr>sr_natural_completion := Some (round3 elapsed), sr_status := ''natural-completion''\<rparr>)
                 else Some (r\<lparr>sr_status := ''incomplete-native-phase-graph'',
                              sr_spawn_counts := Some (phase_one_count, phase_two_count)\<rparr>)
         else None)"

text \<open>The end of the communication epoch.\<close>

definition epoch_end :: "rat \<Rightarrow> sample_result \<Rightarrow> sample_result" where
  "epoch_end completion r =
     r\<lparr>sr_epoch_completion := Some (round3 completion),
       sr_communication_wall := (case sr_first_command r of
           Some first \<Rightarrow> Some (round3 (completion - first)) | None \<Rightarrow> sr_communication_wall r),
       sr_phase_graph_wall := map_option (\<lambda>start. round3 (completion - start)) (sr_all_phase1_started r),
       sr_status := ''communication-epoch-complete''\<rparr>"

text \<open>The rest of a round, once the transport logs were read.\<close>

definition sample_round ::
  "bool \<Rightarrow> nat \<Rightarrow> rat \<Rightarrow> sample_poll \<Rightarrow> string \<Rightarrow> sample_result \<Rightarrow> sample_result + sample_result" where
  "sample_round natural expected started p transport_log r0 =
     (let exits = phase_one_exits transport_log;
          r1 = r0\<lparr>sr_exit_count := length exits\<rparr>;
          elapsed = sp_elapsed_time p - started
      in if failed_exits exits \<noteq> []
         then Inl (r1\<lparr>sr_status := ''phase-one-failed'', sr_failed_exits := Some (failed_exits exits)\<rparr>)
         else case (if natural then natural_end elapsed (sp_terminal_ps p) transport_log r1 else None) of
           Some r \<Rightarrow> Inl r
         | None \<Rightarrow>
             (let r2 = r1\<lparr>sr_first_command := first_time (sr_first_command r1)
                            (sublist ''[INTERCMD]'' (sp_coordinator_log p)) (round3 elapsed)\<rparr>;
                  r3 = r2\<lparr>sr_all_phase1_started := first_time (sr_all_phase1_started r2)
                            (phase_one_spawn_count transport_log \<ge> mlp_phase_one_count)
                            (round3 (sp_second_time p - started))\<rparr>
              in if \<not> natural \<and> sr_all_phase1_started r3 \<noteq> None
                 then let r4 = r3\<lparr>sr_completed := metric_count transport_log\<rparr>
                      in if sr_completed r4 \<ge> expected then Inl (epoch_end (sp_completion_time p - started) r4)
                         else Inr r4
                 else Inr r3))"

definition sample_body ::
  "bool \<Rightarrow> nat \<Rightarrow> nat \<Rightarrow> rat \<Rightarrow> sample_poll \<Rightarrow> sample_result \<Rightarrow> sample_result + sample_result" where
  "sample_body natural expected node_count started p r =
     (let r0 = r\<lparr>sr_ready := first_time (sr_ready r) (list_all snd (service_states (sp_ps p) node_count))
                   (round3 (sp_ready_time p - started))\<rparr>
      in case sp_transport_log p of
           None \<Rightarrow> Inr r0
         | Some transport_log \<Rightarrow> sample_round natural expected started p transport_log r0)"

text \<open>
  One sample. The environment holds what the program sees: the waits for the removal of the stack before
  and after the run, the deployment, the rounds of both loops and the logs collected at the end
  (\<open>Inl\<close> the text of a timeout error).
\<close>

record sample_environment =
  se_removal_before :: "rat \<times> (nat \<Rightarrow> removal_poll)"
  se_prewarm_started :: rat
  se_deploy_code :: int
  se_prewarm :: "nat \<Rightarrow> prewarm_poll"
  se_prewarm_expired :: rat
  se_started :: rat
  se_polls :: "nat \<Rightarrow> sample_poll"
  se_final_log :: "nat \<Rightarrow> string + string"
  se_collection_time :: rat
  se_removal_after :: "rat \<times> (nat \<Rightarrow> removal_poll)"

definition removal :: "rat \<times> (nat \<Rightarrow> removal_poll) \<Rightarrow> string \<Rightarrow> unit res option" where
  "removal w stack = wait_for_removal (snd w) (fst w) stack"

text \<open>An action that may not end, followed by one that starts only when it did not raise.\<close>

definition thenE :: "'a res option \<Rightarrow> ('a \<Rightarrow> 'b res option) \<Rightarrow> 'b res option" where
  "thenE m f = (case m of None \<Rightarrow> None | Some (Inl e) \<Rightarrow> Some (Inl e) | Some (Inr x) \<Rightarrow> f x)"

definition final_transport_logs :: "sample_environment \<Rightarrow> nat \<Rightarrow> string" where
  "final_transport_logs e node_count =
     join_with [newline] (map (\<lambda>slot. case se_final_log e slot of
         Inl message \<Rightarrow> ''log collection timed out: '' @ message @ [newline] | Inr log_text \<Rightarrow> log_text) [0..<node_count])"

definition collect_sample :: "sample_environment \<Rightarrow> nat \<Rightarrow> sample_result \<Rightarrow> sample_result" where
  "collect_sample e node_count r =
     (let logs = final_transport_logs e node_count
      in r\<lparr>sr_completed := metric_count logs, sr_exit_count := length (phase_one_exits logs),
           sr_collection_elapsed := Some (round3 (se_collection_time e - se_started e))\<rparr>)"

definition prewarm_loop :: "sample_environment \<Rightarrow> nat \<Rightarrow> int \<Rightarrow> (bool \<times> unit) option" where
  "prewarm_loop e node_count timeout_seconds =
     poll_loop (\<lambda>i. pp_test_time (se_prewarm e i) < se_prewarm_started e + of_int timeout_seconds)
       (\<lambda>i. prewarm_body node_count (se_prewarm e i)) 0 ()"

definition sample_loop :: "sample_environment \<Rightarrow> bool \<Rightarrow> nat \<Rightarrow> nat \<Rightarrow> int \<Rightarrow> sample_result \<Rightarrow> (bool \<times> sample_result) option" where
  "sample_loop e natural expected node_count timeout_seconds =
     poll_loop (\<lambda>i. sp_test_time (se_polls e i) < se_started e + of_int timeout_seconds)
       (\<lambda>i. sample_body natural expected node_count (se_started e) (se_polls e i)) 0"

definition deploy_sample ::
  "sample_environment \<Rightarrow> string \<Rightarrow> nat \<Rightarrow> int \<Rightarrow> nat \<Rightarrow> bool \<Rightarrow> sample_result res option" where
  "deploy_sample e stack node_count timeout_seconds expected natural =
     thenE (removal (se_removal_before e) stack) (\<lambda>_.
       if se_deploy_code e \<noteq> 0 then Some (Inr (init_sample (se_deploy_code e)))
       else Option.bind (prewarm_loop e node_count timeout_seconds) (\<lambda>(expired, _).
         if expired
         then thenE (removal (se_removal_after e) stack) (\<lambda>_.
              Some (Inr ((init_sample 0)\<lparr>sr_status := ''prewarm-timeout'',
                sr_prewarm_elapsed := Some (round3 (se_prewarm_expired e - se_prewarm_started e))\<rparr>)))
         else Option.bind (sample_loop e natural expected node_count timeout_seconds
                ((init_sample 0)\<lparr>sr_prewarm_elapsed := Some (round3 (se_started e - se_prewarm_started e))\<rparr>)) (\<lambda>(_, r).
              thenE (removal (se_removal_after e) stack) (\<lambda>_. Some (Inr (collect_sample e node_count r))))))"

section \<open>The experiment\<close>

definition success_status :: "bool \<Rightarrow> string" where
  "success_status natural = (if natural then ''natural-completion'' else ''communication-epoch-complete'')"

record scale_sample =
  ss_nodes :: nat
  ss_repetition :: int
  ss_status :: string
  ss_natural_completion :: rat
  ss_prewarm_elapsed :: rat
  ss_completed :: nat
  ss_epoch_results :: "sample_result list"

definition or_zero :: "rat option \<Rightarrow> rat" where
  "or_zero x = (case x of None \<Rightarrow> 0 | Some v \<Rightarrow> v)"

definition scale_sample_of :: "bool \<Rightarrow> nat \<Rightarrow> int \<Rightarrow> sample_result list \<Rightarrow> scale_sample" where
  "scale_sample_of natural node_count repetition epochs =
     \<lparr>ss_nodes = node_count, ss_repetition = repetition, ss_status = success_status natural,
      ss_natural_completion = round3 (sum_list (map (\<lambda>item. or_zero (sr_natural_completion item)) epochs)),
      ss_prewarm_elapsed = round3 (sum_list (map (\<lambda>item. or_zero (sr_prewarm_elapsed item)) epochs)),
      ss_completed = sum_list (map sr_completed epochs), ss_epoch_results = epochs\<rparr>"

text \<open>
  A loop over samples or epochs, each of which may not end, may raise, or gives a result. The text
  \<open>repr\<close> of a result in the error message is a parameter.
\<close>

primrec mapM :: "('a \<Rightarrow> 'b res option) \<Rightarrow> 'a list \<Rightarrow> 'b list res option" where
  "mapM f [] = Some (Inr [])"
| "mapM f (x # xs) = thenE (f x) (\<lambda>y. thenE (mapM f xs) (\<lambda>ys. Some (Inr (y # ys))))"

record scale_arguments =
  sa_source_root :: string
  sa_source_suffix :: string
  sa_nodes :: "nat list"
  sa_repetitions :: int
  sa_first_repetition :: int
  sa_timeout_seconds :: int
  sa_expected_events :: int
  sa_train_iterations :: "int option"
  sa_natural :: bool
  sa_epochs :: int

definition check_scale_arguments :: "scale_arguments \<Rightarrow> unit res" where
  "check_scale_arguments a =
     (if sa_expected_events a < 1 then Inl (ValueError ''--expected-pipecomm-events must be positive'')
      else if below_one (sa_train_iterations a) then Inl (ValueError ''--train-iterations must be positive'')
      else if sa_epochs a < 1 then Inl (ValueError ''--epochs-per-sample must be positive'')
      else Inr ())"

definition run_epoch ::
  "(sample_result \<Rightarrow> string) \<Rightarrow> (nat \<Rightarrow> int \<Rightarrow> int \<Rightarrow> sample_environment) \<Rightarrow> scale_arguments \<Rightarrow> string \<Rightarrow> nat \<Rightarrow> int \<Rightarrow> int
     \<Rightarrow> sample_result res option" where
  "run_epoch show_result world a run_id node_count repetition epoch =
     thenE (deploy_sample (world node_count repetition epoch) (scale_stack (run_id @ ''e'' @ str_int epoch) node_count repetition)
              node_count (sa_timeout_seconds a) (nat (sa_expected_events a)) (sa_natural a)) (\<lambda>r.
       Some (if sr_status r \<noteq> success_status (sa_natural a)
             then Inl (RuntimeError (''epoch '' @ str_int epoch @ '' failed: '' @ show_result r)) else Inr r))"

definition run_sample ::
  "(sample_result \<Rightarrow> string) \<Rightarrow> (nat \<Rightarrow> int \<Rightarrow> int \<Rightarrow> sample_environment) \<Rightarrow> scale_arguments \<Rightarrow> string \<Rightarrow> nat \<Rightarrow> int
     \<Rightarrow> scale_sample res option" where
  "run_sample show_result world a run_id node_count repetition =
     thenE (mapM (run_epoch show_result world a run_id node_count repetition) [1..sa_epochs a]) (\<lambda>epochs.
       Some (Inr (scale_sample_of (sa_natural a) node_count repetition epochs)))"

definition run_mlp_scalability ::
  "(sample_result \<Rightarrow> string) \<Rightarrow> (string \<Rightarrow> bool) \<Rightarrow> (nat \<Rightarrow> int \<Rightarrow> int \<Rightarrow> sample_environment) \<Rightarrow> scale_arguments \<Rightarrow> string
     \<Rightarrow> scale_sample list res option" where
  "run_mlp_scalability show_result is_dir world a run_id =
     (case check_scale_arguments a of
        Inl e \<Rightarrow> Some (Inl e)
      | Inr _ \<Rightarrow> thenE (mapM (\<lambda>node_count.
          let source = sa_source_root a @ ''/mlp-nodes'' @ show_nat node_count @ sa_source_suffix a
          in if \<not> is_dir source
             then Some (Inl (FileNotFoundError (''generated MLP source directory not found: '' @ source)))
             else mapM (run_sample show_result world a run_id node_count)
                    [sa_first_repetition a..sa_first_repetition a + sa_repetitions a - 1]) (sa_nodes a)) (\<lambda>samples.
          Some (Inr (concat samples))))"

section \<open>Soundness of a sample\<close>

text \<open>\<open>time.monotonic\<close> never goes back.\<close>

definition sample_clock :: "sample_environment \<Rightarrow> bool" where
  "sample_clock e \<longleftrightarrow> se_started e \<le> sp_test_time (se_polls e 0)
     \<and> (\<forall>i. sp_test_time (se_polls e i) \<le> sp_ready_time (se_polls e i)
          \<and> sp_ready_time (se_polls e i) \<le> sp_elapsed_time (se_polls e i)
          \<and> sp_elapsed_time (se_polls e i) \<le> sp_second_time (se_polls e i)
          \<and> sp_second_time (se_polls e i) \<le> sp_completion_time (se_polls e i)
          \<and> sp_completion_time (se_polls e i) \<le> sp_test_time (se_polls e (Suc i)))"

lemma sample_clock_round:
  assumes "sample_clock e"
  shows "se_started e \<le> sp_test_time (se_polls e i)"
    "sp_test_time (se_polls e i) \<le> sp_elapsed_time (se_polls e i)"
    "sp_elapsed_time (se_polls e i) \<le> sp_second_time (se_polls e i)"
    "sp_second_time (se_polls e i) \<le> sp_completion_time (se_polls e i)"
    "sp_completion_time (se_polls e i) \<le> sp_test_time (se_polls e (Suc i))"
proof -
  have *: "sp_test_time (se_polls e i) \<le> sp_elapsed_time (se_polls e i)
      \<and> sp_elapsed_time (se_polls e i) \<le> sp_second_time (se_polls e i)
      \<and> sp_second_time (se_polls e i) \<le> sp_completion_time (se_polls e i)
      \<and> sp_completion_time (se_polls e i) \<le> sp_test_time (se_polls e (Suc i))" for i
    using assms unfolding sample_clock_def by (meson order.trans)
  then show "sp_test_time (se_polls e i) \<le> sp_elapsed_time (se_polls e i)"
    "sp_elapsed_time (se_polls e i) \<le> sp_second_time (se_polls e i)"
    "sp_second_time (se_polls e i) \<le> sp_completion_time (se_polls e i)"
    "sp_completion_time (se_polls e i) \<le> sp_test_time (se_polls e (Suc i))" by blast+
  show "se_started e \<le> sp_test_time (se_polls e i)"
  proof (induction i)
    case 0
    then show ?case using assms by (simp add: sample_clock_def)
  next
    case (Suc i)
    then show ?case using * [of i] by linarith
  qed
qed

text \<open>A recorded time is the rounded distance to the start of a moment that has passed.\<close>

definition recorded :: "rat \<Rightarrow> rat \<Rightarrow> rat option \<Rightarrow> bool" where
  "recorded started now x \<longleftrightarrow> (\<forall>v. x = Some v \<longrightarrow> (\<exists>u. started \<le> u \<and> u \<le> now \<and> v = round3 (u - started)))"

lemma recorded_later: "recorded started now x \<Longrightarrow> now \<le> later \<Longrightarrow> recorded started later x"
  by (force simp: recorded_def)

lemma recorded_first_time:
  "recorded started now x \<Longrightarrow> now \<le> u \<Longrightarrow> started \<le> u \<Longrightarrow> recorded started u (first_time x b (round3 (u - started)))"
  by (force simp: recorded_def first_time_def)

lemma recorded_wall:
  assumes "recorded started now (Some v)" and "now \<le> u"
  shows "0 \<le> round3 (u - started - v)" and "round3 (u - started - v) \<le> round3 (u - started)"
proof -
  obtain w where w: "started \<le> w" "w \<le> now" "v = round3 (w - started)" using assms(1) by (auto simp: recorded_def)
  show "0 \<le> round3 (u - started - v)"
    using round3_difference [of "w - started" "u - started"] w assms(2) by simp
  have "0 \<le> v" using round3_nonneg [of "w - started"] w by simp
  then show "round3 (u - started - v) \<le> round3 (u - started)" by (intro round3_mono) simp
qed

text \<open>The evidence of a log: all phase-one processes were started, and nothing failed.\<close>

definition seen_started :: "sample_environment \<Rightarrow> nat \<Rightarrow> bool" where
  "seen_started e i \<longleftrightarrow> (\<exists>j\<le>i. \<exists>log_text. sp_transport_log (se_polls e j) = Some log_text
      \<and> phase_one_spawn_count log_text \<ge> mlp_phase_one_count)"

definition sample_inv :: "sample_environment \<Rightarrow> nat \<Rightarrow> sample_result \<Rightarrow> bool" where
  "sample_inv e i r \<longleftrightarrow> sample_clock e \<and> sr_status r = ''timeout'' \<and> sr_communication_wall r = None
     \<and> recorded (se_started e) (sp_test_time (se_polls e i)) (sr_first_command r)
     \<and> recorded (se_started e) (sp_test_time (se_polls e i)) (sr_all_phase1_started r)
     \<and> (sr_all_phase1_started r \<noteq> None \<longrightarrow> seen_started e i)"

definition epoch_evidence :: "sample_environment \<Rightarrow> nat \<Rightarrow> sample_result \<Rightarrow> nat \<Rightarrow> string \<Rightarrow> bool" where
  "epoch_evidence e expected r i log_text \<longleftrightarrow>
     sp_transport_log (se_polls e i) = Some log_text \<and> expected \<le> metric_count log_text
     \<and> failed_exits (phase_one_exits log_text) = [] \<and> seen_started e i
     \<and> (\<exists>c w. sr_epoch_completion r = Some c \<and> sr_phase_graph_wall r = Some w \<and> 0 \<le> w \<and> w \<le> c
          \<and> (case sr_communication_wall r of None \<Rightarrow> True | Some v \<Rightarrow> 0 \<le> v \<and> v \<le> c))"

definition sample_post :: "sample_environment \<Rightarrow> bool \<Rightarrow> nat \<Rightarrow> int \<Rightarrow> bool \<Rightarrow> sample_result \<Rightarrow> bool" where
  "sample_post e natural expected timeout_seconds expired r \<longleftrightarrow>
     (expired \<longleftrightarrow> sr_status r = ''timeout'')
     \<and> (sr_status r = ''communication-epoch-complete'' \<longrightarrow> \<not> natural
          \<and> (\<exists>i log_text. sp_test_time (se_polls e i) < se_started e + of_int timeout_seconds
               \<and> epoch_evidence e expected r i log_text))"

lemma natural_end_status:
  "natural_end elapsed ps log_text r = Some t \<Longrightarrow> sr_status t \<notin> {''timeout'', ''communication-epoch-complete''}"
  by (auto simp: natural_end_def Let_def split: if_splits)

lemma seen_started_mono: "seen_started e i \<Longrightarrow> i \<le> j \<Longrightarrow> seen_started e j"
  unfolding seen_started_def using le_trans by blast

lemma seen_startedI:
  "sp_transport_log (se_polls e i) = Some log_text \<Longrightarrow> phase_one_spawn_count log_text \<ge> mlp_phase_one_count \<Longrightarrow> seen_started e i"
  unfolding seen_started_def by blast

text \<open>What the two marks of a round record.\<close>

lemma round_marks:
  assumes "sample_inv e i r"
  defines "p \<equiv> se_polls e i" and "s \<equiv> se_started e"
  shows "recorded s (sp_completion_time p) (first_time (sr_first_command r) b (round3 (sp_elapsed_time p - s)))"
    and "recorded s (sp_completion_time p) (first_time (sr_all_phase1_started r) c (round3 (sp_second_time p - s)))"
proof -
  have clock: "sample_clock e" using assms by (simp add: sample_inv_def)
  note c = sample_clock_round [OF clock, of i, folded p_def s_def]
  have "recorded s (sp_elapsed_time p) (first_time (sr_first_command r) b (round3 (sp_elapsed_time p - s)))"
    using assms(1) c by (intro recorded_first_time) (auto simp: sample_inv_def p_def s_def)
  then show "recorded s (sp_completion_time p) (first_time (sr_first_command r) b (round3 (sp_elapsed_time p - s)))"
    by (rule recorded_later) (use c in linarith)
  have "recorded s (sp_test_time p) (sr_all_phase1_started r)" using assms(1) by (simp add: sample_inv_def p_def s_def)
  then have "recorded s (sp_second_time p) (first_time (sr_all_phase1_started r) c (round3 (sp_second_time p - s)))"
    by (rule recorded_first_time) (use c in linarith)+
  then show "recorded s (sp_completion_time p) (first_time (sr_all_phase1_started r) c (round3 (sp_second_time p - s)))"
    by (rule recorded_later) (use c in linarith)
qed

lemma round_seen:
  assumes "sample_inv e i r" and "sp_transport_log (se_polls e i) = Some log_text"
    and "first_time (sr_all_phase1_started r) (phase_one_spawn_count log_text \<ge> mlp_phase_one_count) v \<noteq> None"
  shows "seen_started e i"
proof (cases "sr_all_phase1_started r = None")
  case True
  with assms show ?thesis by (auto intro!: seen_startedI [of e i log_text] simp: first_time_def split: if_splits)
next
  case False
  with assms(1) show ?thesis by (simp add: sample_inv_def)
qed

lemma sample_round_Inr:
  "sample_round natural expected s p log_text r = Inr t \<Longrightarrow>
     sr_status t = sr_status r \<and> sr_communication_wall t = sr_communication_wall r
     \<and> (\<exists>b. sr_first_command t = first_time (sr_first_command r) b (round3 (sp_elapsed_time p - s)))
     \<and> sr_all_phase1_started t = first_time (sr_all_phase1_started r)
          (phase_one_spawn_count log_text \<ge> mlp_phase_one_count) (round3 (sp_second_time p - s))"
  by (auto simp: sample_round_def Let_def split: if_splits option.splits)

lemma sample_round_Inl:
  assumes "sample_round natural expected s p log_text r = Inl t" and "sr_status t = ''communication-epoch-complete''"
    and "sr_communication_wall r = None"
  shows "\<not> natural \<and> failed_exits (phase_one_exits log_text) = [] \<and> expected \<le> metric_count log_text
    \<and> sr_epoch_completion t = Some (round3 (sp_completion_time p - s))
    \<and> (\<exists>a. first_time (sr_all_phase1_started r) (phase_one_spawn_count log_text \<ge> mlp_phase_one_count)
            (round3 (sp_second_time p - s)) = Some a
         \<and> sr_phase_graph_wall t = Some (round3 (sp_completion_time p - s - a)))
    \<and> (\<exists>b. sr_communication_wall t = map_option (\<lambda>f. round3 (sp_completion_time p - s - f))
            (first_time (sr_first_command r) b (round3 (sp_elapsed_time p - s))))"
  using assms by (auto simp: sample_round_def epoch_end_def Let_def dest: natural_end_status split: if_splits option.splits)
    (metis option.map(1) option.map(2))+

lemma sample_round_leaves: "sample_round natural expected s p log_text r = Inl t \<Longrightarrow> sr_status t \<noteq> ''timeout''"
  by (auto simp: sample_round_def epoch_end_def Let_def dest: natural_end_status split: if_splits option.splits)

lemma sample_inv_ready: "sample_inv e i (r\<lparr>sr_ready := x\<rparr>) = sample_inv e i r"
  by (simp add: sample_inv_def)

lemma sample_body_again:
  assumes inv: "sample_inv e i r" and body: "sample_body natural expected n (se_started e) (se_polls e i) r = Inr t"
  shows "sample_inv e (Suc i) t"
proof -
  have clock: "sample_clock e" using inv by (simp add: sample_inv_def)
  note c = sample_clock_round [OF clock, of i]
  show ?thesis
  proof (cases "sp_transport_log (se_polls e i)")
    case None
    have "sp_test_time (se_polls e i) \<le> sp_test_time (se_polls e (Suc i))" using c by linarith
    with inv body None show ?thesis
      by (auto simp: sample_body_def sample_inv_def Let_def elim: seen_started_mono recorded_later)
  next
    case (Some log_text)
    let ?r = "r\<lparr>sr_ready := first_time (sr_ready r) (list_all snd (service_states (sp_ps (se_polls e i)) n))
                   (round3 (sp_ready_time (se_polls e i) - se_started e))\<rparr>"
    have inv': "sample_inv e i ?r" using inv by (simp add: sample_inv_ready)
    have "sample_round natural expected (se_started e) (se_polls e i) log_text ?r = Inr t"
      using body Some by (simp add: sample_body_def Let_def)
    note t = sample_round_Inr [OF this]
    then obtain b where b: "sr_first_command t = first_time (sr_first_command ?r) b (round3 (sp_elapsed_time (se_polls e i) - se_started e))"
      by blast
    have "recorded (se_started e) (sp_test_time (se_polls e (Suc i))) (sr_first_command t)"
      using recorded_later [OF round_marks(1) [OF inv'] c(5)] b by simp
    moreover have "recorded (se_started e) (sp_test_time (se_polls e (Suc i))) (sr_all_phase1_started t)"
      using recorded_later [OF round_marks(2) [OF inv'] c(5)] t by simp
    moreover have "sr_all_phase1_started t \<noteq> None \<Longrightarrow> seen_started e (Suc i)"
      using seen_started_mono [OF round_seen [OF inv' Some]] t by simp
    ultimately show ?thesis using t inv clock by (simp add: sample_inv_def)
  qed
qed

lemma sample_body_leaves:
  assumes inv: "sample_inv e i r" and body: "sample_body natural expected n (se_started e) (se_polls e i) r = Inl t"
    and time: "sp_test_time (se_polls e i) < se_started e + of_int timeout_seconds"
  shows "sample_post e natural expected timeout_seconds False t"
proof -
  let ?p = "se_polls e i" and ?s = "se_started e"
  let ?r = "r\<lparr>sr_ready := first_time (sr_ready r) (list_all snd (service_states (sp_ps ?p) n)) (round3 (sp_ready_time ?p - ?s))\<rparr>"
  have inv': "sample_inv e i ?r" using inv by (simp add: sample_inv_ready)
  from body obtain log_text where log_text: "sp_transport_log ?p = Some log_text"
    and round: "sample_round natural expected ?s ?p log_text ?r = Inl t"
    by (auto simp: sample_body_def Let_def split: option.splits)
  have "epoch_evidence e expected t i log_text \<and> \<not> natural" if done_: "sr_status t = ''communication-epoch-complete''"
  proof -
    have none: "sr_communication_wall ?r = None" using inv' by (simp add: sample_inv_def)
    note e = sample_round_Inl [OF round done_ none]
    then obtain a b where a: "first_time (sr_all_phase1_started ?r) (phase_one_spawn_count log_text \<ge> mlp_phase_one_count)
          (round3 (sp_second_time ?p - ?s)) = Some a" "sr_phase_graph_wall t = Some (round3 (sp_completion_time ?p - ?s - a))"
      and b: "sr_communication_wall t = map_option (\<lambda>f. round3 (sp_completion_time ?p - ?s - f))
            (first_time (sr_first_command ?r) b (round3 (sp_elapsed_time ?p - ?s)))" by blast
    have "seen_started e i" by (rule round_seen [OF inv' log_text]) (use a(1) in auto)
    moreover have "recorded ?s (sp_completion_time ?p) (Some a)" using round_marks(2) [OF inv'] a(1) by metis
    note recorded_wall [OF this order.refl]
    moreover have "case sr_communication_wall t of None \<Rightarrow> True | Some v \<Rightarrow> 0 \<le> v \<and> v \<le> round3 (sp_completion_time ?p - ?s)"
      using round_marks(1) [OF inv', of b] recorded_wall [of ?s "sp_completion_time ?p" _ "sp_completion_time ?p"]
      by (auto simp: b split: option.split)
    ultimately show ?thesis using e a log_text by (simp add: epoch_evidence_def)
  qed
  then show ?thesis using sample_round_leaves [OF round] time unfolding sample_post_def by blast
qed

interpretation sample: polled "\<lambda>i. sp_test_time (se_polls e i) < se_started e + of_int timeout_seconds"
  "\<lambda>i. sample_body natural expected n (se_started e) (se_polls e i)" "sample_inv e"
  "sample_post e natural expected timeout_seconds" for e timeout_seconds natural expected n
proof (unfold_locales, goal_cases)
  case (1 i r t)
  from 1(1,3) show ?case by (rule sample_body_again)
next
  case (2 i r t)
  from 2(1,3,2) show ?case by (rule sample_body_leaves)
next
  case (3 i r)
  then show ?case by (simp add: sample_post_def sample_inv_def)
qed

lemma init_sample_inv: "sample_clock e \<Longrightarrow> sample_inv e 0 ((init_sample 0)\<lparr>sr_prewarm_elapsed := x\<rparr>)"
  by (simp add: sample_inv_def init_sample_def recorded_def)

lemma deploy_sample_cases:
  assumes "deploy_sample e stack n timeout_seconds expected natural = Some (Inr r)"
    and "sr_status r \<notin> {''deployment-error'', ''prewarm-timeout''}"
  obtains expired t where "sample_loop e natural expected n timeout_seconds
      ((init_sample 0)\<lparr>sr_prewarm_elapsed := Some (round3 (se_started e - se_prewarm_started e))\<rparr>) = Some (expired, t)"
    "r = collect_sample e n t"
  using assms by (auto simp: deploy_sample_def thenE_def init_sample_def bind_eq_Some_conv
      split: option.splits sum.splits if_splits)

text \<open>
  C28. A sample that reports a complete communication epoch is backed by the logs: some round before the
  deadline read transport logs with at least the expected number of PipeComm records and no failed
  phase-one exit, and at that time all phase-one processes had been seen starting. The reported times
  are not negative and no longer than the whole epoch, although they are differences of rounded readings.
\<close>

theorem epoch_complete_sound:
  assumes "deploy_sample e stack n timeout_seconds expected natural = Some (Inr r)"
    and "sr_status r = ''communication-epoch-complete''" and "sample_clock e"
  shows "\<exists>i log_text. sp_test_time (se_polls e i) < se_started e + of_int timeout_seconds
    \<and> epoch_evidence e expected r i log_text"
proof -
  obtain expired t where t: "sample_loop e natural expected n timeout_seconds
      ((init_sample 0)\<lparr>sr_prewarm_elapsed := Some (round3 (se_started e - se_prewarm_started e))\<rparr>) = Some (expired, t)"
    and r: "r = collect_sample e n t" by (rule deploy_sample_cases [OF assms(1)]) (use assms(2) in auto)
  have "sample_post e natural expected timeout_seconds expired t"
    by (rule sample.loop_post [OF t [unfolded sample_loop_def] init_sample_inv [OF assms(3)]])
  then show ?thesis using assms(2) by (simp add: sample_post_def r collect_sample_def epoch_evidence_def Let_def)
qed

definition demo_log :: string where
  "demo_log = concat (map (\<lambda>k. ''worker: spawn request process_id=phase1-'' @ show_nat k @ [newline]) [0..<7])
     @ ''pipe-metric: {1}''"

definition demo_poll :: sample_poll where
  "demo_poll = \<lparr>sp_test_time = 10, sp_ps = (\<lambda>_. ''Running|Running 2 seconds ago|''), sp_ready_time = 10,
     sp_coordinator_log = ''[INTERCMD] SEND'', sp_transport_log = Some demo_log, sp_elapsed_time = 10,
     sp_terminal_ps = [], sp_second_time = 10, sp_completion_time = 10\<rparr>"

definition gone_poll :: removal_poll where
  "gone_poll = \<lparr>rp_test_time = 0, rp_stacks = [], rp_network_code = 1\<rparr>"

definition demo_environment :: sample_environment where
  "demo_environment = \<lparr>se_removal_before = (0, \<lambda>_. gone_poll), se_prewarm_started = 1, se_deploy_code = 0,
     se_prewarm = (\<lambda>_. \<lparr>pp_test_time = 2, pp_transport_log = Some ''worker: ready port=9300''\<rparr>),
     se_prewarm_expired = 0, se_started = 9, se_polls = (\<lambda>_. demo_poll), se_final_log = (\<lambda>_. Inr demo_log),
     se_collection_time = 11, se_removal_after = (0, \<lambda>_. gone_poll)\<rparr>"

lemma demo_log_counts: "phase_one_spawn_count demo_log = 7" "metric_count demo_log = 1" "phase_one_exits demo_log = []"
  by code_simp+

lemma demo_removal: "removal (0, \<lambda>_. gone_poll) stack = Some (Inr ())"
  by (simp add: removal_def wait_for_removal_def poll_loop.simps gone_poll_def removed_def split_lines_def)

theorem epoch_complete_sound_witness:
  "\<exists>r i log_text. deploy_sample demo_environment (scale_stack ''0123456789e1'' 1 1) 1 180 1 False = Some (Inr r)
     \<and> sp_test_time (se_polls demo_environment i) < se_started demo_environment + of_int 180
     \<and> epoch_evidence demo_environment 1 r i log_text"
proof -
  have prewarm: "prewarm_loop demo_environment 1 180 = Some (False, ())"
    by (simp add: prewarm_loop_def poll_loop.simps demo_environment_def prewarm_body_def WORKER_READY_def regex_eval)
  have sample: "\<exists>t. sample_loop demo_environment False 1 1 180 ((init_sample 0)\<lparr>sr_prewarm_elapsed := x\<rparr>) = Some (False, t)
      \<and> sr_status t = ''communication-epoch-complete''" for x
    by (simp add: sample_loop_def poll_loop.simps demo_environment_def demo_poll_def sample_body_def sample_round_def
        demo_log_counts failed_exits_def init_sample_def first_time_def mlp_phase_one_count_def PHASE_ONE_COUNTS_def
        epoch_end_def)
  obtain r where r: "deploy_sample demo_environment (scale_stack ''0123456789e1'' 1 1) 1 180 1 False = Some (Inr r)"
    "sr_status r = ''communication-epoch-complete''"
    using sample [of "Some (round3 (se_started demo_environment - se_prewarm_started demo_environment))"] prewarm
    by (auto simp: deploy_sample_def thenE_def demo_removal collect_sample_def Let_def demo_environment_def)
  have "sample_clock demo_environment" by (simp add: sample_clock_def demo_environment_def demo_poll_def)
  from epoch_complete_sound [OF r this] r(1) show ?thesis by blast
qed

section \<open>The experiment ends\<close>

text \<open>Every loop's clock passes its deadline at some round.\<close>

definition clock_passes :: "int \<Rightarrow> sample_environment \<Rightarrow> bool" where
  "clock_passes timeout_seconds e \<longleftrightarrow>
     (\<exists>k. fst (se_removal_before e) + 45 \<le> rp_test_time (snd (se_removal_before e) k))
     \<and> (\<exists>k. se_prewarm_started e + of_int timeout_seconds \<le> pp_test_time (se_prewarm e k))
     \<and> (\<exists>k. se_started e + of_int timeout_seconds \<le> sp_test_time (se_polls e k))
     \<and> (\<exists>k. fst (se_removal_after e) + 45 \<le> rp_test_time (snd (se_removal_after e) k))"

lemma removal_ends: "fst w + 45 \<le> rp_test_time (snd w k) \<Longrightarrow> removal w stack \<noteq> None"
  using poll_loop_ends [of "\<lambda>i. rp_test_time (snd w i) < fst w + 45" k 0
      "\<lambda>i s. if removed stack (snd w i) then Inl s else Inr s" "()"]
  by (auto simp: removal_def wait_for_removal_def)

lemma thenE_ends: "m \<noteq> None \<Longrightarrow> (\<And>x. m = Some (Inr x) \<Longrightarrow> f x \<noteq> None) \<Longrightarrow> thenE m f \<noteq> None"
  by (auto simp: thenE_def split: option.splits sum.splits)

lemma bind_ends: "m \<noteq> None \<Longrightarrow> (\<And>x. f x \<noteq> None) \<Longrightarrow> Option.bind m f \<noteq> None"
  by (cases m) simp_all

lemma mapM_ends: "(\<And>x. x \<in> set xs \<Longrightarrow> f x \<noteq> None) \<Longrightarrow> mapM f xs \<noteq> None"
  by (induction xs) (simp_all add: thenE_ends)

lemma deploy_sample_ends:
  assumes "clock_passes timeout_seconds e"
  shows "deploy_sample e stack n timeout_seconds expected natural \<noteq> None"
proof -
  from assms obtain kb ka kp ks where b: "fst (se_removal_before e) + 45 \<le> rp_test_time (snd (se_removal_before e) kb)"
    and a: "fst (se_removal_after e) + 45 \<le> rp_test_time (snd (se_removal_after e) ka)"
    and p: "\<not> pp_test_time (se_prewarm e kp) < se_prewarm_started e + of_int timeout_seconds"
    and s: "\<not> sp_test_time (se_polls e ks) < se_started e + of_int timeout_seconds"
    unfolding clock_passes_def by (auto simp: not_less)
  have prewarm: "prewarm_loop e n timeout_seconds \<noteq> None"
    using poll_loop_ends [of "\<lambda>i. pp_test_time (se_prewarm e i) < se_prewarm_started e + of_int timeout_seconds" kp 0
        "\<lambda>i. prewarm_body n (se_prewarm e i)" "()"] p
    by (auto simp: prewarm_loop_def)
  have sample: "sample_loop e natural expected n timeout_seconds r \<noteq> None" for r
    using poll_loop_ends [of "\<lambda>i. sp_test_time (se_polls e i) < se_started e + of_int timeout_seconds" ks 0] s
    by (auto simp: sample_loop_def)
  have "thenE (removal (se_removal_after e) stack) (\<lambda>_. Some (Inr r)) \<noteq> None" for r :: sample_result
    by (intro thenE_ends removal_ends [OF a]) simp
  with prewarm sample show ?thesis
    unfolding deploy_sample_def
    by (intro thenE_ends removal_ends [OF b]) (simp add: bind_ends split_def del: not_None_eq)
qed

text \<open>
  C29. The whole experiment ends: when the clocks pass the deadlines, every wait, prewarm, sample loop,
  epoch and repetition ends, with samples or with an error, and it does not hang.
\<close>

theorem scalability_run_ends:
  assumes "\<And>n repetition epoch. clock_passes (sa_timeout_seconds a) (world n repetition epoch)"
  shows "run_mlp_scalability show_result is_dir world a run_id \<noteq> None"
proof -
  have "run_epoch show_result world a run_id n repetition epoch \<noteq> None" for n repetition epoch
    unfolding run_epoch_def by (intro thenE_ends deploy_sample_ends assms) simp
  then have "run_sample show_result world a run_id n repetition \<noteq> None" for n repetition
    unfolding run_sample_def by (intro thenE_ends mapM_ends) simp_all
  then have "mapM (run_sample show_result world a run_id n) reps \<noteq> None" for n reps by (intro mapM_ends)
  then show ?thesis
    unfolding run_mlp_scalability_def Let_def
    by (cases "check_scale_arguments a") (simp_all only: sum.case, simp, intro thenE_ends mapM_ends, simp_all del: not_None_eq)
qed

definition stopped_clock :: "(nat \<Rightarrow> removal_poll) \<Rightarrow> sample_environment" where
  "stopped_clock polls = demo_environment\<lparr>se_removal_before := (0, polls), se_removal_after := (0, polls),
     se_prewarm := (\<lambda>k. \<lparr>pp_test_time = of_nat k, pp_transport_log = None\<rparr>),
     se_polls := (\<lambda>k. demo_poll\<lparr>sp_test_time := of_nat k, sp_transport_log := None\<rparr>)\<rparr>"

theorem scalability_run_ends_witness:
  "run_mlp_scalability (\<lambda>_. []) (\<lambda>_. True)
     (\<lambda>_ _ _. stopped_clock (\<lambda>k. \<lparr>rp_test_time = of_nat k, rp_stacks = [], rp_network_code = 1\<rparr>))
     \<lparr>sa_source_root = ''out'', sa_source_suffix = [], sa_nodes = [1, 2], sa_repetitions = 3, sa_first_repetition = 1,
      sa_timeout_seconds = 180, sa_expected_events = 18, sa_train_iterations = None, sa_natural = False, sa_epochs = 1\<rparr>
     ''0123456789'' \<noteq> None"
proof (rule scalability_run_ends)
  let ?e = "stopped_clock (\<lambda>k. \<lparr>rp_test_time = of_nat k, rp_stacks = [], rp_network_code = 1\<rparr>)"
  have "\<exists>k :: nat. (45 :: rat) \<le> of_nat k" "\<exists>k :: nat. (181 :: rat) \<le> of_nat k" "\<exists>k :: nat. (189 :: rat) \<le> of_nat k"
    by (rule exI [of _ 189], simp)+
  then have "clock_passes 180 ?e" by (simp add: clock_passes_def stopped_clock_def demo_environment_def)
  then show "clock_passes (sa_timeout_seconds \<lparr>sa_source_root = ''out'', sa_source_suffix = [], sa_nodes = [1, 2],
      sa_repetitions = 3, sa_first_repetition = 1, sa_timeout_seconds = 180, sa_expected_events = 18,
      sa_train_iterations = None, sa_natural = False, sa_epochs = 1\<rparr>) ?e" by simp
qed

section \<open>What the exit pattern sees\<close>

text \<open>The line the worker prints when a process ended; a process ended by a signal has a negative code.\<close>

definition exit_line :: "string \<Rightarrow> int \<Rightarrow> string" where
  "exit_line process_id return_code = ''worker: process '' @ process_id @ '' exited rc='' @ str_int return_code @ [newline]"

lemma exit_line_match:
  "rx_match PHASE_ONE_EXIT (exit_line (''phase1-'' @ show_nat n) return_code @ rest)
     = (if return_code < 0 then None else Some ([show_nat n, show_nat (nat return_code)], newline # rest))"
proof -
  have "\<not> is_digit (CHR '' '')" "\<not> is_digit newline" "\<not> is_digit (CHR ''-'')"
    by (simp_all add: is_digit_def newline_def)
  then show ?thesis
    by (auto simp: PHASE_ONE_EXIT_def exit_line_def Let_def takeWhile_show_nat dropWhile_show_nat str_int_def)
qed

lemma exit_line_findall:
  "rx_findall PHASE_ONE_EXIT (exit_line (''phase1-'' @ show_nat n) return_code @ rest)
     = (if return_code < 0 then [] else [[show_nat n, show_nat (nat return_code)]]) @ rx_findall PHASE_ONE_EXIT rest"
proof -
  let ?tail = "''orker: process phase1-'' @ show_nat n @ '' exited rc='' @ str_int return_code @ [newline]"
  have foreign: "\<forall>c\<in>set s. c \<noteq> CHR ''w'' \<Longrightarrow> rx_findall PHASE_ONE_EXIT (s @ rest) = rx_findall PHASE_ONE_EXIT rest" for s
    unfolding PHASE_ONE_EXIT_def by (rule rx_findall_foreign)
  have line: "exit_line (''phase1-'' @ show_nat n) return_code = CHR ''w'' # ?tail" by (simp add: exit_line_def)
  have "c \<noteq> CHR ''w''" if "is_digit c" for c using that by (auto simp: is_digit_def)
  then have "\<forall>c\<in>set ?tail. c \<noteq> CHR ''w''"
    using show_nat_digits [of n] str_int_chars [of _ return_code] by (auto simp: list_all_iff newline_def)
  note tail = foreign [OF this]
  note match = exit_line_match [of n return_code rest, unfolded line]
  show ?thesis
  proof (cases "return_code < 0")
    case True
    with match have "rx_findall PHASE_ONE_EXIT (CHR ''w'' # ?tail @ rest) = rx_findall PHASE_ONE_EXIT (?tail @ rest)" by simp
    with True tail line show ?thesis by simp
  next
    case False
    with match have "rx_findall PHASE_ONE_EXIT (CHR ''w'' # ?tail @ rest)
        = [show_nat n, show_nat (nat return_code)] # rx_findall PHASE_ONE_EXIT (newline # rest)" by simp
    moreover have "rx_findall PHASE_ONE_EXIT (newline # rest) = rx_findall PHASE_ONE_EXIT rest"
      using foreign [of "[newline]"] by (simp add: newline_def)
    ultimately show ?thesis using False line by simp
  qed
qed

text \<open>
  What the sample loop sees of the exits: of the lines the worker prints, exactly those of processes
  with a return code of zero or more are read, and each with its code. A process ended by a signal (a
  negative code) is not among them, so it never makes a sample fail.
\<close>

theorem phase_one_exits_seen:
  "phase_one_exits (concat (map (\<lambda>(n, return_code). exit_line (''phase1-'' @ show_nat n) return_code) events))
     = dict_of (map (\<lambda>(n, return_code). (''phase1-'' @ show_nat n, nat return_code))
         (filter (\<lambda>(_, return_code). 0 \<le> return_code) events))"
proof -
  have "rx_findall PHASE_ONE_EXIT (concat (map (\<lambda>(n, return_code). exit_line (''phase1-'' @ show_nat n) return_code) events))
      = map (\<lambda>(n, return_code). [show_nat n, show_nat (nat return_code)]) (filter (\<lambda>(_, return_code). 0 \<le> return_code) events)"
    by (induction events) (auto simp: exit_line_findall [unfolded append_Cons append_Nil])
  then show ?thesis by (simp add: phase_one_exits_def split_def comp_def)
qed

end
