(* ===== verification/MlpReference.thy ===== *)
theory MlpReference
  imports Prelude Complex_Main
begin

text \<open>
  The reference of the data-parallel training workload (\<open>scripts/mlp_dp_reference.py\<close>): the shards of
  the global batch, the gradient of a two-layer network on a shard, the serial and the tree reduction
  and the training loop. Floating-point numbers are real numbers here, so the theorem compares the
  exact mathematics of the two reductions and of serial training, not their rounding.
\<close>

section \<open>Definitions\<close>

definition RANKS :: nat where "RANKS = 8"
definition GPUS_PER_RANK :: nat where "GPUS_PER_RANK = 2"
definition ITERATIONS :: nat where "ITERATIONS = 100"
definition SAMPLES :: nat where "SAMPLES = 128"
definition FEATURES :: nat where "FEATURES = 4"
definition HIDDEN :: nat where "HIDDEN = 6"
definition CLASSES :: nat where "CLASSES = 3"
definition SAMPLES_PER_GPU :: nat where "SAMPLES_PER_GPU = SAMPLES div (RANKS * GPUS_PER_RANK)"
definition W1 :: nat where "W1 = FEATURES * HIDDEN"
definition B1 :: nat where "B1 = HIDDEN"
definition W2 :: nat where "W2 = HIDDEN * CLASSES"
definition B2 :: nat where "B2 = CLASSES"
definition PARAMETERS :: nat where "PARAMETERS = W1 + B1 + W2 + B2"
definition LEARNING_RATE :: real where "LEARNING_RATE = 5 / 100"

definition w1 :: "nat \<Rightarrow> nat \<Rightarrow> nat" where "w1 feature hidden = feature * HIDDEN + hidden"
definition b1 :: "nat \<Rightarrow> nat" where "b1 hidden = W1 + hidden"
definition w2 :: "nat \<Rightarrow> nat \<Rightarrow> nat" where "w2 hidden output = W1 + B1 + hidden * CLASSES + output"
definition b2 :: "nat \<Rightarrow> nat" where "b2 output = W1 + B1 + W2 + output"

text \<open>A sample of the global batch, and the shard of one GPU worker.\<close>

definition sample_of :: "nat \<Rightarrow> real list \<times> nat" where
  "sample_of sample = (map (\<lambda>feature. real_of_int (int ((sample + 3) * (feature + 5)) mod 17 - 8) / 8) [0..<FEATURES],
     sample mod CLASSES)"

definition shard_samples :: "nat \<Rightarrow> nat \<Rightarrow> nat list" where
  "shard_samples rank gpu = map (\<lambda>l. rank + RANKS * (gpu + GPUS_PER_RANK * l)) [0..<SAMPLES_PER_GPU]"

definition shard :: "nat \<Rightarrow> nat \<Rightarrow> (real list \<times> nat) list" where
  "shard rank gpu = map sample_of (shard_samples rank gpu)"

text \<open>The additions to the gradient that one sample makes, in the order of the code.\<close>

definition sample_updates :: "real list \<Rightarrow> real list \<times> nat \<Rightarrow> (nat \<times> real) list" where
  "sample_updates model = (\<lambda>(inputs, label).
     let hidden_pre = map (\<lambda>h. model ! b1 h + sum_list (map (\<lambda>f. inputs ! f * model ! w1 f h) [0..<FEATURES])) [0..<HIDDEN];
         hidden = map (\<lambda>value. max value 0) hidden_pre;
         logits = map (\<lambda>output. model ! b2 output + sum_list (map (\<lambda>h. hidden ! h * model ! w2 h output) [0..<HIDDEN])) [0..<CLASSES];
         normalizer = sum_list (map exp logits);
         probabilities = map (\<lambda>value. exp value / normalizer) logits;
         errors = map (\<lambda>output. probabilities ! output - (if output = label then 1 else 0)) [0..<CLASSES]
     in concat (map (\<lambda>output. (b2 output, errors ! output)
            # map (\<lambda>h. (w2 h output, hidden ! h * errors ! output)) [0..<HIDDEN]) [0..<CLASSES])
        @ concat (map (\<lambda>h.
            let backprop0 = sum_list (map (\<lambda>output. errors ! output * model ! w2 h output) [0..<CLASSES]);
                backprop = (if hidden ! h = 0 then 0 else backprop0)
            in (b1 h, backprop) # map (\<lambda>feature. (w1 feature h, inputs ! feature * backprop)) [0..<FEATURES]) [0..<HIDDEN]))"

definition add_at :: "real list \<Rightarrow> nat \<times> real \<Rightarrow> real list" where
  "add_at gradient = (\<lambda>(index, value). gradient[index := gradient ! index + value])"

definition local_gradient :: "real list \<Rightarrow> (real list \<times> nat) list \<Rightarrow> real list" where
  "local_gradient model samples =
     foldl (\<lambda>gradient sample. foldl add_at gradient (sample_updates model sample)) (replicate PARAMETERS 0) samples"

definition vector_add :: "real list \<Rightarrow> real list \<Rightarrow> real list" where
  "vector_add left right = map (\<lambda>index. left ! index + right ! index) [0..<PARAMETERS]"

definition rank_ordered_reduce :: "real list list \<Rightarrow> real list" where
  "rank_ordered_reduce rank_gradients =
     foldl (\<lambda>acc rank. vector_add acc (rank_gradients ! rank)) (rank_gradients ! 0) [1..<RANKS]"

text \<open>\<open>range(0, RANKS, step)\<close> and the two loops of the tree reduction.\<close>

definition range_step :: "nat \<Rightarrow> nat \<Rightarrow> nat list" where
  "range_step stop step = map (\<lambda>k. k * step) [0..<(stop + step - 1) div step]"

definition tree_level :: "nat \<Rightarrow> real list list \<Rightarrow> real list list" where
  "tree_level stride partial0 =
     foldl (\<lambda>partial parent. partial[parent := vector_add (partial ! parent) (partial ! (parent + stride))])
       partial0 (range_step RANKS (2 * stride))"

function tree_loop :: "nat \<Rightarrow> real list list \<Rightarrow> real list list" where
  "tree_loop stride partial =
     (if 0 < stride \<and> stride < RANKS then tree_loop (stride * 2) (tree_level stride partial) else partial)"
  by pat_completeness auto
termination by (relation "measure (\<lambda>(stride, _). RANKS - stride)") auto

declare tree_loop.simps [simp del]

definition binary_tree_reduce :: "real list list \<Rightarrow> real list" where
  "binary_tree_reduce rank_gradients = tree_loop 1 rank_gradients ! 0"

definition initial_model :: "real list" where
  "initial_model = map (\<lambda>index. 1 / 100 * (real (index mod 7) - 3)) [0..<PARAMETERS]"

definition rank_gradient :: "real list \<Rightarrow> nat \<Rightarrow> real list" where
  "rank_gradient model rank = vector_add (local_gradient model (shard rank 0)) (local_gradient model (shard rank 1))"

definition sgd_update :: "real list \<Rightarrow> real list \<Rightarrow> real list" where
  "sgd_update model gradient =
     map (\<lambda>index. model ! index - LEARNING_RATE * gradient ! index / real SAMPLES) [0..<PARAMETERS]"

definition training_step :: "(real list list \<Rightarrow> real list) \<Rightarrow> real list \<Rightarrow> real list" where
  "training_step reduce_gradients model =
     sgd_update model (reduce_gradients (map (rank_gradient model) [0..<RANKS]))"

definition reference_model :: "string \<Rightarrow> real list res" where
  "reference_model reduction =
     bindE (if reduction = ''rank_ordered'' then Inr rank_ordered_reduce
            else if reduction = ''binary_tree'' then Inr binary_tree_reduce
            else Inl (ValueError (''unsupported reduction: '' @ reduction)))
       (\<lambda>reduce_gradients. Inr ((training_step reduce_gradients ^^ ITERATIONS) initial_model))"

lemmas mlp_constants = RANKS_def GPUS_PER_RANK_def SAMPLES_def SAMPLES_PER_GPU_def

section \<open>The shards partition the batch\<close>

text \<open>All samples in the order in which the ranks visit them.\<close>

definition visited :: "nat list" where
  "visited = concat (map (\<lambda>rank. shard_samples rank 0 @ shard_samples rank 1) [0..<RANKS])"

lemma shards_partition: "mset visited = mset [0..<SAMPLES]"
proof -
  have "sort visited = [0..<SAMPLES]" by code_simp
  then show ?thesis by (metis mset_sort)
qed

section \<open>Gradients are sums over samples\<close>

definition weight_of :: "nat \<Rightarrow> (nat \<times> real) list \<Rightarrow> real" where
  "weight_of i us = sum_list (map snd (filter (\<lambda>u. fst u = i) us))"

lemma fold_add_at:
  "length (foldl add_at g us) = length g
   \<and> (i < length g \<longrightarrow> foldl add_at g us ! i = g ! i + weight_of i us)"
  by (induction us arbitrary: g) (auto simp: add_at_def weight_of_def nth_list_update)

lemma local_gradient_nth:
  assumes "i < PARAMETERS"
  shows "local_gradient model samples ! i = sum_list (map (\<lambda>s. weight_of i (sample_updates model s)) samples)"
proof -
  have "length g = PARAMETERS \<Longrightarrow>
      length (foldl (\<lambda>g s. foldl add_at g (sample_updates model s)) g samples) = PARAMETERS
      \<and> foldl (\<lambda>g s. foldl add_at g (sample_updates model s)) g samples ! i
        = g ! i + sum_list (map (\<lambda>s. weight_of i (sample_updates model s)) samples)" for g
    by (induction samples arbitrary: g) (use assms in \<open>auto simp: fold_add_at\<close>)
  then show ?thesis using assms by (simp add: local_gradient_def)
qed

lemma length_vector_add [simp]: "length (vector_add a b) = PARAMETERS"
  by (simp add: vector_add_def)

lemma vector_add_nth [simp]: "i < PARAMETERS \<Longrightarrow> vector_add a b ! i = a ! i + b ! i"
  by (simp add: vector_add_def)

text \<open>Both reductions of eight vectors.\<close>

lemma ranks_list: "[0..<RANKS] = [0, 1, 2, 3, 4, 5, 6, 7]" "[1..<RANKS] = [1, 2, 3, 4, 5, 6, 7]"
  by (simp_all add: RANKS_def upt_conv_Cons)

lemma rank_ordered_eval:
  "rank_ordered_reduce (map g [0..<RANKS]) = vector_add (vector_add (vector_add (vector_add (vector_add (vector_add
     (vector_add (g 0) (g 1)) (g 2)) (g 3)) (g 4)) (g 5)) (g 6)) (g 7)"
  unfolding rank_ordered_reduce_def ranks_list by simp

lemma tree_loop_levels: "tree_loop 1 p = tree_level 4 (tree_level 2 (tree_level 1 p))"
proof -
  have "tree_loop 8 p = p" "tree_loop 4 p = tree_loop 8 (tree_level 4 p)" "tree_loop 2 p = tree_loop 4 (tree_level 2 p)"
    "tree_loop 1 p = tree_loop 2 (tree_level 1 p)" for p
    by (subst tree_loop.simps, simp add: RANKS_def)+
  then show ?thesis by metis
qed

lemma range_steps:
  "range_step RANKS (2 * 1) = [0, 2, 4, 6]" "range_step RANKS (2 * 2) = [0, 4]" "range_step RANKS (2 * 4) = [0]"
  by (simp_all add: range_step_def RANKS_def upt_conv_Cons)

lemma tree_eval:
  "binary_tree_reduce (map g [0..<RANKS]) = vector_add
     (vector_add (vector_add (g 0) (g 1)) (vector_add (g 2) (g 3)))
     (vector_add (vector_add (g 4) (g 5)) (vector_add (g 6) (g 7)))"
  unfolding binary_tree_reduce_def ranks_list tree_loop_levels tree_level_def range_steps by simp

section \<open>Data-parallel training is serial training\<close>

text \<open>One step of serial gradient descent on the whole batch, in sample order.\<close>

definition serial_step :: "real list \<Rightarrow> real list" where
  "serial_step model = sgd_update model (local_gradient model (map sample_of [0..<SAMPLES]))"

text \<open>The sum of the eight rank gradients is the gradient of the whole batch.\<close>

lemma rank_gradients_sum:
  assumes "i < PARAMETERS"
  shows "sum_list (map (\<lambda>rank. rank_gradient model rank ! i) [0..<RANKS])
    = local_gradient model (map sample_of [0..<SAMPLES]) ! i"
proof -
  let ?w = "\<lambda>k. weight_of i (sample_updates model (sample_of k))"
  have "sum_list (map (\<lambda>rank. rank_gradient model rank ! i) ranks)
      = sum_list (map ?w (concat (map (\<lambda>rank. shard_samples rank 0 @ shard_samples rank 1) ranks)))" for ranks
    by (induction ranks) (use assms in \<open>simp_all add: rank_gradient_def local_gradient_nth shard_def comp_def\<close>)
  then have "sum_list (map (\<lambda>rank. rank_gradient model rank ! i) [0..<RANKS]) = sum_list (map ?w visited)"
    by (simp only: visited_def)
  also have "\<dots> = sum_list (map ?w [0..<SAMPLES])"
    using shards_partition by (metis mset_map sum_mset_sum_list)
  also have "\<dots> = local_gradient model (map sample_of [0..<SAMPLES]) ! i"
    using assms by (simp add: local_gradient_nth comp_def)
  finally show ?thesis .
qed

lemma reductions_nth:
  assumes "i < PARAMETERS"
  shows "rank_ordered_reduce (map g [0..<RANKS]) ! i = sum_list (map (\<lambda>r. g r ! i) [0..<RANKS])"
    and "binary_tree_reduce (map g [0..<RANKS]) ! i = sum_list (map (\<lambda>r. g r ! i) [0..<RANKS])"
  unfolding rank_ordered_eval tree_eval using assms by (simp_all add: ranks_list)

lemma sgd_update_cong:
  "(\<And>i. i < PARAMETERS \<Longrightarrow> g ! i = g' ! i) \<Longrightarrow> sgd_update model g = sgd_update model g'"
  by (simp add: sgd_update_def)

lemma training_steps_serial:
  "training_step rank_ordered_reduce = serial_step" "training_step binary_tree_reduce = serial_step"
  unfolding training_step_def serial_step_def
  by (rule ext, rule sgd_update_cong, simp add: reductions_nth rank_gradients_sum)+

text \<open>
  C25. Data-parallel training computes serial training: in exact arithmetic, with the serial as well
  as with the tree reduction, the reference returns the model that one hundred steps of gradient
  descent on the whole batch give, where every sample is used once per step; every other reduction
  name is rejected.
\<close>

theorem reference_model_serial:
  "reference_model reduction =
     (if reduction = ''rank_ordered'' \<or> reduction = ''binary_tree''
      then Inr ((serial_step ^^ ITERATIONS) initial_model)
      else Inl (ValueError (''unsupported reduction: '' @ reduction)))"
  by (simp add: reference_model_def training_steps_serial)

end
