(* ===== verification/SteadyMeasurement.thy ===== *)
theory SteadyMeasurement
  imports PyJson Intervals Complex_Main
begin

text \<open>
  The steady-state summary (\<open>scripts/summarize_steady_measurement.py\<close>). \<open>steady_report\<close> is \<open>main\<close>
  from the lines of the transport log to the report; the quotients of the report are exact
  rational numbers. The JSON parser of the standard library is a parameter.
\<close>

section \<open>Definitions\<close>

text \<open>\<open>line.split(prefix, 1)[1]\<close> when \<open>prefix in line\<close>.\<close>

fun after_first :: "string \<Rightarrow> string \<Rightarrow> string option" where
  "after_first p [] = (if p = [] then Some [] else None)"
| "after_first p (c # cs) = (if prefix p (c # cs) then Some (drop (length p) (c # cs)) else after_first p cs)"

definition parse_record_line :: "(string \<Rightarrow> jobj res) \<Rightarrow> string \<Rightarrow> jobj list" where
  "parse_record_line loads line =
     (case after_first ''pipe-metric: '' line of
        None \<Rightarrow> []
      | Some payload \<Rightarrow> (case loads payload of Inl _ \<Rightarrow> [] | Inr record \<Rightarrow> [record]))"

definition parse_records :: "(string \<Rightarrow> jobj res) \<Rightarrow> string list \<Rightarrow> jobj list res" where
  "parse_records loads lines =
     (let records = concat (map (parse_record_line loads) lines)
      in if records = [] then Inl (ValueError ''no PipeComm metric records found'') else Inr records)"

definition event_time :: "jobj \<Rightarrow> string \<Rightarrow> int res" where
  "event_time record name =
     (case as_int (jget record name) of
        None \<Rightarrow> Inl (ValueError (''metric record has no integer '' @ name))
      | Some value \<Rightarrow> Inr value)"

text \<open>\<open>record.get(k) == n\<close> for an integer \<open>n\<close>; a Boolean is an integer.\<close>

definition field_is :: "jobj \<Rightarrow> string \<Rightarrow> int \<Rightarrow> bool" where
  "field_is record k n \<longleftrightarrow> as_int (jget record k) = Some n"

definition is_write :: "jobj \<Rightarrow> bool" where
  "is_write record \<longleftrightarrow> jget record ''operation'' = JStr ''W''"

definition start_release :: "jobj \<Rightarrow> bool" where
  "start_release record \<longleftrightarrow> is_write record \<and> field_is record ''bytes'' 4 \<and> field_is record ''source_slot'' 0
     \<and> \<not> field_is record ''peer_slot'' 0"

definition completion_write :: "jobj \<Rightarrow> bool" where
  "completion_write record \<longleftrightarrow> is_write record \<and> field_is record ''bytes'' 4 \<and> \<not> field_is record ''source_slot'' 0
     \<and> field_is record ''peer_slot'' 0"

definition work_header :: "jobj \<Rightarrow> bool" where
  "work_header record \<longleftrightarrow> is_write record \<and> field_is record ''bytes'' 16"

definition payload_write :: "jobj \<Rightarrow> bool" where
  "payload_write record \<longleftrightarrow> is_write record
     \<and> (case as_int (jget record ''bytes'') of None \<Rightarrow> False | Some n \<Rightarrow> n > 16)"

definition choose_window :: "jobj list \<Rightarrow> (int \<times> int \<times> string) res" where
  "choose_window records =
     (let start_releases = filter start_release records;
          completion_writes = filter completion_write records
      in if start_releases \<noteq> [] \<and> completion_writes \<noteq> []
         then bindE (mapE (\<lambda>r. bindE (event_time r ''finished_unix_ns'') (\<lambda>t. Inr (t, r))) start_releases) (\<lambda>keyed.
              let releases_by_time = sort_key fst keyed
              in bindE (mapE (\<lambda>(_, r). bindE (dict_item r ''peer_slot'') json_int) releases_by_time) (\<lambda>peers.
                 let initial_releases = take (length (remdups peers)) releases_by_time
                 in bindE (mapE (\<lambda>r. event_time r ''finished_unix_ns'') completion_writes) (\<lambda>finishes.
                    Inr (Max (fst ` set initial_releases), Max (set finishes), ''multi_rank_barriers''))))
         else
           (let headers = filter work_header records; payload_writes = filter payload_write records
            in if headers = [] \<or> payload_writes = []
               then Inl (ValueError ''single-rank measurement lacks work-header or payload events'')
               else bindE (mapE (\<lambda>r. event_time r ''started_unix_ns'') headers) (\<lambda>starts.
                    bindE (mapE (\<lambda>r. event_time r ''finished_unix_ns'') payload_writes) (\<lambda>finishes.
                    Inr (Min (set starts), Max (set finishes), ''single_rank_first_header_to_final_payload'')))))"

record steady_sums =
  ss_intervals :: "interval list"
  ss_records :: int
  ss_bytes :: int

definition add_cross_read :: "int \<Rightarrow> int \<Rightarrow> jobj \<Rightarrow> steady_sums \<Rightarrow> steady_sums res" where
  "add_cross_read start finish record s =
     (if \<not> truthy (jget record ''cross_node'') \<or> jget record ''operation'' \<noteq> JStr ''R'' then Inr s
      else bindE (event_time record ''started_unix_ns'') (\<lambda>record_start.
           bindE (event_time record ''finished_unix_ns'') (\<lambda>record_finish.
             let clipped_start = max start record_start; clipped_finish = min finish record_finish
             in if clipped_finish \<le> clipped_start then Inr s
                else bindE (json_int (dict_get record ''bytes'' (JInt 0))) (\<lambda>bytes.
                     Inr \<lparr>ss_intervals = ss_intervals s @ [(clipped_start, clipped_finish)],
                          ss_records = ss_records s + 1, ss_bytes = ss_bytes s + bytes\<rparr>))))"

record steady_report =
  sr_boundary_rule :: string
  sr_start :: int
  sr_finish :: int
  sr_wall_seconds :: rat
  sr_cross_seconds :: rat
  sr_overhead_percent :: rat
  sr_cross_events :: int
  sr_cross_bytes :: int
  sr_all_events :: nat

definition summarize_steady :: "(string \<Rightarrow> jobj res) \<Rightarrow> string list \<Rightarrow> steady_report res" where
  "summarize_steady loads lines =
     bindE (parse_records loads lines) (\<lambda>records.
     bindE (choose_window records) (\<lambda>(start, finish, boundary_rule).
       if finish \<le> start then Inl (ValueError ''selected steady-state window is non-positive'')
       else bindE (foldE (add_cross_read start finish) records \<lparr>ss_intervals = [], ss_records = 0, ss_bytes = 0\<rparr>) (\<lambda>s.
         let steady_ns = finish - start; cross_sync_ns = union_duration (ss_intervals s)
         in Inr \<lparr>sr_boundary_rule = boundary_rule, sr_start = start, sr_finish = finish,
                 sr_wall_seconds = of_int steady_ns / 10 ^ 9, sr_cross_seconds = of_int cross_sync_ns / 10 ^ 9,
                 sr_overhead_percent = 100 * of_int cross_sync_ns / of_int steady_ns,
                 sr_cross_events = ss_records s, sr_cross_bytes = ss_bytes s, sr_all_events = length records\<rparr>)))"

section \<open>Bounds of the report\<close>

lemma add_cross_read_window:
  assumes "add_cross_read start finish record s = Inr t"
    and "list_all (\<lambda>(a, b). start \<le> a \<and> b \<le> finish) (ss_intervals s)" and "ss_records s = int (length (ss_intervals s))"
  shows "list_all (\<lambda>(a, b). start \<le> a \<and> b \<le> finish) (ss_intervals t) \<and> ss_records t = int (length (ss_intervals t))"
  using assms by (auto simp: add_cross_read_def bindE_eq_Inr Let_def split: if_splits)

lemma add_cross_read_count: "add_cross_read start finish record s = Inr t \<Longrightarrow> ss_records t \<le> ss_records s + 1"
  by (auto simp: add_cross_read_def bindE_eq_Inr Let_def split: if_splits)

lemma cross_reads_count:
  "foldE (add_cross_read start finish) rs s = Inr t \<Longrightarrow> ss_records t \<le> ss_records s + int (length rs)"
proof (induction rs arbitrary: s)
  case (Cons x rs)
  then obtain u where u: "add_cross_read start finish x s = Inr u" "foldE (add_cross_read start finish) rs u = Inr t"
    by (auto simp: bindE_eq_Inr)
  from add_cross_read_count [OF u(1)] Cons.IH [OF u(2)] show ?case by simp
qed simp

text \<open>
  A steady-state report is consistent: its window is positive, the blocked time is between zero
  and the window, so the reported overhead is between 0 and 100 per cent, and the number of events in
  the window is at most the number of all events.
\<close>

theorem steady_overhead_bounds:
  assumes "summarize_steady loads lines = Inr r"
  shows "sr_start r < sr_finish r \<and> 0 \<le> sr_cross_seconds r \<and> sr_cross_seconds r \<le> sr_wall_seconds r
    \<and> 0 \<le> sr_overhead_percent r \<and> sr_overhead_percent r \<le> 100
    \<and> 0 \<le> sr_cross_events r \<and> sr_cross_events r \<le> int (sr_all_events r)"
proof -
  from assms obtain records start finish rule s where window: "start < finish"
    and s: "foldE (add_cross_read start finish) records \<lparr>ss_intervals = [], ss_records = 0, ss_bytes = 0\<rparr> = Inr s"
    and r: "sr_start r = start" "sr_finish r = finish" "sr_wall_seconds r = of_int (finish - start) / 10 ^ 9"
      "sr_cross_seconds r = of_int (union_duration (ss_intervals s)) / 10 ^ 9"
      "sr_overhead_percent r = 100 * of_int (union_duration (ss_intervals s)) / of_int (finish - start)"
      "sr_cross_events r = ss_records s" "sr_all_events r = length records"
    by (auto simp: summarize_steady_def bindE_eq_Inr Let_def split: if_splits)
  have inv: "list_all (\<lambda>(a, b). start \<le> a \<and> b \<le> finish) (ss_intervals s) \<and> ss_records s = int (length (ss_intervals s))"
    by (rule foldE_invariant [OF s]) (auto dest: add_cross_read_window)
  have "union_duration (ss_intervals s) \<le> finish - start"
    by (rule steady_union.duration_in_window) (use inv window in \<open>auto simp: list_all_iff\<close>)
  moreover have "0 \<le> union_duration (ss_intervals s)" by (simp add: union_duration_cover)
  moreover have "ss_records s \<le> int (length records)"
    using cross_reads_count [OF s] by simp
  moreover have "(of_int (union_duration (ss_intervals s)) :: rat) \<le> of_int (finish - start)"
    using calculation(1) by (simp only: of_int_le_iff)
  ultimately show ?thesis using window inv by (auto simp: r divide_simps)
qed

definition steady_demo_loads :: "string \<Rightarrow> jobj res" where
  "steady_demo_loads text =
     (if text = ''h'' then Inr [(''operation'', JStr ''W''), (''bytes'', JInt 16), (''started_unix_ns'', JInt 100),
        (''finished_unix_ns'', JInt 110)]
      else if text = ''r'' then Inr [(''operation'', JStr ''R''), (''bytes'', JInt 64), (''cross_node'', JBool True),
        (''started_unix_ns'', JInt 90), (''finished_unix_ns'', JInt 150)]
      else if text = ''p'' then Inr [(''operation'', JStr ''W''), (''bytes'', JInt 64), (''started_unix_ns'', JInt 150),
        (''finished_unix_ns'', JInt 200)]
      else Inl JSONDecodeError)"

theorem steady_overhead_bounds_witness:
  "\<exists>r. summarize_steady steady_demo_loads [''pipe-metric: h'', ''x pipe-metric: r'', ''pipe-metric: p''] = Inr r
     \<and> sr_overhead_percent r \<le> 100"
proof -
  have "\<exists>r. summarize_steady steady_demo_loads [''pipe-metric: h'', ''x pipe-metric: r'', ''pipe-metric: p''] = Inr r"
    by (simp add: summarize_steady_def parse_records_def parse_record_line_def steady_demo_loads_def choose_window_def
        start_release_def completion_write_def work_header_def payload_write_def is_write_def field_is_def jget_def
        dict_get_def event_time_def add_cross_read_def Let_def)
  then show ?thesis using steady_overhead_bounds by blast
qed

end
