(* ===== verification/MlpDpRuns.thy ===== *)
theory MlpDpRuns
  imports MlpScalability MlpReference SteadyMeasurement
begin

text \<open>
  The runner of the data-parallel MLP jobs (\<open>scripts/run_mlp_dp_matrix.py\<close>): the models in the streamed
  logs, the comparison of models, the summary of the router records, one job and the matrix of jobs.
  Parsed numbers are the exact values of their decimal texts. What the remote commands print, the clock
  readings, the JSON parser and the text of a number in an error message are parameters.
\<close>

section \<open>Models\<close>

definition value_chars :: "char list" where
  "value_chars = ''0123456789eE+.,-''"

definition RESULT :: "rx list" where
  "RESULT = [Lit ''MLP_DP_RESULT rank='', Digits, Lit '' iterations='', Digits, Lit '' parameters='', Digits,
     Lit '' values='', Class value_chars]"

text \<open>\<open>float(text)\<close> on the characters of a value: sign, digits with at most one point, exponent.\<close>

definition signed_text :: "(string \<Rightarrow> 'a option) \<Rightarrow> string \<Rightarrow> 'a::uminus option" where
  "signed_text f s = (case s of
       [] \<Rightarrow> f []
     | c # r \<Rightarrow> if c = CHR ''-'' then map_option uminus (f r) else if c = CHR ''+'' then f r else f s)"

definition decimal_text :: "string \<Rightarrow> real option" where
  "decimal_text s =
     (let (whole, _, fraction) = partition_at (CHR ''.'') s
      in if whole @ fraction \<noteq> [] \<and> list_all is_digit (whole @ fraction)
         then Some (real (digits_val (whole @ fraction)) / 10 ^ length fraction) else None)"

definition exponent_text :: "string \<Rightarrow> int option" where
  "exponent_text s = (if s \<noteq> [] \<and> list_all is_digit s then Some (int (digits_val s)) else None)"

definition py_float :: "string \<Rightarrow> real res" where
  "py_float s =
     (let is_e = (\<lambda>c. c = CHR ''e'' \<or> c = CHR ''E'');
          mantissa = takeWhile (\<lambda>c. \<not> is_e c) s;
          scale = (case dropWhile (\<lambda>c. \<not> is_e c) s of [] \<Rightarrow> Some 0 | _ # r \<Rightarrow> signed_text exponent_text r)
      in case (signed_text decimal_text mantissa, scale) of
           (Some m, Some k) \<Rightarrow> Inr (m * power_int 10 k)
         | _ \<Rightarrow> Inl (ValueError (''could not convert string to float: '' @ s)))"

type_synonym models = "(nat, real list) dict"

definition add_model :: "string list \<Rightarrow> models \<Rightarrow> models res" where
  "add_model groups models =
     (let rank = digits_val (groups ! 0)
      in bindE (mapE py_float (filter (\<lambda>item. item \<noteq> []) (split_on (CHR '','') (groups ! 3)))) (\<lambda>values.
         if digits_val (groups ! 1) \<noteq> 100 \<or> digits_val (groups ! 2) \<noteq> length values
         then Inl (RuntimeError (''malformed MLP-DP result for rank '' @ show_nat rank))
         else case map_of models rank of
                None \<Rightarrow> Inr (AList.update rank values models)
              | Some previous \<Rightarrow>
                  if previous \<noteq> values then Inl (RuntimeError (''rank '' @ show_nat rank @ '' emitted conflicting final models''))
                  else Inr models))"

definition show_list :: "nat list \<Rightarrow> string" where
  "show_list ns = ''['' @ join_with '', '' (map show_nat ns) @ '']''"

definition models_from_logs :: "string \<Rightarrow> models res" where
  "models_from_logs log_text =
     bindE (foldE add_model (rx_findall RESULT log_text) []) (\<lambda>models.
       if set (map fst models) \<noteq> {0..<RANKS}
       then Inl (RuntimeError (''expected ranks 0..7, found '' @ show_list (sort (map fst models))))
       else Inr models)"

definition difference :: "real \<times> real \<Rightarrow> real" where
  "difference = (\<lambda>(left, right). \<bar>left - right\<bar>)"

definition relative_difference :: "real \<times> real \<Rightarrow> real" where
  "relative_difference = (\<lambda>(left, right). \<bar>left - right\<bar> / max \<bar>left\<bar> (1 / 10 ^ 30))"

definition py_max :: "real list \<Rightarrow> real res" where
  "py_max xs = (case xs of [] \<Rightarrow> Inl (ValueError ''max() arg is an empty sequence'') | x # r \<Rightarrow> Inr (foldl max x r))"

definition max_error :: "real list \<Rightarrow> real list \<Rightarrow> (real \<times> real) res" where
  "max_error reference candidate =
     (if length reference \<noteq> length candidate then Inl (RuntimeError ''model parameter count differs from reference'')
      else bindE (py_max (map difference (zip reference candidate))) (\<lambda>absolute.
           bindE (py_max (map relative_difference (zip reference candidate))) (\<lambda>relative. Inr (absolute, relative))))"

definition assert_equivalent ::
  "(real \<Rightarrow> string) \<Rightarrow> real list \<Rightarrow> real list \<Rightarrow> real \<Rightarrow> real \<Rightarrow> string \<Rightarrow> (real \<times> real) res" where
  "assert_equivalent fmt reference candidate absolute_tolerance relative_tolerance description =
     bindE (max_error reference candidate) (\<lambda>(absolute, relative).
       if absolute > absolute_tolerance \<and> relative > relative_tolerance
       then Inl (RuntimeError (description @ '' differs from baseline: abs='' @ fmt absolute @ '', rel='' @ fmt relative))
       else Inr (absolute, relative))"

section \<open>Router records\<close>

definition round6 :: "rat \<Rightarrow> rat" where
  "round6 x = of_int (round_even (x * 1000000)) / 1000000"

record pipe_summary =
  ps_all_count :: nat
  ps_cross_count :: nat
  ps_cross_bytes :: int
  ps_cross_elapsed :: rat
  ps_cross_wait :: rat
  ps_elapsed_percent :: rat
  ps_wait_percent :: rat

definition log_metrics :: "(string \<Rightarrow> json res) \<Rightarrow> string list \<Rightarrow> json list res" where
  "log_metrics loads logs =
     mapE loads (List.map_filter (after_first ''pipe-metric: '') (concat (map split_lines logs)))"

definition metric_item :: "json \<Rightarrow> string \<Rightarrow> json res" where
  "metric_item metric k = bindE (as_obj metric) (\<lambda>d. dict_item d k)"

definition metric_sum :: "string \<Rightarrow> json list \<Rightarrow> int res" where
  "metric_sum k metrics = bindE (mapE (\<lambda>m. bindE (metric_item m k) json_int) metrics) (\<lambda>ns. Inr (sum_list ns))"

definition divide :: "rat \<Rightarrow> rat \<Rightarrow> rat res" where
  "divide x y = (if y = 0 then Inl ZeroDivisionError else Inr (x / y))"

definition cross_metrics :: "json list \<Rightarrow> json list res" where
  "cross_metrics metrics =
     bindE (mapE (\<lambda>m. bindE (metric_item m ''cross_node'') (\<lambda>c. Inr (m, truthy c))) metrics) (\<lambda>flagged.
       Inr (map fst (filter snd flagged)))"

definition pipe_metric_summary :: "(string \<Rightarrow> json res) \<Rightarrow> string list \<Rightarrow> rat \<Rightarrow> pipe_summary res" where
  "pipe_metric_summary loads logs wall_seconds =
     bindE (log_metrics loads logs) (\<lambda>metrics.
     bindE (cross_metrics metrics) (\<lambda>cross_node.
     bindE (metric_sum ''elapsed_ns'' cross_node) (\<lambda>elapsed_ns.
     bindE (metric_sum ''synchronization_wait_ns'' cross_node) (\<lambda>wait_ns.
     bindE (metric_sum ''bytes'' cross_node) (\<lambda>bytes.
       let elapsed_seconds = of_int elapsed_ns / 1000000000; synchronization_seconds = of_int wait_ns / 1000000000
       in bindE (divide (100 * elapsed_seconds) wall_seconds) (\<lambda>elapsed_percent.
          bindE (divide (100 * synchronization_seconds) wall_seconds) (\<lambda>wait_percent.
            Inr \<lparr>ps_all_count = length metrics, ps_cross_count = length cross_node, ps_cross_bytes = bytes,
              ps_cross_elapsed = round6 elapsed_seconds, ps_cross_wait = round6 synchronization_seconds,
              ps_elapsed_percent = round6 elapsed_percent, ps_wait_percent = round6 wait_percent\<rparr>)))))))"

section \<open>One job\<close>

record job_poll =
  jp_test_time :: rat
  jp_logs :: "nat \<Rightarrow> string"

record job_environment =
  je_removal_before :: "rat \<times> (nat \<Rightarrow> removal_poll)"
  je_started :: rat
  je_deploy_code :: int
  je_polls :: "nat \<Rightarrow> job_poll"
  je_complete_log :: "nat \<Rightarrow> string"
  je_finished :: rat
  je_removal_after :: "rat \<times> (nat \<Rightarrow> removal_poll)"

record job_result =
  jr_nodes :: nat
  jr_repetition :: int
  jr_wall_seconds :: rat
  jr_model :: "real list"
  jr_within_absolute :: real
  jr_within_relative :: real
  jr_pipe_metrics :: pipe_summary

definition dp_stack :: "nat \<Rightarrow> int \<Rightarrow> string" where
  "dp_stack nodes repetition = ''chipsystemsim_mlp_dp_n'' @ show_nat nodes @ ''_r'' @ str_int repetition"

definition merged_logs :: "nat \<Rightarrow> job_poll \<Rightarrow> string" where
  "merged_logs nodes p = join_with [newline] (map (jp_logs p) [0..<nodes])"

text \<open>A round of the loop: a \<open>RuntimeError\<close> waits for the next one, another exception leaves.\<close>

definition job_body :: "nat \<Rightarrow> job_poll \<Rightarrow> models res option \<Rightarrow> models res option + models res option" where
  "job_body nodes p s =
     (case models_from_logs (merged_logs nodes p) of
        Inr models \<Rightarrow> Inl (Some (Inr models))
      | Inl e \<Rightarrow> (case e of RuntimeError _ \<Rightarrow> Inr s | _ \<Rightarrow> Inl (Some (Inl e))))"

definition await_models :: "job_environment \<Rightarrow> nat \<Rightarrow> int \<Rightarrow> models res option" where
  "await_models e nodes timeout_seconds =
     Option.bind (poll_loop (\<lambda>i. jp_test_time (je_polls e i) < je_started e + of_int timeout_seconds)
         (\<lambda>i. job_body nodes (je_polls e i)) 0 None) (\<lambda>(expired, s).
       if expired then Some (Inl (TimeoutError (''MLP-DP result markers did not appear within '' @ str_int timeout_seconds @ '' seconds'')))
       else s)"

definition within_run :: "(real \<Rightarrow> string) \<Rightarrow> string \<Rightarrow> models \<Rightarrow> (real \<times> real) list res" where
  "within_run fmt stack models =
     mapE (\<lambda>rank. assert_equivalent fmt (the (map_of models 0)) (the (map_of models rank)) (1 / 10 ^ 12) (1 / 10 ^ 12)
             (''rank '' @ show_nat rank @ '' in '' @ stack)) [1..<RANKS]"

definition job_report ::
  "(string \<Rightarrow> json res) \<Rightarrow> (real \<Rightarrow> string) \<Rightarrow> job_environment \<Rightarrow> nat \<Rightarrow> int \<Rightarrow> models \<Rightarrow> job_result res" where
  "job_report loads fmt e nodes repetition models =
     bindE (within_run fmt (dp_stack nodes repetition) models) (\<lambda>comparisons.
     let wall_seconds = round3 (je_finished e - je_started e)
     in bindE (py_max (map fst comparisons)) (\<lambda>absolute.
        bindE (py_max (map snd comparisons)) (\<lambda>relative.
        bindE (pipe_metric_summary loads (map (je_complete_log e) [0..<nodes]) wall_seconds) (\<lambda>metrics.
          Inr \<lparr>jr_nodes = nodes, jr_repetition = repetition, jr_wall_seconds = wall_seconds,
            jr_model = the (map_of models 0), jr_within_absolute = absolute, jr_within_relative = relative,
            jr_pipe_metrics = metrics\<rparr>))))"

text \<open>\<open>try: ... finally:\<close> with a clean-up that may raise or not end.\<close>

definition finallyE :: "'a res option \<Rightarrow> unit res option \<Rightarrow> 'a res option" where
  "finallyE m cleanup = Option.bind m (\<lambda>r. thenE cleanup (\<lambda>_. Some r))"

definition run_once ::
  "(string \<Rightarrow> json res) \<Rightarrow> (real \<Rightarrow> string) \<Rightarrow> job_environment \<Rightarrow> nat \<Rightarrow> int \<Rightarrow> int \<Rightarrow> job_result res option" where
  "run_once loads fmt e nodes repetition timeout_seconds =
     (let stack = dp_stack nodes repetition
      in thenE (removal (je_removal_before e) stack) (\<lambda>_.
         if je_deploy_code e \<noteq> 0 then Some (Inl (RuntimeError (''Swarm deployment failed for '' @ stack)))
         else finallyE (thenE (await_models e nodes timeout_seconds) (\<lambda>models.
                  Some (job_report loads fmt e nodes repetition models)))
                (removal (je_removal_after e) stack)))"

section \<open>The matrix\<close>

record dp_arguments =
  da_nodes :: "nat list"
  da_repetitions :: int
  da_timeout_seconds :: int
  da_absolute_tolerance :: real
  da_relative_tolerance :: real

record dp_summary =
  ds_result :: job_result
  ds_baseline_comparison :: "real \<times> real"
  ds_reference_comparison :: "real \<times> real"

text \<open>One node count of a repetition; the state is the baseline model and the summaries so far.\<close>

definition run_node ::
  "(string \<Rightarrow> json res) \<Rightarrow> (real \<Rightarrow> string) \<Rightarrow> (nat \<Rightarrow> int \<Rightarrow> job_environment) \<Rightarrow> dp_arguments \<Rightarrow> real list \<Rightarrow> int \<Rightarrow> nat
     \<Rightarrow> real list option \<times> dp_summary list \<Rightarrow> (real list option \<times> dp_summary list) res option" where
  "run_node loads fmt world a expected repetition nodes s =
     thenE (run_once loads fmt (world nodes repetition) nodes repetition (da_timeout_seconds a)) (\<lambda>result.
       let name = show_nat nodes @ ''-node repetition '' @ str_int repetition;
           compare_with = (\<lambda>reference. assert_equivalent fmt reference (jr_model result) (da_absolute_tolerance a) (da_relative_tolerance a))
       in Some (bindE (compare_with expected (name @ '' against reference'')) (\<lambda>reference_comparison.
            bindE (case fst s of None \<Rightarrow> Inr (0, 0) | Some reference \<Rightarrow> compare_with reference name) (\<lambda>comparison.
              Inr (Some (case fst s of None \<Rightarrow> jr_model result | Some reference \<Rightarrow> reference),
                snd s @ [\<lparr>ds_result = result, ds_baseline_comparison = comparison,
                           ds_reference_comparison = reference_comparison\<rparr>])))))"

primrec foldM :: "('a \<Rightarrow> 's \<Rightarrow> 's res option) \<Rightarrow> 'a list \<Rightarrow> 's \<Rightarrow> 's res option" where
  "foldM f [] s = Some (Inr s)"
| "foldM f (x # xs) s = thenE (f x s) (foldM f xs)"

definition run_repetition ::
  "(string \<Rightarrow> json res) \<Rightarrow> (real \<Rightarrow> string) \<Rightarrow> (nat \<Rightarrow> int \<Rightarrow> job_environment) \<Rightarrow> dp_arguments \<Rightarrow> real list \<Rightarrow> int
     \<Rightarrow> dp_summary list \<Rightarrow> dp_summary list res option" where
  "run_repetition loads fmt world a expected repetition summaries =
     thenE (foldM (run_node loads fmt world a expected repetition) (da_nodes a) (None, summaries)) (\<lambda>s. Some (Inr (snd s)))"

definition run_mlp_dp_matrix ::
  "(string \<Rightarrow> json res) \<Rightarrow> (real \<Rightarrow> string) \<Rightarrow> (nat \<Rightarrow> int \<Rightarrow> job_environment) \<Rightarrow> dp_arguments \<Rightarrow> dp_summary list res option" where
  "run_mlp_dp_matrix loads fmt world a =
     (if list_ex (\<lambda>n. n \<notin> {1, 2, 4, 8}) (da_nodes a) then Some (Inl (SystemExit ''argument --nodes: invalid choice''))
      else if da_repetitions a < 1 then Some (Inl (ValueError ''--repetitions must be positive''))
      else thenE (Some (reference_model ''rank_ordered'')) (\<lambda>expected.
             foldM (run_repetition loads fmt world a expected) [1..da_repetitions a] []))"

section \<open>Accepted models agree\<close>

definition close_models :: "real \<Rightarrow> real \<Rightarrow> real list \<Rightarrow> real list \<Rightarrow> bool" where
  "close_models absolute relative xs ys \<longleftrightarrow> length xs = length ys
     \<and> (list_all (\<lambda>(x, y). \<bar>x - y\<bar> \<le> absolute) (zip xs ys)
        \<or> list_all (\<lambda>(x, y). \<bar>x - y\<bar> \<le> relative * max \<bar>x\<bar> (1 / 10 ^ 30)) (zip xs ys))"

lemma foldl_max: "foldl max x xs = Max (set (x # xs))" for x :: "'a::linorder"
proof -
  have "foldl max x xs = fold max xs x" by (induction xs arbitrary: x) (simp_all add: max.commute)
  then show ?thesis by (simp only: Max.set_eq_fold)
qed

lemma py_max_ge: "py_max xs = Inr m \<Longrightarrow> x \<in> set xs \<Longrightarrow> x \<le> m"
  by (cases xs) (auto simp: py_max_def foldl_max simp del: foldl_Cons)

lemma assert_equivalent_close:
  assumes "assert_equivalent fmt reference candidate absolute relative d = Inr r"
  shows "close_models absolute relative reference candidate"
proof -
  from assms obtain a b where len: "length reference = length candidate"
    and a: "py_max (map difference (zip reference candidate)) = Inr a"
    and b: "py_max (map relative_difference (zip reference candidate)) = Inr b" and small: "a \<le> absolute \<or> b \<le> relative"
    by (auto simp: assert_equivalent_def max_error_def bindE_eq_Inr split: if_splits)
  have "\<bar>x - y\<bar> \<le> a" if "(x, y) \<in> set (zip reference candidate)" for x y
    using py_max_ge [OF a] that by (force simp: difference_def)
  moreover have "\<bar>x - y\<bar> \<le> b * max \<bar>x\<bar> (1 / 10 ^ 30)" if "(x, y) \<in> set (zip reference candidate)" for x y
  proof -
    have "0 < max \<bar>x\<bar> (1 / 10 ^ 30)" by simp
    moreover have "\<bar>x - y\<bar> / max \<bar>x\<bar> (1 / 10 ^ 30) \<le> b" using py_max_ge [OF b] that by (force simp: relative_difference_def)
    ultimately show ?thesis by (simp add: pos_divide_le_eq)
  qed
  ultimately have bounds: "\<forall>(x, y)\<in>set (zip reference candidate). \<bar>x - y\<bar> \<le> a"
    "\<forall>(x, y)\<in>set (zip reference candidate). \<bar>x - y\<bar> \<le> b * max \<bar>x\<bar> (1 / 10 ^ 30)" by blast+
  show ?thesis
  proof (cases "a \<le> absolute")
    case True
    then have "\<forall>(x, y)\<in>set (zip reference candidate). \<bar>x - y\<bar> \<le> absolute" using bounds(1) by fastforce
    then show ?thesis using len by (simp add: close_models_def list_all_iff)
  next
    case False
    have "b * max \<bar>x\<bar> (1 / 10 ^ 30) \<le> relative * max \<bar>x\<bar> (1 / 10 ^ 30)" for x
      using small False by (intro mult_right_mono) simp_all
    then have "\<forall>(x, y)\<in>set (zip reference candidate). \<bar>x - y\<bar> \<le> relative * max \<bar>x\<bar> (1 / 10 ^ 30)"
      using bounds(2) by (blast intro: order_trans)
    then show ?thesis using len by (simp add: close_models_def list_all_iff)
  qed
qed

definition job_inv :: "models res option \<Rightarrow> bool" where
  "job_inv s \<longleftrightarrow> s = None"

definition job_post :: "job_environment \<Rightarrow> nat \<Rightarrow> rat \<Rightarrow> bool \<Rightarrow> models res option \<Rightarrow> bool" where
  "job_post e nodes deadline expired s \<longleftrightarrow> (\<forall>models. s = Some (Inr models) \<longrightarrow>
     (\<exists>i. jp_test_time (je_polls e i) < deadline \<and> models_from_logs (merged_logs nodes (je_polls e i)) = Inr models))"

interpretation job: polled "\<lambda>i. jp_test_time (je_polls e i) < deadline" "\<lambda>i. job_body nodes (je_polls e i)"
  "\<lambda>_. job_inv" "job_post e nodes deadline" for e nodes deadline
proof (unfold_locales, goal_cases)
  case (1 i s t)
  then show ?case by (auto simp: job_body_def job_inv_def split: sum.splits py_error.splits)
next
  case (2 i s t)
  then have "models_from_logs (merged_logs nodes (je_polls e i)) = Inr models" if "t = Some (Inr models)" for models
    using that by (auto simp: job_body_def split: sum.splits py_error.splits)
  with 2(2) show ?case unfolding job_post_def by blast
next
  case (3 i s)
  then show ?case by (simp add: job_post_def job_inv_def)
qed

lemma await_models_seen:
  assumes "await_models e nodes timeout_seconds = Some (Inr models)"
  shows "\<exists>i. jp_test_time (je_polls e i) < je_started e + of_int timeout_seconds
    \<and> models_from_logs (merged_logs nodes (je_polls e i)) = Inr models"
proof -
  obtain s where s: "poll_loop (\<lambda>i. jp_test_time (je_polls e i) < je_started e + of_int timeout_seconds)
      (\<lambda>i. job_body nodes (je_polls e i)) 0 None = Some (False, s)" and "s = Some (Inr models)"
    using assms by (auto simp: await_models_def bind_eq_Some_conv split: if_splits)
  with job.loop_post [OF s] show ?thesis by (simp add: job_inv_def job_post_def)
qed

lemma models_from_logs_ranks: "models_from_logs log_text = Inr models \<Longrightarrow> set (map fst models) = {0..<RANKS}"
  by (auto simp: models_from_logs_def bindE_eq_Inr split: if_splits)

lemma thenE_Inr: "thenE m f = Some (Inr y) \<longleftrightarrow> (\<exists>x. m = Some (Inr x) \<and> f x = Some (Inr y))"
  by (auto simp: thenE_def split: option.splits sum.splits)

lemma finallyE_Inr: "finallyE m c = Some (Inr y) \<Longrightarrow> m = Some (Inr y)"
  by (auto simp: finallyE_def bind_eq_Some_conv thenE_Inr)

lemma within_run_close:
  assumes "within_run fmt stack models = Inr cs" and "1 \<le> rank" and "rank < RANKS"
  shows "close_models (1 / 10 ^ 12) (1 / 10 ^ 12) (the (map_of models 0)) (the (map_of models rank))"
proof -
  from assms have "rank \<in> set [1..<RANKS]" by simp
  with assms(1) obtain c where "assert_equivalent fmt (the (map_of models 0)) (the (map_of models rank)) (1 / 10 ^ 12) (1 / 10 ^ 12)
      (''rank '' @ show_nat rank @ '' in '' @ stack) = Inr c"
    unfolding within_run_def by (blast dest: mapE_element)
  then show ?thesis by (rule assert_equivalent_close)
qed

definition job_evidence :: "job_environment \<Rightarrow> nat \<Rightarrow> int \<Rightarrow> job_result \<Rightarrow> nat \<Rightarrow> models \<Rightarrow> bool" where
  "job_evidence e nodes timeout_seconds r i models \<longleftrightarrow>
     jp_test_time (je_polls e i) < je_started e + of_int timeout_seconds
     \<and> models_from_logs (merged_logs nodes (je_polls e i)) = Inr models \<and> map_of models 0 = Some (jr_model r)
     \<and> set (map fst models) = {0..<RANKS}
     \<and> list_all (\<lambda>rank. \<exists>m. map_of models rank = Some m \<and> close_models (1 / 10 ^ 12) (1 / 10 ^ 12) (jr_model r) m) [1..<RANKS]"

text \<open>
  A job that completes has been observed: some round before the deadline read a final model of every
  rank from the merged logs, the reported model is that of rank 0, and the other models equal it within
  the tolerance.
\<close>

lemma run_once_evidence:
  assumes "run_once loads fmt e nodes repetition timeout_seconds = Some (Inr r)"
  shows "\<exists>i models. job_evidence e nodes timeout_seconds r i models"
proof -
  obtain models where models: "await_models e nodes timeout_seconds = Some (Inr models)"
    and report: "job_report loads fmt e nodes repetition models = Inr r"
    using assms by (auto simp: run_once_def thenE_Inr Let_def split: if_splits dest!: finallyE_Inr)
  obtain i where i: "jp_test_time (je_polls e i) < je_started e + of_int timeout_seconds"
    "models_from_logs (merged_logs nodes (je_polls e i)) = Inr models" using await_models_seen [OF models] by blast
  obtain cs where cs: "within_run fmt (dp_stack nodes repetition) models = Inr cs" and r: "jr_model r = the (map_of models 0)"
    using report by (auto simp: job_report_def bindE_eq_Inr Let_def)
  note ranks = models_from_logs_ranks [OF i(2)]
  then have some: "\<exists>m. map_of models rank = Some m" if "rank < RANKS" for rank
    using that by (metis atLeastLessThan_iff list.set_map map_of_eq_None_iff not_None_eq zero_le)
  have "list_all (\<lambda>rank. \<exists>m. map_of models rank = Some m \<and> close_models (1 / 10 ^ 12) (1 / 10 ^ 12) (jr_model r) m) [1..<RANKS]"
    using within_run_close [OF cs] some r by (fastforce simp: list_all_iff)
  moreover have "map_of models 0 = Some (jr_model r)" using some [of 0] r by (auto simp: RANKS_def)
  ultimately show ?thesis using i ranks unfolding job_evidence_def by blast
qed

text \<open>A loop that appends, in every round, the results of the round's points to the list \<open>out\<close>.\<close>

lemma foldM_appends:
  assumes "foldM f xs s = Some (Inr t)"
    and "\<And>x s t. f x s = Some (Inr t) \<Longrightarrow> \<exists>ds. out t = out s @ ds \<and> list_all2 R (points x) ds"
  shows "\<exists>ds. out t = out s @ ds \<and> list_all2 R (concat (map points xs)) ds"
  using assms(1)
proof (induction xs arbitrary: s)
  case (Cons x xs)
  then obtain s' where "f x s = Some (Inr s')" "foldM f xs s' = Some (Inr t)" by (auto simp: thenE_Inr)
  with Cons.IH [of s'] assms(2) [of x s s'] show ?case by (auto intro: list_all2_appendI)
qed simp

text \<open>
  What is known of the summary of a point: it is of this repetition and node count, their job was observed,
  and its model agrees with the reference.
\<close>

definition summary_sound ::
  "(nat \<Rightarrow> int \<Rightarrow> job_environment) \<Rightarrow> dp_arguments \<Rightarrow> real list \<Rightarrow> int \<times> nat \<Rightarrow> dp_summary \<Rightarrow> bool" where
  "summary_sound world a expected = (\<lambda>(repetition, nodes) s.
     jr_repetition (ds_result s) = repetition \<and> jr_nodes (ds_result s) = nodes
     \<and> (\<exists>i models. job_evidence (world nodes repetition) nodes (da_timeout_seconds a) (ds_result s) i models)
     \<and> close_models (da_absolute_tolerance a) (da_relative_tolerance a) expected (jr_model (ds_result s)))"

lemma run_once_point:
  "run_once loads fmt e nodes repetition timeout_seconds = Some (Inr r) \<Longrightarrow> jr_repetition r = repetition \<and> jr_nodes r = nodes"
  by (auto simp: run_once_def job_report_def thenE_Inr bindE_eq_Inr Let_def split: if_splits dest!: finallyE_Inr)

lemma run_node_sound:
  assumes "run_node loads fmt world a expected repetition nodes s = Some (Inr t)"
  shows "\<exists>ds. snd t = snd s @ ds \<and> list_all2 (summary_sound world a expected) [(repetition, nodes)] ds"
proof -
  from assms obtain r c b where r: "run_once loads fmt (world nodes repetition) nodes repetition (da_timeout_seconds a) = Some (Inr r)"
    and c: "assert_equivalent fmt expected (jr_model r) (da_absolute_tolerance a) (da_relative_tolerance a)
        (show_nat nodes @ ''-node repetition '' @ str_int repetition @ '' against reference'') = Inr c"
    and t: "snd t = snd s @ [\<lparr>ds_result = r, ds_baseline_comparison = b, ds_reference_comparison = c\<rparr>]"
    by (auto simp: run_node_def thenE_Inr bindE_eq_Inr Let_def)
  have "summary_sound world a expected (repetition, nodes) \<lparr>ds_result = r, ds_baseline_comparison = b, ds_reference_comparison = c\<rparr>"
    using run_once_evidence [OF r] run_once_point [OF r] assert_equivalent_close [OF c] by (simp add: summary_sound_def)
  with t show ?thesis by simp
qed

lemma run_repetition_sound:
  assumes "run_repetition loads fmt world a expected repetition t = Some (Inr u)"
  shows "\<exists>ds. u = t @ ds \<and> list_all2 (summary_sound world a expected) (map (Pair repetition) (da_nodes a)) ds"
proof -
  obtain s where s: "foldM (run_node loads fmt world a expected repetition) (da_nodes a) (None, t) = Some (Inr s)" "u = snd s"
    using assms by (auto simp: run_repetition_def thenE_Inr)
  have "concat (map (\<lambda>nodes. [(repetition, nodes)]) ns) = map (Pair repetition) ns" for ns by (induction ns) simp_all
  moreover have "\<exists>ds. snd s = snd (None :: real list option, t) @ ds
      \<and> list_all2 (summary_sound world a expected) (concat (map (\<lambda>nodes. [(repetition, nodes)]) (da_nodes a))) ds"
    by (rule foldM_appends [OF s(1)]) (rule run_node_sound)
  ultimately show ?thesis using s(2) by simp
qed

text \<open>
  C32. An accepted matrix reproduces the reference: it has exactly one summary for every repetition and node
  count, in this order, each of the job of this point. That job was observed: some round before its
  deadline read from the merged logs a final model of every rank, all within 1e-12 of the reported one. The
  reported model agrees with the pure-Python reference model within the given tolerances, in every
  parameter. The statement is about logs in the format that the pattern of the runner reads; C33 shows
  that the CPU ranks of this repository print another one, so no job of theirs is accepted.
\<close>

theorem dp_matrix_matches_reference:
  assumes "run_mlp_dp_matrix loads fmt world a = Some (Inr summaries)"
  shows "\<exists>expected. reference_model ''rank_ordered'' = Inr expected
    \<and> list_all2 (summary_sound world a expected)
        (concat (map (\<lambda>repetition. map (Pair repetition) (da_nodes a)) [1..da_repetitions a])) summaries"
proof -
  obtain expected where expected: "reference_model ''rank_ordered'' = Inr expected"
    and run: "foldM (run_repetition loads fmt world a expected) [1..da_repetitions a] [] = Some (Inr summaries)"
    using assms by (auto simp: run_mlp_dp_matrix_def thenE_Inr split: if_splits)
  have "\<exists>ds. summaries = [] @ ds \<and> list_all2 (summary_sound world a expected)
      (concat (map (\<lambda>repetition. map (Pair repetition) (da_nodes a)) [1..da_repetitions a])) ds"
    by (rule foldM_appends [of _ _ _ _ "\<lambda>summaries. summaries", OF run]) (rule run_repetition_sound)
  with expected show ?thesis by simp
qed

definition zero_model :: "real list" where
  "zero_model = replicate 51 0"

text \<open>The marker line that the pattern expects.\<close>

definition marker_line :: "nat \<Rightarrow> nat \<Rightarrow> nat \<Rightarrow> string \<Rightarrow> string" where
  "marker_line rank iterations parameters values = ''MLP_DP_RESULT rank='' @ show_nat rank @ '' iterations='' @ show_nat iterations
     @ '' parameters='' @ show_nat parameters @ '' values='' @ values @ [newline]"

definition zero_text :: string where
  "zero_text = concat (replicate 51 ''0,'')"

definition dp_log :: string where
  "dp_log = concat (map (\<lambda>rank. marker_line rank 100 51 zero_text) [0..<8])"

definition demo_job :: job_environment where
  "demo_job = \<lparr>je_removal_before = (0, \<lambda>_. gone_poll), je_started = 0, je_deploy_code = 0,
     je_polls = (\<lambda>_. \<lparr>jp_test_time = 1, jp_logs = (\<lambda>_. dp_log)\<rparr>), je_complete_log = (\<lambda>_. []), je_finished = 10,
     je_removal_after = (0, \<lambda>_. gone_poll)\<rparr>"

lemma marker_line_findall:
  assumes "values \<noteq> []" and "set values \<subseteq> set value_chars"
  shows "rx_findall RESULT (marker_line rank iterations parameters values @ rest)
    = [show_nat rank, show_nat iterations, show_nat parameters, values] # rx_findall RESULT rest"
proof -
  have chars: "\<not> is_digit (CHR '' '')" "newline \<notin> set value_chars" by (simp_all add: is_digit_def newline_def value_chars_def)
  have run: "takeWhile (\<lambda>c. c \<in> set value_chars) (values @ newline # rest) = values"
    "dropWhile (\<lambda>c. c \<in> set value_chars) (values @ newline # rest) = newline # rest"
    using assms(2) chars(2) by (auto simp: takeWhile_append2 dropWhile_append2 subset_iff)
  have "rx_match RESULT (marker_line rank iterations parameters values @ rest)
      = Some ([show_nat rank, show_nat iterations, show_nat parameters, values], newline # rest)"
    using assms(1) chars by (simp add: RESULT_def marker_line_def takeWhile_show_nat dropWhile_show_nat run)
  moreover have "rx_findall RESULT (newline # rest) = rx_findall RESULT rest"
    using rx_findall_foreign [of "[newline]" "CHR ''M''"] by (simp add: RESULT_def newline_def)
  ultimately show ?thesis by (cases "marker_line rank iterations parameters values @ rest") (auto simp: marker_line_def)
qed

lemma dp_log_markers: "rx_findall RESULT dp_log = map (\<lambda>rank. [show_nat rank, show_nat 100, show_nat 51, zero_text]) [0..<8]"
proof -
  have "zero_text \<noteq> []" "set zero_text \<subseteq> set value_chars" by (simp_all add: zero_text_def value_chars_def)
  then have "rx_findall RESULT (concat (map (\<lambda>rank. marker_line rank 100 51 zero_text) ranks))
      = map (\<lambda>rank. [show_nat rank, show_nat 100, show_nat 51, zero_text]) ranks" for ranks
    by (induction ranks) (simp_all add: marker_line_findall)
  then show ?thesis by (simp add: dp_log_def)
qed

lemma zero_items: "filter (\<lambda>item. item \<noteq> []) (split_on (CHR '','') (concat (replicate n ''0,''))) = replicate n ''0''"
  by (induction n) simp_all

lemma zero_values: "mapE py_float (filter (\<lambda>item. item \<noteq> []) (split_on (CHR '','') zero_text)) = Inr zero_model"
proof -
  have "py_float ''0'' = Inr 0"
    by (simp add: py_float_def signed_text_def decimal_text_def partition_at_def text_eval)
  then have "mapE py_float (replicate n ''0'') = Inr (replicate n 0)" for n by (induction n) simp_all
  then show ?thesis unfolding zero_text_def zero_items zero_model_def .
qed

lemma add_zero_model:
  "map_of models rank = None \<Longrightarrow> add_model [show_nat rank, show_nat 100, show_nat 51, zero_text] models = Inr (AList.update rank zero_model models)"
  using zero_values by (simp add: add_model_def Let_def) (simp add: zero_model_def)

lemma dp_log_models: "models_from_logs dp_log = Inr (map (\<lambda>rank. (rank, zero_model)) [0..<8])"
  by (simp add: models_from_logs_def dp_log_markers upt_rec add_zero_model RANKS_def) (auto simp: atLeastLessThan_def)

lemma zero_equivalent: "assert_equivalent fmt zero_model zero_model (1 / 10 ^ 12) (1 / 10 ^ 12) d = Inr (0, 0)"
proof -
  have zip: "zip zero_model zero_model = replicate 51 (0, 0)" by (simp add: zero_model_def)
  have top: "py_max (replicate (Suc n) 0) = Inr 0" for n by (induction n) (simp_all add: py_max_def)
  have "py_max (map difference (zip zero_model zero_model)) = Inr 0"
    "py_max (map relative_difference (zip zero_model zero_model)) = Inr 0"
    using top [of 50] unfolding zip map_replicate by (simp_all add: difference_def relative_difference_def)
  then show ?thesis by (simp add: assert_equivalent_def max_error_def)
qed

lemma demo_job_completes:
  "\<exists>r. run_once (\<lambda>_. Inl JSONDecodeError) fmt demo_job 1 1 3600 = Some (Inr r) \<and> jr_model r = zero_model"
proof -
  let ?ms = "map (\<lambda>rank. (rank, zero_model)) [0..<8]"
  have lookup: "map_of ?ms rank = Some zero_model" if "rank < 8" for rank :: nat
    using that by (simp add: map_of_map_restrict [of "\<lambda>_. zero_model", simplified comp_def])
  have await: "await_models demo_job 1 3600 = Some (Inr ?ms)"
    by (simp add: await_models_def poll_loop.simps demo_job_def job_body_def merged_logs_def dp_log_models)
  have run: "within_run fmt stack ?ms = Inr (map (\<lambda>_. (0, 0)) [1..<8])" for stack
    unfolding within_run_def RANKS_def by (rule mapE_all_Inr) (use lookup zero_equivalent in simp)
  have metrics: "\<exists>m. pipe_metric_summary (\<lambda>_. Inl JSONDecodeError) [[]] 10 = Inr m"
    by (simp add: pipe_metric_summary_def log_metrics_def split_lines_def map_filter_def cross_metrics_def metric_sum_def divide_def Let_def)
  have seven: "[Suc 0..<8] = [1, 2, 3, 4, 5, 6, 7]" by (simp add: upt_rec)
  have wall: "round3 10 = 10" by (simp add: round3_def round_even_def)
  have "\<exists>r. job_report (\<lambda>_. Inl JSONDecodeError) fmt demo_job 1 1 ?ms = Inr r \<and> jr_model r = zero_model"
    using metrics lookup [of 0] by (auto simp: job_report_def run demo_job_def wall Let_def py_max_def seven)
  moreover have "je_removal_before demo_job = (0, \<lambda>_. gone_poll)" "je_removal_after demo_job = (0, \<lambda>_. gone_poll)"
    "je_deploy_code demo_job = 0" by (simp_all add: demo_job_def)
  ultimately show ?thesis using await by (auto simp: run_once_def Let_def finallyE_def thenE_def demo_removal)
qed

lemma reference_length: "reference_model ''rank_ordered'' = Inr expected \<Longrightarrow> length expected = 51"
proof -
  have "length ((training_step f ^^ n) initial_model) = PARAMETERS" for f n
    by (induction n) (simp_all add: initial_model_def training_step_def sgd_update_def)
  moreover assume "reference_model ''rank_ordered'' = Inr expected"
  ultimately show ?thesis
    by (auto simp: reference_model_def PARAMETERS_def W1_def B1_def W2_def B2_def FEATURES_def HIDDEN_def CLASSES_def)
qed

theorem dp_matrix_matches_reference_witness:
  "\<exists>a summaries expected. run_mlp_dp_matrix (\<lambda>_. Inl JSONDecodeError) (\<lambda>_. []) (\<lambda>_ _. demo_job) a = Some (Inr summaries)
     \<and> reference_model ''rank_ordered'' = Inr expected \<and> list_all2 (summary_sound (\<lambda>_ _. demo_job) a expected) [(1, 1)] summaries"
proof -
  obtain expected where expected: "reference_model ''rank_ordered'' = Inr expected" by (auto simp: reference_model_def)
  obtain r where r: "run_once (\<lambda>_. Inl JSONDecodeError) (\<lambda>_. []) demo_job 1 1 3600 = Some (Inr r)" "jr_model r = zero_model"
    using demo_job_completes by blast
  have "length (zip expected zero_model) = 51" using reference_length [OF expected] by (simp add: zero_model_def)
  then obtain absolute relative where err: "max_error expected zero_model = Inr (absolute, relative)"
    using reference_length [OF expected]
    by (cases "zip expected zero_model") (auto simp: max_error_def py_max_def zero_model_def)
  define a where "a = \<lparr>da_nodes = [1], da_repetitions = 1, da_timeout_seconds = 3600, da_absolute_tolerance = absolute,
    da_relative_tolerance = relative\<rparr>"
  have "\<exists>summaries. run_mlp_dp_matrix (\<lambda>_. Inl JSONDecodeError) (\<lambda>_. []) (\<lambda>_ _. demo_job) a = Some (Inr summaries)"
    using r err by (simp add: run_mlp_dp_matrix_def expected thenE_def run_repetition_def run_node_def a_def assert_equivalent_def Let_def)
  then obtain summaries where s: "run_mlp_dp_matrix (\<lambda>_. Inl JSONDecodeError) (\<lambda>_. []) (\<lambda>_ _. demo_job) a = Some (Inr summaries)" by blast
  from dp_matrix_matches_reference [OF s] s show ?thesis by (auto simp: a_def)
qed

section \<open>The markers the program prints\<close>

text \<open>
  The line that a CPU rank prints (\<open>print_result\<close> of \<open>real/mlp_dp_cpu.cpp\<close>), with the text of the values, and
  a log of such lines between other text.
\<close>

definition result_line :: "nat \<Rightarrow> nat \<Rightarrow> nat \<Rightarrow> string \<Rightarrow> string" where
  "result_line rank iterations steady_ns values = ''MLP_DP_RESULT rank='' @ show_nat rank @ '' iterations='' @ show_nat iterations
     @ '' steady_ns='' @ show_nat steady_ns @ '' parameters='' @ show_nat PARAMETERS @ '' values='' @ values @ [newline]"

definition printed_log :: "(string \<times> nat \<times> nat \<times> nat \<times> string) list \<Rightarrow> string" where
  "printed_log events = concat (map (\<lambda>(other, rank, iterations, steady_ns, values).
     other @ result_line rank iterations steady_ns values) events)"

definition plain_event :: "string \<times> nat \<times> nat \<times> nat \<times> string \<Rightarrow> bool" where
  "plain_event = (\<lambda>(other, _, _, _, values). CHR ''M'' \<notin> set other \<and> CHR ''M'' \<notin> set values)"

lemma result_line_unread:
  assumes "CHR ''M'' \<notin> set other" and "CHR ''M'' \<notin> set values"
  shows "rx_findall RESULT (other @ result_line rank iterations steady_ns values @ rest) = rx_findall RESULT rest"
proof -
  let ?tail = "''LP_DP_RESULT rank='' @ show_nat rank @ '' iterations='' @ show_nat iterations @ '' steady_ns='' @ show_nat steady_ns
     @ '' parameters='' @ show_nat PARAMETERS @ '' values='' @ values @ [newline]"
  have foreign: "\<forall>c\<in>set s. c \<noteq> CHR ''M'' \<Longrightarrow> rx_findall RESULT (s @ r) = rx_findall RESULT r" for s r
    unfolding RESULT_def by (rule rx_findall_foreign)
  have line: "result_line rank iterations steady_ns values = CHR ''M'' # ?tail" by (simp add: result_line_def)
  have "c \<noteq> CHR ''M''" if "is_digit c" for c using that by (auto simp: is_digit_def)
  then have "CHR ''M'' \<notin> set (show_nat n)" for n using show_nat_digits [of n] by (auto simp: list_all_iff)
  then have tail: "\<forall>c\<in>set ?tail. c \<noteq> CHR ''M''" using assms(2) by (auto simp: newline_def)
  have "\<not> is_digit (CHR '' '')" by (simp add: is_digit_def)
  then have "rx_match RESULT (CHR ''M'' # ?tail @ rest) = None"
    by (simp add: RESULT_def takeWhile_show_nat dropWhile_show_nat)
  then have "rx_findall RESULT (CHR ''M'' # ?tail @ rest) = rx_findall RESULT (?tail @ rest)" by simp
  moreover have "rx_findall RESULT (other @ CHR ''M'' # ?tail @ rest) = rx_findall RESULT (CHR ''M'' # ?tail @ rest)"
    using assms(1) by (intro foreign) auto
  ultimately show ?thesis using foreign [OF tail] line by simp
qed

lemma printed_log_unread:
  assumes "list_all plain_event events"
  shows "models_from_logs (printed_log events) = Inl (RuntimeError ''expected ranks 0..7, found []'')"
proof -
  have "rx_findall RESULT (printed_log events) = []"
    using assms by (induction events) (auto simp: printed_log_def plain_event_def result_line_unread)
  then show ?thesis by (simp add: models_from_logs_def show_list_def RANKS_def)
qed

text \<open>
  C33. Whatever the data ranks print, the runner does not see it: the printed marker carries the field
  \<open>steady_ns\<close> between the iterations and the parameters, which the pattern of the runner does not
  allow, so no model is read from a log of such markers and every deployed job ends in a timeout.
\<close>

theorem dp_job_always_times_out:
  assumes "\<And>i. \<exists>events. merged_logs nodes (je_polls e i) = printed_log events \<and> list_all plain_event events"
    and "je_deploy_code e = 0" and "je_started e + of_int timeout_seconds \<le> jp_test_time (je_polls e k)"
    and "removal (je_removal_before e) (dp_stack nodes repetition) = Some (Inr ())"
    and "removal (je_removal_after e) (dp_stack nodes repetition) = Some (Inr ())"
  shows "run_once loads fmt e nodes repetition timeout_seconds
    = Some (Inl (TimeoutError (''MLP-DP result markers did not appear within '' @ str_int timeout_seconds @ '' seconds'')))"
proof -
  have "job_body nodes (je_polls e i) s = Inr s" for i s
    using assms(1) [of i] printed_log_unread by (auto simp: job_body_def)
  then have "poll_loop (\<lambda>i. jp_test_time (je_polls e i) < je_started e + of_int timeout_seconds)
      (\<lambda>i. job_body nodes (je_polls e i)) 0 None = Some (True, None)"
    using assms(3) by (intro poll_loop_expires [of _ k]) simp_all
  then show ?thesis using assms(2,4,5) by (simp add: run_once_def await_models_def thenE_def finallyE_def Let_def)
qed

definition silent_job :: job_environment where
  "silent_job = demo_job\<lparr>je_polls := (\<lambda>k. \<lparr>jp_test_time = of_nat k,
     jp_logs = (\<lambda>slot. printed_log [([], slot, 100, 5, zero_text)])\<rparr>)\<rparr>"

theorem dp_job_always_times_out_witness:
  "run_once (\<lambda>_. Inl JSONDecodeError) (\<lambda>_. []) silent_job 1 1 60
     = Some (Inl (TimeoutError ''MLP-DP result markers did not appear within 60 seconds''))"
proof -
  have plain: "plain_event ([], 0, 100, 5, zero_text)" by (simp add: plain_event_def zero_text_def)
  have logs: "\<exists>events. merged_logs 1 (je_polls silent_job i) = printed_log events \<and> list_all plain_event events" for i
    using plain by (intro exI [of _ "[([], 0, 100, 5, zero_text)]"]) (simp add: silent_job_def merged_logs_def)
  have deadline: "je_started silent_job + of_int 60 \<le> jp_test_time (je_polls silent_job 60)"
    by (simp add: silent_job_def demo_job_def)
  have "removal (je_removal_before silent_job) stack = Some (Inr ())" "removal (je_removal_after silent_job) stack = Some (Inr ())" for stack
    by (simp_all add: silent_job_def demo_job_def demo_removal)
  moreover have "str_int 60 = ''60''" by (simp add: text_eval)
  moreover have "je_deploy_code silent_job = 0" by (simp add: silent_job_def demo_job_def)
  ultimately show ?thesis using dp_job_always_times_out [OF logs _ deadline, of 1] by simp
qed

end
