(* ===== verification/Summaries.thy ===== *)
theory Summaries
  imports TimingMetrics MlpDpRuns
begin

text \<open>
  The result tables: the metrics file that the collector writes (\<open>main\<close> of
  \<open>scripts/collect_timing_metrics.py\<close>), the summary of natural-completion runs that reads it back
  (\<open>scripts/summarize_dind_mlp_dp.py\<close>), the summaries of functional runs
  (\<open>scripts/summarize_functional_metrics.py\<close>, \<open>scripts/summarize_native_matrix.py\<close>), the table of
  steady-state reports (\<open>scripts/collect_steady_matrix.py\<close>) and the MNSIM compatibility backend
  (\<open>real/mnsim_compat.py\<close>). Floating-point values are exact rational numbers. File contents, the JSON
  parser and the offset of local time are parameters; writing CSV and JSON text is not modelled.
\<close>

section \<open>The metrics file\<close>

definition ns3_values :: "ns3_totals \<Rightarrow> (string, int) dict" where
  "ns3_values t =
     [(''ns3_records'', n3_records t), (''ns3_normal_records'', n3_normal_records t),
      (''ns3_special_records'', n3_special_records t), (''ns3_payload_bytes'', n3_payload_bytes t),
      (''ns3_normal_payload_bytes'', n3_normal_payload_bytes t),
      (''ns3_normal_source_sync_advance_cycles'', n3_source_sync_advance t),
      (''ns3_normal_destination_network_delay_cycles'', n3_destination_network_delay t),
      (''ns3_normal_destination_sync_block_cycles'', n3_destination_sync_block t)]"

definition dict_update :: "('k, 'v) dict \<Rightarrow> ('k, 'v) dict \<Rightarrow> ('k, 'v) dict" where
  "dict_update d e = foldl (\<lambda>d kv. AList.update (fst kv) (snd kv) d) d e"

definition key_value_line :: "(string, int) dict \<Rightarrow> string \<Rightarrow> string" where
  "key_value_line values k = k @ ''='' @ str_int (the (map_of values k))"

definition metrics_text :: "(string, int) dict \<Rightarrow> string" where
  "metrics_text values = concat (map (\<lambda>k. key_value_line values k @ [newline]) (sort (map fst values)))"

definition collect_metrics ::
  "(string \<Rightarrow> jobj res) \<Rightarrow> string list option \<Rightarrow> (string, string) dict list option \<Rightarrow> string res" where
  "collect_metrics loads transport_log ns3 =
     bindE (collect_pipe_metrics loads transport_log) (\<lambda>report.
     bindE (collect_ns3_metrics ns3) (\<lambda>totals.
       Inr (metrics_text (dict_update (pipe_values report) (ns3_values totals)))))"

section \<open>Natural-completion runs\<close>

definition FINAL_CYCLE_PATTERN :: "rx list" where
  "FINAL_CYCLE_PATTERN = [Lit ''**** End of Simulation ****'', Gap, Lit ''Benchmark elapses '', Digits, Lit '' cycle'']"

text \<open>
  \<open>datetime.strptime(text, "%Y-%m-%dT%H:%M:%S")\<close> as seconds from 1970 on the local clock: a year of four
  digits and fields of one or two digits in their ranges.
\<close>

definition leap_year :: "nat \<Rightarrow> bool" where
  "leap_year y \<longleftrightarrow> y mod 4 = 0 \<and> (y mod 100 \<noteq> 0 \<or> y mod 400 = 0)"

definition month_days :: "nat \<Rightarrow> nat list" where
  "month_days y = [31, if leap_year y then 29 else 28, 31, 30, 31, 30, 31, 31, 30, 31, 30, 31]"

definition day_ordinal :: "nat \<Rightarrow> nat \<Rightarrow> nat \<Rightarrow> int" where
  "day_ordinal y m d =
     int ((y - 1) * 365 + (y - 1) div 4 - (y - 1) div 100 + (y - 1) div 400 + sum_list (take (m - 1) (month_days y)) + d)"

definition date_field :: "nat set \<Rightarrow> nat \<Rightarrow> nat \<Rightarrow> string \<Rightarrow> nat option" where
  "date_field lengths low high s =
     (if length s \<in> lengths \<and> list_all is_digit s \<and> low \<le> digits_val s \<and> digits_val s \<le> high then Some (digits_val s) else None)"

definition parse_datetime :: "string \<Rightarrow> int res" where
  "parse_datetime s =
     (let bad = Inl (ValueError (''time data does not match format: '' @ s))
      in case map (split_on (CHR ''-'')) (split_on (CHR ''T'') s) of
           [[ys, ms, ds], [clock]] \<Rightarrow>
             (case split_on (CHR '':'') clock of
                [hs, mins, secs] \<Rightarrow>
                  (case (date_field {4} 1 9999 ys, date_field {1, 2} 1 12 ms, date_field {1, 2} 1 31 ds,
                         date_field {1, 2} 0 23 hs, date_field {1, 2} 0 59 mins, date_field {1, 2} 0 59 secs) of
                     (Some y, Some m, Some d, Some h, Some mi, Some sec) \<Rightarrow>
                       if d \<le> month_days y ! (m - 1)
                       then Inr ((day_ordinal y m d - 719163) * 86400 + int (h * 3600 + mi * 60 + sec))
                       else Inl (ValueError ''day is out of range for month'')
                   | _ \<Rightarrow> bad)
              | _ \<Rightarrow> bad)
         | _ \<Rightarrow> bad)"

text \<open>
  \<open>parse_timestamp\<close>; a naive \<open>datetime\<close> counts as local time, whose offset is a parameter. A fraction with
  other characters than digits is refused.
\<close>

definition parse_timestamp :: "(int \<Rightarrow> int) \<Rightarrow> string \<Rightarrow> rat res" where
  "parse_timestamp utc_offset value =
     (let (date_part, separator, fraction) = partition_at (CHR ''.'') (rev (dropWhile (\<lambda>c. c = CHR ''Z'') (rev value)))
      in if \<not> separator then Inl (ValueError ''not enough values to unpack'')
         else bindE (parse_datetime date_part) (\<lambda>local.
           if list_all is_digit fraction
           then Inr (of_int (local - utc_offset local) + of_nat (digits_val fraction) / 10 ^ length fraction)
           else Inl (ValueError (''could not convert string to float: 0.'' @ fraction))))"

definition add_key_value :: "string \<Rightarrow> (string, string) dict \<Rightarrow> (string, string) dict res" where
  "add_key_value line values =
     (let (key, separator, value) = partition_at (CHR ''='') line
      in if \<not> separator then Inl (ValueError (''invalid key=value line: '' @ line))
         else Inr (AList.update key value values))"

definition read_key_values :: "string \<Rightarrow> (string, string) dict res" where
  "read_key_values file_text = foldE add_key_value (split_lines file_text) []"

definition completion_cycles :: "string \<Rightarrow> nat res" where
  "completion_cycles coordinator_log =
     (let matches = rx_findall FINAL_CYCLE_PATTERN coordinator_log
      in if matches = [] then Inl (RuntimeError ''final benchmark cycle count is missing'')
         else Inr (digits_val (hd (last matches))))"

definition metric_int :: "(string, string) dict \<Rightarrow> string \<Rightarrow> int res" where
  "metric_int metrics k = int_text (dict_get metrics k ''0'')"

record scope_row =
  sc_dependency_wait :: rat
  sc_dependency_percent :: rat
  sc_transport_sync :: rat
  sc_transport_percent :: rat
  sc_pairs :: int
  sc_unmatched_writes :: int
  sc_unmatched_reads :: int
  sc_bytes :: int
  sc_records :: int

record dind_row =
  dr_nodes :: int
  dr_cycles :: nat
  dr_total_seconds :: rat
  dr_legosim :: scope_row
  dr_physical :: scope_row
  dr_ns3_normal_records :: int
  dr_ns3_source_sync :: int
  dr_ns3_network_delay :: int
  dr_ns3_sync_block :: int

definition seconds_of_ns :: "int \<Rightarrow> rat" where
  "seconds_of_ns ns = of_int ns / 1000000000"

definition scope_summary :: "(string, string) dict \<Rightarrow> rat \<Rightarrow> scope_group \<Rightarrow> scope_row res" where
  "scope_summary metrics total_seconds g =
     (let field = (\<lambda>name. metric_int metrics (group_name g @ ''_'' @ name))
      in bindE (field ''sync_wall_union_ns'') (\<lambda>wait_ns.
         bindE (field ''transport_exposed_sync_wall_union_ns'') (\<lambda>sync_ns.
         bindE (field ''transport_pairs'') (\<lambda>pairs.
         bindE (field ''transport_unmatched_writes'') (\<lambda>unmatched_writes.
         bindE (field ''transport_unmatched_reads'') (\<lambda>unmatched_reads.
         bindE (field ''bytes'') (\<lambda>bytes.
         bindE (field ''records'') (\<lambda>records.
           Inr \<lparr>sc_dependency_wait = seconds_of_ns wait_ns, sc_dependency_percent = 100 * seconds_of_ns wait_ns / total_seconds,
             sc_transport_sync = seconds_of_ns sync_ns, sc_transport_percent = 100 * seconds_of_ns sync_ns / total_seconds,
             sc_pairs = pairs, sc_unmatched_writes = unmatched_writes, sc_unmatched_reads = unmatched_reads,
             sc_bytes = bytes, sc_records = records\<rparr>))))))))"

text \<open>A result directory: the two key files and the coordinator log.\<close>

record run_directory =
  rd_timing :: string
  rd_metrics :: string
  rd_coordinator_log :: string

definition run_duration :: "(int \<Rightarrow> int) \<Rightarrow> (string, string) dict \<Rightarrow> rat res" where
  "run_duration utc_offset timing =
     bindE (bindE (dict_item timing ''finish'') (parse_timestamp utc_offset)) (\<lambda>finish.
     bindE (bindE (dict_item timing ''start'') (parse_timestamp utc_offset)) (\<lambda>start.
       if finish - start \<le> 0 then Inl (RuntimeError ''non-positive coordinator duration'') else Inr (finish - start)))"

definition dind_row_of :: "(string, string) dict \<Rightarrow> int \<Rightarrow> nat \<Rightarrow> rat \<Rightarrow> dind_row res" where
  "dind_row_of metrics nodes final_cycles total_seconds =
     bindE (scope_summary metrics total_seconds Cross_legosim) (\<lambda>legosim.
     bindE (scope_summary metrics total_seconds Cross_host) (\<lambda>physical.
     bindE (metric_int metrics ''ns3_normal_records'') (\<lambda>normal_records.
     bindE (metric_int metrics ''ns3_normal_source_sync_advance_cycles'') (\<lambda>source_sync.
     bindE (metric_int metrics ''ns3_normal_destination_network_delay_cycles'') (\<lambda>network_delay.
     bindE (metric_int metrics ''ns3_normal_destination_sync_block_cycles'') (\<lambda>sync_block.
       Inr \<lparr>dr_nodes = nodes, dr_cycles = final_cycles, dr_total_seconds = total_seconds, dr_legosim = legosim,
         dr_physical = physical, dr_ns3_normal_records = normal_records, dr_ns3_source_sync = source_sync,
         dr_ns3_network_delay = network_delay, dr_ns3_sync_block = sync_block\<rparr>))))))"

definition collect_run :: "(int \<Rightarrow> int) \<Rightarrow> run_directory \<Rightarrow> int \<Rightarrow> dind_row res" where
  "collect_run utc_offset d nodes =
     bindE (read_key_values (rd_timing d)) (\<lambda>timing.
     bindE (read_key_values (rd_metrics d)) (\<lambda>metrics.
     if map_of timing ''exit'' \<noteq> Some ''0'' then Inl (RuntimeError ''coordinator exit is not zero'')
     else if \<not> sublist ''End of Simulation'' (rd_coordinator_log d)
     then Inl (RuntimeError ''natural-completion marker is missing'')
     else bindE (completion_cycles (rd_coordinator_log d)) (\<lambda>final_cycles.
          bindE (run_duration utc_offset timing) (dind_row_of metrics nodes final_cycles))))"

definition parse_explicit_run :: "string \<Rightarrow> (int \<times> string) res" where
  "parse_explicit_run value =
     (let (node_text, separator, directory_text) = partition_at (CHR ''='') value
      in if \<not> separator \<or> node_text = [] \<or> directory_text = []
         then Inl (SystemExit ''--run must use NODES=RESULT_DIRECTORY, for example 4=/data/nodes4'')
         else case int_text node_text of
                Inl (ValueError _) \<Rightarrow> Inl (SystemExit (''invalid node count in --run: '' @ node_text))
              | Inl e \<Rightarrow> Inl e
              | Inr nodes \<Rightarrow> if nodes \<le> 0 then Inl (SystemExit ''--run node count must be positive'')
                             else Inr (nodes, directory_text))"

definition with_speedup :: "dind_row list \<Rightarrow> (dind_row \<times> rat) list" where
  "with_speedup rows =
     (let sorted_rows = sort_key dr_nodes rows
      in map (\<lambda>row. (row, dr_total_seconds (hd sorted_rows) / dr_total_seconds row)) sorted_rows)"

definition summarize_runs :: "(int \<Rightarrow> int) \<Rightarrow> (string \<Rightarrow> run_directory) \<Rightarrow> string list \<Rightarrow> (dind_row \<times> rat) list res" where
  "summarize_runs utc_offset directory run_arguments =
     bindE (mapE parse_explicit_run run_arguments) (\<lambda>explicit_runs.
       if explicit_runs = [] then Inl (SystemExit ''provide --run or --input-root'')
       else if \<not> distinct (map fst explicit_runs) then Inl (SystemExit ''each --run node count may be specified only once'')
       else bindE (mapE (\<lambda>(nodes, path). collect_run utc_offset (directory path) nodes) explicit_runs) (\<lambda>rows.
            Inr (with_speedup rows)))"

definition summarize_matrix :: "(int \<Rightarrow> int) \<Rightarrow> (nat \<Rightarrow> run_directory) \<Rightarrow> nat list \<Rightarrow> (dind_row \<times> rat) list res" where
  "summarize_matrix utc_offset directory node_counts =
     (if node_counts = [] \<or> \<not> set node_counts \<subseteq> {1, 2, 4, 8} then Inl (SystemExit ''argument --nodes: invalid choice'')
      else bindE (mapE (\<lambda>nodes. collect_run utc_offset (directory nodes) (int nodes)) node_counts) (\<lambda>rows.
           Inr (with_speedup rows)))"

section \<open>The summary reads what the collector wrote\<close>

definition plain_key :: "string \<Rightarrow> bool" where
  "plain_key k \<longleftrightarrow> list_all (\<lambda>c. \<not> is_line_break c \<and> c \<noteq> CHR ''='') k"

lemma plain_key_append [simp]: "plain_key (a @ b) \<longleftrightarrow> plain_key a \<and> plain_key b"
  by (simp add: plain_key_def)

lemma plain_group_name [simp]: "plain_key (group_name g)"
  by (cases g; simp only: group_name.simps; code_simp)

lemma map_of_dict_update: "distinct (map fst e) \<Longrightarrow> map_of (dict_update d e) k = (map_of d ++ map_of e) k"
proof -
  assume "distinct (map fst e)"
  then have "map_of (rev e) = map_of e" by (intro map_of_inject_set [THEN iffD2]) (simp_all add: rev_map [symmetric])
  then show ?thesis by (simp add: dict_update_def foldl_update_map_of)
qed

lemma distinct_dict_update: "distinct (map fst d) \<Longrightarrow> distinct (map fst (dict_update d e))"
  unfolding dict_update_def by (induction e arbitrary: d) (auto intro: distinct_update)

lemma keys_dict_update: "fst ` set (dict_update d e) = fst ` set d \<union> fst ` set e"
  unfolding dict_update_def by (induction e arbitrary: d) (auto simp: dom_update)

lemma partition_plain: "plain_key k \<Longrightarrow> partition_at (CHR ''='') (k @ ''='' @ v) = (k, True, v)"
proof -
  assume "plain_key k"
  then have "\<forall>c\<in>set k. c \<noteq> CHR ''=''" by (auto simp: plain_key_def list_all_iff)
  then have "takeWhile (\<lambda>c. c \<noteq> CHR ''='') (k @ CHR ''='' # v) = k" "dropWhile (\<lambda>c. c \<noteq> CHR ''='') (k @ CHR ''='' # v) = CHR ''='' # v"
    by (simp_all add: takeWhile_append2 dropWhile_append2)
  then show ?thesis by (simp add: partition_at_def)
qed

lemma str_int_line: "list_all (\<lambda>c. \<not> is_line_break c) (str_int i)"
proof -
  have "is_digit c \<or> c = CHR ''-'' \<Longrightarrow> \<not> is_line_break c" for c by (auto simp: is_digit_def is_line_break_def)
  then show ?thesis using str_int_chars by (auto simp: list_all_iff)
qed

lemma add_lines:
  "list_all plain_key ks \<Longrightarrow> distinct (map fst acc @ ks) \<Longrightarrow>
   foldE add_key_value (map (key_value_line d) ks) acc = Inr (acc @ map (\<lambda>k. (k, str_int (the (map_of d k)))) ks)"
proof (induction ks arbitrary: acc)
  case (Cons k ks)
  have "AList.update k v acc = acc @ [(k, v)]" for v using Cons.prems(2) by (induction acc) auto
  then have "add_key_value (key_value_line d k) acc = Inr (acc @ [(k, str_int (the (map_of d k)))])"
    using Cons.prems(1) partition_plain [of k] by (simp add: add_key_value_def key_value_line_def)
  with Cons show ?case by simp
qed simp

lemma read_metrics_text:
  assumes "distinct (map fst d)" and "list_all plain_key (map fst d)"
  shows "read_key_values (metrics_text d) = Inr (map (\<lambda>k. (k, str_int (the (map_of d k)))) (sort (map fst d)))"
proof -
  let ?ks = "sort (map fst d)"
  have plain: "list_all plain_key ?ks" using assms(2) by (auto simp: list_all_iff)
  then have "list_all (list_all (\<lambda>c. \<not> is_line_break c)) (map (key_value_line d) ?ks)"
    using str_int_line by (auto simp: list_all_iff key_value_line_def plain_key_def is_line_break_def)
  then have "split_lines (metrics_text d) = map (key_value_line d) ?ks"
    using split_lines_text [of "map (key_value_line d) ?ks"] by (simp add: metrics_text_def comp_def)
  then show ?thesis using add_lines [of ?ks "[]" d] plain assms(1) by (simp add: read_key_values_def)
qed

text \<open>The value of a key in the collector's report; a key that is missing counts as zero.\<close>

definition report_value :: "pipe_report \<Rightarrow> ns3_totals \<Rightarrow> string \<Rightarrow> int" where
  "report_value r t k = dict_get (dict_update (pipe_values r) (ns3_values t)) k 0"

lemma read_metric_int:
  assumes "distinct (map fst d)" and "list_all plain_key (map fst d)" and "read_key_values (metrics_text d) = Inr metrics"
  shows "metric_int metrics k = Inr (dict_get d k 0)"
proof -
  have m: "metrics = map (\<lambda>k. (k, str_int (the (map_of d k)))) (sort (map fst d))"
    using read_metrics_text [OF assms(1,2)] assms(3) by simp
  have "map_of metrics k = map_option str_int (map_of d k)"
  proof (cases "map_of d k")
    case None
    then show ?thesis unfolding m by (simp add: map_of_map_restrict restrict_map_def map_of_eq_None_iff)
  next
    case (Some v)
    then have "k \<in> fst ` set d" by (force dest: map_of_SomeD)
    with Some show ?thesis unfolding m by (simp add: map_of_map_restrict restrict_map_def)
  qed
  moreover have "int_text ''0'' = Inr 0" by code_simp
  ultimately show ?thesis by (auto simp: metric_int_def dict_get_def int_text_str_int split: option.splits)
qed

lemma plain_literals:
  "list_all plain_key [''_'', ''records'', ''bytes'', ''elapsed_ns'', ''sync_wait_ns'', ''writes'', ''reads'', ''_transport_'', ''pairs'',
     ''unmatched_writes'', ''unmatched_reads'', ''exposed_sync_wall_sum_ns'', ''exposed_sync_wall_union_ns'',
     ''_sync_wall_union_ns'', ''_sync_wall_interval_count'']"
  "list_all plain_key (map fst (ns3_values ns3_defaults))"
  by code_simp+

lemma pipe_values_plain: "list_all plain_key (map fst (pipe_values r))"
proof -
  have groups: "list_all plain_key (map fst (counter_items g c))" "list_all plain_key (map fst (sync_items g u))"
    "list_all plain_key (map fst (transport_items g v))" for g c u v
    using plain_literals(1) by (simp_all add: counter_items_def sync_items_def transport_items_def del: append.simps split: prod.splits)
  then show ?thesis by (simp add: pipe_values_def all_groups_def split: option.splits)
qed

lemma ns3_values_keys: "map fst (ns3_values t) = map fst (ns3_values ns3_defaults)"
  by (simp add: ns3_values_def)

text \<open>The keys are distinct: the names of the groups are not prefixes of each other's keys.\<close>

lemma pipe_keys_distinct: "distinct (map fst (pipe_values r))"
proof -
  have "map fst (pipe_values r) = map fst (pipe_values
      \<lparr>pr_counters = (\<lambda>_. empty_counter), pr_sync_union = map_option (\<lambda>_ _. (0, 0)) (pr_sync_union r), pr_transport = (\<lambda>_. empty_transport)\<rparr>)"
    by (simp add: pipe_values_def all_groups_def counter_items_def sync_items_def transport_items_def split: option.splits prod.splits)
  moreover have "distinct (map fst (pipe_values \<lparr>pr_counters = (\<lambda>_. empty_counter), pr_sync_union = None, pr_transport = (\<lambda>_. empty_transport)\<rparr>))"
    "distinct (map fst (pipe_values \<lparr>pr_counters = (\<lambda>_. empty_counter), pr_sync_union = Some (\<lambda>_. (0, 0)), pr_transport = (\<lambda>_. empty_transport)\<rparr>))"
    by code_simp+
  ultimately show ?thesis by (cases "pr_sync_union r") simp_all
qed

lemma collected_metric_int:
  assumes "collect_pipe_metrics loads transport_log = Inr r" and "collect_ns3_metrics ns3 = Inr t"
    and "collect_metrics loads transport_log ns3 = Inr file_text"
  shows "\<exists>metrics. read_key_values file_text = Inr metrics \<and> (\<forall>k. metric_int metrics k = Inr (report_value r t k))"
proof -
  let ?d = "dict_update (pipe_values r) (ns3_values t)"
  have d: "distinct (map fst ?d)" by (rule distinct_dict_update [OF pipe_keys_distinct])
  have "set (map fst ?d) = set (map fst (pipe_values r)) \<union> set (map fst (ns3_values ns3_defaults))"
    using keys_dict_update [of "pipe_values r" "ns3_values t"] ns3_values_keys [of t] by (metis list.set_map)
  then have p: "list_all plain_key (map fst ?d)" using pipe_values_plain [of r] plain_literals(2) by (auto simp: list_all_iff)
  have "file_text = metrics_text ?d" using assms by (simp add: collect_metrics_def)
  then show ?thesis using read_metrics_text [OF d p] read_metric_int [OF d p] by (auto simp: report_value_def)
qed

text \<open>The values of the report that the summary uses.\<close>

lemma not_ns3_key: "hd k \<noteq> CHR ''n'' \<Longrightarrow> map_of (ns3_values t) k = None"
proof -
  assume k: "hd k \<noteq> CHR ''n''"
  have "list_all (\<lambda>k. hd k = CHR ''n'') (map fst (ns3_values t))" by (simp add: ns3_values_def)
  then have "k \<notin> fst ` set (ns3_values t)" using k unfolding list_all_iff set_map by blast
  then show ?thesis by (simp add: map_of_eq_None_iff)
qed

lemma report_value_pipe:
  assumes "(k, v) \<in> set (pipe_values r)" and "hd k \<noteq> CHR ''n''"
  shows "report_value r t k = v"
proof -
  have "map_of (pipe_values r) k = Some v" using assms(1) pipe_keys_distinct by simp
  moreover have "distinct (map fst (ns3_values t))" by (simp add: ns3_values_def)
  ultimately show ?thesis using not_ns3_key [OF assms(2), of t]
    by (simp add: report_value_def dict_get_def map_of_dict_update map_add_def)
qed

lemma report_value_missing:
  assumes "k \<notin> fst ` set (pipe_values r)" and "hd k \<noteq> CHR ''n''"
  shows "report_value r t k = 0"
proof -
  have "map_of (pipe_values r) k = None" using assms(1) by (simp add: map_of_eq_None_iff)
  moreover have "distinct (map fst (ns3_values t))" by (simp add: ns3_values_def)
  ultimately show ?thesis using not_ns3_key [OF assms(2), of t]
    by (simp add: report_value_def dict_get_def map_of_dict_update map_add_def)
qed

lemma group_items:
  "set (counter_items g (pr_counters r g)) \<subseteq> set (pipe_values r)" "set (transport_items g (pr_transport r g)) \<subseteq> set (pipe_values r)"
  "pr_sync_union r = Some u \<Longrightarrow> set (sync_items g (u g)) \<subseteq> set (pipe_values r)"
proof -
  have g: "g \<in> set all_groups" by (cases g; simp only: all_groups_def list.set insert_iff simp_thms)
  show "set (counter_items g (pr_counters r g)) \<subseteq> set (pipe_values r)" "set (transport_items g (pr_transport r g)) \<subseteq> set (pipe_values r)"
    using g unfolding pipe_values_def set_append set_concat set_map by blast+
  show "set (sync_items g (u g)) \<subseteq> set (pipe_values r)" if "pr_sync_union r = Some u"
    using g unfolding pipe_values_def that option.case set_append set_concat set_map by blast
qed

lemma no_union_key:
  assumes "pr_sync_union r = None"
  shows "''cross_legosim_sync_wall_union_ns'' \<notin> fst ` set (pipe_values r)" "''cross_physical_host_sync_wall_union_ns'' \<notin> fst ` set (pipe_values r)"
proof -
  have "map fst (pipe_values r) = map fst (pipe_values
      \<lparr>pr_counters = (\<lambda>_. empty_counter), pr_sync_union = None, pr_transport = (\<lambda>_. empty_transport)\<rparr>)"
    using assms by (simp add: pipe_values_def all_groups_def counter_items_def transport_items_def)
  moreover have "list_all (\<lambda>k. k \<noteq> ''cross_legosim_sync_wall_union_ns'' \<and> k \<noteq> ''cross_physical_host_sync_wall_union_ns'')
      (map fst (pipe_values \<lparr>pr_counters = (\<lambda>_. empty_counter), pr_sync_union = None, pr_transport = (\<lambda>_. empty_transport)\<rparr>))"
    by code_simp
  ultimately have "\<forall>k\<in>fst ` set (pipe_values r). k \<noteq> ''cross_legosim_sync_wall_union_ns'' \<and> k \<noteq> ''cross_physical_host_sync_wall_union_ns''"
    unfolding list_all_iff set_map by (simp only: set_map [symmetric])
  then show "''cross_legosim_sync_wall_union_ns'' \<notin> fst ` set (pipe_values r)" "''cross_physical_host_sync_wall_union_ns'' \<notin> fst ` set (pipe_values r)"
    by blast+
qed

definition union_ns :: "pipe_report \<Rightarrow> scope_group \<Rightarrow> int" where
  "union_ns r g = (case pr_sync_union r of None \<Rightarrow> 0 | Some u \<Rightarrow> fst (u g))"

lemma hd_group_name: "g \<in> {Cross_legosim, Cross_host} \<Longrightarrow> hd (group_name g @ s) \<noteq> CHR ''n''"
  by auto

lemma report_value_union:
  assumes "g \<in> {Cross_legosim, Cross_host}"
  shows "report_value r t (group_name g @ ''_sync_wall_union_ns'') = union_ns r g"
proof (cases "pr_sync_union r")
  case None
  have "group_name g @ ''_sync_wall_union_ns'' \<notin> fst ` set (pipe_values r)" using no_union_key [OF None] assms by (elim insertE) simp_all
  then have "report_value r t (group_name g @ ''_sync_wall_union_ns'') = 0" using hd_group_name [OF assms] by (rule report_value_missing)
  then show ?thesis by (simp add: union_ns_def None)
next
  case (Some u)
  then have "(group_name g @ ''_sync_wall_union_ns'', fst (u g)) \<in> set (sync_items g (u g))"
    by (simp add: sync_items_def case_prod_unfold)
  then have "report_value r t (group_name g @ ''_sync_wall_union_ns'') = fst (u g)"
    by (rule report_value_pipe [OF subsetD [OF group_items(3) [OF Some]] hd_group_name [OF assms]])
  then show ?thesis by (simp add: union_ns_def Some)
qed

lemma report_value_cases:
  assumes "g \<in> {Cross_legosim, Cross_host}"
  shows "report_value r t (group_name g @ ''_transport_exposed_sync_wall_union_ns'') = tv_exposed_union_ns (pr_transport r g)"
    "report_value r t (group_name g @ ''_transport_pairs'') = tv_pairs (pr_transport r g)"
    "report_value r t (group_name g @ ''_transport_unmatched_writes'') = tv_unmatched_writes (pr_transport r g)"
    "report_value r t (group_name g @ ''_transport_unmatched_reads'') = tv_unmatched_reads (pr_transport r g)"
    "report_value r t (group_name g @ ''_bytes'') = mc_bytes (pr_counters r g)"
    "report_value r t (group_name g @ ''_records'') = mc_records (pr_counters r g)"
  by (rule report_value_pipe [OF subsetD [OF group_items(2)] hd_group_name [OF assms]], simp add: transport_items_def,
      rule report_value_pipe [OF subsetD [OF group_items(2)] hd_group_name [OF assms]], simp add: transport_items_def,
      rule report_value_pipe [OF subsetD [OF group_items(2)] hd_group_name [OF assms]], simp add: transport_items_def,
      rule report_value_pipe [OF subsetD [OF group_items(2)] hd_group_name [OF assms]], simp add: transport_items_def,
      rule report_value_pipe [OF subsetD [OF group_items(1)] hd_group_name [OF assms]], simp add: counter_items_def,
      rule report_value_pipe [OF subsetD [OF group_items(1)] hd_group_name [OF assms]], simp add: counter_items_def)

lemma report_value_ns3:
  "report_value r t ''ns3_normal_records'' = n3_normal_records t"
  "report_value r t ''ns3_normal_source_sync_advance_cycles'' = n3_source_sync_advance t"
  "report_value r t ''ns3_normal_destination_network_delay_cycles'' = n3_destination_network_delay t"
  "report_value r t ''ns3_normal_destination_sync_block_cycles'' = n3_destination_sync_block t"
  by (simp_all add: report_value_def dict_get_def map_of_dict_update ns3_values_def map_add_def)

definition reported_scope :: "pipe_report \<Rightarrow> rat \<Rightarrow> scope_group \<Rightarrow> scope_row" where
  "reported_scope r total_seconds g =
     (let wait = seconds_of_ns (union_ns r g); sync = seconds_of_ns (tv_exposed_union_ns (pr_transport r g))
      in \<lparr>sc_dependency_wait = wait, sc_dependency_percent = 100 * wait / total_seconds, sc_transport_sync = sync,
          sc_transport_percent = 100 * sync / total_seconds, sc_pairs = tv_pairs (pr_transport r g),
          sc_unmatched_writes = tv_unmatched_writes (pr_transport r g), sc_unmatched_reads = tv_unmatched_reads (pr_transport r g),
          sc_bytes = mc_bytes (pr_counters r g), sc_records = mc_records (pr_counters r g)\<rparr>)"

lemma scope_summary_reported:
  assumes "\<And>k. metric_int metrics k = Inr (report_value r t k)" and "g \<in> {Cross_legosim, Cross_host}"
  shows "scope_summary metrics total_seconds g = Inr (reported_scope r total_seconds g)"
  using report_value_union [OF assms(2), of r t] report_value_cases [OF assms(2), of r t]
  by (simp add: scope_summary_def reported_scope_def Let_def assms(1))

lemma run_duration_pos: "run_duration utc_offset timing = Inr x \<Longrightarrow> 0 < x"
  by (auto simp: run_duration_def bindE_eq_Inr split: if_splits)

text \<open>
  C37. The summary of a run reads back what the collector wrote: for a run whose coordinator ended with
  status 0, whose log has the natural-completion marker and a final cycle count and whose timestamps
  give a positive duration, the row exists, its counters and synchronization times are those of the
  collector's report (zero for the union times when the transport log was missing), and its
  percentages are relative to the duration of the run.
\<close>

theorem run_row_from_report:
  assumes "collect_pipe_metrics loads transport_log = Inr r" and "collect_ns3_metrics ns3 = Inr t"
    and "collect_metrics loads transport_log ns3 = Inr (rd_metrics d)"
    and "read_key_values (rd_timing d) = Inr timing" and "map_of timing ''exit'' = Some ''0''"
    and "run_duration utc_offset timing = Inr total_seconds"
    and "sublist ''End of Simulation'' (rd_coordinator_log d)" and "completion_cycles (rd_coordinator_log d) = Inr cycles"
  shows "\<exists>row. collect_run utc_offset d nodes = Inr row \<and> dr_nodes row = nodes \<and> dr_cycles row = cycles
    \<and> dr_total_seconds row = total_seconds \<and> 0 < total_seconds
    \<and> dr_legosim row = reported_scope r total_seconds Cross_legosim \<and> dr_physical row = reported_scope r total_seconds Cross_host
    \<and> dr_ns3_normal_records row = n3_normal_records t \<and> dr_ns3_source_sync row = n3_source_sync_advance t
    \<and> dr_ns3_network_delay row = n3_destination_network_delay t \<and> dr_ns3_sync_block row = n3_destination_sync_block t"
proof -
  obtain metrics where m: "read_key_values (rd_metrics d) = Inr metrics" "\<And>k. metric_int metrics k = Inr (report_value r t k)"
    using collected_metric_int [OF assms(1-3)] by blast
  have "scope_summary metrics total_seconds Cross_legosim = Inr (reported_scope r total_seconds Cross_legosim)"
    "scope_summary metrics total_seconds Cross_host = Inr (reported_scope r total_seconds Cross_host)"
    by (rule scope_summary_reported [OF m(2)]; simp)+
  then show ?thesis using assms(4-8) m run_duration_pos [OF assms(6)]
    by (simp add: collect_run_def dind_row_of_def report_value_ns3)
qed

text \<open>A run without transport log, from the first to the third second of an hour.\<close>

definition demo_times :: string where
  "demo_times = ''start=2026-08-09T10:00:01.5Z'' @ [newline] @ ''finish=2026-08-09T10:00:03.5Z'' @ [newline] @ ''exit=0'' @ [newline]"

definition demo_run_log :: string where
  "demo_run_log = ''**** End of Simulation **** Benchmark elapses 42 cycle''"

definition demo_directory :: run_directory where
  "demo_directory = \<lparr>rd_timing = demo_times, rd_metrics = metrics_text (dict_update (pipe_values
        \<lparr>pr_counters = (\<lambda>_. empty_counter), pr_sync_union = None, pr_transport = (\<lambda>_. empty_transport)\<rparr>) (ns3_values ns3_defaults)),
     rd_coordinator_log = demo_run_log\<rparr>"

lemma empty_transport_collected: "collect_exposed_transport_metrics [] = Inr (\<lambda>_. empty_transport)"
  by (simp add: collect_exposed_transport_metrics_def transfer_keys_def empty_transport_def interval_union_def fun_eq_iff List.map_filter_def)

lemma demo_timing:
  "read_key_values demo_times = Inr [(''start'', ''2026-08-09T10:00:01.5Z''), (''finish'', ''2026-08-09T10:00:03.5Z''), (''exit'', ''0'')]"
  by code_simp

lemma demo_duration:
  "run_duration (\<lambda>_. 7200) [(''start'', ''2026-08-09T10:00:01.5Z''), (''finish'', ''2026-08-09T10:00:03.5Z''), (''exit'', ''0'')] = Inr 2"
  by (simp add: run_duration_def dict_item_def parse_timestamp_def parse_datetime_def date_field_def day_ordinal_def
    month_days_def leap_year_def text_eval)

theorem run_row_from_report_witness:
  "\<exists>row. collect_run (\<lambda>_. 7200) demo_directory 4 = Inr row \<and> dr_cycles row = 42 \<and> dr_total_seconds row = 2
     \<and> sc_pairs (dr_legosim row) = 0 \<and> sc_dependency_wait (dr_physical row) = 0"
proof -
  let ?r = "\<lparr>pr_counters = (\<lambda>_. empty_counter), pr_sync_union = None, pr_transport = (\<lambda>_. empty_transport)\<rparr>"
  let ?loads = "\<lambda>_. Inl JSONDecodeError"
  have r: "collect_pipe_metrics ?loads None = Inr ?r" by (simp add: collect_pipe_metrics_def empty_transport_collected)
  have t: "collect_ns3_metrics None = Inr ns3_defaults" by (simp add: collect_ns3_metrics_def)
  have m: "collect_metrics ?loads None None = Inr (rd_metrics demo_directory)"
    by (simp add: collect_metrics_def r t demo_directory_def)
  have "sublist ''End of Simulation'' demo_run_log" "completion_cycles demo_run_log = Inr 42" by code_simp+
  then have s: "sublist ''End of Simulation'' (rd_coordinator_log demo_directory)"
    "completion_cycles (rd_coordinator_log demo_directory) = Inr 42" by (simp_all add: demo_directory_def)
  have f: "read_key_values (rd_timing demo_directory)
      = Inr [(''start'', ''2026-08-09T10:00:01.5Z''), (''finish'', ''2026-08-09T10:00:03.5Z''), (''exit'', ''0'')]"
    using demo_timing by (simp add: demo_directory_def)
  have e: "map_of [(''start'', ''2026-08-09T10:00:01.5Z''), (''finish'', ''2026-08-09T10:00:03.5Z''), (''exit'', ''0'')] ''exit'' = Some ''0''"
    by simp
  show ?thesis
    using run_row_from_report [OF r t m f e demo_duration s, of 4]
    by (auto simp: reported_scope_def union_ns_def seconds_of_ns_def empty_transport_def Let_def)
qed

section \<open>Functional runs\<close>

text \<open>
  \<open>pipe-metric: (\{[^\n]+\})\<close> on one line: from the first brace after the text to the last closing brace
  of the line, with a character between them; a line has at most one match.
\<close>

fun metric_capture :: "string \<Rightarrow> string option" where
  "metric_capture [] = None"
| "metric_capture (c # cs) =
     (let body = drop (length ''pipe-metric: '') (c # cs)
      in if prefix ''pipe-metric: {'' (c # cs) \<and> CHR ''}'' \<in> set (drop 2 body)
         then Some (rev (dropWhile (\<lambda>x. x \<noteq> CHR ''}'') (rev body)))
         else metric_capture cs)"

definition log_events :: "(string \<Rightarrow> json res) \<Rightarrow> string list \<Rightarrow> json list res" where
  "log_events loads logs =
     mapE loads (List.map_filter metric_capture (concat (map (split_on newline) logs)))"

definition select_events :: "(json \<Rightarrow> bool res) \<Rightarrow> json list \<Rightarrow> json list res" where
  "select_events f events = bindE (mapE (\<lambda>e. bindE (f e) (\<lambda>b. Inr (e, b))) events) (\<lambda>flagged. Inr (map fst (filter snd flagged)))"

definition is_operation :: "string \<Rightarrow> json \<Rightarrow> bool res" where
  "is_operation op event = bindE (metric_item event ''operation'') (\<lambda>v. Inr (v = JStr op))"

definition is_cross_operation :: "string \<Rightarrow> json \<Rightarrow> bool res" where
  "is_cross_operation op event =
     bindE (metric_item event ''cross_node'') (\<lambda>c. if truthy c then is_operation op event else Inr False)"

record router_totals =
  ru_events :: nat
  ru_cross_write_count :: nat
  ru_cross_write_bytes :: int
  ru_cross_write_service_ms :: rat
  ru_cross_read_sync_ms :: rat
  ru_sync_ms :: rat

definition router_metrics :: "(string \<Rightarrow> json res) \<Rightarrow> string list \<Rightarrow> router_totals res" where
  "router_metrics loads logs =
     bindE (log_events loads logs) (\<lambda>events.
     bindE (select_events (is_cross_operation ''W'') events) (\<lambda>cross_writes.
     bindE (select_events (is_cross_operation ''R'') events) (\<lambda>cross_reads.
     bindE (select_events (is_operation ''R'') events) (\<lambda>reads.
     bindE (metric_sum ''bytes'' cross_writes) (\<lambda>bytes.
     bindE (metric_sum ''elapsed_ns'' cross_writes) (\<lambda>service.
     bindE (metric_sum ''synchronization_wait_ns'' cross_reads) (\<lambda>cross_sync.
     bindE (metric_sum ''synchronization_wait_ns'' reads) (\<lambda>sync.
       Inr \<lparr>ru_events = length events, ru_cross_write_count = length cross_writes, ru_cross_write_bytes = bytes,
         ru_cross_write_service_ms = of_int service / 1000000, ru_cross_read_sync_ms = of_int cross_sync / 1000000,
         ru_sync_ms = of_int sync / 1000000\<rparr>))))))))"

definition transport_totals :: "(string \<Rightarrow> json res) \<Rightarrow> string list \<Rightarrow> router_totals res" where
  "transport_totals loads logs =
     bindE (router_metrics loads logs) (\<lambda>t.
       Inr (t\<lparr>ru_cross_write_service_ms := round6 (ru_cross_write_service_ms t), ru_cross_read_sync_ms := round6 (ru_cross_read_sync_ms t),
              ru_sync_ms := round6 (ru_sync_ms t)\<rparr>))"

text \<open>A point of a functional matrix: the result file (its times) and the transport logs.\<close>

record functional_point =
  fn_status :: string
  fn_measurement :: rat
  fn_first_command :: rat
  fn_all_phase1 :: rat
  fn_logs :: "string list"

record native_row =
  nr_workload :: string
  nr_nodes :: nat
  nr_measurement :: rat
  nr_first_command :: rat
  nr_all_phase1 :: rat
  nr_totals :: router_totals
  nr_speedup :: rat

definition native_row_of :: "(string \<Rightarrow> json res) \<Rightarrow> (string \<Rightarrow> nat \<Rightarrow> functional_point) \<Rightarrow> string \<Rightarrow> nat \<Rightarrow> native_row res" where
  "native_row_of loads point workload node_count =
     (let p = point workload node_count
      in if fn_status p \<noteq> ''functional-ok''
         then Inl (RuntimeError (workload @ ''-nodes'' @ show_nat node_count @ '' status is '' @ fn_status p))
         else bindE (transport_totals loads (fn_logs p)) (\<lambda>totals.
              Inr \<lparr>nr_workload = workload, nr_nodes = node_count, nr_measurement = fn_measurement p,
                nr_first_command = fn_first_command p, nr_all_phase1 = fn_all_phase1 p, nr_totals = totals, nr_speedup = 0\<rparr>))"

definition workload_rows :: "(string \<Rightarrow> json res) \<Rightarrow> (string \<Rightarrow> nat \<Rightarrow> functional_point) \<Rightarrow> nat list \<Rightarrow> string \<Rightarrow> native_row list res" where
  "workload_rows loads point nodes workload =
     bindE (mapE (native_row_of loads point workload) nodes) (\<lambda>rows.
       case rows of
         [] \<Rightarrow> Inl IndexError
       | first # _ \<Rightarrow> mapE (\<lambda>row. bindE (divide (nr_measurement first) (nr_measurement row)) (\<lambda>q. Inr (row\<lparr>nr_speedup := round6 q\<rparr>))) rows)"

definition summarize_native ::
  "(string \<Rightarrow> json res) \<Rightarrow> (string \<Rightarrow> nat \<Rightarrow> functional_point) \<Rightarrow> string list \<Rightarrow> nat list \<Rightarrow> native_row list res" where
  "summarize_native loads point workloads nodes =
     bindE (mapE (workload_rows loads point nodes) workloads) (\<lambda>rows. Inr (concat rows))"

text \<open>
  The repeated functional runs: samples by repetition and node count, their means and deviations (the
  square of the sample deviation), and the speed-up against the mean of the one-node runs.
\<close>

definition mean_of :: "rat list \<Rightarrow> rat" where
  "mean_of xs = sum_list xs / of_nat (length xs)"

definition sample_variance :: "rat list \<Rightarrow> rat" where
  "sample_variance xs =
     (if length xs > 1 then (\<Sum>x\<leftarrow>xs. (x - mean_of xs) ^ 2) / of_nat (length xs - 1) else 0)"

definition sample_values :: "functional_point \<times> router_totals \<Rightarrow> (string, rat) dict" where
  "sample_values = (\<lambda>(p, t).
     [(''measurement_elapsed_seconds'', fn_measurement p), (''first_interchiplet_command_seconds'', fn_first_command p),
      (''all_phase1_started_seconds'', fn_all_phase1 p), (''pipecomm_events'', of_nat (ru_events t)),
      (''cross_write_count'', of_nat (ru_cross_write_count t)), (''cross_write_bytes'', of_int (ru_cross_write_bytes t)),
      (''cross_write_service_ms'', ru_cross_write_service_ms t), (''cross_read_sync_ms'', ru_cross_read_sync_ms t),
      (''pipecomm_sync_ms'', ru_sync_ms t)])"

definition functional_sample :: "(string \<Rightarrow> json res) \<Rightarrow> functional_point \<Rightarrow> (string, rat) dict res" where
  "functional_sample loads p =
     (if fn_status p \<noteq> ''functional-ok'' then Inl (RuntimeError (''not functional-ok: '' @ fn_status p))
      else bindE (router_metrics loads (fn_logs p)) (\<lambda>t. Inr (sample_values (p, t))))"

record functional_row =
  fw_nodes :: nat
  fw_repetitions :: nat
  fw_statistics :: "(string \<times> rat \<times> rat) list"
  fw_speedup :: rat

definition column :: "string \<Rightarrow> (string, rat) dict list \<Rightarrow> rat list" where
  "column field samples = map (\<lambda>s. the (map_of s field)) samples"

definition functional_row_of :: "rat \<Rightarrow> nat \<Rightarrow> (string, rat) dict list \<Rightarrow> functional_row res" where
  "functional_row_of baseline node samples =
     (case samples of
        [] \<Rightarrow> Inl IndexError
      | first # _ \<Rightarrow>
          bindE (divide baseline (mean_of (column ''measurement_elapsed_seconds'' samples))) (\<lambda>speedup.
            Inr \<lparr>fw_nodes = node, fw_repetitions = length samples,
              fw_statistics = map (\<lambda>(field, _). (field, mean_of (column field samples), sample_variance (column field samples))) first,
              fw_speedup = speedup\<rparr>))"

definition summarize_functional ::
  "(string \<Rightarrow> json res) \<Rightarrow> (string \<Rightarrow> nat \<Rightarrow> functional_point) \<Rightarrow> string list \<Rightarrow> nat list \<Rightarrow> functional_row list res" where
  "summarize_functional loads point repetitions nodes =
     bindE (mapE (\<lambda>repetition. mapE (\<lambda>node. bindE (functional_sample loads (point repetition node)) (\<lambda>s. Inr (node, s))) nodes) (sort repetitions)) (\<lambda>all.
       let samples = (\<lambda>node. map snd (filter (\<lambda>(n, _). n = node) (concat all)))
       in if 1 \<notin> set nodes then Inl (KeyError ''1'')
          else if samples 1 = [] then Inl (ValueError ''fmean requires at least one data point'')
          else mapE (\<lambda>node. functional_row_of (mean_of (column ''measurement_elapsed_seconds'' (samples 1))) node (samples node)) (remdups nodes))"

section \<open>Steady-state table\<close>

definition STEADY_PATH :: "rx list" where
  "STEADY_PATH = [Lit ''mlp-dp-steady-'', Digits, Lit ''-'']"

definition path_node_count :: "string \<Rightarrow> nat res" where
  "path_node_count path =
     (case rx_search STEADY_PATH path of
        None \<Rightarrow> Inl (ValueError (''cannot determine node count from '' @ path))
      | Some groups \<Rightarrow> Inr (digits_val (hd groups)))"

record steady_row =
  sy_nodes :: nat
  sy_report :: steady_report
  sy_normalized :: rat
  sy_speedup :: rat

text \<open>A missing one-node report ends the program with \<open>StopIteration\<close>.\<close>

definition collect_steady :: "(string \<Rightarrow> steady_report res) \<Rightarrow> string list \<Rightarrow> steady_row list res" where
  "collect_steady report paths =
     bindE (mapE (\<lambda>p. bindE (report p) (\<lambda>r. bindE (path_node_count p) (\<lambda>n. Inr (n, r)))) paths) (\<lambda>rows.
     case filter (\<lambda>(n, _). n = 1) (sort_key fst rows) of
       [] \<Rightarrow> Inl (RuntimeError ''StopIteration'')
     | (_, first) # _ \<Rightarrow>
         mapE (\<lambda>(n, r). bindE (divide (sr_wall_seconds r) (sr_wall_seconds first)) (\<lambda>normalized.
           bindE (divide (sr_wall_seconds first) (sr_wall_seconds r)) (\<lambda>speedup.
             Inr \<lparr>sy_nodes = n, sy_report = r, sy_normalized = normalized, sy_speedup = speedup\<rparr>))) (sort_key fst rows))"

section \<open>MNSIM compatibility backend\<close>

definition SOURCE_CALIBRATED_CYCLES :: int where
  "SOURCE_CALIBRATED_CYCLES = 42892008"

record mnsim_arguments =
  mn_workload :: string
  mn_id1 :: int
  mn_id2 :: int
  mn_payload_elements :: int
  mn_element_bytes :: int

text \<open>The text of the result file and the audit record; the time stamp is a parameter.\<close>

definition mnsim_compat :: "string \<Rightarrow> mnsim_arguments \<Rightarrow> (string \<times> jobj) res" where
  "mnsim_compat now a =
     (if mn_workload a \<notin> {''mlp'', ''resnet'', ''bfs''} then Inl (SystemExit ''argument --workload: invalid choice'')
      else if mn_payload_elements a < 1 \<or> mn_element_bytes a < 1 then Inl (ValueError ''payload dimensions must be positive'')
      else Inr (str_int SOURCE_CALIBRATED_CYCLES @ [newline],
        [(''backend'', JStr ''source-calibrated-mnsim-compat-v1''), (''calibration_source'', JStr ''MNSIMChiplet/result_0_2.res''),
         (''calibrated_cycles'', JInt SOURCE_CALIBRATED_CYCLES), (''workload'', JStr (mn_workload a)),
         (''chiplet'', JList [JInt (mn_id1 a), JInt (mn_id2 a)]),
         (''payload_bytes'', JInt (mn_payload_elements a * mn_element_bytes a)), (''timestamp_utc'', JStr now)]))"

end
