(* ===== verification/MetricSchema.thy ===== *)
theory MetricSchema
  imports Summaries
begin

text \<open>
  The schema of the metric records: the fields that the router writes into a \<open>pipe-metric\<close> line and their
  types, and that the consumers of these lines (the collector, the summaries of functional runs and the
  runner of the data-parallel jobs) need no more than the schema to return a report.
\<close>

section \<open>Schema\<close>

definition has_int :: "jobj \<Rightarrow> string \<Rightarrow> bool" where
  "has_int d k \<longleftrightarrow> (\<exists>i. map_of d k = Some (JInt i))"

definition int_keys :: "string list" where
  "int_keys = [''bytes'', ''source_slot'', ''peer_slot'', ''started_unix_ns'', ''finished_unix_ns'', ''elapsed_ns'', ''synchronization_wait_ns'']"

definition record_typed :: "jobj \<Rightarrow> bool" where
  "record_typed d \<longleftrightarrow> (\<exists>op\<in>{''W'', ''R''}. map_of d ''operation'' = Some (JStr op))
     \<and> (\<exists>s. map_of d ''pipe_name'' = Some (JStr s)) \<and> (\<exists>s. map_of d ''transport_scope'' = Some (JStr s))
     \<and> (\<exists>b. map_of d ''cross_node'' = Some (JBool b)) \<and> list_all (has_int d) int_keys"

lemma pipe_metric_typed:
  "rq_operation rq \<in> {''W'', ''R''} \<Longrightarrow> record_typed (pipe_metric r rq peer monotonic unix)"
  by (cases monotonic; cases unix) (auto simp: record_typed_def pipe_metric_def Let_def has_int_def int_keys_def)

section \<open>The accesses of the consumers\<close>

lemma typed_int: "record_typed d \<Longrightarrow> k \<in> set int_keys \<Longrightarrow> \<exists>i. map_of d k = Some (JInt i)"
  by (auto simp: record_typed_def list_all_iff has_int_def)

lemma typed_get_int: "record_typed d \<Longrightarrow> k \<in> set int_keys \<Longrightarrow> \<exists>i. get_int d k x = Inr i"
  by (auto dest!: typed_int simp: get_int_def dict_get_def)

text \<open>
  What the collector has to report for a group of scopes: the number of the group's records, the sums of
  their fields, and how many of them are writes and reads.
\<close>

definition int_value :: "string \<Rightarrow> jobj \<Rightarrow> int" where
  "int_value k d = (case map_of d k of Some (JInt i) \<Rightarrow> i | _ \<Rightarrow> 0)"

definition scope_of :: "jobj \<Rightarrow> string" where
  "scope_of d = (case map_of d ''transport_scope'' of Some (JStr s) \<Rightarrow> s | _ \<Rightarrow> [])"

definition counted :: "jobj list \<Rightarrow> scope_group \<Rightarrow> metric_counter" where
  "counted ds g =
     (let rs = filter (\<lambda>d. g \<in> set (selected_groups (scope_of d))) ds
      in \<lparr>mc_records = int (length rs), mc_bytes = sum_list (map (int_value ''bytes'') rs),
          mc_elapsed_ns = sum_list (map (int_value ''elapsed_ns'') rs),
          mc_sync_wait_ns = sum_list (map (int_value ''synchronization_wait_ns'') rs),
          mc_writes = int (length (filter (\<lambda>d. has_op d ''W'') rs)), mc_reads = int (length (filter (\<lambda>d. has_op d ''R'') rs))\<rparr>)"

lemma counted_Nil: "counted [] g = empty_counter"
  by (simp add: counted_def empty_counter_def)

lemma counted_snoc:
  "counted (ds @ [d]) g = (if g \<in> set (selected_groups (scope_of d)) then counter_add (counted ds g) (counted [d] g) else counted ds g)"
  by (simp add: counted_def counter_add_def Let_def)

lemma counted_all: "mc_records (counted ds All_records) = int (length ds)"
  by (simp add: counted_def selected_groups_def Let_def)

lemma typed_scope: "record_typed d \<Longrightarrow> classify_scope d = Inr (scope_of d)"
  by (auto simp: record_typed_def classify_scope_def jget_def dict_get_def scope_of_def)

lemma typed_add_record:
  assumes "record_typed d" and "g \<in> set (selected_groups (scope_of d))"
  shows "add_record c d = Inr (counter_add c (counted [d] g))"
proof -
  have "get_int d k 0 = Inr (int_value k d)" if "k \<in> set int_keys" for k
    using typed_int [OF assms(1) that] by (auto simp: get_int_def dict_get_def int_value_def)
  then show ?thesis using assms(2) by (simp add: add_record_def int_keys_def counted_def counter_add_def Let_def)
qed

lemma typed_groups:
  assumes "record_typed d" and "set gs \<subseteq> set (selected_groups (scope_of d))" and "distinct gs"
  shows "add_to_groups gs d c = Inr (\<lambda>g. if g \<in> set gs then counter_add (c g) (counted [d] g) else c g)"
  using assms(2,3)
proof (induction gs arbitrary: c)
  case (Cons g gs)
  then show ?case using typed_add_record [OF assms(1), of g "c g"] by (auto simp: add_to_groups_def fun_eq_iff)
qed (simp add: add_to_groups_def)

lemma typed_selected_groups:
  assumes "record_typed d"
  shows "add_to_groups (selected_groups (scope_of d)) d (counted ds) = Inr (counted (ds @ [d]))"
  using typed_groups [OF assms order_refl, of "counted ds"] by (simp add: counted_snoc fun_eq_iff selected_groups_def)

lemma typed_sort_items:
  assumes "\<And>d. d \<in> set items \<Longrightarrow> record_typed d" and "k \<in> set int_keys"
  shows "\<exists>ys. sort_items k items = Inr ys \<and> set ys = set items"
proof -
  have "\<forall>d\<in>set items. \<exists>i. get_int d k (- 1) = Inr i" using typed_get_int assms by blast
  then obtain v where "\<And>d. d \<in> set items \<Longrightarrow> get_int d k (- 1) = Inr (v d)" by metis
  then have "mapE (\<lambda>item. bindE (get_int item k (- 1)) (\<lambda>t. Inr (t, item))) items = Inr (map (\<lambda>item. (v item, item)) items)"
    by (induction items) auto
  then show ?thesis by (auto simp: sort_items_def image_comp)
qed

lemma typed_match_key:
  assumes "\<And>d. d \<in> set records \<Longrightarrow> record_typed d"
  shows "\<exists>t. match_key records key s = Inr t"
proof -
  let ?w = "items_of ''W'' key records" and ?r = "items_of ''R'' key records"
  have sub: "set ?w \<subseteq> set records" "set ?r \<subseteq> set records" by (auto simp: items_of_def)
  obtain ws where ws: "sort_items ''started_unix_ns'' ?w = Inr ws" "set ws \<subseteq> set records"
    using typed_sort_items [of ?w "''started_unix_ns''", OF assms [OF subsetD [OF sub(1)]]] sub(1) by (auto simp: int_keys_def)
  obtain rs where rs: "sort_items ''finished_unix_ns'' ?r = Inr rs" "set rs \<subseteq> set records"
    using typed_sort_items [of ?r "''finished_unix_ns''", OF assms [OF subsetD [OF sub(2)]]] sub(2) by (auto simp: int_keys_def)
  have step: "\<exists>t. match_pair p s = Inr t" if "p \<in> set (zip ws rs)" for p s
  proof -
    obtain w r where p: "p = (w, r)" by (cases p)
    then have "w \<in> set records" using set_zip_leftD [of w r ws rs] that ws(2) by auto
    then have "classify_scope w = Inr (scope_of w)" using typed_scope [OF assms] by blast
    then show ?thesis unfolding p match_pair_def by (auto simp: Let_def split: option.splits)
  qed
  obtain t where t: "foldE match_pair (zip ws rs) (s\<lparr>ms_matched := 0\<rparr>) = Inr t"
    using foldE_total [of "\<lambda>_. True" "s\<lparr>ms_matched := 0\<rparr>" "zip ws rs" match_pair] step by auto
  have rest: "\<exists>t'. (case ws @ rs of [] \<Rightarrow> Inr t | x # xs \<Rightarrow> bindE (classify_scope x) (\<lambda>scope. Inr (f scope))) = Inr t'" for f
  proof (cases "ws @ rs")
    case (Cons x xs)
    then have "x \<in> set (ws @ rs)" by simp
    then have "x \<in> set records" using ws(2) rs(2) by auto
    then have "classify_scope x = Inr (scope_of x)" using typed_scope [OF assms] by blast
    with Cons show ?thesis by simp
  qed simp
  show ?thesis unfolding match_key_def ws(1) rs(1) bindE_Inr t by (rule rest)
qed

lemma typed_transport:
  assumes "\<And>d. d \<in> set records \<Longrightarrow> record_typed d"
  shows "\<exists>v. collect_exposed_transport_metrics records = Inr v"
proof -
  have "\<exists>t. foldE (match_key records) (transfer_keys records) s = Inr t \<and> True" for s
    using typed_match_key [OF assms] by (intro foldE_total) auto
  then obtain t where "foldE (match_key records) (transfer_keys records)
      \<lparr>ms_values = (\<lambda>_. empty_transport), ms_intervals = (\<lambda>_. []), ms_matched = 0\<rparr> = Inr t" by blast
  then show ?thesis by (simp add: collect_exposed_transport_metrics_def)
qed

lemma typed_metric_item:
  assumes "record_typed d"
  shows "\<exists>b. metric_item (JObj d) ''cross_node'' = Inr (JBool b)" "\<exists>op. metric_item (JObj d) ''operation'' = Inr (JStr op)"
    "k \<in> set int_keys \<Longrightarrow> \<exists>i. bindE (metric_item (JObj d) k) json_int = Inr i"
  using assms typed_int [OF assms, of k] by (auto simp: metric_item_def as_obj_def dict_item_def record_typed_def)

lemma typed_metric_sum:
  assumes "\<And>e. e \<in> set events \<Longrightarrow> \<exists>d. e = JObj d \<and> record_typed d" and "k \<in> set int_keys"
  shows "\<exists>i. metric_sum k events = Inr i"
proof -
  have "\<exists>ns. mapE (\<lambda>m. bindE (metric_item m k) json_int) events = Inr ns"
    using assms typed_metric_item(3) by (intro mapE_total) blast
  then show ?thesis by (auto simp: metric_sum_def)
qed

lemma select_events_total:
  assumes "\<And>e. e \<in> set events \<Longrightarrow> \<exists>b. f e = Inr b"
  shows "\<exists>ys. select_events f events = Inr ys \<and> set ys \<subseteq> set events"
proof -
  obtain b where "\<And>e. e \<in> set events \<Longrightarrow> f e = Inr (b e)" using assms by metis
  then have "mapE (\<lambda>e. bindE (f e) (\<lambda>b. Inr (e, b))) events = Inr (map (\<lambda>e. (e, b e)) events)" by (intro mapE_all_Inr) simp
  then show ?thesis by (auto simp: select_events_def)
qed

lemma typed_operation:
  assumes "\<exists>d. e = JObj d \<and> record_typed d"
  shows "\<exists>b. is_operation op e = Inr b" "\<exists>b. is_cross_operation op e = Inr b"
proof -
  obtain d where d: "e = JObj d" "record_typed d" using assms by blast
  from typed_metric_item(1,2) [OF d(2)] show "\<exists>b. is_operation op e = Inr b" "\<exists>b. is_cross_operation op e = Inr b"
    by (auto simp: d(1) is_operation_def is_cross_operation_def)
qed

lemma typed_router_metrics:
  assumes "log_events loads logs = Inr (map JObj ds)" and "\<And>d. d \<in> set ds \<Longrightarrow> record_typed d"
  shows "\<exists>t. router_metrics loads logs = Inr t \<and> ru_events t = length ds"
proof -
  have typed: "\<exists>d. e = JObj d \<and> record_typed d" if "e \<in> set (map JObj ds)" for e using that assms(2) by auto
  obtain cw where cw: "select_events (is_cross_operation ''W'') (map JObj ds) = Inr cw" "set cw \<subseteq> set (map JObj ds)"
    using select_events_total typed_operation(2) [OF typed] by metis
  obtain cr where cr: "select_events (is_cross_operation ''R'') (map JObj ds) = Inr cr" "set cr \<subseteq> set (map JObj ds)"
    using select_events_total typed_operation(2) [OF typed] by metis
  obtain rd where rd: "select_events (is_operation ''R'') (map JObj ds) = Inr rd" "set rd \<subseteq> set (map JObj ds)"
    using select_events_total typed_operation(1) [OF typed] by metis
  have sums: "\<exists>i. metric_sum k xs = Inr i" if "set xs \<subseteq> set (map JObj ds)" "k \<in> set int_keys" for k xs
    using typed_metric_sum [of xs k] typed that by blast
  obtain b s x y where "metric_sum ''bytes'' cw = Inr b" "metric_sum ''elapsed_ns'' cw = Inr s"
    "metric_sum ''synchronization_wait_ns'' cr = Inr x" "metric_sum ''synchronization_wait_ns'' rd = Inr y"
    using sums [OF cw(2)] sums [OF cr(2)] sums [OF rd(2)] unfolding int_keys_def by (metis list.set_intros)
  then show ?thesis using assms(1) cw(1) cr(1) rd(1) by (simp add: router_metrics_def)
qed

text \<open>The lines of a log that carry records, and the records they parse to.\<close>

definition logged :: "(string \<Rightarrow> jobj res) \<Rightarrow> string list \<Rightarrow> jobj list \<Rightarrow> bool" where
  "logged loads lines ds \<longleftrightarrow> list_all2 (\<lambda>line d. loads (snd (snd (partition_at (CHR '':'') line))) = Inr d \<and> record_typed d)
     (filter (prefix metric_prefix) lines) ds"

lemma typed_collect_line:
  assumes "prefix metric_prefix line" and "loads (snd (snd (partition_at (CHR '':'') line))) = Inr d" and "record_typed d"
    and "pt_counters s = counted (pt_records s)"
  shows "\<exists>t. collect_line loads line s = Inr t \<and> pt_records t = pt_records s @ [d] \<and> pt_counters t = counted (pt_records t)"
  using assms(1,2,4) typed_scope [OF assms(3)] typed_selected_groups [OF assms(3)] by (simp add: collect_line_def)

lemma typed_collect_lines:
  assumes "logged loads lines ds" and "pt_counters s = counted (pt_records s)"
  shows "\<exists>t. foldE (collect_line loads) lines s = Inr t \<and> pt_records t = pt_records s @ ds \<and> pt_counters t = counted (pt_records t)"
  using assms
proof (induction lines arbitrary: s ds)
  case (Cons line lines)
  show ?case
  proof (cases "prefix metric_prefix line")
    case True
    then obtain d ds' where ds: "ds = d # ds'" "loads (snd (snd (partition_at (CHR '':'') line))) = Inr d" "record_typed d"
        "logged loads lines ds'"
      using Cons.prems(1) by (auto simp: logged_def list_all2_Cons1)
    obtain t where "collect_line loads line s = Inr t" "pt_records t = pt_records s @ [d]" "pt_counters t = counted (pt_records t)"
      using typed_collect_line [of line loads d s, OF True ds(2,3) Cons.prems(2)] by blast
    with Cons.IH [OF ds(4), of t] ds(1) show ?thesis by simp
  next
    case False
    then have "collect_line loads line s = Inr s" "logged loads lines ds"
      using Cons.prems(1) by (simp_all add: collect_line_def logged_def)
    with Cons.IH [OF _ Cons.prems(2)] show ?thesis by simp
  qed
qed (simp add: logged_def)

text \<open>
  C38. The records that the router prints have the fields and types that their readers rely on. Every
  record of a routed request satisfies the schema. Whenever the record lines of a log parse to records of
  the schema, the collector returns a report without an exception, with exact counters for every group:
  the number of the group's records, the sums of their bytes, elapsed and waiting times, and its writes and
  reads; the group of all records counts every record. The summary of functional runs counts every
  record as well.
\<close>

theorem metric_schema_sufficient:
  assumes "logged loads lines ds" and "log_events event_loads logs = Inr (map JObj ds)"
  shows "(\<forall>router input rq peer monotonic unix. route_request router input = Inr (rq, peer) \<longrightarrow>
        record_typed (pipe_metric router rq peer monotonic unix))
    \<and> (\<exists>report. collect_pipe_metrics loads (Some lines) = Inr report \<and> pr_counters report = counted ds
         \<and> mc_records (pr_counters report All_records) = int (length ds))
    \<and> (\<exists>t. router_metrics event_loads logs = Inr t \<and> ru_events t = length ds)"
proof (intro conjI allI impI)
  fix router input rq peer monotonic unix
  assume "route_request router input = Inr (rq, peer)"
  then have "rq_operation rq \<in> {''W'', ''R''}" by (auto simp: route_request_def bindE_eq_Inr elim: read_request_InrD)
  then show "record_typed (pipe_metric router rq peer monotonic unix)" by (rule pipe_metric_typed)
next
  have typed: "record_typed d" if "d \<in> set ds" for d
    using assms(1) that by (auto simp: logged_def list_all2_conv_all_nth in_set_conv_nth)
  obtain t where t: "foldE (collect_line loads) lines \<lparr>pt_counters = (\<lambda>_. empty_counter), pt_intervals = (\<lambda>_. []), pt_records = []\<rparr> = Inr t"
    "pt_records t = ds" "pt_counters t = counted ds"
    using typed_collect_lines [OF assms(1), of "\<lparr>pt_counters = (\<lambda>_. empty_counter), pt_intervals = (\<lambda>_. []), pt_records = []\<rparr>"]
    by (auto simp: counted_Nil fun_eq_iff)
  obtain v where "collect_exposed_transport_metrics ds = Inr v" using typed_transport typed by blast
  with t show "\<exists>report. collect_pipe_metrics loads (Some lines) = Inr report \<and> pr_counters report = counted ds
      \<and> mc_records (pr_counters report All_records) = int (length ds)"
    by (simp add: collect_pipe_metrics_def empty_transport_collected counted_all)
  show "\<exists>t. router_metrics event_loads logs = Inr t \<and> ru_events t = length ds"
    using typed_router_metrics [OF assms(2)] typed by blast
qed

definition demo_record :: jobj where
  "demo_record = pipe_metric \<lparr>r_slot = 0, r_coordinates = [], r_physical_slots = [], r_gateway_ports = []\<rparr>
     \<lparr>rq_operation = ''R'', rq_pipe_name = ''buffer0_0_0_1'', rq_byte_count = 3, rq_payload = []\<rparr> 0 (1, 2) (3, 4)"

theorem metric_schema_sufficient_witness:
  "record_typed demo_record
   \<and> (\<exists>report. collect_pipe_metrics (\<lambda>_. Inr demo_record) (Some [''ready'', ''pipe-metric: {x}'']) = Inr report
        \<and> mc_records (pr_counters report All_records) = 1 \<and> mc_bytes (pr_counters report Same_worker) = 3
        \<and> mc_reads (pr_counters report Cross_legosim) = 0)
   \<and> (\<exists>t. router_metrics (\<lambda>_. Inr (JObj demo_record)) [''pipe-metric: {x}''] = Inr t \<and> ru_events t = 1)"
proof -
  have d: "record_typed demo_record" unfolding demo_record_def by (rule pipe_metric_typed) simp
  have "prefix metric_prefix ''pipe-metric: {x}''" "\<not> prefix metric_prefix ''ready''" by code_simp+
  with d have l: "logged (\<lambda>_. Inr demo_record) [''ready'', ''pipe-metric: {x}''] [demo_record]" by (simp add: logged_def)
  have "List.map_filter metric_capture (concat (map (split_on newline) [''pipe-metric: {x}''])) = [''{x}'']" by code_simp
  then have e: "log_events (\<lambda>_. Inr (JObj demo_record)) [''pipe-metric: {x}''] = Inr (map JObj [demo_record])"
    unfolding log_events_def by simp
  have "scope_of demo_record = ''same_logical_worker''" "int_value ''bytes'' demo_record = 3"
    by (simp_all add: demo_record_def pipe_metric_def scope_of_def int_value_def transport_scope_def Let_def)
  then have "mc_bytes (counted [demo_record] Same_worker) = 3" "mc_reads (counted [demo_record] Cross_legosim) = 0"
    by (simp_all add: counted_def selected_groups_def)
  with metric_schema_sufficient [OF l e] d show ?thesis by auto
qed

end
