(* ===== verification/LatencyProbe.thy ===== *)
theory LatencyProbe
  imports PipeRouter Complex_Main
begin

text \<open>
  The latency probes and their summaries (\<open>scripts/pipecomm_latency_probe.py\<close>,
  \<open>scripts/tcp_latency_probe.py\<close>, \<open>scripts/summarize_pipecomm_latency_probe.py\<close>,
  \<open>scripts/summarize_tcp_latency_probe.py\<close>). What a socket delivers is a list of chunks: one call of
  \<open>recv\<close> returns at most the first chunk, and the empty list is a closed connection. The answer of the
  router to the bytes of an operation and the clock readings are parameters. A probe gives the records it
  printed and the exception that ended it, if any. The theorems run the PipeComm probes against the
  router of \<open>PipeRouter\<close> and the summary against the records of both probes.
\<close>

section \<open>Sockets\<close>

fun recv :: "nat \<Rightarrow> string list \<Rightarrow> string \<times> string list" where
  "recv n [] = ([], [])"
| "recv n (c # cs) = (if length c \<le> n then (c, cs) else (take n c, drop n c # cs))"

lemma length_recv [simp]: "length (fst (recv n cs)) \<le> n"
  by (cases cs) auto

function read_line_loop :: "string list \<Rightarrow> string \<Rightarrow> (string \<times> string list) res" where
  "read_line_loop cs response =
     (if length response < 512
      then (let (byte, rest) = recv 1 cs
            in if byte = [] then Inl (RuntimeError ''router closed the connection before its response'')
               else if byte = [newline] then Inr (response @ byte, rest)
               else read_line_loop rest (response @ byte))
      else Inl (RuntimeError ''router response header exceeds 512 bytes''))"
  by pat_completeness auto
termination by (relation "measure (\<lambda>(_, response). 512 - length response)") (auto simp: neq_Nil_conv)

definition read_line :: "string list \<Rightarrow> (string \<times> string list) res" where
  "read_line cs = read_line_loop cs []"

text \<open>The error text is that of the probe.\<close>

function read_exactly_loop :: "string \<Rightarrow> nat \<Rightarrow> string list \<Rightarrow> string \<Rightarrow> (string \<times> string list) res" where
  "read_exactly_loop message n cs payload =
     (if length payload < n
      then (let (part, rest) = recv (n - length payload) cs
            in if part = [] then Inl (RuntimeError message) else read_exactly_loop message n rest (payload @ part))
      else Inr (payload, cs))"
  by pat_completeness auto
termination by (relation "measure (\<lambda>(_, n, _, payload). n - length payload)") (auto simp: neq_Nil_conv)

definition read_exactly :: "string \<Rightarrow> nat \<Rightarrow> string list \<Rightarrow> (string \<times> string list) res" where
  "read_exactly message n cs = read_exactly_loop message n cs []"

declare read_line_loop.simps [simp del] read_exactly_loop.simps [simp del]

section \<open>The PipeComm probe\<close>

record probe_arguments =
  pa_pipe :: string
  pa_bytes :: int
  pa_count :: int
  pa_fill :: int
  pa_interval_ms :: rat

type_synonym 'a emitted = "jobj list \<times> 'a res"

definition fill_payload :: "probe_arguments \<Rightarrow> string" where
  "fill_payload a = replicate (nat (pa_bytes a)) (char_of (nat (pa_fill a)))"

definition encode_ascii :: "string \<Rightarrow> string res" where
  "encode_ascii s = (if is_ascii s then Inr s else Inl (ValueError ''ordinal not in range(128)''))"

definition request_header :: "string \<Rightarrow> probe_arguments \<Rightarrow> string" where
  "request_header operation a = operation @ '' '' @ pa_pipe a @ '' '' @ str_int (pa_bytes a) @ [newline]"

definition timing_record :: "string \<Rightarrow> nat \<Rightarrow> (string \<times> int) list \<Rightarrow> jobj" where
  "timing_record event sequence clock =
     [(''event'', JStr event), (''sequence'', JInt (int sequence))] @ map (\<lambda>(k, t). (k, JInt t)) clock"

text \<open>
  One operation: the three clock readings are taken before the request, after it was sent and at the end.
\<close>

definition reader_response :: "probe_arguments \<Rightarrow> string list \<Rightarrow> unit res" where
  "reader_response a cs =
     bindE (read_line cs) (\<lambda>(response, rest).
       if response \<noteq> ok_bytes_line (pa_bytes a) then Inl (RuntimeError (''unexpected read response: '' @ response))
       else bindE (read_exactly ''router closed the connection during payload receive'' (nat (pa_bytes a)) rest) (\<lambda>(payload, _).
            if payload \<noteq> fill_payload a then Inl (RuntimeError ''received payload differs from the probe pattern'')
            else Inr ()))"

definition reader_operation ::
  "probe_arguments \<Rightarrow> (nat \<Rightarrow> int \<times> int \<times> int) \<Rightarrow> (nat \<Rightarrow> string \<Rightarrow> string list) \<Rightarrow> nat \<Rightarrow> unit emitted" where
  "reader_operation a clock peer sequence =
     (let (started, issued, completed) = clock sequence;
          head = [(''request_started_ns'', started), (''request_issued_ns'', issued)]
      in case encode_ascii (request_header ''R'' a) of
           Inl e \<Rightarrow> ([], Inl e)
         | Inr header \<Rightarrow>
             (case reader_response a (peer sequence header) of
                Inl e \<Rightarrow> ([timing_record ''reader_issued'' sequence head], Inl e)
              | Inr _ \<Rightarrow> ([timing_record ''reader_issued'' sequence head,
                    timing_record ''reader_completed'' sequence
                      (head @ [(''completed_ns'', completed), (''router_read_wait_ns'', completed - issued)])], Inr ())))"

definition writer_response :: "string list \<Rightarrow> unit res" where
  "writer_response cs =
     bindE (read_line cs) (\<lambda>(response, _).
       if response \<noteq> ok_line then Inl (RuntimeError (''unexpected write response: '' @ response)) else Inr ())"

definition writer_operation ::
  "probe_arguments \<Rightarrow> (nat \<Rightarrow> int \<times> int \<times> int) \<Rightarrow> (nat \<Rightarrow> string \<Rightarrow> string list) \<Rightarrow> nat \<Rightarrow> unit emitted" where
  "writer_operation a clock peer sequence =
     (let (started, issued, completed) = clock sequence
      in case bindE (encode_ascii (request_header ''W'' a)) (\<lambda>header. writer_response (peer sequence (header @ fill_payload a))) of
           Inl e \<Rightarrow> ([], Inl e)
         | Inr _ \<Rightarrow> ([timing_record ''writer_completed'' sequence
               [(''request_started_ns'', started), (''request_issued_ns'', issued), (''completed_ns'', completed),
                (''router_write_service_ns'', completed - issued)]], Inr ()))"

text \<open>A loop over operations stops at the first exception and keeps what was printed.\<close>

primrec operations :: "('i \<Rightarrow> unit emitted) \<Rightarrow> 'i list \<Rightarrow> unit emitted" where
  "operations f [] = ([], Inr ())"
| "operations f (i # is) =
     (case f i of
        (records, Inl e) \<Rightarrow> (records, Inl e)
      | (records, Inr _) \<Rightarrow> (let (more, r) = operations f is in (records @ more, r)))"

definition run_reader where
  "run_reader a clock peer = operations (reader_operation a clock peer) [0..<nat (pa_count a)]"

definition run_writer where
  "run_writer a clock peer = operations (writer_operation a clock peer) [0..<nat (pa_count a)]"

definition check_probe :: "probe_arguments \<Rightarrow> unit res" where
  "check_probe a =
     (if \<not> (1 \<le> pa_bytes a \<and> pa_bytes a \<le> 65000) then Inl (SystemExit ''--bytes must be in 1..65000'')
      else if pa_count a < 1 then Inl (SystemExit ''--count must be positive'')
      else if \<not> (0 \<le> pa_fill a \<and> pa_fill a \<le> 255) then Inl (SystemExit ''--fill must be in 0..255'')
      else if pa_interval_ms a < 0 then Inl (SystemExit ''--interval-ms must not be negative'')
      else Inr ())"

text \<open>\<open>main\<close>: \<open>OSError\<close> and \<open>RuntimeError\<close> give exit status 1, another exception is raised.\<close>

definition probe_status :: "unit emitted \<Rightarrow> jobj list \<times> int res" where
  "probe_status m = (case m of
       (records, Inr _) \<Rightarrow> (records, Inr 0)
     | (records, Inl (OSError _)) \<Rightarrow> (records, Inr 1)
     | (records, Inl (TimeoutError _)) \<Rightarrow> (records, Inr 1)
     | (records, Inl (RuntimeError _)) \<Rightarrow> (records, Inr 1)
     | (records, Inl e) \<Rightarrow> (records, Inl e))"

definition pipecomm_probe where
  "pipecomm_probe reader a clock peer =
     (case check_probe a of
        Inl e \<Rightarrow> ([], Inl e)
      | Inr _ \<Rightarrow> probe_status (if reader then run_reader a clock peer else run_writer a clock peer))"

section \<open>The TCP probe\<close>

definition tcp_closed :: string where
  "tcp_closed = ''peer closed the TCP connection early''"

primrec run_server :: "nat \<Rightarrow> nat \<Rightarrow> string list \<Rightarrow> string \<times> unit res" where
  "run_server n 0 cs = ([], Inr ())"
| "run_server n (Suc k) cs =
     (case read_exactly tcp_closed n cs of
        Inl e \<Rightarrow> ([], Inl e)
      | Inr (payload, rest) \<Rightarrow> (let (sent, r) = run_server n k rest in (payload @ sent, r)))"

definition tcp_record :: "nat \<Rightarrow> int \<times> int \<Rightarrow> jobj" where
  "tcp_record sequence = (\<lambda>(started, completed). [(''sequence'', JInt (int sequence)), (''round_trip_ns'', JInt (completed - started)),
     (''started_ns'', JInt started), (''completed_ns'', JInt completed)])"

primrec run_client :: "string \<Rightarrow> (nat \<Rightarrow> int \<times> int) \<Rightarrow> nat list \<Rightarrow> string list \<Rightarrow> unit emitted" where
  "run_client payload clock [] cs = ([], Inr ())"
| "run_client payload clock (sequence # is) cs =
     (case read_exactly tcp_closed (length payload) cs of
        Inl e \<Rightarrow> ([], Inl e)
      | Inr (echoed, rest) \<Rightarrow>
          if echoed \<noteq> payload then ([], Inl (RuntimeError ''echoed TCP payload differs from the probe pattern''))
          else (let (more, r) = run_client payload clock is rest in (tcp_record sequence (clock sequence) # more, r)))"

definition check_tcp :: "bool \<Rightarrow> string \<Rightarrow> probe_arguments \<Rightarrow> unit res" where
  "check_tcp client host a =
     (if client \<and> host = [] then Inl (SystemExit ''--host is required for client mode'')
      else if \<not> (1 \<le> pa_bytes a \<and> pa_bytes a \<le> 65000) then Inl (SystemExit ''--bytes must be in 1..65000'')
      else if pa_count a < 1 then Inl (SystemExit ''--count must be positive'')
      else if \<not> (0 \<le> pa_fill a \<and> pa_fill a \<le> 255) then Inl (SystemExit ''--fill must be in 0..255'')
      else Inr ())"

text \<open>\<open>main\<close> of the TCP probe on what its connection delivers; the server prints no records.\<close>

definition tcp_probe :: "bool \<Rightarrow> string \<Rightarrow> probe_arguments \<Rightarrow> (nat \<Rightarrow> int \<times> int) \<Rightarrow> string list \<Rightarrow> jobj list \<times> int res" where
  "tcp_probe client host a clock cs =
     (case check_tcp client host a of
        Inl e \<Rightarrow> ([], Inl e)
      | Inr _ \<Rightarrow> probe_status (if client then run_client (fill_payload a) clock [0..<nat (pa_count a)] cs
                               else ([], snd (run_server (nat (pa_bytes a)) (nat (pa_count a)) cs))))"

section \<open>Summaries\<close>

text \<open>
  The lines of a file are given; a line that is not JSON is skipped. Quotients are exact and clock in
  milliseconds.
\<close>

definition add_probe_record :: "(string \<Rightarrow> json res) \<Rightarrow> string \<Rightarrow> string \<Rightarrow> (int, jobj) dict \<Rightarrow> (int, jobj) dict res" where
  "add_probe_record loads expected_event line result =
     (case loads line of
        Inl JSONDecodeError \<Rightarrow> Inr result
      | Inl e \<Rightarrow> Inl e
      | Inr (JObj record) \<Rightarrow>
          if jget record ''event'' \<noteq> JStr expected_event then Inr result
          else (case as_int (jget record ''sequence'') of
                  None \<Rightarrow> Inl (ValueError ''completed record has no integer sequence'')
                | Some sequence \<Rightarrow> Inr (AList.update sequence record result))
      | Inr _ \<Rightarrow> Inl (TypeError ''object has no attribute get''))"

definition probe_records :: "(string \<Rightarrow> json res) \<Rightarrow> string \<Rightarrow> string list \<Rightarrow> (int, jobj) dict res" where
  "probe_records loads expected_event lines = foldE (add_probe_record loads expected_event) lines []"

record latency =
  lt_min :: rat
  lt_median :: rat
  lt_mean :: rat
  lt_p95 :: rat
  lt_max :: rat

definition milliseconds :: "rat \<Rightarrow> rat" where
  "milliseconds x = x / 1000000"

definition median_of :: "int list \<Rightarrow> rat" where
  "median_of ordered =
     (let n = length ordered
      in if odd n then of_int (ordered ! (n div 2)) else of_int (ordered ! (n div 2 - 1) + ordered ! (n div 2)) / 2)"

definition p95_index :: "nat \<Rightarrow> nat" where
  "p95_index n = nat (max 0 ((95 * int n + 99) div 100 - 1))"

definition percentiles :: "int list \<Rightarrow> latency res" where
  "percentiles values =
     (let ordered = sort values
      in if ordered = [] then Inl (ValueError ''no samples'')
         else Inr \<lparr>lt_min = milliseconds (of_int (ordered ! 0)), lt_median = milliseconds (median_of ordered),
           lt_mean = milliseconds (of_int (sum_list ordered) / of_nat (length ordered)),
           lt_p95 = milliseconds (of_int (ordered ! p95_index (length ordered))), lt_max = milliseconds (of_int (last ordered))\<rparr>)"

definition int_field :: "jobj \<Rightarrow> string \<Rightarrow> int res" where
  "int_field record k = bindE (dict_item record k) (\<lambda>v. case as_int v of Some i \<Rightarrow> Inr i | None \<Rightarrow> Inl (TypeError ''unsupported operand''))"

record probe_summary =
  pb_samples :: nat
  pb_delivery :: latency
  pb_write_service :: latency
  pb_read_wait :: latency

definition paired :: "(int, jobj) dict \<Rightarrow> (int, jobj) dict \<Rightarrow> int list" where
  "paired reader writer = sort (filter (\<lambda>i. map_of writer i \<noteq> None) (map fst reader))"

definition summarize_probe :: "(int, jobj) dict \<Rightarrow> (int, jobj) dict \<Rightarrow> probe_summary res" where
  "summarize_probe reader writer =
     (let common = paired reader writer; item = (\<lambda>records i. the (map_of records i))
      in if common = [] then Inl (ValueError ''no completed reader/writer sequence pairs'')
         else bindE (mapE (\<lambda>i. bindE (int_field (item reader i) ''completed_ns'') (\<lambda>completed.
                bindE (int_field (item writer i) ''request_issued_ns'') (\<lambda>issued. Inr (completed - issued)))) common) (\<lambda>delivery.
              if list_ex (\<lambda>x. x < 0) delivery
              then Inl (ValueError ''container monotonic clocks are not comparable in this environment'')
              else bindE (mapE (\<lambda>i. int_field (item writer i) ''router_write_service_ns'') common) (\<lambda>write_service.
                   bindE (mapE (\<lambda>i. int_field (item reader i) ''router_read_wait_ns'') common) (\<lambda>read_wait.
                   bindE (percentiles delivery) (\<lambda>d. bindE (percentiles write_service) (\<lambda>w. bindE (percentiles read_wait) (\<lambda>r.
                     Inr \<lparr>pb_samples = length common, pb_delivery = d, pb_write_service = w, pb_read_wait = r\<rparr>))))))
      )"

definition summarize_pipecomm :: "(string \<Rightarrow> json res) \<Rightarrow> string list \<Rightarrow> string list \<Rightarrow> probe_summary res" where
  "summarize_pipecomm loads reader_lines writer_lines =
     bindE (probe_records loads ''reader_completed'' reader_lines) (\<lambda>reader.
     bindE (probe_records loads ''writer_completed'' writer_lines) (summarize_probe reader))"

definition tcp_sample :: "(string \<Rightarrow> json res) \<Rightarrow> string \<Rightarrow> int list \<Rightarrow> int list res" where
  "tcp_sample loads line samples =
     (case loads line of
        Inl JSONDecodeError \<Rightarrow> Inr samples
      | Inl e \<Rightarrow> Inl e
      | Inr (JObj record) \<Rightarrow> (case as_int (jget record ''round_trip_ns'') of None \<Rightarrow> Inr samples | Some v \<Rightarrow> Inr (samples @ [v]))
      | Inr _ \<Rightarrow> Inl (TypeError ''object has no attribute get''))"

definition summarize_tcp :: "(string \<Rightarrow> json res) \<Rightarrow> string list \<Rightarrow> (nat \<times> latency) res" where
  "summarize_tcp loads lines =
     bindE (foldE (tcp_sample loads) lines []) (\<lambda>samples.
       if samples = [] then Inl (ValueError ''no TCP round-trip records'')
       else bindE (percentiles samples) (\<lambda>l. Inr (length samples, l)))"

section \<open>The reads do not depend on the chunks\<close>

definition chunked :: "string list \<Rightarrow> string \<Rightarrow> bool" where
  "chunked cs s \<longleftrightarrow> concat cs = s \<and> [] \<notin> set cs"

lemma recv_chunked:
  assumes "chunked cs s" and "0 < n" and "s \<noteq> []"
  shows "\<exists>part rest. recv n cs = (part, rest) \<and> part \<noteq> [] \<and> length part \<le> n \<and> part @ concat rest = s \<and> chunked rest (concat rest)"
  using assms by (cases cs) (auto simp: chunked_def)

lemma read_exactly_loop_chunked:
  assumes "chunked cs (p @ s)" and "length acc + length p = n"
  shows "\<exists>rest. read_exactly_loop message n cs acc = Inr (acc @ p, rest) \<and> chunked rest s"
  using assms
proof (induction "length p" arbitrary: cs p acc rule: less_induct)
  case less
  show ?case
  proof (cases "p = []")
    case True
    then show ?thesis using less.prems by (subst read_exactly_loop.simps) auto
  next
    case False
    then obtain part rest where r: "recv (length p) cs = (part, rest)" "part \<noteq> []" "length part \<le> length p"
        "part @ concat rest = p @ s" "chunked rest (concat rest)"
      using recv_chunked [OF less.prems(1), of "length p"] by auto
    then have p: "p = part @ drop (length part) p" and rest: "concat rest = drop (length part) p @ s"
      by (auto simp: append_eq_append_conv_if split: if_splits) (metis append_eq_conv_conj)
    have "length (drop (length part) p) < length p" using r(2) False by simp
    then have "\<exists>rest'. read_exactly_loop message n rest (acc @ part) = Inr ((acc @ part) @ drop (length part) p, rest') \<and> chunked rest' s"
      using r(2,3,5) less.prems(2) rest by (intro less.hyps) auto
    moreover have "length acc < n" "n - length acc = length p" using less.prems(2) False by auto
    ultimately show ?thesis using r(1,2) p by (subst read_exactly_loop.simps) auto
  qed
qed

lemma read_exactly_chunked:
  "chunked cs (p @ s) \<Longrightarrow> \<exists>rest. read_exactly message (length p) cs = Inr (p, rest) \<and> chunked rest s"
  using read_exactly_loop_chunked [of cs p s "[]" "length p" message] by (simp add: read_exactly_def)

lemma read_line_loop_chunked:
  assumes "chunked cs (h @ newline # s)" and "newline \<notin> set h" and "length acc + length h < 512"
  shows "\<exists>rest. read_line_loop cs acc = Inr (acc @ h @ [newline], rest) \<and> chunked rest s"
  using assms
proof (induction h arbitrary: cs acc)
  case Nil
  then obtain part rest where "recv 1 cs = (part, rest)" "part \<noteq> []" "length part \<le> 1"
      "part @ concat rest = newline # s" "chunked rest (concat rest)"
    using recv_chunked [of cs "newline # s" 1] by auto
  then show ?case using Nil.prems(3) by (subst read_line_loop.simps) (auto simp: Cons_eq_append_conv neq_Nil_conv)
next
  case (Cons c h)
  then obtain part rest where r: "recv 1 cs = (part, rest)" "part \<noteq> []" "length part \<le> 1"
      "part @ concat rest = c # h @ newline # s" "chunked rest (concat rest)"
    using recv_chunked [of cs "c # h @ newline # s" 1] by auto
  then have "part = [c]" "concat rest = h @ newline # s" by (auto simp: neq_Nil_conv)
  then show ?case using Cons.IH [of rest "acc @ [c]"] Cons.prems r by (subst read_line_loop.simps) auto
qed

lemma read_line_chunked:
  "chunked cs (h @ newline # s) \<Longrightarrow> newline \<notin> set h \<Longrightarrow> length h < 512 \<Longrightarrow>
   \<exists>rest. read_line cs = Inr (h @ [newline], rest) \<and> chunked rest s"
  using read_line_loop_chunked [of cs h s "[]"] by (simp add: read_line_def)

section \<open>Bounds of the percentiles\<close>

lemma p95_index_less: "0 < n \<Longrightarrow> p95_index n < n"
  by (auto simp: p95_index_def)

lemma p95_index_half: "0 < n \<Longrightarrow> n div 2 \<le> p95_index n"
  by (auto simp: p95_index_def)

lemma p95_index_covers: "0 < n \<Longrightarrow> 95 * n \<le> 100 * Suc (p95_index n)"
  by (auto simp: p95_index_def)

lemma sorted_nth_le: "sorted xs \<Longrightarrow> i \<le> j \<Longrightarrow> j < length xs \<Longrightarrow> xs ! i \<le> xs ! j"
  by (rule sorted_nth_mono)

lemma median_bounds:
  assumes "sorted xs" and "xs \<noteq> []"
  shows "of_int (xs ! 0) \<le> median_of xs" and "median_of xs \<le> of_int (xs ! (length xs div 2))"
proof -
  have lt: "length xs div 2 < length xs" using assms(2) by simp
  have le: "xs ! (length xs div 2 - 1) \<le> xs ! (length xs div 2)" "xs ! 0 \<le> xs ! (length xs div 2 - 1)"
    "xs ! 0 \<le> xs ! (length xs div 2)"
    using assms(1) lt by (auto intro!: sorted_nth_le)
  have "2 * xs ! 0 \<le> xs ! (length xs div 2 - 1) + xs ! (length xs div 2)"
    "xs ! (length xs div 2 - 1) + xs ! (length xs div 2) \<le> 2 * xs ! (length xs div 2)" using le by simp_all
  then have "of_int (2 * xs ! 0) \<le> (of_int (xs ! (length xs div 2 - 1) + xs ! (length xs div 2)) :: rat)"
    "(of_int (xs ! (length xs div 2 - 1) + xs ! (length xs div 2)) :: rat) \<le> of_int (2 * xs ! (length xs div 2))"
    by (simp_all only: of_int_le_iff)
  then show "of_int (xs ! 0) \<le> median_of xs" "median_of xs \<le> of_int (xs ! (length xs div 2))"
    using le(3) by (auto simp: median_of_def Let_def)
qed

lemma mean_bounds:
  fixes xs :: "int list"
  assumes "sorted xs" and "xs \<noteq> []"
  shows "of_int (xs ! 0) \<le> (of_int (sum_list xs) / of_nat (length xs) :: rat)"
    and "(of_int (sum_list xs) / of_nat (length xs) :: rat) \<le> of_int (last xs)"
proof -
  have "xs ! 0 \<le> x" "x \<le> last xs" if "x \<in> set xs" for x
    using assms that by (auto simp: in_set_conv_nth last_conv_nth intro: sorted_nth_le)
  then have "(\<Sum>x\<leftarrow>xs. xs ! 0) \<le> (\<Sum>x\<leftarrow>xs. x)" "(\<Sum>x\<leftarrow>xs. x) \<le> (\<Sum>x\<leftarrow>xs. last xs)"
    by (intro sum_list_mono; simp)+
  then have "int (length xs) * xs ! 0 \<le> sum_list xs" "sum_list xs \<le> int (length xs) * last xs"
    by (simp_all add: sum_list_triv)
  then have "of_int (int (length xs) * xs ! 0) \<le> (of_int (sum_list xs) :: rat)"
    "(of_int (sum_list xs) :: rat) \<le> of_int (int (length xs) * last xs)" by (simp_all only: of_int_le_iff)
  then show "of_int (xs ! 0) \<le> (of_int (sum_list xs) / of_nat (length xs) :: rat)"
    "(of_int (sum_list xs) / of_nat (length xs) :: rat) \<le> of_int (last xs)"
    using assms(2) by (simp_all add: field_simps)
qed

text \<open>
  The percentiles of a non-empty sample are ordered and cover it: the minimum, the median, the 95th
  percentile and the maximum ascend, the mean lies between minimum and maximum, and at least 95 percent
  of the samples are at most the 95th percentile.
\<close>

lemma percentiles_ordered:
  assumes "percentiles samples = Inr l"
  shows "lt_min l \<le> lt_median l \<and> lt_median l \<le> lt_p95 l \<and> lt_p95 l \<le> lt_max l
    \<and> lt_min l \<le> lt_mean l \<and> lt_mean l \<le> lt_max l
    \<and> 95 * length samples \<le> 100 * length (filter (\<lambda>x. milliseconds (of_int x) \<le> lt_p95 l) samples)"
proof -
  let ?xs = "sort samples" and ?i = "p95_index (length samples)"
  have ne: "?xs \<noteq> []" "samples \<noteq> []" "0 < length samples" using assms by (auto simp: percentiles_def Let_def split: if_splits)
  note i = p95_index_less [OF ne(3)] p95_index_half [OF ne(3)] p95_index_covers [OF ne(3)]
  have scale: "milliseconds x \<le> milliseconds y \<longleftrightarrow> x \<le> y" for x y by (simp add: milliseconds_def field_simps)
  have "?xs ! (length samples div 2) \<le> ?xs ! ?i" "?xs ! ?i \<le> last ?xs"
    using i ne by (auto intro: sorted_nth_le simp: last_conv_nth)
  then have steps: "(of_int (?xs ! (length samples div 2)) :: rat) \<le> of_int (?xs ! ?i)" "(of_int (?xs ! ?i) :: rat) \<le> of_int (last ?xs)"
    by simp_all
  have "set (take (Suc ?i) ?xs) \<subseteq> {x. x \<le> ?xs ! ?i}"
    using i by (auto simp: in_set_conv_nth less_Suc_eq_le intro!: sorted_nth_le)
  then have "filter (\<lambda>x. x \<le> ?xs ! ?i) (take (Suc ?i) ?xs) = take (Suc ?i) ?xs" by (auto simp: filter_id_conv)
  then have "Suc ?i \<le> length (filter (\<lambda>x. x \<le> ?xs ! ?i) (take (Suc ?i) ?xs @ drop (Suc ?i) ?xs))"
    unfolding filter_append using i(1) by simp
  also have "\<dots> = length (filter (\<lambda>x. x \<le> ?xs ! ?i) samples)"
    unfolding append_take_drop_id by (simp only: filter_sort length_sort)
  finally have "95 * length samples \<le> 100 * length (filter (\<lambda>x. x \<le> ?xs ! ?i) samples)"
    by (rule order_trans [OF i(3) mult_le_mono2])
  then show ?thesis
    using assms steps median_bounds [OF sorted_sort ne(1)] mean_bounds [OF sorted_sort ne(1)]
    by (auto simp: percentiles_def Let_def scale split: if_splits)
qed

section \<open>The probes against the router\<close>

lemma match_pipe_name_chars:
  assumes "match_pipe_name s = Some t" and "c \<in> set s"
  shows "is_digit c \<or> c \<in> set ''buffer_-''"
proof -
  obtain r where s: "s = ''buffer'' @ r" using assms(1) by (auto simp: match_pipe_name_def prefix_def split: if_splits)
  then have r: "drop 6 s = r" by simp
  obtain x1 x2 x3 x4 where parts: "split_on (CHR ''_'') r = [x1, x2, x3, x4]"
    and groups: "int_group x1" "int_group x2" "int_group x3" "int_group x4"
    using assms(1) unfolding match_pipe_name_def r by (auto split: list.splits if_splits)
  have "c \<in> set x \<Longrightarrow> int_group x \<Longrightarrow> is_digit c \<or> c = CHR ''-''" for x
    by (cases x) (auto simp: int_group_def list_all_iff split: if_splits)
  moreover have "r = x1 @ ''_'' @ x2 @ ''_'' @ x3 @ ''_'' @ x4" using join_split_on [of "CHR ''_''" r] parts by simp
  then have "c \<in> set ''buffer'' \<union> set x1 \<union> set x2 \<union> set x3 \<union> set x4 \<union> set ''_''" using assms(2) unfolding s by auto
  moreover have "set ''buffer'' \<union> set ''_'' \<subseteq> set ''buffer_-''" "CHR ''-'' \<in> set ''buffer_-''" by simp_all
  ultimately show ?thesis using groups by blast
qed

lemma pipe_name_plain:
  assumes "match_pipe_name s = Some t"
  shows "CHR '' '' \<notin> set s" "CHR ''/'' \<notin> set s" "newline \<notin> set s" "is_ascii s"
proof -
  note chars = match_pipe_name_chars [OF assms]
  have other: "\<not> is_digit c \<and> c \<notin> set ''buffer_-'' \<Longrightarrow> c \<notin> set s" for c using chars by blast
  show "CHR '' '' \<notin> set s" by (rule other) code_simp
  show "CHR ''/'' \<notin> set s" by (rule other) code_simp
  show "newline \<notin> set s" by (rule other) code_simp
  have "is_ascii ''buffer_-''" by code_simp
  then have "\<forall>c\<in>set ''buffer_-''. (of_char c :: nat) < 128" unfolding is_ascii_def list_all_iff .
  moreover have "is_digit c \<Longrightarrow> (of_char c :: nat) < 128" for c by (simp add: is_digit_def)
  ultimately show "is_ascii s" using chars unfolding is_ascii_def list_all_iff by blast
qed

definition probe_request :: "string \<Rightarrow> probe_arguments \<Rightarrow> request" where
  "probe_request operation a = \<lparr>rq_operation = operation, rq_pipe_name = pa_pipe a, rq_byte_count = pa_bytes a,
     rq_payload = (if operation = ''W'' then fill_payload a else [])\<rparr>"

lemma probe_request_read:
  assumes "check_probe a = Inr ()" and "match_pipe_name (pa_pipe a) = Some t" and "length (pa_pipe a) \<le> 1000"
    and "operation \<in> {''W'', ''R''}"
  shows "read_request (request_header operation a @ rq_payload (probe_request operation a)) = Inr (probe_request operation a)"
    and "is_ascii (request_header operation a)"
proof -
  have bytes: "1 \<le> pa_bytes a" "pa_bytes a \<le> 65000" using assms(1) by (auto simp: check_probe_def split: if_splits)
  have "length (str_int (pa_bytes a)) \<le> 5"
    using bytes length_show_nat_le [of "nat (pa_bytes a)" 4] by (simp add: str_int_def)
  then have "read_request (normalized_header (probe_request operation a) @ rq_payload (probe_request operation a)) = Inr (probe_request operation a)"
    using assms(3,4) bytes pipe_name_plain [OF assms(2)]
    by (intro read_request_normalized) (auto simp: probe_request_def fill_payload_def MAX_REQUEST_BYTES_def stream_limit_def)
  then show "read_request (request_header operation a @ rq_payload (probe_request operation a)) = Inr (probe_request operation a)"
    by (simp add: request_header_def normalized_header_def probe_request_def)
  show "is_ascii (request_header operation a)"
    using assms(4) pipe_name_plain(4) [OF assms(2)] str_int_ascii [of "pa_bytes a"]
    by (auto simp: request_header_def is_ascii_def newline_def)
qed

lemma writer_accepts: "chunked cs ok_line \<Longrightarrow> writer_response cs = Inr ()"
  using read_line_chunked [of cs "''OK''" "[]"] by (auto simp: writer_response_def ok_line_def newline_def)

lemma reader_accepts:
  assumes "chunked cs (ok_bytes_line (pa_bytes a) @ fill_payload a)" and "check_probe a = Inr ()"
  shows "reader_response a cs = Inr ()"
proof -
  have bytes: "1 \<le> pa_bytes a" "pa_bytes a \<le> 65000" using assms(2) by (auto simp: check_probe_def split: if_splits)
  have "length (str_int (pa_bytes a)) \<le> 5"
    using bytes length_show_nat_le [of "nat (pa_bytes a)" 4] by (simp add: str_int_def)
  then have "\<exists>rest. read_line cs = Inr ((''OK '' @ str_int (pa_bytes a)) @ [newline], rest) \<and> chunked rest (fill_payload a)"
    using assms(1) str_int_not_in [of newline "pa_bytes a"]
    by (intro read_line_chunked) (auto simp: ok_bytes_line_def newline_def)
  then obtain rest where rest: "read_line cs = Inr (ok_bytes_line (pa_bytes a), rest)" "chunked rest (fill_payload a @ [])"
    by (auto simp: ok_bytes_line_def)
  obtain rest' where "read_exactly ''router closed the connection during payload receive'' (length (fill_payload a)) rest
      = Inr (fill_payload a, rest')" using read_exactly_chunked [OF rest(2)] by blast
  with rest(1) show ?thesis by (simp add: reader_response_def fill_payload_def)
qed

lemma operations_ok: "(\<And>i. i \<in> set is \<Longrightarrow> f i = (g i, Inr ())) \<Longrightarrow> operations f is = (concat (map g is), Inr ())"
  by (induction "is") auto

text \<open>What the probes print when every operation is answered.\<close>

definition writer_record :: "(nat \<Rightarrow> int \<times> int \<times> int) \<Rightarrow> nat \<Rightarrow> jobj" where
  "writer_record clock i = (let (started, issued, completed) = clock i in timing_record ''writer_completed'' i
     [(''request_started_ns'', started), (''request_issued_ns'', issued), (''completed_ns'', completed),
      (''router_write_service_ns'', completed - issued)])"

definition issued_record :: "(nat \<Rightarrow> int \<times> int \<times> int) \<Rightarrow> nat \<Rightarrow> jobj" where
  "issued_record clock i = (let (started, issued, completed) = clock i in timing_record ''reader_issued'' i
     [(''request_started_ns'', started), (''request_issued_ns'', issued)])"

definition reader_record :: "(nat \<Rightarrow> int \<times> int \<times> int) \<Rightarrow> nat \<Rightarrow> jobj" where
  "reader_record clock i = (let (started, issued, completed) = clock i in timing_record ''reader_completed'' i
     [(''request_started_ns'', started), (''request_issued_ns'', issued), (''completed_ns'', completed),
      (''router_read_wait_ns'', completed - issued)])"

lemma run_writer_ok:
  assumes "is_ascii (request_header ''W'' a)" and "\<And>i. chunked (peer i (request_header ''W'' a @ fill_payload a)) ok_line"
  shows "run_writer a clock peer = (concat (map (\<lambda>i. [writer_record clock i]) [0..<nat (pa_count a)]), Inr ())"
  unfolding run_writer_def
proof (rule operations_ok)
  fix i
  show "writer_operation a clock peer i = ([writer_record clock i], Inr ())"
    using assms(1) writer_accepts [OF assms(2) [of i]]
    by (simp add: writer_operation_def encode_ascii_def writer_record_def split: prod.splits)
qed

lemma run_reader_ok:
  assumes "is_ascii (request_header ''R'' a)" and "check_probe a = Inr ()"
    and "\<And>i. chunked (peer i (request_header ''R'' a)) (ok_bytes_line (pa_bytes a) @ fill_payload a)"
  shows "run_reader a clock peer = (concat (map (\<lambda>i. [issued_record clock i, reader_record clock i]) [0..<nat (pa_count a)]), Inr ())"
  unfolding run_reader_def
proof (rule operations_ok)
  fix i
  show "reader_operation a clock peer i = ([issued_record clock i, reader_record clock i], Inr ())"
    using assms(1) reader_accepts [OF assms(3) [of i] assms(2)]
    by (simp add: reader_operation_def encode_ascii_def reader_record_def issued_record_def split: prod.splits)
qed

lemma router_serves_probe:
  assumes "route_request (rs_router s) (request_header ''W'' a @ fill_payload a) = Inr (probe_request ''W'' a, r_slot (rs_router s))"
    and "route_request (rs_router s) (request_header ''R'' a) = Inr (probe_request ''R'' a, r_slot (rs_router s))"
    and "rs_pipes s (pa_pipe a) = []" and "check_probe a = Inr ()"
  shows "\<exists>s1 s2. router_step gw s [Wrote (pa_pipe a) (fill_payload a)] s1 \<and> rs_replies s1 = rs_replies s @ [(c, ok_line)]
         \<and> router_step gw s1 [Delivered (pa_pipe a) (fill_payload a)] s2
         \<and> rs_replies s2 = rs_replies s1 @ [(d, ok_bytes_line (pa_bytes a) @ fill_payload a)]"
proof -
  define s1 where "s1 = reply c ok_line (notify_all (s\<lparr>rs_pipes := (rs_pipes s)(pa_pipe a := [fill_payload a])\<rparr>))"
  define s2 where "s2 = reply d (ok_bytes_line (pa_bytes a) @ fill_payload a) (s1\<lparr>rs_pipes := (rs_pipes s1)(pa_pipe a := [])\<rparr>)"
  have rq: "rq_operation (probe_request op a) = op" "rq_pipe_name (probe_request op a) = pa_pipe a"
    "rq_byte_count (probe_request op a) = pa_bytes a" "rq_payload (probe_request ''W'' a) = fill_payload a" for op
    by (simp_all add: probe_request_def)
  have s1: "rs_router s1 = rs_router s" "rs_pipes s1 (pa_pipe a) = [fill_payload a]" "rs_replies s1 = rs_replies s @ [(c, ok_line)]"
    by (simp_all add: s1_def state_update_simps)
  have "int (length (fill_payload a)) = pa_bytes a" using assms(4) by (auto simp: fill_payload_def check_probe_def split: if_splits)
  then have read: "local_ready (rs_pipes s1) (pa_pipe a) (pa_bytes a)"
    "handle_local_read (rs_pipes s1) (pa_pipe a) = Some (fill_payload a, (rs_pipes s1)(pa_pipe a := []))"
    by (simp_all add: local_ready_def handle_local_read_def s1)
  have "router_step gw s [Wrote (rq_pipe_name (probe_request ''W'' a)) (rq_payload (probe_request ''W'' a))] (reply c ok_line (notify_all
      (s\<lparr>rs_pipes := handle_local_write (rs_pipes s) (rq_pipe_name (probe_request ''W'' a)) (rq_payload (probe_request ''W'' a))\<rparr>)))"
    by (rule router_step.local_write [OF assms(1) refl rq(1)])
  then have "router_step gw s [Wrote (pa_pipe a) (fill_payload a)] s1"
    unfolding rq s1_def handle_local_write_def assms(3) by simp
  moreover have "router_step gw s1 [Delivered (rq_pipe_name (probe_request ''R'' a)) (fill_payload a)]
      (reply d (ok_bytes_line (rq_byte_count (probe_request ''R'' a)) @ fill_payload a) (s1\<lparr>rs_pipes := (rs_pipes s1)(pa_pipe a := [])\<rparr>))"
    using assms(2) read by (intro router_step.local_read [where peer = "r_slot (rs_router s)"]) (simp_all only: s1 rq)
  then have "router_step gw s1 [Delivered (pa_pipe a) (fill_payload a)] s2" unfolding rq s2_def .
  moreover have "rs_replies s2 = rs_replies s1 @ [(d, ok_bytes_line (pa_bytes a) @ fill_payload a)]" by (simp add: s2_def reply_def)
  ultimately show ?thesis using s1(3) by blast
qed

text \<open>
  C40. The probes and the router agree on their protocol. For accepted arguments and a pipe between two
  chiplets of one worker, the router reads the bytes of the writer as a write of the pattern and those
  of the reader as a read of the same size; after the write it answers the read with the pattern; and
  with these answers, however the socket cuts them, both probes end with status 0 and print their
  records for every operation.
\<close>

theorem probe_through_router:
  assumes "check_probe a = Inr ()" and "length (pa_pipe a) \<le> 1000"
    and "peer_for r ''W'' (pa_pipe a) = Inr (r_slot r)" and "peer_for r ''R'' (pa_pipe a) = Inr (r_slot r)"
    and "rs_router s = r" and "rs_pipes s (pa_pipe a) = []"
    and "\<And>i. chunked (wpeer i (request_header ''W'' a @ fill_payload a)) ok_line"
    and "\<And>i. chunked (rpeer i (request_header ''R'' a)) (ok_bytes_line (pa_bytes a) @ fill_payload a)"
  shows "route_request r (request_header ''W'' a @ fill_payload a) = Inr (probe_request ''W'' a, r_slot r)
    \<and> route_request r (request_header ''R'' a) = Inr (probe_request ''R'' a, r_slot r)
    \<and> (\<exists>s1 s2. router_step gw s [Wrote (pa_pipe a) (fill_payload a)] s1 \<and> rs_replies s1 = rs_replies s @ [(c, ok_line)]
         \<and> router_step gw s1 [Delivered (pa_pipe a) (fill_payload a)] s2
         \<and> rs_replies s2 = rs_replies s1 @ [(d, ok_bytes_line (pa_bytes a) @ fill_payload a)])
    \<and> snd (pipecomm_probe False a wclock wpeer) = Inr 0 \<and> length (fst (pipecomm_probe False a wclock wpeer)) = nat (pa_count a)
    \<and> snd (pipecomm_probe True a rclock rpeer) = Inr 0 \<and> length (fst (pipecomm_probe True a rclock rpeer)) = 2 * nat (pa_count a)"
proof -
  obtain t where name: "match_pipe_name (pa_pipe a) = Some t" using assms(3) by (auto simp: peer_for_def split: option.splits)
  note w = probe_request_read [OF assms(1) name assms(2), of "''W''"] and rd = probe_request_read [OF assms(1) name assms(2), of "''R''"]
  have route: "route_request r (request_header ''W'' a @ fill_payload a) = Inr (probe_request ''W'' a, r_slot r)"
    "route_request r (request_header ''R'' a) = Inr (probe_request ''R'' a, r_slot r)"
    using w(1) rd(1) assms(3,4) by (auto simp: route_request_def probe_request_def)
  have steps: "\<exists>s1 s2. router_step gw s [Wrote (pa_pipe a) (fill_payload a)] s1 \<and> rs_replies s1 = rs_replies s @ [(c, ok_line)]
         \<and> router_step gw s1 [Delivered (pa_pipe a) (fill_payload a)] s2
         \<and> rs_replies s2 = rs_replies s1 @ [(d, ok_bytes_line (pa_bytes a) @ fill_payload a)]"
    using route assms(1,5,6) by (intro router_serves_probe) auto
  have "is_ascii (request_header ''W'' a)" "is_ascii (request_header ''R'' a)" using w(2) rd(2) by auto
  then have "run_writer a wclock wpeer = (concat (map (\<lambda>i. [writer_record wclock i]) [0..<nat (pa_count a)]), Inr ())"
    "run_reader a rclock rpeer = (concat (map (\<lambda>i. [issued_record rclock i, reader_record rclock i]) [0..<nat (pa_count a)]), Inr ())"
    using assms(1,7,8) by (blast intro: run_writer_ok run_reader_ok)+
  then show ?thesis using route steps assms(1) 
    by (auto simp: pipecomm_probe_def probe_status_def length_concat comp_def sum_list_triv)
qed

definition demo_probe :: probe_arguments where
  "demo_probe = \<lparr>pa_pipe = ''buffer0_0_0_1'', pa_bytes = 3, pa_count = 2, pa_fill = 90, pa_interval_ms = 0\<rparr>"

definition demo_router :: router where
  "demo_router = \<lparr>r_slot = 0, r_coordinates = [(''0,0'', 0), (''0,1'', 0)], r_physical_slots = [], r_gateway_ports = []\<rparr>"

theorem probe_through_router_witness:
  "check_probe demo_probe = Inr () \<and> peer_for demo_router ''W'' (pa_pipe demo_probe) = Inr 0
   \<and> route_request demo_router (request_header ''R'' demo_probe) = Inr (probe_request ''R'' demo_probe, 0)
   \<and> snd (pipecomm_probe False demo_probe (\<lambda>i. (0, 1, 2)) (\<lambda>i h. [''O'', ''K'' @ [newline]])) = Inr 0
   \<and> length (fst (pipecomm_probe True demo_probe (\<lambda>i. (0, 1, 5)) (\<lambda>i h. [''OK 3'' @ [newline] @ ''Z'', ''ZZ'']))) = 4"
proof -
  have ok: "check_probe demo_probe = Inr ()" by (simp add: demo_probe_def check_probe_def)
  have len: "length (pa_pipe demo_probe) \<le> 1000" by (simp add: demo_probe_def)
  have w: "peer_for demo_router ''W'' (pa_pipe demo_probe) = Inr (r_slot demo_router)" by code_simp
  have r: "peer_for demo_router ''R'' (pa_pipe demo_probe) = Inr (r_slot demo_router)" by code_simp
  have s: "rs_router (init_state demo_router) = demo_router" "rs_pipes (init_state demo_router) (pa_pipe demo_probe) = []"
    by (simp_all add: init_state_def)
  have cw: "chunked [''O'', ''K'' @ [newline]] ok_line" by (simp add: chunked_def ok_line_def)
  have "str_int 3 = ''3''" "fill_payload demo_probe = ''ZZZ''" by code_simp+
  then have cr: "chunked [''OK 3'' @ [newline] @ ''Z'', ''ZZ''] (ok_bytes_line (pa_bytes demo_probe) @ fill_payload demo_probe)"
    by (simp add: chunked_def ok_bytes_line_def demo_probe_def)
  have slot: "r_slot demo_router = 0" "pa_count demo_probe = 2" by (simp_all add: demo_router_def demo_probe_def)
  show ?thesis
    using probe_through_router [OF ok len w r s, of "\<lambda>i h. [''O'', ''K'' @ [newline]]" "\<lambda>i h. [''OK 3'' @ [newline] @ ''Z'', ''ZZ'']", OF cw cr]
      ok w unfolding slot by simp
qed

section \<open>The summary of the probes\<close>

text \<open>A line that holds one record of a probe.\<close>

definition read_back :: "(string \<Rightarrow> json res) \<Rightarrow> (jobj \<Rightarrow> string) \<Rightarrow> jobj list \<Rightarrow> bool" where
  "read_back loads dumps records \<longleftrightarrow> list_all (\<lambda>d. loads (dumps d) = Inr (JObj d)) records"

lemma update_fresh: "k \<notin> fst ` set d \<Longrightarrow> AList.update k v d = d @ [(k, v)]"
  by (induction d) auto

lemma timing_record_event: "jget (timing_record e i ts) ''event'' = JStr e" "jget (timing_record e i ts) ''sequence'' = JInt (int i)"
  by (simp_all add: timing_record_def jget_def dict_get_def)

lemma writer_records_read:
  assumes "read_back loads dumps (map (writer_record clock) [0..<n])"
  shows "probe_records loads ''writer_completed'' (map (dumps \<circ> writer_record clock) [0..<n])
    = Inr (map (\<lambda>i. (int i, writer_record clock i)) [0..<n])"
  using assms
proof (induction n)
  case (Suc n)
  have "jget (writer_record clock n) ''event'' = JStr ''writer_completed''" "jget (writer_record clock n) ''sequence'' = JInt (int n)"
    by (simp_all add: writer_record_def timing_record_event split: prod.splits)
  moreover have "loads (dumps (writer_record clock n)) = Inr (JObj (writer_record clock n))" using Suc.prems by (simp add: read_back_def)
  ultimately have "add_probe_record loads ''writer_completed'' (dumps (writer_record clock n)) d
      = Inr (AList.update (int n) (writer_record clock n) d)" for d by (simp add: add_probe_record_def)
  with Suc show ?case by (auto simp: probe_records_def foldE_append read_back_def update_fresh image_def)
qed (simp add: probe_records_def)

lemma reader_records_read:
  assumes "read_back loads dumps (concat (map (\<lambda>i. [issued_record clock i, reader_record clock i]) [0..<n]))"
  shows "probe_records loads ''reader_completed'' (map dumps (concat (map (\<lambda>i. [issued_record clock i, reader_record clock i]) [0..<n])))
    = Inr (map (\<lambda>i. (int i, reader_record clock i)) [0..<n])"
  using assms
proof (induction n)
  case (Suc n)
  have loads: "loads (dumps (issued_record clock n)) = Inr (JObj (issued_record clock n))"
    "loads (dumps (reader_record clock n)) = Inr (JObj (reader_record clock n))" using Suc.prems by (simp_all add: read_back_def)
  have "jget (issued_record clock n) ''event'' \<noteq> JStr ''reader_completed''"
    "jget (reader_record clock n) ''event'' = JStr ''reader_completed''" "jget (reader_record clock n) ''sequence'' = JInt (int n)"
    by (simp_all add: issued_record_def reader_record_def timing_record_event split: prod.splits)
  with loads have "add_probe_record loads ''reader_completed'' (dumps (issued_record clock n)) d = Inr d"
    "add_probe_record loads ''reader_completed'' (dumps (reader_record clock n)) d = Inr (AList.update (int n) (reader_record clock n) d)" for d
    by (simp_all add: add_probe_record_def)
  with Suc show ?case by (auto simp: probe_records_def foldE_append read_back_def update_fresh image_def)
qed (simp add: probe_records_def)

text \<open>What the summary takes out of the records.\<close>

lemma record_times:
  "int_field (writer_record clock i) ''request_issued_ns'' = Inr (fst (snd (clock i)))"
  "int_field (writer_record clock i) ''router_write_service_ns'' = Inr (snd (snd (clock i)) - fst (snd (clock i)))"
  "int_field (reader_record clock i) ''completed_ns'' = Inr (snd (snd (clock i)))"
  "int_field (reader_record clock i) ''router_read_wait_ns'' = Inr (snd (snd (clock i)) - fst (snd (clock i)))"
  by (simp_all add: writer_record_def reader_record_def timing_record_def int_field_def dict_item_def split: prod.splits)

lemma numbered_lookup: "i < n \<Longrightarrow> map_of (map (\<lambda>i. (int i, f i)) [0..<n]) (int i) = Some (f i)"
  by (rule map_of_is_SomeI) (auto simp: distinct_map inj_on_def comp_def)

lemma numbered_pairs: "paired (map (\<lambda>i. (int i, f i)) [0..<n]) (map (\<lambda>i. (int i, g i)) [0..<n]) = map int [0..<n]"
proof -
  have "filter (\<lambda>i. map_of (map (\<lambda>i. (int i, g i)) [0..<n]) i \<noteq> None) (map int [0..<n]) = map int [0..<n]"
    by (auto simp: filter_id_conv numbered_lookup)
  moreover have "sorted (map int [0..<n])" by (simp add: sorted_map)
  ultimately show ?thesis by (simp add: paired_def comp_def sorted_sort_id)
qed

lemma mapE_numbered: "(\<And>i. i < n \<Longrightarrow> f (int i) = Inr (g i)) \<Longrightarrow> mapE f (map int [0..<n]) = Inr (map g [0..<n])"
  by (simp add: mapE_Inr_iff list_all2_conv_all_nth)

lemma percentiles_total: "xs \<noteq> [] \<Longrightarrow> \<exists>l. percentiles xs = Inr l"
  by (auto simp: percentiles_def Let_def) (metis length_0_conv length_sort)

text \<open>A probe that ends with status 0 has printed the records of all its operations.\<close>

lemma operations_Inr:
  "operations f is = (records, Inr ()) \<Longrightarrow> (\<And>i. snd (f i) = Inr () \<Longrightarrow> fst (f i) = g i) \<Longrightarrow> records = concat (map g is)"
proof (induction "is" arbitrary: records)
  case (Cons i "is")
  then obtain first u more where "f i = (first, Inr u)" "operations f is = (more, Inr ())" "records = first @ more"
    by (auto split: prod.splits sum.splits)
  with Cons.IH [of more] Cons.prems(2) [of i] Cons.prems(2) show ?case by simp
qed simp

lemma probe_status_zero: "probe_status m = (records, Inr 0) \<Longrightarrow> m = (records, Inr ())"
  by (auto simp: probe_status_def split: prod.splits sum.splits py_error.splits)

lemma reader_success:
  assumes "pipecomm_probe True a clock peer = (records, Inr 0)"
  shows "records = concat (map (\<lambda>i. [issued_record clock i, reader_record clock i]) [0..<nat (pa_count a)])" "check_probe a = Inr ()"
proof -
  show "check_probe a = Inr ()" using assms by (auto simp: pipecomm_probe_def split: sum.splits)
  then have "run_reader a clock peer = (records, Inr ())" using assms by (simp add: pipecomm_probe_def probe_status_zero)
  then show "records = concat (map (\<lambda>i. [issued_record clock i, reader_record clock i]) [0..<nat (pa_count a)])"
    unfolding run_reader_def
    by (rule operations_Inr) (auto simp: reader_operation_def Let_def issued_record_def reader_record_def split: prod.splits sum.splits)
qed

lemma writer_success:
  assumes "pipecomm_probe False a clock peer = (records, Inr 0)"
  shows "records = map (writer_record clock) [0..<nat (pa_count a)]"
proof -
  have "check_probe a = Inr ()" using assms by (auto simp: pipecomm_probe_def split: sum.splits)
  then have "run_writer a clock peer = (records, Inr ())" using assms by (simp add: pipecomm_probe_def probe_status_zero)
  then have "records = concat (map (\<lambda>i. [writer_record clock i]) [0..<nat (pa_count a)])"
    unfolding run_writer_def
    by (rule operations_Inr) (auto simp: writer_operation_def Let_def writer_record_def split: prod.splits sum.splits)
  then show ?thesis by simp
qed

text \<open>
  From the records of the two probes the summary takes every operation: after a reader and a writer
  with the same count that both ended with status 0, on a common clock, it has one sample per
  operation, whose delivery time is the time from the submission of the write to the end of the read,
  and the percentiles of these times, of the write service and of the read wait.
\<close>

theorem probe_summary_complete:
  assumes "pipecomm_probe True a rclock rpeer = (rrecords, Inr 0)" and "pipecomm_probe False a wclock wpeer = (wrecords, Inr 0)"
    and "read_back loads dumps (rrecords @ wrecords)" and "\<And>i. fst (snd (wclock i)) \<le> snd (snd (rclock i))"
  shows "\<exists>s. summarize_pipecomm loads (map dumps rrecords) (map dumps wrecords) = Inr s
    \<and> pb_samples s = nat (pa_count a)
    \<and> percentiles (map (\<lambda>i. snd (snd (rclock i)) - fst (snd (wclock i))) [0..<nat (pa_count a)]) = Inr (pb_delivery s)
    \<and> percentiles (map (\<lambda>i. snd (snd (wclock i)) - fst (snd (wclock i))) [0..<nat (pa_count a)]) = Inr (pb_write_service s)
    \<and> percentiles (map (\<lambda>i. snd (snd (rclock i)) - fst (snd (rclock i))) [0..<nat (pa_count a)]) = Inr (pb_read_wait s)"
proof -
  let ?n = "nat (pa_count a)"
  let ?reader = "map (\<lambda>i. (int i, reader_record rclock i)) [0..<?n]" and ?writer = "map (\<lambda>i. (int i, writer_record wclock i)) [0..<?n]"
  have n: "0 < ?n" using reader_success(2) [OF assms(1)] by (auto simp: check_probe_def split: if_splits)
  have files: "probe_records loads ''reader_completed'' (map dumps rrecords) = Inr ?reader"
    "probe_records loads ''writer_completed'' (map dumps wrecords) = Inr ?writer"
    using assms(3) reader_records_read [of loads dumps rclock ?n] writer_records_read [of loads dumps wclock ?n]
    unfolding reader_success(1) [OF assms(1)] writer_success [OF assms(2)] by (simp_all add: read_back_def)
  have delivery: "mapE (\<lambda>i. bindE (int_field (the (map_of ?reader i)) ''completed_ns'') (\<lambda>completed.
        bindE (int_field (the (map_of ?writer i)) ''request_issued_ns'') (\<lambda>issued. Inr (completed - issued)))) (map int [0..<?n])
      = Inr (map (\<lambda>i. snd (snd (rclock i)) - fst (snd (wclock i))) [0..<?n])"
    by (rule mapE_numbered) (simp add: numbered_lookup record_times del: map_of_map)
  have others: "mapE (\<lambda>i. int_field (the (map_of ?writer i)) ''router_write_service_ns'') (map int [0..<?n])
      = Inr (map (\<lambda>i. snd (snd (wclock i)) - fst (snd (wclock i))) [0..<?n])"
    "mapE (\<lambda>i. int_field (the (map_of ?reader i)) ''router_read_wait_ns'') (map int [0..<?n])
      = Inr (map (\<lambda>i. snd (snd (rclock i)) - fst (snd (rclock i))) [0..<?n])"
    by (rule mapE_numbered, simp add: numbered_lookup record_times)+
  have order: "\<not> list_ex (\<lambda>x. x < 0) (map (\<lambda>i. snd (snd (rclock i)) - fst (snd (wclock i))) [0..<?n])"
    using assms(4) by (auto simp: list_ex_iff not_less)
  have "map f [0..<?n] \<noteq> []" for f :: "nat \<Rightarrow> int" using n by simp
  then obtain d w r where "percentiles (map (\<lambda>i. snd (snd (rclock i)) - fst (snd (wclock i))) [0..<?n]) = Inr d"
    "percentiles (map (\<lambda>i. snd (snd (wclock i)) - fst (snd (wclock i))) [0..<?n]) = Inr w"
    "percentiles (map (\<lambda>i. snd (snd (rclock i)) - fst (snd (rclock i))) [0..<?n]) = Inr r" using percentiles_total by meson
  then show ?thesis
    using n order unfolding summarize_pipecomm_def files bindE_Inr summarize_probe_def Let_def numbered_pairs delivery others by simp
qed

text \<open>A pair of inverse functions on the records of one run.\<close>

definition table_dumps :: "jobj list \<Rightarrow> jobj \<Rightarrow> string" where
  "table_dumps records d = replicate (length (takeWhile (\<lambda>x. x \<noteq> d) records)) (CHR ''x'')"

definition table_loads :: "jobj list \<Rightarrow> string \<Rightarrow> json res" where
  "table_loads records line = Inr (JObj (records ! length line))"

lemma table_read_back: "read_back (table_loads records) (table_dumps records) records"
proof -
  have "records ! length (takeWhile (\<lambda>x. x \<noteq> d) records) = d" if "d \<in> set records" for d
    using that by (induction records) auto
  then show ?thesis by (simp add: read_back_def table_loads_def table_dumps_def list_all_iff)
qed

lemma demo_probes:
  "snd (pipecomm_probe True demo_probe (\<lambda>i. (0, 1, 5)) (\<lambda>i h. [''OK 3'' @ [newline] @ ''Z'', ''ZZ''])) = Inr 0"
  "snd (pipecomm_probe False demo_probe (\<lambda>i. (0, 2, 3)) (\<lambda>i h. [''OK'' @ [newline]])) = Inr 0"
  by code_simp+

theorem probe_summary_complete_witness:
  "\<exists>rrecords wrecords loads dumps s.
     pipecomm_probe True demo_probe (\<lambda>i. (0, 1, 5)) (\<lambda>i h. [''OK 3'' @ [newline] @ ''Z'', ''ZZ'']) = (rrecords, Inr 0)
     \<and> pipecomm_probe False demo_probe (\<lambda>i. (0, 2, 3)) (\<lambda>i h. [''OK'' @ [newline]]) = (wrecords, Inr 0)
     \<and> read_back loads dumps (rrecords @ wrecords)
     \<and> summarize_pipecomm loads (map dumps rrecords) (map dumps wrecords) = Inr s \<and> pb_samples s = 2
     \<and> percentiles [3, 3] = Inr (pb_delivery s)"
proof -
  obtain rrecords where r: "pipecomm_probe True demo_probe (\<lambda>i. (0, 1, 5)) (\<lambda>i h. [''OK 3'' @ [newline] @ ''Z'', ''ZZ'']) = (rrecords, Inr 0)"
    using demo_probes(1) by (metis prod.collapse)
  obtain wrecords where w: "pipecomm_probe False demo_probe (\<lambda>i. (0, 2, 3)) (\<lambda>i h. [''OK'' @ [newline]]) = (wrecords, Inr 0)"
    using demo_probes(2) by (metis prod.collapse)
  have "pa_count demo_probe = 2" by (simp add: demo_probe_def)
  then show ?thesis using probe_summary_complete [OF r w table_read_back] r w table_read_back [of "rrecords @ wrecords"]
    by (auto simp: upt_rec numeral_2_eq_2)
qed

section \<open>The TCP echo\<close>

lemma chunked_app: "chunked cs s \<Longrightarrow> chunked ds t \<Longrightarrow> chunked (cs @ ds) (s @ t)"
  by (auto simp: chunked_def)

lemma run_server_echo:
  "chunked cs (concat ps @ s) \<Longrightarrow> list_all (\<lambda>p. length p = n) ps \<Longrightarrow> run_server n (length ps) cs = (concat ps, Inr ())"
proof (induction ps arbitrary: cs)
  case (Cons p ps)
  then obtain rest where "read_exactly tcp_closed n cs = Inr (p, rest)" "chunked rest (concat ps @ s)"
    using read_exactly_chunked [of cs p "concat ps @ s" tcp_closed] by auto
  then show ?case using Cons.IH [of rest] Cons.prems by simp
qed simp

lemma run_client_echoed:
  "chunked cs (concat (map (\<lambda>_. payload) is) @ s) \<Longrightarrow>
   run_client payload clock is cs = (map (\<lambda>i. tcp_record i (clock i)) is, Inr ())"
proof (induction "is" arbitrary: cs)
  case (Cons i "is")
  then obtain rest where "read_exactly tcp_closed (length payload) cs = Inr (payload, rest)" "chunked rest (concat (map (\<lambda>_. payload) is) @ s)"
    using read_exactly_chunked [of cs payload "concat (map (\<lambda>_. payload) is) @ s" tcp_closed] by auto
  then show ?case using Cons.IH [of rest] by simp
qed simp

text \<open>The client accepts what the server sends back, however both directions are cut into chunks.\<close>

lemma tcp_echo:
  assumes "chunked up (concat (replicate n payload))" and "chunked down (fst (run_server (length payload) n up))"
  shows "snd (run_server (length payload) n up) = Inr ()
    \<and> run_client payload clock [0..<n] down = (map (\<lambda>i. tcp_record i (clock i)) [0..<n], Inr ())"
proof -
  have "run_server (length payload) n up = (concat (replicate n payload), Inr ())"
    using run_server_echo [of up "replicate n payload" "[]" "length payload"] assms(1) by (simp add: list_all_length)
  then show ?thesis using assms(2) run_client_echoed [of down payload "[0..<n]" "[]" clock] by (simp add: map_replicate_const)
qed

end
