(* ===== verification/MatrixGenerators.thy ===== *)
theory MatrixGenerators
  imports SwarmStack
begin

text \<open>
  The drivers that generate one deployment per node count: block GEMM
  (\<open>scripts/generate_matmul_dp_dind_matrix.py\<close>), data-parallel MLP (\<open>scripts/generate_mlp_dp_matrix.py\<close>)
  and the native MLP (\<open>scripts/generate_native_mlp_dind_matrix.py\<close>). Each builds or obtains a placement
  and then runs the topology, routing, workload and stack generators as sub-processes on the files it
  wrote; a failing sub-process is here the error of that generator, and a file is the value that was
  written to it.
\<close>

section \<open>The common pipeline\<close>

record deployment =
  dp_topology :: topology
  dp_routing :: routing_file
  dp_workload :: jobj
  dp_stack :: jobj

definition deploy_point ::
  "codec \<Rightarrow> yaml_arguments \<Rightarrow> stack_arguments \<Rightarrow> placement \<Rightarrow> jobj \<Rightarrow> deployment res" where
  "deploy_point cd ya sa pm source =
     bindE (generate_topology (pm_swarm_nodes pm) ''10.203.0'' 9700) (\<lambda>topology.
     bindE (generate_routing pm topology None) (\<lambda>routing.
     bindE (generate_distributed_yaml cd ya (pm_processes pm) source) (\<lambda>workload.
     bindE (generate_swarm_stack sa pm topology routing) (\<lambda>stack.
       Inr \<lparr>dp_topology = topology, dp_routing = routing, dp_workload = workload, dp_stack = stack\<rparr>))))"

text \<open>The defaults of the two command lines, with the three files of an output directory.\<close>

definition default_yaml_arguments :: yaml_arguments where
  "default_yaml_arguments = \<lparr>ya_stream_output = False, ya_benchmark_root = None, ya_shared_worker_asset = [],
     ya_remote_phase2 = False, ya_phase2_backend = ''popnet'', ya_ns3_cycle_ns = 1, ya_ns3_link_rate = ''128Gbps'',
     ya_ns3_link_delay_ns = 1, ya_ns3_queue_packets = 100000, ya_ns3_localize = False,
     ya_gdb_process_index = None, ya_sniper_cores = None, ya_sniper_fast_forward = False,
     ya_sniper_maxthreads = None, ya_max_completed_cta = None, ya_max_instructions = None\<rparr>"

definition default_stack_arguments :: "string \<Rightarrow> string \<Rightarrow> stack_arguments" where
  "default_stack_arguments img output = \<lparr>st_image = img, st_workload_target = ''/opt/legosim/workload.yml'',
     st_topology_width = 6, st_flit_size = 4, st_transport_ptrace = False, st_mlp_dp_iterations = None,
     st_mlp_dp_ranks = None, st_mlp_dp_samples = None, st_mnsim_fast_input_size = None,
     st_worker_ready_timeout = 180, st_baseif_ready_timeout = 300, st_baseif_connect_timeout = 180,
     st_workload_file = output @ ''/workload.yml'', st_topology_file = output @ ''/topology.json'',
     st_routing_file = output @ ''/routing.json''\<rparr>"

section \<open>Block GEMM\<close>

definition GLOBAL_ROWS :: int where "GLOBAL_ROWS = 480"
definition MAX_RANKS :: int where "MAX_RANKS = 35"

definition gpu_coordinate :: "nat \<Rightarrow> nat \<times> nat" where
  "gpu_coordinate rank = (rank mod 6, rank div 6)"

definition controller_process :: "nat \<Rightarrow> jobj" where
  "controller_process rank_count =
     [(''cmd'', JStr ''$SIMULATOR_ROOT/snipersim/run-sniper''),
      (''args'', JList (map JStr [''--'', ''/opt/legosim/artifact/matmul_dp/bin/matmul_dp_c'', ''5'', ''5'', show_nat rank_count])),
      (''log'', JStr ''sniper.matmul_dp.log''), (''is_to_stdout'', JBool True), (''clock_rate'', JInt 1)]"

definition block_process :: "nat \<Rightarrow> nat \<Rightarrow> jobj" where
  "block_process rank_count rank =
     (let (coordinate_x, coordinate_y) = gpu_coordinate rank
      in [(''cmd'', JStr ''/opt/legosim/artifact/matmul_dp/bin/matmul_dp_cu''),
          (''args'', JList (map JStr [show_nat coordinate_x, show_nat coordinate_y, show_nat rank, show_nat rank_count])),
          (''log'', JStr (''gpgpusim.matmul_dp.'' @ show_nat rank @ ''.log'')), (''is_to_stdout'', JBool True),
          (''clock_rate'', JInt 1),
          (''pre_copy'', JStr ''$SIMULATOR_ROOT/gpgpu-sim/configs/tested-cfgs/SM7_TITANV/*'')])"

definition popnet_entry :: jobj where
  "popnet_entry =
     [(''cmd'', JStr ''$SIMULATOR_ROOT/popnet_chiplet/build/popnet''),
      (''args'', JList (map JStr [''-A'', ''36'', ''-c'', ''1'', ''-V'', ''3'', ''-B'', ''12'', ''-O'', ''12'',
         ''-F'', ''4'', ''-L'', ''1000'', ''-T'', ''1000000000'', ''-r'', ''1'', ''-I'', ''../bench.txt'', ''-R'', ''4'',
         ''-G'', ''../topology/mesh_6_6_flit_4.gv'', ''-D'', ''../delayInfo.txt'', ''-P''])),
      (''log'', JStr ''popnet.matmul_dp.log''), (''is_to_stdout'', JBool True), (''clock_rate'', JInt 1)]"

definition source_workload :: "nat \<Rightarrow> jobj" where
  "source_workload rank_count =
     [(''phase1'', JList (JObj (controller_process rank_count)
          # map (\<lambda>rank. JObj (block_process rank_count rank)) [0..<rank_count])),
      (''phase2'', JList [JObj popnet_entry]),
      (''bench_file'', JStr ''./bench.txt''), (''delayinfo_file'', JStr ''./delayInfo.txt'')]"

text \<open>
  The placement with what the other generators read of an entry; the entries of this driver have a
  role and a rank instead of a node label, which no generator reads.
\<close>

definition placed_at :: "string \<Rightarrow> nat \<Rightarrow> nat \<Rightarrow> (int \<times> int) option \<Rightarrow> placed" where
  "placed_at phase process_index node_slot coordinates = \<lparr>pl_phase = phase, pl_process_index = process_index,
     pl_node_slot = node_slot, pl_node_label = [], pl_coordinates = coordinates\<rparr>"

definition block_placement :: "nat \<Rightarrow> nat \<Rightarrow> placement" where
  "block_placement node_count rank_count =
     (let ranks_per_worker = rank_count div node_count
      in \<lparr>pm_workload = ''matmul_dp_block_gemm'', pm_swarm_nodes = node_count, pm_placement_policy = [],
          pm_processes = placed_at ''phase1'' 0 0 (Some (5, 5))
            # map (\<lambda>rank. let (x, y) = gpu_coordinate rank
                 in placed_at ''phase1'' (rank + 1) (rank div ranks_per_worker) (Some (int x, int y))) [0..<rank_count]
            @ [placed_at ''phase2'' 0 0 None]\<rparr>)"

record gemm_arguments =
  ga_image :: string
  ga_output_root :: string
  ga_nodes :: "nat list"
  ga_gpu_ranks :: "int option"
  ga_stream_output :: bool
  ga_ns3_cycle_ns :: int
  ga_ns3_link_rate :: string
  ga_ns3_link_delay_ns :: int
  ga_ns3_queue_packets :: int
  ga_localize :: bool

definition gemm_yaml_arguments :: "gemm_arguments \<Rightarrow> yaml_arguments" where
  "gemm_yaml_arguments a = default_yaml_arguments
     \<lparr>ya_benchmark_root := Some ''/opt/legosim/artifact/matmul'', ya_sniper_cores := Some 1, ya_sniper_maxthreads := Some 1,
      ya_phase2_backend := ''ns3'', ya_ns3_cycle_ns := ga_ns3_cycle_ns a, ya_ns3_link_rate := ga_ns3_link_rate a,
      ya_ns3_link_delay_ns := ga_ns3_link_delay_ns a, ya_ns3_queue_packets := ga_ns3_queue_packets a,
      ya_ns3_localize := ga_localize a, ya_stream_output := ga_stream_output a\<rparr>"

definition gemm_rank_count :: "gemm_arguments \<Rightarrow> nat \<Rightarrow> int" where
  "gemm_rank_count a node_count =
     (case ga_gpu_ranks a of Some r \<Rightarrow> if r \<noteq> 0 then r else int node_count * 2 | None \<Rightarrow> int node_count * 2)"

definition gemm_point :: "codec \<Rightarrow> gemm_arguments \<Rightarrow> nat \<Rightarrow> deployment res" where
  "gemm_point cd a node_count =
     (let rank_count = gemm_rank_count a node_count
      in if rank_count < 1 \<or> rank_count > MAX_RANKS \<or> GLOBAL_ROWS mod rank_count \<noteq> 0 \<or> rank_count mod int node_count \<noteq> 0
         then Inl (ValueError ''node count produces an unsupported block partition'')
         else deploy_point cd (gemm_yaml_arguments a)
                (default_stack_arguments (ga_image a) (ga_output_root a @ ''/matmul-dp-nodes'' @ show_nat node_count))
                (block_placement node_count (nat rank_count)) (source_workload (nat rank_count)))"

definition generate_gemm_matrix :: "codec \<Rightarrow> gemm_arguments \<Rightarrow> deployment list res" where
  "generate_gemm_matrix cd a =
     (if ga_nodes a = [] \<or> \<not> set (ga_nodes a) \<subseteq> {1, 2, 4, 8} then Inl (SystemExit ''argument --nodes: invalid choice'')
      else if ga_ns3_cycle_ns a < 1 \<or> ga_ns3_link_delay_ns a < 1
      then Inl (ValueError ''ns-3 timing parameters must be positive'')
      else if ga_ns3_queue_packets a < 1 then Inl (ValueError ''ns-3 queue depth must be positive'')
      else mapE (gemm_point cd a) (ga_nodes a))"

section \<open>The pipeline succeeds\<close>

lemma default_topology:
  assumes "n \<in> {1, 2, 4, 8}"
  shows "\<exists>t. generate_topology n ''10.203.0'' 9700 = Inr t \<and> length (tp_workers t) = n"
proof -
  have "check_subnet ''10.203.0'' = Inr ()" by (simp add: check_subnet_def valid_octet_def text_eval)
  moreover have "port_room n 9700" using assms length_combinations2 [of "[0..<n]"] by (auto simp: port_room_def)
  ultimately show ?thesis using assms by (auto simp: generate_topology_eq_Inr topology_workers_def)
qed

text \<open>The checks of the stack generator that concern its own arguments only.\<close>

definition stack_values_ok :: "stack_arguments \<Rightarrow> bool" where
  "stack_values_ok sa \<longleftrightarrow> prefix ''/'' (st_workload_target sa) \<and> \<not> below_one (st_mlp_dp_iterations sa)
     \<and> \<not> below_one (st_mlp_dp_ranks sa) \<and> \<not> below_one (st_mlp_dp_samples sa)
     \<and> \<not> below_three (st_mnsim_fast_input_size sa) \<and> 1 \<le> st_worker_ready_timeout sa
     \<and> 1 \<le> st_baseif_ready_timeout sa \<and> 1 \<le> st_baseif_connect_timeout sa"

text \<open>
  The contract between a placement generator and the four generators after it: a valid input gives a
  placement on a supported number of nodes, every slot is one of them, no chiplet is on two slots and
  some process has a chiplet. The later generators then succeed as soon as the workload can be wrapped.
\<close>

locale placement_source =
  fixes valid :: "'a \<Rightarrow> bool" and place :: "'a \<Rightarrow> placement"
  assumes nodes: "valid x \<Longrightarrow> pm_swarm_nodes (place x) \<in> {1, 2, 4, 8}"
    and slots: "valid x \<Longrightarrow> p \<in> set (pm_processes (place x)) \<Longrightarrow> pl_node_slot p < pm_swarm_nodes (place x)"
    and no_conflict: "valid x \<Longrightarrow> \<not> slot_conflict (pm_processes (place x))"
    and located: "valid x \<Longrightarrow> list_ex (\<lambda>p. pl_coordinates p \<noteq> None) (pm_processes (place x))"
begin

lemma routes:
  assumes "valid x"
  obtains t r where "generate_topology (pm_swarm_nodes (place x)) ''10.203.0'' 9700 = Inr t"
    "length (tp_workers t) = pm_swarm_nodes (place x)" "generate_routing (place x) t None = Inr r"
    "coordinate_to_worker_slot (rf_routing r) \<noteq> []"
proof -
  obtain t where t: "generate_topology (pm_swarm_nodes (place x)) ''10.203.0'' 9700 = Inr t"
      "length (tp_workers t) = pm_swarm_nodes (place x)"
    using default_topology [OF nodes [OF assms]] by blast
  obtain r where r: "generate_routing (place x) t None = Inr r"
    using generate_routing_total [OF t(2) no_conflict [OF assms]] by blast
  then have "routed (pm_processes (place x)) (coordinate_to_worker_slot (rf_routing r))"
    by (auto simp: generate_routing_def Let_def res_simps split: if_splits intro: foldE_place_routed)
  then have "coordinate_to_worker_slot (rf_routing r) \<noteq> []"
    using located [OF assms] routed_lookup by (fastforce simp: list_ex_iff)
  with t r show thesis using that by blast
qed

lemma deploys:
  assumes "valid x" and "generate_distributed_yaml cd ya (pm_processes (place x)) source = Inr w"
    and "stack_values_ok sa"
  obtains d where "deploy_point cd ya sa (place x) source = Inr d" "dp_workload d = w"
proof -
  obtain t r where tr: "generate_topology (pm_swarm_nodes (place x)) ''10.203.0'' 9700 = Inr t"
    "length (tp_workers t) = pm_swarm_nodes (place x)" "generate_routing (place x) t None = Inr r"
    "coordinate_to_worker_slot (rf_routing r) \<noteq> []" by (rule routes [OF assms(1)])
  have "check_stack_arguments sa (pm_swarm_nodes (place x)) t r = Inr ()"
    using tr(2,4) assms(3) by (simp add: check_stack_arguments_def stack_values_ok_def)
  then show thesis using that tr(1,3) assms(2) by (simp add: deploy_point_def generate_swarm_stack_def)
qed

end

lemma wrap_process_total:
  assumes "map_of (placements_of processes phase) index = Some item"
    and "map_of process ''cmd'' = Some (JStr command)" and "dict_get process ''args'' (JList []) = JList arguments"
    and "dict_get process ''pre_copy'' (JStr []) = JStr pre_copy"
    and "\<not> below_one (ya_sniper_cores a)" and "\<not> below_one (ya_sniper_maxthreads a)"
  shows "\<exists>w. wrap_process a processes phase (index, process) = Inr w"
proof -
  have "\<exists>c xs. debug_command a index command arguments = Inr (c, xs)" for command arguments
    using assms(5) by (auto simp: debug_command_def below_one_def split: option.splits)
  moreover have "\<exists>c xs. sniper_options a (command, arguments) = Inr (c, xs)" for command arguments
    using assms(6) by (auto simp: sniper_options_def below_one_def Let_def split: option.splits)
  ultimately have "\<exists>c xs. launch_command a phase index command arguments = Inr (c, xs)" for command arguments
    by (metis launch_command_def bindE_Inr)
  then obtain c xs where "launch_command a phase index (replace_root (ya_benchmark_root a) command)
      (map (replace_root_value (ya_benchmark_root a)) arguments) = Inr (c, xs)" by blast
  then show ?thesis using assms(1-4) by (simp add: wrap_process_def dict_item_def yaml_text_def Let_def)
qed

lemma yaml_ns3_total:
  assumes "check_yaml_arguments a = Inr ()" and "ya_phase2_backend a = ''ns3''"
    and "map_of config ''phase2'' = Some (JList (map JObj p2))" and "\<And>p. p \<in> set p2 \<Longrightarrow> \<exists>q. ns3_process cd a p = Inr q"
    and "map_of config ''phase1'' = Some (JList (map JObj p1))"
    and "\<And>i. i < length p1 \<Longrightarrow> \<exists>w. wrap_process a processes ''phase1'' (i, p1 ! i) = Inr w"
  shows "\<exists>w. generate_distributed_yaml cd a processes config = Inr w"
proof -
  have remote: "\<not> ya_remote_phase2 a" using assms(1,2) by (auto simp: check_yaml_arguments_def split: if_splits)
  obtain q2 where q2: "mapE (ns3_process cd a) p2 = Inr q2" using mapE_total assms(4) by metis
  have "\<exists>q1. mapE (wrap_process a processes ''phase1'') (enumerate 0 p1) = Inr q1"
    by (rule mapE_total) (use assms(6) in \<open>auto simp: in_set_enumerate_eq\<close>)
  then obtain q1 where "mapE (wrap_process a processes ''phase1'') (enumerate 0 p1) = Inr q1" by blast
  then show ?thesis using assms(1-3,5) q2 remote
    by (simp add: generate_distributed_yaml_def update_phase_def dict_item_def)
qed

section \<open>Block GEMM deployments\<close>

lemma gpu_coordinate_inj: "gpu_coordinate r = gpu_coordinate s \<Longrightarrow> r = s"
  by (auto simp: gpu_coordinate_def) (metis div_mult_mod_eq)

lemma gpu_coordinate_not_controller: "r < 35 \<Longrightarrow> gpu_coordinate r \<noteq> (5, 5)"
  by (auto simp: gpu_coordinate_def) presburger

definition gpu_placed :: "nat \<Rightarrow> nat \<Rightarrow> placed" where
  "gpu_placed k rank = placed_at ''phase1'' (rank + 1) (rank div k)
     (Some (int (fst (gpu_coordinate rank)), int (snd (gpu_coordinate rank))))"

lemma block_placement_nodes [simp]: "pm_swarm_nodes (block_placement n m) = n"
  by (simp add: block_placement_def Let_def)

lemma block_placement_processes:
  "pm_processes (block_placement n m) = placed_at ''phase1'' 0 0 (Some (5, 5))
     # map (gpu_placed (m div n)) [0..<m] @ [placed_at ''phase2'' 0 0 None]"
  by (simp add: block_placement_def gpu_placed_def case_prod_unfold Let_def)

text \<open>All coordinates of phase one are different.\<close>

lemma block_coordinates_distinct:
  assumes "m \<le> 35"
  shows "distinct (map pl_coordinates (filter (\<lambda>p. pl_phase p = ''phase1'') (pm_processes (block_placement n m))))"
proof -
  have neq: "Some (5, 5) \<noteq> pl_coordinates (gpu_placed k r)" if "r < m" for k r
    using gpu_coordinate_not_controller [of r] that assms
    by (cases "gpu_coordinate r") (auto simp: gpu_placed_def placed_at_def)
  have inj: "pl_coordinates (gpu_placed k r) = pl_coordinates (gpu_placed k s) \<Longrightarrow> r = s" for k r s
    using gpu_coordinate_inj [of r s] by (auto simp: gpu_placed_def placed_at_def prod_eq_iff)
  have "filter (\<lambda>p. pl_phase p = ''phase1'') (pm_processes (block_placement n m))
      = placed_at ''phase1'' 0 0 (Some (5, 5)) # map (gpu_placed (m div n)) [0..<m]"
    by (simp add: block_placement_processes placed_at_def gpu_placed_def filter_map comp_def)
  then have "map pl_coordinates (filter (\<lambda>p. pl_phase p = ''phase1'') (pm_processes (block_placement n m)))
      = Some (5, 5) # map (\<lambda>r. pl_coordinates (gpu_placed (m div n) r)) [0..<m]"
    by (simp add: placed_at_def)
  moreover have "list_all (\<lambda>r. Some (5, 5) \<noteq> pl_coordinates (gpu_placed (m div n) r)) [0..<m]"
    using neq unfolding list_all_iff by (metis atLeastLessThan_iff set_upt)
  then have "Some (5, 5) \<notin> set (map (\<lambda>r. pl_coordinates (gpu_placed (m div n) r)) [0..<m])"
    unfolding list_all_iff by (metis (no_types, lifting) imageE set_map)
  ultimately show ?thesis using inj by (auto simp: distinct_map inj_on_def simp del: not_Some_eq)
qed

lemma distinct_no_conflict:
  assumes "distinct (map pl_coordinates (filter (\<lambda>p. pl_phase p = ''phase1'') ps))"
    and "\<And>p. p \<in> set ps \<Longrightarrow> pl_phase p \<noteq> ''phase1'' \<Longrightarrow> pl_coordinates p = None"
  shows "\<not> slot_conflict ps"
proof
  assume "slot_conflict ps"
  then obtain p q c where pq: "p \<in> set ps" "q \<in> set ps" "pl_coordinates p = Some c" "pl_coordinates q = Some c"
    "pl_node_slot p \<noteq> pl_node_slot q" by (auto simp: slot_conflict_def)
  with assms(2) have "p \<in> set (filter (\<lambda>p. pl_phase p = ''phase1'') ps)" "q \<in> set (filter (\<lambda>p. pl_phase p = ''phase1'') ps)" by fastforce+
  with pq assms(1) show False by (auto simp: distinct_map inj_on_def)
qed

definition valid_partition :: "nat \<times> nat \<Rightarrow> bool" where
  "valid_partition = (\<lambda>(n, m). n \<in> {1, 2, 4, 8} \<and> 1 \<le> m \<and> m \<le> 35 \<and> 480 mod m = 0 \<and> m mod n = 0)"

lemma partition_div:
  assumes "valid_partition (n, m)"
  shows "0 < n" "0 < m div n" "n * (m div n) = m"
  using assms by (auto simp: valid_partition_def intro: dvd_imp_le simp flip: dvd_eq_mod_eq_0)

interpretation block: placement_source valid_partition "\<lambda>(n, m). block_placement n m"
proof unfold_locales
  fix x assume v: "valid_partition x"
  obtain n m where x: "x = (n, m)" by (cases x)
  note d = partition_div [OF v [unfolded x]]
  show "pm_swarm_nodes (case x of (n, m) \<Rightarrow> block_placement n m) \<in> {1, 2, 4, 8}"
    using v by (auto simp: x valid_partition_def)
  show "pl_node_slot p < pm_swarm_nodes (case x of (n, m) \<Rightarrow> block_placement n m)"
    if "p \<in> set (pm_processes (case x of (n, m) \<Rightarrow> block_placement n m))" for p
    using that d less_mult_imp_div_less [of _ n "m div n"]
    by (auto simp: x block_placement_processes gpu_placed_def placed_at_def)
  show "\<not> slot_conflict (pm_processes (case x of (n, m) \<Rightarrow> block_placement n m))"
    unfolding x prod.case
  proof (rule distinct_no_conflict [OF block_coordinates_distinct])
    show "m \<le> 35" using v by (simp add: x valid_partition_def)
  qed (auto simp: block_placement_processes gpu_placed_def placed_at_def)
  show "list_ex (\<lambda>p. pl_coordinates p \<noteq> None) (pm_processes (case x of (n, m) \<Rightarrow> block_placement n m))"
    by (simp add: x block_placement_processes placed_at_def)
qed

lemma block_item_exists: "i \<le> m \<Longrightarrow> \<exists>item. map_of (placements_of (pm_processes (block_placement n m)) ''phase1'') i = Some item"
proof -
  assume "i \<le> m"
  then have "i \<in> pl_process_index ` set (filter (\<lambda>p. pl_phase p = ''phase1'') (pm_processes (block_placement n m)))"
    by (cases i) (auto simp: block_placement_processes gpu_placed_def placed_at_def image_iff)
  then have "map_of (placements_of (pm_processes (block_placement n m)) ''phase1'') i \<noteq> None"
    unfolding placements_of_def map_of_dict_of map_of_eq_None_iff by force
  then show ?thesis by auto
qed

lemma block_item_slot:
  assumes "item \<in> set (pm_processes (block_placement n m))" "pl_phase item = ''phase1''" "pl_process_index item = Suc r"
  shows "pl_node_slot item = r div (m div n)"
  using assms by (auto simp: block_placement_processes gpu_placed_def placed_at_def)

definition gemm_entries :: "nat \<Rightarrow> jobj list" where
  "gemm_entries m = controller_process m # map (block_process m) [0..<m]"

lemma source_phases:
  "map_of (source_workload m) ''phase1'' = Some (JList (map JObj (gemm_entries m)))"
  "map_of (source_workload m) ''phase2'' = Some (JList (map JObj [popnet_entry]))"
  by (simp_all add: source_workload_def gemm_entries_def)

lemma gemm_wraps:
  assumes "i < length (gemm_entries m)"
  shows "\<exists>w. wrap_process (gemm_yaml_arguments a) (pm_processes (block_placement n m)) ''phase1'' (i, gemm_entries m ! i) = Inr w"
proof -
  obtain item where item: "map_of (placements_of (pm_processes (block_placement n m)) ''phase1'') i = Some item"
    using block_item_exists [of i m n] assms by (auto simp: gemm_entries_def)
  have "\<exists>command arguments pre_copy. map_of (gemm_entries m ! i) ''cmd'' = Some (JStr command)
      \<and> dict_get (gemm_entries m ! i) ''args'' (JList []) = JList arguments
      \<and> dict_get (gemm_entries m ! i) ''pre_copy'' (JStr []) = JStr pre_copy"
    using assms by (cases i)
      (auto simp: gemm_entries_def controller_process_def block_process_def dict_get_def case_prod_unfold Let_def)
  with item show ?thesis
    by (auto intro!: wrap_process_total simp: gemm_yaml_arguments_def default_yaml_arguments_def below_one_def)
qed

lemma gemm_yaml_total:
  assumes "1 \<le> ga_ns3_cycle_ns a" "1 \<le> ga_ns3_link_delay_ns a" "1 \<le> ga_ns3_queue_packets a"
  shows "\<exists>w. generate_distributed_yaml cd (gemm_yaml_arguments a) (pm_processes (block_placement n m)) (source_workload m) = Inr w"
proof (rule yaml_ns3_total [OF _ _ source_phases(2) _ source_phases(1)])
  show "check_yaml_arguments (gemm_yaml_arguments a) = Inr ()"
    using assms by (simp add: check_yaml_arguments_def gemm_yaml_arguments_def default_yaml_arguments_def below_one_def)
  show "\<exists>q. ns3_process cd (gemm_yaml_arguments a) p = Inr q" if "p \<in> set [popnet_entry]" for p
    using that by (simp add: ns3_process_def popnet_entry_def popnet_arguments_def dict_get_def text_eval int_text_def)
  show "ya_phase2_backend (gemm_yaml_arguments a) = ''ns3''" by (simp add: gemm_yaml_arguments_def)
qed (rule gemm_wraps)

text \<open>
  C26. A block-GEMM deployment is complete and balanced: for a supported node count and a rank count
  that divides the rows and the nodes, all generators of the pipeline succeed, the workload has one
  process per rank after the controller, rank r runs on worker r div (ranks per worker), every worker
  has the same number of ranks, and all chiplet coordinates are different.
\<close>

theorem gemm_point_balanced:
  assumes "valid_partition (n, m)" and "gemm_rank_count a n = int m"
    and "1 \<le> ga_ns3_cycle_ns a" "1 \<le> ga_ns3_link_delay_ns a" "1 \<le> ga_ns3_queue_packets a"
  shows "\<exists>d entries. gemm_point cd a n = Inr d \<and> map_of (dp_workload d) ''phase1'' = Some (JList entries)
    \<and> length entries = Suc m
    \<and> (\<forall>r<m. process_worker (entries ! Suc r) = Inr (worker_address (r div (m div n))))
    \<and> (\<forall>s<n. card {r. r < m \<and> r div (m div n) = s} = m div n)
    \<and> distinct (map pl_coordinates (filter (\<lambda>p. pl_phase p = ''phase1'') (pm_processes (block_placement n m))))"
proof -
  let ?sa = "default_stack_arguments (ga_image a) (ga_output_root a @ ''/matmul-dp-nodes'' @ show_nat n)"
  obtain w where w: "generate_distributed_yaml cd (gemm_yaml_arguments a) (pm_processes (block_placement n m)) (source_workload m) = Inr w"
    using gemm_yaml_total [OF assms(3-5)] by blast
  have "stack_values_ok ?sa" by (simp add: stack_values_ok_def default_stack_arguments_def below_one_def below_three_def)
  then obtain d where d: "deploy_point cd (gemm_yaml_arguments a) ?sa (block_placement n m) (source_workload m) = Inr d" "dp_workload d = w"
    using block.deploys [OF assms(1), of cd "gemm_yaml_arguments a" "source_workload m" w ?sa] w by auto
  have "480 mod int m = int (480 mod m)" "int m mod int n = int (m mod n)" by (simp_all add: zmod_int)
  then have point: "gemm_point cd a n = Inr d" using assms(1,2) d(1)
    by (simp add: gemm_point_def valid_partition_def MAX_RANKS_def GLOBAL_ROWS_def Let_def)
  obtain ps qs where ps: "phase_entries (JList (map JObj (gemm_entries m))) = Inr ps"
      "mapE (wrap_process (gemm_yaml_arguments a) (pm_processes (block_placement n m)) ''phase1'') (enumerate 0 ps) = Inr qs"
    and phase: "map_of w ''phase1'' = Some (JList (map JObj qs))"
    by (rule generate_yaml_phase_one [OF w]) (use source_phases(1) [of m] in force)
  have "ps = gemm_entries m" using ps(1) unfolding phase_entries_objects by simp
  then have len: "length (map JObj qs) = Suc m" using mapE_length [OF ps(2)] by (simp add: gemm_entries_def)
  have "process_worker (map JObj qs ! Suc r) = Inr (worker_address (r div (m div n)))" if "r < m" for r
  proof -
    have wrapped: "wrapped_phase (gemm_yaml_arguments a) ''phase1''" by (simp add: wrapped_phase_def)
    have "Suc r < length (map JObj qs)" using that len by simp
    with wrapped_phase_proxy [OF w wrapped phase] obtain q item rest where q: "map JObj qs ! Suc r = JObj q"
      "map_of (placements_of (pm_processes (block_placement n m)) ''phase1'') (Suc r) = Some item"
      "map_of q ''args'' = Some (JList (map JStr [''/opt/chipsystemsim-distributed/process_proxy.py'', ''--worker'',
         worker_address (pl_node_slot item), ''--process-id'', ''phase1'' @ ''-'' @ show_nat (Suc r)] @ rest))"
      by blast
    have "pl_node_slot item = r div (m div n)"
      using placements_of_member [OF q(2)] by (intro block_item_slot) auto
    with process_worker_words [OF q(3)] q(1) show ?thesis by simp
  qed
  moreover have "card {r. r < m \<and> r div (m div n) = s} = m div n" if "s < n" for s
    using card_div_group [of "m div n" s n] partition_div [OF assms(1)] that by (simp add: mult.commute)
  moreover have "m \<le> 35" using assms(1) by (simp add: valid_partition_def)
  ultimately show ?thesis using point phase d(2) len block_coordinates_distinct [of m n] by blast
qed

definition demo_gemm :: gemm_arguments where
  "demo_gemm = \<lparr>ga_image = ''legosim'', ga_output_root = ''/out'', ga_nodes = [1, 2], ga_gpu_ranks = None,
     ga_stream_output = False, ga_ns3_cycle_ns = 1, ga_ns3_link_rate = ''128Gbps'', ga_ns3_link_delay_ns = 1,
     ga_ns3_queue_packets = 100000, ga_localize = False\<rparr>"

theorem gemm_point_balanced_witness:
  "\<exists>d entries. gemm_point \<lparr>cd_loads = \<lambda>_. Inl JSONDecodeError, cd_str = \<lambda>_. [], cd_dumps = \<lambda>_. []\<rparr> demo_gemm 2 = Inr d
     \<and> map_of (dp_workload d) ''phase1'' = Some (JList entries)
     \<and> process_worker (entries ! Suc 3) = Inr (worker_address 1)"
proof -
  have "valid_partition (2, 4)" "gemm_rank_count demo_gemm 2 = int 4" "1 \<le> ga_ns3_cycle_ns demo_gemm"
    "1 \<le> ga_ns3_link_delay_ns demo_gemm" "1 \<le> ga_ns3_queue_packets demo_gemm"
    by (simp_all add: valid_partition_def gemm_rank_count_def demo_gemm_def)
  from gemm_point_balanced [OF this, of "\<lparr>cd_loads = \<lambda>_. Inl JSONDecodeError, cd_str = \<lambda>_. [], cd_dumps = \<lambda>_. []\<rparr>"] obtain d entries where
    d: "gemm_point \<lparr>cd_loads = \<lambda>_. Inl JSONDecodeError, cd_str = \<lambda>_. [], cd_dumps = \<lambda>_. []\<rparr> demo_gemm 2 = Inr d"
      "map_of (dp_workload d) ''phase1'' = Some (JList entries)"
    and workers: "\<forall>r<4. process_worker (entries ! Suc r) = Inr (worker_address (r div (4 div 2)))" by blast
  from workers have "process_worker (entries ! Suc 3) = Inr (worker_address (3 div (4 div 2)))" by (rule allE [of _ 3]) simp
  with d show ?thesis by auto
qed

end
