(* ===== verification/MlpMatrices.thy ===== *)
theory MlpMatrices
  imports MatrixGenerators
begin

text \<open>
  The two MLP drivers: the fixed-batch data-parallel matrix (\<open>scripts/generate_mlp_dp_matrix.py\<close>), whose
  placement keeps each data rank with its two GPU workers on one node, and the matrix of the original
  MLP graph (\<open>scripts/generate_native_mlp_dind_matrix.py\<close>), which obtains its placement from the common
  placement generator. Both are further sources of placements for the pipeline of
  \<open>MatrixGenerators\<close>.
\<close>

section \<open>Data-parallel MLP\<close>

definition MAX_DATA_RANKS :: nat where "MAX_DATA_RANKS = 8"
definition GPU_WORKERS_PER_RANK :: nat where "GPU_WORKERS_PER_RANK = 2"

definition phase_one_rank :: "nat \<Rightarrow> nat \<Rightarrow> nat" where
  "phase_one_rank process_index ranks =
     (if process_index < ranks then process_index else (process_index - ranks) div GPU_WORKERS_PER_RANK)"

record mlp_dp_arguments =
  ma_image :: string
  ma_output_root :: string
  ma_nodes :: "nat list"
  ma_iterations :: int
  ma_global_samples :: int
  ma_ranks_per_node :: int

text \<open>The active prefix of the template: the first CPU entries and two GPU entries per active rank.\<close>

definition active_entries :: "nat \<Rightarrow> 'a list \<Rightarrow> 'a list" where
  "active_entries ranks entries =
     take ranks entries @ take (ranks * GPU_WORKERS_PER_RANK) (drop MAX_DATA_RANKS entries)"

text \<open>\<open>[int(process["args"][-2]), int(process["args"][-1])]\<close>\<close>

definition trailing_coordinates :: "jobj \<Rightarrow> (int \<times> int) res" where
  "trailing_coordinates process =
     bindE (dict_item process ''args'') (\<lambda>j.
       case j of
         JList arguments \<Rightarrow>
           if length arguments < 2 then Inl IndexError
           else bindE (json_int (arguments ! (length arguments - 2))) (\<lambda>x.
                bindE (json_int (arguments ! (length arguments - 1))) (\<lambda>y. Inr (x, y)))
       | _ \<Rightarrow> Inl (TypeError ''args is not a list''))"

definition node_label :: "nat \<Rightarrow> string" where
  "node_label slot = ''chipsystemsim.node.'' @ show_nat slot"

definition rank_placed :: "nat \<Rightarrow> nat \<Rightarrow> nat \<times> jobj \<Rightarrow> placed res" where
  "rank_placed ranks ranks_per_node = (\<lambda>(index, process).
     let rank = phase_one_rank index ranks
     in bindE (trailing_coordinates process) (\<lambda>coordinates.
        Inr \<lparr>pl_phase = ''phase1'', pl_process_index = index, pl_node_slot = rank div ranks_per_node,
             pl_node_label = node_label (rank div ranks_per_node), pl_coordinates = Some coordinates\<rparr>))"

definition mlp_dp_placement :: "nat \<Rightarrow> nat \<Rightarrow> jobj list \<Rightarrow> placement res" where
  "mlp_dp_placement nodes ranks_per_node entries =
     bindE (mapE (rank_placed (nodes * ranks_per_node) ranks_per_node) (enumerate 0 entries)) (\<lambda>processes.
       Inr \<lparr>pm_workload = ''mlp-dp'', pm_swarm_nodes = nodes, pm_placement_policy = [],
            pm_processes = processes @ [\<lparr>pl_phase = ''phase2'', pl_process_index = 0, pl_node_slot = 0,
                                         pl_node_label = node_label 0, pl_coordinates = None\<rparr>]\<rparr>)"

definition mlp_dp_yaml_arguments :: yaml_arguments where
  "mlp_dp_yaml_arguments = default_yaml_arguments
     \<lparr>ya_stream_output := True, ya_benchmark_root := Some ''/opt/legosim/artifact/MLP_DP'',
      ya_sniper_cores := Some 1, ya_sniper_maxthreads := Some 1\<rparr>"

definition mlp_dp_stack_arguments :: "mlp_dp_arguments \<Rightarrow> nat \<Rightarrow> nat \<Rightarrow> stack_arguments" where
  "mlp_dp_stack_arguments a nodes ranks =
     (default_stack_arguments (ma_image a) (ma_output_root a @ ''/mlp-dp-nodes'' @ show_nat nodes))
       \<lparr>st_mlp_dp_iterations := Some (ma_iterations a), st_mlp_dp_ranks := Some (int ranks),
        st_mlp_dp_samples := Some (ma_global_samples a)\<rparr>"

definition mlp_dp_point :: "codec \<Rightarrow> mlp_dp_arguments \<Rightarrow> jobj \<Rightarrow> jobj list \<Rightarrow> nat \<Rightarrow> deployment res" where
  "mlp_dp_point cd a source entries nodes =
     (let ranks_per_node = nat (ma_ranks_per_node a); ranks = nodes * ranks_per_node
      in if ranks > MAX_DATA_RANKS
         then Inl (ValueError (show_nat nodes @ '' nodes x '' @ str_int (ma_ranks_per_node a) @ '' ranks exceeds ''
                @ show_nat MAX_DATA_RANKS))
         else if ma_global_samples a mod int (ranks * GPU_WORKERS_PER_RANK) \<noteq> 0
         then Inl (ValueError ''global samples must divide evenly across all GPU workers'')
         else (let active = active_entries ranks entries;
                   derived = AList.update ''phase1'' (JList (map JObj active)) source
               in bindE (mlp_dp_placement nodes ranks_per_node active) (\<lambda>placement.
                  deploy_point cd mlp_dp_yaml_arguments (mlp_dp_stack_arguments a nodes ranks) placement derived)))"

definition generate_mlp_dp_matrix :: "codec \<Rightarrow> mlp_dp_arguments \<Rightarrow> jobj \<Rightarrow> deployment list res" where
  "generate_mlp_dp_matrix cd a source =
     (if ma_nodes a = [] \<or> \<not> set (ma_nodes a) \<subseteq> {1, 2, 4, 8} then Inl (SystemExit ''argument --nodes: invalid choice'')
      else if ma_iterations a < 1 \<or> ma_global_samples a < 1 \<or> ma_ranks_per_node a < 1
      then Inl (ValueError ''iterations, global samples, and ranks per node must be positive'')
      else bindE (bindE (dict_item source ''phase1'') phase_entries) (\<lambda>entries.
        if length entries \<noteq> MAX_DATA_RANKS * (1 + GPU_WORKERS_PER_RANK)
        then Inl (RuntimeError ''MLP-DP YAML must contain exactly 8 CPUs and 16 GPU workers'')
        else mapE (mlp_dp_point cd a source entries) (ma_nodes a)))"

section \<open>Native MLP\<close>

record native_arguments =
  na_image :: string
  na_output_root :: string
  na_nodes :: "nat list"
  na_placement_policy :: string
  na_stream_output :: bool
  na_mnsim_fast_input_size :: "int option"
  na_ns3_cycle_ns :: int
  na_ns3_link_rate :: string
  na_ns3_link_delay_ns :: int
  na_ns3_queue_packets :: int

text \<open>The first candidate that is a file.\<close>

definition locate_upstream_mlp :: "(string \<Rightarrow> bool) \<Rightarrow> string \<Rightarrow> string \<Rightarrow> string res" where
  "locate_upstream_mlp is_file root_parent root =
     (let candidates = [root_parent @ ''/LEGOSIM_MICRO/artifact/MLP/mlp.yml'',
                        root @ ''/upstream/LEGOSIM_MICRO/artifact/MLP/mlp.yml'']
      in case find is_file candidates of
           Some c \<Rightarrow> Inr c
         | None \<Rightarrow> Inl (FileNotFoundError (''original MLP YAML not found; checked: '' @ join_with '', '' candidates)))"

text \<open>The loaded file as the placement generator reads it.\<close>

definition loaded_phases :: "jobj \<Rightarrow> (string, jobj list) dict res" where
  "loaded_phases config =
     bindE (phase_entries (dict_get config ''phase1'' (JList []))) (\<lambda>p1.
     bindE (phase_entries (dict_get config ''phase2'' (JList []))) (\<lambda>p2.
       Inr [(''phase1'', p1), (''phase2'', p2)]))"

definition native_yaml_arguments :: "native_arguments \<Rightarrow> yaml_arguments" where
  "native_yaml_arguments a = default_yaml_arguments
     \<lparr>ya_benchmark_root := Some ''/opt/legosim/artifact/MLP'', ya_sniper_cores := Some 1, ya_sniper_maxthreads := Some 1,
      ya_phase2_backend := ''ns3'', ya_ns3_cycle_ns := na_ns3_cycle_ns a, ya_ns3_link_rate := na_ns3_link_rate a,
      ya_ns3_link_delay_ns := na_ns3_link_delay_ns a, ya_ns3_queue_packets := na_ns3_queue_packets a,
      ya_stream_output := na_stream_output a\<rparr>"

definition native_point :: "codec \<Rightarrow> native_arguments \<Rightarrow> jobj \<Rightarrow> nat \<Rightarrow> deployment res" where
  "native_point cd a source nodes =
     bindE (loaded_phases source) (\<lambda>phases.
     bindE (generate_placement (na_placement_policy a) ''mlp'' nodes phases) (\<lambda>placement.
       deploy_point cd (native_yaml_arguments a)
         ((default_stack_arguments (na_image a) (na_output_root a @ ''/mlp-nodes'' @ show_nat nodes))
            \<lparr>st_mnsim_fast_input_size := na_mnsim_fast_input_size a\<rparr>) placement source))"

definition generate_native_matrix :: "codec \<Rightarrow> native_arguments \<Rightarrow> jobj res \<Rightarrow> deployment list res" where
  "generate_native_matrix cd a upstream =
     (if na_nodes a = [] \<or> \<not> set (na_nodes a) \<subseteq> {1, 2, 4, 8} then Inl (SystemExit ''argument --nodes: invalid choice'')
      else if na_placement_policy a \<notin> {''contiguous'', ''communication-aware'', ''rank-aware''}
      then Inl (SystemExit ''argument --placement-policy: invalid choice'')
      else bindE upstream (\<lambda>source.
        if na_ns3_cycle_ns a < 1 \<or> na_ns3_link_delay_ns a < 1 \<or> na_ns3_queue_packets a < 1
        then Inl (ValueError ''ns-3 timing parameters must be positive'')
        else mapE (native_point cd a source) (na_nodes a)))"

section \<open>Ranks stay together\<close>

lemma length_active_entries: "length entries = 24 \<Longrightarrow> m \<le> 8 \<Longrightarrow> length (active_entries m entries) = 3 * m"
  by (simp add: active_entries_def MAX_DATA_RANKS_def GPU_WORKERS_PER_RANK_def)

lemma phase_one_rank_eval:
  "r < m \<Longrightarrow> i \<in> {r, m + 2 * r, m + 2 * r + 1} \<Longrightarrow> i < 3 * m \<and> phase_one_rank i m = r"
  by (auto simp: phase_one_rank_def GPU_WORKERS_PER_RANK_def)

text \<open>The number of processes of a slot: its CPU ranks and twice as many GPU workers.\<close>

lemma rank_slot_count:
  assumes "0 < k" and "s < n"
  shows "card {i. i < 3 * (n * k) \<and> phase_one_rank i (n * k) div k = s} = 3 * k"
proof -
  let ?cpu = "{i. i < k * n \<and> i div k = s}" and ?gpu = "{j. j < (2 * k) * n \<and> j div (2 * k) = s}"
  have "{i. i < 3 * (n * k) \<and> phase_one_rank i (n * k) div k = s} = ?cpu \<union> (\<lambda>j. n * k + j) ` ?gpu" (is "?A = _")
  proof (intro equalityI subsetI)
    fix i assume i: "i \<in> ?A"
    show "i \<in> ?cpu \<union> (\<lambda>j. n * k + j) ` ?gpu"
    proof (cases "i < n * k")
      case False
      then have "i = n * k + (i - n * k)" "i - n * k \<in> ?gpu"
        using i by (auto simp: phase_one_rank_def GPU_WORKERS_PER_RANK_def div_mult2_eq algebra_simps) (simp flip: div_mult2_eq add: mult.commute)
      then show ?thesis by blast
    qed (use i in \<open>auto simp: phase_one_rank_def algebra_simps\<close>)
  next
    fix i assume "i \<in> ?cpu \<union> (\<lambda>j. n * k + j) ` ?gpu"
    then show "i \<in> ?A" by (auto simp: phase_one_rank_def GPU_WORKERS_PER_RANK_def algebra_simps) (simp flip: div_mult2_eq add: mult.commute)
  qed
  moreover have "card (?cpu \<union> (\<lambda>j. n * k + j) ` ?gpu) = card ?cpu + card ((\<lambda>j. n * k + j) ` ?gpu)"
    by (rule card_Un_disjoint) (auto simp: mult.commute)
  moreover have "card ((\<lambda>j. n * k + j) ` ?gpu) = card ?gpu" by (rule card_image) simp
  ultimately show ?thesis using card_div_group [of k s n] card_div_group [of "2 * k" s n] assms by simp
qed

lemma rank_placed_loop:
  assumes "mapE (rank_placed m k) (enumerate 0 entries) = Inr ps"
  shows "length ps = length entries"
    and "i < length entries \<Longrightarrow> pl_phase (ps ! i) = ''phase1'' \<and> pl_process_index (ps ! i) = i
       \<and> pl_node_slot (ps ! i) = phase_one_rank i m div k
       \<and> (\<exists>c. trailing_coordinates (entries ! i) = Inr c \<and> pl_coordinates (ps ! i) = Some c)"
proof -
  show len: "length ps = length entries" using mapE_length [OF assms] by simp
  assume "i < length entries"
  with assms len have "rank_placed m k (i, entries ! i) = Inr (ps ! i)"
    by (auto simp: mapE_Inr_iff list_all2_conv_all_nth nth_enumerate_eq)
  then show "pl_phase (ps ! i) = ''phase1'' \<and> pl_process_index (ps ! i) = i
       \<and> pl_node_slot (ps ! i) = phase_one_rank i m div k
       \<and> (\<exists>c. trailing_coordinates (entries ! i) = Inr c \<and> pl_coordinates (ps ! i) = Some c)"
    unfolding rank_placed_def Let_def prod.case bindE_eq_Inr by (metis placed.select_convs sum.inject(2))
qed

text \<open>Entries of the template that the generators accept.\<close>

definition well_formed_entry :: "jobj \<Rightarrow> bool" where
  "well_formed_entry p \<longleftrightarrow> (\<exists>c args pc x. map_of p ''cmd'' = Some (JStr c) \<and> map_of p ''args'' = Some (JList args)
     \<and> dict_get p ''pre_copy'' (JStr []) = JStr pc \<and> trailing_coordinates p = Inr x)"

definition valid_ranks :: "nat \<times> nat \<times> jobj list \<Rightarrow> bool" where
  "valid_ranks = (\<lambda>(n, k, active). n \<in> {1, 2, 4, 8} \<and> 0 < k \<and> length active = 3 * (n * k)
     \<and> list_all well_formed_entry active \<and> distinct (map trailing_coordinates active))"

lemma mlp_dp_placement_total:
  assumes "list_all well_formed_entry active"
  shows "\<exists>ps. mapE (rank_placed m k) (enumerate 0 active) = Inr ps"
proof (rule mapE_total)
  fix x assume "x \<in> set (enumerate 0 active)"
  then have "snd x \<in> set active" by (metis in_set_enumerate_eq add.right_neutral diff_zero nth_mem)
  then have "well_formed_entry (snd x)" using assms by (simp add: list_all_iff)
  then show "\<exists>y. rank_placed m k x = Inr y" by (cases x) (auto simp: rank_placed_def well_formed_entry_def Let_def)
qed

interpretation data_ranks: placement_source valid_ranks "\<lambda>(n, k, active). projr (mlp_dp_placement n k active)"
proof unfold_locales
  fix x assume v: "valid_ranks x"
  obtain n k active where x: "x = (n, k, active)" by (cases x)
  from v have v': "n \<in> {1, 2, 4, 8}" "0 < k" "length active = 3 * (n * k)" "list_all well_formed_entry active"
    "distinct (map trailing_coordinates active)" by (auto simp: x valid_ranks_def)
  then have pos: "0 < n" by auto
  obtain ps where ps: "mapE (rank_placed (n * k) k) (enumerate 0 active) = Inr ps"
    using mlp_dp_placement_total [OF v'(4)] by blast
  note loop = rank_placed_loop [OF ps]
  let ?two = "\<lparr>pl_phase = ''phase2'', pl_process_index = 0, pl_node_slot = 0, pl_node_label = node_label 0, pl_coordinates = None\<rparr>"
  have place: "projr (mlp_dp_placement n k active) = \<lparr>pm_workload = ''mlp-dp'', pm_swarm_nodes = n, pm_placement_policy = [],
      pm_processes = ps @ [?two]\<rparr>" by (simp add: mlp_dp_placement_def ps)
  have elem: "\<exists>i<length active. p = ps ! i" if "p \<in> set ps" for p
    using that loop(1) by (auto simp: in_set_conv_nth)
  show "pm_swarm_nodes (case x of (n, k, active) \<Rightarrow> projr (mlp_dp_placement n k active)) \<in> {1, 2, 4, 8}"
    using v'(1) by (simp add: x place)
  show "pl_node_slot p < pm_swarm_nodes (case x of (n, k, active) \<Rightarrow> projr (mlp_dp_placement n k active))"
    if "p \<in> set (pm_processes (case x of (n, k, active) \<Rightarrow> projr (mlp_dp_placement n k active)))" for p
  proof -
    have "phase_one_rank i (n * k) div k < n" if "i < length active" for i
      using that v'(2,3) by (auto simp: phase_one_rank_def GPU_WORKERS_PER_RANK_def div_less_iff_less_mult)
    then have "pl_node_slot p < n" if "p \<in> set ps" for p using elem [OF that] loop(2) by auto
    then show ?thesis using that pos by (auto simp: x place)
  qed
  have "map (\<lambda>p. Inr (the (pl_coordinates p))) ps = map trailing_coordinates active"
    using loop by (intro nth_equalityI) force+
  then have "distinct (map (\<lambda>p. Inr (the (pl_coordinates p)) :: (int \<times> int) res) ps)" using v'(5) by simp
  then have inj: "p = q" if "p \<in> set ps" "q \<in> set ps" "pl_coordinates p = pl_coordinates q" for p q
    using that by (auto simp: distinct_map inj_on_def)
  show "\<not> slot_conflict (pm_processes (case x of (n, k, active) \<Rightarrow> projr (mlp_dp_placement n k active)))"
  proof
    assume "slot_conflict (pm_processes (case x of (n, k, active) \<Rightarrow> projr (mlp_dp_placement n k active)))"
    then obtain p q c where "p \<in> set (ps @ [?two])" "q \<in> set (ps @ [?two])" "pl_coordinates p = Some c" "pl_coordinates q = Some c"
      "pl_node_slot p \<noteq> pl_node_slot q" by (auto simp: slot_conflict_def x place)
    with inj [of p q] show False by (auto split: if_splits)
  qed
  have "length ps \<noteq> 0" using loop(1) v'(2,3) pos by simp
  then have "ps ! 0 \<in> set ps" "pl_coordinates (ps ! 0) \<noteq> None" using loop(2) [of 0] loop(1) by auto
  then show "list_ex (\<lambda>p. pl_coordinates p \<noteq> None) (pm_processes (case x of (n, k, active) \<Rightarrow> projr (mlp_dp_placement n k active)))"
    by (auto simp: x place list_ex_iff)
qed

lemma yaml_popnet_total:
  assumes "check_yaml_arguments a = Inr ()" and "ya_phase2_backend a \<noteq> ''ns3''" and "\<not> ya_remote_phase2 a"
    and "map_of config ''phase1'' = Some (JList (map JObj p1))"
    and "\<And>i. i < length p1 \<Longrightarrow> \<exists>w. wrap_process a processes ''phase1'' (i, p1 ! i) = Inr w"
  shows "\<exists>w. generate_distributed_yaml cd a processes config = Inr w"
proof -
  have "\<exists>q1. mapE (wrap_process a processes ''phase1'') (enumerate 0 p1) = Inr q1"
    by (rule mapE_total) (use assms(5) in \<open>auto simp: in_set_enumerate_eq\<close>)
  then show ?thesis using assms(1-4)
    by (auto simp: generate_distributed_yaml_def update_phase_def dict_item_def)
qed

lemma mlp_dp_wraps:
  assumes "mapE (rank_placed m k) (enumerate 0 active) = Inr ps" and "list_all well_formed_entry active" and "i < length active"
  shows "\<exists>w. wrap_process mlp_dp_yaml_arguments (ps @ [two]) ''phase1'' (i, active ! i) = Inr w"
proof -
  note loop = rank_placed_loop [OF assms(1)]
  have "ps ! i \<in> set ps" "pl_phase (ps ! i) = ''phase1''" "pl_process_index (ps ! i) = i" using loop assms(3) by auto
  then have "i \<in> pl_process_index ` set (filter (\<lambda>p. pl_phase p = ''phase1'') (ps @ [two]))" by (force simp: image_iff)
  then have "map_of (placements_of (ps @ [two]) ''phase1'') i \<noteq> None"
    unfolding placements_of_def map_of_dict_of map_of_eq_None_iff by force
  then obtain item where "map_of (placements_of (ps @ [two]) ''phase1'') i = Some item" by blast
  moreover have "well_formed_entry (active ! i)" using assms(2,3) by (simp add: list_all_length)
  ultimately show ?thesis unfolding well_formed_entry_def
    by (auto intro!: wrap_process_total simp: dict_get_def mlp_dp_yaml_arguments_def default_yaml_arguments_def below_one_def
        split: option.splits)
qed

text \<open>
  A data-parallel MLP deployment keeps ranks together: when the ranks fit the template, the samples
  divide evenly and the active entries are well formed with different chiplets, all generators of the
  pipeline succeed, the CPU process of rank r and its two GPU workers are on worker r div (ranks per
  node), and every worker has exactly three processes per rank.
\<close>

theorem mlp_dp_ranks_together:
  assumes "n \<in> {1, 2, 4, 8}" and "ma_ranks_per_node a = int k" "0 < k" "n * k \<le> 8"
    and "1 \<le> ma_iterations a" "1 \<le> ma_global_samples a" "ma_global_samples a mod int (n * k * 2) = 0"
    and "length entries = 24" "active = active_entries (n * k) entries"
    and "list_all well_formed_entry active" "distinct (map trailing_coordinates active)"
  shows "\<exists>d pm. mlp_dp_point cd a source entries n = Inr d \<and> mlp_dp_placement n k active = Inr pm
    \<and> (\<forall>r<n * k. \<forall>i\<in>{r, n * k + 2 * r, n * k + 2 * r + 1}. pl_node_slot (pm_processes pm ! i) = r div k)
    \<and> (\<forall>s<n. length (filter (\<lambda>p. pl_phase p = ''phase1'' \<and> pl_node_slot p = s) (pm_processes pm)) = 3 * k)"
proof -
  have len: "length active = 3 * (n * k)" using length_active_entries [OF assms(8,4)] assms(9) by simp
  have valid: "valid_ranks (n, k, active)" using assms(1,3,10,11) len by (simp add: valid_ranks_def)
  obtain ps where ps: "mapE (rank_placed (n * k) k) (enumerate 0 active) = Inr ps"
    using mlp_dp_placement_total [OF assms(10)] by blast
  note loop = rank_placed_loop [OF ps]
  define two where "two = \<lparr>pl_phase = ''phase2'', pl_process_index = 0, pl_node_slot = 0, pl_node_label = node_label 0, pl_coordinates = None\<rparr>"
  define pm where "pm = \<lparr>pm_workload = ''mlp-dp'', pm_swarm_nodes = n, pm_placement_policy = [], pm_processes = ps @ [two]\<rparr>"
  have pm: "mlp_dp_placement n k active = Inr pm" by (simp add: mlp_dp_placement_def ps pm_def two_def)
  let ?derived = "AList.update ''phase1'' (JList (map JObj active)) source"
  have "\<exists>w. generate_distributed_yaml cd mlp_dp_yaml_arguments (pm_processes pm) ?derived = Inr w"
    by (rule yaml_popnet_total [where ?p1.0 = active])
      (simp_all add: mlp_dp_wraps [OF ps assms(10)] pm_def, simp_all add: mlp_dp_yaml_arguments_def default_yaml_arguments_def
        check_yaml_arguments_def below_one_def)
  then obtain w where w: "generate_distributed_yaml cd mlp_dp_yaml_arguments (pm_processes pm) ?derived = Inr w" by blast
  have "0 < n" using assms(1) by auto
  then have "\<not> int n * int k < 1" using assms(3) by (simp add: not_less int_one_le_iff_zero_less)
  then have ok: "stack_values_ok (mlp_dp_stack_arguments a n (n * k))"
    using assms(3,5,6) by (simp add: stack_values_ok_def mlp_dp_stack_arguments_def default_stack_arguments_def below_one_def below_three_def)
  have "generate_distributed_yaml cd mlp_dp_yaml_arguments
      (pm_processes (case (n, k, active) of (n, k, active) \<Rightarrow> projr (mlp_dp_placement n k active))) ?derived = Inr w"
    using w pm by simp
  from data_ranks.deploys [OF valid this ok] obtain d where
    "deploy_point cd mlp_dp_yaml_arguments (mlp_dp_stack_arguments a n (n * k)) pm ?derived = Inr d" using pm by auto
  then have "mlp_dp_point cd a source entries n = Inr d"
    using assms(2,4,7,9) pm by (simp add: mlp_dp_point_def MAX_DATA_RANKS_def GPU_WORKERS_PER_RANK_def Let_def)
  moreover have "pl_node_slot (pm_processes pm ! i) = r div k" if "r < n * k" "i \<in> {r, n * k + 2 * r, n * k + 2 * r + 1}" for r i
  proof -
    have "i < length active" "phase_one_rank i (n * k) = r"
      using phase_one_rank_eval [OF that] len by simp_all
    then show ?thesis using loop by (simp add: pm_def nth_append)
  qed
  moreover have "length (filter (\<lambda>p. pl_phase p = ''phase1'' \<and> pl_node_slot p = s) (pm_processes pm)) = 3 * k" if "s < n" for s
  proof -
    have "{i. i < length ps \<and> pl_phase (ps ! i) = ''phase1'' \<and> pl_node_slot (ps ! i) = s}
        = {i. i < 3 * (n * k) \<and> phase_one_rank i (n * k) div k = s}" using loop len by auto
    then show ?thesis using rank_slot_count [OF assms(3) that] by (simp add: pm_def two_def length_filter_conv_card)
  qed
  ultimately show ?thesis using pm by blast
qed

definition demo_entry :: "nat \<Rightarrow> jobj" where
  "demo_entry i = [(''cmd'', JStr ''/opt/run-sniper''), (''args'', JList [JStr ''--'', JInt (int i), JInt 0])]"

definition demo_entries :: "jobj list" where
  "demo_entries = map demo_entry [0..<24]"

definition demo_mlp_dp :: mlp_dp_arguments where
  "demo_mlp_dp = \<lparr>ma_image = ''legosim'', ma_output_root = ''/out'', ma_nodes = [2], ma_iterations = 40,
     ma_global_samples = 65536, ma_ranks_per_node = 2\<rparr>"

lemma demo_entry_ok: "trailing_coordinates (demo_entry i) = Inr (int i, 0)" "well_formed_entry (demo_entry i)"
  by (simp_all add: trailing_coordinates_def dict_item_def well_formed_entry_def dict_get_def demo_entry_def)

lemma demo_entries_ok:
  "list_all well_formed_entry (active_entries 4 demo_entries)" "distinct (map trailing_coordinates (active_entries 4 demo_entries))"
proof -
  have "active_entries 4 demo_entries = map demo_entry ([0..<4] @ [8..<16])"
    by (simp add: active_entries_def demo_entries_def MAX_DATA_RANKS_def GPU_WORKERS_PER_RANK_def take_map drop_map)
  then show "list_all well_formed_entry (active_entries 4 demo_entries)" "distinct (map trailing_coordinates (active_entries 4 demo_entries))"
    by (auto simp: list_all_iff demo_entry_ok comp_def distinct_map inj_on_def)
qed

theorem mlp_dp_ranks_together_witness:
  "\<exists>d pm. mlp_dp_point \<lparr>cd_loads = \<lambda>_. Inl JSONDecodeError, cd_str = \<lambda>_. [], cd_dumps = \<lambda>_. []\<rparr> demo_mlp_dp [] demo_entries 2 = Inr d
     \<and> mlp_dp_placement 2 2 (active_entries 4 demo_entries) = Inr pm \<and> pl_node_slot (pm_processes pm ! 9) = 1"
proof -
  have "\<exists>d pm. mlp_dp_point \<lparr>cd_loads = \<lambda>_. Inl JSONDecodeError, cd_str = \<lambda>_. [], cd_dumps = \<lambda>_. []\<rparr> demo_mlp_dp [] demo_entries 2 = Inr d
      \<and> mlp_dp_placement 2 2 (active_entries 4 demo_entries) = Inr pm
      \<and> (\<forall>r<2 * 2. \<forall>i\<in>{r, 2 * 2 + 2 * r, 2 * 2 + 2 * r + 1}. pl_node_slot (pm_processes pm ! i) = r div 2)
      \<and> (\<forall>s<2. length (filter (\<lambda>p. pl_phase p = ''phase1'' \<and> pl_node_slot p = s) (pm_processes pm)) = 3 * 2)"
    by (rule mlp_dp_ranks_together) (simp_all add: demo_mlp_dp_def demo_entries_ok, simp add: demo_entries_def)
  then obtain d pm where "mlp_dp_point \<lparr>cd_loads = \<lambda>_. Inl JSONDecodeError, cd_str = \<lambda>_. [], cd_dumps = \<lambda>_. []\<rparr> demo_mlp_dp [] demo_entries 2 = Inr d"
      "mlp_dp_placement 2 2 (active_entries 4 demo_entries) = Inr pm"
    and slots: "\<And>r i. r < 4 \<Longrightarrow> i \<in> {r, 4 + 2 * r, 4 + 2 * r + 1} \<Longrightarrow> pl_node_slot (pm_processes pm ! i) = r div 2"
    by auto
  moreover have "pl_node_slot (pm_processes pm ! 9) = 1" using slots [of 2 9] by simp
  ultimately show ?thesis by blast
qed

section \<open>The common placement generator as a source\<close>

text \<open>
  A placement of \<open>generate_placement\<close> has its slots in range by construction; that no chiplet is on
  two slots is a condition on the workload file.
\<close>

definition valid_native :: "string \<times> string \<times> nat \<times> (string, jobj list) dict \<Rightarrow> bool" where
  "valid_native = (\<lambda>(policy, name, n, config). case generate_placement policy name n config of
     Inl _ \<Rightarrow> False
   | Inr pm \<Rightarrow> \<not> slot_conflict (pm_processes pm) \<and> list_ex (\<lambda>p. pl_coordinates p \<noteq> None) (pm_processes pm))"

lemma generated_slots:
  assumes "generate_placement policy name n config = Inr pm" and "p \<in> set (pm_processes pm)"
  shows "pl_node_slot p < n"
proof -
  obtain ordered where o: "mapE (place_process (length ordered div n)) (enumerate 0 ordered) = Inr (pm_processes pm)"
    "length ordered mod n = 0" using generate_placement_Inr [OF assms(1)] by metis
  from assms(2) have "pl_node_slot p \<in> set (map pl_node_slot (pm_processes pm))" by simp
  then obtain i where i: "i < length ordered" "pl_node_slot p = i div (length ordered div n)"
    unfolding placed_slots(2) [OF o(1)] by auto
  moreover have "length ordered = n * (length ordered div n)" using mult_div_mod_eq [of n "length ordered"] o(2) by simp
  ultimately show ?thesis using less_mult_imp_div_less [of i n "length ordered div n"] by simp
qed

interpretation native: placement_source valid_native "\<lambda>(policy, name, n, config). projr (generate_placement policy name n config)"
proof unfold_locales
  fix x assume v: "valid_native x"
  obtain policy name n config where x: "x = (policy, name, n, config)" by (cases x)
  with v obtain pm where pm: "generate_placement policy name n config = Inr pm" "\<not> slot_conflict (pm_processes pm)"
    "list_ex (\<lambda>p. pl_coordinates p \<noteq> None) (pm_processes pm)" by (auto simp: valid_native_def split: sum.splits)
  have nodes: "n \<in> {1, 2, 4, 8}" "pm_swarm_nodes pm = n" using generate_placement_Inr [OF pm(1)] by metis+
  show "pm_swarm_nodes (case x of (policy, name, n, config) \<Rightarrow> projr (generate_placement policy name n config)) \<in> {1, 2, 4, 8}"
    using nodes by (simp add: x pm(1))
  show "pl_node_slot p < pm_swarm_nodes (case x of (policy, name, n, config) \<Rightarrow> projr (generate_placement policy name n config))"
    if "p \<in> set (pm_processes (case x of (policy, name, n, config) \<Rightarrow> projr (generate_placement policy name n config)))" for p
    using that generated_slots [OF pm(1)] nodes by (simp add: x pm(1))
  show "\<not> slot_conflict (pm_processes (case x of (policy, name, n, config) \<Rightarrow> projr (generate_placement policy name n config)))"
    using pm by (simp add: x)
  show "list_ex (\<lambda>p. pl_coordinates p \<noteq> None) (pm_processes (case x of (policy, name, n, config) \<Rightarrow> projr (generate_placement policy name n config)))"
    using pm by (simp add: x)
qed

text \<open>So the native driver fails only for a workload that cannot be placed, routed or wrapped.\<close>

lemma native_point_deploys:
  assumes "loaded_phases source = Inr phases" and "generate_placement (na_placement_policy a) ''mlp'' n phases = Inr pm"
    and "\<not> slot_conflict (pm_processes pm)" and "list_ex (\<lambda>p. pl_coordinates p \<noteq> None) (pm_processes pm)"
    and "generate_distributed_yaml cd (native_yaml_arguments a) (pm_processes pm) source = Inr w"
    and "\<not> below_three (na_mnsim_fast_input_size a)"
  shows "\<exists>d. native_point cd a source n = Inr d \<and> dp_workload d = w"
proof -
  let ?sa = "(default_stack_arguments (na_image a) (na_output_root a @ ''/mlp-nodes'' @ show_nat n))
    \<lparr>st_mnsim_fast_input_size := na_mnsim_fast_input_size a\<rparr>"
  have valid: "valid_native (na_placement_policy a, ''mlp'', n, phases)" using assms(2-4) by (simp add: valid_native_def)
  have ok: "stack_values_ok ?sa" using assms(6) by (simp add: stack_values_ok_def default_stack_arguments_def below_one_def)
  have "generate_distributed_yaml cd (native_yaml_arguments a) (pm_processes (case (na_placement_policy a, ''mlp'', n, phases) of
      (policy, name, n, config) \<Rightarrow> projr (generate_placement policy name n config))) source = Inr w"
    using assms(2,5) by simp
  from native.deploys [OF valid this ok] obtain d where
    "deploy_point cd (native_yaml_arguments a) ?sa pm source = Inr d" "dp_workload d = w" using assms(2) by auto
  then show ?thesis using assms(1,2) by (simp add: native_point_def)
qed

end
