(* ===== verification/SwarmRuns.thy ===== *)
theory SwarmRuns
  imports MlpDpRuns MlpMatrices
begin

text \<open>
  The two runners of native workloads on a labelled Docker Swarm: the matrix runner
  (\<open>scripts/run_real_swarm.py\<close>) and the one-node screen of imported benchmarks
  (\<open>scripts/run_imported_swarm.py\<close>), with the manifest check \<open>real/verify_workloads.py\<close>. A command whose
  failure raises gives \<open>Inl\<close> its exception or \<open>Inr\<close> its output; these answers, the clock readings, the
  loaded YAML files and the JSON parser are parameters. A generator that runs as a sub-process gives
  its file or a \<open>CalledProcessError\<close> with its script and exit status. The texts that are written into the
  run directory are part of the result, so that the clean-up of every exit path is visible.
\<close>

section \<open>Commands\<close>

definition sub_process :: "string \<Rightarrow> 'a res \<Rightarrow> 'a res" where
  "sub_process script r = (case r of
       Inl (SystemExit _) \<Rightarrow> Inl (CalledProcessError [script] 2)
     | Inl _ \<Rightarrow> Inl (CalledProcessError [script] 1)
     | Inr x \<Rightarrow> Inr x)"

definition require_active_swarm :: "string res \<Rightarrow> unit res" where
  "require_active_swarm info =
     bindE info (\<lambda>state. if strip_space state \<noteq> ''active''
       then Inl (RuntimeError ''Docker Swarm is not active on this manager'') else Inr ())"

text \<open>The objects of an output with one JSON value per line.\<close>

definition json_lines :: "codec \<Rightarrow> string \<Rightarrow> jobj list res" where
  "json_lines cd output = mapE (\<lambda>line. bindE (cd_loads cd line) as_obj) (filter (\<lambda>line. line \<noteq> []) (split_lines output))"

definition or_empty :: "json \<Rightarrow> json" where
  "or_empty j = (if truthy j then j else JObj [])"

definition node_labels :: "codec \<Rightarrow> (string \<Rightarrow> string res) \<Rightarrow> jobj \<Rightarrow> (string, string) dict res" where
  "node_labels cd inspect node =
     bindE (dict_item node ''ID'') (\<lambda>identity.
     bindE (inspect (json_str cd identity)) (\<lambda>output.
     bindE (bindE (cd_loads cd output) json_iter) (\<lambda>inspected.
     case inspected of [] \<Rightarrow> Inl IndexError
     | first # _ \<Rightarrow>
         bindE (as_obj first) (\<lambda>d.
         bindE (as_obj (dict_get d ''Spec'' (JObj []))) (\<lambda>spec.
         bindE (as_obj (or_empty (dict_get spec ''Labels'' (JObj [])))) (\<lambda>labels.
           Inr (dict_of (map (\<lambda>(key, v). (key, json_str cd v)) labels))))))))"

definition swarm_label :: "nat \<Rightarrow> string" where
  "swarm_label slot = ''chipsystemsim.node.'' @ show_nat slot"

definition require_node_labels :: "codec \<Rightarrow> string res \<Rightarrow> (string \<Rightarrow> string res) \<Rightarrow> nat \<Rightarrow> unit res" where
  "require_node_labels cd node_list inspect node_count =
     bindE (bindE node_list (json_lines cd)) (\<lambda>nodes.
     if length nodes < node_count
     then Inl (RuntimeError (''need '' @ show_nat node_count @ '' Swarm nodes, found '' @ show_nat (length nodes)))
     else bindE (mapE (node_labels cd inspect) nodes) (\<lambda>labels_by_node.
       case filter (\<lambda>slot. \<not> list_ex (\<lambda>labels. map_of labels (swarm_label slot) = Some ''true'') labels_by_node) [0..<node_count] of
         [] \<Rightarrow> Inr ()
       | slot # _ \<Rightarrow> Inl (RuntimeError (''no Swarm node has label '' @ swarm_label slot @ ''=true''))))"

definition coordinator_state :: "codec \<Rightarrow> string \<Rightarrow> string res" where
  "coordinator_state cd ps_output =
     bindE (json_lines cd ps_output) (\<lambda>tasks.
       let states = map (\<lambda>task. json_str cd (dict_get task ''CurrentState'' (JStr []))) tasks
       in Inr (if list_ex (prefix ''Complete'') states then ''Complete''
               else if list_ex (prefix ''Running'') states then ''Running''
               else if list_ex (prefix ''Failed'') states then ''Failed''
               else if list_ex (prefix ''Rejected'') states then ''Rejected''
               else case states of state # _ \<Rightarrow> state | [] \<Rightarrow> ''missing''))"

section \<open>Stack removal\<close>

record removal_look =
  rl_test_time :: rat
  rl_stacks :: "string res"
  rl_networks :: "string res"

definition stack_gone :: "string \<Rightarrow> removal_look \<Rightarrow> bool res" where
  "stack_gone stack p =
     bindE (rl_stacks p) (\<lambda>stacks. bindE (rl_networks p) (\<lambda>networks.
       Inr (stack \<notin> set (split_lines stacks) \<and> stack @ ''_chipsystemsim'' \<notin> set (split_lines networks))))"

definition removal_body :: "string \<Rightarrow> removal_look \<Rightarrow> unit res \<Rightarrow> unit res + unit res" where
  "removal_body stack p s =
     (case stack_gone stack p of Inl e \<Rightarrow> Inl (Inl e) | Inr gone \<Rightarrow> if gone then Inl (Inr ()) else Inr s)"

definition wait_for_stack_removal :: "rat \<times> (nat \<Rightarrow> removal_look) \<Rightarrow> string \<Rightarrow> unit res option" where
  "wait_for_stack_removal w stack =
     map_option (\<lambda>(expired, r). if expired
         then Inl (TimeoutError (''Swarm did not remove stack '' @ stack @ '' within 60 seconds'')) else r)
       (poll_loop (\<lambda>i. rl_test_time (snd w i) < fst w + 60) (\<lambda>i. removal_body stack (snd w i)) 0 (Inr ()))"

section \<open>One run of a native workload\<close>

definition WORKLOAD_PARAMETERS :: "(string, int \<times> int) dict" where
  "WORKLOAD_PARAMETERS = [(''mlp'', 6, 4), (''dlrm'', 4, 4), (''resnet'', 6, 200), (''bfs'', 6, 4)]"

text \<open>The workloads of \<open>real/workloads.json\<close>.\<close>

definition workload_entry :: "string \<Rightarrow> int \<Rightarrow> int \<Rightarrow> json" where
  "workload_entry path phase1 phase2 = JObj [(''yaml'', JStr path), (''phase1_processes'', JInt phase1), (''phase2_processes'', JInt phase2)]"

definition workloads_manifest :: jobj where
  "workloads_manifest =
     [(''mlp'', workload_entry ''artifact/MLP/mlp.yml'' 7 1),
      (''dlrm'', workload_entry ''benchmark/dlrm_npu/dlrm.yml'' 2 1),
      (''resnet'', workload_entry ''benchmark/resnet/resnet.yml'' 7 1),
      (''bfs'', workload_entry ''artifact/bfs_cuda/bfs.yml'' 7 1)]"

type_synonym log_files = "(string, string) dict"

record swarm_poll =
  wp_test_time :: rat
  wp_ps :: "string res"
  wp_log :: "string res"

record swarm_run =
  sw_dir_exists :: bool
  sw_removal_before :: "rat \<times> (nat \<Rightarrow> removal_look)"
  sw_deploy :: "unit res"
  sw_started :: rat
  sw_polls :: "nat \<Rightarrow> swarm_poll"
  sw_final_log :: "string \<Rightarrow> string res"
  sw_containers :: "string res"
  sw_process_paths :: "string \<Rightarrow> string res"
  sw_removal_after :: "rat \<times> (nat \<Rightarrow> removal_look)"

record 'a run_outcome =
  ro_result :: "'a res"
  ro_logs :: log_files
  ro_copied :: "string list"

text \<open>
  The captures of \<open>terminate with status = ([1-9][0-9]*)\<close>: runs of digits after the text that do not
  start with a zero (no match of the text can start inside a match of it).
\<close>

definition failed_statuses :: "string \<Rightarrow> string list" where
  "failed_statuses log_text =
     filter (\<lambda>status. hd status \<noteq> CHR ''0'') (map hd (rx_findall [Lit ''terminate with status = '', Digits] log_text))"

text \<open>\<open>str(source_yaml.parent.relative_to(upstream))\<close> of a path below the upstream directory.\<close>

definition parent_path :: "string \<Rightarrow> string" where
  "parent_path p = (case butlast (split_on (CHR ''/'') p) of [] \<Rightarrow> ''.'' | parts \<Rightarrow> join_with ''/'' parts)"

definition run_yaml_arguments :: "string \<Rightarrow> int option \<Rightarrow> int option \<Rightarrow> bool \<Rightarrow> yaml_arguments" where
  "run_yaml_arguments benchmark_root sniper_cores sniper_maxthreads stream_output = default_yaml_arguments
     \<lparr>ya_benchmark_root := Some benchmark_root, ya_remote_phase2 := True, ya_sniper_cores := sniper_cores,
      ya_sniper_maxthreads := sniper_maxthreads, ya_stream_output := stream_output\<rparr>"

definition run_stack_arguments :: "string \<Rightarrow> string \<Rightarrow> int \<times> int \<Rightarrow> stack_arguments" where
  "run_stack_arguments img run_dir parameters =
     (default_stack_arguments img run_dir)\<lparr>st_topology_width := fst parameters, st_flit_size := snd parameters\<rparr>"

text \<open>The files of a run up to the derived workload: the four generators as sub-processes.\<close>

definition generate_files ::
  "codec \<Rightarrow> yaml_arguments \<Rightarrow> string \<Rightarrow> nat \<Rightarrow> jobj res \<Rightarrow> (placement \<times> topology \<times> routing_file \<times> jobj) res" where
  "generate_files cd ya workload_name node_count source =
     bindE (sub_process ''generate_placement.py''
       (bindE (bindE source loaded_phases) (generate_placement ''contiguous'' workload_name node_count))) (\<lambda>placement.
     bindE (sub_process ''generate_simbricks_topology.py'' (Topology.generate_topology node_count ''10.203.0'' 9700)) (\<lambda>topology.
     bindE (sub_process ''generate_simbricks_routing.py'' (generate_routing placement topology None)) (\<lambda>routing.
     bindE (sub_process ''generate_distributed_yaml.py''
       (bindE source (generate_distributed_yaml cd ya (pm_processes placement)))) (\<lambda>derived.
       Inr (placement, topology, routing, derived)))))"

text \<open>The rest of the preparation: the wait for an earlier stack and the stack file.\<close>

definition prepare_stack ::
  "'a swarm_run_scheme \<Rightarrow> string \<Rightarrow> stack_arguments \<Rightarrow> (placement \<times> topology \<times> routing_file \<times> jobj) res \<Rightarrow> jobj res option" where
  "prepare_stack e stack sa files =
     thenE (Some files) (\<lambda>(placement, topology, routing, derived).
     thenE (wait_for_stack_removal (sw_removal_before e) stack) (\<lambda>_.
       Some (sub_process ''generate_swarm_stack.py'' (generate_swarm_stack sa placement topology routing))))"

definition swarm_body :: "codec \<Rightarrow> swarm_poll \<Rightarrow> unit res \<times> log_files \<Rightarrow> unit res \<times> log_files + unit res \<times> log_files" where
  "swarm_body cd p s =
     (case bindE (wp_ps p) (coordinator_state cd) of
        Inl err \<Rightarrow> Inl (Inl err, snd s)
      | Inr state \<Rightarrow>
          if prefix ''Complete'' state
          then (case wp_log p of
                  Inl err \<Rightarrow> Inl (Inl err, snd s)
                | Inr log_text \<Rightarrow>
                    let child_failures = failed_statuses log_text
                    in Inl (if child_failures \<noteq> []
                            then Inl (RuntimeError (''coordinator exited after failed native phase process(es): ''
                                   @ join_with '', '' child_failures))
                            else Inr (),
                          AList.update ''coordinator.log'' log_text (snd s)))
          else if prefix ''Failed'' state \<or> prefix ''Rejected'' state
          then Inl (Inl (RuntimeError (''coordinator failed: '' @ state)), snd s)
          else Inr s)"

definition attempt_run :: "codec \<Rightarrow> swarm_run \<Rightarrow> int \<Rightarrow> (unit res \<times> log_files) option" where
  "attempt_run cd e timeout_s =
     (case sw_deploy e of
        Inl err \<Rightarrow> Some (Inl err, [])
      | Inr _ \<Rightarrow>
          map_option (\<lambda>(expired, r, logs). if expired
              then (Inl (TimeoutError (''coordinator did not complete within '' @ str_int timeout_s @ '' seconds'')), logs)
              else (r, logs))
            (poll_loop (\<lambda>i. wp_test_time (sw_polls e i) < sw_started e + of_int timeout_s)
               (\<lambda>i. swarm_body cd (sw_polls e i)) 0 (Inr (), [])))"

text \<open>The \<open>finally\<close> block: the missing service logs, the process logs, the removal of the stack.\<close>

primrec save_logs :: "(string \<Rightarrow> string res) \<Rightarrow> string list \<Rightarrow> log_files \<Rightarrow> unit res \<times> log_files" where
  "save_logs get [] logs = (Inr (), logs)"
| "save_logs get (service # services) logs =
     (if map_of logs (service @ ''.log'') \<noteq> None then save_logs get services logs
      else case get service of
          Inr log_text \<Rightarrow> save_logs get services (AList.update (service @ ''.log'') log_text logs)
        | Inl (CalledProcessError _ _) \<Rightarrow> save_logs get services logs
        | Inl err \<Rightarrow> (Inl err, logs))"

definition capture_process_logs :: "string res \<Rightarrow> (string \<Rightarrow> string res) \<Rightarrow> string list res" where
  "capture_process_logs containers process_paths =
     (case bindE containers (\<lambda>output.
           case split_lines output of
             [] \<Rightarrow> Inr []
           | first # _ \<Rightarrow> bindE (process_paths (strip_space first)) (\<lambda>paths.
               Inr (map (\<lambda>path. strip_space first @ '':'' @ path)
                      (filter (\<lambda>path. path \<noteq> []) (map strip_space (split_lines paths)))))) of
        Inl (CalledProcessError _ _) \<Rightarrow> Inr []
      | Inl (RuntimeError _) \<Rightarrow> Inr []
      | r \<Rightarrow> r)"

definition finish_run ::
  "rat \<times> (nat \<Rightarrow> removal_look) \<Rightarrow> string \<Rightarrow> 'a res \<Rightarrow> log_files \<Rightarrow> unit res \<Rightarrow> string list res \<Rightarrow> 'a run_outcome option" where
  "finish_run removal_after stack result logs saved captured =
     (case bindE saved (\<lambda>_. captured) of
        Inl err \<Rightarrow> Some \<lparr>ro_result = Inl err, ro_logs = logs, ro_copied = []\<rparr>
      | Inr copied \<Rightarrow>
          map_option (\<lambda>removed. \<lparr>ro_result = bindE removed (\<lambda>_. result), ro_logs = logs, ro_copied = copied\<rparr>)
            (wait_for_stack_removal removal_after stack))"

text \<open>An exception of the preparation leaves before the \<open>try\<close> statement, without any clean-up.\<close>

definition after_preparation :: "'p res option \<Rightarrow> 'a run_outcome option \<Rightarrow> 'a run_outcome option" where
  "after_preparation prepared guarded =
     Option.bind prepared (\<lambda>r. case r of
         Inl err \<Rightarrow> Some \<lparr>ro_result = Inl err, ro_logs = [], ro_copied = []\<rparr> | Inr _ \<Rightarrow> guarded)"

definition run_services :: "nat \<Rightarrow> string list" where
  "run_services node_count = ''coordinator'' # map (\<lambda>slot. ''transport-'' @ show_nat slot) [0..<node_count]"

definition swarm_stack_name :: "string \<Rightarrow> nat \<Rightarrow> string" where
  "swarm_stack_name workload node_count = ''chipsystemsim_'' @ workload @ ''_'' @ show_nat node_count"

definition native_run_files ::
  "codec \<Rightarrow> (string \<Rightarrow> jobj res) \<Rightarrow> string \<Rightarrow> nat \<Rightarrow> int option \<Rightarrow> int option \<Rightarrow> bool
     \<Rightarrow> (placement \<times> topology \<times> routing_file \<times> jobj) res" where
  "native_run_files cd load workload node_count sniper_cores sniper_maxthreads stream_output =
     bindE (bindE (dict_item workloads_manifest workload) (\<lambda>entry. json_item entry ''yaml'')) (\<lambda>path.
       generate_files cd
         (run_yaml_arguments (''/opt/legosim/'' @ parent_path (json_str cd path)) sniper_cores sniper_maxthreads stream_output)
         workload node_count (load (json_str cd path)))"

definition run_one ::
  "codec \<Rightarrow> (string \<Rightarrow> jobj res) \<Rightarrow> swarm_run \<Rightarrow> string \<Rightarrow> nat \<Rightarrow> string \<Rightarrow> string \<Rightarrow> int \<Rightarrow> int option \<Rightarrow> int option \<Rightarrow> bool
     \<Rightarrow> unit run_outcome option" where
  "run_one cd load e workload node_count img output_root timeout_s sniper_cores sniper_maxthreads stream_output =
     (let run_dir = output_root @ ''/'' @ workload @ ''-nodes'' @ show_nat node_count;
          stack = swarm_stack_name workload node_count
      in after_preparation
           (thenE (Some (dict_item WORKLOAD_PARAMETERS workload)) (\<lambda>parameters.
              if sw_dir_exists e then Some (Inl (FileExistsError run_dir))
              else prepare_stack e stack (run_stack_arguments img run_dir parameters)
                     (native_run_files cd load workload node_count sniper_cores sniper_maxthreads stream_output)))
           (Option.bind (attempt_run cd e timeout_s) (\<lambda>(result, logs).
              let (saved, logs1) = save_logs (sw_final_log e) (run_services node_count) logs
              in finish_run (sw_removal_after e) stack result logs1 saved
                   (capture_process_logs (sw_containers e) (sw_process_paths e)))))"

section \<open>The matrix of native runs\<close>

record swarm_arguments =
  wa_image :: "string option"
  wa_workload_image :: "string list"
  wa_output_dir :: string
  wa_workloads :: "string list"
  wa_nodes :: "nat list"
  wa_timeout_seconds :: int
  wa_sniper_cores :: "int option"
  wa_sniper_maxthreads :: "int option"
  wa_stream_output :: bool

definition sorted_workloads :: "string list" where
  "sorted_workloads = sort (map fst WORKLOAD_PARAMETERS)"

definition add_workload_image :: "string \<Rightarrow> (string, string) dict \<Rightarrow> (string, string) dict res" where
  "add_workload_image item workload_images =
     (let (workload, separator, img) = partition_at (CHR ''='') item
      in if \<not> separator \<or> workload \<notin> set (map fst WORKLOAD_PARAMETERS) \<or> img = []
         then Inl (SystemExit (''--workload-image must be WORKLOAD=IMAGE, where WORKLOAD is one of ''
                @ join_with '', '' sorted_workloads))
         else if map_of workload_images workload \<noteq> None
         then Inl (SystemExit (''duplicate --workload-image for '' @ workload))
         else Inr (AList.update workload img workload_images))"

definition no_image :: "string option \<Rightarrow> bool" where
  "no_image img \<longleftrightarrow> (case img of None \<Rightarrow> True | Some s \<Rightarrow> s = [])"

definition selected_images :: "swarm_arguments \<Rightarrow> (string, string) dict res" where
  "selected_images a =
     bindE (foldE add_workload_image (wa_workload_image a) []) (\<lambda>workload_images.
       let missing_images = filter (\<lambda>workload. map_of workload_images workload = None \<and> no_image (wa_image a)) (wa_workloads a)
       in if missing_images \<noteq> []
          then Inl (SystemExit (''provide --image or --workload-image for: '' @ join_with '', '' missing_images))
          else Inr workload_images)"

definition check_choices :: "swarm_arguments \<Rightarrow> unit res" where
  "check_choices a =
     (if wa_workloads a = [] \<or> \<not> set (wa_workloads a) \<subseteq> set sorted_workloads
      then Inl (SystemExit ''argument --workloads: invalid choice'')
      else if wa_nodes a = [] \<or> \<not> set (wa_nodes a) \<subseteq> {1, 2, 4, 8} then Inl (SystemExit ''argument --nodes: invalid choice'')
      else Inr ())"

text \<open>What the program sees of the cluster outside its runs.\<close>

record swarm_cluster =
  sc_info :: "string res"
  sc_node_list :: "nat \<Rightarrow> string res"
  sc_inspect :: "nat \<Rightarrow> string \<Rightarrow> string res"
  sc_run :: "nat \<Rightarrow> string \<Rightarrow> swarm_run"

definition workload_run ::
  "codec \<Rightarrow> (string \<Rightarrow> jobj res) \<Rightarrow> swarm_cluster \<Rightarrow> swarm_arguments \<Rightarrow> (string, string) dict \<Rightarrow> nat \<Rightarrow> string \<Rightarrow> unit \<Rightarrow> unit res option" where
  "workload_run cd load c a workload_images node_count workload _ =
     (let img = (case map_of workload_images workload of Some i \<Rightarrow> i | None \<Rightarrow> (case wa_image a of Some i \<Rightarrow> i | None \<Rightarrow> []))
      in map_option ro_result (run_one cd load (sc_run c node_count workload) workload node_count img (wa_output_dir a)
           (wa_timeout_seconds a) (wa_sniper_cores a) (wa_sniper_maxthreads a) (wa_stream_output a)))"

definition run_real_swarm :: "codec \<Rightarrow> (string \<Rightarrow> jobj res) \<Rightarrow> swarm_cluster \<Rightarrow> swarm_arguments \<Rightarrow> unit res option" where
  "run_real_swarm cd load c a =
     thenE (Some (check_choices a)) (\<lambda>_.
     thenE (Some (selected_images a)) (\<lambda>workload_images.
     thenE (Some (require_active_swarm (sc_info c))) (\<lambda>_.
       foldM (\<lambda>node_count _.
         thenE (Some (require_node_labels cd (sc_node_list c node_count) (sc_inspect c node_count) node_count)) (\<lambda>_.
           foldM (workload_run cd load c a workload_images node_count) (wa_workloads a) ())) (wa_nodes a) ())))"

section \<open>The manifest check\<close>

definition verify_phase :: "jobj \<Rightarrow> jobj \<Rightarrow> string \<Rightarrow> string \<Rightarrow> unit res" where
  "verify_phase entry config name phase =
     bindE (dict_item entry (phase @ ''_processes'')) (\<lambda>expected.
     bindE (json_iter (dict_get config phase (JList []))) (\<lambda>processes.
       if JInt (int (length processes)) \<noteq> expected
       then Inl (ValueError (name @ '': '' @ phase @ '' count is '' @ show_nat (length processes)))
       else Inr ()))"

definition verify_workload :: "(string \<Rightarrow> bool) \<Rightarrow> (string \<Rightarrow> jobj res) \<Rightarrow> string \<times> json \<Rightarrow> unit res" where
  "verify_workload is_file load = (\<lambda>(name, workload).
     bindE (as_obj workload) (\<lambda>entry.
     bindE (bindE (dict_item entry ''yaml'') yaml_text) (\<lambda>path.
       if \<not> is_file path then Inl (FileNotFoundError (name @ '': missing '' @ path))
       else bindE (load path) (\<lambda>config.
            bindE (verify_phase entry config name ''phase1'') (\<lambda>_. verify_phase entry config name ''phase2'')))))"

definition verify_workloads :: "(string \<Rightarrow> bool) \<Rightarrow> (string \<Rightarrow> jobj res) \<Rightarrow> jobj \<Rightarrow> unit res" where
  "verify_workloads is_file load manifest = bindE (mapE (verify_workload is_file load) manifest) (\<lambda>_. Inr ())"

section \<open>One run of an imported benchmark\<close>

text \<open>\<open>str.lower\<close> and the comparison of \<open>re.IGNORECASE\<close> on ASCII letters.\<close>

definition ascii_lower :: "string \<Rightarrow> string" where
  "ascii_lower = map (\<lambda>c. if CHR ''A'' \<le> c \<and> c \<le> CHR ''Z'' then char_of (of_char c + 32 :: nat) else c)"

definition pin_crash :: "string \<Rightarrow> bool" where
  "pin_crash log_text \<longleftrightarrow> sublist ''pin app terminated abnormally'' (ascii_lower log_text)
     \<or> sublist ''tool (or pin) caused signal'' (ascii_lower log_text)"

definition native_failure :: "string \<Rightarrow> bool" where
  "native_failure log_text \<longleftrightarrow> failed_statuses log_text \<noteq> [] \<or> pin_crash log_text"

text \<open>\<open>mesh_options\<close>: the first phase-two process with both options.\<close>

primrec mesh_of :: "json list \<Rightarrow> (int \<times> int) res" where
  "mesh_of [] = Inr (2, 4)"
| "mesh_of (p # ps) =
     bindE (as_obj p) (\<lambda>process.
     bindE (json_iter (dict_get process ''args'' (JList []))) (\<lambda>values.
       case bindE (bindE (argument_after ''-A'' values) json_int) (\<lambda>width.
            bindE (bindE (argument_after ''-F'' values) json_int) (\<lambda>flit_size. Inr (width, flit_size))) of
         Inl (ValueError _) \<Rightarrow> mesh_of ps
       | Inl IndexError \<Rightarrow> mesh_of ps
       | r \<Rightarrow> r))"

definition mesh_options :: "jobj \<Rightarrow> (int \<times> int) res" where
  "mesh_options config = bindE (json_iter (dict_get config ''phase2'' (JList []))) mesh_of"

record imported_run = swarm_run +
  im_makefile :: bool
  im_yaml_paths :: "string list"
  im_map_device :: bool
  im_captured :: "string \<Rightarrow> string res"

record imported_result =
  ir_benchmark :: string
  ir_mesh :: "(int \<times> int) option"
  ir_status :: string
  ir_native_failures :: "bool option"
  ir_pin_crash :: "bool option"
  ir_error :: "string option"

record imported_options =
  io_timeout_seconds :: int
  io_gdb_process_index :: "int option"
  io_transport_ptrace :: bool
  io_sniper_cores :: "int option"
  io_sniper_fast_forward :: bool
  io_sniper_maxthreads :: "int option"

definition init_imported :: "string \<Rightarrow> (int \<times> int) option \<Rightarrow> string \<Rightarrow> imported_result" where
  "init_imported benchmark mesh status = \<lparr>ir_benchmark = benchmark, ir_mesh = mesh, ir_status = status,
     ir_native_failures = None, ir_pin_crash = None, ir_error = None\<rparr>"

definition imported_services :: "string list" where
  "imported_services = [''coordinator'', ''transport-0'']"

primrec capture_logs :: "(string \<Rightarrow> string res) \<Rightarrow> string list \<Rightarrow> log_files \<Rightarrow> unit res \<times> log_files" where
  "capture_logs get [] logs = (Inr (), logs)"
| "capture_logs get (service # services) logs =
     (case get service of
        Inr log_text \<Rightarrow> capture_logs get services (AList.update (service @ ''.log'') log_text logs)
      | Inl (CalledProcessError _ _) \<Rightarrow>
          capture_logs get services (AList.update (service @ ''.log'') (''service logs unavailable'' @ [newline]) logs)
      | Inl err \<Rightarrow> (Inl err, logs))"

definition capture_imported_processes :: "string res \<Rightarrow> (string \<Rightarrow> string res) \<Rightarrow> string list res" where
  "capture_imported_processes containers process_paths =
     (case bindE containers (\<lambda>output.
           case split_lines (strip_space output) of
             [] \<Rightarrow> Inr []
           | container # _ \<Rightarrow> bindE (process_paths container) (\<lambda>paths.
               Inr (map (\<lambda>path. container @ '':'' @ path)
                      (filter (\<lambda>path. path \<noteq> []) (map strip_space (split_lines paths)))))) of
        Inl (CalledProcessError _ _) \<Rightarrow> Inr []
      | Inl (RuntimeError _) \<Rightarrow> Inr []
      | r \<Rightarrow> r)"

text \<open>The classification of a coordinator that completed, from its captured log.\<close>

definition completed_result :: "string \<Rightarrow> imported_result \<Rightarrow> imported_result" where
  "completed_result log_text r =
     r\<lparr>ir_native_failures := Some (native_failure log_text), ir_pin_crash := Some (pin_crash log_text),
       ir_status := (if native_failure log_text then ''native-process-failed''
                     else if sublist ''All process has exit'' log_text then ''completed''
                     else ''coordinator-completed-without-marker'')\<rparr>"

text \<open>A round; the dictionary \<open>result\<close> changes only when the loop is left.\<close>

definition imported_body ::
  "codec \<Rightarrow> (string \<Rightarrow> string res) \<Rightarrow> imported_result \<Rightarrow> swarm_poll \<Rightarrow> imported_result res \<times> log_files
     \<Rightarrow> imported_result res \<times> log_files + imported_result res \<times> log_files" where
  "imported_body cd captured r p s =
     (case bindE (bindE (wp_ps p) (coordinator_state cd)) (\<lambda>state. bindE (wp_log p) (\<lambda>live_log. Inr (state, live_log))) of
        Inl err \<Rightarrow> Inl (Inl err, snd s)
      | Inr (state, live_log) \<Rightarrow>
          if native_failure live_log
          then Inl (Inr (r\<lparr>ir_status := ''native-process-failed'', ir_native_failures := Some True,
                           ir_pin_crash := Some (pin_crash live_log)\<rparr>), snd s)
          else if state = ''Complete''
          then (case capture_logs captured imported_services (snd s) of
                  (Inl err, logs) \<Rightarrow> Inl (Inl err, logs)
                | (Inr _, logs) \<Rightarrow> Inl (Inr (completed_result (dict_get logs ''coordinator.log'' []) r), logs))
          else if state \<in> {''Failed'', ''Rejected'', ''missing''}
          then Inl (Inr (r\<lparr>ir_status := ''coordinator-'' @ ascii_lower state\<rparr>), snd s)
          else Inr s)"

text \<open>\<open>except (RuntimeError, CalledProcessError)\<close>.\<close>

definition orchestration_error :: "imported_result \<Rightarrow> imported_result res \<Rightarrow> imported_result res" where
  "orchestration_error r result =
     (let report = (\<lambda>err. Inr (r\<lparr>ir_status := ''orchestration-error'', ir_error := Some (error_text err)\<rparr>))
      in case result of
           Inl (RuntimeError m) \<Rightarrow> report (RuntimeError m)
         | Inl (CalledProcessError command code) \<Rightarrow> report (CalledProcessError command code)
         | _ \<Rightarrow> result)"

definition attempt_imported ::
  "codec \<Rightarrow> imported_run \<Rightarrow> imported_result \<Rightarrow> int \<Rightarrow> (imported_result res \<times> log_files) option" where
  "attempt_imported cd e r timeout_s =
     map_option (\<lambda>(result, logs). (orchestration_error r result, logs))
       (case sw_deploy e of
          Inl err \<Rightarrow> Some (Inl err, [])
        | Inr _ \<Rightarrow>
            map_option (\<lambda>(expired, result, logs). (if expired then Inr (r\<lparr>ir_status := ''timeout''\<rparr>) else result, logs))
              (poll_loop (\<lambda>i. wp_test_time (sw_polls e i) < sw_started e + of_int timeout_s)
                 (\<lambda>i. imported_body cd (im_captured e) r (sw_polls e i)) 0 (Inr r, [])))"

definition imported_stack_name :: "string \<Rightarrow> string" where
  "imported_stack_name benchmark = ''chipsystemsim_screen_'' @ ascii_lower benchmark"

definition imported_yaml_arguments :: "imported_run \<Rightarrow> imported_options \<Rightarrow> string \<Rightarrow> yaml_arguments" where
  "imported_yaml_arguments e a benchmark =
     (let root = ''/opt/legosim/benchmark/'' @ benchmark
      in default_yaml_arguments
           \<lparr>ya_benchmark_root := Some root,
            ya_shared_worker_asset := (if im_map_device e then [root @ ''/mapDevice.csv''] else []),
            ya_gdb_process_index := io_gdb_process_index a, ya_sniper_cores := io_sniper_cores a,
            ya_sniper_fast_forward := io_sniper_fast_forward a, ya_sniper_maxthreads := io_sniper_maxthreads a,
            ya_stream_output := True\<rparr>)"

definition run_imported ::
  "codec \<Rightarrow> (string \<Rightarrow> jobj res) \<Rightarrow> imported_run \<Rightarrow> imported_options \<Rightarrow> string \<Rightarrow> string \<Rightarrow> string
     \<Rightarrow> imported_result run_outcome option" where
  "run_imported cd load e a benchmark img output_root =
     (let run_dir = output_root @ ''/'' @ benchmark;
          stack = imported_stack_name benchmark;
          ended = (\<lambda>result. Some \<lparr>ro_result = result, ro_logs = [], ro_copied = []\<rparr>)
      in if \<not> im_makefile e then ended (Inr (init_imported benchmark None ''incomplete-source''))
         else case im_yaml_paths e of
           [source_yaml] \<Rightarrow>
             if sw_dir_exists e then ended (Inl (FileExistsError run_dir))
             else (case bindE (load source_yaml) mesh_options of
                Inl err \<Rightarrow> ended (Inl err)
              | Inr mesh \<Rightarrow>
                  after_preparation
                    (prepare_stack e stack
                      ((run_stack_arguments img run_dir mesh)\<lparr>st_transport_ptrace := io_transport_ptrace a\<rparr>)
                      (generate_files cd (imported_yaml_arguments e a benchmark) benchmark 1 (load source_yaml)))
                    (Option.bind (attempt_imported cd e (init_imported benchmark (Some mesh) ''pending'') (io_timeout_seconds a)) (\<lambda>(result, logs).
                       let (saved, logs1) = capture_logs (sw_final_log e) imported_services logs
                       in finish_run (sw_removal_after e) stack result logs1 saved
                            (capture_imported_processes (sw_containers e) (sw_process_paths e)))))
         | _ \<Rightarrow> ended (Inr (init_imported benchmark None ''incomplete-source'')))"

definition run_imported_swarm ::
  "codec \<Rightarrow> (string \<Rightarrow> jobj res) \<Rightarrow> swarm_cluster \<Rightarrow> (string \<Rightarrow> imported_run) \<Rightarrow> imported_options \<Rightarrow> string option \<Rightarrow> string \<Rightarrow> string list
     \<Rightarrow> imported_result list res option" where
  "run_imported_swarm cd load c runs a img output_dir benchmarks =
     thenE (Some (require_active_swarm (sc_info c))) (\<lambda>_.
     thenE (Some (require_node_labels cd (sc_node_list c 1) (sc_inspect c 1) 1)) (\<lambda>_.
       mapM (\<lambda>benchmark. map_option ro_result (run_imported cd load (runs benchmark) a benchmark
          (if no_image img then ''chipsystemsim:single-stage-'' @ ascii_lower benchmark else the img) output_dir)) benchmarks))"

section \<open>Soundness of a normal return\<close>

definition removal_seen :: "rat \<times> (nat \<Rightarrow> removal_look) \<Rightarrow> string \<Rightarrow> bool" where
  "removal_seen w stack \<longleftrightarrow> (\<exists>i. rl_test_time (snd w i) < fst w + 60 \<and> stack_gone stack (snd w i) = Inr True)"

definition state_seen :: "codec \<Rightarrow> string \<Rightarrow> swarm_poll \<Rightarrow> bool" where
  "state_seen cd state p \<longleftrightarrow> (\<exists>output tasks. wp_ps p = Inr output \<and> json_lines cd output = Inr tasks
     \<and> (\<exists>task\<in>set tasks. prefix state (json_str cd (dict_get task ''CurrentState'' (JStr [])))))"

interpretation gone: polled "\<lambda>i. rl_test_time (snd w i) < fst w + 60" "\<lambda>i. removal_body stack (snd w i)" "\<lambda>i s. True"
  "\<lambda>expired s. \<not> expired \<and> s = Inr () \<longrightarrow> removal_seen w stack" for w stack
  by unfold_locales (auto simp: removal_body_def removal_seen_def split: sum.splits if_splits)

lemma wait_for_stack_removal_Inr: "wait_for_stack_removal w stack = Some (Inr ()) \<Longrightarrow> removal_seen w stack"
  unfolding wait_for_stack_removal_def using gone.loop_post [of w stack]
  by (auto simp: case_prod_unfold split: if_splits)

lemma coordinator_state_complete:
  assumes "bindE (wp_ps p) (coordinator_state cd) = Inr state" and "prefix ''Complete'' state"
  shows "state_seen cd ''Complete'' p"
proof -
  obtain listing tasks where seen: "wp_ps p = Inr listing" "json_lines cd listing = Inr tasks"
    using assms(1) by (auto simp: bindE_eq_Inr coordinator_state_def)
  let ?states = "map (\<lambda>task. json_str cd (dict_get task ''CurrentState'' (JStr []))) tasks"
  have "list_ex (prefix ''Complete'') ?states"
    using assms seen by (auto simp: coordinator_state_def Let_def split: if_splits list.splits)
  then show ?thesis using seen by (auto simp: state_seen_def list_ex_iff)
qed

text \<open>The round in which a run was found complete.\<close>

definition complete_round :: "codec \<Rightarrow> swarm_run \<Rightarrow> int \<Rightarrow> string \<Rightarrow> bool" where
  "complete_round cd e timeout_s log_text \<longleftrightarrow> (\<exists>i. wp_test_time (sw_polls e i) < sw_started e + of_int timeout_s
     \<and> state_seen cd ''Complete'' (sw_polls e i) \<and> wp_log (sw_polls e i) = Inr log_text) \<and> failed_statuses log_text = []"

interpretation swarm: polled "\<lambda>i. wp_test_time (sw_polls e i) < sw_started e + of_int timeout_s"
  "\<lambda>i. swarm_body cd (sw_polls e i)" "\<lambda>i s. True"
  "\<lambda>expired s. \<not> expired \<and> fst s = Inr () \<longrightarrow>
     (\<exists>log_text. complete_round cd e timeout_s log_text \<and> map_of (snd s) ''coordinator.log'' = Some log_text)"
  for cd e timeout_s
  by unfold_locales
    (auto simp: swarm_body_def complete_round_def Let_def map_of_update
       split: sum.splits if_splits intro!: exI intro: coordinator_state_complete)

lemma attempt_run_complete:
  assumes "attempt_run cd e timeout_s = Some (Inr (), logs)"
  shows "\<exists>log_text. complete_round cd e timeout_s log_text \<and> map_of logs ''coordinator.log'' = Some log_text"
  using assms swarm.loop_post [of e timeout_s cd]
  by (auto simp: attempt_run_def split: sum.splits if_splits)

lemma save_logs_keeps: "map_of logs k = Some v \<Longrightarrow> map_of (snd (save_logs get services logs)) k = Some v"
proof (induction services arbitrary: logs)
  case (Cons service services)
  then have "map_of logs (service @ ''.log'') = None \<Longrightarrow> k \<noteq> service @ ''.log''" by auto
  then show ?case using Cons by (auto simp: map_of_update split: sum.splits py_error.splits)
qed simp

lemma save_logs_saves:
  "fst (save_logs get services logs) = Inr () \<Longrightarrow> service \<in> set services \<Longrightarrow> get service = Inr t \<Longrightarrow>
   map_of logs (service @ ''.log'') = None \<Longrightarrow> map_of (snd (save_logs get services logs)) (service @ ''.log'') = Some t"
proof (induction services arbitrary: logs)
  case (Cons x services)
  show ?case
  proof (cases "x = service")
    case True
    then show ?thesis using Cons.prems by (simp add: save_logs_keeps map_of_update)
  next
    case False
    then show ?thesis using Cons by (auto simp: map_of_update split: sum.splits py_error.splits if_splits)
  qed
qed simp

lemma finish_run_Inr:
  assumes "finish_run removal_after stack result logs saved captured = Some out" and "ro_result out = Inr x"
  shows "saved = Inr () \<and> result = Inr x \<and> ro_logs out = logs \<and> captured = Inr (ro_copied out) \<and> removal_seen removal_after stack"
  using assms by (auto simp: finish_run_def bindE_eq_Inr intro: wait_for_stack_removal_Inr split: sum.splits)

lemma after_preparation_Inr:
  "after_preparation prepared guarded = Some out \<Longrightarrow> ro_result out = Inr x \<Longrightarrow> guarded = Some out"
  by (cases prepared; cases "the prepared") (auto simp: after_preparation_def)

lemma run_one_Inr:
  assumes "run_one cd load e workload node_count img output_root timeout_s cores threads stream = Some out"
    and "ro_result out = Inr ()"
  obtains logs where "attempt_run cd e timeout_s = Some (Inr (), logs)"
    and "fst (save_logs (sw_final_log e) (run_services node_count) logs) = Inr ()"
    and "ro_logs out = snd (save_logs (sw_final_log e) (run_services node_count) logs)"
    and "removal_seen (sw_removal_after e) (swarm_stack_name workload node_count)"
proof -
  let ?services = "run_services node_count"
  obtain result logs where attempt: "attempt_run cd e timeout_s = Some (result, logs)"
    and finish: "finish_run (sw_removal_after e) (swarm_stack_name workload node_count) result
        (snd (save_logs (sw_final_log e) ?services logs)) (fst (save_logs (sw_final_log e) ?services logs))
        (capture_process_logs (sw_containers e) (sw_process_paths e)) = Some out"
    using after_preparation_Inr [OF assms(1) [unfolded run_one_def Let_def] assms(2)]
    by (auto simp: bind_eq_Some_conv case_prod_unfold)
  from finish_run_Inr [OF finish assms(2)] attempt that show ?thesis by auto
qed

text \<open>The log of a coordinator is written in the round that leaves the loop, and no other log is.\<close>

interpretation swarm_logs: polled "\<lambda>i. wp_test_time (sw_polls e i) < sw_started e + of_int timeout_s"
  "\<lambda>i. swarm_body cd (sw_polls e i)" "\<lambda>i s. snd s = []" "\<lambda>expired s. set (map fst (snd s)) \<subseteq> {''coordinator.log''}"
  for cd e timeout_s
  by unfold_locales (auto simp: swarm_body_def Let_def split: sum.splits if_splits)

lemma attempt_run_logs:
  assumes "attempt_run cd e timeout_s = Some (r, logs)"
  shows "set (map fst logs) \<subseteq> {''coordinator.log''}"
proof (cases "sw_deploy e")
  case (Inr _)
  with assms obtain expired r' where
    "poll_loop (\<lambda>i. wp_test_time (sw_polls e i) < sw_started e + of_int timeout_s)
       (\<lambda>i. swarm_body cd (sw_polls e i)) 0 (Inr (), []) = Some (expired, r', logs)"
    by (auto simp: attempt_run_def split: if_splits)
  from swarm_logs.loop_post [OF this] show ?thesis by simp
qed (use assms in \<open>simp add: attempt_run_def\<close>)

text \<open>
  C35. A run of a native workload returns without an exception only when the coordinator was seen
  complete before the deadline, its log (the one that is kept) reports no failed phase process, the log
  of every transport service that could be read is kept, and the stack and its network were seen gone.
\<close>

theorem native_run_sound:
  assumes "run_one cd load e workload node_count img output_root timeout_s cores threads stream = Some out"
    and "ro_result out = Inr ()"
  shows "(\<exists>log_text. complete_round cd e timeout_s log_text \<and> map_of (ro_logs out) ''coordinator.log'' = Some log_text)
    \<and> (\<forall>slot t. slot < node_count \<longrightarrow> sw_final_log e (''transport-'' @ show_nat slot) = Inr t \<longrightarrow>
         map_of (ro_logs out) (''transport-'' @ show_nat slot @ ''.log'') = Some t)
    \<and> removal_seen (sw_removal_after e) (swarm_stack_name workload node_count)"
proof -
  let ?services = "run_services node_count"
  obtain logs where attempt: "attempt_run cd e timeout_s = Some (Inr (), logs)"
    and saved: "fst (save_logs (sw_final_log e) ?services logs) = Inr ()"
    and logs: "ro_logs out = snd (save_logs (sw_final_log e) ?services logs)"
    and removal: "removal_seen (sw_removal_after e) (swarm_stack_name workload node_count)"
    using run_one_Inr [OF assms] by blast
  obtain log_text where complete: "complete_round cd e timeout_s log_text" "map_of logs ''coordinator.log'' = Some log_text"
    using attempt_run_complete [OF attempt] by blast
  have transport: "map_of (ro_logs out) (''transport-'' @ show_nat slot @ ''.log'') = Some t"
    if "slot < node_count" and "sw_final_log e (''transport-'' @ show_nat slot) = Inr t" for slot t
  proof -
    have "(''transport-'' @ show_nat slot) @ ''.log'' \<notin> fst ` set logs" using attempt_run_logs [OF attempt] by auto
    then have "map_of logs ((''transport-'' @ show_nat slot) @ ''.log'') = None" by (simp add: map_of_eq_None_iff)
    from save_logs_saves [OF saved _ that(2) this] that(1) logs show ?thesis by (auto simp: run_services_def)
  qed
  from complete save_logs_keeps [OF complete(2)] logs transport removal show ?thesis by auto
qed

text \<open>A run on a one-process workload, whose coordinator is complete in the second round.\<close>

definition demo_codec :: codec where
  "demo_codec = \<lparr>cd_loads = (\<lambda>line. Inr (JObj [(''CurrentState'', JStr line)])), cd_str = (\<lambda>_. []), cd_dumps = (\<lambda>_. [])\<rparr>"

definition demo_source :: jobj where
  "demo_source = [(''phase1'', JList [JObj [(''cmd'', JStr ''cpu''), (''args'', JList [JStr ''0'', JStr ''0''])]]), (''phase2'', JList [])]"

definition demo_gone :: "rat \<times> (nat \<Rightarrow> removal_look)" where
  "demo_gone = (0, \<lambda>i. \<lparr>rl_test_time = of_nat i, rl_stacks = Inr [], rl_networks = Inr []\<rparr>)"

definition demo_swarm_poll :: "nat \<Rightarrow> swarm_poll" where
  "demo_swarm_poll i = \<lparr>wp_test_time = of_nat i, wp_ps = Inr (if i = 0 then ''Running'' else ''Complete''),
     wp_log = Inr (''All process has exit terminate with status = 0'')\<rparr>"

definition demo_run :: swarm_run where
  "demo_run = \<lparr>sw_dir_exists = False, sw_removal_before = demo_gone, sw_deploy = Inr (), sw_started = 0,
     sw_polls = demo_swarm_poll, sw_final_log = Inr, sw_containers = Inr [], sw_process_paths = Inr, sw_removal_after = demo_gone\<rparr>"

definition demo_outcome :: "unit run_outcome" where
  "demo_outcome = \<lparr>ro_result = Inr (), ro_logs = [(''coordinator.log'', ''All process has exit terminate with status = 0''),
     (''transport-0.log'', ''transport-0'')], ro_copied = []\<rparr>"

lemma demo_gone_removed: "wait_for_stack_removal demo_gone stack = Some (Inr ())"
  by (simp add: wait_for_stack_removal_def demo_gone_def poll_loop.simps removal_body_def stack_gone_def split_lines_def)

lemma demo_prepared:
  "\<exists>stack. prepare_stack demo_run (swarm_stack_name ''mlp'' 1) (run_stack_arguments ''i'' ''o/mlp-nodes1'' (6, 4))
     (native_run_files demo_codec (\<lambda>_. Inr demo_source) ''mlp'' 1 None None False) = Some (Inr stack)"
proof -
  have "(case native_run_files demo_codec (\<lambda>_. Inr demo_source) ''mlp'' 1 None None False of
       Inl _ \<Rightarrow> False
     | Inr (p, t, r, d) \<Rightarrow> (case generate_swarm_stack (run_stack_arguments ''i'' ''o/mlp-nodes1'' (6, 4)) p t r of
         Inl _ \<Rightarrow> False | Inr _ \<Rightarrow> True))" by code_simp
  moreover have "sw_removal_before demo_run = demo_gone" by (simp add: demo_run_def)
  ultimately show ?thesis
    by (auto simp: prepare_stack_def thenE_def demo_gone_removed sub_process_def split: sum.splits)
qed

lemma demo_attempt: "attempt_run demo_codec demo_run 9 = Some (Inr (), [(''coordinator.log'', ''All process has exit terminate with status = 0'')])"
proof -
  have "swarm_body demo_codec (demo_swarm_poll 0) (Inr (), []) = Inr (Inr (), [])" by code_simp
  moreover have "swarm_body demo_codec (demo_swarm_poll (Suc 0)) (Inr (), [])
      = Inl (Inr (), [(''coordinator.log'', ''All process has exit terminate with status = 0'')])" by code_simp
  moreover have "wp_test_time (demo_swarm_poll i) = of_nat i" for i by (simp add: demo_swarm_poll_def)
  ultimately show ?thesis
    by (simp add: attempt_run_def demo_run_def poll_loop.simps [of _ _ 0] poll_loop.simps [of _ _ "Suc 0"])
qed

lemma demo_run_returns:
  "run_one demo_codec (\<lambda>_. Inr demo_source) demo_run ''mlp'' 1 ''i'' ''o'' 9 None None False = Some demo_outcome"
proof -
  have "dict_item WORKLOAD_PARAMETERS ''mlp'' = Inr (6, 4)" by code_simp
  moreover have "save_logs Inr (run_services 1) [(''coordinator.log'', ''All process has exit terminate with status = 0'')]
    = (Inr (), ro_logs demo_outcome)" by code_simp
  moreover have "capture_process_logs (Inr []) Inr = Inr []" "show_nat (Suc 0) = ''1''" by code_simp+
  ultimately show ?thesis
    using demo_prepared demo_attempt
    by (auto simp: run_one_def Let_def thenE_def after_preparation_def finish_run_def demo_gone_removed
      demo_run_def demo_outcome_def)
qed

theorem native_run_sound_witness:
  "run_one demo_codec (\<lambda>_. Inr demo_source) demo_run ''mlp'' 1 ''i'' ''o'' 9 None None False = Some demo_outcome
   \<and> ro_result demo_outcome = Inr ()
   \<and> (\<exists>log_text. complete_round demo_codec demo_run 9 log_text \<and> map_of (ro_logs demo_outcome) ''coordinator.log'' = Some log_text)
   \<and> removal_seen (sw_removal_after demo_run) (swarm_stack_name ''mlp'' 1)"
  using native_run_sound [OF demo_run_returns] demo_run_returns by (simp add: demo_outcome_def)

section \<open>The default matrix\<close>

lemma foldM_stops: "x \<in> set xs \<Longrightarrow> (\<And>s t. f x s \<noteq> Some (Inr t)) \<Longrightarrow> foldM f xs s \<noteq> Some (Inr t)"
  by (induction xs arbitrary: s) (auto simp: thenE_def split: option.splits sum.splits)

lemma verified_dlrm:
  assumes "verify_workloads is_file load workloads_manifest = Inr ()"
  obtains config p1 p2 where "load ''benchmark/dlrm_npu/dlrm.yml'' = Inr config"
    and "json_iter (dict_get config ''phase1'' (JList [])) = Inr p1" "length p1 = 2"
    and "json_iter (dict_get config ''phase2'' (JList [])) = Inr p2" "length p2 = 1"
proof -
  have "verify_workload is_file load (''dlrm'', workload_entry ''benchmark/dlrm_npu/dlrm.yml'' 2 1) = Inr ()"
    using assms by (auto simp: verify_workloads_def workloads_manifest_def bindE_eq_Inr)
  then show ?thesis
    using that by (auto simp: verify_workload_def workload_entry_def verify_phase_def as_obj_def bindE_eq_Inr dict_item_def
      yaml_text_def split: if_splits)
qed

lemma mapE_Inl: "mapE f xs = Inl e \<Longrightarrow> \<exists>x\<in>set xs. f x = Inl e"
  by (induction xs) (auto simp: bindE_eq_Inl)

lemma phase_entries_Inl: "phase_entries j = Inl e \<Longrightarrow> json_iter j = Inr xs \<Longrightarrow> \<exists>m. e = TypeError m"
  by (auto simp: phase_entries_def dest!: mapE_Inl split: json.splits)

lemma phase_entries_length: "phase_entries j = Inr ps \<Longrightarrow> json_iter j = Inr xs \<Longrightarrow> length ps = length xs"
  by (auto simp: phase_entries_def dest: mapE_length)

lemma dlrm_not_grouped:
  assumes "verify_workloads is_file load workloads_manifest = Inr ()"
  shows "native_run_files cd load ''dlrm'' 2 cores threads stream = Inl (CalledProcessError [''generate_placement.py''] 1)"
proof -
  obtain config p1 p2 where config: "load ''benchmark/dlrm_npu/dlrm.yml'' = Inr config"
    and p1: "json_iter (dict_get config ''phase1'' (JList [])) = Inr p1" "length p1 = 2"
    and p2: "json_iter (dict_get config ''phase2'' (JList [])) = Inr p2" "length p2 = 1"
    by (rule verified_dlrm [OF assms])
  have "sub_process ''generate_placement.py'' (bindE (loaded_phases config) (generate_placement ''contiguous'' ''dlrm'' 2))
      = Inl (CalledProcessError [''generate_placement.py''] 1)"
  proof (cases "loaded_phases config")
    case (Inl e)
    then have "\<exists>m. e = TypeError m" using p1 p2
      by (auto simp: loaded_phases_def bindE_eq_Inl dest: phase_entries_Inl)
    then show ?thesis using Inl by (auto simp: sub_process_def)
  next
    case (Inr phases)
    then have "length (source_processes_of phases) = 3" using p1 p2
      by (auto simp: loaded_phases_def bindE_eq_Inr source_processes_of_def dict_get_def dest!: phase_entries_length)
    then show ?thesis using Inr by (simp add: sub_process_def generate_placement_def Let_def)
  qed
  then show ?thesis using config
    by (simp add: native_run_files_def workloads_manifest_def workload_entry_def dict_item_def generate_files_def)
qed

text \<open>
  C36. When the manifest check accepts the upstream checkout, the runner with its default workloads and
  node counts never completes: the three processes of \<open>dlrm\<close> cannot be grouped on two nodes, so that the
  run of this point ends with the failed placement generator.
\<close>

theorem default_matrix_stops:
  assumes "verify_workloads is_file load workloads_manifest = Inr ()"
    and "wa_workloads a = sorted_workloads" and "wa_nodes a = [1, 2, 4, 8]"
  shows "run_real_swarm cd load c a \<noteq> Some (Inr ())
    \<and> (\<not> sw_dir_exists e \<longrightarrow> run_one cd load e ''dlrm'' 2 img out_dir timeout_s cores threads stream
         = Some \<lparr>ro_result = Inl (CalledProcessError [''generate_placement.py''] 1), ro_logs = [], ro_copied = []\<rparr>)"
proof -
  have run: "run_one cd load e ''dlrm'' 2 img out_dir timeout_s cores threads stream
      = Some \<lparr>ro_result = Inl (if sw_dir_exists e then FileExistsError (out_dir @ ''/'' @ ''dlrm'' @ ''-nodes'' @ show_nat 2)
           else CalledProcessError [''generate_placement.py''] 1), ro_logs = [], ro_copied = []\<rparr>"
    for e img out_dir timeout_s cores threads stream
    using dlrm_not_grouped [OF assms(1)]
    by (simp add: run_one_def Let_def WORKLOAD_PARAMETERS_def dict_item_def thenE_def prepare_stack_def after_preparation_def)
  have "''dlrm'' \<in> set (wa_workloads a)" using assms(2) by (simp add: sorted_workloads_def WORKLOAD_PARAMETERS_def)
  then have "foldM (workload_run cd load c a images 2) (wa_workloads a) () \<noteq> Some (Inr t)" for images t
    by (rule foldM_stops) (simp add: workload_run_def run)
  then have "foldM (\<lambda>node_count _.
         thenE (Some (require_node_labels cd (sc_node_list c node_count) (sc_inspect c node_count) node_count)) (\<lambda>_.
           foldM (workload_run cd load c a images node_count) (wa_workloads a) ())) (wa_nodes a) () \<noteq> Some (Inr t)" for images t
    using assms(3) by (intro foldM_stops [of 2]) (auto simp: thenE_def split: sum.splits)
  then have "run_real_swarm cd load c a \<noteq> Some (Inr ())"
    by (auto simp: run_real_swarm_def thenE_def split: sum.splits)
  then show ?thesis using run by simp
qed

definition demo_checkout :: "string \<Rightarrow> jobj res" where
  "demo_checkout path = Inr [(''phase1'', JList (replicate (if path = ''benchmark/dlrm_npu/dlrm.yml'' then 2 else 7) (JObj []))),
     (''phase2'', JList [JObj []])]"

definition default_arguments :: swarm_arguments where
  "default_arguments = \<lparr>wa_image = Some ''i'', wa_workload_image = [], wa_output_dir = ''o'', wa_workloads = sorted_workloads,
     wa_nodes = [1, 2, 4, 8], wa_timeout_seconds = 7200, wa_sniper_cores = None, wa_sniper_maxthreads = None, wa_stream_output = False\<rparr>"

theorem default_matrix_stops_witness:
  "verify_workloads (\<lambda>_. True) demo_checkout workloads_manifest = Inr ()
   \<and> run_real_swarm demo_codec demo_checkout
       \<lparr>sc_info = Inr ''active'', sc_node_list = (\<lambda>_. Inr []), sc_inspect = (\<lambda>_. Inr), sc_run = (\<lambda>_ _. demo_run)\<rparr> default_arguments
     \<noteq> Some (Inr ())
   \<and> run_one demo_codec demo_checkout demo_run ''dlrm'' 2 ''i'' ''o'' 7200 None None False
     = Some \<lparr>ro_result = Inl (CalledProcessError [''generate_placement.py''] 1), ro_logs = [], ro_copied = []\<rparr>"
proof -
  have ok: "verify_workloads (\<lambda>_. True) demo_checkout workloads_manifest = Inr ()" by code_simp
  have "wa_workloads default_arguments = sorted_workloads" "wa_nodes default_arguments = [1, 2, 4, 8]" "\<not> sw_dir_exists demo_run"
    by (simp_all add: default_arguments_def demo_run_def)
  with default_matrix_stops [OF ok] ok show ?thesis by blast
qed

section \<open>Soundness of an imported run\<close>

definition imported_round :: "codec \<Rightarrow> 'a swarm_run_scheme \<Rightarrow> int \<Rightarrow> bool" where
  "imported_round cd e timeout_s \<longleftrightarrow> (\<exists>i live_log. wp_test_time (sw_polls e i) < sw_started e + of_int timeout_s
     \<and> state_seen cd ''Complete'' (sw_polls e i) \<and> wp_log (sw_polls e i) = Inr live_log \<and> \<not> native_failure live_log)"

definition clean_log :: "imported_run \<Rightarrow> string \<Rightarrow> bool" where
  "clean_log e log_text \<longleftrightarrow> im_captured e ''coordinator'' = Inr log_text \<and> \<not> native_failure log_text
     \<and> sublist ''All process has exit'' log_text"

lemma captured_coordinator:
  assumes "capture_logs get imported_services logs = (Inr u, logs1)"
  shows "dict_get logs1 ''coordinator.log'' []
    = (case get ''coordinator'' of Inr t \<Rightarrow> t | Inl _ \<Rightarrow> ''service logs unavailable'' @ [newline])"
  using assms by (auto simp: imported_services_def dict_get_def map_of_update split: sum.splits py_error.splits)

lemma no_marker: "\<not> sublist ''All process has exit'' (''service logs unavailable'' @ [newline])"
  by code_simp

lemma completed_result_clean:
  assumes "capture_logs (im_captured e) imported_services logs = (Inr u, logs1)"
    and "ir_status (completed_result (dict_get logs1 ''coordinator.log'' []) r) = ''completed''"
  shows "\<exists>log_text. clean_log e log_text"
  using assms no_marker captured_coordinator [OF assms(1)]
  by (auto simp: completed_result_def clean_log_def split: if_splits sum.splits)

lemma imported_body_completed:
  assumes "imported_body cd captured r p s = Inl t" and "fst t = Inr result" and "ir_status result = ''completed''"
  shows "state_seen cd ''Complete'' p \<and> (\<exists>live_log. wp_log p = Inr live_log \<and> \<not> native_failure live_log)
    \<and> (\<exists>logs u logs1. capture_logs captured imported_services logs = (Inr u, logs1)
         \<and> result = completed_result (dict_get logs1 ''coordinator.log'' []) r)"
proof -
  obtain state live_log where seen: "bindE (wp_ps p) (coordinator_state cd) = Inr state" "wp_log p = Inr live_log"
    using assms(1,2) unfolding imported_body_def by (auto simp: bindE_eq_Inr split: sum.splits)
  then have live: "\<not> native_failure live_log" and state: "state = ''Complete''"
    using assms by (auto simp: imported_body_def split: if_splits)
  then obtain u logs1 where "capture_logs captured imported_services (snd s) = (Inr u, logs1)"
      "t = (Inr (completed_result (dict_get logs1 ''coordinator.log'' []) r), logs1)"
    using assms seen by (auto simp: imported_body_def split: prod.splits sum.splits)
  then show ?thesis using assms(2) live seen state coordinator_state_complete [OF seen(1)] by auto
qed

lemma completed_result_flags:
  "ir_status (completed_result log_text r) = ''completed'' \<Longrightarrow>
   ir_native_failures (completed_result log_text r) = Some False \<and> ir_pin_crash (completed_result log_text r) = Some False"
  by (auto simp: completed_result_def native_failure_def split: if_splits)

interpretation screen: polled "\<lambda>i. wp_test_time (sw_polls e i) < sw_started e + of_int timeout_s"
  "\<lambda>i. imported_body cd (im_captured e) r (sw_polls e i)" "\<lambda>i s. True"
  "\<lambda>expired s. \<not> expired \<longrightarrow> (\<forall>result. fst s = Inr result \<longrightarrow> ir_status result = ''completed'' \<longrightarrow>
     imported_round cd e timeout_s \<and> (\<exists>log_text. clean_log e log_text)
     \<and> ir_native_failures result = Some False \<and> ir_pin_crash result = Some False)"
  for cd e timeout_s r
proof (unfold_locales, goal_cases)
  case (2 i s t)
  show ?case
  proof (intro impI allI)
    fix result
    assume "fst t = Inr result" "ir_status result = ''completed''"
    with imported_body_completed [OF 2(3) this] show "imported_round cd e timeout_s \<and> (\<exists>log_text. clean_log e log_text)
        \<and> ir_native_failures result = Some False \<and> ir_pin_crash result = Some False"
      using 2(2) completed_result_clean completed_result_flags unfolding imported_round_def by blast
  qed
qed auto

lemma orchestration_error_completed:
  "orchestration_error r result = Inr x \<Longrightarrow> ir_status x = ''completed'' \<Longrightarrow> result = Inr x"
  by (auto simp: orchestration_error_def Let_def split: sum.splits py_error.splits)

lemma attempt_completed:
  assumes "attempt_imported cd e r timeout_s = Some (Inr result, logs)" and "ir_status result = ''completed''"
  shows "imported_round cd e timeout_s \<and> (\<exists>log_text. clean_log e log_text)
    \<and> ir_native_failures result = Some False \<and> ir_pin_crash result = Some False"
proof (cases "sw_deploy e")
  case (Inl err)
  with assms show ?thesis by (auto simp: attempt_imported_def dest: orchestration_error_completed)
next
  case (Inr _)
  with assms obtain expired result' where
    loop: "poll_loop (\<lambda>i. wp_test_time (sw_polls e i) < sw_started e + of_int timeout_s)
       (\<lambda>i. imported_body cd (im_captured e) r (sw_polls e i)) 0 (Inr r, []) = Some (expired, result', logs)"
    and "(if expired then Inr (r\<lparr>ir_status := ''timeout''\<rparr>) else result') = Inr result"
    by (auto simp: attempt_imported_def dest: orchestration_error_completed)
  with assms(2) screen.loop_post [OF loop] show ?thesis by (auto split: if_splits)
qed

text \<open>
  The screen reports an imported benchmark as completed only when, before the deadline, the
  coordinator was seen complete while its log had no failure; its log could then be read, names the end
  of all processes and contains neither a failed process nor a crash of Pin; both failure flags are
  false, and the stack and its network were seen gone.
\<close>

theorem imported_completed_sound:
  assumes "run_imported cd load e a benchmark img output_root = Some out"
    and "ro_result out = Inr result" and "ir_status result = ''completed''"
  shows "imported_round cd e (io_timeout_seconds a) \<and> (\<exists>log_text. clean_log e log_text)
    \<and> ir_native_failures result = Some False \<and> ir_pin_crash result = Some False
    \<and> removal_seen (sw_removal_after e) (imported_stack_name benchmark)"
proof -
  obtain mesh r logs saved logs1 captured where
    attempt: "attempt_imported cd e (init_imported benchmark (Some mesh) ''pending'') (io_timeout_seconds a) = Some (r, logs)"
    and finish: "finish_run (sw_removal_after e) (imported_stack_name benchmark) r logs1 saved captured = Some out"
    using assms unfolding run_imported_def Let_def
    by (auto simp: init_imported_def bind_eq_Some_conv case_prod_unfold dest!: after_preparation_Inr
        split: if_splits list.splits sum.splits)
  from finish_run_Inr [OF finish assms(2)] have r: "r = Inr result" and removed: "removal_seen (sw_removal_after e) (imported_stack_name benchmark)"
    by auto
  have "imported_round cd e (io_timeout_seconds a) \<and> (\<exists>log_text. clean_log e log_text)
    \<and> ir_native_failures result = Some False \<and> ir_pin_crash result = Some False"
    using attempt_completed [OF attempt [unfolded r] assms(3)] .
  with removed show ?thesis by blast
qed

definition demo_imported :: imported_run where
  "demo_imported = swarm_run.extend demo_run
     \<lparr>im_makefile = True, im_yaml_paths = [''b.yml''], im_map_device = False, im_captured = (\<lambda>_. Inr ''All process has exit'')\<rparr>"

definition demo_options :: imported_options where
  "demo_options = \<lparr>io_timeout_seconds = 9, io_gdb_process_index = None, io_transport_ptrace = False, io_sniper_cores = None,
     io_sniper_fast_forward = False, io_sniper_maxthreads = None\<rparr>"

definition demo_completed :: imported_result where
  "demo_completed = completed_result ''All process has exit'' (init_imported ''b'' (Some (2, 4)) ''pending'')"

lemma demo_imported_fields:
  "sw_deploy demo_imported = Inr ()" "sw_polls demo_imported = demo_swarm_poll" "sw_started demo_imported = 0"
  "sw_removal_before demo_imported = demo_gone" "sw_removal_after demo_imported = demo_gone" "sw_dir_exists demo_imported = False"
  "sw_final_log demo_imported = Inr" "sw_containers demo_imported = Inr []" "sw_process_paths demo_imported = Inr"
  "im_makefile demo_imported" "im_yaml_paths demo_imported = [''b.yml'']"
  by (simp_all add: demo_imported_def demo_run_def swarm_run.extend_def)

lemma demo_imported_prepared:
  "\<exists>stack. prepare_stack demo_imported (imported_stack_name ''b'')
     ((run_stack_arguments ''i'' ''o/b'' (2, 4))\<lparr>st_transport_ptrace := io_transport_ptrace demo_options\<rparr>)
     (generate_files demo_codec (imported_yaml_arguments demo_imported demo_options ''b'') ''b'' 1 (Inr demo_source)) = Some (Inr stack)"
proof -
  have "(case generate_files demo_codec (imported_yaml_arguments demo_imported demo_options ''b'') ''b'' 1 (Inr demo_source) of
       Inl _ \<Rightarrow> False
     | Inr (p, t, r, d) \<Rightarrow> (case generate_swarm_stack
           ((run_stack_arguments ''i'' ''o/b'' (2, 4))\<lparr>st_transport_ptrace := io_transport_ptrace demo_options\<rparr>) p t r of
         Inl _ \<Rightarrow> False | Inr _ \<Rightarrow> True))" by code_simp
  then show ?thesis
    by (auto simp: prepare_stack_def thenE_def demo_imported_fields demo_gone_removed sub_process_def split: sum.splits)
qed

lemma demo_imported_attempt:
  "attempt_imported demo_codec demo_imported (init_imported ''b'' (Some (2, 4)) ''pending'') 9
    = Some (Inr demo_completed, [(''coordinator.log'', ''All process has exit''), (''transport-0.log'', ''All process has exit'')])"
proof -
  let ?r = "init_imported ''b'' (Some (2, 4)) ''pending''"
  have "imported_body demo_codec (im_captured demo_imported) ?r (demo_swarm_poll 0) (Inr ?r, []) = Inr (Inr ?r, [])" by code_simp
  moreover have "imported_body demo_codec (im_captured demo_imported) ?r (demo_swarm_poll (Suc 0)) (Inr ?r, [])
      = Inl (Inr demo_completed, [(''coordinator.log'', ''All process has exit''), (''transport-0.log'', ''All process has exit'')])"
    by code_simp
  moreover have "wp_test_time (demo_swarm_poll i) = of_nat i" for i by (simp add: demo_swarm_poll_def)
  ultimately show ?thesis
    by (simp add: attempt_imported_def orchestration_error_def demo_imported_fields poll_loop.simps [of _ _ 0] poll_loop.simps [of _ _ "Suc 0"])
qed

lemma demo_imported_returns:
  "\<exists>out. run_imported demo_codec (\<lambda>_. Inr demo_source) demo_imported demo_options ''b'' ''i'' ''o'' = Some out
     \<and> ro_result out = Inr demo_completed"
proof -
  have "mesh_options demo_source = Inr (2, 4)" "capture_imported_processes (Inr []) Inr = Inr []"
    "fst (capture_logs Inr imported_services logs) = Inr ()" for logs
    by (code_simp, code_simp, simp add: imported_services_def)
  then show ?thesis
    using demo_imported_prepared demo_imported_attempt
    by (auto simp: run_imported_def Let_def after_preparation_def finish_run_def demo_gone_removed demo_imported_fields
      demo_options_def case_prod_unfold)
qed

theorem imported_completed_sound_witness:
  "\<exists>out. run_imported demo_codec (\<lambda>_. Inr demo_source) demo_imported demo_options ''b'' ''i'' ''o'' = Some out
     \<and> ro_result out = Inr demo_completed \<and> ir_status demo_completed = ''completed''
     \<and> imported_round demo_codec demo_imported 9 \<and> (\<exists>log_text. clean_log demo_imported log_text)
     \<and> ir_native_failures demo_completed = Some False \<and> ir_pin_crash demo_completed = Some False
     \<and> removal_seen demo_gone (imported_stack_name ''b'')"
proof -
  have status: "ir_status demo_completed = ''completed''" by code_simp
  obtain out where out: "run_imported demo_codec (\<lambda>_. Inr demo_source) demo_imported demo_options ''b'' ''i'' ''o'' = Some out"
    "ro_result out = Inr demo_completed" using demo_imported_returns by blast
  show ?thesis using imported_completed_sound [OF out status] out status by (auto simp: demo_options_def demo_imported_fields)
qed

end
