(* ===== verification/PyCsv.thy ===== *)
theory PyCsv
  imports PyText
begin

text \<open>
  The \<open>csv\<close> module of the standard library in its standard dialect: the states of \<open>csv.reader\<close>, its
  records with their fields, the rows of \<open>csv.DictReader\<close> and the text of \<open>csv.DictWriter\<close> with minimal
  quoting. What the writer prints, the reader gives back field by field.
\<close>

section \<open>Definitions\<close>

datatype csv_state = RecordStart | FieldStart | InField | Quoted | QuoteInQuoted

fun csv_next :: "csv_state \<Rightarrow> char \<Rightarrow> csv_state" where
  "csv_next RecordStart c = (if c = CHR 0x22 then Quoted else if c = CHR '','' then FieldStart else InField)"
| "csv_next FieldStart c = (if c = CHR 0x22 then Quoted else if c = CHR '','' then FieldStart else InField)"
| "csv_next InField c = (if c = CHR '','' then FieldStart else InField)"
| "csv_next Quoted c = (if c = CHR 0x22 then QuoteInQuoted else Quoted)"
| "csv_next QuoteInQuoted c = (if c = CHR 0x22 then Quoted else if c = CHR '','' then FieldStart else InField)"

definition is_csv_break :: "char \<Rightarrow> bool" where
  "is_csv_break c \<longleftrightarrow> c = newline \<or> c = CHR 0x0D"

text \<open>A delimiter ends a field; an opening quote and a quote inside a quoted field add no character.\<close>

definition csv_silent :: "csv_state \<Rightarrow> csv_state \<Rightarrow> bool" where
  "csv_silent st st' \<longleftrightarrow> st' = QuoteInQuoted \<or> st' = Quoted \<and> (st = RecordStart \<or> st = FieldStart)"

fun csv_records :: "csv_state \<Rightarrow> string \<Rightarrow> string list \<Rightarrow> string \<Rightarrow> string list list" where
  "csv_records st field fields [] = (if st = RecordStart then [] else [fields @ [field]])"
| "csv_records st field fields (c # cs) =
     (if is_csv_break c \<and> st \<noteq> Quoted
      then (if st = RecordStart then [] else fields @ [field])
        # csv_records RecordStart [] [] (if c = CHR 0x0D \<and> prefix [newline] cs then tl cs else cs)
      else if csv_next st c = FieldStart then csv_records FieldStart [] (fields @ [field]) cs
      else if csv_silent st (csv_next st c) then csv_records (csv_next st c) field fields cs
      else csv_records (csv_next st c) (field @ [c]) fields cs)"

definition csv_reader :: "string \<Rightarrow> string list list" where
  "csv_reader content = csv_records RecordStart [] [] content"

text \<open>
  The rows of \<open>csv.DictReader\<close> under the names of the first record; empty records are skipped. A record
  that is too short has \<open>None\<close> under the remaining names; the fields beyond the names are a list of their own.
\<close>

definition dict_rows :: "string \<Rightarrow> ((string, string option) dict \<times> string list) list" where
  "dict_rows content =
     (case csv_reader content of
        [] \<Rightarrow> []
      | header # records \<Rightarrow> map (\<lambda>record. (dict_of (zip header (map Some record @ replicate (length header) None)), drop (length header) record))
          (filter (\<lambda>record. record \<noteq> []) records))"

definition csv_special :: "char \<Rightarrow> bool" where
  "csv_special c \<longleftrightarrow> c = CHR '','' \<or> c = CHR 0x22 \<or> is_csv_break c"

definition csv_field :: "string \<Rightarrow> string" where
  "csv_field s =
     (if list_ex csv_special s
      then [CHR 0x22] @ concat (map (\<lambda>c. if c = CHR 0x22 then [c, c] else [c]) s) @ [CHR 0x22] else s)"

text \<open>The writer ends a record with carriage return and newline.\<close>

definition csv_line :: "string list \<Rightarrow> string" where
  "csv_line fields = join_with '','' (map csv_field fields) @ [CHR 0x0D, newline]"

definition csv_text :: "string list list \<Rightarrow> string" where
  "csv_text records = concat (map csv_line records)"

section \<open>Round trip\<close>

lemma csv_plain_run:
  assumes "list_all (\<lambda>c. \<not> csv_special c) s" and "st \<in> {RecordStart, FieldStart, InField}" and "s \<noteq> []"
  shows "csv_records st field fields (s @ rest) = csv_records InField (field @ s) fields rest"
  using assms
proof (induction s arbitrary: st field)
  case (Cons c s)
  then have c: "\<not> is_csv_break c" "csv_next st c = InField" by (auto simp: csv_special_def)
  then have one: "csv_records st field fields ((c # s) @ rest) = csv_records InField (field @ [c]) fields (s @ rest)"
    by (simp add: csv_silent_def)
  show ?case
  proof (cases "s = []")
    case False
    then show ?thesis using one Cons.IH [of InField "field @ [c]"] Cons.prems(1) by simp
  qed (use one in simp)
qed simp

lemma csv_quoted_run:
  "csv_records Quoted field fields (concat (map (\<lambda>c. if c = CHR 0x22 then [c, c] else [c]) s) @ rest)
    = csv_records Quoted (field @ s) fields rest"
  by (induction s arbitrary: field) (auto simp: csv_silent_def is_csv_break_def newline_def)

text \<open>After a printed field the reader has this field and is not at the start of a record.\<close>

lemma csv_field_run:
  assumes "st \<in> {RecordStart, FieldStart}"
  shows "\<exists>st'. csv_records st [] fields (csv_field s @ rest) = csv_records st' s fields rest
    \<and> st' \<noteq> Quoted \<and> (s \<noteq> [] \<or> st = FieldStart \<longrightarrow> st' \<noteq> RecordStart)"
proof (cases "list_ex csv_special s")
  case True
  have "csv_records st [] fields (csv_field s @ rest)
      = csv_records Quoted [] fields (concat (map (\<lambda>c. if c = CHR 0x22 then [c, c] else [c]) s) @ CHR 0x22 # rest)"
    using assms True by (auto simp: csv_field_def csv_silent_def is_csv_break_def newline_def)
  also have "\<dots> = csv_records QuoteInQuoted s fields rest"
    by (simp add: csv_quoted_run csv_silent_def is_csv_break_def)
  finally show ?thesis by (intro exI [of _ QuoteInQuoted]) simp
next
  case False
  then have "list_all (\<lambda>c. \<not> csv_special c) s" by (auto simp: list_all_iff list_ex_iff)
  with assms csv_plain_run [of s st "[]" fields rest] False show ?thesis
    by (cases "s = []") (auto simp: csv_field_def)
qed

lemma csv_records_comma:
  "st \<noteq> Quoted \<Longrightarrow> csv_records st field fields (CHR '','' # rest) = csv_records FieldStart [] (fields @ [field]) rest"
  by (cases st) (auto simp: is_csv_break_def newline_def)

lemma csv_records_end:
  "st \<noteq> Quoted \<Longrightarrow> st \<noteq> RecordStart \<Longrightarrow>
     csv_records st field fields (CHR 0x0D # newline # rest) = (fields @ [field]) # csv_records RecordStart [] [] rest"
  by (simp add: is_csv_break_def)

lemma csv_fields_run:
  assumes "fs \<noteq> []"
  shows "csv_records FieldStart [] fields (join_with '','' (map csv_field fs) @ CHR 0x0D # newline # rest)
    = (fields @ fs) # csv_records RecordStart [] [] rest"
  using assms
proof (induction fs arbitrary: fields)
  case (Cons f fs)
  show ?case
  proof (cases fs)
    case Nil
    then show ?thesis
      using csv_field_run [of FieldStart fields f "CHR 0x0D # newline # rest"] by (auto simp: csv_records_end simp del: csv_records.simps)
  next
    case (Cons g gs)
    let ?rest = "join_with '','' (map csv_field fs) @ CHR 0x0D # newline # rest"
    obtain st' where "csv_records FieldStart [] fields (csv_field f @ CHR '','' # ?rest) = csv_records st' f fields (CHR '','' # ?rest)"
      "st' \<noteq> Quoted" using csv_field_run [of FieldStart fields f "CHR '','' # ?rest"] by blast
    then show ?thesis using Cons.IH [of "fields @ [f]"] Cons by (simp add: csv_records_comma del: csv_records.simps)
  qed
qed simp

lemma csv_line_run:
  assumes "2 \<le> length fs"
  shows "csv_records RecordStart [] [] (csv_line fs @ rest) = fs # csv_records RecordStart [] [] rest"
proof -
  obtain f g gs where fs: "fs = f # g # gs" using assms by (auto simp: numeral_2_eq_2 Suc_le_length_iff)
  let ?rest = "join_with '','' (map csv_field (g # gs)) @ CHR 0x0D # newline # rest"
  obtain st' where "csv_records RecordStart [] [] (csv_field f @ CHR '','' # ?rest) = csv_records st' f [] (CHR '','' # ?rest)"
    "st' \<noteq> Quoted" using csv_field_run [of RecordStart "[]" f "CHR '','' # ?rest"] by blast
  then show ?thesis using csv_fields_run [of "g # gs" "[f]" rest] by (simp add: fs csv_line_def csv_records_comma del: csv_records.simps)
qed

lemma csv_reader_text: "list_all (\<lambda>fs. 2 \<le> length fs) records \<Longrightarrow> csv_reader (csv_text records) = records"
  unfolding csv_reader_def csv_text_def by (induction records) (simp_all add: csv_line_run del: csv_records.simps, simp)

lemma dict_rows_text:
  assumes "2 \<le> length header" and "distinct header" and "list_all (\<lambda>fs. length fs = length header) records"
  shows "dict_rows (csv_text (header # records)) = map (\<lambda>fs. (zip header (map Some fs), [])) records"
proof -
  have "csv_reader (csv_text (header # records)) = header # records"
    using assms by (intro csv_reader_text) (auto simp: list_all_iff)
  moreover have "filter (\<lambda>record. record \<noteq> []) records = records" using assms by (auto simp: filter_id_conv list_all_iff)
  moreover have "dict_of (zip header (map Some fs @ replicate (length header) None)) = zip header (map Some fs)"
    if "fs \<in> set records" for fs
    using that assms(2,3) by (simp add: list_all_iff zip_append2 dict_of_distinct)
  ultimately show ?thesis using assms(3) unfolding dict_rows_def by (simp add: list_all_iff)
qed

end
