(* ===== verification/ToolHelpers.thy ===== *)
theory ToolHelpers
  imports SwarmRuns PyCsv
begin

text \<open>
  The smaller programs around the experiments: the choice of the source file and the output of
  \<open>real/generate_placement.py\<close>, the image helper \<open>scripts/commit_cuda_bootstrap.py\<close>, the comparison run of
  \<open>scripts/diagnose_cuda_runtime.py\<close>, and the data behind the charts of \<open>scripts/plot_mlp_dp_scaleout.py\<close>,
  \<open>scripts/plot_mlp_physical_estimate.py\<close> and \<open>scripts/plot_mlp_machine_scaling_cn.py\<close> (the checks and series;
  drawing is third-party code). Commands give their output and exit code as parameters.
\<close>

section \<open>The source of a placement\<close>

record placement_arguments =
  pg_workload :: "string option"
  pg_source_yaml :: "string option"
  pg_workload_name :: "string option"
  pg_policy :: string
  pg_nodes :: nat

text \<open>\<open>Path(p).stem\<close>: the last component without its last suffix; a leading dot starts no suffix.\<close>

definition path_stem :: "string \<Rightarrow> string" where
  "path_stem p =
     (let name = path_name p; (stem, dotted, extension) = rpartition_at (CHR ''.'') name
      in if dotted \<and> stem \<noteq> [] \<and> extension \<noteq> [] then stem else name)"

definition local_source :: json where
  "local_source = JObj [(''repository'', JStr ''local single-stage source''), (''revision'', JStr ''workspace'')]"

definition choose_source ::
  "codec \<Rightarrow> (string \<Rightarrow> string) \<Rightarrow> string \<Rightarrow> json \<Rightarrow> placement_arguments \<Rightarrow> (string \<times> string \<times> json) res" where
  "choose_source cd resolve upstream_root manifest a =
     (if (pg_workload a \<noteq> None) = (pg_source_yaml a \<noteq> None) then Inl (ValueError ''provide exactly one of workload or --source-yaml'')
      else case (pg_source_yaml a, pg_workload a) of
        (Some p, _) \<Rightarrow>
          (let source_yaml = resolve p
           in Inr (source_yaml, (case pg_workload_name a of Some n \<Rightarrow> if n = [] then path_stem source_yaml else n | None \<Rightarrow> path_stem source_yaml),
                local_source))
      | (None, Some workload) \<Rightarrow>
          bindE (json_item manifest ''workloads'') (\<lambda>workloads.
          bindE (json_item workloads workload) (\<lambda>entry.
          bindE (json_item entry ''yaml'') (\<lambda>yaml.
          bindE (json_item manifest ''source'') (\<lambda>source.
            Inr (upstream_root @ ''/'' @ json_str cd yaml, workload, source)))))
      | (None, None) \<Rightarrow> Inl (ValueError ''provide exactly one of workload or --source-yaml''))"

record placement_output =
  po_yaml :: string
  po_source :: json
  po_placement :: placement

definition placement_main ::
  "codec \<Rightarrow> (string \<Rightarrow> string) \<Rightarrow> (string \<Rightarrow> (string, jobj list) dict res) \<Rightarrow> string \<Rightarrow> json \<Rightarrow> placement_arguments \<Rightarrow> placement_output res" where
  "placement_main cd resolve load upstream_root manifest a =
     bindE (choose_source cd resolve upstream_root manifest a) (\<lambda>(source_yaml, workload_name, source).
     bindE (load source_yaml) (\<lambda>config.
     bindE (generate_placement (pg_policy a) workload_name (pg_nodes a) config) (\<lambda>pm.
       Inr \<lparr>po_yaml = source_yaml, po_source = source, po_placement = pm\<rparr>)))"

section \<open>The CUDA image\<close>

text \<open>
  The image commands in the order in which the helper runs them, with their exit codes: the commit and
  the check of the compiler. The result of \<open>docker inspect\<close> is parsed JSON; \<open>Inl\<close> is the exception that ends
  the helper after the listed commands.
\<close>

definition commit_command :: "string \<Rightarrow> string \<Rightarrow> string list" where
  "commit_command container img = [''docker'', ''commit'', container, img]"

definition nvcc_command :: "string \<Rightarrow> string list" where
  "nvcc_command img = [''docker'', ''run'', ''--rm'', ''--entrypoint'', ''nvcc'', img, ''--version'']"

fun run_all :: "(string list \<Rightarrow> int) \<Rightarrow> string list list \<Rightarrow> string list list \<times> unit res" where
  "run_all code [] = ([], Inr ())"
| "run_all code (c # cs) =
     (if code c \<noteq> 0 then ([c], Inl (CalledProcessError c (code c)))
      else let (ran, r) = run_all code cs in (c # ran, r))"

definition container_state :: "json res \<Rightarrow> json res" where
  "container_state inspect =
     bindE inspect (\<lambda>j. case j of JList (first # _) \<Rightarrow> json_item first ''State'' | JList [] \<Rightarrow> Inl IndexError
       | _ \<Rightarrow> Inl (TypeError ''indices must be integers''))"

definition commit_bootstrap ::
  "codec \<Rightarrow> json res \<Rightarrow> (string list \<Rightarrow> int) \<Rightarrow> string \<Rightarrow> string \<Rightarrow> string list list \<times> unit res" where
  "commit_bootstrap cd inspect code container img =
     (case bindE (container_state inspect) (\<lambda>state.
             bindE (json_item state ''Running'') (\<lambda>running.
             if truthy running then Inl (RuntimeError (''container '' @ container @ '' is still running''))
             else bindE (json_item state ''ExitCode'') (\<lambda>exit_code.
               if as_int exit_code \<noteq> Some 0
               then Inl (RuntimeError (''container '' @ container @ '' exited with '' @ json_str cd exit_code @ ''; refusing to commit it''))
               else Inr ()))) of
        Inl e \<Rightarrow> ([], Inl e)
      | Inr _ \<Rightarrow> run_all code [commit_command container img, nvcc_command img])"

text \<open>The image is created only from a stopped container that ended with code zero.\<close>

lemma commit_needs_success:
  assumes "commit_command container img \<in> set (fst (commit_bootstrap cd inspect code container img))"
  shows "\<exists>state running exit_code. container_state inspect = Inr state \<and> json_item state ''Running'' = Inr running \<and> \<not> truthy running
    \<and> json_item state ''ExitCode'' = Inr exit_code \<and> as_int exit_code = Some 0"
  using assms by (fastforce simp: commit_bootstrap_def bindE_eq_Inr split: sum.splits if_splits)

section \<open>The comparison run\<close>

definition diagnose_command :: "string \<Rightarrow> string \<Rightarrow> int \<Rightarrow> int \<Rightarrow> string list" where
  "diagnose_command img yaml width flit_size =
     [''docker'', ''run'', ''--rm'', ''--entrypoint'', ''/usr/local/bin/legosim-run'', img, yaml, ''-w'', str_int width, ''-f'', str_int flit_size]"

text \<open>The written report and the exit status.\<close>

definition diagnose_runtime :: "string list \<Rightarrow> int \<times> string \<times> string \<Rightarrow> string \<times> int" where
  "diagnose_runtime command = (\<lambda>(return_code, out, err).
     (''command: '' @ join_with '' '' command @ [newline] @ ''exit_code: '' @ str_int return_code @ [newline, newline]
      @ ''--- stdout ---'' @ [newline] @ out @ [newline] @ ''--- stderr ---'' @ [newline] @ err, return_code))"

section \<open>Chart data\<close>

text \<open>The columns of the scale-out summary that the chart uses.\<close>

record scale_point =
  sc_nodes :: int
  sc_total_seconds :: rat
  sc_sync_percent :: rat

definition required_columns :: "string list" where
  "required_columns = [''cross_node_sync_overhead_percent'', ''nodes'', ''total_simulation_seconds'']"

definition chinese_fonts :: "string list" where
  "chinese_fonts = [''C:/Windows/Fonts/msyh.ttc'', ''/usr/share/fonts/truetype/droid/DroidSansFallbackFull.ttf'']"

record scale_chart =
  sh_machines :: "int list"
  sh_normalized :: "rat list"
  sh_overhead :: "rat list"
  sh_time_limit :: rat
  sh_overhead_limit :: rat

text \<open>The chart; the one-machine time is positive in every summary, so the quotients are defined.\<close>

definition scale_chart_of :: "(string \<Rightarrow> bool) \<Rightarrow> string list \<Rightarrow> scale_point list \<Rightarrow> scale_chart res" where
  "scale_chart_of is_file columns rows =
     (let data = sort_key sc_nodes rows; missing = filter (\<lambda>c. c \<notin> set columns) required_columns
      in if ''nodes'' \<notin> set columns then Inl (KeyError ''nodes'')
         else if missing \<noteq> []
         then Inl (ValueError (''Missing required CSV columns: ['' @ join_with '', '' (map (\<lambda>c. [CHR 0x27] @ c @ [CHR 0x27]) missing) @ '']''))
         else if data = [] \<or> sc_nodes (hd data) \<noteq> 1 then Inl (ValueError ''The CSV must contain the one-machine baseline row.'')
         else if find is_file chinese_fonts = None then Inl (FileNotFoundError (''No supported Chinese font found. Checked: '' @ join_with '', '' chinese_fonts))
         else if list_ex (\<lambda>p. sc_nodes p \<notin> {1, 2, 4, 8}) data then Inl (KeyError ''machine count'')
         else (let normalized = map (\<lambda>p. sc_total_seconds p / sc_total_seconds (hd data)) data; overhead = map sc_sync_percent data
               in Inr \<lparr>sh_machines = map sc_nodes data, sh_normalized = normalized, sh_overhead = overhead,
                    sh_time_limit = max (11 / 10) (Max (set normalized) + 12 / 100),
                    sh_overhead_limit = max 60 (Max (set overhead) + 8)\<rparr>))"

definition load_estimate :: "(int \<times> string) list \<Rightarrow> unit res" where
  "load_estimate rows =
     (if map fst rows \<noteq> [1, 2, 4, 8] then Inl (ValueError ''expected node sequence [1, 2, 4, 8]'')
      else if list_ex (\<lambda>(_, status). status \<noteq> ''model-estimate-not-measured'') rows
      then Inl (ValueError ''the input CSV must be explicitly labelled as a model estimate'') else Inr ())"

text \<open>The limits of the time axis of the machine-scaling chart.\<close>

definition time_axis_limits :: "rat list \<Rightarrow> rat \<times> rat" where
  "time_axis_limits total_time = (max 0 (Min (set total_time) * (85 / 100)), Max (set total_time) * (11 / 10))"

text \<open>Every point of the series lies inside the axes, and the baseline is one.\<close>

lemma scale_chart_fits:
  assumes "scale_chart_of is_file columns rows = Inr h" and "\<And>p. p \<in> set rows \<Longrightarrow> sc_total_seconds p > 0"
  shows "hd (sh_normalized h) = 1 \<and> list_all (\<lambda>x. 0 < x \<and> x < sh_time_limit h) (sh_normalized h)
    \<and> list_all (\<lambda>x. x < sh_overhead_limit h) (sh_overhead h) \<and> sorted (sh_machines h)"
proof -
  let ?data = "sort_key sc_nodes rows"
  let ?n = "map (\<lambda>p. sc_total_seconds p / sc_total_seconds (hd ?data)) ?data"
  have h: "?data \<noteq> []" "sh_normalized h = ?n" "sh_overhead h = map sc_sync_percent ?data" "sh_machines h = map sc_nodes ?data"
    "sh_time_limit h = max (11 / 10) (Max (set ?n) + 12 / 100)" "sh_overhead_limit h = max 60 (Max (set (map sc_sync_percent ?data)) + 8)"
    using assms(1) by (auto simp: scale_chart_of_def Let_def split: if_splits)
  have pos: "0 < sc_total_seconds p" if "p \<in> set ?data" for p using assms(2) that by simp
  then have "0 < sc_total_seconds (hd ?data)" using h(1) by (metis hd_in_set)
  then have "hd (sh_normalized h) = 1" "list_all (\<lambda>x. 0 < x) (sh_normalized h)"
    using h(1,2) pos by (simp_all add: hd_map list_all_iff)
  moreover have below: "x < max a (Max (set xs) + b)" if "x \<in> set xs" "0 < b" for x a b :: rat and xs
  proof -
    have "x \<le> Max (set xs)" using that(1) by simp
    then show ?thesis using that(2) by (simp add: less_max_iff_disj add_strict_increasing2)
  qed
  have "list_all (\<lambda>x. x < sh_time_limit h) (sh_normalized h)" "list_all (\<lambda>x. x < sh_overhead_limit h) (sh_overhead h)"
    unfolding h list_all_iff by (intro ballI below; simp)+
  ultimately show ?thesis by (auto simp: list_all_iff h(4))
qed

end
