(* ===== verification/Supervisor.thy ===== *)
theory Supervisor
  imports Topology
begin

text \<open>
  The worker supervisor (\<open>real/simbricks_worker_supervisor.py\<close>). The outside world (clock, file
  system, name service, exit status of started processes) is a sequence of snapshots, a new one for each
  look after a sleep or after the removal of a file; it is a parameter. A polling loop is \<open>poll_until\<close> with the
  loop's tests as its check. The program's own state is the record \<open>sup\<close>: the index of the
  current snapshot, the commands started so far (a process is its index in this list), the events
  in order, each start with its snapshot, and the three lists \<open>children\<close>, \<open>ready_paths\<close> and \<open>transport_processes\<close>.
  An action returns the new state and a value or an exception; \<open>None\<close> is a loop that never ends.
\<close>

section \<open>World, state and actions\<close>

record snapshot =
  sn_clock :: int
  sn_exists :: "string \<Rightarrow> bool"
  sn_poll :: "nat \<Rightarrow> int option"
  sn_resolve :: "string \<Rightarrow> string option"

type_synonym world = "nat \<Rightarrow> snapshot"

datatype sup_event = Start nat nat "string list" | Unlink string | Terminate nat | Kill nat

record sup =
  su_now :: nat
  su_commands :: nat
  su_events :: "sup_event list"
  su_children :: "nat list"
  su_ready_paths :: "(string \<times> nat) list"
  su_transport_processes :: "(string \<times> nat) list"

type_synonym 'a act = "sup \<Rightarrow> (sup \<times> 'a res) option"

definition init_sup :: sup where
  "init_sup = \<lparr>su_now = 0, su_commands = 0, su_events = [], su_children = [], su_ready_paths = [],
     su_transport_processes = []\<rparr>"

definition bindA :: "'a act \<Rightarrow> ('a \<Rightarrow> 'b act) \<Rightarrow> 'b act" where
  "bindA m f = (\<lambda>s. Option.bind (m s) (\<lambda>(s', r). case r of Inl e \<Rightarrow> Some (s', Inl e) | Inr x \<Rightarrow> f x s'))"

definition returnA :: "'a \<Rightarrow> 'a act" where
  "returnA x = (\<lambda>s. Some (s, Inr x))"

definition updateA :: "(sup \<Rightarrow> sup) \<Rightarrow> unit act" where
  "updateA f = (\<lambda>s. Some (f s, Inr ()))"

primrec forA :: "('a \<Rightarrow> unit act) \<Rightarrow> 'a list \<Rightarrow> unit act" where
  "forA f [] = returnA ()"
| "forA f (x # xs) = bindA (f x) (\<lambda>_. forA f xs)"

definition seconds :: "int \<Rightarrow> int" where
  "seconds n = n * 1000000000"

definition tick :: "sup \<Rightarrow> sup" where
  "tick s = s\<lparr>su_now := Suc (su_now s)\<rparr>"

text \<open>\<open>start\<close>: the new process is the next index.\<close>

definition start :: "string list \<Rightarrow> nat act" where
  "start command = (\<lambda>s. Some (s\<lparr>su_commands := Suc (su_commands s),
     su_events := su_events s @ [Start (su_now s) (su_commands s) command]\<rparr>, Inr (su_commands s)))"

section \<open>Polling loops\<close>

partial_function (option) poll_until :: "(nat \<Rightarrow> 'a res option) \<Rightarrow> nat \<Rightarrow> (nat \<times> 'a res) option" where
  "poll_until check i = (case check i of Some r \<Rightarrow> Some (i, r) | None \<Rightarrow> poll_until check (Suc i))"

definition polling :: "(int \<Rightarrow> nat \<Rightarrow> 'a res option) \<Rightarrow> world \<Rightarrow> int \<Rightarrow> 'a act" where
  "polling check w timeout = (\<lambda>s.
     map_option (\<lambda>(i, r). (s\<lparr>su_now := i\<rparr>, r))
       (poll_until (check (sn_clock (w (su_now s)) + seconds timeout)) (su_now s)))"

definition path_check :: "world \<Rightarrow> string \<Rightarrow> nat \<Rightarrow> int \<Rightarrow> nat \<Rightarrow> unit res option" where
  "path_check w path process deadline i =
     (if sn_exists (w i) path then Some (Inr ())
      else case sn_poll (w i) process of
        Some rc \<Rightarrow> Some (Inl (RuntimeError (''transport process exited before creating '' @ path @ '': '' @ str_int rc)))
      | None \<Rightarrow>
          if deadline \<le> sn_clock (w i)
          then Some (Inl (RuntimeError (''transport process did not create '' @ path @ '' within 60 seconds'')))
          else None)"

definition wait_for_path :: "world \<Rightarrow> string \<Rightarrow> nat \<Rightarrow> unit act" where
  "wait_for_path w path process = polling (path_check w path process) w 60"

definition exited :: "snapshot \<Rightarrow> ('a \<times> nat) list \<Rightarrow> ('a \<times> int) option" where
  "exited sn processes = (case find (\<lambda>(_, p). sn_poll sn p \<noteq> None) processes of
     None \<Rightarrow> None | Some (d, p) \<Rightarrow> Some (d, the (sn_poll sn p)))"

definition ready_check :: "world \<Rightarrow> (string \<times> nat) list \<Rightarrow> int \<Rightarrow> int \<Rightarrow> nat \<Rightarrow> unit res option" where
  "ready_check w paths timeout_seconds deadline i =
     (if list_all (\<lambda>(path, _). sn_exists (w i) path) paths then Some (Inr ())
      else case exited (w i) paths of
        Some (path, rc) \<Rightarrow> Some (Inl (RuntimeError
          (''gateway exited before BaseIf became ready ('' @ path @ ''): '' @ str_int rc)))
      | None \<Rightarrow>
          if deadline \<le> sn_clock (w i)
          then Some (Inl (RuntimeError (''BaseIf handshakes did not become ready within ''
                 @ str_int timeout_seconds @ '' seconds: ''
                 @ join_with '', '' (map fst (filter (\<lambda>(path, _). \<not> sn_exists (w i) path) paths)))))
          else None)"

definition wait_for_ready :: "world \<Rightarrow> (string \<times> nat) list \<Rightarrow> int \<Rightarrow> unit act" where
  "wait_for_ready w paths timeout_seconds = polling (ready_check w paths timeout_seconds) w timeout_seconds"

definition stable_check :: "world \<Rightarrow> (string \<times> nat) list \<Rightarrow> int \<Rightarrow> nat \<Rightarrow> unit res option" where
  "stable_check w processes deadline i =
     (if \<not> sn_clock (w i) < deadline then Some (Inr ())
      else case exited (w i) processes of
        Some (description, rc) \<Rightarrow> Some (Inl (RuntimeError
          (''transport exited after BaseIf became ready ('' @ description @ ''): '' @ str_int rc)))
      | None \<Rightarrow> None)"

definition wait_for_stable :: "world \<Rightarrow> (string \<times> nat) list \<Rightarrow> int \<Rightarrow> unit act" where
  "wait_for_stable w processes timeout_seconds = polling (stable_check w processes) w timeout_seconds"

definition resolve_check :: "world \<Rightarrow> string \<Rightarrow> int \<Rightarrow> nat \<Rightarrow> string res option" where
  "resolve_check w service_name deadline i =
     (if \<not> sn_clock (w i) < deadline
      then Some (Inl (RuntimeError (''could not resolve '' @ service_name @ '' within 60 seconds'')))
      else map_option Inr (sn_resolve (w i) service_name))"

definition resolve_transport_service :: "world \<Rightarrow> string \<Rightarrow> string act" where
  "resolve_transport_service w service_name = polling (resolve_check w service_name) w 60"

text \<open>After the removal the program looks again: a stale socket no longer counts as created.\<close>

definition unlink_existing :: "world \<Rightarrow> string \<Rightarrow> sup \<Rightarrow> sup" where
  "unlink_existing w path s =
     (if sn_exists (w (su_now s)) path then (tick s)\<lparr>su_events := su_events s @ [Unlink path]\<rparr> else s)"

text \<open>The loop of \<open>start_connector_with_retry\<close>; the two sleeps each lead to a new snapshot.\<close>

partial_function (option) connector_loop ::
  "world \<Rightarrow> string list \<Rightarrow> string \<Rightarrow> int \<Rightarrow> int \<Rightarrow> int option \<Rightarrow> nat act" where
  "connector_loop w command socket_path timeout_seconds deadline last_return_code s =
     (if sn_clock (w (su_now s)) < deadline
      then Option.bind (start command (unlink_existing w socket_path s)) (\<lambda>(s2, r2).
        case r2 of Inl e \<Rightarrow> Some (s2, Inl e) | Inr connector \<Rightarrow>
        Option.bind (wait_for_path w socket_path connector s2) (\<lambda>(s3, r3).
        case r3 of Inl e \<Rightarrow> Some (s3, Inl e) | Inr _ \<Rightarrow>
          (case sn_poll (w (su_now (tick s3))) connector of
             None \<Rightarrow> Some (tick s3, Inr connector)
           | Some rc \<Rightarrow>
               connector_loop w command socket_path timeout_seconds deadline (Some rc)
                 (tick (unlink_existing w socket_path (tick s3))))))
      else Some (s, Inl (RuntimeError (''connector could not reach listener within ''
             @ str_int timeout_seconds @ '' seconds: ''
             @ (case last_return_code of None \<Rightarrow> ''None'' | Some rc \<Rightarrow> str_int rc)))))"

definition start_connector_with_retry :: "world \<Rightarrow> string list \<Rightarrow> string \<Rightarrow> int \<Rightarrow> nat act" where
  "start_connector_with_retry w command socket_path timeout_seconds = (\<lambda>s.
     connector_loop w command socket_path timeout_seconds
       (sn_clock (w (su_now s)) + seconds timeout_seconds) None s)"

section \<open>The main program\<close>

definition run_path :: "string \<Rightarrow> nat \<Rightarrow> string \<Rightarrow> string" where
  "run_path stem peer extension = ''/run/simbricks/'' @ stem @ show_nat peer @ extension"

definition gateway_command :: "bool \<Rightarrow> nat \<Rightarrow> int \<Rightarrow> string list" where
  "gateway_command connects peer gateway_port =
     [''/usr/local/bin/simbricks-pipe-gateway''] @ (if connects then [''--connect''] else [])
     @ [''--ready-file'', run_path ''gateway-'' peer ''.ready'', run_path ''base-'' peer ''.sock'',
        run_path ''gateway-'' peer ''.pool'', str_int gateway_port]"

definition listener_command :: "nat \<Rightarrow> int \<Rightarrow> string list" where
  "listener_command peer tcp_port =
     [''/opt/simbricks/dist/sockets/net_sockets'', ''-l'', ''-C'', run_path ''base-'' peer ''.sock'', ''-s'',
      run_path ''net-'' peer ''.pool'', ''-S'', ''32'', ''0.0.0.0'', str_int tcp_port,
      run_path ''listen-'' peer ''.info'', run_path ''listen-'' peer ''.ready'']"

definition connector_command :: "nat \<Rightarrow> string \<Rightarrow> int \<Rightarrow> string list" where
  "connector_command peer peer_ip tcp_port =
     [''/opt/simbricks/dist/sockets/net_sockets'', ''-L'', run_path ''base-'' peer ''.sock'', ''-s'',
      run_path ''net-'' peer ''.pool'', ''-S'', ''32'', peer_ip, str_int tcp_port,
      run_path ''listen-'' peer ''.info'', run_path ''listen-'' peer ''.ready'']"

definition add_child :: "nat \<Rightarrow> unit act" where
  "add_child p = updateA (\<lambda>s. s\<lparr>su_children := su_children s @ [p]\<rparr>)"

definition add_ready :: "string \<Rightarrow> nat \<Rightarrow> unit act" where
  "add_ready path p = updateA (\<lambda>s. s\<lparr>su_ready_paths := su_ready_paths s @ [(path, p)]\<rparr>)"

definition add_transport :: "string \<Rightarrow> nat \<Rightarrow> unit act" where
  "add_transport description p =
     updateA (\<lambda>s. s\<lparr>su_transport_processes := su_transport_processes s @ [(description, p)]\<rparr>)"

definition local_channels :: "nat \<Rightarrow> channel list \<Rightarrow> channel list" where
  "local_channels slot channels =
     filter (\<lambda>channel. slot \<in> {ch_listener_slot channel, ch_connector_slot channel}) channels"

definition start_listener_edge :: "world \<Rightarrow> nat \<Rightarrow> int \<Rightarrow> channel \<Rightarrow> unit act" where
  "start_listener_edge w slot gateway_base_port channel =
     (if slot \<noteq> ch_listener_slot channel then returnA ()
      else let peer = ch_connector_slot channel
        in bindA (start (gateway_command False peer (gateway_base_port + int peer))) (\<lambda>gateway.
           bindA (add_child gateway) (\<lambda>_.
           bindA (add_ready (run_path ''gateway-'' peer ''.ready'') gateway) (\<lambda>_.
           bindA (wait_for_path w (run_path ''base-'' peer ''.sock'') gateway) (\<lambda>_.
           bindA (start (listener_command peer (ch_tcp_port channel))) (\<lambda>net.
           bindA (add_child net) (\<lambda>_.
           add_transport (''listener-'' @ show_nat slot @ ''-'' @ show_nat peer) net)))))))"

definition start_connector_edge :: "world \<Rightarrow> nat \<Rightarrow> int \<Rightarrow> int \<Rightarrow> channel \<Rightarrow> unit act" where
  "start_connector_edge w slot gateway_base_port connector_timeout_seconds channel =
     (if slot \<noteq> ch_connector_slot channel then returnA ()
      else let peer = ch_listener_slot channel
        in bindA (resolve_transport_service w (''transport-'' @ show_nat peer)) (\<lambda>peer_ip.
           bindA (start_connector_with_retry w (connector_command peer peer_ip (ch_tcp_port channel))
                    (run_path ''base-'' peer ''.sock'') connector_timeout_seconds) (\<lambda>net.
           bindA (add_child net) (\<lambda>_.
           bindA (add_transport (''connector-'' @ show_nat slot @ ''-'' @ show_nat peer) net) (\<lambda>_.
           bindA (start (gateway_command True peer (gateway_base_port + int peer))) (\<lambda>gateway.
           bindA (add_child gateway) (\<lambda>_.
           add_ready (run_path ''gateway-'' peer ''.ready'') gateway)))))))"

record sup_arguments =
  sa_slot :: nat
  sa_routing :: string
  sa_worker_port :: int
  sa_router_port :: int
  sa_gateway_base_port :: int
  sa_ready_timeout :: int
  sa_connector_timeout :: int
  sa_stability_timeout :: int

text \<open>The timeouts are read from the environment; each must be positive.\<close>

definition env_timeout :: "(string, string) dict \<Rightarrow> string \<Rightarrow> int \<Rightarrow> int res" where
  "env_timeout environ name otherwise =
     (case map_of environ name of None \<Rightarrow> Inr otherwise | Some text \<Rightarrow> int_text text)"

definition read_timeouts :: "(string, string) dict \<Rightarrow> (int \<times> int \<times> int) res" where
  "read_timeouts environ =
     bindE (env_timeout environ ''LEGOSIM_BASEIF_READY_TIMEOUT_SECONDS'' 90) (\<lambda>ready.
     bindE (env_timeout environ ''LEGOSIM_BASEIF_CONNECT_TIMEOUT_SECONDS'' 60) (\<lambda>connector.
     bindE (env_timeout environ ''LEGOSIM_BASEIF_STABILITY_TIMEOUT_SECONDS'' 5) (\<lambda>stability.
     if ready < 1 then Inl (ValueError ''LEGOSIM_BASEIF_READY_TIMEOUT_SECONDS must be positive'')
     else if connector < 1 then Inl (ValueError ''LEGOSIM_BASEIF_CONNECT_TIMEOUT_SECONDS must be positive'')
     else if stability < 1 then Inl (ValueError ''LEGOSIM_BASEIF_STABILITY_TIMEOUT_SECONDS must be positive'')
     else Inr (ready, connector, stability))))"

definition router_command :: "sup_arguments \<Rightarrow> string list" where
  "router_command a = [''python3'', ''/opt/chipsystemsim-distributed/simbricks_pipe_router.py'', ''--slot'',
     show_nat (sa_slot a), ''--routing'', sa_routing a, ''--port'', str_int (sa_router_port a)]"

definition worker_command :: "sup_arguments \<Rightarrow> string list" where
  "worker_command a = [''python3'', ''/opt/chipsystemsim-distributed/worker.py'', ''--port'', str_int (sa_worker_port a)]"

text \<open>The \<open>try\<close> block up to the start of the worker.\<close>

definition startup :: "world \<Rightarrow> sup_arguments \<Rightarrow> topology \<Rightarrow> nat act" where
  "startup w a topology =
     (let channels = local_channels (sa_slot a) (tp_channels topology)
      in bindA (forA (start_listener_edge w (sa_slot a) (sa_gateway_base_port a)) channels) (\<lambda>_.
         bindA (updateA tick) (\<lambda>_.
         bindA (forA (start_connector_edge w (sa_slot a) (sa_gateway_base_port a) (sa_connector_timeout a)) channels) (\<lambda>_.
         bindA (\<lambda>s. wait_for_ready w (su_ready_paths s) (sa_ready_timeout a) s) (\<lambda>_.
         bindA (\<lambda>s. wait_for_stable w (su_transport_processes s) (sa_stability_timeout a) s) (\<lambda>_.
         bindA (start (router_command a)) (\<lambda>router.
         bindA (add_child router) (\<lambda>_.
         bindA (start (worker_command a)) (\<lambda>worker.
         bindA (add_child worker) (\<lambda>_. returnA worker))))))))))"

definition monitor_check :: "world \<Rightarrow> (string \<times> nat) list \<Rightarrow> nat \<Rightarrow> int \<Rightarrow> nat \<Rightarrow> unit res option" where
  "monitor_check w transport_processes worker deadline i =
     (case sn_poll (w i) worker of
        Some rc \<Rightarrow> Some (Inl (SystemExit (str_int rc)))
      | None \<Rightarrow> (case exited (w i) transport_processes of
           Some (description, rc) \<Rightarrow> Some (Inl (RuntimeError
             (''transport exited while worker was running ('' @ description @ ''): '' @ str_int rc)))
         | None \<Rightarrow> None))"

definition monitor :: "world \<Rightarrow> nat \<Rightarrow> unit act" where
  "monitor w worker = (\<lambda>s. polling (monitor_check w (su_transport_processes s) worker) w 0 s)"

text \<open>The \<open>finally\<close> block; one snapshot for each bounded \<open>wait\<close>.\<close>

definition terminate_running :: "world \<Rightarrow> sup \<Rightarrow> sup" where
  "terminate_running w s = s\<lparr>su_events := su_events s @
     map Terminate (filter (\<lambda>child. sn_poll (w (su_now s)) child = None) (rev (su_children s)))\<rparr>"

definition wait_or_kill :: "world \<Rightarrow> nat \<Rightarrow> sup \<Rightarrow> sup" where
  "wait_or_kill w child s =
     (let t = tick s
      in if sn_poll (w (su_now t)) child = None then t\<lparr>su_events := su_events t @ [Kill child]\<rparr> else t)"

definition cleanup :: "world \<Rightarrow> sup \<Rightarrow> sup" where
  "cleanup w s = fold (wait_or_kill w) (rev (su_children s)) (terminate_running w s)"

definition supervise :: "world \<Rightarrow> sup_arguments \<Rightarrow> topology \<Rightarrow> unit act" where
  "supervise w a topology = (\<lambda>s.
     map_option (\<lambda>(s', r). (cleanup w s', r))
       (bindA (startup w a topology) (monitor w) s))"

section \<open>Polling\<close>

lemma poll_until_here: "check i = Some r \<Longrightarrow> poll_until check i = Some (i, r)"
  by (simp add: poll_until.simps)

lemma poll_until_later: "check i = None \<Longrightarrow> poll_until check i = poll_until check (Suc i)"
  by (subst poll_until.simps) simp

lemma poll_until_first:
  assumes "check (i + n) = Some r" and "\<And>k. k < n \<Longrightarrow> check (i + k) = None"
  shows "poll_until check i = Some (i + n, r)"
  using assms
proof (induction n arbitrary: i)
  case (Suc n)
  from Suc.prems(2) [of 0] have "poll_until check i = poll_until check (Suc i)"
    by (simp add: poll_until_later)
  also have "\<dots> = Some (Suc i + n, r)"
    using Suc.prems(1) Suc.prems(2) [of "Suc _"] by (intro Suc.IH) auto
  finally show ?case by simp
qed (simp add: poll_until_here)

lemma poll_until_total:
  assumes "i \<le> j" and "check j \<noteq> None"
  shows "\<exists>k r. poll_until check i = Some (k, r) \<and> i \<le> k \<and> k \<le> j \<and> check k = Some r"
proof -
  have ex: "\<exists>n. check (i + n) \<noteq> None" using assms by (metis le_add_diff_inverse)
  define n where "n = (LEAST n. check (i + n) \<noteq> None)"
  obtain r where r: "check (i + n) = Some r" using LeastI_ex [OF ex] by (auto simp: n_def)
  have "check (i + k) = None" if "k < n" for k
    using that not_less_Least [of k "\<lambda>n. check (i + n) \<noteq> None"] by (simp add: n_def)
  moreover have "n \<le> j - i" unfolding n_def using assms by (intro Least_le) simp
  ultimately show ?thesis using poll_until_first [of check i n r] r assms(1) by auto
qed

lemma poll_until_result:
  assumes "poll_until check i = Some m"
  shows "i \<le> fst m \<and> check (fst m) = Some (snd m) \<and> (\<forall>k. i \<le> k \<and> k < fst m \<longrightarrow> check k = None)"
proof (rule poll_until.raw_induct [OF _ assms])
  fix loop :: "(nat \<Rightarrow> 'a res option) \<Rightarrow> nat \<Rightarrow> (nat \<times> 'a res) option" and check i m
  assume ih: "\<And>check i m. loop check i = Some m \<Longrightarrow> i \<le> fst m \<and> check (fst m) = Some (snd m)
      \<and> (\<forall>k. i \<le> k \<and> k < fst m \<longrightarrow> check k = None)"
    and body: "(case check i of None \<Rightarrow> loop check (Suc i) | Some r \<Rightarrow> Some (i, r)) = Some m"
  show "i \<le> fst m \<and> check (fst m) = Some (snd m) \<and> (\<forall>k. i \<le> k \<and> k < fst m \<longrightarrow> check k = None)"
  proof (cases "check i")
    case None
    with body have "loop check (Suc i) = Some m" by simp
    from ih [OF this] None show ?thesis by (auto simp: Suc_le_eq) (metis le_neq_implies_less)
  qed (use body in auto)
qed

lemma poll_until_Some:
  "poll_until check i = Some (j, r) \<Longrightarrow>
     i \<le> j \<and> check j = Some r \<and> (\<forall>k. i \<le> k \<and> k < j \<longrightarrow> check k = None)"
  using poll_until_result by fastforce

text \<open>A clock that never goes back and passes every bound: all waits end.\<close>

definition clock_advances :: "world \<Rightarrow> bool" where
  "clock_advances w \<longleftrightarrow> (\<forall>i. sn_clock (w i) \<le> sn_clock (w (Suc i))) \<and> (\<forall>t. \<exists>i. t \<le> sn_clock (w i))"

lemma clock_mono: "clock_advances w \<Longrightarrow> i \<le> j \<Longrightarrow> sn_clock (w i) \<le> sn_clock (w j)"
  by (rule lift_Suc_mono_le [of "\<lambda>i. sn_clock (w i)"]) (auto simp: clock_advances_def)

lemma clock_reaches: "clock_advances w \<Longrightarrow> \<exists>j \<ge> i. t \<le> sn_clock (w j)"
  by (metis clock_advances_def clock_mono linorder_le_cases order_trans)

lemma polling_returns:
  assumes "clock_advances w" and "\<And>deadline i. deadline \<le> sn_clock (w i) \<Longrightarrow> check deadline i \<noteq> None"
  shows "\<exists>j r. polling check w timeout s = Some (s\<lparr>su_now := j\<rparr>, r) \<and> su_now s \<le> j"
proof -
  let ?d = "sn_clock (w (su_now s)) + seconds timeout"
  obtain j where "su_now s \<le> j" "?d \<le> sn_clock (w j)" using clock_reaches [OF assms(1)] by blast
  with poll_until_total [of "su_now s" j "check ?d"] assms(2) show ?thesis
    by (force simp: polling_def)
qed

lemma polling_Some:
  assumes "polling check w timeout s = Some (t, r)"
  shows "t = s\<lparr>su_now := su_now t\<rparr> \<and> su_now s \<le> su_now t
    \<and> check (sn_clock (w (su_now s)) + seconds timeout) (su_now t) = Some r
    \<and> (\<forall>k. su_now s \<le> k \<and> k < su_now t \<longrightarrow> check (sn_clock (w (su_now s)) + seconds timeout) k = None)"
  using assms poll_until_Some by (fastforce simp: polling_def)

lemma waits_return:
  assumes "clock_advances w"
  shows "\<exists>j r. wait_for_path w path p s = Some (s\<lparr>su_now := j\<rparr>, r) \<and> su_now s \<le> j"
    and "\<exists>j r. wait_for_ready w paths k s = Some (s\<lparr>su_now := j\<rparr>, r) \<and> su_now s \<le> j"
    and "\<exists>j r. wait_for_stable w processes k s = Some (s\<lparr>su_now := j\<rparr>, r) \<and> su_now s \<le> j"
    and "\<exists>j r. resolve_transport_service w name s = Some (s\<lparr>su_now := j\<rparr>, r) \<and> su_now s \<le> j"
  unfolding wait_for_path_def wait_for_ready_def wait_for_stable_def resolve_transport_service_def
  by (rule polling_returns [OF assms]; simp add: path_check_def ready_check_def stable_check_def
      resolve_check_def split: option.splits)+

section \<open>What an action adds\<close>

text \<open>
  \<open>grows Q s t\<close>: from \<open>s\<close> to \<open>t\<close> only events that satisfy \<open>Q\<close> were appended and time did not go
  back; \<open>same_lists\<close>: the three process lists are unchanged.
\<close>

definition grows :: "(sup_event \<Rightarrow> bool) \<Rightarrow> sup \<Rightarrow> sup \<Rightarrow> bool" where
  "grows Q s t \<longleftrightarrow> su_now s \<le> su_now t \<and> (\<exists>es. su_events t = su_events s @ es \<and> list_all Q es)"

definition same_lists :: "sup \<Rightarrow> sup \<Rightarrow> bool" where
  "same_lists s t \<longleftrightarrow> su_children t = su_children s \<and> su_ready_paths t = su_ready_paths s
     \<and> su_transport_processes t = su_transport_processes s"

definition adds :: "(sup_event \<Rightarrow> bool) \<Rightarrow> sup \<Rightarrow> sup \<Rightarrow> bool" where
  "adds Q s t \<longleftrightarrow> grows Q s t \<and> same_lists s t"

lemma grows_refl [simp]: "grows Q s s"
  by (simp add: grows_def)

lemma grows_trans [trans]: "grows Q s t \<Longrightarrow> grows Q t u \<Longrightarrow> grows Q s u"
  unfolding grows_def by (metis append.assoc list_all_append order_trans)

lemma adds_refl [simp]: "adds Q s s"
  by (simp add: adds_def same_lists_def)

lemma adds_trans [trans]: "adds Q s t \<Longrightarrow> adds Q t u \<Longrightarrow> adds Q s u"
  by (auto simp: adds_def same_lists_def intro: grows_trans)

lemma adds_now: "su_now s \<le> j \<Longrightarrow> adds Q s (s\<lparr>su_now := j\<rparr>)"
  by (simp add: adds_def grows_def same_lists_def)

lemma polling_adds: "polling check w timeout s = Some (t, r) \<Longrightarrow> adds Q s t"
  using polling_Some [of check w timeout s t r] adds_now [of s "su_now t" Q] by simp

lemmas sup_defs = start_def tick_def unlink_existing_def updateA_def returnA_def add_child_def add_ready_def
  add_transport_def

lemma bindA_Some:
  "bindA m f s = Some (t, Inr y) \<longleftrightarrow> (\<exists>s' x. m s = Some (s', Inr x) \<and> f x s' = Some (t, Inr y))"
proof (cases "m s")
  case (Some p)
  then show ?thesis by (cases p, cases "snd p") (auto simp: bindA_def)
qed (simp add: bindA_def)

lemma bindA_total:
  assumes "\<exists>t r. m s = Some (t, r)" and "\<And>x t. m s = Some (t, Inr x) \<Longrightarrow> \<exists>u r. f x t = Some (u, r)"
  shows "\<exists>u r. bindA m f s = Some (u, r)"
proof -
  from assms(1) obtain t r where "m s = Some (t, r)" by blast
  with assms(2) show ?thesis by (cases r) (auto simp: bindA_def)
qed

lemma adds_tick: "adds Q s (tick s)"
  by (simp add: tick_def adds_now)

lemma adds_unlink: "Q (Unlink path) \<Longrightarrow> adds Q s (unlink_existing w path s)"
  by (auto simp: unlink_existing_def tick_def adds_def grows_def same_lists_def)

lemma adds_start: "(\<And>i p. Q (Start i p command)) \<Longrightarrow> adds Q s (fst (the (start command s)))"
  by (simp add: start_def adds_def grows_def same_lists_def)

section \<open>The connector loop\<close>

lemma connector_loop_frame:
  assumes "connector_loop w command path timeout deadline rc s = Some (t, r)"
  shows "adds (\<lambda>e. (\<exists>i p. e = Start i p command) \<or> e = Unlink path) s t"
proof -
  have "adds (\<lambda>e. (\<exists>i p. e = Start i p command) \<or> e = Unlink path) s (fst m)"
    if "connector_loop w command path timeout deadline rc s = Some m" for m
  proof (rule connector_loop.raw_induct [OF _ that])
    fix loop w command path timeout deadline rc s and m :: "sup \<times> nat res"
    let ?Q = "\<lambda>e. (\<exists>i p. e = Start i p command) \<or> e = Unlink path"
    assume ih: "\<And>w command path timeout deadline rc s m. loop w command path timeout deadline rc s = Some m \<Longrightarrow>
        adds (\<lambda>e. (\<exists>i p. e = Start i p command) \<or> e = Unlink path) s (fst m)"
      and body: "(if sn_clock (w (su_now s)) < deadline
         then Option.bind (start command (unlink_existing w path s)) (\<lambda>(s2, r2).
           case r2 of Inl e \<Rightarrow> Some (s2, Inl e) | Inr connector \<Rightarrow>
           Option.bind (wait_for_path w path connector s2) (\<lambda>(s3, r3).
           case r3 of Inl e \<Rightarrow> Some (s3, Inl e) | Inr _ \<Rightarrow>
             (case sn_poll (w (su_now (tick s3))) connector of
                None \<Rightarrow> Some (tick s3, Inr connector)
              | Some rc \<Rightarrow> loop w command path timeout deadline (Some rc)
                    (tick (unlink_existing w path (tick s3))))))
         else Some (s, Inl (RuntimeError (''connector could not reach listener within ''
             @ str_int timeout @ '' seconds: ''
             @ (case rc of None \<Rightarrow> ''None'' | Some rc \<Rightarrow> str_int rc))))) = Some m"
    note steps = adds_tick [of ?Q] adds_unlink [of ?Q path]
    obtain s2 where s2: "start command (unlink_existing w path s) = Some (s2, Inr (su_commands (unlink_existing w path s)))"
      "adds ?Q s s2"
      using adds_trans [OF adds_unlink [of ?Q path s w] adds_start [of ?Q command]] by (auto simp: start_def)
    show "adds ?Q s (fst m)"
    proof (cases "sn_clock (w (su_now s)) < deadline")
      case True
      with body s2 obtain s3 r3 where s3: "wait_for_path w path (su_commands (unlink_existing w path s)) s2 = Some (s3, r3)"
        by (cases "wait_for_path w path (su_commands (unlink_existing w path s)) s2") auto
      have a3: "adds ?Q s s3"
        using s2(2) polling_adds [OF s3 [unfolded wait_for_path_def], of ?Q] by (rule adds_trans)
      show ?thesis
      proof (cases r3)
        case (Inr u)
        show ?thesis
        proof (cases "sn_poll (w (su_now (tick s3))) (su_commands (unlink_existing w path s))")
          case None
          with True body s2 s3 Inr have "fst m = tick s3" by auto
          with a3 steps(1) show ?thesis by (auto intro: adds_trans)
        next
          case (Some rc')
          with True body s2 s3 Inr
          have "loop w command path timeout deadline (Some rc') (tick (unlink_existing w path (tick s3))) = Some m" by simp
          from ih [OF this] a3 steps show ?thesis by (meson adds_trans)
        qed
      qed (use True body s2 s3 a3 in auto)
    qed (use body in auto)
  qed
  from this [OF assms] show ?thesis by simp
qed

lemma connector_loop_total:
  assumes adv: "clock_advances w"
  shows "\<exists>t r. connector_loop w command path timeout deadline rc s = Some (t, r)"
proof -
  obtain N where N: "deadline \<le> sn_clock (w N)" using clock_reaches [OF adv] by blast
  show ?thesis
  proof (induction "N - su_now s" arbitrary: s rc rule: less_induct)
    case less
    show ?case
    proof (cases "sn_clock (w (su_now s)) < deadline")
      case True
      then have now: "su_now s < N" using N clock_mono [OF adv, of N "su_now s"] by (meson leD le_less_trans not_le_imp_less)
      let ?u = "unlink_existing w path s"
      define s2 where "s2 = ?u\<lparr>su_commands := Suc (su_commands ?u), su_events := su_events ?u @ [Start (su_now ?u) (su_commands ?u) command]\<rparr>"
      obtain j r3 where s3: "wait_for_path w path (su_commands ?u) s2 = Some (s2\<lparr>su_now := j\<rparr>, r3)" and j: "su_now s2 \<le> j"
        using waits_return(1) [OF adv] by blast
      have "su_now s \<le> su_now s2" by (simp add: s2_def unlink_existing_def tick_def)
      then have "N - su_now (tick (unlink_existing w path (tick (s2\<lparr>su_now := j\<rparr>)))) < N - su_now s"
        using now j by (auto simp: tick_def unlink_existing_def)
      from less [OF this] s3 True show ?thesis
        by (subst connector_loop.simps) (auto simp: start_def s2_def split: sum.splits option.splits)
    qed (subst connector_loop.simps, simp)
  qed
qed

section \<open>Edges\<close>

lemma polling_lists:
  assumes "polling check w timeout s = Some (t, r)"
  shows "su_events t = su_events s \<and> su_children t = su_children s \<and> su_ready_paths t = su_ready_paths s
    \<and> su_transport_processes t = su_transport_processes s"
  using polling_Some [OF assms] by (metis sup.select_convs sup.surjective sup.update_convs(1))

lemma start_listener_edge_Inr:
  assumes "start_listener_edge w slot base channel s = Some (t, Inr u)"
    and "slot = ch_listener_slot channel" and "peer = ch_connector_slot channel"
  shows "\<exists>i j p q. su_events t = su_events s @ [Start i p (gateway_command False peer (base + int peer)),
      Start j q (listener_command peer (ch_tcp_port channel))]
    \<and> su_ready_paths t = su_ready_paths s @ [(run_path ''gateway-'' peer ''.ready'', p)]
    \<and> su_transport_processes t = su_transport_processes s @ [(''listener-'' @ show_nat slot @ ''-'' @ show_nat peer, q)]"
  using assms
  by (auto simp: start_listener_edge_def bindA_Some sup_defs wait_for_path_def Let_def dest!: polling_lists)

definition is_connector_event :: "nat \<Rightarrow> int \<Rightarrow> sup_event \<Rightarrow> bool" where
  "is_connector_event peer port e \<longleftrightarrow>
     (\<exists>i p ip. e = Start i p (connector_command peer ip port)) \<or> (\<exists>path. e = Unlink path)"

lemma start_connector_with_retry_Inr:
  assumes "start_connector_with_retry w (connector_command peer ip port) path timeout s = Some (t, r)"
  shows "(\<exists>es. su_events t = su_events s @ es \<and> list_all (is_connector_event peer port) es)
    \<and> su_ready_paths t = su_ready_paths s \<and> su_transport_processes t = su_transport_processes s"
proof -
  have "list_all (is_connector_event peer port) es"
    if "list_all (\<lambda>e. (\<exists>i p. e = Start i p (connector_command peer ip port)) \<or> e = Unlink path) es" for es
    using that unfolding list_all_iff is_connector_event_def by blast
  with connector_loop_frame [OF assms [unfolded start_connector_with_retry_def]] show ?thesis
    by (auto simp: adds_def grows_def same_lists_def)
qed

lemma start_connector_edge_Inr:
  assumes "start_connector_edge w slot base timeout channel s = Some (t, Inr u)"
    and "slot = ch_connector_slot channel" and "peer = ch_listener_slot channel"
  shows "\<exists>es i p q. su_events t = su_events s @ es @ [Start i p (gateway_command True peer (base + int peer))]
    \<and> list_all (is_connector_event peer (ch_tcp_port channel)) es
    \<and> su_ready_paths t = su_ready_paths s @ [(run_path ''gateway-'' peer ''.ready'', p)]
    \<and> su_transport_processes t = su_transport_processes s @ [(''connector-'' @ show_nat slot @ ''-'' @ show_nat peer, q)]"
  using assms
  by (auto simp: start_connector_edge_def bindA_Some sup_defs resolve_transport_service_def Let_def
      dest!: polling_lists start_connector_with_retry_Inr)

text \<open>What a loop over the channels appends to a list kept in the state.\<close>

lemma forA_appends:
  assumes "forA f xs s = Some (t, Inr ())"
    and "\<And>x s t. x \<in> set xs \<Longrightarrow> f x s = Some (t, Inr ()) \<Longrightarrow> g t = g s @ h x"
  shows "g t = g s @ concat (map h xs)"
  using assms
proof (induction xs arbitrary: s)
  case (Cons x xs)
  then obtain s' where "f x s = Some (s', Inr ())" "forA f xs s' = Some (t, Inr ())"
    by (auto simp: bindA_Some)
  with Cons show ?case by auto
qed (simp add: returnA_def)

text \<open>The gateway processes started, by command, and the ready files that are awaited.\<close>

fun gateway_starts :: "sup_event list \<Rightarrow> string list list" where
  "gateway_starts [] = []"
| "gateway_starts (Start i p c # es) =
     (if hd c = ''/usr/local/bin/simbricks-pipe-gateway'' then c # gateway_starts es else gateway_starts es)"
| "gateway_starts (e # es) = gateway_starts es"

lemma gateway_starts_append [simp]: "gateway_starts (es @ fs) = gateway_starts es @ gateway_starts fs"
  by (induction es rule: gateway_starts.induct) auto

lemma gateway_starts_connector: "list_all (is_connector_event peer port) es \<Longrightarrow> gateway_starts es = []"
  by (induction es rule: gateway_starts.induct) (auto simp: is_connector_event_def connector_command_def)

lemma listener_edge_gateways:
  assumes "start_listener_edge w slot base channel s = Some (t, Inr ())"
  shows "gateway_starts (su_events t) = gateway_starts (su_events s) @
    (if slot = ch_listener_slot channel
     then [gateway_command False (ch_connector_slot channel) (base + int (ch_connector_slot channel))] else [])"
proof (cases "slot = ch_listener_slot channel")
  case True
  from start_listener_edge_Inr [OF assms True refl] True show ?thesis
    by (auto simp: gateway_command_def listener_command_def)
qed (use assms in \<open>simp add: start_listener_edge_def returnA_def\<close>)

lemma connector_edge_gateways:
  assumes "start_connector_edge w slot base timeout channel s = Some (t, Inr ())"
  shows "gateway_starts (su_events t) = gateway_starts (su_events s) @
    (if slot = ch_connector_slot channel
     then [gateway_command True (ch_listener_slot channel) (base + int (ch_listener_slot channel))] else [])"
proof (cases "slot = ch_connector_slot channel")
  case True
  from start_connector_edge_Inr [OF assms True refl] True show ?thesis
    by (auto simp: gateway_command_def gateway_starts_connector)
qed (use assms in \<open>simp add: start_connector_edge_def returnA_def\<close>)

section \<open>The peers of a slot\<close>

definition peers_of :: "nat \<Rightarrow> (nat \<times> nat) list \<Rightarrow> nat list" where
  "peers_of slot ps = map snd (filter (\<lambda>p. fst p = slot) ps) @ map fst (filter (\<lambda>p. snd p = slot) ps)"

lemma peers_of_combinations:
  assumes "slot < nodes"
  shows "mset (peers_of slot (combinations2 [0..<nodes])) = mset (filter (\<lambda>p. p \<noteq> slot) [0..<nodes])"
proof -
  let ?ps = "combinations2 [0..<nodes]"
  have d: "distinct ?ps" by (simp add: distinct_combinations2)
  have mem: "set ?ps = {(x, y). x < y \<and> y < nodes}" by (auto simp: combinations2_set)
  have "distinct (map snd (filter (\<lambda>p. fst p = slot) ?ps))"
    using d by (auto simp: distinct_map inj_on_def)
  moreover have "distinct (map fst (filter (\<lambda>p. snd p = slot) ?ps))"
    using d by (auto simp: distinct_map inj_on_def)
  moreover have "snd ` {p \<in> set ?ps. fst p = slot} \<inter> fst ` {p \<in> set ?ps. snd p = slot} = {}"
    by (auto simp: mem)
  ultimately have "distinct (peers_of slot ?ps)" by (simp add: peers_of_def)
  moreover have "set (peers_of slot ?ps) = set (filter (\<lambda>p. p \<noteq> slot) [0..<nodes])"
    using assms by (auto simp: peers_of_def mem image_iff)
  moreover have "distinct (filter (\<lambda>p. p \<noteq> slot) [0..<nodes])" by simp
  ultimately show ?thesis using set_eq_iff_mset_eq_distinct by blast
qed

lemma concat_map_if: "concat (map (\<lambda>x. if P x then [f x] else []) xs) = map f (filter P xs)"
  by (induction xs) auto

lemma local_channels_filter:
  "filter (\<lambda>c. slot = ch_listener_slot c) (local_channels slot cs) = filter (\<lambda>c. slot = ch_listener_slot c) cs"
  "filter (\<lambda>c. slot = ch_connector_slot c) (local_channels slot cs) = filter (\<lambda>c. slot = ch_connector_slot c) cs"
  by (auto simp: local_channels_def intro: filter_cong)

lemma peers_of_channels:
  "peers_of slot (map (\<lambda>c. (ch_listener_slot c, ch_connector_slot c)) cs) =
     map ch_connector_slot (filter (\<lambda>c. slot = ch_listener_slot c) cs)
     @ map ch_listener_slot (filter (\<lambda>c. slot = ch_connector_slot c) cs)"
  by (simp add: peers_of_def filter_map comp_def eq_commute)

section \<open>Start-up\<close>

lemma startup_Inr:
  assumes "startup w a topology s = Some (t, Inr worker)"
  obtains s1 s2 s3 s4 router where
    "forA (start_listener_edge w (sa_slot a) (sa_gateway_base_port a)) (local_channels (sa_slot a) (tp_channels topology)) s = Some (s1, Inr ())"
    "forA (start_connector_edge w (sa_slot a) (sa_gateway_base_port a) (sa_connector_timeout a))
       (local_channels (sa_slot a) (tp_channels topology)) (tick s1) = Some (s2, Inr ())"
    "wait_for_ready w (su_ready_paths s2) (sa_ready_timeout a) s2 = Some (s3, Inr ())"
    "wait_for_stable w (su_transport_processes s3) (sa_stability_timeout a) s3 = Some (s4, Inr ())"
    "su_ready_paths t = su_ready_paths s4" "su_transport_processes t = su_transport_processes s4" "su_now t = su_now s4"
    "gateway_starts (su_events t) = gateway_starts (su_events s4)"
    "su_events t = su_events s4 @ [Start (su_now t) router (router_command a), Start (su_now t) worker (worker_command a)]"
  using assms by (auto simp: startup_def bindA_Some sup_defs Let_def router_command_def worker_command_def)

lemma startup_gateways:
  assumes "startup w a topology init_sup = Some (t, Inr worker)"
  shows "map last (gateway_starts (su_events t)) = map (\<lambda>peer. str_int (sa_gateway_base_port a + int peer))
    (peers_of (sa_slot a) (map (\<lambda>c. (ch_listener_slot c, ch_connector_slot c)) (tp_channels topology)))"
proof -
  let ?slot = "sa_slot a" and ?b = "sa_gateway_base_port a"
  obtain s1 s2 s3 s4 router where
    l: "forA (start_listener_edge w ?slot ?b) (local_channels ?slot (tp_channels topology)) init_sup = Some (s1, Inr ())"
    and c: "forA (start_connector_edge w ?slot ?b (sa_connector_timeout a))
       (local_channels ?slot (tp_channels topology)) (tick s1) = Some (s2, Inr ())"
    and rd: "wait_for_ready w (su_ready_paths s2) (sa_ready_timeout a) s2 = Some (s3, Inr ())"
    and st: "wait_for_stable w (su_transport_processes s3) (sa_stability_timeout a) s3 = Some (s4, Inr ())"
    and "su_ready_paths t = su_ready_paths s4" "su_transport_processes t = su_transport_processes s4" "su_now t = su_now s4"
    and t: "gateway_starts (su_events t) = gateway_starts (su_events s4)"
    and "su_events t = su_events s4 @ [Start (su_now t) router (router_command a), Start (su_now t) worker (worker_command a)]"
    by (rule startup_Inr [OF assms])
  have "su_events s4 = su_events s2"
    using polling_lists [OF rd [unfolded wait_for_ready_def]] polling_lists [OF st [unfolded wait_for_stable_def]] by simp
  moreover have "gateway_starts (su_events s1) = gateway_starts (su_events init_sup) @ concat (map (\<lambda>c. if ?slot = ch_listener_slot c
      then [gateway_command False (ch_connector_slot c) (?b + int (ch_connector_slot c))] else []) (local_channels ?slot (tp_channels topology)))"
    by (rule forA_appends [where g = "\<lambda>s. gateway_starts (su_events s)", OF l])
      (rule listener_edge_gateways)
  moreover have "gateway_starts (su_events s2) = gateway_starts (su_events (tick s1)) @ concat (map (\<lambda>c. if ?slot = ch_connector_slot c
      then [gateway_command True (ch_listener_slot c) (?b + int (ch_listener_slot c))] else []) (local_channels ?slot (tp_channels topology)))"
    by (rule forA_appends [where g = "\<lambda>s. gateway_starts (su_events s)", OF c])
      (rule connector_edge_gateways)
  ultimately show ?thesis using t
    by (simp add: concat_map_if local_channels_filter peers_of_channels comp_def gateway_command_def
        init_sup_def tick_def)
qed

lemma exited_None: "exited sn ps = None \<longleftrightarrow> (\<forall>(d, p) \<in> set ps. sn_poll sn p = None)"
proof -
  have "exited sn ps = None \<longleftrightarrow> find (\<lambda>(_, p). sn_poll sn p \<noteq> None) ps = None"
    by (simp add: exited_def split: option.splits prod.splits)
  then show ?thesis by (auto simp: find_None_iff)
qed

text \<open>A world in which every path exists, nothing exits and a minute passes between snapshots.\<close>

definition calm_world :: world where
  "calm_world i = \<lparr>sn_clock = seconds 60 * int i, sn_exists = (\<lambda>_. True), sn_poll = (\<lambda>_. None),
     sn_resolve = (\<lambda>_. Some ''10.0.0.1'')\<rparr>"

lemma calm_waits:
  "wait_for_path calm_world path p s = Some (s, Inr ())"
  "wait_for_ready calm_world paths k s = Some (s, Inr ())"
  "wait_for_stable calm_world ps 5 s = Some (tick s, Inr ())"
proof -
  have still: "exited (calm_world i) ps = None" for i and ps :: "(string \<times> nat) list"
    by (auto simp: exited_None calm_world_def)
  have clock: "sn_clock (calm_world i) = seconds 60 * int i" for i by (simp add: calm_world_def)
  have "poll_until (stable_check calm_world ps (sn_clock (calm_world (su_now s)) + seconds 5)) (su_now s)
      = Some (su_now s + 1, Inr ())"
    using still by (intro poll_until_first) (auto simp: stable_check_def clock seconds_def)
  then show "wait_for_stable calm_world ps 5 s = Some (tick s, Inr ())"
    by (simp add: wait_for_stable_def polling_def tick_def)
qed (simp_all add: wait_for_path_def wait_for_ready_def polling_def poll_until_here path_check_def ready_check_def
    calm_world_def split_beta list_all_iff)

definition demo_arguments :: sup_arguments where
  "demo_arguments = \<lparr>sa_slot = 0, sa_routing = ''routing.json'', sa_worker_port = 9300, sa_router_port = 9400,
     sa_gateway_base_port = 9500, sa_ready_timeout = 90, sa_connector_timeout = 60, sa_stability_timeout = 5\<rparr>"

definition demo_topology :: topology where
  "demo_topology = \<lparr>tp_version = 1, tp_transport = ''simbricks-baseif-net_sockets'',
     tp_workers = topology_workers 2 ''10.203.0'', tp_channels = channels_of 2 ''10.203.0'' 9700\<rparr>"

lemma demo_topology_generated: "generate_topology 2 ''10.203.0'' 9700 = Inr demo_topology"
  by (simp add: generate_topology_eq_Inr demo_topology_def port_room_def upt_rec check_subnet_def
      valid_octet_def text_eval)

lemma demo_startup: "\<exists>t worker. startup calm_world demo_arguments demo_topology init_sup = Some (t, Inr worker)"
  by (simp add: startup_def demo_arguments_def demo_topology_def channels_of_def upt_rec local_channels_def
      start_listener_edge_def start_connector_edge_def bindA_Some sup_defs calm_waits Let_def numeral_2_eq_2)

text \<open>
  A worker that finishes its start-up has started exactly one gateway for every other worker of
  the topology, on the port \<open>gateway_base_port + peer\<close>, and no other gateway.
\<close>

theorem supervisor_gateway_per_peer:
  assumes "generate_topology nodes subnet base_port = Inr topology" and "sa_slot a < nodes"
    and "startup w a topology init_sup = Some (t, Inr worker)"
  shows "mset (map last (gateway_starts (su_events t))) =
    mset (map (\<lambda>peer. str_int (sa_gateway_base_port a + int peer)) (filter (\<lambda>peer. peer \<noteq> sa_slot a) [0..<nodes]))"
proof -
  have "map (\<lambda>c. (ch_listener_slot c, ch_connector_slot c)) (tp_channels topology) = combinations2 [0..<nodes]"
    using assms(1) by (simp add: generate_topology_eq_Inr channels_of_pairs)
  with startup_gateways [OF assms(3)] peers_of_combinations [OF assms(2)] show ?thesis
    by (metis mset_map)
qed

theorem supervisor_gateway_per_peer_witness:
  "\<exists>t worker. startup calm_world demo_arguments demo_topology init_sup = Some (t, Inr worker)
     \<and> map last (gateway_starts (su_events t)) = [''9501'']"
proof -
  obtain t worker where t: "startup calm_world demo_arguments demo_topology init_sup = Some (t, Inr worker)"
    using demo_startup by blast
  have "mset (map last (gateway_starts (su_events t))) = {#''9501''#}"
    using supervisor_gateway_per_peer [OF demo_topology_generated _ t]
    by (simp add: demo_arguments_def upt_rec text_eval)
  with t show ?thesis unfolding mset_single_iff by (intro exI conjI)
qed

text \<open>The Python programs among the started processes, with the snapshots of their starts.\<close>

fun is_python_start :: "sup_event \<Rightarrow> bool" where
  "is_python_start (Start i p command) \<longleftrightarrow> hd command = ''python3''"
| "is_python_start e \<longleftrightarrow> False"

lemma connector_not_python: "is_connector_event peer port e \<Longrightarrow> \<not> is_python_start e"
  by (auto simp: is_connector_event_def connector_command_def)

lemma listener_edge_lists:
  assumes "start_listener_edge w slot base channel s = Some (t, Inr ())"
  shows "filter is_python_start (su_events t) = filter is_python_start (su_events s) @ []"
    and "map fst (su_ready_paths t) = map fst (su_ready_paths s) @
      (if slot = ch_listener_slot channel then [run_path ''gateway-'' (ch_connector_slot channel) ''.ready''] else [])"
    and "map fst (su_transport_processes t) = map fst (su_transport_processes s) @
      (if slot = ch_listener_slot channel then [''listener-'' @ show_nat slot @ ''-'' @ show_nat (ch_connector_slot channel)] else [])"
proof -
  have "filter is_python_start (su_events t) = filter is_python_start (su_events s) @ []
      \<and> map fst (su_ready_paths t) = map fst (su_ready_paths s) @
        (if slot = ch_listener_slot channel then [run_path ''gateway-'' (ch_connector_slot channel) ''.ready''] else [])
      \<and> map fst (su_transport_processes t) = map fst (su_transport_processes s) @
        (if slot = ch_listener_slot channel then [''listener-'' @ show_nat slot @ ''-'' @ show_nat (ch_connector_slot channel)] else [])"
  proof (cases "slot = ch_listener_slot channel")
    case True
    from start_listener_edge_Inr [OF assms True refl] True show ?thesis by (auto simp: gateway_command_def listener_command_def)
  qed (use assms in \<open>simp add: start_listener_edge_def returnA_def\<close>)
  then show "filter is_python_start (su_events t) = filter is_python_start (su_events s) @ []"
    and "map fst (su_ready_paths t) = map fst (su_ready_paths s) @
      (if slot = ch_listener_slot channel then [run_path ''gateway-'' (ch_connector_slot channel) ''.ready''] else [])"
    and "map fst (su_transport_processes t) = map fst (su_transport_processes s) @
      (if slot = ch_listener_slot channel then [''listener-'' @ show_nat slot @ ''-'' @ show_nat (ch_connector_slot channel)] else [])"
    by blast+
qed

lemma connector_edge_lists:
  assumes "start_connector_edge w slot base timeout channel s = Some (t, Inr ())"
  shows "filter is_python_start (su_events t) = filter is_python_start (su_events s) @ []"
    and "map fst (su_ready_paths t) = map fst (su_ready_paths s) @
      (if slot = ch_connector_slot channel then [run_path ''gateway-'' (ch_listener_slot channel) ''.ready''] else [])"
    and "map fst (su_transport_processes t) = map fst (su_transport_processes s) @
      (if slot = ch_connector_slot channel then [''connector-'' @ show_nat slot @ ''-'' @ show_nat (ch_listener_slot channel)] else [])"
proof -
  have none: "list_all (is_connector_event peer port) es \<Longrightarrow> filter is_python_start es = []" for peer port es
    by (auto simp: list_all_iff filter_empty_conv connector_not_python)
  have "filter is_python_start (su_events t) = filter is_python_start (su_events s) @ []
      \<and> map fst (su_ready_paths t) = map fst (su_ready_paths s) @
        (if slot = ch_connector_slot channel then [run_path ''gateway-'' (ch_listener_slot channel) ''.ready''] else [])
      \<and> map fst (su_transport_processes t) = map fst (su_transport_processes s) @
        (if slot = ch_connector_slot channel then [''connector-'' @ show_nat slot @ ''-'' @ show_nat (ch_listener_slot channel)] else [])"
  proof (cases "slot = ch_connector_slot channel")
    case True
    from start_connector_edge_Inr [OF assms True refl] True show ?thesis by (auto simp: gateway_command_def none)
  qed (use assms in \<open>simp add: start_connector_edge_def returnA_def\<close>)
  then show "filter is_python_start (su_events t) = filter is_python_start (su_events s) @ []"
    and "map fst (su_ready_paths t) = map fst (su_ready_paths s) @
      (if slot = ch_connector_slot channel then [run_path ''gateway-'' (ch_listener_slot channel) ''.ready''] else [])"
    and "map fst (su_transport_processes t) = map fst (su_transport_processes s) @
      (if slot = ch_connector_slot channel then [''connector-'' @ show_nat slot @ ''-'' @ show_nat (ch_listener_slot channel)] else [])"
    by blast+
qed

text \<open>The gateways and transports that the waits look at belong to all channels of the slot, and no Python program runs yet.\<close>

lemma edges_lists:
  assumes "forA (start_listener_edge w slot base) (local_channels slot channels) init_sup = Some (s1, Inr ())"
    and "forA (start_connector_edge w slot base timeout) (local_channels slot channels) (tick s1) = Some (s2, Inr ())"
  shows "filter is_python_start (su_events s2) = []"
    and "map fst (su_ready_paths s2) = map (\<lambda>peer. run_path ''gateway-'' peer ''.ready'')
      (peers_of slot (map (\<lambda>c. (ch_listener_slot c, ch_connector_slot c)) channels))"
    and "map fst (su_transport_processes s2)
      = map (\<lambda>c. ''listener-'' @ show_nat slot @ ''-'' @ show_nat (ch_connector_slot c)) (filter (\<lambda>c. slot = ch_listener_slot c) channels)
      @ map (\<lambda>c. ''connector-'' @ show_nat slot @ ''-'' @ show_nat (ch_listener_slot c)) (filter (\<lambda>c. slot = ch_connector_slot c) channels)"
proof -
  note l = forA_appends [OF assms(1)] and c = forA_appends [OF assms(2)]
  have "filter is_python_start (su_events s1) = filter is_python_start (su_events init_sup) @ concat (map (\<lambda>_. []) (local_channels slot channels))"
    by (rule l [where g = "\<lambda>s. filter is_python_start (su_events s)"]) (rule listener_edge_lists(1))
  moreover have "filter is_python_start (su_events s2) = filter is_python_start (su_events (tick s1)) @ concat (map (\<lambda>_. []) (local_channels slot channels))"
    by (rule c [where g = "\<lambda>s. filter is_python_start (su_events s)"]) (rule connector_edge_lists(1))
  ultimately show "filter is_python_start (su_events s2) = []" by (simp add: init_sup_def tick_def)
  have "map fst (su_ready_paths s1) = map fst (su_ready_paths init_sup) @ concat (map (\<lambda>c. if slot = ch_listener_slot c
      then [run_path ''gateway-'' (ch_connector_slot c) ''.ready''] else []) (local_channels slot channels))"
    by (rule l [where g = "\<lambda>s. map fst (su_ready_paths s)"]) (rule listener_edge_lists(2))
  moreover have "map fst (su_ready_paths s2) = map fst (su_ready_paths (tick s1)) @ concat (map (\<lambda>c. if slot = ch_connector_slot c
      then [run_path ''gateway-'' (ch_listener_slot c) ''.ready''] else []) (local_channels slot channels))"
    by (rule c [where g = "\<lambda>s. map fst (su_ready_paths s)"]) (rule connector_edge_lists(2))
  ultimately show "map fst (su_ready_paths s2) = map (\<lambda>peer. run_path ''gateway-'' peer ''.ready'')
      (peers_of slot (map (\<lambda>c. (ch_listener_slot c, ch_connector_slot c)) channels))"
    by (simp add: concat_map_if local_channels_filter peers_of_channels comp_def init_sup_def tick_def)
  have "map fst (su_transport_processes s1) = map fst (su_transport_processes init_sup) @ concat (map (\<lambda>c. if slot = ch_listener_slot c
      then [''listener-'' @ show_nat slot @ ''-'' @ show_nat (ch_connector_slot c)] else []) (local_channels slot channels))"
    by (rule l [where g = "\<lambda>s. map fst (su_transport_processes s)"]) (rule listener_edge_lists(3))
  moreover have "map fst (su_transport_processes s2) = map fst (su_transport_processes (tick s1)) @ concat (map (\<lambda>c. if slot = ch_connector_slot c
      then [''connector-'' @ show_nat slot @ ''-'' @ show_nat (ch_listener_slot c)] else []) (local_channels slot channels))"
    by (rule c [where g = "\<lambda>s. map fst (su_transport_processes s)"]) (rule connector_edge_lists(3))
  ultimately show "map fst (su_transport_processes s2)
      = map (\<lambda>c. ''listener-'' @ show_nat slot @ ''-'' @ show_nat (ch_connector_slot c)) (filter (\<lambda>c. slot = ch_listener_slot c) channels)
      @ map (\<lambda>c. ''connector-'' @ show_nat slot @ ''-'' @ show_nat (ch_listener_slot c)) (filter (\<lambda>c. slot = ch_connector_slot c) channels)"
    by (simp add: concat_map_if local_channels_filter init_sup_def tick_def)
qed

text \<open>What the two waits establish, for the lists that they are given.\<close>

lemma waits_establish:
  assumes "wait_for_ready w paths ready_timeout s2 = Some (s3, Inr ())" and "wait_for_stable w processes stability_timeout s3 = Some (s4, Inr ())"
  shows "su_now s3 \<le> su_now s4" and "\<forall>(path, p) \<in> set paths. sn_exists (w (su_now s3)) path"
    and "sn_clock (w (su_now s3)) + seconds stability_timeout \<le> sn_clock (w (su_now s4))"
    and "\<forall>k. su_now s3 \<le> k \<and> k < su_now s4 \<longrightarrow> (\<forall>(d, p) \<in> set processes. sn_poll (w k) p = None)"
proof -
  note rd = polling_Some [OF assms(1) [unfolded wait_for_ready_def]] and st = polling_Some [OF assms(2) [unfolded wait_for_stable_def]]
  show "su_now s3 \<le> su_now s4" using st by blast
  show "\<forall>(path, p) \<in> set paths. sn_exists (w (su_now s3)) path"
    using rd by (auto simp: ready_check_def list_all_iff split: if_splits option.splits)
  show "sn_clock (w (su_now s3)) + seconds stability_timeout \<le> sn_clock (w (su_now s4))"
    using st by (auto simp: stable_check_def split: if_splits option.splits)
  show "\<forall>k. su_now s3 \<le> k \<and> k < su_now s4 \<longrightarrow> (\<forall>(d, p) \<in> set processes. sn_poll (w k) p = None)"
  proof (intro allI impI)
    fix k assume "su_now s3 \<le> k \<and> k < su_now s4"
    then have "stable_check w processes (sn_clock (w (su_now s3)) + seconds stability_timeout) k = None" using st by blast
    then show "\<forall>(d, p) \<in> set processes. sn_poll (w k) p = None"
      by (simp add: stable_check_def exited_None split: if_splits option.splits prod.splits)
  qed
qed

text \<open>
  C11. The router and the worker are started once each, the router first, and only on a working transport: the Python
  programs that the start-up starts are these two, and before the snapshot of their starts there is one at which the
  ready files of the gateways to all peers of the topology existed, and from which, for at least the stability timeout up
  to the starts, no transport process of a channel of this slot had exited at any look.
\<close>

theorem supervisor_ready_before_router:
  assumes "startup w a topology init_sup = Some (t, Inr worker)"
  shows "\<exists>i j router. filter is_python_start (su_events t) = [Start j router (router_command a), Start j worker (worker_command a)]
    \<and> i \<le> j \<and> sn_clock (w i) + seconds (sa_stability_timeout a) \<le> sn_clock (w j)
    \<and> (\<forall>peer \<in> set (peers_of (sa_slot a) (map (\<lambda>c. (ch_listener_slot c, ch_connector_slot c)) (tp_channels topology))).
         sn_exists (w i) (run_path ''gateway-'' peer ''.ready''))
    \<and> map fst (su_transport_processes t)
        = map (\<lambda>c. ''listener-'' @ show_nat (sa_slot a) @ ''-'' @ show_nat (ch_connector_slot c))
            (filter (\<lambda>c. sa_slot a = ch_listener_slot c) (tp_channels topology))
        @ map (\<lambda>c. ''connector-'' @ show_nat (sa_slot a) @ ''-'' @ show_nat (ch_listener_slot c))
            (filter (\<lambda>c. sa_slot a = ch_connector_slot c) (tp_channels topology))
    \<and> (\<forall>k. i \<le> k \<and> k < j \<longrightarrow> (\<forall>(d, p) \<in> set (su_transport_processes t). sn_poll (w k) p = None))"
proof -
  obtain s1 s2 s3 s4 router where
    edges: "forA (start_listener_edge w (sa_slot a) (sa_gateway_base_port a)) (local_channels (sa_slot a) (tp_channels topology)) init_sup = Some (s1, Inr ())"
    "forA (start_connector_edge w (sa_slot a) (sa_gateway_base_port a) (sa_connector_timeout a))
       (local_channels (sa_slot a) (tp_channels topology)) (tick s1) = Some (s2, Inr ())"
    and rd: "wait_for_ready w (su_ready_paths s2) (sa_ready_timeout a) s2 = Some (s3, Inr ())"
    and st: "wait_for_stable w (su_transport_processes s3) (sa_stability_timeout a) s3 = Some (s4, Inr ())"
    and "su_ready_paths t = su_ready_paths s4" and tr: "su_transport_processes t = su_transport_processes s4" and now: "su_now t = su_now s4"
    and "gateway_starts (su_events t) = gateway_starts (su_events s4)"
    and ev: "su_events t = su_events s4 @ [Start (su_now t) router (router_command a), Start (su_now t) worker (worker_command a)]"
    by (rule startup_Inr [OF assms])
  note lists = edges_lists [OF edges] and waits = waits_establish [OF rd st]
    and same = polling_lists [OF rd [unfolded wait_for_ready_def]] polling_lists [OF st [unfolded wait_for_stable_def]]
  have "filter is_python_start (su_events t) = [Start (su_now s4) router (router_command a), Start (su_now s4) worker (worker_command a)]"
    using lists(1) same ev now by (simp add: router_command_def worker_command_def)
  moreover have "\<forall>path \<in> set (map fst (su_ready_paths s2)). sn_exists (w (su_now s3)) path" using waits(2) by auto
  then have "\<forall>peer \<in> set (peers_of (sa_slot a) (map (\<lambda>c. (ch_listener_slot c, ch_connector_slot c)) (tp_channels topology))).
      sn_exists (w (su_now s3)) (run_path ''gateway-'' peer ''.ready'')"
    unfolding lists(2) by auto
  moreover have "su_transport_processes t = su_transport_processes s3" "su_transport_processes t = su_transport_processes s2" using tr same by simp_all
  ultimately show ?thesis using waits(1,3,4) lists(3)
    by (intro exI [of _ "su_now s3"] exI [of _ "su_now s4"] exI [of _ router] conjI) simp_all
qed

theorem supervisor_ready_before_router_witness:
  "\<exists>t worker i j router. startup calm_world demo_arguments demo_topology init_sup = Some (t, Inr worker) \<and> i \<le> j
     \<and> filter is_python_start (su_events t) = [Start j router (router_command demo_arguments), Start j worker (worker_command demo_arguments)]
     \<and> sn_clock (calm_world i) + seconds 5 \<le> sn_clock (calm_world j)"
proof -
  obtain t worker where t: "startup calm_world demo_arguments demo_topology init_sup = Some (t, Inr worker)"
    using demo_startup by blast
  have five: "sa_stability_timeout demo_arguments = 5" by (simp add: demo_arguments_def)
  from supervisor_ready_before_router [OF t] t show ?thesis unfolding five by blast
qed

section \<open>Termination of the start-up\<close>

lemma forA_total:
  assumes "\<And>x s. \<exists>t r. f x s = Some (t, r)"
  shows "\<exists>t r. forA f xs s = Some (t, r)"
  using assms by (induction xs arbitrary: s) (auto simp: returnA_def intro!: bindA_total)

lemma edges_total:
  assumes "clock_advances w"
  shows "\<exists>t r. start_listener_edge w slot base channel s = Some (t, r)"
    and "\<exists>t r. start_connector_edge w slot base timeout channel s = Some (t, r)"
proof -
  have p: "\<exists>t r. wait_for_path w path p s = Some (t, r)" for path p s
    using waits_return(1) [OF assms] by blast
  have n: "\<exists>t r. resolve_transport_service w name s = Some (t, r)" for name s
    using waits_return(4) [OF assms] by blast
  have c: "\<exists>t r. start_connector_with_retry w command path timeout s = Some (t, r)" for command path timeout s
    by (simp add: start_connector_with_retry_def connector_loop_total [OF assms])
  show "\<exists>t r. start_listener_edge w slot base channel s = Some (t, r)"
    by (auto simp: start_listener_edge_def Let_def sup_defs intro!: bindA_total p)
  show "\<exists>t r. start_connector_edge w slot base timeout channel s = Some (t, r)"
    by (auto simp: start_connector_edge_def Let_def sup_defs intro!: bindA_total n c)
qed

text \<open>
  C12. Start-up always ends, with a running worker or an error: when the clock never goes back and
  passes every bound, no wait, name lookup or connector retry of the start-up runs for ever,
  whatever the file system, the processes and the name service do.
\<close>

theorem supervisor_startup_terminates:
  assumes "clock_advances w"
  shows "\<exists>t r. startup w a topology s = Some (t, r)"
proof -
  have "\<exists>t r. wait_for_ready w paths k s = Some (t, r)" for paths k s
    using waits_return(2) [OF assms] by blast
  moreover have "\<exists>t r. wait_for_stable w paths k s = Some (t, r)" for paths k s
    using waits_return(3) [OF assms] by blast
  ultimately show ?thesis
    by (auto simp: startup_def Let_def sup_defs intro!: bindA_total forA_total edges_total [OF assms])
qed

theorem supervisor_startup_terminates_witness:
  "\<exists>t r. startup calm_world demo_arguments demo_topology init_sup = Some (t, r)"
proof (rule supervisor_startup_terminates)
  have "\<exists>i. t \<le> 60000000000 * int i" for t :: int
    by (rule exI [of _ "nat t"]) auto
  then show "clock_advances calm_world" by (simp add: clock_advances_def calm_world_def seconds_def)
qed

section \<open>Clean-up\<close>

definition stuck_world :: world where
  "stuck_world i = \<lparr>sn_clock = seconds 60 * int i, sn_exists = (\<lambda>_. False), sn_poll = (\<lambda>_. None),
     sn_resolve = (\<lambda>_. Some ''10.0.0.1'')\<rparr>"

lemma stuck_waits:
  "resolve_transport_service stuck_world name s = Some (s, Inr ''10.0.0.1'')"
  "wait_for_path stuck_world path p s = Some (tick s,
     Inl (RuntimeError (''transport process did not create '' @ path @ '' within 60 seconds'')))"
proof -
  let ?d = "sn_clock (stuck_world (su_now s)) + seconds 60"
  have "poll_until (path_check stuck_world path p ?d) (su_now s) = Some (su_now s + 1,
     Inl (RuntimeError (''transport process did not create '' @ path @ '' within 60 seconds'')))"
    by (rule poll_until_first) (auto simp: path_check_def stuck_world_def seconds_def)
  then show "wait_for_path stuck_world path p s = Some (tick s,
     Inl (RuntimeError (''transport process did not create '' @ path @ '' within 60 seconds'')))"
    by (simp add: wait_for_path_def polling_def tick_def)
  show "resolve_transport_service stuck_world name s = Some (s, Inr ''10.0.0.1'')"
    by (simp add: resolve_transport_service_def polling_def poll_until_here resolve_check_def stuck_world_def seconds_def)
qed

text \<open>
  C13. The clean-up can miss a process it started: when a connector stays alive but never creates its
  socket, \<open>start_connector_with_retry\<close> raises before the caller records the process, and the
  supervisor ends with an error while that process runs on, neither terminated nor killed.
\<close>

theorem supervisor_leaks_connector:
  "\<exists>w a t e i p command. supervise w a demo_topology init_sup = Some (t, Inl e)
     \<and> Start i p command \<in> set (su_events t) \<and> \<not> (\<exists>i. sn_poll (w i) p \<noteq> None)
     \<and> Terminate p \<notin> set (su_events t) \<and> Kill p \<notin> set (su_events t)"
proof (intro exI conjI)
  let ?a = "demo_arguments\<lparr>sa_slot := 1\<rparr>" and ?c = "connector_command 0 ''10.0.0.1'' 9700"
  let ?e = "RuntimeError (''transport process did not create '' @ run_path ''base-'' 0 ''.sock'' @ '' within 60 seconds'')"
  let ?t = "init_sup\<lparr>su_now := 2, su_commands := 1, su_events := [Start 1 0 ?c]\<rparr>"
  have loop: "connector_loop stuck_world ?c (run_path ''base-'' 0 ''.sock'') 60 (sn_clock (stuck_world (su_now (tick init_sup))) + seconds 60) None (tick init_sup)
      = Some (?t, Inl ?e)"
    by (subst connector_loop.simps)
      (simp add: start_def unlink_existing_def tick_def stuck_waits init_sup_def, simp add: stuck_world_def seconds_def)
  show "supervise stuck_world ?a demo_topology init_sup = Some (?t, Inl ?e)"
    using loop
    by (simp add: supervise_def cleanup_def terminate_running_def startup_def demo_arguments_def demo_topology_def channels_of_def upt_rec
        local_channels_def start_listener_edge_def start_connector_edge_def bindA_def sup_defs stuck_waits
        start_connector_with_retry_def Let_def numeral_2_eq_2)
      (simp add: init_sup_def)
qed (auto simp: stuck_world_def)

end
