(* ===== verification/SourcePatch.thy ===== *)
theory SourcePatch
  imports PyText
begin

text \<open>
  The source transformations that make an upstream LEGOSim checkout runnable
  (\<open>real/patch_*.py\<close>, \<open>real/apply_overlay.py\<close>). The fragments a script looks for and the
  fragments it inserts are constants with the text of the scripts; a script on one file is a function
  from its text to the new text or an exception, a script on several files a program on a file tree.
\<close>

section \<open>Fragments\<close>

definition bfs_OLD :: string where
  "bfs_OLD = ''    do {\<newline>'' @ ''        h_over = false;\<newline>''
     @ ''        cudaMemcpy(d_over, &h_over, sizeof(bool), cudaMemcpyHostToDevice);\<newline>''
     @ ''        bfsKernel<<<grid, block>>>(d_graph_nodes, d_graph_edges, d_graph_mask''
     @ '', d_graph_visited, d_cost, d_over, no_of_nodes);\<newline>''
     @ ''        cudaDeviceSynchronize();\<newline>''
     @ ''        cudaMemcpy(&h_over, d_over, sizeof(bool), cudaMemcpyDeviceToHost);\<newline>''
     @ ''    } while (h_over);\<newline>''"

definition bfs_NEW :: string where
  "bfs_NEW = ''    // A shortest-path traversal over N vertices needs no more than N\<newline>''
     @ ''    // frontier expansions.  This guard keeps the legacy GPGPU-Sim bool flag\<newline>''
     @ ''    // from causing a non-converging host loop while preserving early exit fo''
     @ ''r\<newline>'' @ ''    // the normal, already-converged case.\<newline>''
     @ ''    for (int iteration = 0; iteration < no_of_nodes; ++iteration) {\<newline>''
     @ ''        h_over = false;\<newline>''
     @ ''        cudaMemcpy(d_over, &h_over, sizeof(bool), cudaMemcpyHostToDevice);\<newline>''
     @ ''        bfsKernel<<<grid, block>>>(d_graph_nodes, d_graph_edges, d_graph_mask''
     @ '', d_graph_visited, d_cost, d_over, no_of_nodes);\<newline>''
     @ ''        cudaDeviceSynchronize();\<newline>''
     @ ''        cudaMemcpy(&h_over, d_over, sizeof(bool), cudaMemcpyDeviceToHost);\<newline>''
     @ ''        if (!h_over) break;\<newline>'' @ ''    }\<newline>''"

definition quiet_OLD :: string where
  "quiet_OLD = ''void announce_call(const char '' @ [CHR 0x2A] @ ''func) {\<newline>    printf(''
     @ [CHR 0x22, CHR 0x5C] @ ''n'' @ [CHR 0x5C] @ ''nGPGPU-Sim PTX: CUDA API function ''
     @ [CHR 0x5C, CHR 0x22] @ ''%s'' @ [CHR 0x5C, CHR 0x22] @ '' has been called.'' @ [CHR 0x5C]
     @ ''n'' @ [CHR 0x22] @ '', func);\<newline>    fflush(stdout);\<newline>}\<newline>''"

definition quiet_NEW :: string where
  "quiet_NEW = ''void announce_call(const char '' @ [CHR 0x2A] @ ''func) {\<newline>''
     @ ''    // API call tracing is diagnostic-only. Keeping stdout quiet prevents a\<newline>''
     @ ''    // simulator child from exhausting InterChiplet'' @ [CHR 0x27]
     @ ''s per-process log path.\<newline>    (void)func;\<newline>}\<newline>''"

definition bounded_OLD_INCLUDE :: string where
  "bounded_OLD_INCLUDE = ''#include <cstdlib> \<newline>''"

definition bounded_NEW_INCLUDE :: string where
  "bounded_NEW_INCLUDE = ''#include <cstdlib> \<newline>''"

definition bounded_OLD_LOOP :: string where
  "bounded_OLD_LOOP = ''    while (1) {\<newline>''"

definition bounded_NEW_LOOP :: string where
  "bounded_NEW_LOOP = ''    // Preserve the upstream -1 sentinel protocol by default.  A positive\<newline>''
     @ ''    // environment value is only for a bounded diagnostic execution.\<newline>''
     @ ''    const char'' @ [CHR 0x2A] @ '' iteration_text = std::getenv('' @ [CHR 0x22]
     @ ''LEGOSIM_MLP_MAX_ITERATIONS'' @ [CHR 0x22] @ '');\<newline>''
     @ ''    const int max_iterations = iteration_text == nullptr ? 0 : std::atoi(iter''
     @ ''ation_text);\<newline>''
     @ ''    for (int iteration = 0; max_iterations <= 0 || iteration < max_iterations''
     @ ''; ++iteration) {\<newline>''"

definition bounded_OLD_TAIL :: string where
  "bounded_OLD_TAIL = ''        cudaFree(d_dataA);\<newline>''
     @ ''        cudaFree(d_dataB);\<newline>'' @ ''        cudaFree(d_dataC);\<newline>''
     @ ''    }\<newline>''"

definition bounded_NEW_TAIL :: string where
  "bounded_NEW_TAIL = ''        cudaFree(d_dataA);\<newline>''
     @ ''        cudaFree(d_dataB);\<newline>'' @ ''        cudaFree(d_dataC);\<newline>''
     @ ''        cudaFree(Size_A);\<newline>'' @ ''        cudaFree(Size_B);\<newline>''
     @ ''        delete[] size_A;\<newline>'' @ ''        delete[] size_B;\<newline>''
     @ ''        free(A);\<newline>'' @ ''        free(C);\<newline>'' @ ''    }\<newline>''"

definition mnsim_OLD_COMMAND :: string where
  "mnsim_OLD_COMMAND = ''system('' @ [CHR 0x22]
     @ ''cd /home/qc/test_simulator/Chiplet_Heterogeneous_newVersion/MNSIMChiplet; pip''
     @ '' install torch torchvision ; python3 MNSIM_Chiplet.py -ID1 0 -ID2 2'' @ [CHR 0x22] @ '');''"

definition mnsim_NEW_COMMAND :: string where
  "mnsim_NEW_COMMAND = ''system('' @ [CHR 0x22]
     @ ''cd /opt/legosim/MNSIMChiplet && python3 MNSIM_Chiplet.py -ID1 0 -ID2 2'' @ [CHR 0x22]
     @ '');''"

definition mnsim_OLD_RESULT :: string where
  "mnsim_OLD_RESULT = ''std::ifstream inputFile('' @ [CHR 0x22]
     @ ''/home/qc/Chiplet_Heterogeneous_newVersion_gem5/Chiplet_Heterogeneous_newVersi''
     @ ''on/MNSIMChiplet/result_0_2.res'' @ [CHR 0x22] @ '');''"

definition mnsim_NEW_RESULT :: string where
  "mnsim_NEW_RESULT = ''std::ifstream inputFile('' @ [CHR 0x22]
     @ ''/opt/legosim/MNSIMChiplet/result_0_2.res'' @ [CHR 0x22] @ '');''"

definition mnsim_OLD_CONFIG_PATH :: string where
  "mnsim_OLD_CONFIG_PATH = ''/home/qc/Chiplet_Heterogeneous_newVersion_gem5/Chiplet_Heterogeneous_newVersi''
     @ ''on/tasks-vgg13/''"

definition mnsim_NEW_CONFIG_PATH :: string where
  "mnsim_NEW_CONFIG_PATH = ''/opt/legosim/tasks-vgg13/''"

definition mnsim_OLD_MAIN_COMMAND :: string where
  "mnsim_OLD_MAIN_COMMAND = ''cd MNSIM; python ./main.py -NN ''"

definition mnsim_NEW_MAIN_COMMAND :: string where
  "mnsim_NEW_MAIN_COMMAND = ''cd MNSIM; /usr/bin/python3 ./main.py -NN ''"

definition mnsim_OLD_ID_ARGUMENTS :: string where
  "mnsim_OLD_ID_ARGUMENTS = '' + '' @ [CHR 0x27] @ '' -Id1 '' @ [CHR 0x27] @ '' + str(id[0]) + ''
     @ [CHR 0x27] @ '' -Id2 '' @ [CHR 0x27] @ '' + str(id[1])''"

definition mnsim_COMPAT_BACKEND_MARKER :: string where
  "mnsim_COMPAT_BACKEND_MARKER = ''mnsim_compat.py''"

definition parallel_OLD_TOGGLER :: string where
  "parallel_OLD_TOGGLER = ''    std::vector<std::thread> THREAD;\<newline>''
     @ ''    std::vector<std::vector<std::vector<double>>> res;\<newline>''"

definition parallel_NEW_TOGGLER :: string where
  "parallel_NEW_TOGGLER = ''    const char'' @ [CHR 0x2A] @ '' parallel_text = std::getenv(''
     @ [CHR 0x22] @ ''LEGOSIM_MLP_PARALLEL_GPU_TASKS'' @ [CHR 0x22] @ '');\<newline>''
     @ ''    const bool parallel_gpu_tasks = parallel_text != nullptr && std::atoi(par''
     @ ''allel_text) != 0;\<newline>'' @ ''    std::vector<std::thread> THREAD;\<newline>''
     @ ''    std::vector<std::vector<std::vector<double>>> res;\<newline>''"

definition parallel_OLD_LAUNCH :: string where
  "parallel_OLD_LAUNCH = ''        GpuMultiply(Dev1,Dev2,dev1[i].size(),dev1[i][0].size(),dev2[i].size()''
     @ '',dev2[i][0].size(),std::ref(res[i]),dstX,i+1);\<newline>''
     @ ''        // std::thread\<newline>''
     @ ''        // t(&BPNeuralNetwork::GpuMultiply,this,Dev1,Dev2,dev1[i].size(),dev1''
     @ ''[i][0].size(),dev2[i].size(),dev2[i][0].size(),std::ref(res[i]),dstX,i+1);\<newline>''
     @ ''        // THREAD.push_back(std::thread(GpuMultiply, Dev1, Dev2, dev1[i].size''
     @ ''(), dev1[i][0].size(),\<newline>''
     @ ''        //                              dev2[i].size(), dev2[i][0].size(), st''
     @ ''d::ref(res[i]), dstX,\<newline>''
     @ ''        //                              i + 1));\<newline>'' @ ''    }\<newline>''
     @ ''    // for (auto& i : THREAD) {\<newline>'' @ ''    //     i.join();\<newline>''
     @ ''    // }\<newline>''"

definition parallel_NEW_LAUNCH :: string where
  "parallel_NEW_LAUNCH = ''        if (parallel_gpu_tasks) {\<newline>''
     @ ''            THREAD.emplace_back(GpuMultiply, Dev1, Dev2, dev1[i].size(), dev1''
     @ ''[i][0].size(),\<newline>''
     @ ''                                dev2[i].size(), dev2[i][0].size(), std::ref(r''
     @ ''es[i]), dstX, i + 1);\<newline>'' @ ''        } else {\<newline>''
     @ ''            GpuMultiply(Dev1, Dev2, dev1[i].size(), dev1[i][0].size(), dev2[i''
     @ ''].size(),\<newline>''
     @ ''                        dev2[i][0].size(), std::ref(res[i]), dstX, i + 1);\<newline>''
     @ ''        }\<newline>'' @ ''    }\<newline>'' @ ''    for (auto& task : THREAD) {\<newline>''
     @ ''        task.join();\<newline>'' @ ''    }\<newline>''"

definition parallel_OLD_BACKWARD :: string where
  "parallel_OLD_BACKWARD = ''        // std::thread t1(ToGPU, Weight, Dz, weight[i][0].size(), weight[i].s''
     @ ''ize(), dz.size(),\<newline>''
     @ ''        //                dz[0].size(), std::ref(deltas_pre), 1);\<newline>''
     @ ''        // GpuMultiply(Weight,Dz,weight[i][0].size(),weight[i].size(),dz.size''
     @ ''(),dz[0].size(),std::ref(deltas_pre),1);\<newline>''
     @ ''        ToGPU(Weight, Dz, weight[i][0].size(), weight[i].size(), dz.size(),\<newline>''
     @ ''                       dz[0].size(), std::ref(deltas_pre), 1);\<newline>''
     @ ''        // std::thread t2(ToGPU, Dz, Activations_i, dz.size(), dz[0].size(), ''
     @ ''activations[i][0].size(),\<newline>''
     @ ''        //                activations[i].size(), std::ref(dw), 2);\<newline>''
     @ ''        ToGPU(Dz, Activations_i, dz.size(), dz[0].size(), activations[i][0].s''
     @ ''ize(),\<newline>''
     @ ''                       activations[i].size(), std::ref(dw), 2);\<newline>''"

definition parallel_NEW_BACKWARD :: string where
  "parallel_NEW_BACKWARD = ''        const char'' @ [CHR 0x2A] @ '' parallel_text = std::getenv(''
     @ [CHR 0x22] @ ''LEGOSIM_MLP_PARALLEL_GPU_TASKS'' @ [CHR 0x22] @ '');\<newline>''
     @ ''        const bool parallel_gpu_tasks = parallel_text != nullptr && std::atoi''
     @ ''(parallel_text) != 0;\<newline>'' @ ''        if (parallel_gpu_tasks) {\<newline>''
     @ ''            std::thread first(ToGPU, Weight, Dz, weight[i][0].size(), weight[''
     @ ''i].size(), dz.size(),\<newline>''
     @ ''                              dz[0].size(), std::ref(deltas_pre), 1);\<newline>''
     @ ''            std::thread second(ToGPU, Dz, Activations_i, dz.size(), dz[0].siz''
     @ ''e(),\<newline>''
     @ ''                               activations[i][0].size(), activations[i].size(''
     @ ''), std::ref(dw), 2);\<newline>'' @ ''            first.join();\<newline>''
     @ ''            second.join();\<newline>'' @ ''        } else {\<newline>''
     @ ''            ToGPU(Weight, Dz, weight[i][0].size(), weight[i].size(), dz.size(''
     @ ''),\<newline>'' @ ''                  dz[0].size(), std::ref(deltas_pre), 1);\<newline>''
     @ ''            ToGPU(Dz, Activations_i, dz.size(), dz[0].size(), activations[i][''
     @ ''0].size(),\<newline>''
     @ ''                  activations[i].size(), std::ref(dw), 2);\<newline>''
     @ ''        }\<newline>''"

definition train_OLD :: string where
  "train_OLD = ''    train(x_train, y_train, 1);\<newline>''"

definition train_NEW :: string where
  "train_NEW = ''    const char'' @ [CHR 0x2A] @ '' iteration_text = std::getenv('' @ [CHR 0x22]
     @ ''LEGOSIM_MLP_TRAIN_ITERATIONS'' @ [CHR 0x22] @ '');\<newline>''
     @ ''    const int train_iterations = iteration_text == nullptr ? 1 : std::atoi(it''
     @ ''eration_text);\<newline>'' @ ''    if (train_iterations < 1) {\<newline>''
     @ ''        std::cerr << '' @ [CHR 0x22] @ ''LEGOSIM_MLP_TRAIN_ITERATIONS must be positive''
     @ [CHR 0x22] @ '' << std::endl;\<newline>'' @ ''        return EXIT_FAILURE;\<newline>''
     @ ''    }\<newline>'' @ ''    std::cout << '' @ [CHR 0x22] @ ''legosim: mlp_train_iterations=''
     @ [CHR 0x22] @ '' << train_iterations << std::endl;\<newline>''
     @ ''    train(x_train, y_train, train_iterations);\<newline>''"

definition clone3_old :: string where
  "clone3_old = ''         case SYS_clone3_sniper:\<newline>'' @ ''         {\<newline>''
     @ ''            if (args[0] && CLONE_THREAD)\<newline>'' @ ''            {\<newline>''
     @ ''               struct clone_args_sniper'' @ [CHR 0x2A]
     @ '' clone3_args = (struct clone_args_sniper'' @ [CHR 0x2A] @ '')args[0];\<newline>''
     @ ''               ADDRINT tidptr = clone3_args->parent_tid;\<newline>''
     @ ''               PIN_GetLock(&new_threadid_lock, threadid);\<newline>''
     @ ''               tidptrs.push_back(tidptr);\<newline>''
     @ ''               PIN_ReleaseLock(&new_threadid_lock);\<newline>'' @ ''               /''
     @ [CHR 0x2A] @ '' New thread '' @ [CHR 0x2A] @ ''/\<newline>''
     @ ''               thread_data[threadid].output->NewThread();\<newline>''
     @ ''            }\<newline>'' @ ''            else\<newline>'' @ ''            {\<newline>''
     @ ''               /'' @ [CHR 0x2A] @ '' New process '' @ [CHR 0x2A] @ ''/\<newline>''
     @ ''               // Nothing to do there, handled in fork() -> to check SYS_clon''
     @ ''e3 is new\<newline>'' @ ''            }\<newline>'' @ ''            break;\<newline>''
     @ ''         }''"

definition clone3_new :: string where
  "clone3_new = ''         case SYS_clone3_sniper:\<newline>'' @ ''         {\<newline>''
     @ ''            // Docker'' @ [CHR 0x27]
     @ ''s default seccomp profile may reject clone3. Glibc then\<newline>''
     @ ''            // retries with SYS_clone, whose handler below opens the matching''
     @ ''\<newline>''
     @ ''            // SIFT channel. Do not emit NewThread for the failed attempt.\<newline>''
     @ ''            break;\<newline>'' @ ''         }''"

definition recorder_old_write :: string where
  "recorder_old_write = ''                  std::string fileName = InterChiplet::sendSync(srcX, srcY, d''
     @ ''stX, dstY);\<newline>''
     @ ''                  global_pipe_comm.write_data(fileName.c_str(), data, nbytes)''
     @ '';\<newline>'' @ ''                  break;''"

definition recorder_new_write :: string where
  "recorder_new_write = ''                  std::string fileName = InterChiplet::sendSync(srcX, srcY, d''
     @ ''stX, dstY);\<newline>'' @ ''                  fprintf(stderr, '' @ [CHR 0x22]
     @ ''recorder-pipe: write begin pipe=%s bytes=%d'' @ [CHR 0x5C] @ ''n'' @ [CHR 0x22]
     @ '', fileName.c_str(), nbytes);\<newline>''
     @ ''                  int pipe_result = global_pipe_comm.write_data(fileName.c_st''
     @ ''r(), data, nbytes);\<newline>'' @ ''                  fprintf(stderr, '' @ [CHR 0x22]
     @ ''recorder-pipe: write end pipe=%s result=%d'' @ [CHR 0x5C] @ ''n'' @ [CHR 0x22]
     @ '', fileName.c_str(), pipe_result);\<newline>                  break;''"

definition recorder_old_read :: string where
  "recorder_old_read = ''                  std::string fileName = InterChiplet::receiveSync(srcX, srcY''
     @ '', dstX, dstY);\<newline>''
     @ ''                  global_pipe_comm.read_data(fileName.c_str(), data, nbytes);''
     @ ''\<newline>'' @ ''                  break;''"

definition recorder_new_read :: string where
  "recorder_new_read = ''                  std::string fileName = InterChiplet::receiveSync(srcX, srcY''
     @ '', dstX, dstY);\<newline>'' @ ''                  fprintf(stderr, '' @ [CHR 0x22]
     @ ''recorder-pipe: read begin pipe=%s bytes=%d'' @ [CHR 0x5C] @ ''n'' @ [CHR 0x22]
     @ '', fileName.c_str(), nbytes);\<newline>''
     @ ''                  int pipe_result = global_pipe_comm.read_data(fileName.c_str''
     @ ''(), data, nbytes);\<newline>'' @ ''                  fprintf(stderr, '' @ [CHR 0x22]
     @ ''recorder-pipe: read end pipe=%s result=%d'' @ [CHR 0x5C] @ ''n'' @ [CHR 0x22]
     @ '', fileName.c_str(), pipe_result);\<newline>                  break;''"

definition pthread_old_clone3 :: string where
  "pthread_old_clone3 = ''         case SYS_clone3_sniper:\<newline>'' @ ''         {\<newline>''
     @ ''            if (args[0] && CLONE_THREAD)\<newline>'' @ ''            {\<newline>''
     @ ''               struct clone_args_sniper'' @ [CHR 0x2A]
     @ '' clone3_args = (struct clone_args_sniper'' @ [CHR 0x2A] @ '')args[0];\<newline>''
     @ ''               ADDRINT tidptr = clone3_args->parent_tid;\<newline>''
     @ ''               PIN_GetLock(&new_threadid_lock, threadid);\<newline>''
     @ ''               tidptrs.push_back(tidptr);\<newline>''
     @ ''               PIN_ReleaseLock(&new_threadid_lock);\<newline>'' @ ''               /''
     @ [CHR 0x2A] @ '' New thread '' @ [CHR 0x2A] @ ''/\<newline>''
     @ ''               thread_data[threadid].output->NewThread();\<newline>''
     @ ''            }\<newline>'' @ ''            else\<newline>'' @ ''            {\<newline>''
     @ ''               /'' @ [CHR 0x2A] @ '' New process '' @ [CHR 0x2A] @ ''/\<newline>''
     @ ''               // Nothing to do there, handled in fork() -> to check SYS_clon''
     @ ''e3 is new\<newline>'' @ ''            }\<newline>'' @ ''            break;\<newline>''
     @ ''         }''"

definition pthread_new_clone3 :: string where
  "pthread_new_clone3 = ''         case SYS_clone3_sniper:\<newline>'' @ ''         {\<newline>''
     @ ''            // Docker'' @ [CHR 0x27]
     @ ''s default seccomp profile can reject clone3, after which\<newline>''
     @ ''            // glibc retries with SYS_clone. Emitting NewThread here would ma''
     @ ''ke\<newline>''
     @ ''            // the trace frontend wait for a child trace that clone3 never\<newline>''
     @ ''            // creates. The successful SYS_clone path below owns NewThread.\<newline>''
     @ ''            fprintf(stderr, '' @ [CHR 0x22] @ ''recorder-pthread: defer clone3 tid=%u''
     @ [CHR 0x5C] @ ''n'' @ [CHR 0x22] @ '', static_cast<unsigned>(threadid));\<newline>''
     @ ''            break;\<newline>'' @ ''         }''"

definition pthread_old_thread :: string where
  "pthread_old_thread = ''static VOID threadStart(THREADID threadid, CONTEXT '' @ [CHR 0x2A]
     @ ''ctxt, INT32 flags, VOID '' @ [CHR 0x2A]
     @ ''v)\<newline>{\<newline>   sift_assert(threadid < max_num_threads);''"

definition pthread_new_thread :: string where
  "pthread_new_thread = ''static VOID threadStart(THREADID threadid, CONTEXT '' @ [CHR 0x2A]
     @ ''ctxt, INT32 flags, VOID '' @ [CHR 0x2A] @ ''v)\<newline>{\<newline>   fprintf(stderr, ''
     @ [CHR 0x22] @ ''recorder-pthread: ThreadStart tid=%u capacity=%u'' @ [CHR 0x5C] @ ''n''
     @ [CHR 0x22] @ '',\<newline>''
     @ ''           static_cast<unsigned>(threadid), max_num_threads);\<newline>''
     @ ''   sift_assert(threadid < max_num_threads);''"

definition drain_expected_stdout :: string where
  "drain_expected_stdout = ''                int res = read(stdout_fd, pipe_buf, PIPE_BUF_SIZE);\<newline>''
     @ ''                if (res <= 0) break;\<newline>'' @ ''                pipe_buf[res] = ''
     @ [CHR 0x27, CHR 0x5C] @ ''0'' @ [CHR 0x27] @ '';''"

definition drain_replacement_stdout :: string where
  "drain_replacement_stdout = ''                int res = read(stdout_fd, pipe_buf, PIPE_BUF_SIZE);\<newline>''
     @ ''                if (res < 0) {\<newline>'' @ ''                    perror('' @ [CHR 0x22]
     @ ''read'' @ [CHR 0x22] @ '');\<newline>'' @ ''                    break;\<newline>''
     @ ''                }\<newline>'' @ ''                if (res == 0) {\<newline>''
     @ ''                    // One stream may close before the other. Do not abandon\<newline>''
     @ ''                    // buffered stderr/stdout from a failing child process.\<newline>''
     @ ''                    close(stdout_fd);\<newline>''
     @ ''                    fd_list[0].fd = -1;\<newline>''
     @ ''                    fd_list[0].events = 0;\<newline>''
     @ ''                    continue;\<newline>'' @ ''                }\<newline>''
     @ ''                pipe_buf[res] = '' @ [CHR 0x27, CHR 0x5C] @ ''0'' @ [CHR 0x27] @ '';''"

definition drain_expected_stderr :: string where
  "drain_expected_stderr = ''                int res = read(stderr_fd, pipe_buf, PIPE_BUF_SIZE);\<newline>''
     @ ''                if (res <= 0) break;\<newline>'' @ ''                pipe_buf[res] = ''
     @ [CHR 0x27, CHR 0x5C] @ ''0'' @ [CHR 0x27] @ '';''"

definition drain_replacement_stderr :: string where
  "drain_replacement_stderr = ''                int res = read(stderr_fd, pipe_buf, PIPE_BUF_SIZE);\<newline>''
     @ ''                if (res < 0) {\<newline>'' @ ''                    perror('' @ [CHR 0x22]
     @ ''read'' @ [CHR 0x22] @ '');\<newline>'' @ ''                    break;\<newline>''
     @ ''                }\<newline>'' @ ''                if (res == 0) {\<newline>''
     @ ''                    // One stream may close before the other. Do not abandon\<newline>''
     @ ''                    // buffered stderr/stdout from a failing child process.\<newline>''
     @ ''                    close(stderr_fd);\<newline>''
     @ ''                    fd_list[1].fd = -1;\<newline>''
     @ ''                    fd_list[1].events = 0;\<newline>''
     @ ''                    continue;\<newline>'' @ ''                }\<newline>''
     @ ''                pipe_buf[res] = '' @ [CHR 0x27, CHR 0x5C] @ ''0'' @ [CHR 0x27] @ '';''"

definition gpgpu_old1 :: string where
  "gpgpu_old1 = ''    global_pipe_comm.write_data(fileName.c_str(), interdata, __nbyte);''"

definition gpgpu_new1 :: string where
  "gpgpu_new1 = ''    int pipe_result = 0;\<newline>''
     @ ''    if (InterChiplet::remotePipeEnabled()) {\<newline>''
     @ ''        pipe_result = InterChiplet::remotePipeWrite(fileName.c_str(), interda''
     @ ''ta, __nbyte);\<newline>'' @ ''    } else {\<newline>''
     @ ''        pipe_result = global_pipe_comm.write_data(fileName.c_str(), interdata''
     @ '', __nbyte);\<newline>'' @ ''    }\<newline>'' @ ''    delete[] interdata;\<newline>''
     @ ''    if (pipe_result != __nbyte) {\<newline>'' @ ''        std::cerr << '' @ [CHR 0x22]
     @ ''GPGPU-Sim PipeComm write failed for '' @ [CHR 0x22]
     @ '' << fileName << std::endl;\<newline>'' @ ''        return cudaErrorUnknown;\<newline>''
     @ ''    }''"

definition gpgpu_old2 :: string where
  "gpgpu_old2 = ''    global_pipe_comm.read_data(fileName.c_str(), interdata, __nbyte);''"

definition gpgpu_new2 :: string where
  "gpgpu_new2 = ''    int pipe_result = 0;\<newline>''
     @ ''    if (InterChiplet::remotePipeEnabled()) {\<newline>''
     @ ''        pipe_result = InterChiplet::remotePipeRead(fileName.c_str(), interdat''
     @ ''a, __nbyte);\<newline>'' @ ''    } else {\<newline>''
     @ ''        pipe_result = global_pipe_comm.read_data(fileName.c_str(), interdata,''
     @ '' __nbyte);\<newline>'' @ ''    }\<newline>''
     @ ''    if (pipe_result != __nbyte) {\<newline>'' @ ''        delete[] interdata;\<newline>''
     @ ''        std::cerr << '' @ [CHR 0x22] @ ''GPGPU-Sim PipeComm read failed for '' @ [CHR 0x22]
     @ '' << fileName << std::endl;\<newline>'' @ ''        return cudaErrorUnknown;\<newline>''
     @ ''    }''"

definition gpgpu_old3 :: string where
  "gpgpu_old3 = ''    delete interdata;\<newline>\<newline>    return cudaSuccess;''"

definition gpgpu_new3 :: string where
  "gpgpu_new3 = ''    delete[] interdata;\<newline>\<newline>    return cudaSuccess;''"

definition gpgpu_old4 :: string where
  "gpgpu_old4 = ''    cudaConfigureCallInternal(gridDim, blockDim, sharedMem, stream);\<newline>''
     @ ''}\<newline>'' @ ''\<newline>'' @ ''cudaError_t CUDARTAPI __cudaPopCallConfiguration''"

definition gpgpu_new4 :: string where
  "gpgpu_new4 = ''    return cudaConfigureCallInternal(gridDim, blockDim, sharedMem, stream);\<newline>''
     @ ''}\<newline>'' @ ''\<newline>'' @ ''cudaError_t CUDARTAPI __cudaPopCallConfiguration''"

definition pipe_old1 :: string where
  "pipe_old1 = ''    int read_data(const char '' @ [CHR 0x2A] @ ''file_name, void '' @ [CHR 0x2A]
     @ ''buf, int nbyte) {''"

definition pipe_new1 :: string where
  "pipe_new1 = ''    int read_data(const char '' @ [CHR 0x2A] @ ''file_name, void '' @ [CHR 0x2A]
     @ ''buf, int nbyte) {\<newline>''
     @ ''        if (remotePipeEnabled()) return remotePipeRead(file_name, buf, nbyte)'' @ '';''"

definition pipe_old2 :: string where
  "pipe_old2 = ''    int write_data(const char '' @ [CHR 0x2A] @ ''file_name, void '' @ [CHR 0x2A]
     @ ''buf, int nbyte) {''"

definition pipe_new2 :: string where
  "pipe_new2 = ''    int write_data(const char '' @ [CHR 0x2A] @ ''file_name, void '' @ [CHR 0x2A]
     @ ''buf, int nbyte) {\<newline>''
     @ ''        if (remotePipeEnabled()) return remotePipeWrite(file_name, buf, nbyte'' @ '');''"

definition overlay_upstream_root :: string where
  "overlay_upstream_root = ''return std::string(env_p) + '' @ [CHR 0x22] @ ''/benchmark/MLP_NVL/''
     @ [CHR 0x22] @ '';''"

definition overlay_image_root :: string where
  "overlay_image_root = ''return std::string(env_p) + '' @ [CHR 0x22] @ ''/artifact/MLP/''
     @ [CHR 0x22] @ '';''"

definition overlay_legacy_pipeline :: string where
  "overlay_legacy_pipeline = ''| sed '' @ [CHR 0x27] @ ''s/[=,]//g'' @ [CHR 0x27] @ '' | sed ''
     @ [CHR 0x27] @ ''s/'' @ [CHR 0x5C] @ ''([_A-Z1-9]'' @ [CHR 0x5C] @ ''+'' @ [CHR 0x5C]
     @ '')[ ]'' @ [CHR 0x5C] @ ''+'' @ [CHR 0x5C] @ ''([0-9]'' @ [CHR 0x5C] @ ''+'' @ [CHR 0x5C]
     @ '')/'' @ [CHR 0x5C] @ ''1 '' @ [CHR 0x5C] @ ''1/'' @ [CHR 0x27]"

definition overlay_fixed_pipeline :: string where
  "overlay_fixed_pipeline = ''| sed '' @ [CHR 0x27] @ ''s/[=,]//g'' @ [CHR 0x27] @ '' | sed ''
     @ [CHR 0x27] @ ''s'' @ [CHR 0x40] @ ''/'' @ [CHR 0x5C, CHR 0x2A] @ ''.''
     @ [CHR 0x2A, CHR 0x5C, CHR 0x2A] @ ''/'' @ [CHR 0x40, CHR 0x40, CHR 0x27] @ '' | sed ''
     @ [CHR 0x27] @ ''s/'' @ [CHR 0x5C] @ ''([_A-Z1-9]'' @ [CHR 0x5C] @ ''+'' @ [CHR 0x5C]
     @ '')[ ]'' @ [CHR 0x5C] @ ''+'' @ [CHR 0x5C] @ ''([0-9]'' @ [CHR 0x5C] @ ''+'' @ [CHR 0x5C]
     @ '')/'' @ [CHR 0x5C] @ ''1 '' @ [CHR 0x5C] @ ''1/'' @ [CHR 0x27]"

definition overlay_mnsim_command :: string where
  "overlay_mnsim_command = ''system('' @ [CHR 0x22]
     @ ''cd /home/qc/test_simulator/Chiplet_Heterogeneous_newVersion/MNSIMChiplet; pip''
     @ '' install torch torchvision ; python3 MNSIM_Chiplet.py -ID1 0 -ID2 2'' @ [CHR 0x22] @ '');''"

definition overlay_reproducible_command :: string where
  "overlay_reproducible_command = ''system('' @ [CHR 0x22]
     @ ''cd /opt/legosim/MNSIMChiplet; PYTHONPATH=/opt/legosim/MNSIMChiplet/MNSIM pyth''
     @ ''on3 MNSIM_Chiplet.py -ID1 0 -ID2 2'' @ [CHR 0x22] @ '');''"

section \<open>Files\<close>

text \<open>A file tree, and programs that read and write it; a raise keeps the writes made before it.\<close>

type_synonym tree = "string \<Rightarrow> string option"
type_synonym 'a fs = "tree \<Rightarrow> tree \<times> 'a res"

definition bindF :: "'a fs \<Rightarrow> ('a \<Rightarrow> 'b fs) \<Rightarrow> 'b fs" where
  "bindF m f = (\<lambda>t. case m t of (t', Inl e) \<Rightarrow> (t', Inl e) | (t', Inr x) \<Rightarrow> f x t')"

definition returnF :: "'a \<Rightarrow> 'a fs" where
  "returnF x = (\<lambda>t. (t, Inr x))"

definition raiseF :: "py_error \<Rightarrow> 'a fs" where
  "raiseF e = (\<lambda>t. (t, Inl e))"

definition read_text :: "string \<Rightarrow> string fs" where
  "read_text path = (\<lambda>t. case t path of None \<Rightarrow> (t, Inl (FileNotFoundError path)) | Some s \<Rightarrow> (t, Inr s))"

definition write_text :: "string \<Rightarrow> string \<Rightarrow> unit fs" where
  "write_text path s = (\<lambda>t. (t(path \<mapsto> s), Inr ()))"

primrec forF :: "('a \<Rightarrow> unit fs) \<Rightarrow> 'a list \<Rightarrow> unit fs" where
  "forF f [] = returnF ()"
| "forF f (x # xs) = bindF (f x) (\<lambda>_. forF f xs)"

section \<open>One fragment\<close>

text \<open>The step shared by the scripts: keep a patched source, refuse an unknown one, replace once.\<close>

definition replace_once :: "string \<Rightarrow> string \<Rightarrow> string \<Rightarrow> string \<Rightarrow> string res" where
  "replace_once description old new source =
     (if sublist new source then Inr source
      else if \<not> sublist old source then Inl (RuntimeError (''unexpected '' @ description @ '' fragment''))
      else Inr (replace1 old new source))"

text \<open>\<open>if marker not in source: ... source.replace(anchor, include, 1)\<close>.\<close>

definition insert_include :: "string \<Rightarrow> string \<Rightarrow> string \<Rightarrow> string \<Rightarrow> string \<Rightarrow> string res" where
  "insert_include marker anchor included message source =
     (if sublist marker source then Inr source
      else if \<not> sublist anchor source then Inl (RuntimeError message)
      else Inr (replace1 anchor included source))"

section \<open>The scripts\<close>

definition patch_bfs :: "string \<Rightarrow> string res" where
  "patch_bfs source =
     (if sublist bfs_NEW source then Inr source
      else if \<not> sublist bfs_OLD source then Inl (RuntimeError ''unexpected upstream BFS frontier loop: /opt/legosim/artifact/bfs_cuda/bfs.cu'')
      else Inr (replace_all bfs_OLD bfs_NEW source))"

definition patch_quiet_api_log :: "string \<Rightarrow> string res" where
  "patch_quiet_api_log source =
     (if sublist quiet_NEW source then Inr source
      else if \<not> sublist quiet_OLD source then Inl (RuntimeError ''unexpected GPGPU-Sim announce_call definition: /opt/legosim/gpgpu-sim/libcuda/cuda_runtime_api.cc'')
      else Inr (replace_all quiet_OLD quiet_NEW source))"

definition patch_train_iterations :: "string \<Rightarrow> string res" where
  "patch_train_iterations source =
     (if sublist train_NEW source then Inr source
      else if \<not> sublist train_OLD source then Inl (RuntimeError ''unexpected upstream MLP training call: /opt/legosim/artifact/MLP/mlp.cpp'')
      else Inr (replace1 train_OLD train_NEW source))"

definition gpgpu_include_anchor :: string where
  "gpgpu_include_anchor = ''#include '' @ [CHR 0x22] @ ''pipe_comm.h'' @ [CHR 0x22, newline]"

definition remote_include :: string where
  "remote_include = ''#include '' @ [CHR 0x22] @ ''remote_pipe_comm.h'' @ [CHR 0x22]"

definition patch_gpgpusim_source :: "string \<Rightarrow> string res" where
  "patch_gpgpusim_source source =
     bindE (insert_include remote_include gpgpu_include_anchor (gpgpu_include_anchor @ remote_include @ [newline])
              ''cannot locate GPGPU-Sim PipeComm include'' source) (\<lambda>s0.
     bindE (replace_once ''GPGPU-Sim sendMessage write'' gpgpu_old1 gpgpu_new1 s0) (\<lambda>s1.
     bindE (replace_once ''GPGPU-Sim receiveMessage read'' gpgpu_old2 gpgpu_new2 s1) (\<lambda>s2.
     bindE (replace_once ''GPGPU-Sim receiveMessage array cleanup'' gpgpu_old3 gpgpu_new3 s2) (\<lambda>s3.
     replace_once ''GPGPU-Sim __cudaPushCallConfiguration return'' gpgpu_old4 gpgpu_new4 s3))))"

definition sync_include_anchor :: string where
  "sync_include_anchor = ''#include '' @ [CHR 0x22] @ ''sync_protocol.h'' @ [CHR 0x22, newline]"

definition patch_pipe_comm_source :: "string \<Rightarrow> string res" where
  "patch_pipe_comm_source source =
     bindE (insert_include remote_include sync_include_anchor (sync_include_anchor @ remote_include @ [newline])
              ''cannot locate PipeComm include insertion point'' source) (\<lambda>s0.
     bindE (replace_once ''PipeComm read method'' pipe_old1 pipe_new1 s0) (\<lambda>s1.
     replace_once ''PipeComm write method'' pipe_old2 pipe_new2 s1))"

text \<open>\<open>main\<close> of \<open>patch_pipe_comm_remote.py\<close>: the header is copied before the source is read.\<close>

definition patch_pipe_comm :: "string list \<Rightarrow> unit fs" where
  "patch_pipe_comm arguments =
     (case arguments of
        [pipe_path, remote_path, output_path] \<Rightarrow>
          bindF (read_text remote_path) (\<lambda>remote.
          bindF (write_text output_path remote) (\<lambda>_.
          bindF (read_text pipe_path) (\<lambda>source.
          (case patch_pipe_comm_source source of Inl e \<Rightarrow> raiseF e | Inr patched \<Rightarrow> write_text pipe_path patched))))
      | _ \<Rightarrow> raiseF (SystemExit ''usage: patch_pipe_comm_remote.py PIPE_COMM_H REMOTE_PIPE_COMM_H OUTPUT_HEADER''))"

definition patch_pipe_drain :: "string \<Rightarrow> string res" where
  "patch_pipe_drain source =
     foldE (\<lambda>(descriptor, expected, replacement) s.
        if \<not> sublist expected s
        then Inl (RuntimeError (''expected child pipe read block not found for '' @ descriptor))
        else Inr (replace1 expected replacement s))
       [(''stdout_fd'', drain_expected_stdout, drain_replacement_stdout),
        (''stderr_fd'', drain_expected_stderr, drain_replacement_stderr)] source"

definition patch_bounded_iterations :: "string \<Rightarrow> string res" where
  "patch_bounded_iterations source =
     (if sublist bounded_NEW_LOOP source then Inr source
      else if \<not> sublist bounded_OLD_INCLUDE source \<or> \<not> sublist bounded_OLD_LOOP source
           \<or> \<not> sublist bounded_OLD_TAIL source
      then Inl (RuntimeError ''unexpected upstream MLP CUDA worker layout: /opt/legosim/artifact/MLP/mlp.cu'')
      else Inr (replace1 bounded_OLD_TAIL bounded_NEW_TAIL (replace1 bounded_OLD_LOOP bounded_NEW_LOOP
             (replace1 bounded_OLD_INCLUDE bounded_NEW_INCLUDE source))))"

definition patch_parallel_tasks :: "string \<Rightarrow> string res" where
  "patch_parallel_tasks source =
     (if sublist parallel_NEW_TOGGLER source \<and> sublist parallel_NEW_BACKWARD source then Inr source
      else foldE (\<lambda>(old, new) s. if \<not> sublist old s then Inl (RuntimeError ''unexpected upstream MLP block in /opt/legosim/artifact/MLP/mlp.cpp'')
                                 else Inr (replace1 old new s))
             [(parallel_OLD_TOGGLER, parallel_NEW_TOGGLER), (parallel_OLD_LAUNCH, parallel_NEW_LAUNCH),
              (parallel_OLD_BACKWARD, parallel_NEW_BACKWARD)] source)"

definition patch_mnsim_command :: "string \<Rightarrow> string res" where
  "patch_mnsim_command source =
     (if \<not> sublist mnsim_NEW_COMMAND source \<or> \<not> sublist mnsim_NEW_RESULT source
      then (if \<not> sublist mnsim_OLD_COMMAND source \<or> \<not> sublist mnsim_OLD_RESULT source
            then Inl (RuntimeError ''unexpected upstream MNSIM layout: /opt/legosim/artifact/MLP/mnsim.cpp'')
            else Inr (replace1 mnsim_OLD_RESULT mnsim_NEW_RESULT (replace1 mnsim_OLD_COMMAND mnsim_NEW_COMMAND source)))
      else if sublist mnsim_OLD_COMMAND source \<or> sublist mnsim_OLD_RESULT source
      then Inl (RuntimeError ''unexpected upstream MNSIM layout: /opt/legosim/artifact/MLP/mnsim.cpp'') else Inr source)"

definition mnsim_source_path :: string where
  "mnsim_source_path = ''/opt/legosim/artifact/MLP/mnsim.cpp''"

definition mnsim_python_path :: string where
  "mnsim_python_path = ''/opt/legosim/MNSIMChiplet/MNSIM_Chiplet.py''"

text \<open>One of the rewrites of the Python file; the file is read again before each of them.\<close>

definition rewrite_python :: "string \<Rightarrow> (string \<Rightarrow> string) \<Rightarrow> string option \<Rightarrow> string \<Rightarrow> unit fs" where
  "rewrite_python old new accepted message =
     bindF (read_text mnsim_python_path) (\<lambda>python_source.
       if sublist old python_source then write_text mnsim_python_path (new python_source)
       else case accepted of
         None \<Rightarrow> returnF ()
       | Some present \<Rightarrow> if sublist present python_source then returnF () else raiseF (RuntimeError message))"

definition patch_mnsim_runtime :: "unit fs" where
  "patch_mnsim_runtime =
     bindF (read_text mnsim_source_path) (\<lambda>source.
       if sublist mnsim_COMPAT_BACKEND_MARKER source then returnF ()
       else (case patch_mnsim_command source of
               Inl e \<Rightarrow> raiseF e
             | Inr patched \<Rightarrow>
                 bindF (if patched = source then returnF () else write_text mnsim_source_path patched) (\<lambda>_.
                 bindF (rewrite_python mnsim_OLD_CONFIG_PATH (replace_all mnsim_OLD_CONFIG_PATH mnsim_NEW_CONFIG_PATH)
                          (Some mnsim_NEW_CONFIG_PATH) ''unexpected MNSIM Python layout: /opt/legosim/MNSIMChiplet/MNSIM_Chiplet.py'') (\<lambda>_.
                 bindF (rewrite_python mnsim_OLD_MAIN_COMMAND (replace1 mnsim_OLD_MAIN_COMMAND mnsim_NEW_MAIN_COMMAND)
                          (Some mnsim_NEW_MAIN_COMMAND) ''unexpected MNSIM command layout: /opt/legosim/MNSIMChiplet/MNSIM_Chiplet.py'') (\<lambda>_.
                 rewrite_python mnsim_OLD_ID_ARGUMENTS (replace1 mnsim_OLD_ID_ARGUMENTS []) None [])))))"

definition patch_clone3 :: "string \<Rightarrow> string res" where
  "patch_clone3 source =
     (if \<not> sublist clone3_old source then Inl (RuntimeError ''unexpected Sniper clone3 handler'')
      else Inr (replace1 clone3_old clone3_new source))"

text \<open>The diagnostics script patches two files; the first is written before the second is read.\<close>

definition patch_pthread_diagnostics :: "unit fs" where
  "patch_pthread_diagnostics =
     bindF (read_text ''/opt/legosim/snipersim/sift/recorder/syscall_modeling.cc'') (\<lambda>source.
       if \<not> sublist pthread_old_clone3 source then raiseF (RuntimeError ''unexpected clone3 handler'')
       else bindF (write_text ''/opt/legosim/snipersim/sift/recorder/syscall_modeling.cc''
                     (replace1 pthread_old_clone3 pthread_new_clone3 source)) (\<lambda>_.
            bindF (read_text ''/opt/legosim/snipersim/sift/recorder/threads.cc'') (\<lambda>source.
            if \<not> sublist pthread_old_thread source then raiseF (RuntimeError ''unexpected threadStart handler'')
            else write_text ''/opt/legosim/snipersim/sift/recorder/threads.cc''
                   (replace1 pthread_old_thread pthread_new_thread source))))"

definition patch_recorder_diagnostics :: "string \<Rightarrow> string res" where
  "patch_recorder_diagnostics source =
     foldE (\<lambda>(old, new, name) s.
        if sublist new s then Inr s
        else if \<not> sublist old s then Inl (RuntimeError (''unexpected Sniper recorder '' @ name @ '' handler''))
        else Inr (replace1 old new s))
       [(recorder_old_write, recorder_new_write, ''write''), (recorder_old_read, recorder_new_read, ''read'')] source"

section \<open>The overlay\<close>

definition overlay_pipe_comm :: "string \<Rightarrow> string res" where
  "overlay_pipe_comm source =
     (if sublist ''remotePipeEnabled'' source then Inr source
      else
        (let anchor = butlast sync_include_anchor;
             s1 = replace_all anchor (anchor @ newline # remote_include) source;
             s2 = replace_all pipe_old1 pipe_new1 s1;
             s3 = replace_all pipe_old2 pipe_new2 s2
         in if \<not> sublist ''remotePipeEnabled'' s3
            then Inl (RuntimeError ''upstream PipeComm layout did not match the expected revision'') else Inr s3))"

definition overlay_makefile :: "string \<Rightarrow> string res" where
  "overlay_makefile source =
     (if sublist overlay_fixed_pipeline source then Inr source
      else if \<not> sublist overlay_legacy_pipeline source
      then Inl (RuntimeError ''upstream GPGPU-Sim token-generator layout did not match the expected revision'')
      else Inr (replace_all overlay_legacy_pipeline overlay_fixed_pipeline source))"

definition rewrite_file :: "string \<Rightarrow> (string \<Rightarrow> string res) \<Rightarrow> unit fs" where
  "rewrite_file path f =
     bindF (read_text path) (\<lambda>source.
       case f source of
         Inl e \<Rightarrow> raiseF e
       | Inr patched \<Rightarrow> if patched = source then returnF () else write_text path patched)"

text \<open>\<open>if new not in source and old in source: write(source.replace(old, new))\<close>.\<close>

definition replace_if_known :: "string \<Rightarrow> string \<Rightarrow> string \<Rightarrow> string res" where
  "replace_if_known old new source =
     Inr (if \<not> sublist new source \<and> sublist old source then replace_all old new source else source)"

definition apply_overlay :: "string \<Rightarrow> string \<Rightarrow> unit fs" where
  "apply_overlay legosim_root overlay_root =
     bindF (read_text (overlay_root @ ''/remote_pipe_comm.h'')) (\<lambda>overlay.
     bindF (write_text (legosim_root @ ''/interchiplet/includes/remote_pipe_comm.h'') overlay) (\<lambda>_.
     bindF (forF (\<lambda>relative_path.
              bindF (read_text (overlay_root @ ''/mnsim_compat.cpp'')) (\<lambda>task.
              write_text (legosim_root @ ''/'' @ relative_path) task))
            [''artifact/MLP/mnsim.cpp'', ''artifact/bfs_cuda/mnsim.cpp'', ''benchmark/resnet/mnsim.cpp'']) (\<lambda>_.
     bindF (rewrite_file (legosim_root @ ''/artifact/MLP/mlp.cpp'')
              (replace_if_known overlay_upstream_root overlay_image_root)) (\<lambda>_.
     bindF (rewrite_file (legosim_root @ ''/gpgpu-sim/src/cuda-sim/Makefile'') overlay_makefile) (\<lambda>_.
     bindF (rewrite_file (legosim_root @ ''/interchiplet/includes/pipe_comm.h'') overlay_pipe_comm) (\<lambda>_.
     forF (\<lambda>relative_path. rewrite_file (legosim_root @ ''/'' @ relative_path)
             (replace_if_known overlay_mnsim_command overlay_reproducible_command))
       [''artifact/MLP/mnsim.cpp'', ''artifact/bfs_cuda/mnsim.cpp'']))))))"

section \<open>Properties\<close>

lemma replace_all_contains_new: "old \<noteq> [] \<Longrightarrow> sublist old s \<Longrightarrow> sublist new (replace_all old new s)"
proof (induction s)
  case (Cons c cs)
  show ?case
  proof (cases "prefix old (c # cs)")
    case True
    then show ?thesis using Cons.prems(1) by (subst replace_all.simps) (simp add: sublist_append)
  next
    case False
    with Cons have "sublist new (replace_all old new cs)" by (auto simp: sublist_Cons_right)
    with False Cons.prems(1) show ?thesis by (subst replace_all.simps) (simp add: sublist_Cons_right)
  qed
qed simp

text \<open>
  The replacement step of the patch scripts: it succeeds exactly when the new or the old fragment
  is there; a result contains the new fragment; on a source that lacks the new fragment exactly one
  occurrence of the old fragment is replaced and everything around it is kept; a second application
  changes nothing.
\<close>

theorem replace_once_contract:
  "((\<exists>t. replace_once d old new s = Inr t) \<longleftrightarrow> sublist new s \<or> sublist old s)
   \<and> \<not> (\<exists>t. replace_once d old new s = Inr t \<and>
          \<not> (sublist new t \<and> replace_once d old new t = Inr t
             \<and> (t = s \<or> (\<exists>p q. s = p @ old @ q \<and> t = p @ new @ q))))"
proof -
  have "sublist new t \<and> replace_once d old new t = Inr t \<and> (t = s \<or> (\<exists>p q. s = p @ old @ q \<and> t = p @ new @ q))"
    if "replace_once d old new s = Inr t" for t
    using that replace1_contains_new [of old s new] replace1_occurrence [of old s new]
    by (auto simp: replace_once_def split: if_splits)
  moreover have "(\<exists>t. replace_once d old new s = Inr t) \<longleftrightarrow> sublist new s \<or> sublist old s"
    by (simp add: replace_once_def)
  ultimately show ?thesis by blast
qed

text \<open>
  The scripts that patch one fragment are idempotent: what \<open>patch_bfs\<close>, \<open>patch_quiet_api_log\<close> or
  \<open>patch_train_iterations\<close> return contains the new fragment and is returned unchanged by a second run.
\<close>

theorem single_fragment_patches_idempotent:
  "\<not> (\<exists>s t. patch_bfs s = Inr t \<and> \<not> (sublist bfs_NEW t \<and> patch_bfs t = Inr t))
   \<and> \<not> (\<exists>s t. patch_quiet_api_log s = Inr t \<and> \<not> (sublist quiet_NEW t \<and> patch_quiet_api_log t = Inr t))
   \<and> \<not> (\<exists>s t. patch_train_iterations s = Inr t \<and> \<not> (sublist train_NEW t \<and> patch_train_iterations t = Inr t))"
proof -
  have ne: "bfs_OLD \<noteq> []" "quiet_OLD \<noteq> []" by (simp_all add: bfs_OLD_def quiet_OLD_def)
  have "sublist bfs_NEW t \<and> patch_bfs t = Inr t" if "patch_bfs s = Inr t" for s t
    using that replace_all_contains_new [OF ne(1), of s bfs_NEW] by (auto simp: patch_bfs_def split: if_splits)
  moreover have "sublist quiet_NEW t \<and> patch_quiet_api_log t = Inr t" if "patch_quiet_api_log s = Inr t" for s t
    using that replace_all_contains_new [OF ne(2), of s quiet_NEW]
    by (auto simp: patch_quiet_api_log_def split: if_splits)
  moreover have "sublist train_NEW t \<and> patch_train_iterations t = Inr t" if "patch_train_iterations s = Inr t" for s t
    using that replace1_contains_new [of train_OLD s train_NEW]
    by (auto simp: patch_train_iterations_def split: if_splits)
  ultimately show ?thesis by blast
qed

lemma sublist_step: "sublist xs (y # ys) \<longleftrightarrow> prefix xs (y # ys) \<or> sublist xs ys"
  by (rule sublist_Cons_right)

lemma replace_all_first:
  assumes "old \<noteq> []" and "\<not> sublist old (p @ butlast old)"
  shows "replace_all old new (p @ old @ q) = p @ new @ replace_all old new q"
  using assms(2)
proof (induction p)
  case Nil
  obtain c cs where "old = c # cs" using assms(1) by (cases old) auto
  then show ?case by (subst replace_all.simps) simp
next
  case (Cons c p)
  have "\<not> prefix old (c # p @ old @ q)"
  proof
    assume a: "prefix old (c # p @ old @ q)"
    have "c # p @ old @ q = ((c # p) @ butlast old) @ (last old # q)" using assms(1) by simp
    moreover have "length old \<le> length ((c # p) @ butlast old)" using assms(1) by (cases old) auto
    ultimately have "prefix old ((c # p) @ butlast old)"
      using a by (metis prefix_length_prefix prefixI)
    with Cons.prems show False by (simp add: prefix_imp_sublist)
  qed
  moreover have "\<not> sublist old (p @ butlast old)" using Cons.prems by (simp add: sublist_Cons_right)
  ultimately show ?case using Cons.IH assms(1) by (subst replace_all.simps) simp
qed

definition half_header :: string where
  "half_header = sync_include_anchor @ pipe_old1"

lemma half_header_overlay:
  "overlay_pipe_comm half_header = Inr (sync_include_anchor @ remote_include @ newline # pipe_new1)"
proof -
  let ?a = "butlast sync_include_anchor"
  have anchor: "sync_include_anchor = ?a @ [newline]" "?a \<noteq> []" by (simp_all add: sync_include_anchor_def)
  have ne: "pipe_old1 \<noteq> []" "pipe_old2 \<noteq> []" by (simp_all add: pipe_old1_def pipe_old2_def)
  have "\<not> sublist ?a (newline # pipe_old1)" "\<not> sublist ?a ([] @ butlast ?a)"
    by (simp_all add: sync_include_anchor_def pipe_old1_def newline_def sublist_step)
  with anchor(2) have r1: "replace_all ?a x (?a @ newline # pipe_old1) = x @ newline # pipe_old1" for x
    using replace_all_first [of ?a "[]" x "newline # pipe_old1"] by (simp add: replace_all_no_occurrence)
  have "\<not> sublist pipe_old1 ((?a @ newline # remote_include @ [newline]) @ butlast pipe_old1)"
    by (simp add: sync_include_anchor_def remote_include_def pipe_old1_def newline_def sublist_step)
  then have r2: "replace_all pipe_old1 pipe_new1 ((?a @ newline # remote_include @ [newline]) @ pipe_old1)
      = (?a @ newline # remote_include @ [newline]) @ pipe_new1"
    using replace_all_first [OF ne(1), of "?a @ newline # remote_include @ [newline]" pipe_new1 "[]"]
    by (simp add: replace_all_no_occurrence ne)
  have r3: "replace_all pipe_old2 pipe_new2 ((?a @ newline # remote_include @ [newline]) @ pipe_new1)
      = (?a @ newline # remote_include @ [newline]) @ pipe_new1"
    by (rule replace_all_no_occurrence [OF ne(2)])
      (simp add: sync_include_anchor_def remote_include_def pipe_old2_def pipe_new1_def newline_def sublist_step)
  have fresh: "\<not> sublist ''remotePipeEnabled'' half_header"
    by (simp add: half_header_def sync_include_anchor_def pipe_old1_def newline_def sublist_step)
  have "sublist ''remotePipeEnabled'' pipe_new1" by (simp add: pipe_new1_def sublist_step)
  then have there: "sublist ''remotePipeEnabled'' ((?a @ newline # remote_include @ [newline]) @ pipe_new1)"
    by (rule sublist_order.order.trans) (rule sublist_append_leftI)
  have "half_header = ?a @ newline # pipe_old1" unfolding half_header_def by (subst anchor(1)) simp
  then show ?thesis
    using r1 r2 r3 fresh there anchor(1)
    unfolding overlay_pipe_comm_def Let_def by (metis append.assoc append_Cons append_Nil)
qed

lemma half_header_no_write: "\<not> sublist ''remotePipeWrite'' (sync_include_anchor @ remote_include @ newline # pipe_new1)"
  by (simp add: sync_include_anchor_def remote_include_def pipe_new1_def newline_def sublist_step)

lemma half_header_refused: "\<exists>e. patch_pipe_comm_source half_header = Inl e"
proof -
  have "\<not> sublist remote_include half_header" "sublist sync_include_anchor half_header"
    by (simp_all add: half_header_def sync_include_anchor_def remote_include_def pipe_old1_def newline_def sublist_step)
  moreover have "replace1 sync_include_anchor (sync_include_anchor @ remote_include @ [newline]) half_header
      = sync_include_anchor @ remote_include @ newline # pipe_old1"
    by (simp add: half_header_def sync_include_anchor_def)
  moreover have "replace_once ''PipeComm read method'' pipe_old1 pipe_new1 (sync_include_anchor @ remote_include @ newline # pipe_old1)
      = Inr (sync_include_anchor @ remote_include @ newline # pipe_new1)"
    by (simp add: replace_once_def sync_include_anchor_def remote_include_def pipe_old1_def pipe_new1_def newline_def sublist_step)
  moreover have "\<not> sublist pipe_old2 (sync_include_anchor @ remote_include @ newline # pipe_new1)"
    "\<not> sublist pipe_new2 (sync_include_anchor @ remote_include @ newline # pipe_new1)"
    by (simp_all add: sync_include_anchor_def remote_include_def pipe_old2_def pipe_new2_def pipe_new1_def newline_def sublist_step)
  ultimately show ?thesis
    by (simp add: patch_pipe_comm_source_def insert_include_def) (simp add: replace_once_def)
qed

text \<open>
  C16. The overlay accepts a PipeComm header of which it patched only half: on a header that has the
  expected \<open>read_data\<close> method but not the expected \<open>write_data\<close> method it reports success and the
  result has no remote write, while the patch script for the same header refuses it.
\<close>

theorem overlay_accepts_partial_layout:
  "\<exists>source t. overlay_pipe_comm source = Inr t \<and> sublist pipe_new1 t \<and> \<not> sublist ''remotePipeWrite'' t
     \<and> (\<exists>e. patch_pipe_comm_source source = Inl e)"
proof (intro exI conjI)
  show "overlay_pipe_comm half_header = Inr (sync_include_anchor @ remote_include @ newline # pipe_new1)"
    by (rule half_header_overlay)
  show "sublist pipe_new1 (sync_include_anchor @ remote_include @ newline # pipe_new1)"
    using sublist_append_leftI [of pipe_new1 "sync_include_anchor @ remote_include @ [newline]"] by simp
  show "patch_pipe_comm_source half_header = Inl (projl (patch_pipe_comm_source half_header))"
    using half_header_refused by auto
qed (rule half_header_no_write)

end
