(* ===== verification/PlatformNode.thy ===== *)
theory PlatformNode
  imports FifoBroker Complex_Main
begin

text \<open>
  The Docker-node platform: the experiment driver that places four CPU, eight GPU and one ns-3 simlet on
  one to eight containers (\<open>scripts/run_experiments.py\<close>) and the program of each container
  (\<open>platform/node.py\<close>). A request between containers is a call of the target's \<open>dispatch\<close>; since a
  handler may send requests itself, \<open>dispatch\<close> takes the number of nested requests that may be open.
  Replies arrive within the request's timeout.
  The readings of \<open>perf_counter_ns\<close> by one GPU coroutine are a function of their number; the ns-3
  program is a parameter.
\<close>

section \<open>The experiment configuration\<close>

record profile =
  pr_label :: string
  pr_rounds :: nat
  pr_input_messages :: nat
  pr_payload_bytes :: int
  pr_result_bytes :: int
  pr_cpu_compute_ms :: int
  pr_gpu_compute_ms :: int

definition profile_of :: "string \<Rightarrow> nat \<Rightarrow> nat \<Rightarrow> int \<Rightarrow> int \<Rightarrow> int \<Rightarrow> int \<Rightarrow> profile" where
  "profile_of label rounds messages payload result cpu gpu = \<lparr>pr_label = label, pr_rounds = rounds,
     pr_input_messages = messages, pr_payload_bytes = payload, pr_result_bytes = result,
     pr_cpu_compute_ms = cpu, pr_gpu_compute_ms = gpu\<rparr>"

definition WORKLOADS :: "(string, profile) dict" where
  "WORKLOADS =
     [(''mlp'', profile_of ''MLP'' 6 2 262144 32768 8 35),
      (''dlrm'', profile_of ''DLRM'' 8 3 65536 16384 5 22),
      (''resnet50'', profile_of ''ResNet-50'' 5 2 393216 65536 7 30),
      (''mixtral8x7b'', profile_of ''Mixtral-8x7B'' 10 2 524288 131072 5 18),
      (''bfs'', profile_of ''BFS'' 12 2 24576 8192 2 6),
      (''fft'', profile_of ''FFT'' 8 2 131072 32768 3 12),
      (''pagerank'', profile_of ''PageRank'' 10 2 32768 16384 2 8),
      (''pde'', profile_of ''PDE'' 7 2 98304 24576 4 16)]"

definition placements :: "(nat, (string, string list) dict) dict" where
  "placements =
     [(1, [(''0'', [''cpu0'', ''cpu1'', ''cpu2'', ''cpu3'', ''gpu0'', ''gpu1'', ''gpu2'', ''gpu3'', ''gpu4'', ''gpu5'',
             ''gpu6'', ''gpu7'', ''ns3''])]),
      (2, [(''0'', [''cpu0'', ''cpu1'', ''gpu0'', ''gpu2'', ''gpu4'', ''gpu6'']),
           (''1'', [''cpu2'', ''cpu3'', ''gpu1'', ''gpu3'', ''gpu5'', ''gpu7'', ''ns3''])]),
      (4, [(''0'', [''cpu0'', ''gpu0'', ''gpu3'']), (''1'', [''cpu1'', ''gpu2'', ''gpu5'']),
           (''2'', [''cpu2'', ''gpu4'', ''gpu7'']), (''3'', [''cpu3'', ''gpu6'', ''gpu1'', ''ns3''])]),
      (8, [(''0'', [''cpu0'', ''gpu0'']), (''1'', [''cpu1'', ''gpu2'']), (''2'', [''cpu2'', ''gpu4'']),
           (''3'', [''cpu3'', ''gpu6'']), (''4'', [''gpu1'']), (''5'', [''gpu3'']), (''6'', [''gpu5'']),
           (''7'', [''gpu7'', ''ns3''])])]"

definition placement_for :: "nat \<Rightarrow> (string, string list) dict res" where
  "placement_for container_count =
     (case map_of placements container_count of
        None \<Rightarrow> Inl (KeyError (show_nat container_count)) | Some p \<Rightarrow> Inr p)"

record platform_config =
  cf_run_id :: string
  cf_benchmark :: string
  cf_container_count :: nat
  cf_placement :: "(string, string list) dict"
  cf_proxies :: "int list"
  cf_bandwidth_mbps :: int
  cf_propagation_us :: int
  cf_workload :: profile

definition run_config :: "string \<Rightarrow> nat \<Rightarrow> nat \<Rightarrow> platform_config res" where
  "run_config benchmark container_count repetition =
     bindE (placement_for container_count) (\<lambda>placement.
     bindE (dict_item WORKLOADS benchmark) (\<lambda>workload.
       Inr \<lparr>cf_run_id = benchmark @ ''-nodes'' @ show_nat container_count @ ''-rep'' @ show_nat repetition,
            cf_benchmark = pr_label workload, cf_container_count = container_count, cf_placement = placement,
            cf_proxies = [], cf_bandwidth_mbps = 1000, cf_propagation_us = 10, cf_workload = workload\<rparr>))"

text \<open>The Compose services: a host name and the node id it is started with.\<close>

definition compose_services :: "platform_config \<Rightarrow> (string, string) dict" where
  "compose_services cfg = map (\<lambda>(node_id, _). (''node'' @ node_id, node_id)) (cf_placement cfg)"

section \<open>A node\<close>

record platform_env =
  en_codec :: codec
  en_ns3 :: "int \<Rightarrow> int \<Rightarrow> int \<Rightarrow> int res"
  en_clock :: "string \<Rightarrow> nat \<Rightarrow> int"

definition node_roles :: "platform_config \<Rightarrow> string \<Rightarrow> string list option" where
  "node_roles cfg host = Option.bind (map_of (compose_services cfg) host) (map_of (cf_placement cfg))"

definition host_for_role :: "platform_config \<Rightarrow> string \<Rightarrow> string res" where
  "host_for_role cfg role =
     (case find (\<lambda>(node_id, roles). role \<in> set roles) (cf_placement cfg) of
        Some (node_id, _) \<Rightarrow> Inr (''node'' @ node_id)
      | None \<Rightarrow> Inl (KeyError (''No Docker node hosts role '' @ role)))"

definition proxy_for :: "platform_config \<Rightarrow> int \<Rightarrow> string option" where
  "proxy_for cfg sequence =
     (let proxies = cf_proxies cfg
      in if proxies = [] then None else Some (''node'' @ str_int (proxies ! nat (sequence mod int (length proxies)))))"

text \<open>The reply a connection carries, and what the requester makes of it.\<close>

definition handle_response :: "jobj res \<Rightarrow> jobj" where
  "handle_response r =
     (case r of Inr response \<Rightarrow> dict_of ((''ok'', JBool True) # response)
              | Inl e \<Rightarrow> [(''ok'', JBool False), (''error'', JStr (error_text e))])"

definition check_response :: "codec \<Rightarrow> jobj \<Rightarrow> jobj res" where
  "check_response cd response =
     (if truthy (dict_get response ''ok'' (JBool False)) then Inr response
      else Inl (RuntimeError (json_str cd (dict_get response ''error'' (JStr ''remote request failed'')))))"

text \<open>A request to a host name; \<open>serve\<close> is the dispatch of the container with that name.\<close>

definition request :: "codec \<Rightarrow> platform_config \<Rightarrow> (string \<Rightarrow> jobj \<Rightarrow> jobj res) \<Rightarrow> string \<Rightarrow> jobj \<Rightarrow> jobj res" where
  "request cd cfg serve host payload =
     (if host \<in> fst ` set (compose_services cfg) then check_response cd (handle_response (serve host payload))
      else Inl (TimeoutError (''Timed out connecting to '' @ host @ '':7000'')))"

definition routed_request ::
  "platform_config \<Rightarrow> (string \<Rightarrow> jobj \<Rightarrow> jobj res) \<Rightarrow> string \<Rightarrow> jobj \<Rightarrow> int \<Rightarrow> jobj res" where
  "routed_request cfg req role payload sequence =
     bindE (host_for_role cfg role) (\<lambda>target.
       case proxy_for cfg sequence of
         None \<Rightarrow> req target payload
       | Some proxy \<Rightarrow> req proxy [(''op'', JStr ''forward''), (''target'', JStr target), (''payload'', JObj payload)])"

definition ns3_delay :: "platform_env \<Rightarrow> platform_config \<Rightarrow> int \<Rightarrow> jobj res" where
  "ns3_delay env cfg byte_count =
     bindE (en_ns3 env byte_count (cf_bandwidth_mbps cfg) (cf_propagation_us cfg)) (\<lambda>d. Inr [(''delay_ns'', JInt d)])"

text \<open>The modelled delay, the measured time and the number of the next clock reading.\<close>

definition network_delay ::
  "platform_config \<Rightarrow> (string \<Rightarrow> jobj \<Rightarrow> jobj res) \<Rightarrow> (nat \<Rightarrow> int) \<Rightarrow> int \<Rightarrow> string \<Rightarrow> string \<Rightarrow> int \<Rightarrow> nat
    \<Rightarrow> (int \<times> int \<times> nat) res" where
  "network_delay cfg req clock byte_count source_role destination_role sequence n =
     bindE (host_for_role cfg source_role) (\<lambda>source.
     bindE (host_for_role cfg destination_role) (\<lambda>destination.
       if source = destination then Inr (0, 0, n)
       else bindE (routed_request cfg req ''ns3'' [(''op'', JStr ''network_delay''), (''bytes'', JInt byte_count)] sequence) (\<lambda>reply.
            bindE (bindE (dict_item reply ''delay_ns'') json_int) (\<lambda>delay_ns.
              Inr (delay_ns, clock (Suc n) - clock n, Suc (Suc n))))))"

definition gpu_compute :: "codec \<Rightarrow> platform_config \<Rightarrow> string \<Rightarrow> string list \<Rightarrow> jobj \<Rightarrow> jobj res" where
  "gpu_compute cd cfg node_name roles message =
     bindE (dict_item message ''role'') (\<lambda>role.
       if role \<notin> JStr ` set roles then Inl (ValueError (node_name @ '' does not host '' @ json_str cd role))
       else Inr [(''result_bytes'', JInt (pr_result_bytes (cf_workload cfg))), (''role'', role)])"

record gpu_progress =
  gp_readings :: nat
  gp_synchronization_ns :: int
  gp_cross_machine_ns :: int
  gp_result :: jobj

definition timed_transfer ::
  "platform_config \<Rightarrow> (string \<Rightarrow> jobj \<Rightarrow> jobj res) \<Rightarrow> (nat \<Rightarrow> int) \<Rightarrow> int \<Rightarrow> string \<Rightarrow> string \<Rightarrow> int \<Rightarrow> gpu_progress
    \<Rightarrow> gpu_progress res" where
  "timed_transfer cfg req clock byte_count source destination sequence g =
     bindE (network_delay cfg req clock byte_count source destination sequence (Suc (gp_readings g))) (\<lambda>(_, transfer_ns, n).
       Inr (g\<lparr>gp_readings := Suc n,
              gp_synchronization_ns := gp_synchronization_ns g + (clock n - clock (gp_readings g)),
              gp_cross_machine_ns := gp_cross_machine_ns g + transfer_ns\<rparr>))"

definition timed_compute ::
  "platform_config \<Rightarrow> (string \<Rightarrow> jobj \<Rightarrow> jobj res) \<Rightarrow> (nat \<Rightarrow> int) \<Rightarrow> string \<Rightarrow> int \<Rightarrow> gpu_progress \<Rightarrow> gpu_progress res" where
  "timed_compute cfg req clock gpu_role sequence g =
     bindE (routed_request cfg req gpu_role [(''op'', JStr ''gpu_compute''), (''role'', JStr gpu_role)] sequence) (\<lambda>reply.
       Inr (g\<lparr>gp_readings := Suc (Suc (gp_readings g)),
              gp_synchronization_ns := gp_synchronization_ns g + (clock (Suc (gp_readings g)) - clock (gp_readings g)),
              gp_result := reply\<rparr>))"

definition gpu_round ::
  "platform_config \<Rightarrow> (string \<Rightarrow> jobj \<Rightarrow> jobj res) \<Rightarrow> (nat \<Rightarrow> int) \<Rightarrow> string \<Rightarrow> string \<Rightarrow> int \<Rightarrow> nat \<Rightarrow> gpu_progress
    \<Rightarrow> gpu_progress res" where
  "gpu_round cfg req clock cpu_role gpu_role sequence round_index g =
     (let profile = cf_workload cfg; base = sequence * 1000 + int round_index * 10
      in bindE (foldE (\<lambda>transfer. timed_transfer cfg req clock (pr_payload_bytes profile) cpu_role gpu_role (base + int transfer))
                  [0..<pr_input_messages profile] g) (\<lambda>g1.
         bindE (timed_compute cfg req clock gpu_role (base + 8) g1)
           (timed_transfer cfg req clock (pr_result_bytes profile) gpu_role cpu_role (base + 9))))"

definition run_gpu ::
  "platform_config \<Rightarrow> (string \<Rightarrow> jobj \<Rightarrow> jobj res) \<Rightarrow> (nat \<Rightarrow> int) \<Rightarrow> string \<Rightarrow> string \<Rightarrow> int \<Rightarrow> gpu_progress res" where
  "run_gpu cfg req clock cpu_role gpu_role sequence =
     foldE (gpu_round cfg req clock cpu_role gpu_role sequence) [0..<pr_rounds (cf_workload cfg)]
       \<lparr>gp_readings = 0, gp_synchronization_ns = 0, gp_cross_machine_ns = 0, gp_result = []\<rparr>"

definition removeprefix :: "string \<Rightarrow> string \<Rightarrow> string" where
  "removeprefix p s = (if prefix p s then drop (length p) s else s)"

definition cpu_workload ::
  "platform_env \<Rightarrow> platform_config \<Rightarrow> (string \<Rightarrow> jobj \<Rightarrow> jobj res) \<Rightarrow> string \<Rightarrow> string list \<Rightarrow> jobj \<Rightarrow> jobj res" where
  "cpu_workload env cfg req node_name roles message =
     bindE (dict_item message ''role'') (\<lambda>role.
       let cpu_role = json_str (en_codec env) role
       in if cpu_role \<notin> set roles then Inl (ValueError (node_name @ '' does not host '' @ cpu_role))
          else bindE (int_text (removeprefix ''cpu'' cpu_role)) (\<lambda>cpu_index.
            let gpu0 = ''gpu'' @ str_int (cpu_index * 2); gpu1 = ''gpu'' @ str_int (cpu_index * 2 + 1)
            in bindE (run_gpu cfg req (en_clock env gpu0) cpu_role gpu0 (cpu_index * 2)) (\<lambda>g0.
               bindE (run_gpu cfg req (en_clock env gpu1) cpu_role gpu1 (cpu_index * 2 + 1)) (\<lambda>g1.
                 Inr [(''role'', JStr cpu_role),
                      (''synchronization_time_ns'', JInt (max (gp_synchronization_ns g0) (gp_synchronization_ns g1))),
                      (''cross_machine_time_ns'', JInt (max (gp_cross_machine_ns g0) (gp_cross_machine_ns g1))),
                      (''gpu_results'', JList [JObj (gp_result g0), JObj (gp_result g1)])]))))"

definition node_dispatch ::
  "platform_env \<Rightarrow> platform_config \<Rightarrow> (string \<Rightarrow> jobj \<Rightarrow> jobj res) \<Rightarrow> string \<Rightarrow> jobj \<Rightarrow> jobj res" where
  "node_dispatch env cfg req host message =
     (case node_roles cfg host of
        None \<Rightarrow> Inl (KeyError host)
      | Some roles \<Rightarrow>
          bindE (dict_item message ''op'') (\<lambda>operation.
            if operation = JStr ''forward''
            then bindE (dict_item message ''target'') (\<lambda>target.
                 bindE (dict_item message ''payload'') (\<lambda>payload.
                   case payload of JObj d \<Rightarrow> req (json_str (en_codec env) target) d
                   | _ \<Rightarrow> Inl (TypeError ''object is not a mapping'')))
            else if operation = JStr ''network_delay''
            then bindE (bindE (dict_item message ''bytes'') json_int) (ns3_delay env cfg)
            else if operation = JStr ''gpu_compute'' then gpu_compute (en_codec env) cfg host roles message
            else if operation = JStr ''cpu_workload'' then cpu_workload env cfg req host roles message
            else if operation = JStr ''shutdown'' then Inr [(''stopping'', JStr host)]
            else Inl (ValueError (''Unsupported operation: '' @ json_str (en_codec env) operation))))"

text \<open>The dispatch of a host with at most \<open>depth\<close> nested requests.\<close>

primrec dispatch :: "nat \<Rightarrow> platform_env \<Rightarrow> platform_config \<Rightarrow> string \<Rightarrow> jobj \<Rightarrow> jobj res" where
  "dispatch 0 env cfg = (\<lambda>_ _. Inl (TimeoutError ''request nesting too deep''))"
| "dispatch (Suc depth) env cfg = node_dispatch env cfg (request (en_codec env) cfg (dispatch depth env cfg))"

record measurement =
  ms_benchmark :: string
  ms_container_count :: nat
  ms_total_time_ns :: int
  ms_synchronization_time_ns :: int
  ms_cross_machine_time_ns :: int
  ms_synchronization_fraction :: rat
  ms_cpu_results :: "jobj list"

definition int_item :: "string \<Rightarrow> jobj \<Rightarrow> int res" where
  "int_item k d = bindE (dict_item d k) (\<lambda>j. case as_int j of Some i \<Rightarrow> Inr i | None \<Rightarrow> Inl (TypeError ''not a number''))"

definition max_list :: "int list \<Rightarrow> int res" where
  "max_list xs = (case xs of [] \<Rightarrow> Inl (ValueError ''max() arg is an empty sequence'') | y # ys \<Rightarrow> Inr (foldl max y ys))"

text \<open>The controller between its two clock readings.\<close>

definition run_controller :: "platform_env \<Rightarrow> platform_config \<Rightarrow> nat \<Rightarrow> int \<Rightarrow> int \<Rightarrow> measurement res" where
  "run_controller env cfg depth started finished =
     bindE (mapE (\<lambda>(index, role). routed_request cfg (request (en_codec env) cfg (dispatch depth env cfg)) role
               [(''op'', JStr ''cpu_workload''), (''role'', JStr role)] (int index))
             (enumerate 0 [''cpu0'', ''cpu1'', ''cpu2'', ''cpu3''])) (\<lambda>completed.
     bindE (bindE (mapE (int_item ''synchronization_time_ns'') completed) max_list) (\<lambda>synchronization_ns.
     bindE (bindE (mapE (int_item ''cross_machine_time_ns'') completed) max_list) (\<lambda>cross_machine_ns.
       if finished - started = 0 then Inl ZeroDivisionError
       else Inr \<lparr>ms_benchmark = cf_benchmark cfg, ms_container_count = cf_container_count cfg,
              ms_total_time_ns = finished - started, ms_synchronization_time_ns = synchronization_ns,
              ms_cross_machine_time_ns = cross_machine_ns,
              ms_synchronization_fraction = of_int synchronization_ns / of_int (finished - started),
              ms_cpu_results = completed\<rparr>)))"

text \<open>The hosts the controller asks to stop after the measurement.\<close>

definition shutdown_targets :: "platform_config \<Rightarrow> int \<Rightarrow> string list res" where
  "shutdown_targets cfg own_id =
     bindE (mapE (\<lambda>(node_id, _). bindE (int_text node_id) (\<lambda>i. Inr (i, ''node'' @ node_id))) (cf_placement cfg)) (\<lambda>ids.
       Inr (map snd (filter (\<lambda>(i, _). i \<noteq> own_id) ids)))"

section \<open>Roles are hosted\<close>

definition hosted :: "platform_config \<Rightarrow> string \<Rightarrow> bool" where
  "hosted cfg role \<longleftrightarrow> list_ex (\<lambda>(_, roles). role \<in> set roles) (cf_placement cfg)"

text \<open>A configuration of the driver: no proxies, distinct nodes, every simlet on some node.\<close>

definition complete_config :: "platform_config \<Rightarrow> bool" where
  "complete_config cfg \<longleftrightarrow> cf_proxies cfg = [] \<and> distinct (map fst (cf_placement cfg)) \<and> hosted cfg ''ns3''
     \<and> list_all (\<lambda>i. hosted cfg (''cpu'' @ str_int i) \<and> hosted cfg (''gpu'' @ str_int (i * 2))
          \<and> hosted cfg (''gpu'' @ str_int (i * 2 + 1))) [0, 1, 2, 3]"

lemma complete_configD:
  assumes "complete_config cfg"
  shows "cf_proxies cfg = []" and "distinct (map fst (cf_placement cfg))" and "hosted cfg ''ns3''"
  using assms by (simp_all add: complete_config_def)

lemma host_for_role_hosted:
  assumes "hosted cfg role" and "distinct (map fst (cf_placement cfg))"
  obtains host roles where "host_for_role cfg role = Inr host" "node_roles cfg host = Some roles"
    "role \<in> set roles" "host \<in> fst ` set (compose_services cfg)"
proof -
  from assms(1) obtain node_id roles where find: "find (\<lambda>(node_id, roles). role \<in> set roles) (cf_placement cfg) = Some (node_id, roles)"
    by (cases "find (\<lambda>(node_id, roles). role \<in> set roles) (cf_placement cfg)")
      (auto simp: hosted_def find_None_iff list_ex_iff)
  then have mem: "(node_id, roles) \<in> set (cf_placement cfg)" "role \<in> set roles"
    by (auto simp: find_Some_iff) (metis nth_mem)
  have "map_of (compose_services cfg) (''node'' @ node_id) = Some node_id"
    using mem(1) assms(2) by (intro map_of_is_SomeI) (force simp: compose_services_def distinct_map inj_on_def)+
  moreover have "map_of (cf_placement cfg) node_id = Some roles"
    using mem(1) assms(2) by (intro map_of_is_SomeI) auto
  ultimately show thesis
    using that [of "''node'' @ node_id" roles] find mem
    by (force simp: host_for_role_def node_roles_def compose_services_def)
qed

lemma request_answer:
  assumes "host \<in> fst ` set (compose_services cfg)" and "serve host payload = Inr r"
    and "distinct (''ok'' # map fst r)"
  shows "request cd cfg serve host payload = Inr ((''ok'', JBool True) # r)"
proof -
  have "dict_of ((''ok'', JBool True) # r) = (''ok'', JBool True) # r"
    using assms(3) by (intro dict_of_distinct) simp
  then show ?thesis using assms by (simp add: request_def handle_response_def check_response_def dict_get_def)
qed

lemma gpu_request:
  assumes "complete_config cfg" and "hosted cfg gpu"
  shows "\<exists>r. routed_request cfg (request (en_codec env) cfg (dispatch (Suc depth) env cfg)) gpu
      [(''op'', JStr ''gpu_compute''), (''role'', JStr gpu)] sequence = Inr r"
proof -
  from assms obtain host roles where host: "host_for_role cfg gpu = Inr host" "node_roles cfg host = Some roles"
    "gpu \<in> set roles" "host \<in> fst ` set (compose_services cfg)"
    using host_for_role_hosted [OF assms(2) complete_configD(2)] by metis
  then have "dispatch (Suc depth) env cfg host [(''op'', JStr ''gpu_compute''), (''role'', JStr gpu)]
      = Inr [(''result_bytes'', JInt (pr_result_bytes (cf_workload cfg))), (''role'', JStr gpu)]"
    by (simp add: node_dispatch_def gpu_compute_def dict_item_def)
  from request_answer [OF host(4), of "dispatch (Suc depth) env cfg", OF this] assms(1) host(1)
  show ?thesis by (simp add: routed_request_def proxy_for_def complete_configD del: dispatch.simps)
qed

lemma ns3_request:
  assumes "complete_config cfg" and "\<And>b w p. \<exists>d. en_ns3 env b w p = Inr d"
  shows "\<exists>d. routed_request cfg (request (en_codec env) cfg (dispatch (Suc depth) env cfg)) ''ns3''
      [(''op'', JStr ''network_delay''), (''bytes'', JInt b)] sequence = Inr [(''ok'', JBool True), (''delay_ns'', JInt d)]"
proof -
  from assms(1) obtain host roles where host: "host_for_role cfg ''ns3'' = Inr host" "node_roles cfg host = Some roles"
    "host \<in> fst ` set (compose_services cfg)"
    using host_for_role_hosted [OF complete_configD(3,2)] by metis
  obtain d where "en_ns3 env b (cf_bandwidth_mbps cfg) (cf_propagation_us cfg) = Inr d" using assms(2) by blast
  with host have "dispatch (Suc depth) env cfg host [(''op'', JStr ''network_delay''), (''bytes'', JInt b)] = Inr [(''delay_ns'', JInt d)]"
    by (simp add: node_dispatch_def ns3_delay_def dict_item_def)
  from request_answer [OF host(3), of "dispatch (Suc depth) env cfg", OF this] assms(1) host(1)
  show ?thesis by (simp add: routed_request_def proxy_for_def complete_configD del: dispatch.simps)
qed

section \<open>Measured times\<close>

text \<open>
  What holds of a GPU coroutine between two operations: its waits are disjoint parts of the time since
  its first clock reading, the transfers are parts of the waits, and on one node nothing crosses.
\<close>

definition progress_ok :: "platform_config \<Rightarrow> (nat \<Rightarrow> int) \<Rightarrow> gpu_progress \<Rightarrow> bool" where
  "progress_ok cfg clock g \<longleftrightarrow> 0 \<le> gp_cross_machine_ns g \<and> gp_cross_machine_ns g \<le> gp_synchronization_ns g
     \<and> gp_synchronization_ns g \<le> clock (gp_readings g) - clock 0
     \<and> (length (cf_placement cfg) = 1 \<longrightarrow> gp_cross_machine_ns g = 0)"

lemma single_node_host:
  "length (cf_placement cfg) = 1 \<Longrightarrow> host_for_role cfg r = Inr h \<Longrightarrow> host_for_role cfg r' = Inr h' \<Longrightarrow> h = h'"
  by (cases "cf_placement cfg") (auto simp: host_for_role_def split: if_splits)

lemma network_delay_bounds:
  assumes "complete_config cfg" and "\<And>b w p. \<exists>d. en_ns3 env b w p = Inr d" and "hosted cfg r" "hosted cfg r'" and "mono clock"
  shows "\<exists>d w n'. network_delay cfg (request (en_codec env) cfg (dispatch (Suc depth) env cfg)) clock b r r' sequence n = Inr (d, w, n')
    \<and> 0 \<le> w \<and> w \<le> clock n' - clock n \<and> (length (cf_placement cfg) = 1 \<longrightarrow> w = 0)"
proof -
  obtain h h' where hosts: "host_for_role cfg r = Inr h" "host_for_role cfg r' = Inr h'"
    using host_for_role_hosted [OF assms(3) complete_configD(2) [OF assms(1)]]
      host_for_role_hosted [OF assms(4) complete_configD(2) [OF assms(1)]] by metis
  obtain d where d: "routed_request cfg (request (en_codec env) cfg (dispatch (Suc depth) env cfg)) ''ns3''
      [(''op'', JStr ''network_delay''), (''bytes'', JInt b)] sequence = Inr [(''ok'', JBool True), (''delay_ns'', JInt d)]"
    using ns3_request [OF assms(1,2)] by blast
  have "clock n \<le> clock (Suc n)" "clock (Suc n) \<le> clock (Suc (Suc n))"
    using assms(5) by (auto intro: monoD)
  then show ?thesis using hosts d single_node_host [OF _ hosts]
    by (auto simp: network_delay_def dict_item_def simp del: dispatch.simps)
qed

lemma timed_transfer_progress:
  assumes "complete_config cfg" and "\<And>b w p. \<exists>d. en_ns3 env b w p = Inr d" and "hosted cfg r" "hosted cfg r'" and "mono clock"
    and "progress_ok cfg clock g"
  shows "\<exists>g'. timed_transfer cfg (request (en_codec env) cfg (dispatch (Suc depth) env cfg)) clock b r r' sequence g = Inr g'
    \<and> progress_ok cfg clock g'"
proof -
  obtain d w n' where nd: "network_delay cfg (request (en_codec env) cfg (dispatch (Suc depth) env cfg)) clock b r r' sequence
      (Suc (gp_readings g)) = Inr (d, w, n')" "0 \<le> w" "w \<le> clock n' - clock (Suc (gp_readings g))"
      "length (cf_placement cfg) = 1 \<longrightarrow> w = 0"
    using network_delay_bounds [OF assms(1-5)] by blast
  have "clock (gp_readings g) \<le> clock (Suc (gp_readings g))" "clock n' \<le> clock (Suc n')"
    using assms(5) by (auto intro: monoD)
  with nd assms(6) show ?thesis by (auto simp: timed_transfer_def progress_ok_def simp del: dispatch.simps)
qed

lemma timed_compute_progress:
  assumes "complete_config cfg" and "hosted cfg gpu" and "mono clock" and "progress_ok cfg clock g"
  shows "\<exists>g'. timed_compute cfg (request (en_codec env) cfg (dispatch (Suc depth) env cfg)) clock gpu sequence g = Inr g'
    \<and> progress_ok cfg clock g'"
proof -
  have "clock (gp_readings g) \<le> clock (Suc (gp_readings g))" "clock (Suc (gp_readings g)) \<le> clock (Suc (Suc (gp_readings g)))"
    using assms(3) by (auto intro: monoD)
  then show ?thesis using gpu_request [OF assms(1,2), of env depth sequence] assms(4)
    by (auto simp: timed_compute_def progress_ok_def simp del: dispatch.simps)
qed

lemma gpu_round_progress:
  assumes "complete_config cfg" and "\<And>b w p. \<exists>d. en_ns3 env b w p = Inr d" and "hosted cfg cpu" "hosted cfg gpu" and "mono clock"
    and "progress_ok cfg clock g"
  shows "\<exists>g'. gpu_round cfg (request (en_codec env) cfg (dispatch (Suc depth) env cfg)) clock cpu gpu sequence i g = Inr g'
    \<and> progress_ok cfg clock g'"
proof -
  let ?req = "request (en_codec env) cfg (dispatch (Suc depth) env cfg)"
  let ?base = "sequence * 1000 + int i * 10"
  have "\<exists>g1. foldE (\<lambda>transfer. timed_transfer cfg ?req clock (pr_payload_bytes (cf_workload cfg)) cpu gpu (?base + int transfer))
      [0..<pr_input_messages (cf_workload cfg)] g = Inr g1 \<and> progress_ok cfg clock g1"
    using assms(6) by (rule foldE_total) (rule timed_transfer_progress [OF assms(1-5)])
  then obtain g1 where "foldE (\<lambda>transfer. timed_transfer cfg ?req clock (pr_payload_bytes (cf_workload cfg)) cpu gpu (?base + int transfer))
      [0..<pr_input_messages (cf_workload cfg)] g = Inr g1" "progress_ok cfg clock g1" by blast
  moreover obtain g2 where "timed_compute cfg ?req clock gpu (?base + 8) g1 = Inr g2" "progress_ok cfg clock g2"
    using timed_compute_progress [OF assms(1,4,5)] calculation(2) by blast
  moreover obtain g3 where "timed_transfer cfg ?req clock (pr_result_bytes (cf_workload cfg)) gpu cpu (?base + 9) g2 = Inr g3"
      "progress_ok cfg clock g3"
    using timed_transfer_progress [OF assms(1,2,4,3,5)] calculation(4) by blast
  ultimately show ?thesis by (simp add: gpu_round_def Let_def del: dispatch.simps)
qed

lemma run_gpu_progress:
  assumes "complete_config cfg" and "\<And>b w p. \<exists>d. en_ns3 env b w p = Inr d" and "hosted cfg cpu" "hosted cfg gpu" and "mono clock"
  shows "\<exists>g. run_gpu cfg (request (en_codec env) cfg (dispatch (Suc depth) env cfg)) clock cpu gpu sequence = Inr g
    \<and> progress_ok cfg clock g"
  unfolding run_gpu_def
  by (rule foldE_total, simp add: progress_ok_def, rule gpu_round_progress [OF assms])

section \<open>The controller\<close>

lemma complete_config_roles:
  assumes "complete_config cfg" and "i \<in> {0, 1, 2, 3}"
  shows "hosted cfg (''cpu'' @ str_int i)" "hosted cfg (''gpu'' @ str_int (i * 2))" "hosted cfg (''gpu'' @ str_int (i * 2 + 1))"
  using assms by (auto simp: complete_config_def)

text \<open>What the controller reads from the reply of one CPU simlet.\<close>

definition cpu_reply_ok :: "platform_config \<Rightarrow> int \<Rightarrow> jobj \<Rightarrow> bool" where
  "cpu_reply_ok cfg window r \<longleftrightarrow> (\<exists>s c. int_item ''synchronization_time_ns'' r = Inr s \<and> int_item ''cross_machine_time_ns'' r = Inr c
     \<and> 0 \<le> c \<and> c \<le> s \<and> s \<le> window \<and> (length (cf_placement cfg) = 1 \<longrightarrow> c = 0))"

lemma cpu_request:
  assumes "complete_config cfg" and "\<And>b w p. \<exists>d. en_ns3 env b w p = Inr d" and "i \<in> {0, 1, 2, 3}"
    and "\<And>role. mono (en_clock env role)" and "\<And>role k. started \<le> en_clock env role k \<and> en_clock env role k \<le> finished"
  shows "\<exists>r. routed_request cfg (request (en_codec env) cfg (dispatch (Suc (Suc depth)) env cfg)) (''cpu'' @ str_int i)
      [(''op'', JStr ''cpu_workload''), (''role'', JStr (''cpu'' @ str_int i))] sequence = Inr r
    \<and> cpu_reply_ok cfg (finished - started) r"
proof -
  let ?cpu = "''cpu'' @ str_int i" and ?gpu0 = "''gpu'' @ str_int (i * 2)" and ?gpu1 = "''gpu'' @ str_int (i * 2 + 1)"
  let ?req = "request (en_codec env) cfg (dispatch (Suc depth) env cfg)"
  note roles = complete_config_roles [OF assms(1,3)]
  obtain host hroles where host: "host_for_role cfg ?cpu = Inr host" "node_roles cfg host = Some hroles"
    "?cpu \<in> set hroles" "host \<in> fst ` set (compose_services cfg)"
    using host_for_role_hosted [OF roles(1) complete_configD(2) [OF assms(1)]] by metis
  obtain g0 where g0: "run_gpu cfg ?req (en_clock env ?gpu0) ?cpu ?gpu0 (i * 2) = Inr g0" "progress_ok cfg (en_clock env ?gpu0) g0"
    using run_gpu_progress [OF assms(1,2) roles(1,2) assms(4)] by blast
  obtain g1 where g1: "run_gpu cfg ?req (en_clock env ?gpu1) ?cpu ?gpu1 (i * 2 + 1) = Inr g1" "progress_ok cfg (en_clock env ?gpu1) g1"
    using run_gpu_progress [OF assms(1,2) roles(1,3) assms(4)] by blast
  let ?r = "[(''role'', JStr ?cpu), (''synchronization_time_ns'', JInt (max (gp_synchronization_ns g0) (gp_synchronization_ns g1))),
     (''cross_machine_time_ns'', JInt (max (gp_cross_machine_ns g0) (gp_cross_machine_ns g1))),
     (''gpu_results'', JList [JObj (gp_result g0), JObj (gp_result g1)])]"
  have "dispatch (Suc (Suc depth)) env cfg host [(''op'', JStr ''cpu_workload''), (''role'', JStr ?cpu)] = Inr ?r"
    using host g0(1) g1(1)
    by (simp add: dispatch.simps(2) [of "Suc depth"] node_dispatch_def cpu_workload_def dict_item_def removeprefix_def del: dispatch.simps)
  from request_answer [OF host(4), of "dispatch (Suc (Suc depth)) env cfg", OF this]
  have "routed_request cfg (request (en_codec env) cfg (dispatch (Suc (Suc depth)) env cfg)) ?cpu
      [(''op'', JStr ''cpu_workload''), (''role'', JStr ?cpu)] sequence = Inr ((''ok'', JBool True) # ?r)"
    using host(1) complete_configD(1) [OF assms(1)] by (simp add: routed_request_def proxy_for_def del: dispatch.simps)
  moreover have "gp_synchronization_ns g0 \<le> finished - started" "gp_synchronization_ns g1 \<le> finished - started"
    using g0(2) g1(2) assms(5) [of ?gpu0 "gp_readings g0"] assms(5) [of ?gpu0 0] assms(5) [of ?gpu1 "gp_readings g1"] assms(5) [of ?gpu1 0]
    unfolding progress_ok_def by linarith+
  with g0(2) g1(2) have "cpu_reply_ok cfg (finished - started) ((''ok'', JBool True) # ?r)"
    by (auto simp: cpu_reply_ok_def int_item_def dict_item_def progress_ok_def)
  ultimately show ?thesis by blast
qed

lemma str_int_digits:
  "str_int 0 = ''0''" "str_int 1 = ''1''" "str_int 2 = ''2''" "str_int 3 = ''3''"
  "str_int 4 = ''4''" "str_int 5 = ''5''" "str_int 6 = ''6''" "str_int 7 = ''7''"
  by (simp_all add: text_eval)

lemma run_config_Inr:
  assumes "run_config benchmark n repetition = Inr cfg"
  shows "cf_proxies cfg = [] \<and> map_of placements n = Some (cf_placement cfg)"
  using assms by (auto simp: run_config_def placement_for_def bindE_eq_Inr split: option.splits)

lemma placements_complete:
  assumes "cf_proxies cfg = []" and "map_of placements n = Some (cf_placement cfg)"
  shows "complete_config cfg" and "n = 1 \<Longrightarrow> length (cf_placement cfg) = 1"
proof -
  have pl: "cf_placement cfg = the (map_of placements n)" using assms(2) by simp
  have "n \<in> {1, 2, 4, 8}" using assms(2) by (auto simp: placements_def split: if_splits)
  moreover have "complete_config cfg" if "n = 1" unfolding complete_config_def hosted_def pl that
    by (simp add: assms(1) placements_def str_int_digits)
  moreover have "complete_config cfg" if "n = 2" unfolding complete_config_def hosted_def pl that
    by (simp add: assms(1) placements_def str_int_digits)
  moreover have "complete_config cfg" if "n = 4" unfolding complete_config_def hosted_def pl that
    by (simp add: assms(1) placements_def str_int_digits)
  moreover have "complete_config cfg" if "n = 8" unfolding complete_config_def hosted_def pl that
    by (simp add: assms(1) placements_def str_int_digits)
  ultimately show "complete_config cfg" by blast
  show "n = 1 \<Longrightarrow> length (cf_placement cfg) = 1" by (simp add: pl placements_def)
qed

lemma max_list_bounds:
  assumes "list_all2 (\<lambda>r x. int_item k r = Inr x) rs xs" and "rs \<noteq> []"
  shows "\<exists>m. bindE (mapE (int_item k) rs) max_list = Inr m \<and> m \<in> set xs \<and> (\<forall>x\<in>set xs. x \<le> m)"
proof -
  obtain y ys where xs: "xs = y # ys" using assms by (cases xs) auto
  have "mapE (int_item k) rs = Inr xs" using assms(1) by (simp add: mapE_Inr_iff)
  moreover have "foldl max y ys \<in> set (y # ys) \<and> (\<forall>x\<in>set (y # ys). x \<le> foldl max y ys)" for y :: int and ys
    by (induction ys arbitrary: y) (auto simp: max_def, fastforce+)
  ultimately show ?thesis by (auto simp: max_list_def xs)
qed

text \<open>The two maxima over the replies keep the bounds of the single replies.\<close>

lemma reply_maxima:
  assumes "list_all (cpu_reply_ok cfg window) rs" and "rs \<noteq> []"
  shows "\<exists>s c. bindE (mapE (int_item ''synchronization_time_ns'') rs) max_list = Inr s
    \<and> bindE (mapE (int_item ''cross_machine_time_ns'') rs) max_list = Inr c
    \<and> 0 \<le> c \<and> c \<le> s \<and> s \<le> window \<and> (length (cf_placement cfg) = 1 \<longrightarrow> c = 0)"
proof -
  from assms(1) have "\<exists>p. \<forall>r\<in>set rs. int_item ''synchronization_time_ns'' r = Inr (fst (p r))
      \<and> int_item ''cross_machine_time_ns'' r = Inr (snd (p r)) \<and> 0 \<le> snd (p r) \<and> snd (p r) \<le> fst (p r)
      \<and> fst (p r) \<le> window \<and> (length (cf_placement cfg) = 1 \<longrightarrow> snd (p r) = 0)"
    unfolding list_all_iff cpu_reply_ok_def by (intro bchoice) force
  then obtain p where p: "\<And>r. r \<in> set rs \<Longrightarrow> int_item ''synchronization_time_ns'' r = Inr (fst (p r))
      \<and> int_item ''cross_machine_time_ns'' r = Inr (snd (p r)) \<and> 0 \<le> snd (p r) \<and> snd (p r) \<le> fst (p r)
      \<and> fst (p r) \<le> window \<and> (length (cf_placement cfg) = 1 \<longrightarrow> snd (p r) = 0)" by blast
  obtain s where s: "bindE (mapE (int_item ''synchronization_time_ns'') rs) max_list = Inr s"
      "s \<in> (\<lambda>r. fst (p r)) ` set rs" "\<forall>r\<in>set rs. fst (p r) \<le> s"
    using max_list_bounds [of "''synchronization_time_ns''" rs "map (\<lambda>r. fst (p r)) rs"] p assms(2)
    by (auto simp: list_all2_conv_all_nth)
  obtain c where c: "bindE (mapE (int_item ''cross_machine_time_ns'') rs) max_list = Inr c"
      "c \<in> (\<lambda>r. snd (p r)) ` set rs" "\<forall>r\<in>set rs. snd (p r) \<le> c"
    using max_list_bounds [of "''cross_machine_time_ns''" rs "map (\<lambda>r. snd (p r)) rs"] p assms(2)
    by (auto simp: list_all2_conv_all_nth)
  from c(2) obtain r where r: "r \<in> set rs" "c = snd (p r)" by blast
  have "c \<le> s" using r p [OF r(1)] s(3) by fastforce
  moreover from s(2) p have "s \<le> window" by auto
  ultimately show ?thesis using s(1) c(1) r p [OF r(1)] by auto
qed

text \<open>
  Every experiment of the driver yields a sound measurement: for each of the eight workloads on 1,
  2, 4 or 8 nodes, when the ns-3 program answers and the clock readings of the simlets are monotone and
  lie between the two readings of the controller, the controller completes (no simlet is asked for on a
  node that does not host it), and 0 <= cross-machine time <= synchronization time <= total time, so
  the reported fraction is at most one; on one node the cross-machine time is zero.
\<close>

theorem platform_measurement_sound:
  assumes "run_config benchmark n repetition = Inr cfg"
    and "\<And>b w p. \<exists>d. en_ns3 env b w p = Inr d"
    and "\<And>role. mono (en_clock env role)" and "\<And>role k. started \<le> en_clock env role k \<and> en_clock env role k \<le> finished"
    and "started < finished" and "2 \<le> depth"
  shows "\<exists>m. run_controller env cfg depth started finished = Inr m
    \<and> 0 \<le> ms_cross_machine_time_ns m \<and> ms_cross_machine_time_ns m \<le> ms_synchronization_time_ns m
    \<and> ms_synchronization_time_ns m \<le> ms_total_time_ns m \<and> ms_synchronization_fraction m \<le> 1
    \<and> (n = 1 \<longrightarrow> ms_cross_machine_time_ns m = 0)"
proof -
  note complete = placements_complete [OF conjunct1 conjunct2, OF run_config_Inr run_config_Inr, OF assms(1,1)]
  obtain d where depth: "depth = Suc (Suc d)" using assms(6) by (metis add_2_eq_Suc le_Suc_ex)
  let ?call = "\<lambda>(index, role). routed_request cfg (request (en_codec env) cfg (dispatch depth env cfg)) role
      [(''op'', JStr ''cpu_workload''), (''role'', JStr role)] (int index)"
  have "\<exists>r. ?call (index, ''cpu'' @ str_int i) = Inr r \<and> cpu_reply_ok cfg (finished - started) r" if "i \<in> {0, 1, 2, 3}" for i index
    unfolding depth prod.case by (rule cpu_request [OF complete(1) assms(2) that assms(3,4)])
  from this [of 0 0] this [of 1 1] this [of 2 2] this [of 3 3] obtain r0 r1 r2 r3 where
    r: "mapE ?call (enumerate 0 [''cpu0'', ''cpu1'', ''cpu2'', ''cpu3'']) = Inr [r0, r1, r2, r3]"
    "list_all (cpu_reply_ok cfg (finished - started)) [r0, r1, r2, r3]"
    by (auto simp: str_int_digits simp del: dispatch.simps)
  from reply_maxima [OF this(2)] obtain s c where
    m: "bindE (mapE (int_item ''synchronization_time_ns'') [r0, r1, r2, r3]) max_list = Inr s"
      "bindE (mapE (int_item ''cross_machine_time_ns'') [r0, r1, r2, r3]) max_list = Inr c"
    and b: "0 \<le> c" "c \<le> s" "s \<le> finished - started" "length (cf_placement cfg) = 1 \<longrightarrow> c = 0" by blast
  have "(of_int s :: rat) / of_int (finished - started) \<le> 1"
    using b(3) assms(5) by (simp add: divide_le_eq_1 del: of_int_diff)
  with r(1) m b assms(5) complete(2) show ?thesis unfolding run_controller_def
    by (simp only: bindE_Inr) simp
qed

definition demo_env :: platform_env where
  "demo_env = \<lparr>en_codec = \<lparr>cd_loads = \<lambda>_. Inl JSONDecodeError, cd_str = \<lambda>_. [], cd_dumps = \<lambda>_. []\<rparr>,
     en_ns3 = \<lambda>b w p. Inr (p * 1000 + b * 8), en_clock = \<lambda>role k. min (int k) 1000\<rparr>"

theorem platform_measurement_sound_witness:
  "\<exists>cfg m. run_config ''mlp'' 2 1 = Inr cfg \<and> run_controller demo_env cfg 2 0 1000 = Inr m
     \<and> ms_synchronization_time_ns m \<le> ms_total_time_ns m"
proof -
  have "\<exists>cfg. run_config ''mlp'' 2 1 = Inr cfg"
    by (simp add: run_config_def placement_for_def placements_def WORKLOADS_def dict_item_def)
  then obtain cfg where cfg: "run_config ''mlp'' 2 1 = Inr cfg" by blast
  have "\<exists>d. en_ns3 demo_env b w p = Inr d" "mono (en_clock demo_env role)"
    "0 \<le> en_clock demo_env role k \<and> en_clock demo_env role k \<le> 1000" for b w p role k
    by (auto simp: demo_env_def mono_def min_def)
  then show ?thesis using platform_measurement_sound [OF cfg, of demo_env 0 1000 2] cfg by auto
qed

end
