(* ===== verification/Experiments.thy ===== *)
theory Experiments
  imports PlatformNode MlpDpRuns PyCsv
begin

text \<open>
  The driver of the Docker-node experiments (\<open>scripts/run_experiments.py\<close>) and its report
  (\<open>scripts/analyze_results.py\<close>): the files of a run, the collected measurement, the summary with the
  parallel efficiencies, its CSV file, the rows that \<open>--append\<close> loads, the matrix loop and the table of the
  report. Docker commands give their output or exit code as parameters; the JSON texts of the
  configuration and of the measurement and the text of a float are parameters too. Measured times are
  exact real numbers.
\<close>

section \<open>The files of a run\<close>

definition profile_json :: "profile \<Rightarrow> json" where
  "profile_json p = JObj [(''label'', JStr (pr_label p)), (''rounds'', JInt (int (pr_rounds p))),
     (''input_messages_per_round'', JInt (int (pr_input_messages p))), (''payload_bytes'', JInt (pr_payload_bytes p)),
     (''result_bytes'', JInt (pr_result_bytes p)), (''cpu_compute_ms'', JInt (pr_cpu_compute_ms p)),
     (''gpu_compute_ms'', JInt (pr_gpu_compute_ms p))]"

definition config_json :: "platform_config \<Rightarrow> json" where
  "config_json cfg = JObj [(''run_id'', JStr (cf_run_id cfg)), (''benchmark'', JStr (cf_benchmark cfg)),
     (''container_count'', JInt (int (cf_container_count cfg))),
     (''placement'', JObj (map (\<lambda>(node_id, roles). (node_id, JList (map JStr roles))) (cf_placement cfg))),
     (''proxies'', JList (map JInt (cf_proxies cfg))), (''output_dir'', JStr ''/run''),
     (''network'', JObj [(''bandwidth_mbps'', JInt (cf_bandwidth_mbps cfg)), (''propagation_us'', JInt (cf_propagation_us cfg))]),
     (''workload'', profile_json (cf_workload cfg)),
     (''source_workload'', JStr ''ODHS Table II reduced-input synthetic trace'')]"

definition compose_json :: "(json \<Rightarrow> string) \<Rightarrow> platform_config \<Rightarrow> json" where
  "compose_json dumps cfg =
     JObj [(''services'', JObj (map (\<lambda>(host, node_id). (host,
              JObj [(''image'', JStr ''chipsystemsim:latest''), (''command'', JList [JStr ''--node-id'', JStr node_id]),
                    (''environment'', JObj [(''SIM_CONFIG'', JStr (dumps (config_json cfg)))]),
                    (''networks'', JList [JStr ''simulation''])])) (compose_services cfg))),
           (''networks'', JObj [(''simulation'', JObj [(''driver'', JStr ''bridge'')])])]"

record run_files =
  rf_directory :: string
  rf_config :: json
  rf_compose :: json

definition write_run_files :: "(json \<Rightarrow> string) \<Rightarrow> string \<Rightarrow> string \<Rightarrow> nat \<Rightarrow> nat \<Rightarrow> run_files res" where
  "write_run_files dumps results benchmark container_count repetition =
     bindE (run_config benchmark container_count repetition) (\<lambda>cfg.
       Inr \<lparr>rf_directory = results @ ''/runs/'' @ cf_run_id cfg, rf_config = config_json cfg, rf_compose = compose_json dumps cfg\<rparr>)"

section \<open>Measurements\<close>

record experiment_row =
  er_benchmark :: string
  er_containers :: int
  er_repetition :: int
  er_total_time_s :: real
  er_synchronization_time_s :: real
  er_cross_machine_time_s :: real
  er_synchronization_fraction :: real

definition ns_seconds :: "int \<Rightarrow> real" where
  "ns_seconds ns = of_int ns / 10 ^ 9"

text \<open>The text after the first marker of the first line that has one.\<close>

definition marked_line :: "string \<Rightarrow> string \<Rightarrow> string option" where
  "marked_line marker log_output =
     (case List.map_filter (after_first marker) (split_lines log_output) of [] \<Rightarrow> None | encoded # _ \<Rightarrow> Some encoded)"

definition collect_measurement :: "(string \<Rightarrow> measurement res) \<Rightarrow> string \<Rightarrow> nat \<Rightarrow> nat \<Rightarrow> experiment_row res" where
  "collect_measurement loads log_output container_count repetition =
     (case marked_line ''MEASUREMENT_JSON='' log_output of
        None \<Rightarrow> Inl (RuntimeError ''CPU container did not emit a measurement record'')
      | Some encoded \<Rightarrow> bindE (loads encoded) (\<lambda>result.
          Inr \<lparr>er_benchmark = ms_benchmark result, er_containers = int container_count, er_repetition = int repetition,
               er_total_time_s = ns_seconds (ms_total_time_ns result),
               er_synchronization_time_s = ns_seconds (ms_synchronization_time_ns result),
               er_cross_machine_time_s = ns_seconds (ms_cross_machine_time_ns result),
               er_synchronization_fraction = of_rat (ms_synchronization_fraction result)\<rparr>))"

section \<open>The summary\<close>

text \<open>\<open>statistics.mean\<close>; its exception on no data is a \<open>ValueError\<close>.\<close>

definition mean :: "real list \<Rightarrow> real res" where
  "mean xs = (if xs = [] then Inl (ValueError ''mean requires at least one data point'')
     else Inr (sum_list xs / of_nat (length xs)))"

definition baseline :: "experiment_row list \<Rightarrow> string \<Rightarrow> real res" where
  "baseline rows benchmark =
     mean (map er_total_time_s (filter (\<lambda>row. er_benchmark row = benchmark \<and> er_containers row = 1) rows))"

definition div_float :: "real \<Rightarrow> real \<Rightarrow> real res" where
  "div_float x y = (if y = 0 then Inl ZeroDivisionError else Inr (x / y))"

text \<open>The rows with their parallel efficiency.\<close>

type_synonym summary_row = "experiment_row \<times> real"

definition efficient_row :: "(string, real) dict \<Rightarrow> experiment_row \<Rightarrow> summary_row res" where
  "efficient_row baselines row =
     bindE (dict_item baselines (er_benchmark row)) (\<lambda>b.
     bindE (div_float b (er_total_time_s row * of_int (er_containers row))) (\<lambda>e. Inr (row, e)))"

definition summary_rows :: "experiment_row list \<Rightarrow> summary_row list res" where
  "summary_rows rows =
     bindE (mapE (\<lambda>benchmark. bindE (baseline rows benchmark) (\<lambda>b. Inr (benchmark, b))) (remdups (map er_benchmark rows))) (\<lambda>baselines.
       mapE (efficient_row baselines) rows)"

definition summary_fields :: "string list" where
  "summary_fields = [''benchmark'', ''containers'', ''repetition'', ''total_time_s'', ''synchronization_time_s'',
     ''cross_machine_time_s'', ''synchronization_fraction'', ''parallel_efficiency'']"

definition row_floats :: "summary_row \<Rightarrow> real list" where
  "row_floats = (\<lambda>(row, efficiency). [er_total_time_s row, er_synchronization_time_s row, er_cross_machine_time_s row,
     er_synchronization_fraction row, efficiency])"

definition row_fields :: "(real \<Rightarrow> string) \<Rightarrow> summary_row \<Rightarrow> string list" where
  "row_fields float_text r =
     [er_benchmark (fst r), str_int (er_containers (fst r)), str_int (er_repetition (fst r))] @ map float_text (row_floats r)"

definition summary_csv :: "(real \<Rightarrow> string) \<Rightarrow> summary_row list \<Rightarrow> string" where
  "summary_csv float_text rows = csv_text (summary_fields # map (row_fields float_text) rows)"

section \<open>Loading a summary\<close>

text \<open>
  A value of a CSV row; a missing field is \<open>None\<close>, which neither \<open>int\<close> nor \<open>float\<close> accepts. The benchmark is
  in the first column of the files of this program, where no field is missing.
\<close>

definition csv_value :: "(string \<Rightarrow> 'a res) \<Rightarrow> (string, string option) dict \<Rightarrow> string \<Rightarrow> 'a res" where
  "csv_value convert row name =
     bindE (dict_item row name) (\<lambda>v. case v of None \<Rightarrow> Inl (TypeError ''argument must be a string'') | Some s \<Rightarrow> convert s)"

definition load_row :: "(string, string option) dict \<Rightarrow> summary_row res" where
  "load_row row =
     bindE (csv_value Inr row ''benchmark'') (\<lambda>benchmark.
     bindE (csv_value int_text row ''containers'') (\<lambda>containers.
     bindE (csv_value int_text row ''repetition'') (\<lambda>repetition.
     bindE (csv_value py_float row ''total_time_s'') (\<lambda>total_time.
     bindE (csv_value py_float row ''synchronization_time_s'') (\<lambda>synchronization.
     bindE (csv_value py_float row ''cross_machine_time_s'') (\<lambda>cross_machine.
     bindE (csv_value py_float row ''synchronization_fraction'') (\<lambda>fraction.
     bindE (csv_value py_float row ''parallel_efficiency'') (\<lambda>efficiency.
       Inr (\<lparr>er_benchmark = benchmark, er_containers = containers, er_repetition = repetition, er_total_time_s = total_time,
             er_synchronization_time_s = synchronization, er_cross_machine_time_s = cross_machine,
             er_synchronization_fraction = fraction\<rparr>, efficiency)))))))))"

definition load_existing_rows :: "string option \<Rightarrow> summary_row list res" where
  "load_existing_rows summary =
     (case summary of None \<Rightarrow> Inr [] | Some content \<Rightarrow> mapE (\<lambda>(row, _). load_row row) (dict_rows content))"

section \<open>The report\<close>

definition analyze_row ::
  "(string, string option) dict \<times> string list \<Rightarrow> ((string \<times> int) \<times> (string, real) dict) res" where
  "analyze_row = (\<lambda>(row, surplus).
     bindE (csv_value Inr row ''benchmark'') (\<lambda>benchmark.
     bindE (csv_value int_text row ''containers'') (\<lambda>node_count.
     bindE (dict_item row ''repetition'') (\<lambda>_.
     bindE (mapE (\<lambda>(name, _). bindE (csv_value py_float row name) (\<lambda>x. Inr (name, x)))
             (filter (\<lambda>(name, _). name \<notin> {''benchmark'', ''containers'', ''repetition''}) row)) (\<lambda>numbers.
       if surplus = [] then Inr ((benchmark, node_count), numbers)
       else Inl (TypeError ''float() argument must be a string or a number, not 'list' ''))))))"

type_synonym groups = "(string \<times> int, (string, real) dict list) dict"

definition add_to_group :: "groups \<Rightarrow> (string \<times> int) \<times> (string, real) dict \<Rightarrow> groups" where
  "add_to_group gs = (\<lambda>(key, numbers). AList.update key (dict_get gs key [] @ [numbers]) gs)"

definition average :: "(string, real) dict list \<Rightarrow> string \<Rightarrow> real res" where
  "average rows column = bindE (mapE (\<lambda>row. dict_item row column) rows) mean"

record report_entry =
  re_benchmark :: string
  re_nodes :: int
  re_total :: real
  re_cross :: real
  re_sync :: real
  re_efficiency :: real

definition report_entry_of :: "groups \<Rightarrow> string \<Rightarrow> real \<Rightarrow> int \<Rightarrow> report_entry res" where
  "report_entry_of gs benchmark base node_count =
     (let rows = dict_get gs (benchmark, node_count) []
      in bindE (average rows ''total_time_s'') (\<lambda>total_time.
         bindE (average rows ''cross_machine_time_s'') (\<lambda>cross.
         bindE (average rows ''synchronization_time_s'') (\<lambda>sync.
         bindE (div_float base (total_time * of_int node_count)) (\<lambda>efficiency.
           Inr \<lparr>re_benchmark = benchmark, re_nodes = node_count, re_total = total_time, re_cross = cross, re_sync = sync,
                re_efficiency = efficiency\<rparr>)))))"

definition report_entries :: "groups \<Rightarrow> string \<Rightarrow> report_entry list res" where
  "report_entries gs benchmark =
     bindE (average (dict_get gs (benchmark, 1) []) ''total_time_s'') (\<lambda>base.
       mapE (report_entry_of gs benchmark base) [1, 2, 4, 8])"

record report =
  rp_repetitions :: nat
  rp_entries :: "report_entry list"

text \<open>Without rows \<open>next\<close> raises \<open>StopIteration\<close>, which ends the program like every other exception.\<close>

definition analyze_results :: "string \<Rightarrow> report res" where
  "analyze_results content =
     bindE (mapE analyze_row (dict_rows content)) (\<lambda>rows.
       let gs = foldl add_to_group [] rows
       in case gs of
            [] \<Rightarrow> Inl (RuntimeError ''StopIteration'')
          | (_, first) # _ \<Rightarrow>
              bindE (mapE (report_entries gs) (sort (remdups (map (\<lambda>(key, _). fst key) gs)))) (\<lambda>entries.
                Inr \<lparr>rp_repetitions = length first, rp_entries = concat entries\<rparr>))"

section \<open>The matrix\<close>

record experiment_arguments =
  xa_repetitions :: int
  xa_benchmarks :: "string list"
  xa_append :: bool
  xa_skip_build :: bool

text \<open>
  What Docker does: the exit code of the image command, exit code and streams of starting a run, and
  the exit code of removing it. \<open>xw_summary\<close> is the summary file that exists before.
\<close>

record experiment_world =
  xw_image :: int
  xw_up :: "string \<Rightarrow> nat \<Rightarrow> nat \<Rightarrow> int \<times> string \<times> string"
  xw_down :: "string \<Rightarrow> nat \<Rightarrow> nat \<Rightarrow> int"
  xw_summary :: "string option"
  xw_loads :: "string \<Rightarrow> measurement res"
  xw_dumps :: "json \<Rightarrow> string"
  xw_float_text :: "real \<Rightarrow> string"

definition checked :: "string list \<Rightarrow> int \<Rightarrow> unit res" where
  "checked command code = (if code = 0 then Inr () else Inl (CalledProcessError command code))"

definition image_command :: "bool \<Rightarrow> string list" where
  "image_command skip_build =
     (if skip_build then [''docker'', ''image'', ''inspect'', ''chipsystemsim:latest'']
      else [''docker'', ''build'', ''--tag'', ''chipsystemsim:latest'', ''--file'', ''docker/Dockerfile'', ''.''])"

definition compose_command :: "string \<Rightarrow> string \<Rightarrow> string list \<Rightarrow> string list" where
  "compose_command project compose_file words = [''docker'', ''compose'', ''--project-name'', project, ''--file'', compose_file] @ words"

definition project_name :: "string \<Rightarrow> nat \<Rightarrow> nat \<Rightarrow> string" where
  "project_name benchmark container_count repetition =
     ''sl'' @ take 5 benchmark @ show_nat container_count @ ''r'' @ show_nat repetition"

text \<open>One run; the stack is removed in any case, and a failed removal replaces a failed run.\<close>

definition run_experiment :: "experiment_world \<Rightarrow> string \<Rightarrow> string \<times> nat \<times> nat \<Rightarrow> experiment_row res" where
  "run_experiment w results = (\<lambda>(benchmark, container_count, repetition).
     bindE (write_run_files (xw_dumps w) results benchmark container_count repetition) (\<lambda>files.
       let project = project_name benchmark container_count repetition; compose_file = rf_directory files @ ''/compose.json'';
           (code, out, err) = xw_up w benchmark container_count repetition
       in bindE (checked (compose_command project compose_file [''down'', ''--volumes'', ''--timeout'', ''1''])
                 (xw_down w benchmark container_count repetition)) (\<lambda>_.
          bindE (checked (compose_command project compose_file [''up'', ''--abort-on-container-exit'', ''--exit-code-from'', ''node0'']) code) (\<lambda>_.
            collect_measurement (xw_loads w) (out @ err) container_count repetition))))"

definition matrix_runs :: "experiment_arguments \<Rightarrow> (string \<times> nat \<times> nat) list" where
  "matrix_runs a =
     concat (map (\<lambda>benchmark. concat (map (\<lambda>container_count. map (\<lambda>repetition. (benchmark, container_count, repetition))
       [1..<nat (xa_repetitions a) + 1]) [1, 2, 4, 8])) (xa_benchmarks a))"

definition write_summary :: "(real \<Rightarrow> string) \<Rightarrow> string \<Rightarrow> experiment_row list \<Rightarrow> (summary_row list \<times> string \<times> report) res" where
  "write_summary float_text results rows =
     bindE (summary_rows rows) (\<lambda>summary.
       if rows = [] then Inl IndexError
       else let content = summary_csv float_text summary
            in case analyze_results content of
                 Inl _ \<Rightarrow> Inl (CalledProcessError [''python'', ''scripts/analyze_results.py'', results @ ''/summary.csv''] 1)
               | Inr rp \<Rightarrow> Inr (summary, content, rp))"

definition run_experiments :: "experiment_world \<Rightarrow> string \<Rightarrow> experiment_arguments \<Rightarrow> (summary_row list \<times> string \<times> report) res" where
  "run_experiments w results a =
     (if xa_repetitions a < 1 then Inl (ValueError ''--repetitions must be at least one'')
      else bindE (checked (image_command (xa_skip_build a)) (xw_image w)) (\<lambda>_.
           bindE (if xa_append a then load_existing_rows (xw_summary w) else Inr []) (\<lambda>existing.
           bindE (mapE (run_experiment w results) (matrix_runs a)) (\<lambda>rows.
             write_summary (xw_float_text w) results (map fst existing @ rows)))))"

section \<open>The summary file\<close>

lemma summary_fields_facts: "length summary_fields = 8" "distinct summary_fields"
  by (simp_all add: summary_fields_def)

lemma row_fields_length: "length (row_fields float_text r) = 8"
  by (simp add: row_fields_def row_floats_def split: prod.splits)

lemma summary_dict_rows:
  "dict_rows (summary_csv float_text rows) = map (\<lambda>r. (zip summary_fields (map Some (row_fields float_text r)), [])) rows"
  unfolding summary_csv_def
  by (subst dict_rows_text) (simp_all add: summary_fields_facts row_fields_length list_all_iff)

lemma load_row_fields:
  assumes "\<And>x. x \<in> set (row_floats r) \<Longrightarrow> py_float (float_text x) = Inr x"
  shows "load_row (zip summary_fields (map Some (row_fields float_text r))) = Inr r"
  using assms by (cases r) (simp add: load_row_def row_fields_def row_floats_def summary_fields_def csv_value_def dict_item_def int_text_str_int)

text \<open>The numbers of a row as the report reads them.\<close>

definition row_numbers :: "(real \<Rightarrow> real) \<Rightarrow> summary_row \<Rightarrow> (string, real) dict" where
  "row_numbers parsed r = zip (drop 3 summary_fields) (map parsed (row_floats r))"

lemma analyze_row_fields:
  assumes "\<And>x. x \<in> set (row_floats r) \<Longrightarrow> py_float (float_text x) = Inr (parsed x)"
  shows "analyze_row (zip summary_fields (map Some (row_fields float_text r)), [])
    = Inr ((er_benchmark (fst r), er_containers (fst r)), row_numbers parsed r)"
  using assms by (cases r) (simp add: analyze_row_def row_fields_def row_floats_def summary_fields_def row_numbers_def
    csv_value_def dict_item_def int_text_str_int)

lemma csv_group_items:
  "dict_get (foldl add_to_group gs rows) key [] = dict_get gs key [] @ map snd (filter (\<lambda>(k, _). k = key) rows)"
  by (induction rows arbitrary: gs) (auto simp: add_to_group_def dict_get_def map_of_update split: prod.splits)

lemma group_keys: "fst ` set (foldl add_to_group gs rows) = fst ` set gs \<union> fst ` set rows"
proof (induction rows arbitrary: gs)
  case (Cons r rows)
  then show ?case by (cases r) (simp add: add_to_group_def dom_update)
qed simp

lemma average_numbers:
  "average (map (row_numbers parsed) rs) ''total_time_s'' = mean (map (\<lambda>r. parsed (er_total_time_s (fst r))) rs)"
  "average (map (row_numbers parsed) rs) ''cross_machine_time_s'' = mean (map (\<lambda>r. parsed (er_cross_machine_time_s (fst r))) rs)"
  "average (map (row_numbers parsed) rs) ''synchronization_time_s'' = mean (map (\<lambda>r. parsed (er_synchronization_time_s (fst r))) rs)"
proof -
  have *: "mapE (\<lambda>row. dict_item row column) (map (row_numbers parsed) rs) = Inr (map (\<lambda>r. parsed (f (fst r))) rs)"
    if "\<And>r. map_of (row_numbers parsed r) column = Some (parsed (f (fst r)))" for column f
    by (induction rs) (simp_all add: that dict_item_def)
  show "average (map (row_numbers parsed) rs) ''total_time_s'' = mean (map (\<lambda>r. parsed (er_total_time_s (fst r))) rs)"
    unfolding average_def by (subst *) (simp_all add: row_numbers_def summary_fields_def row_floats_def split: prod.splits)
  show "average (map (row_numbers parsed) rs) ''cross_machine_time_s'' = mean (map (\<lambda>r. parsed (er_cross_machine_time_s (fst r))) rs)"
    unfolding average_def by (subst *) (simp_all add: row_numbers_def summary_fields_def row_floats_def split: prod.splits)
  show "average (map (row_numbers parsed) rs) ''synchronization_time_s'' = mean (map (\<lambda>r. parsed (er_synchronization_time_s (fst r))) rs)"
    unfolding average_def by (subst *) (simp_all add: row_numbers_def summary_fields_def row_floats_def split: prod.splits)
qed

text \<open>The rows of one entry of the report.\<close>

definition entry_rows :: "summary_row list \<Rightarrow> string \<Rightarrow> int \<Rightarrow> summary_row list" where
  "entry_rows rows benchmark n = filter (\<lambda>r. er_benchmark (fst r) = benchmark \<and> er_containers (fst r) = n) rows"

definition row_groups :: "(real \<Rightarrow> real) \<Rightarrow> summary_row list \<Rightarrow> groups" where
  "row_groups parsed rows =
     foldl add_to_group [] (map (\<lambda>r. ((er_benchmark (fst r), er_containers (fst r)), row_numbers parsed r)) rows)"

lemma row_groups_get: "dict_get (row_groups parsed rows) (b, n) [] = map (row_numbers parsed) (entry_rows rows b n)"
proof -
  have "filter (\<lambda>(k, _). k = (b, n)) (map (\<lambda>r. ((er_benchmark (fst r), er_containers (fst r)), row_numbers parsed r)) rows)
      = map (\<lambda>r. ((b, n), row_numbers parsed r)) (entry_rows rows b n)"
    by (induction rows) (auto simp: entry_rows_def)
  then show ?thesis by (simp add: row_groups_def csv_group_items dict_get_def [of "[]"] comp_def)
qed

lemma row_groups_keys: "fst ` set (row_groups parsed rows) = (\<lambda>r. (er_benchmark (fst r), er_containers (fst r))) ` set rows"
  by (simp add: row_groups_def group_keys image_comp comp_def)

lemma mapE_map_Inr: "(\<And>x. x \<in> set xs \<Longrightarrow> f (g x) = Inr (h x)) \<Longrightarrow> mapE f (map g xs) = Inr (map h xs)"
  by (induction xs) simp_all

lemma mapE_result: "mapE f xs = Inr ys \<Longrightarrow> y \<in> set ys \<Longrightarrow> \<exists>x\<in>set xs. f x = Inr y"
  by (induction xs arbitrary: ys) (fastforce simp: bindE_eq_Inr)+

lemma analyze_summary:
  assumes "\<And>r x. r \<in> set rows \<Longrightarrow> x \<in> set (row_floats r) \<Longrightarrow> py_float (float_text x) = Inr (parsed x)"
  shows "analyze_results (summary_csv float_text rows) =
    (case row_groups parsed rows of
       [] \<Rightarrow> Inl (RuntimeError ''StopIteration'')
     | (_, first) # _ \<Rightarrow>
         bindE (mapE (report_entries (row_groups parsed rows)) (sort (remdups (map (\<lambda>(key, _). fst key) (row_groups parsed rows))))) (\<lambda>entries.
           Inr \<lparr>rp_repetitions = length first, rp_entries = concat entries\<rparr>))"
proof -
  have "mapE analyze_row (dict_rows (summary_csv float_text rows))
      = Inr (map (\<lambda>r. ((er_benchmark (fst r), er_containers (fst r)), row_numbers parsed r)) rows)"
    unfolding summary_dict_rows by (rule mapE_map_Inr) (use assms in \<open>blast intro: analyze_row_fields\<close>)
  then show ?thesis unfolding analyze_results_def by (simp only: bindE_Inr Let_def row_groups_def)
qed

section \<open>Efficiencies\<close>

lemma dict_item_keyed:
  assumes "mapE (\<lambda>k. bindE (f k) (\<lambda>v. Inr (k, v))) ks = Inr d" and "dict_item d k = Inr v"
  shows "f k = Inr v"
proof -
  have "(k, v) \<in> set d" using assms(2) by (auto simp: dict_item_def split: option.splits dest: map_of_SomeD)
  then show ?thesis using assms(1) by (fastforce simp: mapE_Inr_iff list_all2_conv_all_nth in_set_conv_nth bindE_eq_Inr)
qed

lemma summary_rows_Inr:
  assumes "summary_rows rows = Inr summary"
  shows "map fst summary = rows"
    and "r \<in> set summary \<Longrightarrow> \<exists>b. baseline rows (er_benchmark (fst r)) = Inr b
      \<and> div_float b (er_total_time_s (fst r) * of_int (er_containers (fst r))) = Inr (snd r)"
proof -
  obtain d where d: "mapE (\<lambda>benchmark. bindE (baseline rows benchmark) (\<lambda>b. Inr (benchmark, b))) (remdups (map er_benchmark rows)) = Inr d"
    "mapE (efficient_row d) rows = Inr summary"
    using assms by (auto simp: summary_rows_def bindE_eq_Inr)
  from d(2) show "map fst summary = rows"
    by (induction rows arbitrary: summary) (auto simp: efficient_row_def bindE_eq_Inr)
  show "\<exists>b. baseline rows (er_benchmark (fst r)) = Inr b
      \<and> div_float b (er_total_time_s (fst r) * of_int (er_containers (fst r))) = Inr (snd r)" if "r \<in> set summary"
  proof -
    obtain x where "efficient_row d x = Inr r" using mapE_result [OF d(2)] \<open>r \<in> set summary\<close> by blast
    then show ?thesis using dict_item_keyed [OF d(1)] by (auto simp: efficient_row_def bindE_eq_Inr)
  qed
qed

lemma baseline_entry_rows:
  assumes "map fst summary = rows"
  shows "baseline rows b = mean (map (\<lambda>r. er_total_time_s (fst r)) (entry_rows summary b 1))"
  unfolding baseline_def entry_rows_def assms [symmetric] by (simp add: filter_map comp_def)

lemma mean_scaled:
  assumes "mean (map f xs) = Inr m"
  shows "mean (map (\<lambda>x. f x * c) xs) = Inr (m * c)"
proof -
  have "xs \<noteq> []" "m = sum_list (map f xs) / of_nat (length xs)" using assms by (auto simp: mean_def split: if_splits)
  then show ?thesis by (simp add: mean_def sum_list_mult_const)
qed

lemma report_entry_Inr:
  assumes "report_entry_of gs b base n = Inr e"
  shows "average (dict_get gs (b, n) []) ''total_time_s'' = Inr (re_total e)"
    "average (dict_get gs (b, n) []) ''synchronization_time_s'' = Inr (re_sync e)"
    "average (dict_get gs (b, n) []) ''cross_machine_time_s'' = Inr (re_cross e)"
    "re_efficiency e = base / (re_total e * of_int n)" "re_nodes e = n" "re_benchmark e = b"
  using assms by (cases e; auto simp: report_entry_of_def bindE_eq_Inr Let_def div_float_def split: if_splits)+

lemma report_entries_Inr:
  assumes "report_entries gs benchmark = Inr es" and "e \<in> set es"
  shows "\<exists>base. average (dict_get gs (benchmark, 1) []) ''total_time_s'' = Inr base
    \<and> report_entry_of gs benchmark base (re_nodes e) = Inr e \<and> re_benchmark e = benchmark \<and> re_nodes e \<in> {1, 2, 4, 8}"
proof -
  obtain base where base: "average (dict_get gs (benchmark, 1) []) ''total_time_s'' = Inr base"
    "mapE (report_entry_of gs benchmark base) [1, 2, 4, 8] = Inr es"
    using assms(1) by (auto simp: report_entries_def bindE_eq_Inr)
  obtain n where n: "n \<in> {1, 2, 4, 8}" "report_entry_of gs benchmark base n = Inr e"
    using mapE_result [OF base(2) assms(2)] by auto
  with base(1) report_entry_Inr(5,6) [OF n(2)] show ?thesis by blast
qed

text \<open>
  C24. The efficiency of a table entry is the harmonic mean of the efficiencies of its runs. When the
  driver writes a summary and its CSV text reads back as the same numbers, every entry of the report
  belongs to at least one run, its times are the means of the times of these runs, and the
  reciprocal of its parallel efficiency is the mean of the reciprocals in the summary.
\<close>

theorem report_efficiency_harmonic:
  assumes "write_summary float_text results rows = Inr (summary, content, rp)"
    and "\<And>r x. r \<in> set summary \<Longrightarrow> x \<in> set (row_floats r) \<Longrightarrow> py_float (float_text x) = Inr x"
    and "e \<in> set (rp_entries rp)"
  shows "let rs = entry_rows summary (re_benchmark e) (re_nodes e)
    in mean (map (\<lambda>r. er_total_time_s (fst r)) rs) = Inr (re_total e)
      \<and> mean (map (\<lambda>r. er_synchronization_time_s (fst r)) rs) = Inr (re_sync e)
      \<and> mean (map (\<lambda>r. er_cross_machine_time_s (fst r)) rs) = Inr (re_cross e)
      \<and> mean (map (\<lambda>r. 1 / snd r) rs) = Inr (1 / re_efficiency e)"
proof -
  let ?gs = "row_groups (\<lambda>x. x) summary" and ?rs = "entry_rows summary (re_benchmark e) (re_nodes e)"
  have s: "summary_rows rows = Inr summary" "analyze_results (summary_csv float_text summary) = Inr rp"
    using assms(1) by (auto simp: write_summary_def bindE_eq_Inr Let_def split: if_splits sum.splits)
  then obtain entries where entries: "mapE (report_entries ?gs) (sort (remdups (map (\<lambda>(key, _). fst key) ?gs))) = Inr entries"
      "rp_entries rp = concat entries"
    using analyze_summary [of summary float_text "\<lambda>x. x", OF assms(2)]
    by (auto simp: bindE_eq_Inr split: list.splits prod.splits)
  obtain es where "es \<in> set entries" and e: "e \<in> set es" using assms(3) entries(2) by auto
  then obtain b where es: "report_entries ?gs b = Inr es" using mapE_result [OF entries(1)] by blast
  from report_entries_Inr [OF es e] obtain base where base: "average (dict_get ?gs (b, 1) []) ''total_time_s'' = Inr base"
    "report_entry_of ?gs b base (re_nodes e) = Inr e" "re_benchmark e = b" by blast
  note means = report_entry_Inr [OF base(2), unfolded row_groups_get average_numbers, folded base(3)]
  have "snd r = base / (er_total_time_s (fst r) * of_int (re_nodes e))" if "r \<in> set ?rs" for r
    using that summary_rows_Inr(2) [OF s(1), of r] base(1,3) baseline_entry_rows [OF summary_rows_Inr(1) [OF s(1)], of b]
    by (auto simp: entry_rows_def row_groups_get average_numbers div_float_def split: if_splits)
  then have "map (\<lambda>r. 1 / snd r) ?rs = map (\<lambda>r. er_total_time_s (fst r) * (of_int (re_nodes e) / base)) ?rs"
    by (intro map_cong refl) simp
  then have "mean (map (\<lambda>r. 1 / snd r) ?rs) = Inr (1 / re_efficiency e)"
    using mean_scaled [OF means(1), of "of_int (re_nodes e) / base"] means(4) by (simp only:) simp
  with means(1-3) show ?thesis by (simp only: Let_def)
qed

section \<open>Texts of floats\<close>

text \<open>A decimal with nine digits after the point in exponent notation, rounded up.\<close>

definition nano_text :: "real \<Rightarrow> string" where
  "nano_text x = str_int \<lceil>x * 10 ^ 9\<rceil> @ ''e-9''"

lemma digit_run: "c \<in> set (str_int k) \<Longrightarrow> c \<noteq> CHR ''e'' \<and> c \<noteq> CHR ''E''"
  using str_int_chars [of c k] by (auto simp: is_digit_def)

lemma signed_decimal_show_nat: "decimal_text (show_nat n) = Some (real n)" "signed_text decimal_text (show_nat n) = Some (real n)"
proof -
  have "CHR ''.'' \<notin> set (show_nat n)" using show_nat_digits [of n] by (auto simp: list_all_iff is_digit_def)
  then show d: "decimal_text (show_nat n) = Some (real n)" using show_nat_digits [of n] by (simp add: decimal_text_def partition_at_def)
  obtain c r where "show_nat n = c # r" "is_digit c" using show_nat_digits [of n] show_nat_nonempty [of n] by (cases "show_nat n") auto
  then show "signed_text decimal_text (show_nat n) = Some (real n)" using d is_digit_neq [of c] by (simp add: signed_text_def)
qed

lemma signed_decimal_str_int: "signed_text decimal_text (str_int k) = Some (of_int k)"
  by (cases "k < 0") (simp_all add: str_int_def signed_decimal_show_nat signed_text_def [of _ "CHR ''-'' # _"])

lemma py_float_nano: "py_float (str_int k @ ''e-9'') = Inr (of_int k / 10 ^ 9)"
proof -
  let ?e = "\<lambda>c. \<not> (c = CHR ''e'' \<or> c = CHR ''E'')"
  have "takeWhile ?e (str_int k @ ''e-9'') = str_int k @ takeWhile ?e ''e-9''"
    by (rule takeWhile_append2) (use digit_run in blast)
  moreover have "dropWhile ?e (str_int k @ ''e-9'') = dropWhile ?e ''e-9''"
    by (rule dropWhile_append2) (use digit_run in blast)
  moreover have "signed_text exponent_text ''-9'' = Some (- 9)"
    by (simp add: signed_text_def exponent_text_def is_digit_def digits_val_def digit_val_def)
  ultimately have "py_float (str_int k @ ''e-9'') = Inr (of_int k * power_int 10 (- 9))"
    by (simp add: py_float_def signed_decimal_str_int)
  moreover have "power_int (10 :: real) (- 9) = 1 / 10 ^ 9" by (simp add: power_int_def power_divide)
  ultimately show ?thesis by (simp only:) simp
qed

lemma py_float_nano_text: "\<exists>y. py_float (nano_text x) = Inr y \<and> (0 < x \<longrightarrow> 0 < y)"
  by (intro exI [of _ "of_int \<lceil>x * 10 ^ 9\<rceil> / 10 ^ 9"]) (simp add: nano_text_def py_float_nano)

section \<open>The matrix of experiments\<close>

lemma run_controller_fields:
  "run_controller env cfg depth started finished = Inr m \<Longrightarrow>
     ms_benchmark m = cf_benchmark cfg \<and> ms_total_time_ns m = finished - started"
  by (auto simp: run_controller_def bindE_eq_Inr split: if_splits)

lemma ns_seconds_mono: "ns_seconds a \<le> ns_seconds b \<longleftrightarrow> a \<le> b" "0 \<le> ns_seconds a \<longleftrightarrow> 0 \<le> a" "0 < ns_seconds a \<longleftrightarrow> 0 < a" "ns_seconds a = 0 \<longleftrightarrow> a = 0"
  by (simp_all add: ns_seconds_def divide_le_cancel zero_le_divide_iff zero_less_divide_iff)

definition sound_row :: "experiment_row \<Rightarrow> bool" where
  "sound_row row \<longleftrightarrow> 0 \<le> er_cross_machine_time_s row \<and> er_cross_machine_time_s row \<le> er_synchronization_time_s row
     \<and> er_synchronization_time_s row \<le> er_total_time_s row \<and> 0 < er_total_time_s row \<and> er_synchronization_fraction row \<le> 1
     \<and> (er_containers row = 1 \<longrightarrow> er_cross_machine_time_s row = 0)"

definition run_label :: "string \<times> nat \<times> nat \<Rightarrow> string \<times> int \<times> int" where
  "run_label = (\<lambda>(benchmark, container_count, repetition).
     (pr_label (the (map_of WORKLOADS benchmark)), int container_count, int repetition))"

definition row_label :: "experiment_row \<Rightarrow> string \<times> int \<times> int" where
  "row_label row = (er_benchmark row, er_containers row, er_repetition row)"

text \<open>
  A run as Docker reports it: the containers start and are removed, and the first marked line of the
  output is the measurement of the controller between its two clock readings.
\<close>

definition observed_run :: "experiment_world \<Rightarrow> platform_env \<Rightarrow> int \<Rightarrow> int \<Rightarrow> string \<times> nat \<times> nat \<Rightarrow> bool" where
  "observed_run w env started finished = (\<lambda>(benchmark, container_count, repetition).
     xw_down w benchmark container_count repetition = 0 \<and>
     (case (xw_up w benchmark container_count repetition, run_config benchmark container_count repetition) of
        ((code, out, err), Inr cfg) \<Rightarrow> code = 0 \<and>
          (case marked_line ''MEASUREMENT_JSON='' (out @ err) of
             Some encoded \<Rightarrow> xw_loads w encoded = run_controller env cfg 2 started finished
           | None \<Rightarrow> False)
      | _ \<Rightarrow> False))"

definition live_env :: "platform_env \<Rightarrow> int \<Rightarrow> int \<Rightarrow> bool" where
  "live_env env started finished \<longleftrightarrow> (\<forall>b w p. \<exists>d. en_ns3 env b w p = Inr d) \<and> (\<forall>role. mono (en_clock env role))
     \<and> (\<forall>role k. started \<le> en_clock env role k \<and> en_clock env role k \<le> finished) \<and> started < finished"

lemma run_experiment_sound:
  assumes "observed_run w env started finished r" and "live_env env started finished"
  shows "\<exists>row. run_experiment w results r = Inr row \<and> sound_row row \<and> row_label row = run_label r"
proof -
  obtain b n k where r: "r = (b, n, k)" by (cases r)
  obtain out err cfg encoded where run: "xw_up w b n k = (0, out, err)" "xw_down w b n k = 0" "run_config b n k = Inr cfg"
    "marked_line ''MEASUREMENT_JSON='' (out @ err) = Some encoded" "xw_loads w encoded = run_controller env cfg 2 started finished"
    using assms(1) by (auto simp: r observed_run_def split: prod.splits sum.splits option.splits)
  obtain m where m: "run_controller env cfg 2 started finished = Inr m"
    "0 \<le> ms_cross_machine_time_ns m" "ms_cross_machine_time_ns m \<le> ms_synchronization_time_ns m"
    "ms_synchronization_time_ns m \<le> ms_total_time_ns m" "ms_synchronization_fraction m \<le> 1"
    "n = 1 \<longrightarrow> ms_cross_machine_time_ns m = 0"
    using platform_measurement_sound [OF run(3), of env started finished 2] assms(2) unfolding live_env_def by auto
  let ?row = "\<lparr>er_benchmark = ms_benchmark m, er_containers = int n, er_repetition = int k,
      er_total_time_s = ns_seconds (ms_total_time_ns m), er_synchronization_time_s = ns_seconds (ms_synchronization_time_ns m),
      er_cross_machine_time_s = ns_seconds (ms_cross_machine_time_ns m),
      er_synchronization_fraction = of_rat (ms_synchronization_fraction m)\<rparr>"
  have "run_experiment w results r = Inr ?row"
    using run m(1) by (simp add: r run_experiment_def write_run_files_def checked_def collect_measurement_def)
  moreover have "sound_row ?row"
    using m assms(2) run_controller_fields [OF m(1)] by (auto simp: sound_row_def live_env_def ns_seconds_mono)
  moreover have "ms_benchmark m = pr_label (the (map_of WORKLOADS b))"
    using run(3) run_controller_fields [OF m(1)] by (auto simp: run_config_def bindE_eq_Inr dict_item_def split: option.splits)
  ultimately show ?thesis by (auto simp: row_label_def run_label_def r)
qed

text \<open>Rows from which a summary and its report can be computed.\<close>

definition full_rows :: "experiment_row list \<Rightarrow> bool" where
  "full_rows rows \<longleftrightarrow> rows \<noteq> [] \<and> (\<forall>row\<in>set rows. 0 < er_total_time_s row \<and> 0 < er_containers row
     \<and> (\<forall>n\<in>{1, 2, 4, 8}. \<exists>other\<in>set rows. er_benchmark other = er_benchmark row \<and> er_containers other = n))"

lemma div_float_Inr: "div_float x y = Inr z \<longleftrightarrow> y \<noteq> 0 \<and> z = x / y"
  by (auto simp: div_float_def)

lemma mean_positive:
  assumes "xs \<noteq> []" and "\<And>x. x \<in> set xs \<Longrightarrow> 0 < x"
  shows "\<exists>m. mean xs = Inr m \<and> 0 < m"
proof -
  have "0 < sum_list xs" using assms by (induction xs rule: list_nonempty_induct) (auto intro: add_pos_pos)
  then show ?thesis using assms(1) by (simp add: mean_def)
qed

lemma keyed_total:
  assumes "\<And>k. k \<in> set ks \<Longrightarrow> \<exists>v. f k = Inr v"
  shows "\<exists>d. mapE (\<lambda>k. bindE (f k) (\<lambda>v. Inr (k, v))) ks = Inr d \<and> (\<forall>k\<in>set ks. \<exists>v. dict_item d k = Inr v)"
  using assms
proof (induction ks)
  case (Cons k ks)
  then obtain d v where "mapE (\<lambda>k. bindE (f k) (\<lambda>v. Inr (k, v))) ks = Inr d" "\<forall>k\<in>set ks. \<exists>v. dict_item d k = Inr v" "f k = Inr v"
    by force
  then show ?case by (auto simp: dict_item_def)
qed simp

lemma summary_rows_total:
  assumes "full_rows rows"
  shows "\<exists>summary. summary_rows rows = Inr summary \<and> map fst summary = rows \<and> (\<forall>r\<in>set summary. 0 < snd r)"
proof -
  have base: "\<exists>b. baseline rows (er_benchmark row) = Inr b \<and> 0 < b" if row: "row \<in> set rows" for row
  proof -
    let ?ones = "filter (\<lambda>r. er_benchmark r = er_benchmark row \<and> er_containers r = 1) rows"
    have "?ones \<noteq> []" using assms row by (auto simp: full_rows_def filter_empty_conv)
    with assms mean_positive [of "map er_total_time_s ?ones"] show ?thesis by (auto simp: baseline_def full_rows_def)
  qed
  obtain d where d: "mapE (\<lambda>b. bindE (baseline rows b) (\<lambda>v. Inr (b, v))) (remdups (map er_benchmark rows)) = Inr d"
    "\<forall>row\<in>set rows. \<exists>v. dict_item d (er_benchmark row) = Inr v"
    using keyed_total [of "remdups (map er_benchmark rows)" "baseline rows"] base by force
  have "\<exists>r. efficient_row d row = Inr r" if "row \<in> set rows" for row
    using d(2) that assms by (fastforce simp: efficient_row_def div_float_def full_rows_def)
  then obtain summary where summary: "summary_rows rows = Inr summary"
    using mapE_total [of rows "efficient_row d"] d(1) by (auto simp: summary_rows_def)
  have "0 < snd r" if "r \<in> set summary" for r
  proof -
    have row: "fst r \<in> set rows" using summary_rows_Inr(1) [OF summary] that by (metis image_eqI set_map)
    from summary_rows_Inr(2) [OF summary that] base [OF row] obtain b where
      "snd r = b / (er_total_time_s (fst r) * of_int (er_containers (fst r)))" "0 < b"
      by (auto simp: div_float_Inr)
    moreover have "0 < er_total_time_s (fst r)" "0 < er_containers (fst r)" using assms row by (simp_all add: full_rows_def)
    ultimately show ?thesis by simp
  qed
  with summary summary_rows_Inr(1) [OF summary] show ?thesis by blast
qed

lemma report_entries_total:
  assumes "\<And>n. n \<in> {1, 2, 4, 8} \<Longrightarrow> entry_rows summary b n \<noteq> []"
    and "\<And>r. r \<in> set summary \<Longrightarrow> 0 < parsed (er_total_time_s (fst r))"
  shows "\<exists>es. report_entries (row_groups parsed summary) b = Inr es"
proof -
  let ?mean = "\<lambda>n f. mean (map (\<lambda>r. parsed (f (fst r))) (entry_rows summary b n))"
  have total_time: "\<exists>m. ?mean n er_total_time_s = Inr m \<and> 0 < m" if "n \<in> {1, 2, 4, 8}" for n
  proof (rule mean_positive)
    show "0 < x" if "x \<in> set (map (\<lambda>r. parsed (er_total_time_s (fst r))) (entry_rows summary b n))" for x
      using that assms(2) by (auto simp: entry_rows_def)
  qed (use assms(1) that in simp)
  have other: "\<exists>m. ?mean n f = Inr m" if "n \<in> {1, 2, 4, 8}" for n f using assms(1) [OF that] by (simp add: mean_def)
  have "\<exists>e. report_entry_of (row_groups parsed summary) b base n = Inr e" if n: "n \<in> {1, 2, 4, 8}" for base n
    using total_time [OF n] other [OF n, of er_cross_machine_time_s] other [OF n, of er_synchronization_time_s] n
    by (auto simp: report_entry_of_def row_groups_get average_numbers div_float_def Let_def)
  from mapE_total [of "[1, 2, 4, 8]", OF this] total_time [of 1] show ?thesis
    unfolding report_entries_def row_groups_get average_numbers by auto
qed

lemma write_summary_total:
  assumes "full_rows rows" and "\<And>x. \<exists>y. py_float (float_text x) = Inr y \<and> (0 < x \<longrightarrow> 0 < y)"
  shows "\<exists>summary content rp. write_summary float_text results rows = Inr (summary, content, rp)
    \<and> map fst summary = rows \<and> (\<forall>r\<in>set summary. 0 < snd r)"
proof -
  obtain parsed where parsed: "\<And>x. py_float (float_text x) = Inr (parsed x)" "\<And>x. 0 < x \<Longrightarrow> 0 < parsed x"
    using assms(2) by metis
  obtain summary where summary: "summary_rows rows = Inr summary" "map fst summary = rows" "\<forall>r\<in>set summary. 0 < snd r"
    using summary_rows_total [OF assms(1)] by blast
  let ?gs = "row_groups parsed summary"
  have rows: "set rows = fst ` set summary" using summary(2) by (metis set_map)
  have "\<exists>es. report_entries ?gs b = Inr es" if "b \<in> set (sort (remdups (map (\<lambda>(key, _). fst key) ?gs)))" for b
  proof (rule report_entries_total)
    from that have "b \<in> fst ` (fst ` set ?gs)" by force
    then have "b \<in> er_benchmark ` set rows" by (auto simp: row_groups_keys rows image_iff)
    then obtain row where row: "row \<in> set rows" "b = er_benchmark row" by blast
    show "entry_rows summary b n \<noteq> []" if "n \<in> {1, 2, 4, 8}" for n
    proof -
      from assms(1) row that obtain other where "other \<in> set rows" "er_benchmark other = b" "er_containers other = n"
        unfolding full_rows_def by metis
      then show ?thesis by (auto simp: entry_rows_def filter_empty_conv rows)
    qed
  qed (use assms(1) rows parsed(2) in \<open>auto simp: full_rows_def\<close>)
  then obtain entries where "mapE (report_entries ?gs) (sort (remdups (map (\<lambda>(key, _). fst key) ?gs))) = Inr entries"
    using mapE_total by blast
  moreover have "?gs \<noteq> []" using row_groups_keys [of parsed summary] summary(2) assms(1) by (auto simp: full_rows_def)
  ultimately obtain rp where "analyze_results (summary_csv float_text summary) = Inr rp"
    using analyze_summary [of summary float_text parsed] parsed(1) by (cases ?gs) auto
  then show ?thesis using summary assms(1) by (auto simp: write_summary_def full_rows_def)
qed

lemma matrix_runs_iff:
  "(b, n, k) \<in> set (matrix_runs a) \<longleftrightarrow> b \<in> set (xa_benchmarks a) \<and> n \<in> {1, 2, 4, 8} \<and> 1 \<le> k \<and> k \<le> nat (xa_repetitions a)"
proof -
  have "set [1..<nat (xa_repetitions a) + 1] = {1..nat (xa_repetitions a)}" by auto
  then show ?thesis unfolding matrix_runs_def set_concat set_map by (auto simp: image_iff simp del: upt_Suc)
qed

lemma matrix_rows_full:
  assumes "map row_label rows = map run_label (matrix_runs a)" and "list_all sound_row rows"
    and "1 \<le> xa_repetitions a" and "xa_benchmarks a \<noteq> []"
  shows "full_rows rows"
  unfolding full_rows_def
proof (intro conjI ballI)
  have labels: "row_label ` set rows = run_label ` set (matrix_runs a)" using arg_cong [OF assms(1), of set] by simp
  have "(hd (xa_benchmarks a), 1, 1) \<in> set (matrix_runs a)" using assms(3,4) by (simp add: matrix_runs_iff)
  then show "rows \<noteq> []" using labels by auto
  fix row assume row: "row \<in> set rows"
  then show "0 < er_total_time_s row" using assms(2) by (simp add: list_all_iff sound_row_def)
  have "row_label row \<in> run_label ` set (matrix_runs a)" using labels row by blast
  then obtain r where r: "r \<in> set (matrix_runs a)" "row_label row = run_label r" by blast
  obtain b n k where "r = (b, n, k)" by (cases r)
  note run = r [unfolded this]
  from run show "0 < er_containers row" unfolding matrix_runs_iff by (auto simp: row_label_def run_label_def)
  fix m :: int assume "m \<in> {1, 2, 4, 8}"
  then have n': "nat m \<in> {1, 2, 4, 8}" "m = int (nat m)" by auto
  then have "(b, nat m, k) \<in> set (matrix_runs a)" using run(1) unfolding matrix_runs_iff by blast
  then have "run_label (b, nat m, k) \<in> row_label ` set rows" using labels by blast
  then obtain other where "other \<in> set rows" "run_label (b, nat m, k) = row_label other" by blast
  with run(2) n'(2) show "\<exists>other\<in>set rows. er_benchmark other = er_benchmark row \<and> er_containers other = m"
    by (auto simp: row_label_def run_label_def)
qed

text \<open>
  C23. The experiment matrix yields one sound row per run. When Docker starts and removes every run, the
  containers have live simlets (ns-3 answers, monotone clocks between the readings of the controller)
  and the output carries the measurement of the controller, the driver ends without an exception, and
  its summary has exactly one row per benchmark, container count and repetition, in this order. In every
  row the cross-machine time is at most the synchronization time, this at most the positive total
  time, the cross-machine time on one container is zero, and the parallel efficiency is positive.
\<close>

theorem experiment_matrix_sound:
  assumes "1 \<le> xa_repetitions a" and "xa_benchmarks a \<noteq> []" and "\<not> xa_append a" and "xw_image w = 0"
    and "\<And>r. r \<in> set (matrix_runs a) \<Longrightarrow> observed_run w (env r) (started r) (finished r) r \<and> live_env (env r) (started r) (finished r)"
    and "\<And>x. \<exists>y. py_float (xw_float_text w x) = Inr y \<and> (0 < x \<longrightarrow> 0 < y)"
  shows "\<exists>summary content rp. run_experiments w results a = Inr (summary, content, rp)
    \<and> map (\<lambda>r. row_label (fst r)) summary = map run_label (matrix_runs a)
    \<and> list_all (\<lambda>(row, efficiency). sound_row row \<and> 0 < efficiency) summary"
proof -
  have "\<exists>rows. mapE (run_experiment w results) runs = Inr rows \<and> map row_label rows = map run_label runs \<and> list_all sound_row rows"
    if "set runs \<subseteq> set (matrix_runs a)" for runs
    using that
  proof (induction runs)
    case (Cons r runs)
    moreover obtain row where "run_experiment w results r = Inr row" "sound_row row" "row_label row = run_label r"
      using run_experiment_sound assms(5) [of r] Cons.prems by (metis insert_subset list.simps(15))
    ultimately show ?case by auto
  qed simp
  then obtain rows where rows: "mapE (run_experiment w results) (matrix_runs a) = Inr rows"
    "map row_label rows = map run_label (matrix_runs a)" "list_all sound_row rows" by blast
  obtain summary content rp where summary: "write_summary (xw_float_text w) results rows = Inr (summary, content, rp)"
    "map fst summary = rows" "\<forall>r\<in>set summary. 0 < snd r"
    using write_summary_total [OF matrix_rows_full [OF rows(2,3) assms(1,2)] assms(6)] by blast
  have "run_experiments w results a = Inr (summary, content, rp)"
    using assms(1,3,4) rows(1) summary(1) by (simp add: run_experiments_def checked_def)
  moreover have "map (\<lambda>r. row_label (fst r)) summary = map run_label (matrix_runs a)"
    using rows(2) summary(2) by (metis (no_types, lifting) list.map_comp comp_def map_eq_conv)
  moreover have "list_all (\<lambda>(row, efficiency). sound_row row \<and> 0 < efficiency) summary"
    using rows(3) summary(2,3) unfolding list_all_iff by (metis (mono_tags, lifting) case_prodI2 fst_conv imageI list.set_map snd_conv)
  ultimately show ?thesis by blast
qed

definition demo_experiment_arguments :: experiment_arguments where
  "demo_experiment_arguments = \<lparr>xa_repetitions = 1, xa_benchmarks = [''mlp''], xa_append = False, xa_skip_build = True\<rparr>"

definition demo_world :: experiment_world where
  "demo_world = \<lparr>xw_image = 0, xw_up = \<lambda>b n k. (0, ''node0-1 | MEASUREMENT_JSON='' @ show_nat n @ [newline], []), xw_down = \<lambda>_ _ _. 0,
     xw_summary = None, xw_loads = \<lambda>s. bindE (int_text s) (\<lambda>n. bindE (run_config ''mlp'' (nat n) 1) (\<lambda>cfg. run_controller demo_env cfg 2 0 1000)),
     xw_dumps = \<lambda>_. ''{}'', xw_float_text = nano_text\<rparr>"

lemma demo_runs: "matrix_runs demo_experiment_arguments = [(''mlp'', 1, 1), (''mlp'', 2, 1), (''mlp'', 4, 1), (''mlp'', 8, 1)]"
  by (simp add: matrix_runs_def demo_experiment_arguments_def)

lemma demo_marked: "\<forall>n\<in>set [1, 2, 4, 8].
   marked_line ''MEASUREMENT_JSON='' (''node0-1 | MEASUREMENT_JSON='' @ show_nat n @ [newline]) = Some (show_nat n)"
  by code_simp

lemma demo_observed: "r \<in> set (matrix_runs demo_experiment_arguments) \<Longrightarrow> observed_run demo_world demo_env 0 1000 r"
proof -
  assume r: "r \<in> set (matrix_runs demo_experiment_arguments)"
  obtain b n k where r': "r = (b, n, k)" by (cases r)
  then have n: "n \<in> {1, 2, 4, 8}" "b = ''mlp''" "k = 1" using r unfolding demo_runs by auto
  then have "\<exists>cfg. run_config ''mlp'' n 1 = Inr cfg"
    by (auto simp: run_config_def placement_for_def placements_def WORKLOADS_def dict_item_def)
  then show ?thesis using bspec [OF demo_marked, of n] n(1) int_text_str_int [of "int n"]
    by (auto simp: r' n(2,3) observed_run_def demo_world_def str_int_def)
qed

theorem experiment_matrix_sound_witness:
  "\<exists>summary content rp. run_experiments demo_world ''/results'' demo_experiment_arguments = Inr (summary, content, rp)
    \<and> map (\<lambda>r. row_label (fst r)) summary = [(''MLP'', 1, 1), (''MLP'', 2, 1), (''MLP'', 4, 1), (''MLP'', 8, 1)]
    \<and> list_all (\<lambda>(row, efficiency). sound_row row \<and> 0 < efficiency) summary"
proof -
  have "live_env demo_env 0 1000" by (auto simp: live_env_def demo_env_def mono_def min_def)
  moreover have "map run_label (matrix_runs demo_experiment_arguments) = [(''MLP'', 1, 1), (''MLP'', 2, 1), (''MLP'', 4, 1), (''MLP'', 8, 1)]"
    by (simp add: demo_runs run_label_def WORKLOADS_def profile_of_def)
  ultimately show ?thesis
    using experiment_matrix_sound [of demo_experiment_arguments demo_world "\<lambda>_. demo_env" "\<lambda>_. 0" "\<lambda>_. 1000" "''/results''"] demo_observed
      py_float_nano_text by (simp add: demo_experiment_arguments_def demo_world_def)
qed

lemma report_nonempty:
  assumes "analyze_results content = Inr rp"
  shows "rp_entries rp \<noteq> []"
proof -
  obtain rows where rows: "mapE analyze_row (dict_rows content) = Inr rows" using assms by (auto simp: analyze_results_def bindE_eq_Inr)
  obtain key first gs rest where gs: "gs = foldl add_to_group [] rows" "gs = (key, first) # rest"
    using assms rows by (cases "foldl add_to_group [] rows") (auto simp: analyze_results_def)
  have "bindE (mapE (report_entries gs) (sort (remdups (map (\<lambda>(key, _). fst key) gs))))
      (\<lambda>entries. Inr \<lparr>rp_repetitions = length first, rp_entries = concat entries\<rparr>) = Inr rp"
    using assms unfolding analyze_results_def rows bindE_Inr Let_def gs(1) [symmetric] by (simp only: gs(2) list.case prod.case)
  then obtain entries where entries: "mapE (report_entries gs) (sort (remdups (map (\<lambda>(key, _). fst key) gs))) = Inr entries"
      "rp_entries rp = concat entries" unfolding bindE_eq_Inr by auto
  have "remdups (map (\<lambda>(key, _). fst key) gs) \<noteq> []" unfolding gs(2) remdups_eq_nil_iff by simp
  then have "entries \<noteq> []" using mapE_length [OF entries(1)] by (metis length_0_conv length_sort)
  then obtain es where es: "es \<in> set entries" by (cases entries) auto
  then obtain b where "report_entries gs b = Inr es" using mapE_result [OF entries(1)] by blast
  then have "length es = 4" by (auto simp: report_entries_def bindE_eq_Inr dest!: mapE_length simp del: mapE.simps)
  then show ?thesis using es entries(2) by force
qed

text \<open>Two runs on one container with times 0.4 and 1.6, and one run on each larger count.\<close>

definition demo_row :: "int \<Rightarrow> int \<Rightarrow> real \<Rightarrow> experiment_row" where
  "demo_row n k t = \<lparr>er_benchmark = ''MLP'', er_containers = n, er_repetition = k, er_total_time_s = t, er_synchronization_time_s = t / 4,
     er_cross_machine_time_s = 0, er_synchronization_fraction = 1 / 4\<rparr>"

definition demo_rows :: "experiment_row list" where
  "demo_rows = [demo_row 1 1 (2 / 5), demo_row 1 2 (8 / 5), demo_row 2 1 (1 / 2), demo_row 4 1 (1 / 4), demo_row 8 1 (1 / 8)]"

lemma demo_summary_rows:
  "summary_rows demo_rows = Inr (zip demo_rows [5 / 2, 5 / 8, 1, 1, 1])"
  by (simp add: summary_rows_def demo_rows_def demo_row_def baseline_def mean_def efficient_row_def dict_item_def div_float_def)

lemma demo_floats: "r \<in> set (zip demo_rows [5 / 2, 5 / 8, 1, 1, 1]) \<Longrightarrow> x \<in> set (row_floats r) \<Longrightarrow> py_float (nano_text x) = Inr x"
proof -
  have "py_float (nano_text x) = Inr x" if "x * 10 ^ 9 \<in> \<int>" for x
    using that by (auto simp: nano_text_def py_float_nano elim!: Ints_cases)
  moreover assume "r \<in> set (zip demo_rows [5 / 2, 5 / 8, 1, 1, 1])" "x \<in> set (row_floats r)"
  then have "x \<in> {2 / 5, 8 / 5, 1 / 2, 1 / 4, 1 / 8, 1 / 10, 1 / 16, 1 / 32, 0, 1, 5 / 2, 5 / 8}"
    by (auto simp: demo_rows_def demo_row_def row_floats_def)
  then have "x \<in> (\<lambda>k. of_int k / 10 ^ 9) ` set [400000000, 1600000000, 500000000, 250000000, 125000000, 100000000, 62500000,
      31250000, 0, 1000000000, 2500000000, 625000000]" by simp
  then have "x * 10 ^ 9 \<in> \<int>" by (auto simp del: set_simps)
  ultimately show ?thesis by blast
qed

theorem report_efficiency_harmonic_witness:
  "\<exists>content rp e. write_summary nano_text ''/results'' demo_rows = Inr (zip demo_rows [5 / 2, 5 / 8, 1, 1, 1], content, rp)
    \<and> e \<in> set (rp_entries rp)
    \<and> mean (map (\<lambda>r. 1 / snd r) (entry_rows (zip demo_rows [5 / 2, 5 / 8, 1, 1, 1]) (re_benchmark e) (re_nodes e))) = Inr (1 / re_efficiency e)"
proof -
  have "full_rows demo_rows" by (auto simp: full_rows_def demo_rows_def demo_row_def)
  from write_summary_total [OF this py_float_nano_text] obtain summary content rp where
    w: "write_summary nano_text ''/results'' demo_rows = Inr (summary, content, rp)" by blast
  then have s: "summary = zip demo_rows [5 / 2, 5 / 8, 1, 1, 1]" and rp: "analyze_results (summary_csv nano_text summary) = Inr rp"
    using demo_summary_rows by (auto simp: write_summary_def Let_def split: if_splits sum.splits)
  obtain e where e: "e \<in> set (rp_entries rp)" using report_nonempty [OF rp] by (cases "rp_entries rp") auto
  from report_efficiency_harmonic [OF w _ e] demo_floats w e show ?thesis unfolding s Let_def by blast
qed

text \<open>What \<open>--append\<close> loads from a summary file is what the earlier run wrote.\<close>

lemma load_summary:
  assumes "\<And>r x. r \<in> set summary \<Longrightarrow> x \<in> set (row_floats r) \<Longrightarrow> py_float (float_text x) = Inr x"
  shows "load_existing_rows (Some (summary_csv float_text summary)) = Inr summary"
proof -
  have "mapE (\<lambda>(row, _). load_row row) (map (\<lambda>r. (zip summary_fields (map Some (row_fields float_text r)), [])) summary) = Inr (map id summary)"
    by (rule mapE_map_Inr) (use assms in \<open>simp add: load_row_fields\<close>)
  then show ?thesis by (simp add: load_existing_rows_def summary_dict_rows)
qed

end
