(* ===== verification/Ns3Feedback.thy ===== *)
theory Ns3Feedback
  imports RemoteMatrix PyCsv
begin

text \<open>
  The ns-3 timing feedback: the wrapper that runs the phase-two simulator and keeps its inputs and outputs
  (\<open>real/ns3_phase2_runner.py\<close>), the check that a later round consumed them
  (\<open>scripts/validate_ns3_timing_feedback.py\<close>) and the check of the block-GEMM markers
  (\<open>scripts/validate_matmul_dp_results.py\<close>). The files a process sees are a map from path texts to
  contents. The ns-3 program is a parameter: its exit code and the files after it ran.
\<close>

type_synonym files = "string \<rightharpoonup> string"

section \<open>The wrapper\<close>

fun word_after :: "string \<Rightarrow> string list \<Rightarrow> string option" where
  "word_after name (x # y # r) = (if x = name then Some y else word_after name (y # r))"
| "word_after name _ = None"

definition option_value :: "string list \<Rightarrow> string \<Rightarrow> string res" where
  "option_value arguments option_name =
     (case word_after option_name arguments of
        None \<Rightarrow> Inl (ValueError (''missing '' @ option_name @ '' argument'')) | Some value \<Rightarrow> Inr value)"

definition copy_if_file :: "string \<Rightarrow> string \<Rightarrow> files \<Rightarrow> files res" where
  "copy_if_file source destination fs =
     (case fs source of
        None \<Rightarrow> Inl (RuntimeError (''expected Phase-2 artifact is missing: '' @ source))
      | Some content \<Rightarrow> Inr (fs(destination \<mapsto> content)))"

type_synonym program = "string list \<Rightarrow> files \<Rightarrow> int \<times> files"

definition run_checked :: "program \<Rightarrow> string list \<Rightarrow> files \<Rightarrow> files res" where
  "run_checked exec command fs =
     (let (code, fs1) = exec command fs in if code \<noteq> 0 then Inl (CalledProcessError command code) else Inr fs1)"

definition phase2_runner :: "program \<Rightarrow> string option \<Rightarrow> string list \<Rightarrow> files \<Rightarrow> files res" where
  "phase2_runner exec executable arguments fs =
     bindE (option_value arguments ''--bench'') (\<lambda>bench.
     bindE (option_value arguments ''--delay-info'') (\<lambda>delay_info.
     bindE (option_value arguments ''--metrics-csv'') (\<lambda>metrics.
     bindE (option_value arguments ''--summary-json'') (\<lambda>summary.
     bindE (copy_if_file bench ''phase2_input_bench.txt'' fs) (\<lambda>fs1.
     bindE (run_checked exec ((case executable of None \<Rightarrow> ''/usr/local/bin/ns3-phase2'' | Some x \<Rightarrow> x) # arguments) fs1) (\<lambda>fs2.
     bindE (copy_if_file delay_info ''phase2_delayInfo.txt'' fs2) (\<lambda>fs3.
     bindE (copy_if_file metrics ''phase2_metrics.csv'' fs3) (\<lambda>fs4.
       copy_if_file summary ''phase2_summary.json'' fs4))))))))"

section \<open>The feedback check\<close>

definition ROUND_DIRECTORY :: "rx list" where
  "ROUND_DIRECTORY = [Lit ''proc_r'', Digits, Lit ''_p2_t'', Digits]"

definition ROUND_START :: "rx list" where
  "ROUND_START = [Lit ''**** Round '', Digits, Lit '' Phase 1'']"

definition LOADED_DELAY :: "rx list" where
  "LOADED_DELAY = [Lit ''Load '', Digits, Lit '' delay records.'']"

definition read_text :: "files \<Rightarrow> string \<Rightarrow> string res" where
  "read_text fs name = (case fs name of None \<Rightarrow> Inl (FileNotFoundError name) | Some content \<Rightarrow> decode_utf8 content)"

definition line_count :: "string \<Rightarrow> nat" where
  "line_count content = length (filter (\<lambda>line. strip line \<noteq> []) (split_lines content))"

text \<open>
  The records of \<open>csv.reader\<close> in the standard dialect, each as the truth value of its row: \<open>False\<close> is the
  row of an empty line. \<open>csv.DictReader\<close> takes the first row as its header and skips empty rows.
\<close>

fun csv_rows :: "csv_state \<Rightarrow> string \<Rightarrow> bool list" where
  "csv_rows st [] = (if st = RecordStart then [] else [True])"
| "csv_rows st (c # cs) =
     (if is_csv_break c \<and> st \<noteq> Quoted
      then (st \<noteq> RecordStart)
        # csv_rows RecordStart (if c = CHR 0x0D \<and> prefix [newline] cs then tl cs else cs)
      else csv_rows (csv_next st c) cs)"

definition dict_reader_count :: "string \<Rightarrow> nat" where
  "dict_reader_count content = length (filter (\<lambda>row. row) (tl (csv_rows RecordStart content)))"

record artifact =
  af_name :: string
  af_is_dir :: bool
  af_files :: files

definition directory_key :: "artifact \<Rightarrow> (nat \<times> nat \<times> string) option" where
  "directory_key d =
     (if \<not> af_is_dir d then None
      else case rx_match ROUND_DIRECTORY (af_name d) of
        None \<Rightarrow> None
      | Some (groups, rest) \<Rightarrow>
          if (rest = [] \<or> rest = [newline]) \<and> af_files d ''phase2_input_bench.txt'' \<noteq> None
          then Some (digits_val (groups ! 0), digits_val (groups ! 1), af_name d) else None)"

definition phase_two_directories :: "artifact list \<Rightarrow> (nat \<times> nat \<times> artifact) list" where
  "phase_two_directories artifact_root =
     map (\<lambda>(round_number, thread_number, name). (round_number, thread_number, the (find (\<lambda>d. af_name d = name) artifact_root)))
       (sort (List.map_filter directory_key artifact_root))"

text \<open>The state of the loop over the coordinator's log: the current round and the counts so far.\<close>

definition load_line :: "nat option \<times> (nat, nat) dict \<Rightarrow> string \<Rightarrow> nat option \<times> (nat, nat) dict" where
  "load_line s line =
     (case rx_search ROUND_START line of
        Some groups \<Rightarrow> (Some (digits_val (groups ! 0)), snd s)
      | None \<Rightarrow> (case (rx_search LOADED_DELAY line, fst s) of
            (Some groups, Some current_round) \<Rightarrow> (fst s, AList.update current_round (digits_val (groups ! 0)) (snd s))
          | _ \<Rightarrow> s))"

definition load_counts_by_round :: "string \<Rightarrow> (nat, nat) dict" where
  "load_counts_by_round log_text = snd (foldl load_line (None, []) (split_lines log_text))"

definition required_artifacts :: "string list" where
  "required_artifacts = [''phase2_delayInfo.txt'', ''phase2_metrics.csv'', ''phase2_summary.json'']"

definition validate_round :: "(string \<Rightarrow> json res) \<Rightarrow> nat \<Rightarrow> string \<Rightarrow> files \<Rightarrow> (nat \<times> nat \<times> nat) res" where
  "validate_round loads round_number directory fs =
     (let missing = filter (\<lambda>name. fs name = None) required_artifacts; number = show_nat round_number
      in if missing \<noteq> []
         then Inl (RuntimeError (''round '' @ number @ '' is missing Phase-2 artifact(s): ''
                @ join_with '', '' (map (\<lambda>name. directory @ ''/'' @ name) missing)))
         else bindE (read_text fs ''phase2_input_bench.txt'') (\<lambda>bench.
              bindE (read_text fs ''phase2_delayInfo.txt'') (\<lambda>delay.
                let bench_records = line_count bench; delay_records = line_count delay
                in if bench_records \<noteq> delay_records
                   then Inl (RuntimeError (''round '' @ number @ '' bench/delay record mismatch: '' @ show_nat bench_records
                          @ '' != '' @ show_nat delay_records))
                   else bindE (read_text fs ''phase2_metrics.csv'') (\<lambda>metrics.
                     let metrics_records = dict_reader_count metrics
                     in if bench_records \<noteq> metrics_records
                        then Inl (RuntimeError (''round '' @ number @ '' bench/metrics record mismatch: '' @ show_nat bench_records
                               @ '' != '' @ show_nat metrics_records))
                        else bindE (bindE (bindE (read_text fs ''phase2_summary.json'') loads) as_obj) (\<lambda>summary.
                          if jget summary ''phase2_backend'' \<noteq> JStr ''ns-3''
                          then Inl (RuntimeError (''round '' @ number @ '' did not report the ns-3 Phase-2 backend''))
                          else Inr (bench_records, delay_records, metrics_records))))))"

record feedback_state =
  fs_result :: "(string, string) dict"
  fs_consumed :: "nat list"

definition put_all :: "(string \<times> string) list \<Rightarrow> (string, string) dict \<Rightarrow> (string, string) dict" where
  "put_all kvs d = foldl (\<lambda>d kv. AList.update (fst kv) (snd kv) d) d kvs"

definition feedback_round ::
  "(string \<Rightarrow> json res) \<Rightarrow> string \<Rightarrow> (nat, nat) dict \<Rightarrow> nat \<times> nat \<times> artifact \<Rightarrow> feedback_state \<Rightarrow> feedback_state res" where
  "feedback_round loads artifact_root loaded_counts = (\<lambda>(round_number, thread_number, directory) s.
     bindE (validate_round loads round_number (artifact_root @ ''/'' @ af_name directory) (af_files directory)) (\<lambda>(bench, delay, metrics).
       let phase = ''phase2_round_'' @ show_nat round_number;
           key = (\<lambda>name. phase @ ''_thread_'' @ show_nat thread_number @ ''_'' @ name);
           next_round_loaded = dict_get loaded_counts (round_number + 1) 0
       in Inr \<lparr>fs_result = put_all [(key ''bench_records'', show_nat bench), (key ''delay_records'', show_nat delay),
                  (key ''metrics_records'', show_nat metrics),
                  (phase @ ''_next_phase1_loaded_records'', show_nat next_round_loaded)] (fs_result s),
               fs_consumed = fs_consumed s @ (if bench > 0 \<and> next_round_loaded > 0 then [round_number] else [])\<rparr>))"

definition report_text :: "(string, string) dict \<Rightarrow> string" where
  "report_text result =
     concat (map (\<lambda>key. key @ ''='' @ the (map_of result key) @ [newline]) (sort (map fst result)))"

definition validate_feedback :: "(string \<Rightarrow> json res) \<Rightarrow> string \<Rightarrow> artifact list \<Rightarrow> string \<Rightarrow> string res" where
  "validate_feedback loads artifact_root entries coordinator_log =
     (let artifacts = phase_two_directories entries
      in if artifacts = [] then Inl (RuntimeError ''no preserved ns-3 Phase-2 process directory exists'')
         else bindE (foldE (feedback_round loads artifact_root (load_counts_by_round coordinator_log)) artifacts
                \<lparr>fs_result = [], fs_consumed = []\<rparr>) (\<lambda>s.
           let (latest_round, latest_thread, _) = last artifacts
           in if fs_consumed s \<noteq> []
              then Inr (report_text (put_all [(''latest_phase2_round'', show_nat latest_round),
                     (''latest_phase2_thread'', show_nat latest_thread),
                     (''consumed_phase2_rounds'', join_with '','' (map show_nat (fs_consumed s))),
                     (''timing_feedback'', ''present'')] (fs_result s)))
              else Inl (RuntimeError ''ns-3 delayInfo was not loaded as a non-zero next Phase-1 delay list'')))"

section \<open>The block-GEMM markers\<close>

definition GLOBAL_ROWS :: nat where "GLOBAL_ROWS = 480"
definition INNER :: nat where "INNER = 64"
definition COLUMNS :: nat where "COLUMNS = 64"

definition EXPECTED_CHECKSUM :: nat where
  "EXPECTED_CHECKSUM = INNER * sum_list [1..<GLOBAL_ROWS + 1] * sum_list [1..<COLUMNS + 1]"

definition MARKER :: "rx list" where
  "MARKER = [Lit ''MATMUL_DP_RESULT verification=ok ranks='', Digits, Lit '' global_rows='', Digits, Lit '' inner='', Digits,
     Lit '' columns='', Digits, Lit '' checksum='', Digits, Lit '' steady_ns='', Digits]"

definition marker_fields :: "string list" where
  "marker_fields = [''ranks'', ''rows'', ''inner'', ''columns'', ''checksum'']"

definition marker_mismatches :: "nat list \<Rightarrow> nat list \<Rightarrow> string list" where
  "marker_mismatches expected result =
     map (\<lambda>(key, value, found). key @ ''='' @ show_nat found @ '' expected='' @ show_nat value)
       (filter (\<lambda>(key, value, found). found \<noteq> value) (zip marker_fields (zip expected result)))"

definition check_marker :: "nat list \<Rightarrow> nat \<times> nat list \<Rightarrow> unit res" where
  "check_marker expected = (\<lambda>(round_index, result).
     let mismatches = marker_mismatches expected result
     in if mismatches \<noteq> [] then Inl (RuntimeError (''invalid block-GEMM marker in simulation round ''
            @ show_nat round_index @ '': '' @ join_with '', '' mismatches)) else Inr ())"

definition validate_matmul :: "int \<Rightarrow> string \<Rightarrow> string res" where
  "validate_matmul ranks log_text =
     (if ranks < 1 \<or> ranks > 35 \<or> int GLOBAL_ROWS mod ranks \<noteq> 0
      then Inl (ValueError ''--ranks must be a supported divisor of 480'')
      else let parsed = map (map digits_val) (rx_findall MARKER log_text) in
        if parsed = [] then Inl (RuntimeError ''missing MATMUL_DP_RESULT marker'')
        else bindE (mapE (check_marker [nat ranks, GLOBAL_ROWS, INNER, COLUMNS, EXPECTED_CHECKSUM]) (enumerate 1 parsed)) (\<lambda>_.
          let result = last parsed; line = (\<lambda>name value. name @ ''='' @ value @ [newline])
          in Inr (line ''verification'' ''ok'' @ line ''completed_simulation_rounds'' (show_nat (length parsed))
               @ line ''ranks'' (show_nat (result ! 0)) @ line ''global_rows'' (show_nat (result ! 1))
               @ line ''inner'' (show_nat (result ! 2)) @ line ''columns'' (show_nat (result ! 3))
               @ line ''checksum'' (show_nat (result ! 4)) @ line ''steady_ns'' (show_nat (result ! 5)))))"

section \<open>Records\<close>

text \<open>A text of plain records: one line each, with a visible character and no quotes.\<close>

definition plain_record :: "string \<Rightarrow> bool" where
  "plain_record l \<longleftrightarrow> list_ex (\<lambda>c. \<not> is_strip_space c) l
     \<and> list_all (\<lambda>c. \<not> is_line_break c \<and> c \<noteq> CHR 0x22 \<and> (of_char c :: nat) < 128) l"

definition record_text :: "string list \<Rightarrow> string" where
  "record_text ls = concat (map (\<lambda>l. l @ [newline]) ls)"

lemma record_text_simps [simp]: "record_text [] = []" "record_text (l # ls) = l @ newline # record_text ls"
  by (simp_all add: record_text_def)

lemma plain_recordD:
  assumes "plain_record l"
  shows "l \<noteq> []" "list_all (\<lambda>c. \<not> is_line_break c) l" "list_all (\<lambda>c. \<not> is_line_break c \<and> c \<noteq> CHR 0x22) l"
    "list_ex (\<lambda>c. \<not> is_strip_space c) l" "list_all (\<lambda>n. n < 128) (map of_char l :: nat list)"
proof -
  have all: "\<forall>c\<in>set l. \<not> is_line_break c \<and> c \<noteq> CHR 0x22 \<and> (of_char c :: nat) < 128" and some: "list_ex (\<lambda>c. \<not> is_strip_space c) l"
    using assms unfolding plain_record_def list_all_iff by blast+
  from some show "l \<noteq> []" by (cases l) simp_all
  from some show "list_ex (\<lambda>c. \<not> is_strip_space c) l" .
  from all show "list_all (\<lambda>c. \<not> is_line_break c) l" "list_all (\<lambda>c. \<not> is_line_break c \<and> c \<noteq> CHR 0x22) l"
    unfolding list_all_iff by blast+
  from all show "list_all (\<lambda>n. n < 128) (map of_char l :: nat list)" unfolding list_all_iff set_map by blast
qed

lemma split_lines_records: "list_all plain_record ls \<Longrightarrow> split_lines (record_text ls) = ls"
proof (induction ls)
  case (Cons l ls)
  then have "split_lines_acc [] (l @ newline # record_text ls) = ([] @ l) # split_lines_acc [] (record_text ls)"
    using split_lines_acc_line [OF plain_recordD(2), of l "[]" "record_text ls"] by simp
  with Cons show ?case by (simp add: split_lines_def)
qed (simp add: split_lines_def)

lemma strip_visible:
  assumes "list_ex (\<lambda>c. \<not> is_strip_space c) l"
  shows "strip l \<noteq> []"
proof -
  let ?d = "dropWhile is_strip_space l"
  have "?d \<noteq> []" using assms by (simp add: dropWhile_eq_Nil_conv list_ex_iff)
  then have "hd ?d \<in> set (rev ?d)" "\<not> is_strip_space (hd ?d)" by (simp_all add: hd_dropWhile)
  then have "dropWhile is_strip_space (rev ?d) \<noteq> []" unfolding dropWhile_eq_Nil_conv by blast
  then show ?thesis by (simp add: strip_def rstrip_def)
qed

lemma line_count_records:
  assumes "list_all plain_record ls"
  shows "line_count (record_text ls) = length ls"
proof -
  have "filter (\<lambda>line. strip line \<noteq> []) ls = ls"
    using assms strip_visible plain_recordD(4) by (intro filter_True) (auto simp: list_all_iff)
  then show ?thesis using assms by (simp add: line_count_def split_lines_records)
qed

lemma csv_next_plain: "c \<noteq> CHR 0x22 \<Longrightarrow> st \<notin> {Quoted, QuoteInQuoted} \<Longrightarrow> csv_next st c \<in> {FieldStart, InField}"
  by (cases st) auto

lemma csv_rows_line:
  "list_all (\<lambda>c. \<not> is_line_break c \<and> c \<noteq> CHR 0x22) l \<Longrightarrow> st \<notin> {Quoted, QuoteInQuoted} \<Longrightarrow>
     csv_rows st (l @ newline # rest) = (l \<noteq> [] \<or> st \<noteq> RecordStart) # csv_rows RecordStart rest"
proof (induction l arbitrary: st)
  case Nil
  then show ?case by (auto simp: is_csv_break_def newline_def)
next
  case (Cons c l)
  then have "\<not> is_csv_break c" by (auto simp: is_csv_break_def is_line_break_def newline_def)
  with Cons csv_next_plain [of c st] show ?case by auto
qed

lemma dict_reader_count_records:
  assumes "list_all plain_record (header # ls)"
  shows "dict_reader_count (record_text (header # ls)) = length ls"
proof -
  have one: "csv_rows RecordStart (l @ newline # rest) = True # csv_rows RecordStart rest" if "plain_record l" for l rest
    using csv_rows_line [OF plain_recordD(3) [OF that], of RecordStart rest] plain_recordD(1) [OF that] by simp
  have "csv_rows RecordStart (record_text rs) = map (\<lambda>_. True) rs" if "list_all plain_record rs" for rs
    using that by (induction rs) (simp_all add: one)
  then show ?thesis using assms by (simp add: dict_reader_count_def one)
qed

lemma decode_records: "list_all plain_record ls \<Longrightarrow> decode_utf8 (record_text ls) = Inr (record_text ls)"
proof -
  assume "list_all plain_record ls"
  then have "list_all (\<lambda>n. n < 128) (map of_char (record_text ls) :: nat list)"
  proof (induction ls)
    case (Cons l ls)
    then show ?case using plain_recordD(5) [of l] by (simp add: newline_def)
  qed simp
  then show ?thesis by (simp add: decode_utf8_def utf8_ok_ascii)
qed

section \<open>From the generated process to the check\<close>

text \<open>
  What the ns-3 program promises for one run: it ends with code 0, writes one delay record and one metrics
  row per trace record and a summary that names its backend, and leaves all other files as they are.
\<close>

definition ns3_contract :: "program \<Rightarrow> (string \<Rightarrow> json res) \<Rightarrow> string list \<Rightarrow> files \<Rightarrow> bool" where
  "ns3_contract exec loads command fs \<longleftrightarrow>
     (\<exists>fs' delays header rows summary fields. exec command fs = (0, fs')
        \<and> fs' ''../delayInfo.txt'' = Some (record_text delays) \<and> list_all plain_record delays
        \<and> fs' ''../ns3_phase2_metrics.csv'' = Some (record_text (header # rows)) \<and> list_all plain_record (header # rows)
        \<and> fs' ''../ns3_phase2_summary.json'' = Some summary \<and> decode_utf8 summary = Inr summary
        \<and> loads summary = Inr (JObj fields) \<and> map_of fields ''phase2_backend'' = Some (JStr ''ns-3'')
        \<and> length delays = line_count (the (fs ''../bench.txt'')) \<and> length rows = line_count (the (fs ''../bench.txt''))
        \<and> (\<forall>name. name \<notin> {''../delayInfo.txt'', ''../ns3_phase2_metrics.csv'', ''../ns3_phase2_summary.json''} \<longrightarrow>
             fs' name = fs name))"

definition json_words :: "json list \<Rightarrow> string list" where
  "json_words ws = List.map_filter as_str ws"

lemma str_int_no_option: "\<not> prefix ''--'' (str_int i)"
  using hd_show_nat [of "nat (- i)"] hd_show_nat [of "nat i"]
  by (cases "show_nat (nat (- i))"; cases "show_nat (nat i)") (auto simp: str_int_def is_digit_def)

lemma no_option_neq: "\<not> prefix ''--'' s \<Longrightarrow> s \<noteq> CHR ''-'' # CHR ''-'' # w"
  by auto

lemma ns3_words_options:
  assumes "\<not> prefix ''--'' node_count" and "\<not> prefix ''--'' topology" and "\<not> prefix ''--'' (ya_ns3_link_rate a)"
    and "words = tl (json_words (ns3_words a node_count flit_count topology))"
  shows "word_after ''--bench'' words = Some ''../bench.txt''" "word_after ''--delay-info'' words = Some ''../delayInfo.txt''"
    "word_after ''--metrics-csv'' words = Some ''../ns3_phase2_metrics.csv''"
    "word_after ''--summary-json'' words = Some ''../ns3_phase2_summary.json''"
proof -
  note neq = assms(1-3) [THEN no_option_neq] str_int_no_option [THEN no_option_neq]
  have words: "words = [''--bench'', ''../bench.txt'', ''--delay-info'', ''../delayInfo.txt'', ''--topology'', topology, ''--nodes'', node_count,
        ''--cycle-ns'', str_int (ya_ns3_cycle_ns a), ''--flit-bytes'', str_int (flit_count * 8),
        ''--link-rate'', ya_ns3_link_rate a, ''--link-delay-ns'', str_int (ya_ns3_link_delay_ns a),
        ''--queue-packets'', str_int (ya_ns3_queue_packets a), ''--metrics-csv'', ''../ns3_phase2_metrics.csv'',
        ''--summary-json'', ''../ns3_phase2_summary.json'']
      @ (if ya_ns3_localize a then [''--worker-routing'', ''/run/config/routing.json'', ''--localize-cross-worker-network''] else [])"
    by (simp add: assms(4) json_words_def ns3_words_def map_filter_def)
  show "word_after ''--bench'' words = Some ''../bench.txt''" "word_after ''--delay-info'' words = Some ''../delayInfo.txt''"
    unfolding words by simp_all
  show "word_after ''--metrics-csv'' words = Some ''../ns3_phase2_metrics.csv''"
    "word_after ''--summary-json'' words = Some ''../ns3_phase2_summary.json''"
    unfolding words by (simp_all add: neq)
qed

text \<open>
  C34. A generated ns-3 phase-two process leaves evidence that the feedback check accepts: the wrapper
  finds its four files in the words that the workload generator writes, keeps the trace before the run,
  and after a run of ns-3 that keeps its promise the working directory holds four files that the check
  of the round accepts, with as many delay records and metrics rows as trace records.
\<close>

theorem ns3_wrapper_feeds_validator:
  assumes "ns3_process cd a process = Inr p" and "map_of p ''args'' = Some (JList ws)"
    and "list_all (\<lambda>w. \<not> prefix ''--'' w) [json_words ws ! 6, json_words ws ! 8, ya_ns3_link_rate a]"
    and "fs ''../bench.txt'' = Some bench" and "decode_utf8 bench = Inr bench"
    and "ns3_contract exec loads ((case executable of None \<Rightarrow> ''/usr/local/bin/ns3-phase2'' | Some x \<Rightarrow> x) # tl (json_words ws))
      (fs(''phase2_input_bench.txt'' \<mapsto> bench))"
  shows "\<exists>fs'. phase2_runner exec executable (tl (json_words ws)) fs = Inr fs'
    \<and> validate_round loads round_number directory fs' = Inr (line_count bench, line_count bench, line_count bench)"
proof -
  let ?words = "tl (json_words ws)" and ?fs1 = "fs(''phase2_input_bench.txt'' \<mapsto> bench)"
  obtain node_count flit_count topology where ws: "ws = ns3_words a node_count flit_count topology"
    using assms(1,2) by (auto simp: ns3_process_def bindE_eq_Inr split: if_splits)
  have nth: "json_words ws ! 6 = topology" "json_words ws ! 8 = node_count"
    by (simp_all add: ws json_words_def ns3_words_def map_filter_def)
  note options = ns3_words_options [of node_count topology a ?words flit_count]
  have given: "option_value ?words ''--bench'' = Inr ''../bench.txt''" "option_value ?words ''--delay-info'' = Inr ''../delayInfo.txt''"
    "option_value ?words ''--metrics-csv'' = Inr ''../ns3_phase2_metrics.csv''" "option_value ?words ''--summary-json'' = Inr ''../ns3_phase2_summary.json''"
    using assms(3) nth options by (simp_all add: ws option_value_def)
  let ?n = "line_count bench"
  from assms(6) [unfolded ns3_contract_def] obtain fs2 delays header rows summary fields where
    exec: "exec ((case executable of None \<Rightarrow> ''/usr/local/bin/ns3-phase2'' | Some x \<Rightarrow> x) # ?words) ?fs1 = (0, fs2)"
    and delay: "fs2 ''../delayInfo.txt'' = Some (record_text delays)" "list_all plain_record delays"
    and rows: "fs2 ''../ns3_phase2_metrics.csv'' = Some (record_text (header # rows))" "list_all plain_record (header # rows)"
    and summary: "fs2 ''../ns3_phase2_summary.json'' = Some summary" "decode_utf8 summary = Inr summary"
      "loads summary = Inr (JObj fields)" "map_of fields ''phase2_backend'' = Some (JStr ''ns-3'')"
    and len: "length delays = line_count (the (?fs1 ''../bench.txt''))" "length rows = line_count (the (?fs1 ''../bench.txt''))"
    and rest: "\<forall>name. name \<notin> {''../delayInfo.txt'', ''../ns3_phase2_metrics.csv'', ''../ns3_phase2_summary.json''} \<longrightarrow> fs2 name = ?fs1 name"
    by (elim exE conjE)
  have n: "length delays = ?n" "length rows = ?n" using len assms(4) by simp_all
  have input: "fs2 ''phase2_input_bench.txt'' = Some bench" using rest by simp
  let ?fs = "fs2(''phase2_delayInfo.txt'' \<mapsto> record_text delays, ''phase2_metrics.csv'' \<mapsto> record_text (header # rows),
    ''phase2_summary.json'' \<mapsto> summary)"
  have "phase2_runner exec executable ?words fs = Inr ?fs"
    using assms(4) delay(1) rows(1) summary(1) by (simp add: phase2_runner_def given copy_if_file_def run_checked_def exec del: record_text_simps)
  moreover have "validate_round loads round_number directory ?fs = Inr (?n, ?n, ?n)"
    using input assms(5) summary n line_count_records [OF delay(2)] dict_reader_count_records [OF rows(2)]
      decode_records [OF delay(2)] decode_records [OF rows(2)]
    by (simp add: validate_round_def required_artifacts_def read_text_def as_obj_def jget_def dict_get_def Let_def del: record_text_simps)
  ultimately show ?thesis by blast
qed

definition demo_popnet_entry :: jobj where
  "demo_popnet_entry = [(''cmd'', JStr ''popnet''), (''args'', JList [JStr ''-A'', JStr ''36'', JStr ''-F'', JStr ''2'',
     JStr ''-G'', JStr ''../topology/mesh.gv''])]"

definition one_record_ns3 :: program where
  "one_record_ns3 command fs = (0, fs(''../delayInfo.txt'' \<mapsto> record_text [''0 0 1 0 2 3 4''],
     ''../ns3_phase2_metrics.csv'' \<mapsto> record_text [''trace_id,src_node'', ''0,1''], ''../ns3_phase2_summary.json'' \<mapsto> ''{}''))"

definition summary_loads :: "string \<Rightarrow> json res" where
  "summary_loads t = Inr (JObj [(''phase2_backend'', JStr ''ns-3'')])"

lemma one_record_contract:
  assumes "fs ''../bench.txt'' = Some ''0 1 0 1 0 1''"
  shows "ns3_contract one_record_ns3 summary_loads command (fs(''phase2_input_bench.txt'' \<mapsto> b))"
proof -
  have plain: "list_all plain_record [''0 0 1 0 2 3 4'']" "list_all plain_record [''trace_id,src_node'', ''0,1'']"
    by (simp_all add: plain_record_def is_strip_space_def is_line_break_def)
  have one: "line_count ''0 1 0 1 0 1'' = 1" by code_simp
  show ?thesis
    unfolding ns3_contract_def
    by (intro exI [of _ "snd (one_record_ns3 command (fs(''phase2_input_bench.txt'' \<mapsto> b)))"] exI [of _ "[''0 0 1 0 2 3 4'']"]
        exI [of _ "''trace_id,src_node''"] exI [of _ "[''0,1'']"] exI [of _ "''{}''"] exI [of _ "[(''phase2_backend'', JStr ''ns-3'')]"] conjI)
      (use plain one assms in \<open>simp_all add: one_record_ns3_def summary_loads_def decode_utf8_def del: record_text_simps\<close>)
qed

theorem ns3_wrapper_feeds_validator_witness:
  "\<exists>p ws fs'. ns3_process plain_codec plain_arguments demo_popnet_entry = Inr p \<and> map_of p ''args'' = Some (JList ws)
     \<and> phase2_runner one_record_ns3 None (tl (json_words ws)) [''../bench.txt'' \<mapsto> ''0 1 0 1 0 1''] = Inr fs'
     \<and> validate_round summary_loads 1 ''proc_r1_p2_t0'' fs' = Inr (1, 1, 1)"
proof -
  let ?ws = "ns3_words plain_arguments ''36'' 2 ''../topology/mesh.gv''"
  obtain p where p: "ns3_process plain_codec plain_arguments demo_popnet_entry = Inr p" "map_of p ''args'' = Some (JList ?ws)"
    by (simp add: ns3_process_def demo_popnet_entry_def dict_get_def popnet_arguments_def plain_codec_def topology_path_def
        plain_arguments_def int_text_def text_eval)
  have plain: "list_all (\<lambda>w. \<not> prefix ''--'' w) [json_words ?ws ! 6, json_words ?ws ! 8, ya_ns3_link_rate plain_arguments]"
    by (simp add: json_words_def ns3_words_def map_filter_def plain_arguments_def)
  have bench: "[''../bench.txt'' \<mapsto> ''0 1 0 1 0 1''] ''../bench.txt'' = Some ''0 1 0 1 0 1''" "decode_utf8 ''0 1 0 1 0 1'' = Inr ''0 1 0 1 0 1''"
    by (simp_all add: decode_utf8_def)
  have "line_count ''0 1 0 1 0 1'' = 1" by code_simp
  moreover note one_record_contract [of "[''../bench.txt'' \<mapsto> ''0 1 0 1 0 1'']", OF bench(1)]
  note ns3_wrapper_feeds_validator [OF p plain bench this, of None 1 "''proc_r1_p2_t0''"]
  ultimately show ?thesis using p by auto
qed

section \<open>What an accepted feedback shows\<close>

text \<open>The evidence of one preserved directory.\<close>

definition round_evidence :: "(string \<Rightarrow> json res) \<Rightarrow> nat \<times> nat \<times> artifact \<Rightarrow> nat \<Rightarrow> bool" where
  "round_evidence loads = (\<lambda>(round_number, thread_number, d) n.
     \<exists>bench delay metrics summary fields.
       af_files d ''phase2_input_bench.txt'' = Some bench \<and> line_count bench = n
     \<and> af_files d ''phase2_delayInfo.txt'' = Some delay \<and> line_count delay = n
     \<and> af_files d ''phase2_metrics.csv'' = Some metrics \<and> dict_reader_count metrics = n
     \<and> af_files d ''phase2_summary.json'' = Some summary \<and> loads summary = Inr (JObj fields)
     \<and> map_of fields ''phase2_backend'' = Some (JStr ''ns-3''))"

lemma read_text_Inr: "read_text fs name = Inr t \<longleftrightarrow> fs name = Some t \<and> decode_utf8 t = Inr t"
  by (auto simp: read_text_def decode_utf8_def split: option.splits)

lemma validate_round_Inr:
  assumes "validate_round loads round_number directory (af_files d) = Inr (n, delay, metrics)"
  shows "round_evidence loads (round_number, thread_number, d) n"
  using assms unfolding validate_round_def round_evidence_def
  by (auto simp: Let_def bindE_eq_Inr read_text_Inr as_obj_Inr jget_def dict_get_def split: if_splits option.splits)

definition feedback_inv ::
  "(string \<Rightarrow> json res) \<Rightarrow> (nat, nat) dict \<Rightarrow> (nat \<times> nat \<times> artifact) list \<Rightarrow> feedback_state \<Rightarrow> bool" where
  "feedback_inv loads loaded artifacts s \<longleftrightarrow> (\<forall>r\<in>set (fs_consumed s). \<exists>thread_number d n.
      (r, thread_number, d) \<in> set artifacts \<and> round_evidence loads (r, thread_number, d) n \<and> 0 < n \<and> 0 < dict_get loaded (r + 1) 0)"

lemma feedback_round_Inr:
  assumes "feedback_round loads artifact_root loaded (r, thread_number, d) s = Inr t"
  obtains n where "round_evidence loads (r, thread_number, d) n"
    "fs_consumed t = fs_consumed s @ (if 0 < n \<and> 0 < dict_get loaded (r + 1) 0 then [r] else [])"
proof -
  from assms obtain n delay metrics where v: "validate_round loads r (artifact_root @ ''/'' @ af_name d) (af_files d) = Inr (n, delay, metrics)"
    and t: "fs_consumed t = fs_consumed s @ (if 0 < n \<and> 0 < dict_get loaded (r + 1) 0 then [r] else [])"
    by (auto simp: feedback_round_def bindE_eq_Inr Let_def)
  from that [OF validate_round_Inr [OF v] t] show thesis .
qed

lemma feedback_fold:
  assumes "foldE (feedback_round loads artifact_root loaded) artifacts s = Inr t" and "set artifacts \<subseteq> set all"
    and "feedback_inv loads loaded all s"
  shows "feedback_inv loads loaded all t \<and> list_all (\<lambda>x. \<exists>n. round_evidence loads x n) artifacts"
  using assms
proof (induction artifacts arbitrary: s)
  case (Cons x artifacts)
  obtain r thread_number d where x: "x = (r, thread_number, d)" by (cases x)
  from Cons.prems(1) obtain u where u: "feedback_round loads artifact_root loaded x s = Inr u"
    "foldE (feedback_round loads artifact_root loaded) artifacts u = Inr t" by (auto simp: bindE_eq_Inr)
  obtain n where n: "round_evidence loads x n"
    "fs_consumed u = fs_consumed s @ (if 0 < n \<and> 0 < dict_get loaded (r + 1) 0 then [r] else [])"
    using feedback_round_Inr u(1) unfolding x by blast
  have "x \<in> set all" using Cons.prems(2) by simp
  then have "feedback_inv loads loaded all u"
    using Cons.prems(3) n unfolding feedback_inv_def x by (auto split: if_splits)
  with Cons.IH [OF u(2)] Cons.prems(2) n(1) show ?case by auto
qed simp

text \<open>
  A report of the feedback check is backed by the files: every preserved phase-two directory has as
  many delay records and metrics rows as trace records and a summary of the ns-3 backend, and for at
  least one of them the trace is not empty and the coordinator's log shows that the next phase-one
  round loaded a non-zero number of delay records.
\<close>

theorem feedback_report_sound:
  assumes "validate_feedback loads artifact_root entries coordinator_log = Inr report"
  shows "list_all (\<lambda>x. \<exists>n. round_evidence loads x n) (phase_two_directories entries)
    \<and> (\<exists>r thread_number d n. (r, thread_number, d) \<in> set (phase_two_directories entries)
         \<and> round_evidence loads (r, thread_number, d) n \<and> 0 < n
         \<and> 0 < dict_get (load_counts_by_round coordinator_log) (r + 1) 0)"
proof -
  let ?loaded = "load_counts_by_round coordinator_log" and ?all = "phase_two_directories entries"
  obtain x y z where "last ?all = (x, y, z)" by (cases "last ?all")
  with assms obtain s where s: "foldE (feedback_round loads artifact_root ?loaded) ?all \<lparr>fs_result = [], fs_consumed = []\<rparr> = Inr s"
    and consumed: "fs_consumed s \<noteq> []"
    by (auto simp: validate_feedback_def bindE_eq_Inr Let_def split: if_splits)
  have fold: "feedback_inv loads ?loaded ?all s" "list_all (\<lambda>x. \<exists>n. round_evidence loads x n) ?all"
    using feedback_fold [OF s subset_refl] by (simp_all add: feedback_inv_def)
  from consumed have "hd (fs_consumed s) \<in> set (fs_consumed s)" by simp
  then show ?thesis using fold unfolding feedback_inv_def by blast
qed

definition kept_directory :: artifact where
  "kept_directory = \<lparr>af_name = ''proc_r1_p2_t0'', af_is_dir = True,
     af_files = [''phase2_input_bench.txt'' \<mapsto> record_text [''0 1 0 1 0 1''], ''phase2_delayInfo.txt'' \<mapsto> record_text [''0 0 1 0 2 3 4''],
       ''phase2_metrics.csv'' \<mapsto> record_text [''trace_id'', ''0''], ''phase2_summary.json'' \<mapsto> ''{}'']\<rparr>"

definition round_log :: string where
  "round_log = record_text [''**** Round 2 Phase 1'', ''Load 1 delay records.'']"

lemma kept_directory_accepted:
  "case validate_feedback summary_loads ''out'' [kept_directory] round_log of Inl _ \<Rightarrow> False | Inr _ \<Rightarrow> True"
  by code_simp

theorem feedback_report_sound_witness:
  "\<exists>report r thread_number d n. validate_feedback summary_loads ''out'' [kept_directory] round_log = Inr report
     \<and> (r, thread_number, d) \<in> set (phase_two_directories [kept_directory])
     \<and> round_evidence summary_loads (r, thread_number, d) n \<and> 0 < n \<and> 0 < dict_get (load_counts_by_round round_log) (r + 1) 0"
proof -
  obtain report where r: "validate_feedback summary_loads ''out'' [kept_directory] round_log = Inr report"
    using kept_directory_accepted by (auto split: sum.splits)
  from feedback_report_sound [OF r] r show ?thesis by blast
qed

end
