(* ===== verification/UnboundedWorkload.thy ===== *)
theory UnboundedWorkload
  imports MlpScalability
begin

text \<open>
  The derived workload of the unbounded experiment arms (\<open>scripts/run_mlp_scalability.py\<close>): removing the
  instruction limit and the fast-forward option from the proxy commands of a generated workload file
  gives the file that the workload generator writes without those options.
\<close>

section \<open>Words\<close>

definition strip_words :: "bool \<Rightarrow> bool \<Rightarrow> json list \<Rightarrow> json list" where
  "strip_words unbounded_gpgpu unbounded_sniper ws =
     (let ws1 = (if unbounded_gpgpu then drop_limit ws else ws)
      in if unbounded_sniper then filter (\<lambda>x. x \<noteq> JStr ''--fast-forward'') ws1 else ws1)"

definition plain_words :: "bool \<Rightarrow> bool \<Rightarrow> json list \<Rightarrow> bool" where
  "plain_words unbounded_gpgpu unbounded_sniper ws \<longleftrightarrow>
     (unbounded_gpgpu \<longrightarrow> JStr ''--gpgpu-max-instructions'' \<notin> set ws)
     \<and> (unbounded_sniper \<longrightarrow> JStr ''--fast-forward'' \<notin> set ws)"

definition unbounded_arguments :: "bool \<Rightarrow> bool \<Rightarrow> yaml_arguments \<Rightarrow> yaml_arguments" where
  "unbounded_arguments unbounded_gpgpu unbounded_sniper a =
     a\<lparr>ya_max_instructions := (if unbounded_gpgpu then None else ya_max_instructions a),
       ya_sniper_fast_forward := (ya_sniper_fast_forward a \<and> \<not> unbounded_sniper)\<rparr>"

lemma drop_limit_id: "JStr ''--gpgpu-max-instructions'' \<notin> set ws \<Longrightarrow> drop_limit ws = ws"
  by (induction ws rule: drop_limit.induct) auto

lemma drop_limit_once:
  "JStr ''--gpgpu-max-instructions'' \<notin> set (xs @ ys) \<Longrightarrow>
     drop_limit (xs @ JStr ''--gpgpu-max-instructions'' # n # ys) = xs @ ys"
  by (induction xs) (auto simp: drop_limit_id)

text \<open>The words of the two files differ by the removed options.\<close>

lemma strip_limit:
  assumes limit: "limit = [] \<or> limit = [JStr ''--gpgpu-max-instructions'', n]" and "n \<noteq> JStr ''--fast-forward''"
    and "set mark \<subseteq> {JStr ''--fast-forward''}"
    and "plain_words ug us (xs @ (if ug then [] else limit) @ ys @ (if us then [] else mark) @ zs)"
  shows "strip_words ug us (xs @ limit @ ys @ mark @ zs)
    = xs @ (if ug then [] else limit) @ ys @ (if us then [] else mark) @ zs"
proof -
  let ?opt = "JStr ''--gpgpu-max-instructions''" and ?ff = "JStr ''--fast-forward''"
  have "?opt \<notin> set mark" using assms(3) by auto
  then have "drop_limit (xs @ limit @ ys @ mark @ zs) = xs @ ys @ mark @ zs" if ug
    using limit assms(4) that drop_limit_once [of xs "ys @ mark @ zs" n]
    by (auto simp: plain_words_def intro!: drop_limit_id)
  moreover have "filter (\<lambda>x. x \<noteq> ?ff) mark = []" using assms(3) by (auto simp: filter_empty_conv)
  moreover have "filter (\<lambda>x. x \<noteq> ?ff) ws = ws" if "?ff \<notin> set ws" for ws using that by (auto simp: filter_id_conv)
  ultimately show ?thesis using assms(4) by (auto simp: strip_words_def plain_words_def)
qed

definition fast_mark :: "yaml_arguments \<Rightarrow> string \<Rightarrow> json list" where
  "fast_mark a command = (if ya_sniper_fast_forward a \<and> is_sniper command then [JStr ''--fast-forward''] else [])"

lemma debug_unbounded: "debug_command (unbounded_arguments ug us a) = debug_command a"
  by (simp add: fun_eq_iff debug_command_def unbounded_arguments_def)

lemma launch_unbounded:
  assumes "launch_command a ''phase1'' i c0 xs0 = Inr (command, xs)"
  obtains front mark rest where "xs = front @ mark @ rest" "set mark \<subseteq> {JStr ''--fast-forward''}"
    "launch_command (unbounded_arguments ug us a) ''phase1'' i c0 xs0 = Inr (command, front @ (if us then [] else mark) @ rest)"
proof -
  from assms obtain c1 xs1 where d: "debug_command a i c0 xs0 = Inr (c1, xs1)" and s: "sniper_options a (c1, xs1) = Inr (command, xs)"
    by (auto simp: launch_command_def res_simps)
  have d': "debug_command (unbounded_arguments ug us a) i c0 xs0 = Inr (c1, xs1)"
    using d by (simp only: debug_unbounded)
  let ?front = "case ya_sniper_maxthreads a of None \<Rightarrow> [] | Some n \<Rightarrow> if is_sniper c1 then [JStr (''--maxthreads='' @ str_int n)] else []"
  have "xs = ?front @ fast_mark a c1 @ xs1
      \<and> sniper_options (unbounded_arguments ug us a) (c1, xs1) = Inr (command, ?front @ (if us then [] else fast_mark a c1) @ xs1)"
    using s by (auto simp: sniper_options_def unbounded_arguments_def fast_mark_def Let_def split: option.splits if_splits)
  moreover have "set (fast_mark a c1) \<subseteq> {JStr ''--fast-forward''}" by (auto simp: fast_mark_def)
  ultimately show thesis using d' by (intro that [of ?front "fast_mark a c1" xs1]) (simp_all add: launch_command_def)
qed

lemma proxy_words_unbounded:
  obtains xs limit ys n where
    "proxy_words a ''phase1'' i slot pre_copy command ws = xs @ limit @ ys @ ws"
    "proxy_words (unbounded_arguments ug us a) ''phase1'' i slot pre_copy command ws' = xs @ (if ug then [] else limit) @ ys @ ws'"
    "limit = [] \<or> limit = [JStr ''--gpgpu-max-instructions'', n]" "n \<noteq> JStr ''--fast-forward''"
proof -
  let ?xs = "map JStr [''/opt/chipsystemsim-distributed/process_proxy.py'', ''--worker'', worker_address slot,
        ''--process-id'', ''phase1'' @ ''-'' @ show_nat i, ''--pre-copy'', pre_copy]
     @ option_words ''--shared-asset'' (map (replace_root (ya_benchmark_root a)) (ya_shared_worker_asset a))
     @ limit_option ''phase1'' pre_copy ''--gpgpu-max-completed-cta'' (ya_max_completed_cta a)"
  let ?limit = "limit_option ''phase1'' pre_copy ''--gpgpu-max-instructions'' (ya_max_instructions a)"
  let ?n = "JStr (str_int (case ya_max_instructions a of None \<Rightarrow> 0 | Some m \<Rightarrow> m))"
  have "str_int m \<noteq> ''--fast-forward''" for m
    using str_int_chars [of "CHR ''f''" m] by (intro notI) (simp add: is_digit_def)
  then have "?n \<noteq> JStr ''--fast-forward''" by simp
  moreover have "?limit = [] \<or> ?limit = [JStr ''--gpgpu-max-instructions'', ?n]"
    by (cases "ya_max_instructions a") (auto simp: limit_option_def)
  moreover have "limit_option ''phase1'' pre_copy name (if ug then None else m) = (if ug then [] else limit_option ''phase1'' pre_copy name m)"
    for name m by (simp add: limit_option_def)
  then have "proxy_words (unbounded_arguments ug us a) ''phase1'' i slot pre_copy command ws'
      = ?xs @ (if ug then [] else ?limit) @ [JStr command] @ ws'"
    by (simp add: proxy_words_def unbounded_arguments_def)
  moreover have "proxy_words a ''phase1'' i slot pre_copy command ws = ?xs @ ?limit @ [JStr command] @ ws"
    by (simp add: proxy_words_def)
  ultimately show thesis using that by blast
qed

text \<open>The entry around the words.\<close>

definition proxy_entry :: "bool \<Rightarrow> json list \<Rightarrow> jobj \<Rightarrow> jobj" where
  "proxy_entry stream_output ws process =
     (let popped = AList.delete ''pre_copy'' (AList.update ''args'' (JList ws) (AList.update ''cmd'' (JStr ''python3'') process))
      in if stream_output then AList.update ''is_to_stdout'' (JBool True) popped else popped)"

lemma proxy_entry_words: "map_of (proxy_entry b ws process) ''args'' = Some (JList ws)"
  by (simp add: proxy_entry_def Let_def delete_conv')

lemma proxy_entry_update: "AList.update ''args'' (JList ws') (proxy_entry b ws process) = proxy_entry b ws' process"
proof -
  let ?d = "AList.update ''args'' (JList ws) (AList.update ''cmd'' (JStr ''python3'') process)"
  have popped: "AList.update ''args'' (JList ws') (AList.delete ''pre_copy'' ?d)
      = AList.delete ''pre_copy'' (AList.update ''args'' (JList ws') (AList.update ''cmd'' (JStr ''python3'') process))"
    by (simp add: update_delete_commute [symmetric] update_update)
  have "map_of (AList.delete ''pre_copy'' ?d) ''args'' = Some (JList ws)" by (simp add: delete_conv')
  then have "''args'' \<in> fst ` set (AList.delete ''pre_copy'' ?d)" by (rule map_of_key)
  note update_commute [OF this, of "''is_to_stdout''" "JList ws'" "JBool True"]
  then show ?thesis by (simp add: proxy_entry_def Let_def popped)
qed

lemma wrap_process_entry:
  "wrap_process a processes ''phase1'' (i, process) =
     (case map_of (placements_of processes ''phase1'') i of
        None \<Rightarrow> Inl (KeyError (show_nat i))
      | Some item \<Rightarrow>
          bindE (bindE (dict_item process ''cmd'') yaml_text) (\<lambda>command0.
          bindE (json_iter (dict_get process ''args'' (JList []))) (\<lambda>arguments0.
          bindE (yaml_text (dict_get process ''pre_copy'' (JStr []))) (\<lambda>pre_copy0.
          bindE (launch_command a ''phase1'' i (replace_root (ya_benchmark_root a) command0)
              (map (replace_root_value (ya_benchmark_root a)) arguments0)) (\<lambda>(command, arguments).
            Inr (proxy_entry (ya_stream_output a) (proxy_words a ''phase1'' i (pl_node_slot item)
              (replace_root (ya_benchmark_root a) pre_copy0) command arguments) process))))))"
  unfolding wrap_process_def proxy_entry_def Let_def prod.case by (rule refl)

lemma wrap_unbounded:
  assumes "wrap_process a processes ''phase1'' (i, process) = Inr q"
  obtains ws ws' where
    "wrap_process (unbounded_arguments ug us a) processes ''phase1'' (i, process) = Inr (AList.update ''args'' (JList ws') q)"
    "map_of q ''args'' = Some (JList ws)" "plain_words ug us ws' \<Longrightarrow> strip_words ug us ws = ws'"
proof -
  let ?b = "unbounded_arguments ug us a"
  have root: "ya_benchmark_root ?b = ya_benchmark_root a" "ya_stream_output ?b = ya_stream_output a"
    by (simp_all add: unbounded_arguments_def)
  from assms obtain item command0 arguments0 pre_copy0 command xs where
    w: "map_of (placements_of processes ''phase1'') i = Some item" "bindE (dict_item process ''cmd'') yaml_text = Inr command0"
      "json_iter (dict_get process ''args'' (JList [])) = Inr arguments0" "yaml_text (dict_get process ''pre_copy'' (JStr [])) = Inr pre_copy0"
    and launch: "launch_command a ''phase1'' i (replace_root (ya_benchmark_root a) command0)
        (map (replace_root_value (ya_benchmark_root a)) arguments0) = Inr (command, xs)"
    and q: "q = proxy_entry (ya_stream_output a) (proxy_words a ''phase1'' i (pl_node_slot item)
           (replace_root (ya_benchmark_root a) pre_copy0) command xs) process"
    unfolding wrap_process_entry by (auto split: option.splits elim!: bindE_InrE)
  obtain front mark rest where
    x: "xs = front @ mark @ rest" "set mark \<subseteq> {JStr ''--fast-forward''}"
    and launch': "launch_command ?b ''phase1'' i (replace_root (ya_benchmark_root a) command0)
        (map (replace_root_value (ya_benchmark_root a)) arguments0) = Inr (command, front @ (if us then [] else mark) @ rest)" by (rule launch_unbounded [OF launch])
  let ?slot = "pl_node_slot item" and ?pre = "replace_root (ya_benchmark_root a) pre_copy0"
  obtain l1 limit l2 n where l: "proxy_words a ''phase1'' i ?slot ?pre command xs = l1 @ limit @ l2 @ xs"
    "proxy_words ?b ''phase1'' i ?slot ?pre command (front @ (if us then [] else mark) @ rest)
       = l1 @ (if ug then [] else limit) @ l2 @ front @ (if us then [] else mark) @ rest"
    "limit = [] \<or> limit = [JStr ''--gpgpu-max-instructions'', n]" "n \<noteq> JStr ''--fast-forward''"
    by (rule proxy_words_unbounded [of a i ?slot ?pre command xs ug us "front @ (if us then [] else mark) @ rest"])
  let ?ws' = "l1 @ (if ug then [] else limit) @ l2 @ front @ (if us then [] else mark) @ rest"
  show thesis
  proof (rule that)
    show "wrap_process ?b processes ''phase1'' (i, process) = Inr (AList.update ''args'' (JList ?ws') q)"
      using w launch' l(2) unfolding wrap_process_entry q proxy_entry_update root by simp
    show "map_of q ''args'' = Some (JList (l1 @ limit @ l2 @ xs))" by (simp add: q l(1) proxy_entry_words)
    show "strip_words ug us (l1 @ limit @ l2 @ xs) = ?ws'" if "plain_words ug us ?ws'"
      using strip_limit [OF l(3,4) x(2), of ug us l1 "l2 @ front" rest] that x(1) by simp
  qed
qed

section \<open>The two files\<close>

lemma update_phase_commute:
  assumes "k \<noteq> phase" and "k \<in> fst ` set d"
  shows "update_phase phase f (AList.update k v d) = bindE (update_phase phase f d) (\<lambda>d'. Inr (AList.update k v d'))"
proof (cases "map_of d phase")
  case (Some j)
  have "AList.update phase x (AList.update k v d) = AList.update k v (AList.update phase x d)" for x
    using update_commute [OF assms(2,1)] by simp
  then show ?thesis using assms(1) Some by (auto simp: update_phase_def bindE_assoc)
qed (use assms(1) in \<open>simp add: update_phase_def\<close>)

lemma phase_two_unbounded: "wrap_process (unbounded_arguments ug us a) processes ''phase2'' = wrap_process a processes ''phase2''"
proof -
  let ?b = "unbounded_arguments ug us a"
  have limit: "limit_option ''phase2'' pre_copy name m = []" for pre_copy name m by (simp add: limit_option_def split: option.split)
  have words: "proxy_words ?b ''phase2'' = proxy_words a ''phase2''"
    by (simp add: fun_eq_iff proxy_words_def limit unbounded_arguments_def)
  have launch: "launch_command ?b ''phase2'' = launch_command a ''phase2''" by (simp add: fun_eq_iff launch_command_def)
  have root: "ya_benchmark_root ?b = ya_benchmark_root a" "ya_stream_output ?b = ya_stream_output a"
    by (simp_all add: unbounded_arguments_def)
  show ?thesis unfolding wrap_process_def words launch root by (rule refl)
qed

lemma ns3_unbounded: "ns3_process cd (unbounded_arguments ug us a) = ns3_process cd a"
proof -
  have words: "ns3_words (unbounded_arguments ug us a) = ns3_words a"
    by (simp add: fun_eq_iff ns3_words_def unbounded_arguments_def)
  have root: "ya_benchmark_root (unbounded_arguments ug us a) = ya_benchmark_root a" by (simp add: unbounded_arguments_def)
  show ?thesis unfolding ns3_process_def words root by (rule refl)
qed

lemma check_unbounded: "check_yaml_arguments a = Inr () \<Longrightarrow> check_yaml_arguments (unbounded_arguments ug us a) = Inr ()"
  by (auto simp: check_yaml_arguments_def unbounded_arguments_def below_one_def split: if_splits)

definition unbounded_entry :: "bool \<Rightarrow> bool \<Rightarrow> jobj \<Rightarrow> jobj \<Rightarrow> bool" where
  "unbounded_entry ug us q q' \<longleftrightarrow> (\<exists>ws ws'. map_of q ''args'' = Some (JList ws) \<and> q' = AList.update ''args'' (JList ws') q
     \<and> (plain_words ug us ws' \<longrightarrow> strip_words ug us ws = ws'))"

lemma wrap_all_unbounded:
  assumes "mapE (wrap_process a processes ''phase1'') ps = Inr qs"
  obtains qs' where "mapE (wrap_process (unbounded_arguments ug us a) processes ''phase1'') ps = Inr qs'"
    "list_all2 (unbounded_entry ug us) qs qs'"
proof -
  let ?w = "wrap_process (unbounded_arguments ug us a) processes ''phase1''"
  have one: "\<exists>q'. ?w p = Inr q' \<and> unbounded_entry ug us q q'" if "wrap_process a processes ''phase1'' p = Inr q" for p q
    using wrap_unbounded [of a processes "fst p" "snd p" q ug us] that unfolding unbounded_entry_def by (metis prod.collapse)
  from assms have "\<exists>qs'. mapE ?w ps = Inr qs' \<and> list_all2 (unbounded_entry ug us) qs qs'"
  proof (induction ps arbitrary: qs)
    case (Cons p ps)
    then obtain q rest where q: "wrap_process a processes ''phase1'' p = Inr q" "mapE (wrap_process a processes ''phase1'') ps = Inr rest"
      "qs = q # rest" by (auto simp: bindE_eq_Inr)
    with one [OF q(1)] Cons.IH [OF q(2)] show ?case by auto
  qed auto
  then show thesis using that by blast
qed

lemma generate_unbounded:
  assumes "generate_distributed_yaml cd a processes config = Inr out"
  obtains qs qs' where "map_of out ''phase1'' = Some (JList (map JObj qs))"
    "generate_distributed_yaml cd (unbounded_arguments ug us a) processes config
       = Inr (AList.update ''phase1'' (JList (map JObj qs')) out)"
    "list_all2 (unbounded_entry ug us) qs qs'"
proof -
  let ?b = "unbounded_arguments ug us a" and ?two = "\<lambda>ps. mapE (wrap_process a processes ''phase2'') (enumerate 0 ps)"
  have keep: "ya_phase2_backend ?b = ya_phase2_backend a" "ya_remote_phase2 ?b = ya_remote_phase2 a"
    by (simp_all add: unbounded_arguments_def)
  from assms obtain config1 config2 j where check: "check_yaml_arguments a = Inr ()"
    and one: "(if ya_phase2_backend a = ''ns3'' then update_phase ''phase2'' (mapE (ns3_process cd a)) config else Inr config) = Inr config1"
    and j: "map_of config1 ''phase1'' = Some j"
    and two: "update_phase ''phase1'' (\<lambda>ps. mapE (wrap_process a processes ''phase1'') (enumerate 0 ps)) config1 = Inr config2"
    and out: "(if ya_remote_phase2 a then update_phase ''phase2'' ?two config2 else Inr config2) = Inr out"
    by (auto simp: generate_distributed_yaml_def bindE_eq_Inr dict_item_Inr_iff)
  obtain ps qs where ps: "phase_entries j = Inr ps" "mapE (wrap_process a processes ''phase1'') (enumerate 0 ps) = Inr qs"
    and config2: "config2 = AList.update ''phase1'' (JList (map JObj qs)) config1"
    by (rule update_phase_Inr [OF two j])
  obtain qs' where qs': "mapE (wrap_process ?b processes ''phase1'') (enumerate 0 ps) = Inr qs'" "list_all2 (unbounded_entry ug us) qs qs'"
    by (rule wrap_all_unbounded [OF ps(2)])
  have here: "map_of config2 ''phase1'' = Some (JList (map JObj qs))" by (simp add: config2)
  with out have phase1: "map_of out ''phase1'' = Some (JList (map JObj qs))" by (auto simp: update_phase_other split: if_splits)
  have "update_phase ''phase1'' (\<lambda>ps. mapE (wrap_process ?b processes ''phase1'') (enumerate 0 ps)) config1
      = Inr (AList.update ''phase1'' (JList (map JObj qs')) config2)"
    using j ps qs' by (simp add: update_phase_def config2 update_update)
  moreover have "(if ya_remote_phase2 a then update_phase ''phase2'' ?two (AList.update ''phase1'' v config2)
      else Inr (AList.update ''phase1'' v config2)) = Inr (AList.update ''phase1'' v out)" for v
    using out update_phase_commute [of "''phase1''" "''phase2''" config2] map_of_key [OF here] by (auto split: if_splits)
  ultimately have "generate_distributed_yaml cd ?b processes config = Inr (AList.update ''phase1'' (JList (map JObj qs')) out)"
    unfolding generate_distributed_yaml_def keep ns3_unbounded phase_two_unbounded one check_unbounded [OF check]
    using j by (simp add: dict_item_def)
  with phase1 show thesis using qs'(2) by (rule that)
qed

section \<open>Removing the options\<close>

lemma map_arguments_update:
  "map_of q ''args'' = Some (JList ws) \<Longrightarrow> map_arguments f q = Inr (AList.update ''args'' (JList (f ws)) q)"
  by (simp add: map_arguments_def dict_get_def)

lemma remove_arguments:
  assumes "map_of d ''phase1'' = Some (JList (map JObj qs))"
    and "list_all2 (\<lambda>q q'. \<exists>ws. map_of q ''args'' = Some (JList ws) \<and> q' = AList.update ''args'' (JList (f ws)) q) qs qs'"
  shows "update_phase ''phase1'' (mapE (map_arguments f)) d = Inr (AList.update ''phase1'' (JList (map JObj qs')) d)"
proof -
  from assms(2) have "mapE (map_arguments f) qs = Inr qs'"
    unfolding mapE_Inr_iff by (rule list_all2_mono) (auto simp: map_arguments_update)
  then show ?thesis using assms(1) by (simp add: update_phase_def)
qed

lemma strip_step:
  assumes "map_of d ''phase1'' = Some (JList (map JObj qs))"
    and "list_all2 (\<lambda>q q'. \<exists>ws. map_of q ''args'' = Some (JList ws) \<and> q' = AList.update ''args'' (JList (strip_words ug us ws)) q) qs qs'"
  shows "bindE (if ug then remove_gpgpu_instruction_limits d else Inr d)
      (\<lambda>w. if us then remove_sniper_fast_forward w else Inr w) = Inr (AList.update ''phase1'' (JList (map JObj qs')) d)"
proof -
  define args where "args q = (case map_of q ''args'' of Some (JList ws) \<Rightarrow> ws | _ \<Rightarrow> [])" for q
  define put where "put f q = AList.update ''args'' (JList (f (args q))) q" for f :: "json list \<Rightarrow> json list" and q
  let ?ff = "filter (\<lambda>x. x \<noteq> JStr ''--fast-forward'')"
  from assms(2) have all: "map_of q ''args'' = Some (JList (args q))" if "q \<in> set qs" for q
    using that by (fastforce simp: args_def list_all2_conv_all_nth in_set_conv_nth)
  from assms(2) have qs': "qs' = map (put (strip_words ug us)) qs"
    by (auto simp: list_all2_conv_all_nth put_def args_def intro!: nth_equalityI)
  have step: "update_phase ''phase1'' (mapE (map_arguments f)) (AList.update ''phase1'' (JList (map JObj rs)) d)
      = Inr (AList.update ''phase1'' (JList (map JObj (map (put f) rs))) d)"
    if "\<And>q. q \<in> set rs \<Longrightarrow> map_of q ''args'' = Some (JList (args q))" for f rs
  proof -
    have "list_all2 (\<lambda>q q'. \<exists>ws. map_of q ''args'' = Some (JList ws) \<and> q' = AList.update ''args'' (JList (f ws)) q) rs (map (put f) rs)"
      using that by (force simp: put_def list_all2_conv_all_nth)
    from remove_arguments [OF _ this, of "AList.update ''phase1'' (JList (map JObj rs)) d"] show ?thesis by (simp add: update_update)
  qed
  have put_args: "args (put f q) = f (args q)" "map_of (put f q) ''args'' = Some (JList (args (put f q)))" for f q
    by (simp_all add: put_def args_def)
  have put_put: "put g (put f q) = put (\<lambda>ws. g (f ws)) q" for f g q
    unfolding put_def [of g] put_args(1) by (simp add: put_def update_update)
  have start: "AList.update ''phase1'' (JList (map JObj qs)) d = d" using assms(1) by (rule update_same)
  have same: "map (put (\<lambda>ws. ws)) qs = qs" using all by (auto simp: put_def update_same intro!: map_idI)
  have first: "(if ug then remove_gpgpu_instruction_limits d else Inr d)
      = Inr (AList.update ''phase1'' (JList (map JObj (map (put (if ug then drop_limit else (\<lambda>ws. ws))) qs))) d)"
    using step [of qs drop_limit] all same start by (simp add: remove_gpgpu_instruction_limits_def del: map_map)
  let ?f = "if ug then drop_limit else (\<lambda>ws. ws)" and ?g = "if us then ?ff else (\<lambda>ws. ws)"
  have "map (put (\<lambda>ws. ws)) (map (put ?f) qs) = map (put ?f) qs" by (simp add: put_put)
  moreover have "update_phase ''phase1'' (mapE (map_arguments ?ff)) (AList.update ''phase1'' (JList (map JObj (map (put ?f) qs))) d)
      = Inr (AList.update ''phase1'' (JList (map JObj (map (put ?ff) (map (put ?f) qs)))) d)"
    by (rule step) (use put_args(2) in auto)
  ultimately have "(if us then remove_sniper_fast_forward (AList.update ''phase1'' (JList (map JObj (map (put ?f) qs))) d)
        else Inr (AList.update ''phase1'' (JList (map JObj (map (put ?f) qs))) d))
      = Inr (AList.update ''phase1'' (JList (map JObj (map (put ?g) (map (put ?f) qs)))) d)"
    by (simp add: remove_sniper_fast_forward_def del: map_map)
  moreover have "put ?g (put ?f q) = put (strip_words ug us) q" for q
    unfolding put_put by (simp add: put_def strip_words_def)
  ultimately show ?thesis unfolding first bindE_Inr qs' by (simp only: map_map comp_def)
qed

abbreviation show_output :: "jobj \<Rightarrow> jobj" where
  "show_output \<equiv> AList.update ''is_to_stdout'' (JBool True)"

lemma evidence_update:
  "map_of q ''args'' = Some w \<Longrightarrow> AList.update ''args'' v (show_output q) = show_output (AList.update ''args'' v q)"
  by (rule update_commute) (auto dest: map_of_key)

lemma enable_evidence:
  assumes "map_of d ''phase1'' = Some (JList (map JObj qs))"
  shows "enable_proxy_evidence d = bindE (update_phase ''phase2'' (mapE (\<lambda>q. Inr (show_output q))) d)
    (\<lambda>d'. Inr (AList.update ''phase1'' (JList (map JObj (map show_output qs))) d'))"
proof -
  have "update_phase ''phase1'' (mapE (\<lambda>q. Inr (show_output q))) d
      = Inr (AList.update ''phase1'' (JList (map JObj (map show_output qs))) d)"
    using assms by (simp add: update_phase_def mapE_all_Inr [of qs "\<lambda>q. Inr (show_output q)" show_output])
  then show ?thesis
    using update_phase_commute [of "''phase1''" "''phase2''" d] map_of_key [OF assms] by (simp add: enable_proxy_evidence_def Let_def)
qed

text \<open>
  C31. The unbounded arms of the experiment run what the generator would write: for a generated
  workload, removing the instruction limits and the fast-forward options from the proxy commands (and
  keeping the diagnostics on) gives exactly the file generated without these options, with the
  diagnostics on. It needs that no other word of that file looks like a removed option.
\<close>

theorem unbounded_workload_generated:
  assumes "generate_distributed_yaml cd a processes config = Inr out"
    and "generate_distributed_yaml cd (unbounded_arguments ug us a) processes config = Inr out'"
    and "\<And>entries q ws. map_of out' ''phase1'' = Some (JList entries) \<Longrightarrow> JObj q \<in> set entries \<Longrightarrow>
      map_of q ''args'' = Some (JList ws) \<Longrightarrow> plain_words ug us ws"
  shows "sample_workload ug us out = enable_proxy_evidence out'"
proof -
  obtain qs qs' where qs: "map_of out ''phase1'' = Some (JList (map JObj qs))"
    and gen: "generate_distributed_yaml cd (unbounded_arguments ug us a) processes config
      = Inr (AList.update ''phase1'' (JList (map JObj qs')) out)" and rel: "list_all2 (unbounded_entry ug us) qs qs'"
    by (rule generate_unbounded [OF assms(1)])
  have out': "out' = AList.update ''phase1'' (JList (map JObj qs')) out" using assms(2) gen by simp
  have plain: "plain_words ug us ws" if "q' \<in> set qs'" "map_of q' ''args'' = Some (JList ws)" for q' ws
    using assms(3) [of "map JObj qs'" q' ws] that by (auto simp: out')
  have strip: "list_all2 (\<lambda>q q'. \<exists>ws. map_of q ''args'' = Some (JList ws)
      \<and> q' = AList.update ''args'' (JList (strip_words ug us ws)) q) (map show_output qs) (map show_output qs')"
    unfolding list_all2_map1 list_all2_map2
  proof (rule list_all2_all_nthI)
    show "length qs = length qs'" using rel by (rule list_all2_lengthD)
    fix i
    assume i: "i < length qs"
    with rel have member: "qs' ! i \<in> set qs'" by (simp add: list_all2_lengthD)
    from rel i have "unbounded_entry ug us (qs ! i) (qs' ! i)" by (rule list_all2_nthD)
    then obtain ws ws' where w: "map_of (qs ! i) ''args'' = Some (JList ws)" "qs' ! i = AList.update ''args'' (JList ws') (qs ! i)"
      "plain_words ug us ws' \<Longrightarrow> strip_words ug us ws = ws'" unfolding unbounded_entry_def by blast
    with plain [OF member] show "\<exists>ws. map_of (show_output (qs ! i)) ''args'' = Some (JList ws)
        \<and> show_output (qs' ! i) = AList.update ''args'' (JList (strip_words ug us ws)) (show_output (qs ! i))"
      by (simp add: evidence_update)
  qed
  have "update_phase ''phase2'' (mapE (\<lambda>q. Inr (show_output q))) out' = bindE (update_phase ''phase2'' (mapE (\<lambda>q. Inr (show_output q))) out)
      (\<lambda>d. Inr (AList.update ''phase1'' (JList (map JObj qs')) d))"
    unfolding out' by (rule update_phase_commute) (use map_of_key [OF qs] in auto)
  moreover have "map_of out' ''phase1'' = Some (JList (map JObj qs'))" by (simp add: out')
  ultimately have evidence': "enable_proxy_evidence out' = bindE (update_phase ''phase2'' (mapE (\<lambda>q. Inr (show_output q))) out)
      (\<lambda>d. Inr (AList.update ''phase1'' (JList (map JObj (map show_output qs'))) d))"
    by (simp add: enable_evidence bindE_assoc update_update)
  show ?thesis
    unfolding evidence' sample_workload_def enable_evidence [OF qs] bindE_assoc bindE_Inr
    by (simp add: strip_step [OF _ strip] update_update)
qed

definition limited_arguments :: yaml_arguments where
  "limited_arguments = plain_arguments\<lparr>ya_remote_phase2 := False, ya_sniper_fast_forward := True, ya_max_instructions := Some 1000\<rparr>"

definition limited_workload :: jobj where
  "limited_workload = [(''phase1'', JList
     [JObj [(''cmd'', JStr ''/opt/sniper/run-sniper''), (''args'', JList [JStr ''--'', JStr ''app''])],
      JObj [(''cmd'', JStr ''matmul''), (''args'', JList [JInt 5, JInt (-1)]), (''pre_copy'', JStr ''/opt/gpgpu-sim/config'')]])]"

definition entry_words :: "json \<Rightarrow> json list" where
  "entry_words entry = (case entry of JObj q \<Rightarrow> (case map_of q ''args'' of Some (JList ws) \<Rightarrow> ws | _ \<Rightarrow> []) | _ \<Rightarrow> [])"

definition phase_words :: "jobj \<Rightarrow> json list list" where
  "phase_words out = (case map_of out ''phase1'' of Some (JList entries) \<Rightarrow> map entry_words entries | _ \<Rightarrow> [])"

definition no_codec :: codec where
  "no_codec = \<lparr>cd_loads = (\<lambda>_. Inl JSONDecodeError), cd_str = (\<lambda>_. []), cd_dumps = (\<lambda>_. [])\<rparr>"

lemma limited_outputs:
  "case generate_distributed_yaml no_codec limited_arguments (pm_processes two_worker_placement) limited_workload of
     Inl _ \<Rightarrow> False | Inr out \<Rightarrow> list_ex (\<lambda>ws. JStr ''--fast-forward'' \<in> set ws) (phase_words out)"
  "case generate_distributed_yaml no_codec (unbounded_arguments True True limited_arguments)
     (pm_processes two_worker_placement) limited_workload of
     Inl _ \<Rightarrow> False | Inr out \<Rightarrow> list_all (plain_words True True) (phase_words out)"
  by code_simp+

theorem unbounded_workload_generated_witness:
  "\<exists>out out'. generate_distributed_yaml no_codec limited_arguments (pm_processes two_worker_placement) limited_workload = Inr out
     \<and> list_ex (\<lambda>ws. JStr ''--fast-forward'' \<in> set ws) (phase_words out)
     \<and> generate_distributed_yaml no_codec (unbounded_arguments True True limited_arguments)
         (pm_processes two_worker_placement) limited_workload = Inr out'
     \<and> sample_workload True True out = enable_proxy_evidence out'"
proof -
  obtain out where out: "generate_distributed_yaml no_codec limited_arguments (pm_processes two_worker_placement) limited_workload = Inr out"
    "list_ex (\<lambda>ws. JStr ''--fast-forward'' \<in> set ws) (phase_words out)"
    using limited_outputs(1) by (auto split: sum.splits)
  obtain out' where out': "generate_distributed_yaml no_codec (unbounded_arguments True True limited_arguments)
      (pm_processes two_worker_placement) limited_workload = Inr out'" "list_all (plain_words True True) (phase_words out')"
    using limited_outputs(2) by (auto split: sum.splits)
  have "plain_words True True ws" if "map_of out' ''phase1'' = Some (JList entries)" "JObj q \<in> set entries"
    "map_of q ''args'' = Some (JList ws)" for entries q ws
    using out'(2) that by (force simp: phase_words_def entry_words_def list_all_iff)
  then have "sample_workload True True out = enable_proxy_evidence out'"
    by (rule unbounded_workload_generated [OF out(1) out'(1)])
  with out out'(1) show ?thesis by blast
qed

end
