(* ===== verification/WorkerSession.thy ===== *)
theory WorkerSession
  imports RemoteProcess Polling
begin

text \<open>
  The session of a worker around the running child (\<open>handle\<close> of \<open>real/worker.py\<close>) and the connection of the
  proxy (\<open>real/process_proxy.py\<close>): the connect loop with its deadline, the preparation of a working
  directory up to the command that starts the child, and the copies of shared assets, which
  concurrent sessions make under one lock. The exit codes and effects of copy commands, the output of
  \<open>ldd\<close> and the JSON printer are parameters.
\<close>

section \<open>Connecting\<close>

text \<open>The readings of the clock at the loop test, and whether the connection attempt of a round succeeds.\<close>

record connect_world =
  cw_started :: rat
  cw_test_time :: "nat \<Rightarrow> rat"
  cw_accepts :: "nat \<Rightarrow> bool"

definition connect_body :: "connect_world \<Rightarrow> nat \<Rightarrow> nat option \<Rightarrow> nat option + nat option" where
  "connect_body w i connection = (if cw_accepts w i then Inl (Some i) else Inr connection)"

definition ready_timeout :: "(string, string) dict \<Rightarrow> int res" where
  "ready_timeout environ = int_text (dict_get environ ''LEGOSIM_WORKER_READY_TIMEOUT_SECONDS'' ''180'')"

text \<open>The number of the attempt that connected.\<close>

definition connect_worker :: "(string, string) dict \<Rightarrow> connect_world \<Rightarrow> string \<Rightarrow> nat res option" where
  "connect_worker environ w worker_address =
     (case ready_timeout environ of
        Inl e \<Rightarrow> Some (Inl e)
      | Inr timeout_seconds \<Rightarrow>
          map_option (\<lambda>(_, connection). case connection of
              Some i \<Rightarrow> Inr i
            | None \<Rightarrow> Inl (RuntimeError (''worker '' @ worker_address @ '' did not become ready within ''
                @ str_int timeout_seconds @ '' seconds'')))
            (poll_loop (\<lambda>i. cw_test_time w i < cw_started w + of_int timeout_seconds) (connect_body w) 0 None))"

section \<open>Preparing the child\<close>

text \<open>
  Whether the shared assets are copied, what the copy command of \<open>pre_copy\<close> makes of the files of the working directory (\<open>None\<close> is a failure), exit
  code and output of \<open>ldd\<close>, and the printer of the diagnostic.
\<close>

record launch_world =
  lw_assets :: "string list \<Rightarrow> unit res"
  lw_pre_copy :: "string \<Rightarrow> (string, string) dict \<Rightarrow> (string, string) dict option"
  lw_ldd :: "string \<Rightarrow> int \<times> string"
  lw_dumps :: "json \<Rightarrow> string"

record launch =
  la_files :: "(string, string) dict"
  la_diagnostic :: string
  la_words :: "string list"

definition pre_copy_files :: "launch_world \<Rightarrow> string \<Rightarrow> (string, string) dict \<Rightarrow> (string, string) dict res" where
  "pre_copy_files w pre_copy files =
     (if pre_copy = [] then Inr files
      else case lw_pre_copy w pre_copy files of
             None \<Rightarrow> Inl (RuntimeError ''upstream pre_copy command failed'') | Some fs \<Rightarrow> Inr fs)"

definition limit_files :: "spawn \<Rightarrow> (string, string) dict \<Rightarrow> (string, string) dict res" where
  "limit_files sp files =
     (if sp_max_completed_cta sp = None \<and> sp_max_instructions sp = None then Inr files
      else bindE (set_gpgpu_test_limits (map_of files ''gpgpusim.config'') (sp_max_completed_cta sp) (sp_max_instructions sp))
             (\<lambda>content. Inr (AList.update ''gpgpusim.config'' content files)))"

definition diagnostic_json :: "launch_world \<Rightarrow> spawn \<Rightarrow> json" where
  "diagnostic_json w sp =
     (let (ldd_exit, ldd_output) = lw_ldd w (sp_command sp)
      in JObj [(''command'', JStr (sp_command sp)), (''gpgpu_max_completed_cta'', json_limit (sp_max_completed_cta sp)),
           (''gpgpu_max_instructions'', json_limit (sp_max_instructions sp)),
           (''environment'', JObj (map (\<lambda>name. (name, JStr (dict_get (sp_environment sp) name [])))
              [''LD_LIBRARY_PATH'', ''CUDA_INSTALL_PATH'', ''LEGOSIM_PIPE_GATEWAY'', ''LEGOSIM_FIFO_BROKER''])),
           (''ldd_exit'', JInt ldd_exit), (''ldd'', JStr ldd_output)])"

definition launch_script :: string where
  "launch_script = ''cat '' @ [CHR 0x22] @ ''$1'' @ [CHR 0x22] @ '' >&2; shift; exec '' @ [CHR 0x22] @ ''$@'' @ [CHR 0x22]"

definition launch_words :: "string \<Rightarrow> spawn \<Rightarrow> string list" where
  "launch_words workdir sp =
     [''/bin/sh'', ''-c'', launch_script, ''legosim-worker-launch'', workdir @ ''/launch-diagnostic.json'', sp_command sp] @ sp_arguments sp"

definition prepare_child :: "launch_world \<Rightarrow> string \<Rightarrow> spawn \<Rightarrow> launch res" where
  "prepare_child w workdir sp =
     bindE (stage_files (sp_staged_files sp)) (\<lambda>staged.
     bindE (lw_assets w (sp_shared_assets sp)) (\<lambda>_.
     bindE (pre_copy_files w (sp_pre_copy sp) staged) (\<lambda>copied.
     bindE (limit_files sp copied) (\<lambda>files.
       let info = lw_dumps w (diagnostic_json w sp)
       in Inr \<lparr>la_files = AList.update ''launch-diagnostic.json'' (info @ [newline]) files, la_diagnostic = info,
               la_words = launch_words workdir sp\<rparr>))))"

text \<open>What the shell of the launch runs: the positional parameters after the script name, without the first.\<close>

definition child_words :: "string list \<Rightarrow> string list" where
  "child_words words = drop 5 words"

section \<open>Shared assets\<close>

text \<open>
  The run directory while concurrent sessions copy assets into it: a file may be incomplete during its
  copy; a directory has no content of its own. A session holds the lock while it copies.
\<close>

datatype asset_file = Partial | Copied string | Directory

datatype asset_session = Todo "string list" | Copying string "string list" | AssetsReady | AssetsFailed string

record asset_state =
  as_files :: "string \<Rightarrow> asset_file option"
  as_lock :: "nat option"
  as_sessions :: "asset_session list"

definition asset_exists :: "(string \<Rightarrow> asset_file option) \<Rightarrow> string \<Rightarrow> bool" where
  "asset_exists files asset \<longleftrightarrow> path_name asset \<in> {[], ''..''} \<or> files (path_name asset) \<noteq> None"

definition set_session :: "nat \<Rightarrow> asset_session \<Rightarrow> asset_state \<Rightarrow> asset_state" where
  "set_session i x s = s\<lparr>as_sessions := (as_sessions s)[i := x]\<rparr>"

inductive asset_step :: "asset_state \<Rightarrow> asset_state \<Rightarrow> bool" where
  as_skip: "i < length (as_sessions s) \<Longrightarrow> as_sessions s ! i = Todo (a # rest) \<Longrightarrow> as_lock s = None \<Longrightarrow> asset_exists (as_files s) a \<Longrightarrow>
     asset_step s (set_session i (Todo rest) s)"
| as_begin: "i < length (as_sessions s) \<Longrightarrow> as_sessions s ! i = Todo (a # rest) \<Longrightarrow> as_lock s = None \<Longrightarrow> \<not> asset_exists (as_files s) a \<Longrightarrow>
     asset_step s (set_session i (Copying a rest) (s\<lparr>as_lock := Some i\<rparr>))"
| as_progress: "i < length (as_sessions s) \<Longrightarrow> as_sessions s ! i = Copying a rest \<Longrightarrow>
     asset_step s (s\<lparr>as_files := (as_files s)(path_name a \<mapsto> Partial)\<rparr>)"
| as_done: "i < length (as_sessions s) \<Longrightarrow> as_sessions s ! i = Copying a rest \<Longrightarrow>
     asset_step s (set_session i (Todo rest) (s\<lparr>as_files := (as_files s)(path_name a \<mapsto> Copied a), as_lock := None\<rparr>))"
| as_fail: "i < length (as_sessions s) \<Longrightarrow> as_sessions s ! i = Copying a rest \<Longrightarrow>
     asset_step s (set_session i (AssetsFailed a) (s\<lparr>as_lock := None\<rparr>))"
| as_ready: "i < length (as_sessions s) \<Longrightarrow> as_sessions s ! i = Todo [] \<Longrightarrow> asset_step s (set_session i AssetsReady s)"

definition init_assets :: "(string \<Rightarrow> asset_file option) \<Rightarrow> string list list \<Rightarrow> asset_state" where
  "init_assets files requests = \<lparr>as_files = files, as_lock = None, as_sessions = map Todo requests\<rparr>"

section \<open>No session uses an incomplete asset\<close>

definition usable :: "(string \<Rightarrow> asset_file option) \<Rightarrow> string \<Rightarrow> bool" where
  "usable files a \<longleftrightarrow> asset_exists files a \<and> files (path_name a) \<noteq> Some Partial"

definition failed_session :: "asset_state \<Rightarrow> bool" where
  "failed_session s \<longleftrightarrow> (\<exists>j<length (as_sessions s). \<exists>a. as_sessions s ! j = AssetsFailed a)"

fun remaining :: "asset_session \<Rightarrow> string list" where
  "remaining (Todo as) = as"
| "remaining (Copying a as) = a # as"
| "remaining AssetsReady = []"
| "remaining (AssetsFailed a) = []"

text \<open>
  The lock belongs to the only copying session, an incomplete file is the one being copied, and the
  assets that a session has left behind are usable.
\<close>

definition session_ok :: "asset_state \<Rightarrow> string list \<Rightarrow> nat \<Rightarrow> bool" where
  "session_ok s request i \<longleftrightarrow>
     (as_lock s = Some i \<longleftrightarrow> (\<exists>a rest. as_sessions s ! i = Copying a rest))
     \<and> (\<forall>a rest. as_sessions s ! i = Copying a rest \<longrightarrow>
          path_name a \<notin> {[], ''..''} \<and> as_files s (path_name a) \<in> {None, Some Partial})
     \<and> (\<exists>left. request = left @ remaining (as_sessions s ! i) \<and> (\<forall>a\<in>set left. usable (as_files s) a))"

definition copied_name :: "asset_state \<Rightarrow> string \<Rightarrow> bool" where
  "copied_name s n \<longleftrightarrow> (\<exists>i<length (as_sessions s). \<exists>a rest. as_sessions s ! i = Copying a rest \<and> path_name a = n)"

definition asset_inv :: "string list list \<Rightarrow> asset_state \<Rightarrow> bool" where
  "asset_inv requests s \<longleftrightarrow> length (as_sessions s) = length requests
     \<and> (\<forall>i<length requests. session_ok s (requests ! i) i)
     \<and> (\<forall>n. as_files s n = Some Partial \<longrightarrow> copied_name s n)"

lemma usable_mono:
  assumes "usable files a" and "path_name b \<notin> {[], ''..''}" and "files (path_name b) \<in> {None, Some Partial}"
  shows "usable (files(path_name b \<mapsto> x)) a"
  using assms by (auto simp: usable_def asset_exists_def)

lemma unlocked_usable:
  assumes "asset_inv requests s" and "as_lock s = None" and "asset_exists (as_files s) a"
  shows "usable (as_files s) a"
proof -
  have "\<not> copied_name s n" for n using assms(1,2) by (auto simp: copied_name_def asset_inv_def session_ok_def)
  then show ?thesis using assms(1,3) by (auto simp: usable_def asset_inv_def)
qed

lemma failed_kept: "asset_step s t \<Longrightarrow> failed_session s \<Longrightarrow> failed_session t"
proof -
  assume step: "asset_step s t" and "failed_session s"
  then obtain j a where j: "j < length (as_sessions s)" "as_sessions s ! j = AssetsFailed a" by (auto simp: failed_session_def)
  from step j have "j < length (as_sessions t) \<and> as_sessions t ! j = AssetsFailed a"
    by induction (auto simp: set_session_def nth_list_update)
  then show ?thesis by (auto simp: failed_session_def)
qed

lemma lock_holder:
  assumes "asset_inv requests s" and "i < length requests" and "as_sessions s ! i = Copying a rest"
  shows "as_lock s = Some i" "path_name a \<notin> {[], ''..''}" "as_files s (path_name a) \<in> {None, Some Partial}"
  using assms unfolding asset_inv_def session_ok_def by blast+

lemma only_copy:
  assumes "asset_inv requests s" and "i < length requests" and "as_sessions s ! i = Copying a rest" and "copied_name s n"
  shows "n = path_name a"
proof -
  obtain j b rest' where j: "j < length requests" "as_sessions s ! j = Copying b rest'" "path_name b = n"
    using assms(1,4) by (auto simp: copied_name_def asset_inv_def)
  then have "j = i" using lock_holder(1) [OF assms(1) j(1,2)] lock_holder(1) [OF assms(1-3)] by simp
  with j assms(3) show ?thesis by simp
qed

lemma session_ok_file:
  assumes "session_ok s request j" and "path_name b \<notin> {[], ''..''}" and "as_files s (path_name b) \<in> {None, Some Partial}"
    and "as_sessions t ! j = as_sessions s ! j" and "as_files t = (as_files s)(path_name b \<mapsto> x)"
    and "as_lock t = Some j \<longleftrightarrow> as_lock s = Some j" and "x = Partial \<or> (\<forall>a rest. as_sessions s ! j \<noteq> Copying a rest)"
  shows "session_ok t request j"
  using assms usable_mono [of "as_files s" _ b x] unfolding session_ok_def by (auto split: if_splits)

lemma asset_step_inv:
  assumes "asset_step s t" and "asset_inv requests s" and "\<not> failed_session t"
  shows "asset_inv requests t"
  using assms
proof (induction rule: asset_step.induct)
  case (as_skip i s a rest)
  have len: "length (as_sessions s) = length requests" using as_skip.prems(1) by (simp add: asset_inv_def)
  have none: "\<not> copied_name s n" for n using as_skip by (auto simp: copied_name_def asset_inv_def session_ok_def)
  have "session_ok (set_session i (Todo rest) s) (requests ! j) j" if j: "j < length requests" for j
  proof (cases "j = i")
    case True
    have "session_ok s (requests ! i) i" using as_skip.prems(1) as_skip.hyps(1) by (auto simp: asset_inv_def)
    then obtain left where "requests ! i = left @ a # rest" "\<forall>x\<in>set left. usable (as_files s) x"
      using as_skip.hyps(2) by (auto simp: session_ok_def)
    then show ?thesis using unlocked_usable [OF as_skip.prems(1) as_skip.hyps(3,4)] as_skip.hyps True
      by (auto simp: session_ok_def set_session_def intro!: exI [of _ "left @ [a]"])
  qed (use as_skip j in \<open>auto simp: asset_inv_def session_ok_def set_session_def\<close>)
  then show ?case using as_skip.prems(1) none len by (auto simp: asset_inv_def set_session_def)
next
  case (as_begin i s a rest)
  have len: "length (as_sessions s) = length requests" using as_begin.prems(1) by (simp add: asset_inv_def)
  have none: "\<not> copied_name s n" for n using as_begin by (auto simp: copied_name_def asset_inv_def session_ok_def)
  have "session_ok (set_session i (Copying a rest) (s\<lparr>as_lock := Some i\<rparr>)) (requests ! j) j" if j: "j < length requests" for j
    using as_begin j by (cases "j = i") (auto simp: asset_inv_def session_ok_def set_session_def asset_exists_def)
  then show ?case using as_begin.prems(1) none len by (auto simp: asset_inv_def set_session_def)
next
  case (as_progress i s a rest)
  have i: "i < length requests" using as_progress by (simp add: asset_inv_def)
  note holder = lock_holder [OF as_progress.prems(1) i as_progress.hyps(2)]
  let ?t = "s\<lparr>as_files := (as_files s)(path_name a \<mapsto> Partial)\<rparr>"
  have "session_ok ?t (requests ! j) j" if "j < length requests" for j
    using as_progress.prems(1) that by (intro session_ok_file [of s _ j a ?t Partial]) (use holder in \<open>auto simp: asset_inv_def\<close>)
  moreover have "copied_name ?t n" if "as_files ?t n = Some Partial" for n
    using that as_progress by (cases "n = path_name a") (auto simp: copied_name_def asset_inv_def)
  ultimately show ?case using as_progress.prems(1) by (simp add: asset_inv_def)
next
  case (as_done i s a rest)
  have i: "i < length requests" using as_done by (simp add: asset_inv_def)
  note holder = lock_holder [OF as_done.prems(1) i as_done.hyps(2)]
  let ?t = "set_session i (Todo rest) (s\<lparr>as_files := (as_files s)(path_name a \<mapsto> Copied a), as_lock := None\<rparr>)"
  have "session_ok ?t (requests ! j) j" if j: "j < length requests" for j
  proof (cases "j = i")
    case True
    have "session_ok s (requests ! i) i" using as_done.prems(1) i by (auto simp: asset_inv_def)
    then obtain left where "requests ! i = left @ a # rest" "\<forall>x\<in>set left. usable (as_files s) x"
      using as_done.hyps(2) by (auto simp: session_ok_def)
    then show ?thesis using usable_mono [of "as_files s" _ a "Copied a"] holder(2,3) as_done.hyps True
      by (auto simp: session_ok_def set_session_def usable_def asset_exists_def intro!: exI [of _ "left @ [a]"])
  next
    case False
    then have "as_lock s \<noteq> Some j" using holder(1) by simp
    moreover have ok: "session_ok s (requests ! j) j" using as_done.prems(1) j by (auto simp: asset_inv_def)
    ultimately show ?thesis using False
      by (intro session_ok_file [OF ok, of a ?t "Copied a"]) (use holder in \<open>auto simp: set_session_def session_ok_def\<close>)
  qed
  moreover have "as_files ?t n \<noteq> Some Partial" for n
    using only_copy [OF as_done.prems(1) i as_done.hyps(2), of n] as_done.prems(1) by (auto simp: asset_inv_def set_session_def)
  ultimately show ?case using as_done.prems(1) by (auto simp: asset_inv_def set_session_def)
next
  case (as_fail i s a rest)
  then show ?case by (auto simp: failed_session_def set_session_def)
next
  case (as_ready i s)
  then show ?case by (fastforce simp: asset_inv_def session_ok_def copied_name_def set_session_def nth_list_update)
qed

lemma reached_assets:
  assumes "asset_step\<^sup>*\<^sup>* (init_assets files requests) s" and "\<And>n. files n \<noteq> Some Partial"
  shows "failed_session s \<or> asset_inv requests s"
  using assms(1)
proof (induction rule: rtranclp_induct)
  case base
  show ?case using assms(2) by (auto simp: asset_inv_def init_assets_def session_ok_def)
next
  case (step y z)
  then show ?case using asset_step_inv failed_kept by blast
qed

text \<open>
  C18. No session uses an incomplete asset. However the concurrent sessions of a worker interleave, as long
  as no copy has failed, a session that has finished its shared assets finds every one of them in the
  run directory, and none of these files is in the middle of a copy; and at most one session copies.
\<close>

theorem shared_assets_complete:
  assumes "asset_step\<^sup>*\<^sup>* (init_assets files requests) s" and "\<And>n. files n \<noteq> Some Partial" and "\<not> failed_session s"
    and "i < length requests"
  shows "(as_sessions s ! i = AssetsReady \<longrightarrow> (\<forall>a\<in>set (requests ! i). usable (as_files s) a))
    \<and> ((\<exists>a rest. as_sessions s ! i = Copying a rest) \<longrightarrow> as_lock s = Some i)"
proof -
  have "session_ok s (requests ! i) i" using reached_assets [OF assms(1,2)] assms(3,4) by (auto simp: asset_inv_def)
  then show ?thesis by (auto simp: session_ok_def)
qed

text \<open>
  C19. A failed copy poisons its asset. When the copy of an asset fails after a part of it was written, the
  session ends with an error, but the incomplete file stays, and the next session that asks for the same
  asset finds it present, skips the copy and starts its child with the incomplete file.
\<close>

theorem failed_copy_poisons:
  assumes "path_name a \<notin> {[], ''..''}"
  shows "\<exists>s. asset_step\<^sup>*\<^sup>* (init_assets Map.empty [[a], [a]]) s \<and> as_sessions s = [AssetsFailed a, AssetsReady]
    \<and> as_files s (path_name a) = Some Partial \<and> \<not> usable (as_files s) a"
proof -
  let ?s0 = "init_assets Map.empty [[a], [a]]"
  let ?s1 = "set_session 0 (Copying a []) (?s0\<lparr>as_lock := Some 0\<rparr>)"
  let ?s2 = "?s1\<lparr>as_files := (as_files ?s1)(path_name a \<mapsto> Partial)\<rparr>"
  let ?s3 = "set_session 0 (AssetsFailed a) (?s2\<lparr>as_lock := None\<rparr>)"
  let ?s4 = "set_session 1 (Todo []) ?s3" and ?s5 = "set_session 1 AssetsReady (set_session 1 (Todo []) ?s3)"
  have "asset_step ?s0 ?s1" using assms by (intro as_begin) (auto simp: init_assets_def asset_exists_def)
  moreover have "asset_step ?s1 ?s2" by (rule as_progress [of 0 _ _ "[]"]) (simp_all add: set_session_def init_assets_def)
  moreover have "asset_step ?s2 ?s3" by (rule as_fail [of 0 _ _ "[]"]) (simp_all add: set_session_def init_assets_def)
  moreover have "asset_step ?s3 ?s4" by (rule as_skip [of 1 _ a]) (simp_all add: set_session_def init_assets_def asset_exists_def)
  moreover have "asset_step ?s4 ?s5" by (rule as_ready) (simp_all add: set_session_def init_assets_def)
  ultimately have "asset_step\<^sup>*\<^sup>* ?s0 ?s5" by (meson rtranclp.rtrancl_refl rtranclp.rtrancl_into_rtrancl)
  then show ?thesis by (intro exI [of _ ?s5]) (simp add: set_session_def init_assets_def usable_def)
qed

theorem failed_copy_poisons_witness:
  "\<exists>s. asset_step\<^sup>*\<^sup>* (init_assets Map.empty [[''/data/input.bin''], [''/data/input.bin'']]) s
    \<and> as_sessions s = [AssetsFailed ''/data/input.bin'', AssetsReady] \<and> as_files s ''input.bin'' = Some Partial"
proof -
  have "path_name ''/data/input.bin'' = ''input.bin''" by (simp add: path_name_def)
  then show ?thesis using failed_copy_poisons [of "''/data/input.bin''"] by auto
qed

theorem shared_assets_complete_witness:
  "\<exists>s. asset_step\<^sup>*\<^sup>* (init_assets Map.empty [[''/data/input.bin'']]) s \<and> as_sessions s = [AssetsReady]
    \<and> usable (as_files s) ''/data/input.bin''"
proof -
  let ?a = "''/data/input.bin''"
  have name: "path_name ?a = ''input.bin''" by (simp add: path_name_def)
  let ?s0 = "init_assets Map.empty [[?a]]"
  let ?s1 = "set_session 0 (Copying ?a []) (?s0\<lparr>as_lock := Some 0\<rparr>)"
  let ?s2 = "set_session 0 (Todo []) (?s1\<lparr>as_files := (as_files ?s1)(path_name ?a \<mapsto> Copied ?a), as_lock := None\<rparr>)"
  let ?s3 = "set_session 0 AssetsReady ?s2"
  have "asset_step ?s0 ?s1" by (rule as_begin) (simp_all add: init_assets_def asset_exists_def name)
  moreover have "asset_step ?s1 ?s2" by (rule as_done) (simp_all add: set_session_def init_assets_def)
  moreover have "asset_step ?s2 ?s3" by (rule as_ready) (simp_all add: set_session_def init_assets_def)
  ultimately have r: "asset_step\<^sup>*\<^sup>* ?s0 ?s3" by (meson rtranclp.rtrancl_refl rtranclp.rtrancl_into_rtrancl)
  have s3: "as_sessions ?s3 = [AssetsReady]" by (simp add: set_session_def init_assets_def)
  then have "\<not> failed_session ?s3" by (simp add: failed_session_def)
  from shared_assets_complete [OF r _ this, of 0] s3 have "usable (as_files ?s3) ?a" by simp
  with r s3 show ?thesis by blast
qed

section \<open>Connecting ends\<close>

lemma connect_worker_ends:
  assumes "ready_timeout environ = Inr timeout_seconds" and "cw_started w + of_int timeout_seconds \<le> cw_test_time w k"
  shows "\<exists>r. connect_worker environ w worker_address = Some r"
  using poll_loop_ends [of "\<lambda>i. cw_test_time w i < cw_started w + of_int timeout_seconds" k 0 "connect_body w" None] assms
  by (auto simp: connect_worker_def)

lemma connect_first:
  assumes "\<And>i. i \<le> k \<Longrightarrow> test i" and "cw_accepts w k" and "\<And>i. i < k \<Longrightarrow> \<not> cw_accepts w i" and "j \<le> k"
  shows "poll_loop test (connect_body w) j None = Some (False, Some k)"
  using assms(4)
proof (induction "k - j" arbitrary: j)
  case 0
  then show ?case using assms(1,2) by (simp add: poll_loop.simps [of _ _ j] connect_body_def)
next
  case (Suc n)
  then have "poll_loop test (connect_body w) (Suc j) None = Some (False, Some k)" "j < k" by auto
  then show ?case using assms(1) [of j] assms(3) [of j] by (simp add: poll_loop.simps [of _ _ j] connect_body_def)
qed

text \<open>A worker that starts to accept before the deadline is reached by the first attempt after that.\<close>

lemma connect_worker_reaches:
  assumes "ready_timeout environ = Inr timeout_seconds" and "cw_accepts w k" and "\<And>i. i < k \<Longrightarrow> \<not> cw_accepts w i"
    and "\<And>i. i \<le> k \<Longrightarrow> cw_test_time w i < cw_started w + of_int timeout_seconds"
  shows "connect_worker environ w worker_address = Some (Inr k)"
  using connect_first [of k "\<lambda>i. cw_test_time w i < cw_started w + of_int timeout_seconds" w 0] assms
  by (simp add: connect_worker_def)

section \<open>From the proxy to the child\<close>

lemma local_gateway_resolved:
  assumes "request_environment cd worker_environ request = Inr env0"
    and "resolve_endpoint resolve ''LEGOSIM_FIFO_BROKER'' env0 = Inr env1" and "resolve_endpoint resolve ''LEGOSIM_PIPE_GATEWAY'' env1 = Inr env2"
    and "map_of worker_environ ''LEGOSIM_PIPE_GATEWAY'' = Some gateway" and "rsplit1 (CHR '':'') gateway = [gateway_host, gateway_port]"
    and "resolve gateway_host = Some ip"
  shows "map_of env2 ''LEGOSIM_PIPE_GATEWAY'' = Some (ip @ '':'' @ gateway_port) \<and> map_of env2 ''LEGOSIM_FIFO_BROKER'' = Some (ip @ '':'' @ gateway_port)"
proof -
  have "gateway \<noteq> []" using assms(5) by (auto simp: rsplit1_def rpartition_at_def)
  with assms(1,4) have e0: "map_of env0 ''LEGOSIM_PIPE_GATEWAY'' = Some gateway" "map_of env0 ''LEGOSIM_FIFO_BROKER'' = Some gateway"
    by (auto simp: request_environment_def dict_get_def map_of_update Let_def split: json.splits)
  have e1: "env1 = AList.update ''LEGOSIM_FIFO_BROKER'' (ip @ '':'' @ gateway_port) env0"
    using assms(2,5,6) e0 \<open>gateway \<noteq> []\<close> by (simp add: resolve_endpoint_def dict_get_def)
  then have "env2 = AList.update ''LEGOSIM_PIPE_GATEWAY'' (ip @ '':'' @ gateway_port) env1"
    using assms(3,5,6) e0 \<open>gateway \<noteq> []\<close> by (simp add: resolve_endpoint_def dict_get_def map_of_update)
  with e1 show ?thesis by (simp add: map_of_update)
qed

text \<open>The limits that a proxy asks for, as lines of the configuration of the simulator.\<close>

definition limit_lines :: "proxy_arguments \<Rightarrow> string list" where
  "limit_lines a =
     (case pa_max_completed_cta a of None \<Rightarrow> [] | Some m \<Rightarrow> [''-gpgpu_max_completed_cta '' @ str_int m])
     @ (case pa_max_instructions a of None \<Rightarrow> [] | Some m \<Rightarrow> [''-gpgpu_max_insn '' @ str_int m])"

lemma rstrip_number: "rstrip (s @ str_int m @ [newline]) = s @ str_int m"
proof -
  obtain sign where str: "str_int m = sign @ show_nat (nat \<bar>m\<bar>)" by (cases "m < 0") (auto simp: str_int_def)
  obtain d ds where d: "rev (show_nat (nat \<bar>m\<bar>)) = d # ds" using show_nat_digits [of "nat \<bar>m\<bar>"] by (cases "rev (show_nat (nat \<bar>m\<bar>))") auto
  have "d \<in> set (show_nat (nat \<bar>m\<bar>))" using arg_cong [OF d, of set] by simp
  then have "is_digit d" using show_nat_digits [of "nat \<bar>m\<bar>"] by (auto simp: list_all_iff)
  then have "\<not> is_strip_space d" by (auto simp: is_digit_def is_strip_space_def)
  moreover have "is_strip_space newline" by (simp add: is_strip_space_def newline_def)
  moreover have "rev ds @ [d] = show_nat (nat \<bar>m\<bar>)" using arg_cong [OF d, of rev] by simp
  ultimately show ?thesis by (simp add: rstrip_def str d)
qed

lemma number_without_backslash: "backslash \<notin> set (str_int m)"
proof -
  have "\<not> is_digit backslash" "backslash \<noteq> CHR ''-''" by (simp_all add: is_digit_def backslash_def)
  then show ?thesis using show_nat_digits [of "nat \<bar>m\<bar>"] by (auto simp: str_int_def list_all_iff)
qed

lemma rstrip_subset: "set (rstrip s) \<subseteq> set s"
  using set_dropWhileD [of _ is_strip_space "rev s"] by (auto simp: rstrip_def)

lemma limits_in_config:
  assumes "backslash \<notin> set config" and "limit_lines a \<noteq> []"
  shows "set_gpgpu_test_limits (Some config) (pa_max_completed_cta a) (pa_max_instructions a)
    = Inr (rstrip config @ concat (map (Cons newline) (limit_lines a)) @ [newline])"
proof -
  have one: "apply_limit opt (Some m) c = Inr (rstrip c @ newline # opt @ '' '' @ str_int m @ [newline])" if "backslash \<notin> set c" for opt m c
    using apply_limit_plain [OF that] .
  have none: "apply_limit opt None c = Inr c" for opt c by (simp add: apply_limit_def)
  show ?thesis
  proof (cases "pa_max_completed_cta a")
    case None
    then show ?thesis using assms one [OF assms(1)] by (cases "pa_max_instructions a") (simp_all add: set_gpgpu_test_limits_def none limit_lines_def)
  next
    case (Some m)
    let ?c = "(rstrip config @ newline # ''-gpgpu_max_completed_cta'' @ '' '') @ str_int m @ [newline]"
    have "backslash \<notin> set (rstrip config)" using assms(1) rstrip_subset by blast
    moreover have "backslash \<noteq> newline" "backslash \<notin> set (''-gpgpu_max_completed_cta'' @ '' '')" by (simp_all add: backslash_def newline_def)
    ultimately have "backslash \<notin> set ?c" using number_without_backslash by auto
    from one [OF this] one [OF assms(1), of "''-gpgpu_max_completed_cta''" m] Some show ?thesis unfolding rstrip_number
      by (cases "pa_max_instructions a") (simp_all add: set_gpgpu_test_limits_def none limit_lines_def)
  qed
qed

text \<open>
  C17. The child of a proxied command is the command of the workload on its own worker. When the worker
  accepts the request line of a proxy and prepares it, the words that its launch shell executes are exactly the
  command and the arguments given to the proxy, the process id is a plain directory name, both pipe variables of the child name
  the resolved router of this worker, whatever the environment of the coordinator says, and the
  simulator configuration in its directory carries the limits of the proxy: without limits it is the file that the
  staging and \<open>pre_copy\<close> left there, and with limits that file was there and ends with the lines of the limits, whatever it set
  before (on files without a backslash, as the pattern is written with literal ones).
\<close>

theorem proxied_command_launched:
  assumes "proxy_request environ read_file a = Inr (host, port, frame)" and "reads_back cd frame"
    and "worker_request cd worker_environ resolve (json_line cd frame) = Inr sp" and "prepare_child w workdir sp = Inr la"
    and "map_of worker_environ ''LEGOSIM_PIPE_GATEWAY'' = Some gateway" and "rsplit1 (CHR '':'') gateway = [gateway_host, gateway_port]"
    and "resolve gateway_host = Some ip"
  shows "child_words (la_words la) = pa_command a # pa_args a \<and> sp_process_id sp = pa_process_id a \<and> safe_process_id (pa_process_id a)
    \<and> map_of (sp_environment sp) ''LEGOSIM_PIPE_GATEWAY'' = Some (ip @ '':'' @ gateway_port)
    \<and> map_of (sp_environment sp) ''LEGOSIM_FIFO_BROKER'' = Some (ip @ '':'' @ gateway_port)
    \<and> map_of (la_files la) ''launch-diagnostic.json'' = Some (la_diagnostic la @ [newline])
    \<and> (\<exists>staged copied. stage_files (sp_staged_files sp) = Inr staged \<and> pre_copy_files w (pa_pre_copy a) staged = Inr copied
        \<and> (limit_lines a = [] \<longrightarrow> map_of (la_files la) ''gpgpusim.config'' = map_of copied ''gpgpusim.config'')
        \<and> (limit_lines a \<noteq> [] \<longrightarrow> (\<exists>config. map_of copied ''gpgpusim.config'' = Some config
             \<and> (backslash \<notin> set config \<longrightarrow> map_of (la_files la) ''gpgpusim.config''
                  = Some (rstrip config @ concat (map (Cons newline) (limit_lines a)) @ [newline])))))"
proof -
  have parsed: "parse_spawn cd worker_environ resolve frame = Inr sp"
    using worker_request_line [OF assms(2)] assms(3) by (simp split: if_splits)
  obtain staged where frame: "frame = spawn_frame environ a staged" using proxy_request_frame [OF assms(1)] by blast
  have limit: "positive_limit d n = Inr v \<Longrightarrow> jget d n = json_limit x \<Longrightarrow> v = x" for d n v x
    by (auto simp: positive_limit_def json_limit_def split: option.splits json.splits if_splits)
  obtain env0 env1 env2 where env: "request_environment cd worker_environ frame = Inr env0"
    "resolve_endpoint resolve ''LEGOSIM_FIFO_BROKER'' env0 = Inr env1" "resolve_endpoint resolve ''LEGOSIM_PIPE_GATEWAY'' env1 = Inr env2"
    "sp_environment sp = env2" "sp_command sp = pa_command a" "sp_arguments sp = pa_args a" "sp_process_id sp = pa_process_id a"
    "safe_process_id (pa_process_id a)" "positive_limit frame ''gpgpu_max_completed_cta'' = Inr (sp_max_completed_cta sp)"
    "positive_limit frame ''gpgpu_max_instructions'' = Inr (sp_max_instructions sp)" "sp_pre_copy sp = pa_pre_copy a"
    using parsed unfolding parse_spawn_def
    by (auto simp: bindE_eq_Inr frame spawn_frame_def dict_item_def dict_get_def comp_def split: if_splits)
  have limits: "sp_max_completed_cta sp = pa_max_completed_cta a" "sp_max_instructions sp = pa_max_instructions a"
    using limit [OF env(9)] limit [OF env(10)] by (auto simp: frame spawn_frame_def jget_def dict_get_def)
  obtain files copied fs where prepared: "stage_files (sp_staged_files sp) = Inr files" "pre_copy_files w (pa_pre_copy a) files = Inr copied"
    "limit_files sp copied = Inr fs" "la_files la = AList.update ''launch-diagnostic.json'' (la_diagnostic la @ [newline]) fs"
    "la_words la = launch_words workdir sp"
    using assms(4) by (auto simp: prepare_child_def bindE_eq_Inr Let_def env(11))
  have config: "map_of (la_files la) ''gpgpusim.config'' = map_of fs ''gpgpusim.config''" by (simp add: prepared(4) map_of_update)
  have "\<exists>staged copied. stage_files (sp_staged_files sp) = Inr staged \<and> pre_copy_files w (pa_pre_copy a) staged = Inr copied
      \<and> (limit_lines a = [] \<longrightarrow> map_of (la_files la) ''gpgpusim.config'' = map_of copied ''gpgpusim.config'')
      \<and> (limit_lines a \<noteq> [] \<longrightarrow> (\<exists>config. map_of copied ''gpgpusim.config'' = Some config
           \<and> (backslash \<notin> set config \<longrightarrow> map_of (la_files la) ''gpgpusim.config''
                = Some (rstrip config @ concat (map (Cons newline) (limit_lines a)) @ [newline]))))"
  proof (rule exI [of _ files], rule exI [of _ copied], intro conjI impI)
    show "map_of (la_files la) ''gpgpusim.config'' = map_of copied ''gpgpusim.config''" if "limit_lines a = []"
      using prepared(3) config that by (auto simp: limit_files_def limits limit_lines_def split: option.splits)
    show "\<exists>config. map_of copied ''gpgpusim.config'' = Some config \<and> (backslash \<notin> set config \<longrightarrow>
        map_of (la_files la) ''gpgpusim.config'' = Some (rstrip config @ concat (map (Cons newline) (limit_lines a)) @ [newline]))"
      if some: "limit_lines a \<noteq> []"
    proof -
      have "\<not> (sp_max_completed_cta sp = None \<and> sp_max_instructions sp = None)" using some by (auto simp: limits limit_lines_def)
      then obtain content where content: "set_gpgpu_test_limits (map_of copied ''gpgpusim.config'') (pa_max_completed_cta a) (pa_max_instructions a) = Inr content"
        "fs = AList.update ''gpgpusim.config'' content copied"
        using prepared(3) by (auto simp: limit_files_def limits bindE_eq_Inr)
      then obtain c where c: "map_of copied ''gpgpusim.config'' = Some c" by (auto simp: set_gpgpu_test_limits_def split: option.splits)
      with content config limits_in_config [OF _ some, of c] show ?thesis by (auto simp: map_of_update)
    qed
  qed (fact prepared)+
  then show ?thesis using local_gateway_resolved [OF env(1-3) assms(5-7)] env(4-8) prepared(4,5)
    by (simp add: launch_words_def child_words_def map_of_update)
qed

definition demo_proxy :: proxy_arguments where
  "demo_proxy = \<lparr>pa_worker = ''worker-0:9300'', pa_process_id = ''p0'', pa_pre_copy = ''conf'', pa_shared_asset = [], pa_stage_file = [],
     pa_max_completed_cta = None, pa_max_instructions = Some 5, pa_command = ''/opt/cpu'', pa_args = [''0'', ''1'']\<rparr>"

definition demo_launch :: launch_world where
  "demo_launch = \<lparr>lw_assets = \<lambda>_. Inr (), lw_pre_copy = \<lambda>_ _. Some [(''gpgpusim.config'', ''-gpgpu_max_insn 0'')], lw_ldd = \<lambda>_. (0, []), lw_dumps = \<lambda>_. ''{}''\<rparr>"

definition spawn_codec :: codec where
  "spawn_codec = \<lparr>cd_loads = (\<lambda>_. Inr (JObj (spawn_frame [] demo_proxy []))), cd_str = (\<lambda>_. []), cd_dumps = (\<lambda>_. ''{s}'')\<rparr>"

theorem proxied_command_launched_witness:
  "\<exists>frame sp la. proxy_request [] (\<lambda>_. None) demo_proxy = Inr (''worker-0'', 9300, frame)
    \<and> worker_request spawn_codec [(''LEGOSIM_PIPE_GATEWAY'', ''localhost:9400'')] (\<lambda>_. Some ''127.0.0.1'') (json_line spawn_codec frame) = Inr sp
    \<and> prepare_child demo_launch ''/run/p0'' sp = Inr la \<and> child_words (la_words la) = [''/opt/cpu'', ''0'', ''1'']
    \<and> map_of (sp_environment sp) ''LEGOSIM_PIPE_GATEWAY'' = Some ''127.0.0.1:9400''
    \<and> map_of (la_files la) ''gpgpusim.config'' = Some (''-gpgpu_max_insn 0'' @ [newline] @ ''-gpgpu_max_insn 5'' @ [newline])"
proof -
  let ?environ = "[(''LEGOSIM_PIPE_GATEWAY'', ''localhost:9400'')]" and ?resolve = "\<lambda>_ :: string. Some ''127.0.0.1''"
  have split: "rsplit1 (CHR '':'') ''localhost:9400'' = [''localhost'', ''9400'']" "rsplit1 (CHR '':'') ''worker-0:9300'' = [''worker-0'', ''9300'']"
    by (simp_all add: rsplit1_def rpartition_at_def)
  have "int_text ''9300'' = Inr 9300" by (simp add: text_eval)
  then have req: "proxy_request [] (\<lambda>_. None) demo_proxy = Inr (''worker-0'', 9300, spawn_frame [] demo_proxy [])" (is "_ = Inr (_, _, ?frame)")
    by (simp add: proxy_request_def demo_proxy_def split)
  have reads: "reads_back spawn_codec ?frame" "fits_line spawn_codec ?frame"
    by (simp_all add: spawn_codec_def reads_back_def fits_line_def is_ascii_def newline_def stream_limit_def)
  have "\<exists>sp. parse_spawn spawn_codec ?environ ?resolve ?frame = Inr sp \<and> sp_staged_files sp = [] \<and> sp_pre_copy sp = ''conf''
      \<and> sp_max_completed_cta sp = None \<and> sp_max_instructions sp = Some 5"
    by (simp add: parse_spawn_def spawn_frame_def demo_proxy_def jget_def dict_get_def dict_item_def request_environment_def
        child_environment_def forwarded_variables_def resolve_endpoint_def split positive_limit_def json_limit_def asset_list_def
        staged_list_def safe_process_id_def Let_def)
  then obtain sp where sp: "worker_request spawn_codec ?environ ?resolve (json_line spawn_codec ?frame) = Inr sp" "sp_staged_files sp = []"
    "sp_pre_copy sp = ''conf''" "sp_max_completed_cta sp = None" "sp_max_instructions sp = Some 5"
    using receive_object_line [OF reads] by (auto simp: worker_request_def)
  have config: "set_gpgpu_test_limits (Some ''-gpgpu_max_insn 0'') None (Some 5) = Inr (''-gpgpu_max_insn 0'' @ [newline] @ ''-gpgpu_max_insn 5'' @ [newline])"
    using gpgpu_limit_always_appended [of "''-gpgpu_max_insn 0''" 5] by (simp add: backslash_def rstrip_def is_strip_space_def text_eval)
  with sp have "\<exists>la. prepare_child demo_launch ''/run/p0'' sp = Inr la"
    by (simp add: prepare_child_def stage_files_def demo_launch_def pre_copy_files_def limit_files_def Let_def)
  then obtain la where la: "prepare_child demo_launch ''/run/p0'' sp = Inr la" by blast
  have lines: "limit_lines demo_proxy = [''-gpgpu_max_insn 5'']" by (simp add: limit_lines_def demo_proxy_def text_eval)
  have "backslash \<notin> set ''-gpgpu_max_insn 0''" "rstrip ''-gpgpu_max_insn 0'' = ''-gpgpu_max_insn 0''"
    by (simp_all add: backslash_def rstrip_def is_strip_space_def)
  moreover have "pre_copy_files demo_launch (pa_pre_copy demo_proxy) files = Inr [(''gpgpusim.config'', ''-gpgpu_max_insn 0'')]" for files
    by (simp add: pre_copy_files_def demo_launch_def demo_proxy_def)
  ultimately have "map_of (la_files la) ''gpgpusim.config'' = Some (''-gpgpu_max_insn 0'' @ [newline] @ ''-gpgpu_max_insn 5'' @ [newline])"
    "child_words (la_words la) = pa_command demo_proxy # pa_args demo_proxy"
    "map_of (sp_environment sp) ''LEGOSIM_PIPE_GATEWAY'' = Some (''127.0.0.1'' @ '':'' @ ''9400'')"
    using proxied_command_launched [OF req reads(1) sp(1) la _ split(1)] lines by auto
  with req sp(1) la show ?thesis by (auto simp: demo_proxy_def)
qed

end
