(* ===== verification/FunctionalMatrix.thy ===== *)
theory FunctionalMatrix
  imports MlpDpRuns
begin

text \<open>
  The whole run of one placement of the functional start-up matrix and the matrix itself
  (\<open>run_point\<close> and \<open>main\<close> of \<open>scripts/run_remote_functional_matrix.py\<close>): the uploaded files, the deployment, the
  polling loop of \<open>RemoteMatrix\<close>, the observation period, the two elapsed times, the kept logs and the removal
  of the stack. The commands on the manager are parameters.
\<close>

section \<open>Definitions\<close>

definition functional_stack :: "string \<Rightarrow> nat \<Rightarrow> string" where
  "functional_stack workload node_count = ''chipsystemsim_'' @ workload @ ''_functional_'' @ show_nat node_count"

definition functional_directory :: "string \<Rightarrow> string" where
  "functional_directory stack = ''/home/legosim/functional-matrix/'' @ stack"

text \<open>
  What the runner sees: whether the output directory exists, the generated files and the parsed stack
  file, the two removals, the deployment, the clock at its start, the rounds of the polling loop, the
  clock during the observation, the clock after it and after the download, and the logs of the services.
\<close>

record point_environment =
  pe_exists :: bool
  pe_source :: "string \<Rightarrow> string option"
  pe_stack :: "jobj res"
  pe_removal_before :: "rat \<times> (nat \<Rightarrow> removal_poll)"
  pe_deploy :: "int \<times> string"
  pe_started :: rat
  pe_polls :: "nat \<Rightarrow> functional_poll"
  pe_observed_from :: rat
  pe_observation :: "nat \<Rightarrow> rat"
  pe_measured :: rat
  pe_collected :: rat
  pe_logs :: "string \<Rightarrow> string"
  pe_removal_after :: "rat \<times> (nat \<Rightarrow> removal_poll)"

definition put_file :: "point_environment \<Rightarrow> string \<Rightarrow> string \<Rightarrow> (string \<times> string) res" where
  "put_file e remote_directory name =
     (case pe_source e name of
        None \<Rightarrow> Inl (FileNotFoundError name) | Some content \<Rightarrow> Inr (remote_directory @ ''/'' @ name, content))"

definition upload_point :: "(jobj \<Rightarrow> string) \<Rightarrow> point_environment \<Rightarrow> string \<Rightarrow> string \<Rightarrow> (string, string) dict res" where
  "upload_point dumps e remote_directory img =
     bindE (mapE (put_file e remote_directory) [''workload.yml'', ''topology.json'', ''routing.json'']) (\<lambda>files.
     bindE (bindE (pe_stack e) (\<lambda>stack. rewrite_stack stack remote_directory img)) (\<lambda>stack.
       Inr (files @ [(remote_directory @ ''/stack.yml'', dumps stack)])))"

record point_result =
  px_result :: functional_result
  px_measurement :: "rat option"
  px_collection :: "rat option"
  px_logs :: "(string, string) dict"

text \<open>The observation period after a successful start.\<close>

definition observe :: "point_environment \<Rightarrow> int \<Rightarrow> functional_result \<Rightarrow> unit option" where
  "observe e observation_seconds r =
     (if fr_status r = ''functional-ok'' \<and> observation_seconds \<noteq> 0
      then map_option (\<lambda>_. ()) (poll_loop (\<lambda>i. pe_observation e i < pe_observed_from e + of_int observation_seconds) (\<lambda>_ s. Inr s) 0 ())
      else Some ())"

definition run_functional_point ::
  "(jobj \<Rightarrow> string) \<Rightarrow> string \<Rightarrow> nat \<Rightarrow> int \<Rightarrow> int \<Rightarrow> string \<Rightarrow> point_environment \<Rightarrow> point_result res option" where
  "run_functional_point dumps workload node_count timeout_seconds observation_seconds img e =
     (let stack = functional_stack workload node_count
      in if pe_exists e then Some (Inl (FileExistsError stack))
         else thenE (Some (upload_point dumps e (functional_directory stack) img)) (\<lambda>_.
              thenE (removal (pe_removal_before e) stack) (\<lambda>_.
              Option.bind (run_point workload node_count timeout_seconds (pe_started e) (fst (pe_deploy e)) (pe_polls e)) (\<lambda>r.
                if fst (pe_deploy e) \<noteq> 0
                then Some (Inr \<lparr>px_result = r, px_measurement = None, px_collection = None, px_logs = [(''deployment'', snd (pe_deploy e))]\<rparr>)
                else Option.bind (observe e observation_seconds r) (\<lambda>_.
                     thenE (removal (pe_removal_after e) stack) (\<lambda>_.
                       Some (Inr \<lparr>px_result = r, px_measurement = Some (round3 (pe_measured e - pe_started e)),
                         px_collection = Some (round3 (pe_collected e - pe_started e)),
                         px_logs = (''deployment'', snd (pe_deploy e)) # map (\<lambda>service. (service, pe_logs e service)) (service_names node_count)\<rparr>)))))))"

record functional_arguments =
  fa_image :: string
  fa_nodes :: "nat list"
  fa_workloads :: "string list"
  fa_timeout_seconds :: int
  fa_observation_seconds :: int

definition functional_matrix ::
  "(jobj \<Rightarrow> string) \<Rightarrow> (string \<Rightarrow> nat \<Rightarrow> point_environment) \<Rightarrow> functional_arguments \<Rightarrow> point_result list res option" where
  "functional_matrix dumps world a =
     mapM (\<lambda>(workload, node_count). run_functional_point dumps workload node_count (fa_timeout_seconds a) (fa_observation_seconds a)
         (fa_image a) (world workload node_count))
       (concat (map (\<lambda>workload. map (Pair workload) (fa_nodes a)) (fa_workloads a)))"

section \<open>Times are ordered\<close>

text \<open>The readings that the program makes are in the order of the program.\<close>

definition point_clock :: "int \<Rightarrow> int \<Rightarrow> point_environment \<Rightarrow> bool" where
  "point_clock timeout_seconds observation_seconds e \<longleftrightarrow>
     (\<forall>i. fp_test_time (pe_polls e i) < pe_started e + of_int timeout_seconds \<longrightarrow>
        pe_started e \<le> fp_elapsed_time (pe_polls e i) \<and> fp_elapsed_time (pe_polls e i) \<le> pe_observed_from e)
     \<and> pe_started e \<le> pe_observed_from e \<and> pe_observed_from e \<le> pe_measured e \<and> pe_measured e \<le> pe_collected e
     \<and> (\<forall>i. (\<forall>j<i. pe_observation e j < pe_observed_from e + of_int observation_seconds) \<longrightarrow> pe_observation e i \<le> pe_measured e)"

definition time_at_most :: "rat \<Rightarrow> rat option \<Rightarrow> bool" where
  "time_at_most bound x = (case x of None \<Rightarrow> True | Some t \<Rightarrow> 0 \<le> t \<and> t \<le> bound)"

definition times_at_most :: "rat \<Rightarrow> functional_result \<Rightarrow> bool" where
  "times_at_most bound r \<longleftrightarrow> time_at_most bound (fr_ready r) \<and> time_at_most bound (fr_all_phase1_started r)
     \<and> time_at_most bound (fr_first_command r)"

lemma first_time_at_most: "time_at_most bound x \<Longrightarrow> 0 \<le> t \<Longrightarrow> t \<le> bound \<Longrightarrow> time_at_most bound (first_time x b t)"
  by (simp add: time_at_most_def first_time_def)

lemma functional_round_at_most:
  assumes "times_at_most (round3 (finish - started)) r" and "started \<le> fp_elapsed_time p" and "fp_elapsed_time p \<le> finish"
  shows "times_at_most (round3 (finish - started)) (functional_round workload n started p r)"
  using assms round3_nonneg [of "fp_elapsed_time p - started"] round3_mono [of "fp_elapsed_time p - started" "finish - started"]
  by (simp add: functional_round_def times_at_most_def Let_def first_time_at_most)

definition bounded_head :: "rat \<Rightarrow> rat \<Rightarrow> (nat \<Rightarrow> functional_poll) \<Rightarrow> rat \<Rightarrow> functional_result \<Rightarrow> bool" where
  "bounded_head started finish polls deadline r \<longleftrightarrow> times_at_most (round3 (finish - started)) r \<and> fr_status r = ''timeout''
     \<and> (\<forall>i. fp_test_time (polls i) < deadline \<longrightarrow> started \<le> fp_elapsed_time (polls i) \<and> fp_elapsed_time (polls i) \<le> finish)"

definition bounded_result :: "rat \<Rightarrow> functional_result \<Rightarrow> bool" where
  "bounded_result bound r \<longleftrightarrow> times_at_most bound r \<and> (fr_status r = ''timeout''
     \<or> fr_status r = ''functional-ok'' \<and> fr_all_phase1_started r \<noteq> None \<and> fr_first_command r \<noteq> None)"

interpretation bounded: polled "\<lambda>i. fp_test_time (polls i) < deadline" "\<lambda>i. functional_body workload n started (polls i)"
  "\<lambda>_. bounded_head started finish polls deadline" "\<lambda>_. bounded_result (round3 (finish - started))"
  for polls deadline workload n started finish
proof (unfold_locales, goal_cases)
  case (1 i r t)
  then show ?case using functional_round_at_most [of finish started r "polls i" workload n]
    by (auto simp: bounded_head_def functional_body_def Let_def functional_round_def split: if_splits)
next
  case (2 i r t)
  then show ?case using functional_round_at_most [of finish started r "polls i" workload n]
    by (auto simp: bounded_head_def bounded_result_def functional_body_def times_at_most_def Let_def split: if_splits)
qed (simp add: bounded_head_def bounded_result_def)

lemma run_point_bounded:
  assumes "run_point workload n timeout_seconds started 0 polls = Some r"
    and "\<And>i. fp_test_time (polls i) < started + of_int timeout_seconds \<Longrightarrow> started \<le> fp_elapsed_time (polls i) \<and> fp_elapsed_time (polls i) \<le> finish"
  shows "bounded_result (round3 (finish - started)) r"
proof -
  have "bounded_head started finish polls (started + of_int timeout_seconds) (init_functional 0)"
    using assms(2) by (auto simp: bounded_head_def init_functional_def times_at_most_def time_at_most_def)
  then show ?thesis using assms(1) bounded.loop_post by (fastforce simp: run_point_def)
qed

lemma observe_waits:
  assumes "observe e observation_seconds r = Some ()" and "fr_status r = ''functional-ok''" and "point_clock timeout_seconds observation_seconds e"
    and "0 < observation_seconds"
  shows "pe_observed_from e + of_int observation_seconds \<le> pe_measured e"
proof -
  let ?test = "\<lambda>i. pe_observation e i < pe_observed_from e + of_int observation_seconds"
  have ends: "\<exists>k. \<not> ?test k \<and> (\<forall>j. i \<le> j \<and> j < k \<longrightarrow> ?test j) \<and> i \<le> k" if "poll_loop ?test (\<lambda>_ s. Inr s) i () = Some m" for i m
  proof (cases "\<forall>j\<ge>i. ?test j")
    case True
    have "poll_loop ?test (\<lambda>_ s. Inr s) i () = Some m \<longrightarrow> \<not> (\<forall>j\<ge>i. ?test j)" for i m
      using poll_loop_invariant [of ?test "\<lambda>_ s. Inr s" i "()" m "\<lambda>k _. k \<ge> i \<and> (\<forall>j\<ge>i. ?test j)" "\<lambda>_ _. False"] by auto
    with True that show ?thesis by blast
  next
    case False
    then have ex: "\<exists>j. i \<le> j \<and> \<not> ?test j" by blast
    let ?k = "LEAST j. i \<le> j \<and> \<not> ?test j"
    have "i \<le> ?k \<and> \<not> ?test ?k" using ex by (rule LeastI_ex)
    moreover have "?test j" if "i \<le> j" "j < ?k" for j using not_less_Least [OF that(2)] that(1) by blast
    ultimately show ?thesis by blast
  qed
  obtain m where "poll_loop ?test (\<lambda>_ s. Inr s) 0 () = Some m" using assms(1,2,4) by (auto simp: observe_def)
  from ends [OF this] obtain k where "\<not> ?test k" "\<forall>j<k. ?test j" by auto
  with assms(3) show ?thesis unfolding point_clock_def by (meson dual_order.trans not_le)
qed

lemma removal_observed:
  assumes "removal w stack = Some (Inr ())"
  shows "\<exists>k. rp_test_time (snd w k) < fst w + 45 \<and> removed stack (snd w k)"
proof -
  let ?test = "\<lambda>i. rp_test_time (snd w i) < fst w + 45" and ?body = "\<lambda>i s. if removed stack (snd w i) then Inl s else Inr s"
  obtain s where "poll_loop ?test ?body 0 () = Some (False, s)"
    using assms by (auto simp: removal_def wait_for_removal_def split: if_splits)
  from poll_loop_invariant [OF this, of "\<lambda>_ _. True" "\<lambda>expired _. \<not> expired \<longrightarrow> (\<exists>k. ?test k \<and> removed stack (snd w k))"]
  show ?thesis by (auto split: if_splits)
qed

lemma bounded_result_mono: "bounded_result a r \<Longrightarrow> a \<le> b \<Longrightarrow> bounded_result b r"
  by (auto simp: bounded_result_def times_at_most_def time_at_most_def split: option.splits)

text \<open>
  C27. The recorded times of a functional run are ordered and its evidence is kept. When a deployed
  placement returns, its status is a timeout or a success, every recorded start-up time lies between zero
  and the measured time, and the measured time is at most the collection time. A success has both start-up
  times, and it was observed for the requested period after it: the measured time is read at least the
  period after the polling loop has ended, and it exceeds every recorded start-up time by at least the
  period. The kept logs are the deployment's output and, in order, the log of the coordinator and of each
  transport as its service returned it, and the stack was seen gone within the limit.
\<close>

theorem functional_point_times:
  assumes "run_functional_point dumps workload n timeout_seconds observation_seconds img e = Some (Inr res)"
    and "point_clock timeout_seconds observation_seconds e" and "fst (pe_deploy e) = 0" and "0 \<le> observation_seconds"
  shows "\<exists>measured collected. px_measurement res = Some measured \<and> px_collection res = Some collected \<and> measured \<le> collected
    \<and> bounded_result measured (px_result res)
    \<and> (fr_status (px_result res) = ''functional-ok'' \<longrightarrow> pe_observed_from e + of_int observation_seconds \<le> pe_measured e
         \<and> bounded_result (measured - of_int observation_seconds) (px_result res))
    \<and> px_logs res = (''deployment'', snd (pe_deploy e)) # map (\<lambda>service. (service, pe_logs e service)) (service_names n)
    \<and> (\<exists>k. rp_test_time (snd (pe_removal_after e) k) < fst (pe_removal_after e) + 45
         \<and> removed (functional_stack workload n) (snd (pe_removal_after e) k))"
proof -
  have "\<not> pe_exists e" using assms(1) by (auto simp: run_functional_point_def)
  then obtain r where r: "run_point workload n timeout_seconds (pe_started e) 0 (pe_polls e) = Some r"
    "observe e observation_seconds r = Some ()" "removal (pe_removal_after e) (functional_stack workload n) = Some (Inr ())"
    "res = \<lparr>px_result = r, px_measurement = Some (round3 (pe_measured e - pe_started e)),
       px_collection = Some (round3 (pe_collected e - pe_started e)),
       px_logs = (''deployment'', snd (pe_deploy e)) # map (\<lambda>service. (service, pe_logs e service)) (service_names n)\<rparr>"
    using assms(1,3) by (auto simp: run_functional_point_def thenE_Inr Let_def bind_eq_Some_conv)
  let ?observed = "round3 (pe_observed_from e - pe_started e)" and ?measured = "round3 (pe_measured e - pe_started e)"
  have order: "?observed \<le> ?measured" "?measured \<le> round3 (pe_collected e - pe_started e)"
    using assms(2) by (auto simp: point_clock_def intro!: round3_mono)
  have bounded: "bounded_result ?observed r" using run_point_bounded [OF r(1)] assms(2) by (auto simp: point_clock_def)
  have waited: "pe_observed_from e + of_int observation_seconds \<le> pe_measured e" if "fr_status r = ''functional-ok''"
    using observe_waits [OF r(2) that assms(2)] assms(2,4) by (cases "observation_seconds = 0") (auto simp: point_clock_def)
  have "?observed \<le> ?measured - of_int observation_seconds" if "fr_status r = ''functional-ok''"
    using round3_mono [of "pe_observed_from e - pe_started e + of_int observation_seconds" "pe_measured e - pe_started e"] waited [OF that]
    by simp
  with waited order bounded_result_mono [OF bounded] removal_observed [OF r(3)] show ?thesis by (auto simp: r(4))
qed

definition demo_coordinator_log :: string where
  "demo_coordinator_log = ''proxy: started process_id=phase1-0, proxy: started process_id=phase1-1, [INTERCMD]''"

definition demo_point :: point_environment where
  "demo_point = \<lparr>pe_exists = False, pe_source = \<lambda>_. Some ''{}'',
     pe_stack = Inr [(''services'', JObj []), (''configs'', JObj [(''workload'', JObj []), (''topology'', JObj []), (''routing'', JObj [])])],
     pe_removal_before = (0, \<lambda>_. gone_poll), pe_deploy = (0, []), pe_started = 1,
     pe_polls = \<lambda>i. \<lparr>fp_test_time = 2, fp_elapsed_time = 2, fp_ps = \<lambda>_. [], fp_coordinator_log = demo_coordinator_log\<rparr>,
     pe_observed_from = 3, pe_observation = \<lambda>i. 8, pe_measured = 8, pe_collected = 9, pe_logs = \<lambda>_. [],
     pe_removal_after = (0, \<lambda>_. gone_poll)\<rparr>"

lemma demo_coordinator: "length (remdups (rx_findall PHASE_ONE_PROXY demo_coordinator_log)) = 2" "sublist ''[INTERCMD]'' demo_coordinator_log"
  by code_simp+

theorem functional_point_times_witness:
  "\<exists>res measured. run_functional_point (\<lambda>_. []) ''dlrm'' 1 60 5 ''image'' demo_point = Some (Inr res)
    \<and> fr_status (px_result res) = ''functional-ok'' \<and> px_measurement res = Some measured
    \<and> bounded_result (measured - 5) (px_result res) \<and> map fst (px_logs res) = [''deployment'', ''coordinator'', ''transport-0'']"
proof -
  let ?polls = "pe_polls demo_point"
  obtain r where body: "functional_body ''dlrm'' 1 1 (?polls 0) (init_functional 0) = Inl r" "fr_status r = ''functional-ok''"
    using demo_coordinator by (simp add: functional_body_def functional_round_def demo_point_def Let_def init_functional_def first_time_def
      PHASE_ONE_COUNTS_def dict_get_def)
  then have loop: "run_point ''dlrm'' 1 60 1 0 ?polls = Some r"
    by (simp add: run_point_def poll_loop.simps [of _ _ 0] demo_point_def)
  have observed: "observe demo_point 5 r = Some ()"
    using body(2) by (simp add: observe_def poll_loop.simps [of _ _ 0] demo_point_def)
  have "\<exists>res. run_functional_point (\<lambda>_. []) ''dlrm'' 1 60 5 ''image'' demo_point = Some (Inr res) \<and> px_result res = r"
    using loop observed by (simp add: run_functional_point_def thenE_def upload_point_def put_file_def rewrite_stack_def update_at_def
      set_image_def set_config_file_def as_obj_def dict_item_def demo_removal demo_point_def Let_def)
  then obtain res where res: "run_functional_point (\<lambda>_. []) ''dlrm'' 1 60 5 ''image'' demo_point = Some (Inr res)" "px_result res = r" by blast
  have "point_clock 60 5 demo_point" by (simp add: point_clock_def demo_point_def)
  from functional_point_times [OF res(1) this] res body(2) show ?thesis by (auto simp: demo_point_def service_names_def text_eval)
qed

end
