(* ===== verification/SampleArchive.thy ===== *)
theory SampleArchive
  imports MlpScalability
begin

text \<open>
  The evidence of a sample of the MLP experiment (\<open>scripts/run_mlp_scalability.py\<close>): the commands that read the
  transport logs and that copy process logs and a runtime snapshot to a directory of the manager, and the
  download of that directory into the archive of the sample. The SFTP client and the manager are parameters:
  the files, the listings, and what a transfer has put into the local file when it returns or raises.
  \<open>deploy_sample\<close> drops an \<open>OSError\<close>, keeping what was downloaded before it; the local file of the failed
  transfer stays, empty or cut short, because the client opens it before it asks for the remote one.
\<close>

section \<open>Commands\<close>

definition quote :: char where
  "quote = CHR 0x22"

definition transport_log_command :: "string \<Rightarrow> nat \<Rightarrow> string" where
  "transport_log_command stack slot = ''timeout 15s sudo docker service logs --tail 500 '' @ stack @ ''_transport-'' @ show_nat slot"

definition transport_logs_command :: "string \<Rightarrow> nat \<Rightarrow> string" where
  "transport_logs_command stack node_count =
     join_with '' '' (map (\<lambda>slot. ''('' @ transport_log_command stack slot @ '' || true) &'') [0..<node_count]) @ '' wait''"

definition process_directories :: "string list" where
  "process_directories = [''proc_r1_p1_t0'', ''proc_r1_p1_t1'', ''proc_r1_p1_t2'', ''proc_r1_p1_t3'', ''proc_r1_p1_t4'',
     ''proc_r1_p1_t5'', ''proc_r1_p1_t6'', ''proc_r1_p2_t0'']"

definition capture_logs_command :: "string \<Rightarrow> string \<Rightarrow> string" where
  "capture_logs_command stack remote_directory =
     ''container=$(sudo docker ps -aq --filter '' @ ''label=com.docker.swarm.service.name='' @ stack @ ''_coordinator | head -n 1); ''
     @ ''test -n '' @ [quote] @ ''$container'' @ [quote] @ '' || exit 0; '' @ ''mkdir -p '' @ remote_directory @ ''/coordinator-process-logs; ''
     @ ''for path in '' @ join_with '' '' process_directories @ ''; do ''
     @ ''sudo docker cp '' @ [quote] @ ''$container'' @ [quote] @ '':/opt/legosim/$path '' @ remote_directory
     @ ''/coordinator-process-logs/ 2>/dev/null || true; done; ''
     @ ''sudo docker cp '' @ [quote] @ ''$container'' @ [quote] @ '':/opt/legosim/bridge-trace.log '' @ remote_directory
     @ ''/coordinator-process-logs/ 2>/dev/null || true''"

definition snapshot_command :: "string \<Rightarrow> nat \<Rightarrow> string \<Rightarrow> string" where
  "snapshot_command stack node_count remote_directory =
     ''mkdir -p '' @ remote_directory @ ''/runtime-snapshot; '' @ ''for service in '' @ join_with '' '' (service_names node_count) @ ''; do ''
     @ ''container=$(sudo docker ps -q --filter '' @ ''label=com.docker.swarm.service.name='' @ stack @ ''_$service | head -n 1); ''
     @ ''test -n '' @ [quote] @ ''$container'' @ [quote] @ '' || continue; '' @ ''{ ''
     @ ''echo '' @ [quote] @ ''service=$service container=$container'' @ [quote] @ ''; ''
     @ ''sudo docker exec '' @ [quote] @ ''$container'' @ [quote] @ '' sh -c ''
     @ [CHR 0x27] @ ''ps -eo pid,ppid,stat,wchan:32,etime,cmd; echo ---sockets---; ss -ntp'' @ [CHR 0x27] @ '' '' @ ''2>&1 || true; ''
     @ ''} > '' @ remote_directory @ ''/runtime-snapshot/$service.txt; '' @ ''done''"

section \<open>The download\<close>

type_synonym archive = "(string, string) dict"

text \<open>
  A transfer of the client returns with the content it has copied (\<open>Inr\<close>) or raises and leaves the content
  that it has written so far (\<open>Inl\<close>), which is empty when the remote file does not exist.
\<close>

record manager_files =
  mf_file :: "string \<Rightarrow> string option"
  mf_transfer :: "string \<Rightarrow> string + string"
  mf_listing :: "string \<Rightarrow> string list option"

definition faithful_transfers :: "manager_files \<Rightarrow> bool" where
  "faithful_transfers m \<longleftrightarrow> (\<forall>path. case mf_transfer m path of
       Inr content \<Rightarrow> mf_file m path = Some content
     | Inl part \<Rightarrow> prefix part (case mf_file m path of None \<Rightarrow> [] | Some content \<Rightarrow> content))"

text \<open>One transfer; \<open>Inl\<close> is the archive at the moment of an exception.\<close>

definition sftp_get :: "manager_files \<Rightarrow> string \<Rightarrow> string \<Rightarrow> archive \<Rightarrow> archive + archive" where
  "sftp_get m source target l = 
     (case mf_transfer m source of
        Inl part \<Rightarrow> Inl (AList.update target part l)
      | Inr content \<Rightarrow> Inr (AList.update target content l))"

definition sftp_list :: "manager_files \<Rightarrow> string \<Rightarrow> (string list \<Rightarrow> archive \<Rightarrow> archive + archive) \<Rightarrow> archive \<Rightarrow> archive + archive" where
  "sftp_list m directory f l = (case mf_listing m directory of None \<Rightarrow> Inl l | Some names \<Rightarrow> f names l)"

definition get_process :: "manager_files \<Rightarrow> string \<Rightarrow> string \<Rightarrow> archive \<Rightarrow> archive + archive" where
  "get_process m remote_directory item l =
     (if prefix ''proc_r'' item
      then (let source = remote_directory @ ''/coordinator-process-logs/'' @ item
            in sftp_list m source (\<lambda>entries. foldE (\<lambda>entry.
                  if prefix ''.'' entry then Inr
                  else sftp_get m (source @ ''/'' @ entry) (''coordinator-process-logs/'' @ item @ ''/'' @ entry)) entries) l)
      else Inr l)"

definition get_snapshot :: "manager_files \<Rightarrow> string \<Rightarrow> string \<Rightarrow> archive \<Rightarrow> archive + archive" where
  "get_snapshot m remote_directory item l =
     (if suffix ''.txt'' item
      then sftp_get m (remote_directory @ ''/runtime-snapshot/'' @ item) (''runtime-snapshot/'' @ item) l else Inr l)"

definition download_steps :: "manager_files \<Rightarrow> string \<Rightarrow> archive \<Rightarrow> archive + archive" where
  "download_steps m remote_directory l =
     bindE (sftp_get m (remote_directory @ ''/coordinator-process-logs/bridge-trace.log'') ''coordinator-process-logs/bridge-trace.log'' l) (\<lambda>l1.
     bindE (sftp_list m (remote_directory @ ''/coordinator-process-logs'') (foldE (get_process m remote_directory)) l1)
       (sftp_list m (remote_directory @ ''/runtime-snapshot'') (foldE (get_snapshot m remote_directory))))"

definition download_archive :: "manager_files \<Rightarrow> string \<Rightarrow> archive" where
  "download_archive m remote_directory = (case download_steps m remote_directory [] of Inl l \<Rightarrow> l | Inr l \<Rightarrow> l)"

section \<open>What is archived\<close>

text \<open>The entries of a listing; a missing directory has none.\<close>

definition listed :: "manager_files \<Rightarrow> string \<Rightarrow> string set" where
  "listed m directory = (case mf_listing m directory of None \<Rightarrow> {} | Some names \<Rightarrow> set names)"

definition process_targets :: "manager_files \<Rightarrow> string \<Rightarrow> string \<Rightarrow> string set" where
  "process_targets m remote_directory item =
     (if prefix ''proc_r'' item
      then (\<lambda>entry. ''coordinator-process-logs/'' @ item @ ''/'' @ entry)
        ` {entry \<in> listed m (remote_directory @ ''/coordinator-process-logs/'' @ item). \<not> prefix ''.'' entry} else {})"

definition wanted :: "manager_files \<Rightarrow> string \<Rightarrow> string set" where
  "wanted m remote_directory = {''coordinator-process-logs/bridge-trace.log''}
     \<union> (\<Union>item\<in>listed m (remote_directory @ ''/coordinator-process-logs''). process_targets m remote_directory item)
     \<union> (\<lambda>item. ''runtime-snapshot/'' @ item) ` {item \<in> listed m (remote_directory @ ''/runtime-snapshot''). suffix ''.txt'' item}"

text \<open>
  A transfer that adds targets of \<open>W\<close> to an archive of exact copies: all of them with their exact content when
  it does not raise, and some of them otherwise, of which one may be what the raising transfer left.
\<close>

definition copies :: "manager_files \<Rightarrow> string \<Rightarrow> archive \<Rightarrow> bool" where
  "copies m remote_directory l \<longleftrightarrow> (\<forall>t c. map_of l t = Some c \<longrightarrow> mf_file m (remote_directory @ ''/'' @ t) = Some c)"

definition copies_but_one :: "manager_files \<Rightarrow> string \<Rightarrow> archive \<Rightarrow> bool" where
  "copies_but_one m remote_directory l \<longleftrightarrow> (\<exists>failed. \<forall>t c. map_of l t = Some c \<longrightarrow>
     mf_file m (remote_directory @ ''/'' @ t) = Some c \<or> t = failed \<and> mf_transfer m (remote_directory @ ''/'' @ t) = Inl c)"

definition adds_targets :: "manager_files \<Rightarrow> string \<Rightarrow> string set \<Rightarrow> (archive \<Rightarrow> archive + archive) \<Rightarrow> bool" where
  "adds_targets m remote_directory W f \<longleftrightarrow> (faithful_transfers m \<longrightarrow> (\<forall>l. copies m remote_directory l \<longrightarrow>
     (case f l of
        Inl l' \<Rightarrow> copies_but_one m remote_directory l' \<and> fst ` set l' \<subseteq> fst ` set l \<union> W
      | Inr l' \<Rightarrow> copies m remote_directory l' \<and> fst ` set l' = fst ` set l \<union> W)))"

lemma copies_but_none: "copies m d l \<Longrightarrow> copies_but_one m d l"
  by (simp add: copies_def copies_but_one_def)

lemma faithful_get: "faithful_transfers m \<Longrightarrow> mf_transfer m path = Inr content \<Longrightarrow> mf_file m path = Some content"
  by (auto simp: faithful_transfers_def split: sum.splits)

lemma adds_get:
  assumes "source = remote_directory @ ''/'' @ target"
  shows "adds_targets m remote_directory {target} (sftp_get m source target)"
  unfolding adds_targets_def
proof (intro impI allI)
  fix l assume "faithful_transfers m" "copies m remote_directory l"
  then show "case sftp_get m source target l of
      Inl l' \<Rightarrow> copies_but_one m remote_directory l' \<and> fst ` set l' \<subseteq> fst ` set l \<union> {target}
    | Inr l' \<Rightarrow> copies m remote_directory l' \<and> fst ` set l' = fst ` set l \<union> {target}"
    by (cases "mf_transfer m source")
      (auto simp: assms sftp_get_def copies_def copies_but_one_def map_of_update dom_update faithful_get intro!: exI [of _ target])
qed

lemma adds_nothing: "adds_targets m remote_directory {} Inr"
  by (simp add: adds_targets_def)

lemma adds_bind:
  assumes "adds_targets m d W f" and "adds_targets m d V g"
  shows "adds_targets m d (W \<union> V) (\<lambda>l. bindE (f l) g)"
  unfolding adds_targets_def
proof (intro allI impI)
  fix l assume faithful: "faithful_transfers m" and "copies m d l"
  with assms(1) have f: "case f l of Inl l' \<Rightarrow> copies_but_one m d l' \<and> fst ` set l' \<subseteq> fst ` set l \<union> W
      | Inr l' \<Rightarrow> copies m d l' \<and> fst ` set l' = fst ` set l \<union> W" by (simp add: adds_targets_def)
  show "case bindE (f l) g of Inl l' \<Rightarrow> copies_but_one m d l' \<and> fst ` set l' \<subseteq> fst ` set l \<union> (W \<union> V)
      | Inr l' \<Rightarrow> copies m d l' \<and> fst ` set l' = fst ` set l \<union> (W \<union> V)"
  proof (cases "f l")
    case (Inr l')
    then have "copies m d l'" "fst ` set l' = fst ` set l \<union> W" using f by simp_all
    moreover have "case g l' of Inl k \<Rightarrow> copies_but_one m d k \<and> fst ` set k \<subseteq> fst ` set l' \<union> V
        | Inr k \<Rightarrow> copies m d k \<and> fst ` set k = fst ` set l' \<union> V" using assms(2) faithful calculation(1) by (simp add: adds_targets_def)
    ultimately show ?thesis using Inr by (cases "g l'") auto
  qed (use f in auto)
qed

lemma foldE_functions: "foldE f [] = Inr" "foldE f (x # xs) = (\<lambda>l. bindE (f x l) (foldE f xs))"
  by (auto simp: fun_eq_iff)

lemma adds_fold:
  assumes "\<And>x. x \<in> set xs \<Longrightarrow> adds_targets m d (W x) (f x)"
  shows "adds_targets m d (\<Union>x\<in>set xs. W x) (foldE f xs)"
  using assms
proof (induction xs)
  case (Cons x xs)
  then show ?case using adds_bind [of m d "W x" "f x" "\<Union>x\<in>set xs. W x" "foldE f xs"] by (simp add: foldE_functions)
qed (simp add: foldE_functions adds_nothing)

lemma adds_list:
  assumes "\<And>x. adds_targets m d (W x) (f x)"
  shows "adds_targets m d (\<Union>x\<in>listed m directory. W x) (sftp_list m directory (foldE f))"
proof (cases "mf_listing m directory")
  case (Some names)
  then have "sftp_list m directory (foldE f) = foldE f names" by (simp add: fun_eq_iff sftp_list_def)
  with adds_fold [of names m d W f, OF assms] Some show ?thesis by (simp add: listed_def)
qed (simp add: adds_targets_def sftp_list_def copies_but_none)

lemma adds_process: "adds_targets m d (process_targets m d item) (get_process m d item)"
proof (cases "prefix ''proc_r'' item")
  case True
  let ?source = "d @ ''/coordinator-process-logs/'' @ item" and ?target = "\<lambda>entry. ''coordinator-process-logs/'' @ item @ ''/'' @ entry"
  let ?f = "\<lambda>entry. if prefix ''.'' entry then Inr else sftp_get m (?source @ ''/'' @ entry) (?target entry)"
  let ?W = "\<lambda>entry. if prefix ''.'' entry then {} else {?target entry}"
  have "adds_targets m d (?W entry) (?f entry)" for entry by (auto intro: adds_nothing adds_get)
  then have "adds_targets m d (\<Union>entry\<in>listed m ?source. ?W entry) (sftp_list m ?source (foldE ?f))" by (rule adds_list)
  moreover have "(\<Union>entry\<in>listed m ?source. ?W entry) = process_targets m d item" using True by (auto simp: process_targets_def split: if_splits)
  moreover have "get_process m d item = sftp_list m ?source (foldE ?f)" by (rule ext) (simp only: get_process_def Let_def True if_True)
  ultimately show ?thesis by simp
next
  case False
  then have "get_process m d item = Inr" by (simp add: fun_eq_iff get_process_def)
  then show ?thesis using False by (simp add: process_targets_def adds_nothing)
qed

lemma adds_snapshot: "adds_targets m d (if suffix ''.txt'' item then {''runtime-snapshot/'' @ item} else {}) (get_snapshot m d item)"
proof (cases "suffix ''.txt'' item")
  case True
  then have "get_snapshot m d item = sftp_get m (d @ ''/runtime-snapshot/'' @ item) (''runtime-snapshot/'' @ item)"
    by (simp add: fun_eq_iff get_snapshot_def)
  then show ?thesis using True adds_get [of "d @ ''/runtime-snapshot/'' @ item" d "''runtime-snapshot/'' @ item" m] by simp
next
  case False
  then have "get_snapshot m d item = Inr" by (simp add: fun_eq_iff get_snapshot_def)
  then show ?thesis using False by (simp add: adds_nothing)
qed

lemma adds_download: "adds_targets m d (wanted m d) (download_steps m d)"
proof -
  let ?list = "\<lambda>l1. bindE (sftp_list m (d @ ''/coordinator-process-logs'') (foldE (get_process m d)) l1)
    (sftp_list m (d @ ''/runtime-snapshot'') (foldE (get_snapshot m d)))"
  have "adds_targets m d ((\<Union>x\<in>listed m (d @ ''/coordinator-process-logs''). process_targets m d x)
      \<union> (\<Union>x\<in>listed m (d @ ''/runtime-snapshot''). if suffix ''.txt'' x then {''runtime-snapshot/'' @ x} else {})) ?list"
    by (intro adds_bind adds_list adds_process adds_snapshot)
  from adds_bind [OF adds_get [of "d @ ''/coordinator-process-logs/bridge-trace.log'' " d "''coordinator-process-logs/bridge-trace.log''" m] this]
  have "adds_targets m d ({''coordinator-process-logs/bridge-trace.log''} \<union> ((\<Union>x\<in>listed m (d @ ''/coordinator-process-logs''). process_targets m d x)
      \<union> (\<Union>x\<in>listed m (d @ ''/runtime-snapshot''). if suffix ''.txt'' x then {''runtime-snapshot/'' @ x} else {}))) (download_steps m d)"
    by (simp add: download_steps_def [abs_def])
  moreover have "{''coordinator-process-logs/bridge-trace.log''} \<union> ((\<Union>x\<in>listed m (d @ ''/coordinator-process-logs''). process_targets m d x)
      \<union> (\<Union>x\<in>listed m (d @ ''/runtime-snapshot''). if suffix ''.txt'' x then {''runtime-snapshot/'' @ x} else {})) = wanted m d"
    unfolding wanted_def by (auto split: if_splits)
  ultimately show ?thesis by simp
qed

text \<open>
  C30. The archive of a sample holds exact copies of wanted files, but it hangs on one of them. Everything
  in it is the bridge trace, a visible file of a process directory or a text file of the snapshot, and all
  but at most one have the content they have on the manager; that one is the file whose transfer raised
  and ended the download, and it holds a prefix of the content, nothing for a file that does not exist. When
  no transfer or listing raises, all wanted files are archived exactly. When the bridge trace is missing,
  which only a patched coordinator writes, the archive is an empty bridge trace and nothing else,
  although the process logs and the snapshot are on the manager.
\<close>

theorem archive_of_sample:
  assumes "faithful_transfers m"
  shows "fst ` set (download_archive m d) \<subseteq> wanted m d
   \<and> (\<exists>failed. \<forall>t c. map_of (download_archive m d) t = Some c \<longrightarrow> mf_file m (d @ ''/'' @ t) = Some c
         \<or> t = failed \<and> mf_transfer m (d @ ''/'' @ t) = Inl c
           \<and> prefix c (case mf_file m (d @ ''/'' @ t) of None \<Rightarrow> [] | Some content \<Rightarrow> content))
   \<and> ((\<exists>l. download_steps m d [] = Inr l) \<longrightarrow>
         (\<forall>t\<in>wanted m d. \<exists>c. map_of (download_archive m d) t = Some c \<and> mf_file m (d @ ''/'' @ t) = Some c))
   \<and> (mf_file m (d @ ''/coordinator-process-logs/bridge-trace.log'') = None \<longrightarrow>
         download_archive m d = [(''coordinator-process-logs/bridge-trace.log'', [])])"
proof (intro conjI)
  have empty: "copies m d []" by (simp add: copies_def)
  have result: "case download_steps m d [] of Inl l \<Rightarrow> copies_but_one m d l \<and> fst ` set l \<subseteq> wanted m d
      | Inr l \<Rightarrow> copies m d l \<and> fst ` set l = wanted m d"
    using adds_download [unfolded adds_targets_def, THEN mp, OF assms, THEN spec, THEN mp, OF empty] by (simp split: sum.splits)
  show "fst ` set (download_archive m d) \<subseteq> wanted m d"
    using result by (auto simp: download_archive_def split: sum.splits)
  have "copies_but_one m d (download_archive m d)"
    using result by (auto simp: download_archive_def copies_but_none split: sum.splits)
  moreover have "prefix c (case mf_file m path of None \<Rightarrow> [] | Some content \<Rightarrow> content)" if "mf_transfer m path = Inl c" for path c
    using assms that unfolding faithful_transfers_def by (metis sum.simps(5))
  ultimately show "\<exists>failed. \<forall>t c. map_of (download_archive m d) t = Some c \<longrightarrow> mf_file m (d @ ''/'' @ t) = Some c
      \<or> t = failed \<and> mf_transfer m (d @ ''/'' @ t) = Inl c
        \<and> prefix c (case mf_file m (d @ ''/'' @ t) of None \<Rightarrow> [] | Some content \<Rightarrow> content)"
    unfolding copies_but_one_def by blast
  show "(\<exists>l. download_steps m d [] = Inr l) \<longrightarrow>
      (\<forall>t\<in>wanted m d. \<exists>c. map_of (download_archive m d) t = Some c \<and> mf_file m (d @ ''/'' @ t) = Some c)"
  proof (intro impI ballI)
    fix t assume "\<exists>l. download_steps m d [] = Inr l" and t: "t \<in> wanted m d"
    then obtain l where l: "download_archive m d = l" "copies m d l" "fst ` set l = wanted m d" using result by (auto simp: download_archive_def)
    with t obtain c where "map_of l t = Some c" by (metis domD dom_map_of_conv_image_fst)
    with l show "\<exists>c. map_of (download_archive m d) t = Some c \<and> mf_file m (d @ ''/'' @ t) = Some c" by (simp add: copies_def)
  qed
  show "mf_file m (d @ ''/coordinator-process-logs/bridge-trace.log'') = None \<longrightarrow>
      download_archive m d = [(''coordinator-process-logs/bridge-trace.log'', [])]"
  proof
    let ?trace = "d @ ''/coordinator-process-logs/bridge-trace.log''"
    assume missing: "mf_file m ?trace = None"
    have "case mf_transfer m ?trace of Inr content \<Rightarrow> mf_file m ?trace = Some content
        | Inl part \<Rightarrow> prefix part (case mf_file m ?trace of None \<Rightarrow> [] | Some content \<Rightarrow> content)"
      using assms unfolding faithful_transfers_def by (rule spec)
    then have "mf_transfer m ?trace = Inl []" by (simp add: missing split: sum.splits)
    then show "download_archive m d = [(''coordinator-process-logs/bridge-trace.log'', [])]"
      by (simp add: download_archive_def download_steps_def sftp_get_def)
  qed
qed

definition demo_file :: "bool \<Rightarrow> string \<Rightarrow> string option" where
  "demo_file patched path =
     (if path = ''/m/coordinator-process-logs/bridge-trace.log'' then (if patched then Some ''trace'' else None)
      else if path = ''/m/coordinator-process-logs/proc_r1_p1_t0/log'' then Some ''out'' else None)"

text \<open>A manager with one process log; a transfer of \<open>broken\<close> stops after one character.\<close>

definition demo_manager :: "bool \<Rightarrow> string \<Rightarrow> manager_files" where
  "demo_manager patched broken =
     \<lparr>mf_file = demo_file patched,
      mf_transfer = (\<lambda>path. case demo_file patched path of None \<Rightarrow> Inl []
        | Some content \<Rightarrow> if path = broken then Inl (take 1 content) else Inr content),
      mf_listing = (\<lambda>path. if path = ''/m/coordinator-process-logs'' then Some [''proc_r1_p1_t0'']
        else if path = ''/m/coordinator-process-logs/proc_r1_p1_t0'' then Some [''log''] else Some [])\<rparr>"

lemma demo_faithful: "faithful_transfers (demo_manager patched broken)"
  by (auto simp: faithful_transfers_def demo_manager_def take_is_prefix split: option.splits if_splits)

lemma demo_download: "\<exists>l. download_steps (demo_manager True []) ''/m'' [] = Inr l"
  by (simp add: download_steps_def sftp_get_def sftp_list_def get_process_def get_snapshot_def demo_manager_def demo_file_def Let_def)

lemma demo_wanted: "''coordinator-process-logs/proc_r1_p1_t0/log'' \<in> wanted (demo_manager True []) ''/m''"
proof -
  have "mf_listing (demo_manager True []) (''/m'' @ ''/coordinator-process-logs'') = Some [''proc_r1_p1_t0'']"
    "mf_listing (demo_manager True []) (''/m'' @ ''/coordinator-process-logs/'' @ ''proc_r1_p1_t0'') = Some [''log'']"
    by (simp_all add: demo_manager_def)
  then have "''proc_r1_p1_t0'' \<in> listed (demo_manager True []) (''/m'' @ ''/coordinator-process-logs'')"
    "''coordinator-process-logs/'' @ ''proc_r1_p1_t0'' @ ''/'' @ ''log'' \<in> process_targets (demo_manager True []) ''/m'' ''proc_r1_p1_t0''"
    unfolding listed_def process_targets_def by (auto simp del: append_Cons append_Nil)
  then have "''coordinator-process-logs/'' @ ''proc_r1_p1_t0'' @ ''/'' @ ''log'' \<in> wanted (demo_manager True []) ''/m''"
    unfolding wanted_def by blast
  then show ?thesis by simp
qed

theorem archive_of_sample_witness:
  "map_of (download_archive (demo_manager True []) ''/m'') ''coordinator-process-logs/proc_r1_p1_t0/log'' = Some ''out''
   \<and> download_archive (demo_manager False []) ''/m'' = [(''coordinator-process-logs/bridge-trace.log'', [])]
   \<and> fst ` set (download_archive (demo_manager True ''/m/coordinator-process-logs/bridge-trace.log'') ''/m'')
       \<subseteq> wanted (demo_manager True ''/m/coordinator-process-logs/bridge-trace.log'') ''/m''"
proof -
  let ?log = "''coordinator-process-logs/proc_r1_p1_t0/log''"
  have "map_of (download_archive (demo_manager True []) ''/m'') ?log = mf_file (demo_manager True []) (''/m'' @ ''/'' @ ?log)"
    using archive_of_sample [OF demo_faithful, of True "[]" "''/m''"] demo_download demo_wanted by auto
  moreover have "mf_file (demo_manager True []) (''/m'' @ ''/'' @ ?log) = Some ''out''" by (simp add: demo_manager_def demo_file_def)
  moreover have "mf_file (demo_manager False []) (''/m'' @ ''/coordinator-process-logs/bridge-trace.log'') = None"
    by (simp add: demo_manager_def demo_file_def)
  then have "download_archive (demo_manager False []) ''/m'' = [(''coordinator-process-logs/bridge-trace.log'', [])]"
    using archive_of_sample [OF demo_faithful, of False "[]" "''/m''"] by blast
  ultimately show ?thesis
    using archive_of_sample [OF demo_faithful, of True "''/m/coordinator-process-logs/bridge-trace.log''" "''/m''"] by auto
qed

end
