(* ===== verification/SteadyTiming.thy ===== *)
theory SteadyTiming
  imports SteadyMeasurement Summaries
begin

text \<open>
  The coordinator time of the steady-state report (\<open>scripts/summarize_steady_measurement.py\<close>) and the whole
  report. The same timing file is read by \<open>scripts/summarize_dind_mlp_dp.py\<close> with another parser of
  timestamps; on the stamps that Docker writes both programs report the same duration up to one microsecond.
\<close>

section \<open>ISO timestamps\<close>

text \<open>
  A \<open>datetime\<close>: microseconds from 1970 on its own clock and, when it is aware, the offset of this clock.
  \<open>datetime.fromisoformat\<close> takes the formats that \<open>isoformat\<close> prints: a date, one separator, a time of two, five
  or eight characters, a fraction of three or six digits, and an offset.
\<close>

record iso_datetime =
  dt_micros :: int
  dt_offset :: "int option"

definition two_digits :: "string \<Rightarrow> nat option" where
  "two_digits s = (if length s = 2 \<and> list_all is_digit s then Some (digits_val s) else None)"

definition iso_fraction :: "string \<Rightarrow> int option" where
  "iso_fraction s =
     (case s of [] \<Rightarrow> Some 0
      | c # digits \<Rightarrow>
          if c = CHR ''.'' \<and> list_all is_digit digits
          then (if length digits = 6 then Some (int (digits_val digits))
                else if length digits = 3 then Some (1000 * int (digits_val digits)) else None)
          else None)"

fun iso_components :: "nat \<Rightarrow> string \<Rightarrow> (nat list \<times> int) option" where
  "iso_components 0 s = None"
| "iso_components (Suc k) s =
     (case two_digits (take 2 s) of None \<Rightarrow> None
      | Some v \<Rightarrow>
          if k = 0 \<or> drop 2 s = [] then map_option (Pair [v]) (iso_fraction (drop 2 s))
          else if hd (drop 2 s) = CHR '':''
          then map_option (\<lambda>(vs, us). (v # vs, us)) (iso_components k (drop 3 s))
          else None)"

definition time_micros :: "nat list \<times> int \<Rightarrow> int" where
  "time_micros c = (let v = fst c @ [0, 0] in int (v ! 0 * 3600 + v ! 1 * 60 + v ! 2) * 1000000 + snd c)"

definition valid_time :: "nat list \<Rightarrow> bool" where
  "valid_time vs \<longleftrightarrow> (let v = vs @ [0, 0] in v ! 0 < 24 \<and> v ! 1 < 60 \<and> v ! 2 < 60)"

definition iso_clock :: "string \<Rightarrow> int option" where
  "iso_clock s =
     (case iso_components 3 s of None \<Rightarrow> None
      | Some c \<Rightarrow> if valid_time (fst c) then Some (time_micros c) else None)"

definition iso_offset :: "string \<Rightarrow> int option option" where
  "iso_offset s =
     (case s of [] \<Rightarrow> Some None
      | sign # digits \<Rightarrow>
          if length digits \<in> {5, 8, 15}
          then map_option (\<lambda>us. Some (if sign = CHR ''-'' then - us else us)) (iso_clock digits) else None)"

definition iso_date :: "string \<Rightarrow> int option" where
  "iso_date s =
     (case map (\<lambda>part. if list_all is_digit part then digits_val part else 0) (split_on (CHR ''-'') s) of
        [y, m, d] \<Rightarrow>
          if map length (split_on (CHR ''-'') s) = [4, 2, 2] \<and> 1 \<le> y \<and> 1 \<le> m \<and> m \<le> 12 \<and> 1 \<le> d \<and> d \<le> month_days y ! (m - 1)
          then Some (day_ordinal y m d - 719163) else None
      | _ \<Rightarrow> None)"

definition fromisoformat :: "string \<Rightarrow> iso_datetime res" where
  "fromisoformat s =
     (let bad = Inl (ValueError (''Invalid isoformat string: '' @ s)); time_text = drop 11 s;
          clock = takeWhile (\<lambda>c. c \<noteq> CHR ''-'' \<and> c \<noteq> CHR ''+'') time_text; zone = drop (length clock) time_text
      in case iso_date (take 10 s) of None \<Rightarrow> bad
         | Some day \<Rightarrow>
             if length s = 10 then Inr \<lparr>dt_micros = day * 86400 * 1000000, dt_offset = None\<rparr>
             else (case (iso_clock clock, iso_offset zone) of
                     (Some us, Some offset) \<Rightarrow> Inr \<lparr>dt_micros = day * 86400 * 1000000 + us, dt_offset = offset\<rparr>
                   | _ \<Rightarrow> bad))"

text \<open>Subtraction: aware values are compared in universal time, and mixing both kinds is an error.\<close>

definition datetime_minus :: "iso_datetime \<Rightarrow> iso_datetime \<Rightarrow> int res" where
  "datetime_minus a b =
     (case (dt_offset a, dt_offset b) of
        (None, None) \<Rightarrow> Inr (dt_micros a - dt_micros b)
      | (Some x, Some y) \<Rightarrow> Inr ((dt_micros a - x) - (dt_micros b - y))
      | _ \<Rightarrow> Inl (TypeError ''cannot subtract offset-naive and offset-aware datetimes''))"

section \<open>The coordinator time\<close>

definition microsecond_digits :: "string \<Rightarrow> string" where
  "microsecond_digits fraction = take 6 fraction @ replicate (6 - length (take 6 fraction)) (CHR ''0'')"

definition parse_rfc3339_timestamp :: "string \<Rightarrow> iso_datetime res" where
  "parse_rfc3339_timestamp value =
     (let stripped = strip_space value;
          zulu = stripped \<noteq> [] \<and> last stripped = CHR ''Z'';
          bare = (if zulu then butlast stripped else stripped);
          zone = (if zulu then ''+00:00'' else '''');
          (secs, separator, fraction) = partition_at (CHR ''.'') bare;
          normalized = (if separator then secs @ ''.'' @ microsecond_digits fraction else bare)
      in fromisoformat (normalized @ zone))"

definition timing_values :: "string \<Rightarrow> (string, string) dict" where
  "timing_values file_text =
     dict_of (map (\<lambda>line. case partition_at (CHR ''='') line of (k, _, v) \<Rightarrow> (k, v))
       (filter (\<lambda>line. CHR ''='' \<in> set line) (split_lines file_text)))"

definition coordinator_seconds :: "string option \<Rightarrow> rat option res" where
  "coordinator_seconds file =
     (case file of None \<Rightarrow> Inr None
      | Some file_text \<Rightarrow>
          let values = timing_values file_text
          in case (map_of values ''start'', map_of values ''finish'') of
               (Some start_text, Some finish_text) \<Rightarrow>
                 bindE (parse_rfc3339_timestamp start_text) (\<lambda>start.
                 bindE (parse_rfc3339_timestamp finish_text) (\<lambda>finish.
                 bindE (datetime_minus finish start) (\<lambda>us. Inr (Some (of_int us / 10 ^ 6)))))
             | _ \<Rightarrow> Inr None)"

text \<open>The report with the coordinator time, which is computed after the window and its reads.\<close>

definition summarize_steady_run :: "(string \<Rightarrow> jobj res) \<Rightarrow> string list \<Rightarrow> string option \<Rightarrow> (steady_report \<times> rat option) res" where
  "summarize_steady_run loads lines timing =
     bindE (summarize_steady loads lines) (\<lambda>report.
     bindE (coordinator_seconds timing) (\<lambda>coordinator. Inr (report, coordinator)))"

section \<open>Both readers of a timing file agree\<close>

text \<open>The seconds part of a stamp: a year of four digits and five fields of two digits.\<close>

definition stamp_seconds :: "string \<Rightarrow> string \<Rightarrow> string \<Rightarrow> string \<Rightarrow> string \<Rightarrow> string \<Rightarrow> string" where
  "stamp_seconds ys ms ds hs mins secs = ys @ ''-'' @ ms @ ''-'' @ ds @ ''T'' @ hs @ '':'' @ mins @ '':'' @ secs"

definition docker_seconds :: "string \<Rightarrow> bool" where
  "docker_seconds D \<longleftrightarrow> (\<exists>ys ms ds hs mins secs. D = stamp_seconds ys ms ds hs mins secs
     \<and> length ys = 4 \<and> list_all (\<lambda>s. length s = 2) [ms, ds, hs, mins, secs]
     \<and> list_all (list_all is_digit) [ys, ms, ds, hs, mins, secs])"

lemma digit_separators: "is_digit c \<Longrightarrow> c \<notin> {CHR ''-'', CHR ''+'', CHR ''.'', CHR ''T'', CHR '':'', CHR ''Z''}"
  by (auto simp: is_digit_def)

lemma digits_without: "list_all is_digit s \<Longrightarrow> c \<in> {CHR ''-'', CHR ''+'', CHR ''.'', CHR ''T'', CHR '':'', CHR ''Z''} \<Longrightarrow> c \<notin> set s"
  using digit_separators by (fastforce simp: list_all_iff)

lemma date_field_value: "date_field lengths low high s = Some v \<Longrightarrow> v = digits_val s \<and> low \<le> v \<and> v \<le> high"
  by (simp add: date_field_def split: if_splits)

lemma parse_datetime_stamp:
  assumes "length ys = 4" and "list_all (\<lambda>s. length s = 2) [ms, ds, hs, mins, secs]"
    and "list_all (list_all is_digit) [ys, ms, ds, hs, mins, secs]"
    and "parse_datetime (stamp_seconds ys ms ds hs mins secs) = Inr t"
  shows "t = (day_ordinal (digits_val ys) (digits_val ms) (digits_val ds) - 719163) * 86400
      + int (digits_val hs * 3600 + digits_val mins * 60 + digits_val secs)"
    and "1 \<le> digits_val ys" and "1 \<le> digits_val ms" and "digits_val ms \<le> 12" and "1 \<le> digits_val ds"
    and "digits_val ds \<le> month_days (digits_val ys) ! (digits_val ms - 1)"
    and "digits_val hs < 24" and "digits_val mins < 60" and "digits_val secs < 60"
proof -
  have clear: "c \<notin> set ys" "c \<notin> set ms" "c \<notin> set ds" "c \<notin> set hs" "c \<notin> set mins" "c \<notin> set secs"
    if "c \<in> {CHR ''-'', CHR ''+'', CHR ''.'', CHR ''T'', CHR '':'', CHR ''Z''}" for c
    using assms(3) that digits_without by auto
  have halves: "split_on (CHR ''T'') (stamp_seconds ys ms ds hs mins secs)
      = [ys @ ''-'' @ ms @ ''-'' @ ds, hs @ '':'' @ mins @ '':'' @ secs]"
    using split_on_append_sep [of "CHR ''T''" "ys @ ''-'' @ ms @ ''-'' @ ds" "hs @ '':'' @ mins @ '':'' @ secs"] clear [of "CHR ''T''"]
    by (simp add: stamp_seconds_def split_on_no_sep)
  have date: "split_on (CHR ''-'') (ys @ ''-'' @ ms @ ''-'' @ ds) = [ys, ms, ds]"
    using clear [of "CHR ''-''"] by (simp add: split_on_append_sep split_on_no_sep)
  have clock: "split_on (CHR ''-'') (hs @ '':'' @ mins @ '':'' @ secs) = [hs @ '':'' @ mins @ '':'' @ secs]"
    using clear [of "CHR ''-''"] by (simp add: split_on_no_sep)
  have fields: "split_on (CHR '':'') (hs @ '':'' @ mins @ '':'' @ secs) = [hs, mins, secs]"
    using clear [of "CHR '':''"] by (simp add: split_on_append_sep split_on_no_sep)
  note parsed = assms(4) [unfolded parse_datetime_def Let_def halves list.map date clock list.case fields]
  show "t = (day_ordinal (digits_val ys) (digits_val ms) (digits_val ds) - 719163) * 86400
      + int (digits_val hs * 3600 + digits_val mins * 60 + digits_val secs)"
    and "1 \<le> digits_val ys" and "1 \<le> digits_val ms" and "digits_val ms \<le> 12" and "1 \<le> digits_val ds"
    and "digits_val ds \<le> month_days (digits_val ys) ! (digits_val ms - 1)"
    and "digits_val hs < 24" and "digits_val mins < 60" and "digits_val secs < 60"
    using parsed by (auto split: option.splits if_splits dest!: date_field_value)
qed

lemma length_microsecond_digits [simp]: "length (microsecond_digits f) = 6"
  by (simp add: microsecond_digits_def)

lemma microsecond_digits_digits: "list_all is_digit f \<Longrightarrow> list_all is_digit (microsecond_digits f)"
  by (auto simp: microsecond_digits_def list_all_iff is_digit_def dest: in_set_takeD)

lemma iso_clock_stamp:
  assumes "list_all (\<lambda>s. length s = 2) [hs, mins, secs]" and "list_all (list_all is_digit) [hs, mins, secs, us]" and "length us = 6"
    and "digits_val hs < 24" and "digits_val mins < 60" and "digits_val secs < 60"
  shows "iso_clock (hs @ '':'' @ mins @ '':'' @ secs @ ''.'' @ us)
    = Some (int (digits_val hs * 3600 + digits_val mins * 60 + digits_val secs) * 1000000 + int (digits_val us))"
  using assms by (simp add: iso_clock_def numeral_3_eq_3 two_digits_def iso_fraction_def valid_time_def time_micros_def)

lemma drop_length_append: "drop (length xs) (xs @ ys) = ys"
  by simp

lemma fromisoformat_stamp:
  assumes "length ys = 4" and "list_all (\<lambda>s. length s = 2) [ms, ds, hs, mins, secs]"
    and "list_all (list_all is_digit) [ys, ms, ds, hs, mins, secs]"
    and "parse_datetime (stamp_seconds ys ms ds hs mins secs) = Inr t" and "list_all is_digit us" and "length us = 6"
  shows "fromisoformat (stamp_seconds ys ms ds hs mins secs @ ''.'' @ us @ ''+00:00'')
    = Inr \<lparr>dt_micros = t * 1000000 + int (digits_val us), dt_offset = Some 0\<rparr>"
proof -
  note t = parse_datetime_stamp [OF assms(1-4)]
  let ?clock = "hs @ '':'' @ mins @ '':'' @ secs @ ''.'' @ us"
  let ?s = "stamp_seconds ys ms ds hs mins secs @ ''.'' @ us @ ''+00:00''"
  have clear: "c \<notin> set ys" "c \<notin> set ms" "c \<notin> set ds" if "c = CHR ''-''" for c
    using assms(3) that digits_without by auto
  have "split_on (CHR ''-'') (ys @ ''-'' @ ms @ ''-'' @ ds) = [ys, ms, ds]"
    using clear by (simp add: split_on_append_sep split_on_no_sep)
  then have date: "iso_date (ys @ ''-'' @ ms @ ''-'' @ ds) = Some (day_ordinal (digits_val ys) (digits_val ms) (digits_val ds) - 719163)"
    using assms(1-3) t(2-6) by (simp add: iso_date_def)
  have parts: "take 10 ?s = ys @ ''-'' @ ms @ ''-'' @ ds" "drop 11 ?s = ?clock @ ''+00:00''" "length ?s \<noteq> 10"
    using assms(1,2,6) by (simp_all add: stamp_seconds_def)
  have "\<forall>c\<in>set ?clock. c \<noteq> CHR ''-'' \<and> c \<noteq> CHR ''+''"
    using assms(3,5) digit_separators by (fastforce simp: list_all_iff)
  then have clock: "takeWhile (\<lambda>c. c \<noteq> CHR ''-'' \<and> c \<noteq> CHR ''+'') (?clock @ ''+00:00'') = ?clock"
    by (subst takeWhile_append2) auto
  have zone: "iso_offset ''+00:00'' = Some (Some 0)" by code_simp
  have "iso_clock ?clock = Some (int (digits_val hs * 3600 + digits_val mins * 60 + digits_val secs) * 1000000 + int (digits_val us))"
    using iso_clock_stamp [of hs mins secs us] assms(2,3,5,6) t(7-9) by simp
  moreover have rest: "drop (length ?clock) (?clock @ ''+00:00'') = ''+00:00''" by (rule drop_length_append)
  ultimately show ?thesis
    unfolding fromisoformat_def Let_def parts(1,2) clock rest date
    using parts(3) zone t(1) by (simp add: algebra_simps)
qed

lemma docker_seconds_plain:
  assumes "docker_seconds D"
  shows "list_all (\<lambda>c. \<not> is_space c) D" and "\<forall>c\<in>set D. c \<noteq> CHR ''.''"
proof -
  have "list_all (\<lambda>c. is_digit c \<or> c \<in> {CHR ''-'', CHR ''T'', CHR '':''}) D"
    using assms by (auto simp: docker_seconds_def stamp_seconds_def list_all_iff)
  then show "list_all (\<lambda>c. \<not> is_space c) D" and "\<forall>c\<in>set D. c \<noteq> CHR ''.''"
    by (auto simp: list_all_iff is_digit_def is_space_def)
qed

lemma stamp_split:
  assumes "docker_seconds D" and "list_all is_digit f"
  shows "strip_space (D @ ''.'' @ f @ ''Z'') = D @ ''.'' @ f @ ''Z''"
    and "partition_at (CHR ''.'') (D @ ''.'' @ f) = (D, True, f)"
    and "rev (dropWhile (\<lambda>c. c = CHR ''Z'') (rev (D @ ''.'' @ f @ ''Z''))) = D @ ''.'' @ f"
proof -
  note docker_seconds_plain [OF assms(1)]
  moreover have "list_all (\<lambda>c. \<not> is_space c) f" "\<forall>c\<in>set f. c \<noteq> CHR ''Z''"
    using assms(2) by (auto simp: list_all_iff is_digit_def is_space_def)
  ultimately have D: "list_all (\<lambda>c. \<not> is_space c) (D @ ''.'' @ f @ ''Z'')" "\<forall>c\<in>set D. c \<noteq> CHR ''.''"
    and f: "\<forall>c\<in>set (rev f). c \<noteq> CHR ''Z''" by (auto simp: is_space_def)
  show "strip_space (D @ ''.'' @ f @ ''Z'') = D @ ''.'' @ f @ ''Z''" by (rule strip_space_id [OF D(1)])
  show "partition_at (CHR ''.'') (D @ ''.'' @ f) = (D, True, f)"
    using D(2) by (simp add: partition_at_def takeWhile_append2 dropWhile_append2)
  show "rev (dropWhile (\<lambda>c. c = CHR ''Z'') (rev (D @ ''.'' @ f @ ''Z''))) = D @ ''.'' @ f"
    using f by (cases "rev f") (auto simp: rev_swap)
qed

lemma digits_val_append: "digits_val (a @ b) = digits_val a * 10 ^ length b + digits_val b"
  by (induction b rule: rev_induct) (simp_all add: digits_val_snoc append_assoc [symmetric] algebra_simps del: append_assoc, simp add: digits_val_def)

lemma digits_val_zeros: "digits_val (replicate n (CHR ''0'')) = 0"
  by (induction n) (simp_all add: digits_val_def digit_val_def)

lemma truncated_quotient:
  fixes a b n p :: rat
  assumes "0 < n" and "0 < p" and "0 \<le> b" and "b < n"
  shows "a / p \<le> (a * n + b) / (p * n) \<and> (a * n + b) / (p * n) < a / p + 1 / p"
proof -
  have "(a * n + b) / (p * n) = a / p + b / n / p" using assms(1,2) by (simp add: add_divide_distrib)
  moreover have "0 \<le> b / n / p" using assms by simp
  moreover have "b / n / p < 1 / p" by (rule divide_strict_right_mono) (use assms in simp_all)
  ultimately show ?thesis by simp
qed

lemma microsecond_digits_close:
  assumes "list_all is_digit f"
  shows "(of_nat (digits_val (microsecond_digits f)) / 10 ^ 6 :: rat) \<le> of_nat (digits_val f) / 10 ^ length f"
    and "(of_nat (digits_val f) / 10 ^ length f :: rat) < of_nat (digits_val (microsecond_digits f)) / 10 ^ 6 + 1 / 10 ^ 6"
proof -
  let ?a = "digits_val (take 6 f)" and ?b = "digits_val (drop 6 f)"
  have number: "digits_val f = ?a * 10 ^ (length f - 6) + ?b" using digits_val_append [of "take 6 f" "drop 6 f"] by simp
  have micros: "digits_val (microsecond_digits f) = ?a * 10 ^ (6 - length f)"
    by (simp add: microsecond_digits_def digits_val_append digits_val_zeros min_def)
  have "?b < 10 ^ (length f - 6)"
    using digits_val_less [of "drop 6 f"] assms by (simp add: list_all_iff) (meson in_set_dropD)
  then have b: "(of_nat ?b :: rat) < 10 ^ (length f - 6)"
    by (metis of_nat_less_iff of_nat_numeral of_nat_power)
  consider "6 \<le> length f" | "length f < 6" by linarith
  then have "(of_nat (digits_val (microsecond_digits f)) / 10 ^ 6 :: rat) \<le> of_nat (digits_val f) / 10 ^ length f
      \<and> (of_nat (digits_val f) / 10 ^ length f :: rat) < of_nat (digits_val (microsecond_digits f)) / 10 ^ 6 + 1 / 10 ^ 6"
  proof cases
    case 1
    then obtain k where k: "length f = 6 + k" using le_Suc_ex by blast
    have "(of_nat ?b :: rat) < 10 ^ k" using b k by simp
    then have "of_nat ?a / 10 ^ 6 \<le> (of_nat ?a * 10 ^ k + of_nat ?b) / (10 ^ 6 * 10 ^ k :: rat)
        \<and> (of_nat ?a * 10 ^ k + of_nat ?b) / (10 ^ 6 * 10 ^ k :: rat) < of_nat ?a / 10 ^ 6 + 1 / 10 ^ 6"
      by (intro truncated_quotient) simp_all
    then show ?thesis by (simp only: number micros k power_add of_nat_add of_nat_mult of_nat_power of_nat_numeral diff_add_inverse
          diff_add_0 power_0 mult_1_right)
  next
    case 2
    then obtain k where k: "6 = length f + k" using le_Suc_ex less_imp_le by blast
    have "(of_nat (?a * 10 ^ k) / 10 ^ 6 :: rat) = of_nat ?a / 10 ^ length f"
      unfolding arg_cong [OF k, of "power (10 :: rat)"] power_add by simp
    moreover have "6 - length f = k" "digits_val f = ?a" using k 2 by simp_all
    ultimately show ?thesis by (simp only: micros) simp
  qed
  then show "(of_nat (digits_val (microsecond_digits f)) / 10 ^ 6 :: rat) \<le> of_nat (digits_val f) / 10 ^ length f"
    and "(of_nat (digits_val f) / 10 ^ length f :: rat) < of_nat (digits_val (microsecond_digits f)) / 10 ^ 6 + 1 / 10 ^ 6"
    by blast+
qed

lemma stamp_readers:
  assumes "docker_seconds D" and "list_all is_digit f" and "parse_datetime D = Inr t"
  shows "parse_rfc3339_timestamp (D @ ''.'' @ f @ ''Z'')
      = Inr \<lparr>dt_micros = t * 1000000 + int (digits_val (microsecond_digits f)), dt_offset = Some 0\<rparr>"
    and "parse_timestamp utc_offset (D @ ''.'' @ f @ ''Z'') = Inr (of_int (t - utc_offset t) + of_nat (digits_val f) / 10 ^ length f)"
proof -
  have "butlast (D @ ''.'' @ f @ ''Z'') = D @ ''.'' @ f" by (simp add: butlast_append)
  moreover have "fromisoformat ((D @ ''.'' @ microsecond_digits f) @ ''+00:00'')
      = Inr \<lparr>dt_micros = t * 1000000 + int (digits_val (microsecond_digits f)), dt_offset = Some 0\<rparr>"
    using assms(1,3) fromisoformat_stamp [OF _ _ _ _ microsecond_digits_digits [OF assms(2)]]
    by (auto simp: docker_seconds_def)
  ultimately show "parse_rfc3339_timestamp (D @ ''.'' @ f @ ''Z'')
      = Inr \<lparr>dt_micros = t * 1000000 + int (digits_val (microsecond_digits f)), dt_offset = Some 0\<rparr>"
    unfolding parse_rfc3339_timestamp_def Let_def stamp_split(1) [OF assms(1,2)] by (simp add: stamp_split(2) [OF assms(1,2), simplified])
  show "parse_timestamp utc_offset (D @ ''.'' @ f @ ''Z'') = Inr (of_int (t - utc_offset t) + of_nat (digits_val f) / 10 ^ length f)"
    unfolding parse_timestamp_def stamp_split(3) [OF assms(1,2)] stamp_split(2) [OF assms(1,2)] using assms(2,3) by simp
qed

lemma added_key_values:
  assumes "foldE add_key_value ls d = Inr timing"
  shows "timing = foldl (\<lambda>d kv. AList.update (fst kv) (snd kv) d) d
    (map (\<lambda>line. case partition_at (CHR ''='') line of (k, _, v) \<Rightarrow> (k, v)) (filter (\<lambda>line. CHR ''='' \<in> set line) ls))"
  using assms by (induction ls arbitrary: d) (auto simp: add_key_value_def partition_at_def bindE_eq_Inr split: if_splits)

lemma timing_values_read: "read_key_values file_text = Inr timing \<Longrightarrow> timing_values file_text = timing"
  unfolding read_key_values_def timing_values_def dict_of_def by (drule added_key_values) simp

text \<open>
  For a timing file whose start and finish are universal times as Docker writes them, with a fraction of any length,
  the steady-state summary and the summary of natural-completion runs report durations that differ by less
  than a microsecond, whatever the fixed offset of the local clock is.
\<close>

theorem coordinator_seconds_agree:
  assumes "read_key_values file_text = Inr timing"
    and "map_of timing ''start'' = Some (D @ ''.'' @ f @ ''Z'')" and "map_of timing ''finish'' = Some (E @ ''.'' @ g @ ''Z'')"
    and "docker_seconds D" and "list_all is_digit f" and "docker_seconds E" and "list_all is_digit g"
    and "run_duration (\<lambda>_. offset) timing = Inr duration"
  shows "\<exists>s. coordinator_seconds (Some file_text) = Inr (Some s) \<and> \<bar>s - duration\<bar> < 1 / 10 ^ 6"
proof -
  have both: "\<exists>x. parse_timestamp (\<lambda>_. offset) (D @ ''.'' @ f @ ''Z'') = Inr x" "\<exists>x. parse_timestamp (\<lambda>_. offset) (E @ ''.'' @ g @ ''Z'') = Inr x"
    using assms(2,3,8) by (auto simp: run_duration_def dict_item_def bindE_eq_Inr)
  obtain t u where t: "parse_datetime D = Inr t" and u: "parse_datetime E = Inr u"
    using both unfolding parse_timestamp_def stamp_split(3) [OF assms(4,5)] stamp_split(2) [OF assms(4,5)]
      stamp_split(3) [OF assms(6,7)] stamp_split(2) [OF assms(6,7)] by (auto simp: bindE_eq_Inr)
  let ?v = "\<lambda>f. of_nat (digits_val f) / 10 ^ length f :: rat" and ?m = "\<lambda>f. digits_val (microsecond_digits f)"
  have duration: "duration = (of_int u + ?v g) - (of_int t + ?v f)"
    using assms(2,3,8) stamp_readers(2) [OF assms(4,5) t, of "\<lambda>_. offset"] stamp_readers(2) [OF assms(6,7) u, of "\<lambda>_. offset"]
    by (auto simp: run_duration_def dict_item_def split: if_splits)
  have "coordinator_seconds (Some file_text) = Inr (Some (of_int ((u * 1000000 + int (?m g)) - (t * 1000000 + int (?m f))) / 10 ^ 6))"
    using assms(2,3) stamp_readers(1) [OF assms(4,5) t] stamp_readers(1) [OF assms(6,7) u]
    by (simp add: coordinator_seconds_def timing_values_read [OF assms(1)] datetime_minus_def)
  moreover have "\<bar>((a :: rat) - b) - (c - d)\<bar> < e" if "a \<le> c" "c < a + e" "b \<le> d" "d < b + e" for a b c d e
    using that by linarith
  note this [OF microsecond_digits_close [OF assms(7)] microsecond_digits_close [OF assms(5)]]
  then have "\<bar>of_int ((u * 1000000 + int (?m g)) - (t * 1000000 + int (?m f))) / 10 ^ 6 - duration\<bar> < 1 / 10 ^ 6"
    unfolding duration by (simp add: add_divide_distrib diff_divide_distrib algebra_simps)
  ultimately show ?thesis by blast
qed

theorem coordinator_seconds_agree_witness: "\<exists>s. coordinator_seconds (Some demo_times) = Inr (Some s) \<and> \<bar>s - 2\<bar> < 1 / 10 ^ 6"
proof -
  have D: "docker_seconds ''2026-08-09T10:00:01''" unfolding docker_seconds_def
    by (rule exI [of _ "''2026''"], rule exI [of _ "''08''"], rule exI [of _ "''09''"], rule exI [of _ "''10''"], rule exI [of _ "''00''"],
        rule exI [of _ "''01''"]) code_simp
  have E: "docker_seconds ''2026-08-09T10:00:03''" unfolding docker_seconds_def
    by (rule exI [of _ "''2026''"], rule exI [of _ "''08''"], rule exI [of _ "''09''"], rule exI [of _ "''10''"], rule exI [of _ "''00''"],
        rule exI [of _ "''03''"]) code_simp
  show ?thesis
    by (rule coordinator_seconds_agree [OF demo_timing _ _ D _ E _ demo_duration, of "''5''" "''5''"]) (simp_all add: is_digit_def)
qed

text \<open>A numeric offset after the fraction is cut off with the digits that follow the microseconds.\<close>

theorem numeric_offset_lost:
  assumes "docker_seconds D" and "list_all is_digit f" and "length f = 6"
    and "list_all (\<lambda>c. \<not> is_space c) z" and "z \<noteq> []" and "last z \<noteq> CHR ''Z''"
  shows "parse_rfc3339_timestamp (D @ ''.'' @ f @ z) = parse_rfc3339_timestamp (D @ ''.'' @ f)"
proof -
  have "f \<noteq> []" using assms(3) by auto
  then have "last f \<in> set f" by simp
  then have f: "f \<noteq> []" "last f \<noteq> CHR ''Z''" "list_all (\<lambda>c. \<not> is_space c) f"
    using assms(2,3) digit_separators is_digit_not_space by (fastforce simp: list_all_iff)+
  note D = docker_seconds_plain [OF assms(1)]
  have "strip_space (D @ ''.'' @ f @ z) = D @ ''.'' @ f @ z" "strip_space (D @ ''.'' @ f) = D @ ''.'' @ f"
    using D f assms(4) by (intro strip_space_id; simp add: is_space_def)+
  moreover have "partition_at (CHR ''.'') (D @ ''.'' @ f @ z) = (D, True, f @ z)" "partition_at (CHR ''.'') (D @ ''.'' @ f) = (D, True, f)"
    using D(2) by (simp_all add: partition_at_def takeWhile_append2 dropWhile_append2)
  ultimately show ?thesis
    using assms(3,5,6) f by (simp add: parse_rfc3339_timestamp_def microsecond_digits_def)
qed

end
