(* ===== verification/Spec2Isabelle.thy ===== *)
theory Spec2Isabelle
  imports MetricSchema LatencyProbe ToolHelpers Supervisor SourcePatch Experiments Ns3Feedback UnboundedWorkload WorkerSession FunctionalMatrix
    SampleArchive SteadyTiming
begin

text \<open>
  ChipSystemSim distributes the processes of a LEGOSim chiplet simulation over the workers of a Docker
  Swarm. This library models its Python programs and proves the properties that its experiments rely on.

  \<^bold>\<open>The program.\<close> A workload file lists simulator processes (phase one: CPU and GPU chiplets; phase two: a
  network simulator). \<open>generate_placement.py\<close> assigns every process to a worker slot,
  \<open>generate_simbricks_topology.py\<close> describes one channel per pair of workers,
  \<open>generate_simbricks_routing.py\<close> joins both into the table of the routers,
  \<open>generate_distributed_yaml.py\<close> wraps every process into a proxy command, and \<open>generate_swarm_stack.py\<close>
  writes the stack of services. In each worker container \<open>simbricks_worker_supervisor.py\<close> starts the
  transports and gateways, waits until they are ready, and then starts the pipe router and the worker.
  The coordinator runs the wrapped workload: \<open>process_proxy.py\<close> asks \<open>worker.py\<close> on the assigned slot to run
  the real simulator and relays its streams. The simulators exchange data through pipes, which
  \<open>simbricks_pipe_router.py\<close> keeps locally or forwards to the gateway of another worker
  (\<open>fifo_broker.py\<close> is the older central broker). Every routed request leaves a metric line, from which the
  collectors compute bytes, waiting times and overheads. The scripts deploy such stacks repeatedly, decide
  when a run is complete, keep its logs, and summarise them. A second, smaller program runs
  reduced workloads on Docker nodes (\<open>platform/node.py\<close>, \<open>scripts/run_experiments.py\<close>).

  \<^bold>\<open>Shared theories.\<close>
  \<^item> \<open>Prelude\<close>: Python exceptions as the values of \<open>py_error\<close>, the error monad \<open>bindE\<close>, \<open>mapE\<close>, \<open>foldE\<close>,
    dictionaries as association lists in insertion order.
  \<^item> \<open>PyText\<close>, \<open>PyJson\<close>, \<open>PyRegex\<close>, \<open>PyCsv\<close>, \<open>Base64\<close>: the parts of the standard library that the program uses
    (number texts, splitting, lines, UTF-8, JSON values and their accesses, stream reads, regular
    expressions, CSV files, base64), with their round trips.
  \<^item> \<open>Polling\<close>: the loops \<open>while time.monotonic() < deadline\<close> as one function, the locale \<open>polled\<close> of what a loop body
    keeps, and rounding to three digits.
  \<^item> \<open>PipeSpec\<close>: the abstract pipe, one first-in first-out queue per name. The locales \<open>pipe_store\<close> and
    \<open>pipe_machine\<close> state what an implementation promises; the router and the broker are interpretations.
  \<^item> \<open>Intervals\<close>: the two routines for the length of a union of intervals, both interpretations of
    \<open>covered_duration\<close>.

  \<^bold>\<open>Theories of the components\<close> (sources under \<open>src/real\<close> unless named otherwise).
  \<^item> \<open>PipeRouter\<close> (\<open>simbricks_pipe_router.py\<close>): parsing, placement lookup, local queues and forwarding as a step
    relation over any number of concurrent handlers. Delivery is first-in first-out in every
    interleaving, replies have the requested size, forwarded requests parse back, a single reader per
    pipe always proceeds, and two readers may lose a wake-up.
  \<^item> \<open>FifoBroker\<close> (\<open>fifo_broker.py\<close>, \<open>fifo_client.py\<close>): both protocols and the queues; the same delivery
    contract, progress of blocked readers, and the client's round trip.
  \<^item> \<open>Topology\<close>, \<open>Placement\<close>, \<open>Routing\<close>, \<open>DistributedYaml\<close>, \<open>SwarmStack\<close>: the five generators; one channel per
    pair, equal groups per slot, routers that follow the placement, staged inputs, and an address per
    proxy that exactly one service of the stack serves.
  \<^item> \<open>Supervisor\<close> (\<open>simbricks_worker_supervisor.py\<close>): start-up over a world of snapshots; nothing is started
    before its prerequisites, start-up ends, and one error path leaks a process.
  \<^item> \<open>RemoteProcess\<close> (\<open>worker.py\<close>, \<open>process_proxy.py\<close>): the frames of a running child as a step relation; the
    proxy reproduces both streams and the exit status. \<open>WorkerSession\<close> adds what happens before the child
    runs: the preparation of its directory, the copies of shared assets by concurrent requests as a step
    relation, and the connection attempts of the proxy. A finished copy is seen complete by every request,
    a failed one is never repaired, and the child gets the words that the generator wrapped.
  \<^item> \<open>SourcePatch\<close> (\<open>apply_overlay.py\<close>, \<open>patch_*.py\<close>): the rewriting of an upstream checkout on a file tree.
  \<^item> \<open>TimingMetrics\<close>, \<open>SteadyMeasurement\<close>, \<open>SteadyTiming\<close>, \<open>Summaries\<close>, \<open>MetricSchema\<close>, \<open>LatencyProbe\<close> (\<open>src/scripts\<close>): the
    collectors, summaries and probes; counters partition, transfers are conserved, overheads are
    bounded, files are read back as written, and the records of the router satisfy the schema.
  \<^item> \<open>MatrixGenerators\<close>, \<open>MlpMatrices\<close>, \<open>MlpReference\<close>, \<open>UnboundedWorkload\<close> (\<open>src/scripts\<close>): the generators of the
    block-GEMM and MLP deployments and the reference model of the training.
  \<^item> \<open>RemoteMatrix\<close>, \<open>MlpScalability\<close>, \<open>MlpDpRuns\<close>, \<open>SwarmRuns\<close> (\<open>src/scripts\<close>): the runners; what a reported
    success implies, and that the runs end. \<open>FunctionalMatrix\<close> and \<open>SampleArchive\<close> continue two of them:
    the deployment and observation of one placement with its ordered times, and the collection of a
    sample's evidence as one archive.
  \<^item> \<open>Ns3Feedback\<close> (\<open>ns3_phase2_runner.py\<close>, \<open>scripts/validate_ns3_timing_feedback.py\<close>): the wrapper of the
    phase-two simulator and the check that later rounds consumed its results.
  \<^item> \<open>PlatformNode\<close>, \<open>Experiments\<close> (\<open>platform/node.py\<close>, \<open>scripts/run_experiments.py\<close>, \<open>scripts/analyze_results.py\<close>):
    the Docker-node platform, its experiment matrix and the report; every run of the matrix yields one sound
    row, and the reported efficiency is what the harmonic mean of the times gives.
  \<^item> \<open>ToolHelpers\<close> (\<open>generate_placement.py\<close>, \<open>src/scripts\<close>): smaller tools: the command line of the placement generator, the
    CUDA image helpers, and the data that the plots check and draw.

  This theory holds the theorem that joins topology, placement, routing, supervisor and router.

  \<^bold>\<open>Parameters.\<close> The JSON and YAML parsers and printers, the name service, the outputs and exit codes of Docker and SSH
  commands, clock readings, the C++ gateway, the ns-3 programs and the simulators are arguments of the
  definitions. Hypotheses about them (an advancing clock, a parser that reads what the printer wrote)
  are premises of the theorems that need them, and each such theorem has a witness.

  \<^bold>\<open>Bounds and loops.\<close> Loops over data are structural or have a measure. Polling loops are
  \<open>partial_function (option)\<close>: \<open>None\<close> means that the loop does not end, and termination under an advancing
  clock is a theorem. The nested requests of the Docker-node platform take a depth; two is enough, since a
  controller asks CPU simlets and these ask GPU and ns-3 simlets. Python integers are \<open>int\<close>; quotients and
  measured floats are exact rational or real numbers, so rounding of binary floating point is not
  part of the model, while explicit \<open>round\<close> calls are.

  \<^bold>\<open>Not modelled.\<close> Argument parsing beyond the record of its results, socket and process creation, console
  output, and the drawing of the plots are glue around library calls; of the plot scripts, the reading and
  checking of their data is modelled. The C++ and CUDA programs,
  shell drivers, container files and the vendored simulator are not Python code of this program.
\<close>

section \<open>From a remote pipe to its gateway\<close>

lemma generated_gateway_port:
  assumes "generate_routing pm tp argument = Inr f"
  shows "gateway_base_port (rf_routing f) = Some 9500"
  using assms by (auto simp: generate_routing_def bindE_eq_Inr Let_def split: if_splits)

lemma peer_port_once:
  assumes "peer < n" and "peer \<noteq> slot"
  shows "count (mset (map (\<lambda>s. str_int (base + int s)) (filter (\<lambda>s. s \<noteq> slot) [0..<n]))) (str_int (base + int peer)) = 1"
proof -
  let ?ports = "map (\<lambda>s. str_int (base + int s)) (filter (\<lambda>s. s \<noteq> slot) [0..<n])"
  have "distinct ?ports" by (simp add: distinct_map inj_on_def str_int_inj)
  moreover have "str_int (base + int peer) \<in> set ?ports" using assms by auto
  ultimately show ?thesis unfolding distinct_count_atmost_1 by presburger
qed

text \<open>
  C39. A request for a chiplet of another worker finds its gateway. For a generated topology and routing
  table and a worker whose start-up finished with the default gateway base port, the router of this
  worker resolves a write to (or a read from) a chiplet that the placement put on another slot to that
  slot, has a port for it, and exactly one of the gateways that the supervisor started listens on this
  port; so the router forwards the request to this gateway.
\<close>

theorem remote_request_reaches_gateway:
  assumes "Topology.generate_topology n subnet base_port = Inr tp" and "generate_routing pm tp argument = Inr f"
    and "list_all (\<lambda>p. pl_node_slot p < n) (pm_processes pm)"
    and "sa_slot a < n" and "sa_gateway_base_port a = 9500" and "startup w a tp init_sup = Some (t, Inr worker)"
    and "p \<in> set (pm_processes pm)" and "pl_coordinates p = Some c" and "pl_node_slot p \<noteq> sa_slot a"
  shows "\<exists>r port. init_router (int (sa_slot a)) (rf_routing f) = Inr r
    \<and> peer_for r ''W'' (pipe_name other c) = Inr (int (pl_node_slot p)) \<and> peer_for r ''R'' (pipe_name c other) = Inr (int (pl_node_slot p))
    \<and> map_of (r_gateway_ports r) (int (pl_node_slot p)) = Some port
    \<and> count (mset (map last (gateway_starts (su_events t)))) (str_int port) = 1
    \<and> (\<forall>gw rq answer. gw port (normalized_header rq @ rq_payload rq) = Answered (ok_line @ answer) \<longrightarrow>
         forward gw r (int (pl_node_slot p)) rq = Inr ok_line)"
proof -
  let ?peer = "pl_node_slot p"
  obtain r where r: "init_router (int (sa_slot a)) (rf_routing f) = Inr r" and routed: "routed (pm_processes pm) (r_coordinates r)"
    using init_router_generated [OF assms(2), of "int (sa_slot a)"] by blast
  have "map_of (r_coordinates r) (coordinate_key c) = Some (int ?peer)" using routed_lookup [OF routed] assms(7,8) by blast
  then have peers: "peer_for r ''W'' (pipe_name other c) = Inr (int ?peer)" "peer_for r ''R'' (pipe_name c other) = Inr (int ?peer)"
    by (simp_all add: peer_for_pipe_name)
  have port: "map_of (r_gateway_ports r) (int ?peer) = Some (9500 + int ?peer)"
    using init_router_gateway_total [OF r peers(1)] assms(9) generated_gateway_port [OF assms(2)] by simp
  have "mset (map last (gateway_starts (su_events t)))
      = mset (map (\<lambda>peer. str_int (9500 + int peer)) (filter (\<lambda>peer. peer \<noteq> sa_slot a) [0..<n]))"
    using supervisor_gateway_per_peer [OF assms(1,4,6)] assms(5) by simp
  moreover have "?peer < n" using assms(3,7) by (auto simp: list_all_iff)
  ultimately have once: "count (mset (map last (gateway_starts (su_events t)))) (str_int (9500 + int ?peer)) = 1"
    using peer_port_once [OF _ assms(9)] by simp
  have "forward gw r (int ?peer) rq = Inr ok_line"
    if "gw (9500 + int ?peer) (normalized_header rq @ rq_payload rq) = Answered (ok_line @ answer)" for gw rq answer
    using that port readline_line [of "''OK''" answer] by (simp add: forward_def ok_line_def newline_def stream_limit_def)
  with r peers port once show ?thesis by blast
qed

theorem remote_request_reaches_gateway_witness:
  "\<exists>f r t worker. generate_routing two_worker_placement two_worker_topology None = Inr f
     \<and> startup calm_world demo_arguments demo_topology init_sup = Some (t, Inr worker)
     \<and> init_router 0 (rf_routing f) = Inr r \<and> peer_for r ''W'' (pipe_name (0, 0) (5, - 1)) = Inr 1
     \<and> map_of (r_gateway_ports r) 1 = Some 9501
     \<and> count (mset (map last (gateway_starts (su_events t)))) ''9501'' = 1"
proof -
  obtain f where f: "generate_routing two_worker_placement two_worker_topology None = Inr f"
    using two_worker_routing_accepted by blast
  obtain t worker where t: "startup calm_world demo_arguments demo_topology init_sup = Some (t, Inr worker)"
    using demo_startup by blast
  have same: "two_worker_topology = demo_topology" by (simp add: two_worker_topology_def demo_topology_def)
  let ?p = "pm_processes two_worker_placement ! 1"
  have p: "?p \<in> set (pm_processes two_worker_placement)" "pl_coordinates ?p = Some (5, - 1)" "pl_node_slot ?p = 1"
    "list_all (\<lambda>p. pl_node_slot p < 2) (pm_processes two_worker_placement)" by (simp_all add: two_worker_placement_def)
  have a: "sa_slot demo_arguments = 0" "sa_gateway_base_port demo_arguments = 9500" by (simp_all add: demo_arguments_def)
  obtain r port where r: "init_router 0 (rf_routing f) = Inr r" "peer_for r ''W'' (pipe_name (0, 0) (5, - 1)) = Inr 1"
    "map_of (r_gateway_ports r) 1 = Some port" "count (mset (map last (gateway_starts (su_events t)))) (str_int port) = 1"
    using remote_request_reaches_gateway [OF demo_topology_generated f [unfolded same] p(4) _ a(2) t p(1,2), of "(0, 0)"] a(1) p(3) by auto
  have "port = 9501" using init_router_gateway_total [OF r(1,2)] r(3) generated_gateway_port [OF f] by simp
  moreover have "str_int 9501 = ''9501''" by (simp add: text_eval)
  ultimately show ?thesis using f t r by auto
qed

end
